(* ===== verification/Vault_Prelude.thy ===== *)
theory Vault_Prelude
  imports
    "HOL-Library.Word"
    "HOL-Library.Sublist"
    "HOL-Library.Char_ord"
    "HOL-Library.List_Lexorder"
    "HOL-Library.Product_Lexorder"
    "HOL-Library.Multiset"
begin

text \<open>
  Shared vocabulary of the Vault development: the machine types of the Rust sources
  (\<open>u64\<close>, 128-bit UUIDs), saturating arithmetic, byte strings, the result type, and the
  generic facts on sorting, paths and closed vocabularies that the component theories rest on.

  Rust strings are UTF-8 byte sequences and every length, prefix, substring and comparison the
  sources perform on them is bytewise; they are modelled by \<open>string\<close>, a list of 8-bit
  characters, ordered lexicographically as \<open>str::cmp\<close> orders them.
\<close>

named_theorems vault_enum \<open>evaluation of the closed enumerations and their tables\<close>
named_theorems vault_splits \<open>case splits for result-valued operations\<close>

type_synonym u8 = "8 word"
type_synonym u32 = "32 word"
type_synonym u64 = "64 word"
type_synonym uuid = "128 word"

type_synonym ('e, 'a) result = "'e + 'a"

subsection \<open>Results\<close>

text \<open>The \<open>?\<close> operator: an error leaves the function, a value continues.\<close>

fun result_bind :: "('e, 'a) result \<Rightarrow> ('a \<Rightarrow> ('e, 'b) result) \<Rightarrow> ('e, 'b) result" where
  "result_bind (Inl e) k = Inl e"
| "result_bind (Inr x) k = k x"

lemma result_bind_Inr [simp]:
  "result_bind r k = Inr y \<longleftrightarrow> (\<exists>x. r = Inr x \<and> k x = Inr y)"
  by (cases r) auto

lemma result_bind_Inl:
  "result_bind r k = Inl e \<longleftrightarrow> r = Inl e \<or> (\<exists>x. r = Inr x \<and> k x = Inl e)"
  by (cases r) auto

definition is_ok :: "('e, 'a) result \<Rightarrow> bool" where
  "is_ok r = (case r of Inl _ \<Rightarrow> False | Inr _ \<Rightarrow> True)"

lemma is_ok_simps [simp]: "is_ok (Inr x)" "\<not> is_ok (Inl e)"
  by (simp_all add: is_ok_def)

subsection \<open>Saturating arithmetic\<close>

definition saturating_sub :: "'a::len word \<Rightarrow> 'a word \<Rightarrow> 'a word" where
  "saturating_sub a b = (if a < b then 0 else a - b)"

definition saturating_add :: "'a::len word \<Rightarrow> 'a word \<Rightarrow> 'a word" where
  "saturating_add a b = (if a + b < a then - 1 else a + b)"

definition checked_add :: "'a::len word \<Rightarrow> 'a word \<Rightarrow> 'a word option" where
  "checked_add a b = (if a + b < a then None else Some (a + b))"

lemma unat_add_fits:
  fixes a b :: "'a::len word"
  shows "unat a + unat b < 2 ^ LENGTH('a) \<longleftrightarrow> \<not> a + b < a"
  by (simp add: no_olen_add_nat not_less)

lemma unat_add_no_wrap:
  fixes a b :: "'a::len word"
  assumes "\<not> a + b < a"
  shows "unat (a + b) = unat a + unat b"
  using assms by (simp add: unat_plus_if' unat_add_fits)

lemma unat_saturating_sub: "unat (saturating_sub a b) = unat a - unat b"
  by (simp add: saturating_sub_def word_less_nat_alt unat_sub_if' not_less)

lemma unat_max_word: "unat (- 1 :: 'a::len word) = 2 ^ LENGTH('a) - 1"
  by (simp add: unsigned_minus_1_eq_mask mask_eq_exp_minus_1)

lemma unat_saturating_add:
  fixes a b :: "'a::len word"
  shows "unat (saturating_add a b) = min (unat a + unat b) (2 ^ LENGTH('a) - 1)"
proof (cases "a + b < a")
  case True
  then have "\<not> unat a + unat b < 2 ^ LENGTH('a)" by (simp add: unat_add_fits)
  with True show ?thesis by (simp add: saturating_add_def unat_max_word)
next
  case False
  then have "unat a + unat b < 2 ^ LENGTH('a)" by (simp add: unat_add_fits)
  with False show ?thesis by (simp add: saturating_add_def unat_add_no_wrap)
qed

lemma saturating_add_ge1: "a \<le> saturating_add a b"
  by (auto simp: saturating_add_def not_less)

lemma unat_checked_add: "checked_add a b = Some c \<Longrightarrow> unat c = unat a + unat b"
  by (auto simp: checked_add_def unat_add_no_wrap split: if_splits)

text \<open>A saturating sum over a list, as the iterators' \<open>fold(0, saturating_add)\<close> compute it.\<close>

definition saturating_sum :: "'a::len word list \<Rightarrow> 'a word" where
  "saturating_sum xs = fold (\<lambda>x total. saturating_add total x) xs 0"

lemma unat_saturating_fold:
  fixes t :: "'a::len word"
  shows "unat (fold (\<lambda>x total. saturating_add total x) xs t)
       = min (unat t + sum_list (map unat xs)) (2 ^ LENGTH('a) - 1)"
proof (induction xs arbitrary: t)
  case Nil
  have "unat t < 2 ^ LENGTH('a)" by (rule unsigned_less)
  then have "unat t \<le> 2 ^ LENGTH('a) - 1" by linarith
  then show ?case by (simp add: min_absorb1)
next
  case (Cons x xs)
  show ?case
    by (simp only: fold.simps o_apply list.map sum_list.Cons Cons.IH unat_saturating_add
        min_add_distrib_left min.assoc add.assoc)
qed

lemma unat_saturating_sum:
  fixes xs :: "'a::len word list"
  shows "unat (saturating_sum xs) = min (sum_list (map unat xs)) (2 ^ LENGTH('a) - 1)"
  by (simp add: saturating_sum_def unat_saturating_fold)

subsection \<open>Strings\<close>

definition starts_with :: "string \<Rightarrow> string \<Rightarrow> bool" where
  "starts_with s p = prefix p s"

definition contains :: "string \<Rightarrow> string \<Rightarrow> bool" where
  "contains s needle = sublist needle s"

definition strip_prefix :: "string \<Rightarrow> string \<Rightarrow> string option" where
  "strip_prefix p s = (if prefix p s then Some (drop (length p) s) else None)"

text \<open>\<open>str::split_once\<close>: the text before and after the first occurrence of the needle.\<close>

fun split_once :: "string \<Rightarrow> string \<Rightarrow> (string \<times> string) option" where
  "split_once needle [] = (if needle = [] then Some ([], []) else None)"
| "split_once needle (c # s) =
     (if prefix needle (c # s) then Some ([], drop (length needle) (c # s))
      else map_option (\<lambda>(before, rest). (c # before, rest)) (split_once needle s))"

lemma strip_prefix_append [simp]: "strip_prefix p (p @ s) = Some s"
  by (simp add: strip_prefix_def)

lemma strip_prefix_Some [simp]: "strip_prefix p s = Some r \<longleftrightarrow> s = p @ r"
  by (auto simp: strip_prefix_def prefix_def)

lemma split_once_sound: "split_once needle s = Some (a, b) \<Longrightarrow> s = a @ needle @ b"
  by (induction needle s arbitrary: a rule: split_once.induct)
    (auto simp: prefix_def split: if_splits)

lemma split_once_first:
  assumes "c \<notin> set a"
  shows "split_once (c # needle) (a @ c # needle @ b) = Some (a, b)"
  using assms by (induction a) auto

definition is_ascii_digit :: "char \<Rightarrow> bool" where
  "is_ascii_digit c = (CHR ''0'' \<le> c \<and> c \<le> CHR ''9'')"

definition is_lowercase_hex :: "char \<Rightarrow> bool" where
  "is_lowercase_hex c = (is_ascii_digit c \<or> CHR ''a'' \<le> c \<and> c \<le> CHR ''f'')"

text \<open>Decimal rendering of an unsigned number, as \<open>to_string\<close> and \<open>format!\<close> print it.\<close>

fun decimal :: "nat \<Rightarrow> string" where
  "decimal n = (if n < 10 then [char_of (48 + n)]
                else decimal (n div 10) @ [char_of (48 + n mod 10)])"

declare decimal.simps [simp del]

definition decimal_value :: "string \<Rightarrow> nat" where
  "decimal_value s = fold (\<lambda>c v. 10 * v + (of_char c - 48)) s 0"

lemma decimal_value_decimal [simp]: "decimal_value (decimal n) = n"
proof (induction n rule: decimal.induct)
  case (1 n)
  show ?case
  proof (cases "n < 10")
    case True
    then show ?thesis by (simp add: decimal.simps [of n] decimal_value_def)
  next
    case False
    with "1.IH" have "fold (\<lambda>c v. 10 * v + (of_char c - 48)) (decimal (n div 10)) 0 = n div 10"
      by (simp add: decimal_value_def)
    with False show ?thesis by (simp add: decimal.simps [of n] decimal_value_def)
  qed
qed

lemma decimal_inject [simp]: "decimal m = decimal n \<longleftrightarrow> m = n"
  by (metis decimal_value_decimal)

lemma decimal_not_Nil [simp]: "decimal n \<noteq> []"
  by (simp add: decimal.simps [of n])

lemma decimal_digits: "c \<in> set (decimal n) \<Longrightarrow> 48 \<le> (of_char c :: nat) \<and> (of_char c :: nat) < 58"
proof (induction n rule: decimal.induct)
  case (1 n)
  then show ?case by (cases "n < 10") (auto simp: decimal.simps [of n])
qed

subsection \<open>Closed vocabularies\<close>

text \<open>
  Every closed enumeration of the sources carries a stable persisted name and an \<open>ALL\<close> table.
  The contract of the name is injectivity; the contract of the table is that it lists every
  variant once. A reader that scans the table for a persisted name then recovers the variant.
\<close>

locale stable_names =
  fixes name :: "'a \<Rightarrow> string"
  assumes name_inject: "name x = name y \<Longrightarrow> x = y"
begin

lemma name_eq_iff: "name x = name y \<longleftrightarrow> x = y"
  using name_inject by blast

end

locale closed_vocabulary = stable_names name for name :: "'a \<Rightarrow> string" +
  fixes variants :: "'a list"
  assumes variants_complete: "x \<in> set variants"
    and variants_distinct: "distinct variants"
begin

lemma scan_recovers: "find (\<lambda>y. name y = name x) variants = Some x"
proof -
  from variants_complete [of x] have "find (\<lambda>y. name y = name x) variants \<noteq> None"
    by (auto simp: find_None_iff)
  then obtain y where y: "find (\<lambda>y. name y = name x) variants = Some y" by blast
  then have "name y = name x" by (auto simp: find_Some_iff)
  with y name_inject show ?thesis by blast
qed

lemma scan_sound: "find (\<lambda>y. name y = s) variants = Some x \<Longrightarrow> name x = s"
  by (auto simp: find_Some_iff)

lemma variant_count: "length variants = card (UNIV :: 'a set)"
proof -
  have "set variants = UNIV" using variants_complete by blast
  with variants_distinct show ?thesis by (metis distinct_card)
qed

lemma names_distinct: "distinct (map name variants)"
  using variants_distinct by (auto simp: distinct_map inj_on_def dest: name_inject)

end

subsection \<open>Gated state machines\<close>

text \<open>
  A status machine guards a region when the region can be entered from outside through one
  gate status only. Every path of legal moves that ends inside the region and starts outside it
  then stands at the gate immediately before it enters.
\<close>

locale gated_machine =
  fixes legal :: "'s \<Rightarrow> 's \<Rightarrow> bool" and gate :: 's and region :: "'s set"
  assumes enter: "legal s t \<Longrightarrow> t \<in> region \<Longrightarrow> s \<notin> region \<Longrightarrow> s = gate"
begin

lemma path_through_gate:
  assumes "successively legal xs" and "xs \<noteq> []" and "hd xs \<notin> region" and "last xs \<in> region"
  shows "\<exists>ys r zs. xs = ys @ gate # r # zs \<and> r \<in> region"
  using assms
proof (induction xs)
  case Nil
  then show ?case by simp
next
  case (Cons x xs)
  from Cons.prems obtain y ys where xs: "xs = y # ys" by (cases xs) auto
  show ?case
  proof (cases "y \<in> region")
    case True
    with Cons.prems xs have "x = gate" by (auto intro: enter)
    with True xs have "x # xs = [] @ gate # y # ys" by simp
    with True show ?thesis by blast
  next
    case False
    with Cons xs obtain ys' r zs where "xs = ys' @ gate # r # zs" "r \<in> region" by auto
    then have "x # xs = (x # ys') @ gate # r # zs" by simp
    with \<open>r \<in> region\<close> show ?thesis by blast
  qed
qed

end

subsection \<open>Stable sorting by a comparison\<close>

text \<open>
  \<open>sort_by\<close> on slices: a stable sort that takes its order from a comparison closure. An element
  is inserted before the first element it does not have to follow, so equal elements keep their
  original order.
\<close>

fun insert_by :: "('a \<Rightarrow> 'a \<Rightarrow> bool) \<Rightarrow> 'a \<Rightarrow> 'a list \<Rightarrow> 'a list" where
  "insert_by le x [] = [x]"
| "insert_by le x (y # ys) = (if le x y then x # y # ys else y # insert_by le x ys)"

definition sort_by :: "('a \<Rightarrow> 'a \<Rightarrow> bool) \<Rightarrow> 'a list \<Rightarrow> 'a list" where
  "sort_by le xs = foldr (insert_by le) xs []"

lemma mset_insert_by [simp]: "mset (insert_by le x xs) = add_mset x (mset xs)"
  by (induction xs) auto

lemma mset_sort_by [simp]: "mset (sort_by le xs) = mset xs"
  by (induction xs) (simp_all add: sort_by_def)

lemma set_sort_by [simp]: "set (sort_by le xs) = set xs"
  by (metis mset_sort_by set_mset_mset)

lemma distinct_sort_by [simp]: "distinct (sort_by le xs) = distinct xs"
  by (metis mset_sort_by mset_eq_imp_distinct_iff)

lemma set_insert_by [simp]: "set (insert_by le x xs) = insert x (set xs)"
  by (metis mset_insert_by set_mset_add_mset_insert set_mset_mset)

lemma sorted_insert_by:
  assumes "\<And>x y. le x y \<or> le y x" and "\<And>x y z. le x y \<Longrightarrow> le y z \<Longrightarrow> le x z"
    and "sorted_wrt le xs"
  shows "sorted_wrt le (insert_by le x xs)"
  using assms(3) by (induction xs) (use assms(1,2) in auto)

lemma sorted_sort_by:
  assumes "\<And>x y. le x y \<or> le y x" and "\<And>x y z. le x y \<Longrightarrow> le y z \<Longrightarrow> le x z"
  shows "sorted_wrt le (sort_by le xs)"
  by (induction xs) (simp_all add: sort_by_def sorted_insert_by assms)

text \<open>
  The first \<open>n\<close> elements of a sorted list without repetitions are those with fewer than \<open>n\<close>
  elements before them in the order.
\<close>

lemma mem_take_distinct_iff:
  assumes "distinct ys" and "i < length ys"
  shows "ys ! i \<in> set (take n ys) \<longleftrightarrow> i < n"
proof
  assume "ys ! i \<in> set (take n ys)"
  then obtain j where "j < n" "j < length ys" "ys ! j = ys ! i"
    by (auto simp: in_set_conv_nth)
  with assms show "i < n" by (simp add: nth_eq_iff_index_eq)
next
  assume "i < n"
  with assms(2) show "ys ! i \<in> set (take n ys)"
    by (auto simp: in_set_conv_nth intro!: exI [of _ i])
qed

lemma sorted_prefix_rank:
  assumes "sorted_wrt le ys" and "distinct ys"
    and antisym: "\<And>x y. x \<in> set ys \<Longrightarrow> y \<in> set ys \<Longrightarrow> le x y \<Longrightarrow> le y x \<Longrightarrow> x = y"
    and "y \<in> set ys"
  shows "y \<in> set (take n ys) \<longleftrightarrow> card {z \<in> set ys. z \<noteq> y \<and> le z y} < n"
proof -
  from assms(4) obtain i where i: "i < length ys" "y = ys ! i"
    by (auto simp: in_set_conv_nth)
  have before: "{z \<in> set ys. z \<noteq> y \<and> le z y} = set (take i ys)"
  proof (intro equalityI subsetI)
    fix z assume z: "z \<in> {z \<in> set ys. z \<noteq> y \<and> le z y}"
    then obtain j where j: "j < length ys" "z = ys ! j" by (auto simp: in_set_conv_nth)
    have "j < i"
    proof (rule ccontr)
      assume "\<not> j < i"
      with i z j have "i < j" by (metis (mono_tags, lifting) mem_Collect_eq linorder_neqE_nat)
      with assms(1) i j have "le y z" by (simp add: sorted_wrt_iff_nth_less)
      with z i j antisym show False by auto
    qed
    with j i show "z \<in> set (take i ys)" by (auto simp: in_set_conv_nth)
  next
    fix z assume "z \<in> set (take i ys)"
    then obtain j where "j < i" "z = ys ! j" by (auto simp: in_set_conv_nth)
    with assms(1,2) i show "z \<in> {z \<in> set ys. z \<noteq> y \<and> le z y}"
      by (auto simp: sorted_wrt_iff_nth_less nth_eq_iff_index_eq)
  qed
  have "card (set (take i ys)) = i"
    using assms(2) i by (simp add: distinct_card)
  with before i mem_take_distinct_iff [OF assms(2) i(1)] show ?thesis by simp
qed

subsection \<open>At-least-once consumption\<close>

text \<open>
  A message stream consumed one transaction at a time: each message comes with the clock of its
  consumption, and a refused message leaves the state as it was.
\<close>

fun deliver_all :: "('c \<Rightarrow> 'm \<Rightarrow> 's \<Rightarrow> ('e, 's) result) \<Rightarrow> ('c \<times> 'm) list \<Rightarrow> 's \<Rightarrow> 's" where
  "deliver_all consume [] s = s"
| "deliver_all consume ((now, m) # ms) s =
     deliver_all consume ms (case consume now m s of Inl _ \<Rightarrow> s | Inr s' \<Rightarrow> s')"

lemma deliver_all_append: "deliver_all consume (ms @ ns) s = deliver_all consume ns (deliver_all consume ms s)"
  by (induction consume ms s rule: deliver_all.induct) simp_all

text \<open>
  The contract of a deduplicating consumer: a key seen before is refused, an accepted message claims
  its key and no other, and whether an unseen message is acceptable does not depend on the state or
  the clock. Under it a redelivery, wherever it arrives, changes nothing.
\<close>

locale idempotent_consumer =
  fixes consume :: "'c \<Rightarrow> 'm \<Rightarrow> 's \<Rightarrow> ('e, 's) result"
    and key :: "'m \<Rightarrow> 'k"
    and seen :: "'s \<Rightarrow> 'k set"
  assumes refuse_seen: "key m \<in> seen s \<Longrightarrow> \<not> is_ok (consume now m s)"
    and claims_key: "consume now m s = Inr s' \<Longrightarrow> seen s' = insert (key m) (seen s)"
    and verdict_static: "key m \<notin> seen s \<Longrightarrow> \<not> is_ok (consume now m s) \<Longrightarrow> \<not> is_ok (consume now' m s')"
begin

lemma refused_unchanged:
  "\<not> is_ok (consume now m s) \<Longrightarrow> (case consume now m s of Inl _ \<Rightarrow> s | Inr s' \<Rightarrow> s') = s"
  by (cases "consume now m s") simp_all

lemma seen_grows: "seen s \<subseteq> seen (deliver_all consume ms s)"
proof (induction ms arbitrary: s)
  case (Cons entry ms)
  obtain now m where "entry = (now, m)" by (cases entry)
  then show ?case
    using Cons.IH claims_key [of now m s] by (cases "consume now m s") fastforce+
qed simp

lemma settled:
  assumes "(now, m) \<in> set ms"
  shows "key m \<in> seen (deliver_all consume ms s) \<or> (\<forall>now' s'. \<not> is_ok (consume now' m s'))"
  using assms
proof (induction ms arbitrary: s)
  case (Cons entry ms)
  obtain now1 m1 where entry: "entry = (now1, m1)" by (cases entry)
  show ?case
  proof (cases "(now, m) \<in> set ms")
    case False
    with Cons.prems entry have m1: "m1 = m" by simp
    show ?thesis
    proof (cases "consume now1 m s")
      case (Inl e)
      then have "\<not> is_ok (consume now1 m s)" by simp
      then have "key m \<in> seen s \<or> (\<forall>now' s'. \<not> is_ok (consume now' m s'))"
        using verdict_static by blast
      then show ?thesis using seen_grows [of s ms] Inl entry m1 by auto
    next
      case (Inr s')
      then have "key m \<in> seen s'" by (simp add: claims_key)
      then show ?thesis using seen_grows [of s' ms] Inr entry m1 by auto
    qed
  qed (use Cons.IH entry in auto)
qed simp

lemma redelivery_noop:
  assumes "m \<in> snd ` set before"
  shows "deliver_all consume (before @ (now, m) # after) s = deliver_all consume (before @ after) s"
proof -
  from assms obtain now0 where "(now0, m) \<in> set before" by force
  then have "\<not> is_ok (consume now m (deliver_all consume before s))"
    using settled [of now0 m before s] refuse_seen by blast
  then show ?thesis
    by (simp add: deliver_all_append refused_unchanged)
qed

end

end
