(* ===== verification/Target_State.thy ===== *)
theory Target_State
  imports Vault_Prelude
begin

text \<open>
  The closed vocabulary of durable target statuses and their transition table
  (\<open>crates/core/src/target_state.rs\<close>), and the pair set of the database guard that mirrors it
  (\<open>schema.sql\<close>, \<open>target_guard_status_transition\<close>). The lemmas show that the two
  enforcement points agree on every ordered pair, that the persisted names identify the status,
  and which regions of the machine are gated.
\<close>

subsection \<open>Statuses and their persisted names\<close>

datatype TargetStatus =
    Requested | Cloning | Ready | Fetching | Snapshotting | Verifying
  | Healthy | Degraded | Paused | Excluded | Deleting | Deleted

definition TargetStatus_ALL :: "TargetStatus list" where
  "TargetStatus_ALL =
     [Requested, Cloning, Ready, Fetching, Snapshotting, Verifying,
      Healthy, Degraded, Paused, Excluded, Deleting, Deleted]"

fun TargetStatus_as_str :: "TargetStatus \<Rightarrow> string" where
  "TargetStatus_as_str Requested = ''requested''"
| "TargetStatus_as_str Cloning = ''cloning''"
| "TargetStatus_as_str Ready = ''ready''"
| "TargetStatus_as_str Fetching = ''fetching''"
| "TargetStatus_as_str Snapshotting = ''snapshotting''"
| "TargetStatus_as_str Verifying = ''verifying''"
| "TargetStatus_as_str Healthy = ''healthy''"
| "TargetStatus_as_str Degraded = ''degraded''"
| "TargetStatus_as_str Paused = ''paused''"
| "TargetStatus_as_str Excluded = ''excluded''"
| "TargetStatus_as_str Deleting = ''deleting''"
| "TargetStatus_as_str Deleted = ''deleted''"

subsection \<open>The transition table\<close>

definition TRANSITIONS :: "(TargetStatus \<times> TargetStatus) list" where
  "TRANSITIONS =
     [(Requested, Cloning), (Requested, Excluded),
      (Cloning, Ready), (Cloning, Degraded), (Cloning, Excluded),
      (Ready, Fetching), (Ready, Degraded), (Ready, Paused), (Ready, Excluded),
      (Fetching, Snapshotting), (Fetching, Ready), (Fetching, Degraded), (Fetching, Paused),
      (Fetching, Excluded),
      (Snapshotting, Verifying), (Snapshotting, Degraded),
      (Verifying, Healthy), (Verifying, Degraded),
      (Healthy, Fetching), (Healthy, Degraded), (Healthy, Paused), (Healthy, Excluded),
      (Degraded, Fetching), (Degraded, Cloning), (Degraded, Paused), (Degraded, Excluded),
      (Paused, Ready), (Paused, Excluded),
      (Excluded, Requested), (Excluded, Deleting),
      (Deleting, Deleted)]"

definition is_legal :: "TargetStatus \<Rightarrow> TargetStatus \<Rightarrow> bool" where
  "is_legal from to =
     list_ex (\<lambda>(allowed_from, allowed_to). allowed_from = from \<and> allowed_to = to) TRANSITIONS"

text \<open>The \<open>legal(from_status, to_status)\<close> values of the database trigger, on persisted names.\<close>

definition guard_legal_pairs :: "(string \<times> string) list" where
  "guard_legal_pairs =
     [(''requested'', ''cloning''), (''requested'', ''excluded''),
      (''cloning'', ''ready''), (''cloning'', ''degraded''), (''cloning'', ''excluded''),
      (''ready'', ''fetching''), (''ready'', ''degraded''), (''ready'', ''paused''),
      (''ready'', ''excluded''),
      (''fetching'', ''snapshotting''), (''fetching'', ''ready''), (''fetching'', ''degraded''),
      (''fetching'', ''paused''), (''fetching'', ''excluded''),
      (''snapshotting'', ''verifying''), (''snapshotting'', ''degraded''),
      (''verifying'', ''healthy''), (''verifying'', ''degraded''),
      (''healthy'', ''fetching''), (''healthy'', ''degraded''), (''healthy'', ''paused''),
      (''healthy'', ''excluded''),
      (''degraded'', ''fetching''), (''degraded'', ''cloning''), (''degraded'', ''paused''),
      (''degraded'', ''excluded''),
      (''paused'', ''ready''), (''paused'', ''excluded''),
      (''excluded'', ''requested''), (''excluded'', ''deleting''),
      (''deleting'', ''deleted'')]"

text \<open>\<open>target_status_rank\<close> of the schema: null (\<open>None\<close>) outside the vocabulary.\<close>

definition target_status_rank :: "string \<Rightarrow> nat option" where
  "target_status_rank status =
     (if status = ''requested'' then Some 0
      else if status = ''cloning'' then Some 1
      else if status = ''ready'' then Some 2
      else if status = ''fetching'' then Some 3
      else if status = ''snapshotting'' then Some 4
      else if status = ''verifying'' then Some 5
      else if status = ''healthy'' then Some 6
      else if status = ''degraded'' then Some 7
      else if status = ''paused'' then Some 8
      else if status = ''excluded'' then Some 9
      else if status = ''deleting'' then Some 10
      else if status = ''deleted'' then Some 11
      else None)"

subsection \<open>Vocabulary\<close>

interpretation target_status: closed_vocabulary TargetStatus_as_str TargetStatus_ALL
proof unfold_locales
  fix x y assume "TargetStatus_as_str x = TargetStatus_as_str y"
  then show "x = y" by (cases x; cases y) simp_all
next
  fix x show "x \<in> set TargetStatus_ALL" by (cases x) (simp_all add: TargetStatus_ALL_def)
next
  show "distinct TargetStatus_ALL" by (simp add: TargetStatus_ALL_def)
qed

text \<open>The successors of each status, evaluated once from the table.\<close>

lemma is_legal_simps [simp, vault_enum]:
  "is_legal Requested t \<longleftrightarrow> t \<in> {Cloning, Excluded}"
  "is_legal Cloning t \<longleftrightarrow> t \<in> {Ready, Degraded, Excluded}"
  "is_legal Ready t \<longleftrightarrow> t \<in> {Fetching, Degraded, Paused, Excluded}"
  "is_legal Fetching t \<longleftrightarrow> t \<in> {Snapshotting, Ready, Degraded, Paused, Excluded}"
  "is_legal Snapshotting t \<longleftrightarrow> t \<in> {Verifying, Degraded}"
  "is_legal Verifying t \<longleftrightarrow> t \<in> {Healthy, Degraded}"
  "is_legal Healthy t \<longleftrightarrow> t \<in> {Fetching, Degraded, Paused, Excluded}"
  "is_legal Degraded t \<longleftrightarrow> t \<in> {Fetching, Cloning, Paused, Excluded}"
  "is_legal Paused t \<longleftrightarrow> t \<in> {Ready, Excluded}"
  "is_legal Excluded t \<longleftrightarrow> t \<in> {Requested, Deleting}"
  "is_legal Deleting t \<longleftrightarrow> t = Deleted"
  "is_legal Deleted t \<longleftrightarrow> False"
  by (auto simp: is_legal_def TRANSITIONS_def)

lemma is_legal_iff_mem: "is_legal a b \<longleftrightarrow> (a, b) \<in> set TRANSITIONS"
  by (auto simp: is_legal_def list_ex_iff)

lemma is_legal_irreflexive: "\<not> is_legal s s"
  by (cases s) simp_all

subsection \<open>Gated regions\<close>

interpretation deletion_region: gated_machine is_legal Excluded "{Deleting, Deleted}"
proof unfold_locales
  fix s t assume "is_legal s t" "t \<in> {Deleting, Deleted}" "s \<notin> {Deleting, Deleted}"
  then show "s = Excluded" by (cases s) auto
qed

interpretation healthy_region: gated_machine is_legal Verifying "{Healthy}"
proof unfold_locales
  fix s t assume "is_legal s t" "t \<in> {Healthy}" "s \<notin> {Healthy}"
  then show "s = Verifying" by (cases s) auto
qed

interpretation verifying_region: gated_machine is_legal Snapshotting "{Verifying}"
proof unfold_locales
  fix s t assume "is_legal s t" "t \<in> {Verifying}" "s \<notin> {Verifying}"
  then show "s = Snapshotting" by (cases s) auto
qed

lemma legal_path_prefix: "successively is_legal (ys @ zs) \<Longrightarrow> successively is_legal ys"
  by (simp add: successively_append_iff)

lemma legal_path_pair: "successively is_legal (ys @ a # b # zs) \<Longrightarrow> is_legal a b"
  by (simp add: successively_append_iff)

lemma into_Snapshotting: "is_legal s Snapshotting \<longleftrightarrow> s = Fetching"
  by (cases s) simp_all

lemma into_Verifying: "is_legal s Verifying \<longleftrightarrow> s = Snapshotting"
  by (cases s) simp_all

lemma into_Healthy: "is_legal s Healthy \<longleftrightarrow> s = Verifying"
  by (cases s) simp_all

text \<open>A status that is not the first of a legal path has its predecessor on the path.\<close>

lemma legal_path_predecessor:
  assumes "successively is_legal (x # ys @ b # zs)"
  shows "\<exists>us a. x # ys = us @ [a] \<and> is_legal a b"
  by (rule exI [of _ "butlast (x # ys)"], rule exI [of _ "last (x # ys)"])
     (use assms in \<open>auto simp: successively_append_iff successively_Cons split: if_splits\<close>)

lemma guard_legal_pairs_eq:
  "guard_legal_pairs = map (\<lambda>(a, b). (TargetStatus_as_str a, TargetStatus_as_str b)) TRANSITIONS"
  by (simp add: guard_legal_pairs_def TRANSITIONS_def)

lemma guard_pair_iff:
  "(TargetStatus_as_str a, TargetStatus_as_str b) \<in> set guard_legal_pairs \<longleftrightarrow> is_legal a b"
  by (auto simp: guard_legal_pairs_eq is_legal_iff_mem target_status.name_eq_iff split: prod.splits)

subsection \<open>Properties of the machine\<close>

text \<open>
  C1. The database guard and the Rust transition table accept exactly the same moves: the pairs of
  persisted names in the trigger are the images of the legal pairs of statuses, no more and no less.
\<close>

theorem guard_agrees_with_table:
  "set guard_legal_pairs =
     {(TargetStatus_as_str a, TargetStatus_as_str b) | a b. is_legal a b}"
  unfolding guard_legal_pairs_eq by (force simp: is_legal_iff_mem)

text \<open>
  No target is deleted out of active service: on every path of legal moves that starts outside
  the deletion workflow and ends in \<open>Deleted\<close>, the target stands in \<open>Excluded\<close> and moves
  from there into \<open>Deleting\<close>.
\<close>

theorem deletion_passes_exclusion:
  assumes "successively is_legal path" and "path \<noteq> []"
    and "hd path \<notin> {Deleting, Deleted}" and "last path = Deleted"
  shows "\<exists>before after. path = before @ Excluded # Deleting # after"
proof -
  from assms obtain ys r zs where p: "path = ys @ Excluded # r # zs" "r \<in> {Deleting, Deleted}"
    using deletion_region.path_through_gate [of path] by auto
  have "is_legal Excluded r"
    by (rule legal_path_pair [OF assms(1) [unfolded p(1)]])
  with p(2) have "r = Deleting" by auto
  with p(1) show ?thesis by blast
qed

theorem deletion_passes_exclusion_witness:
  "\<exists>before after.
     [Requested, Cloning, Ready, Excluded, Deleting, Deleted] = before @ Excluded # Deleting # after"
  by (rule deletion_passes_exclusion) simp_all

text \<open>
  A target is reported healthy only at the end of a full refresh: on every legal path from a
  status other than \<open>Snapshotting\<close>, \<open>Verifying\<close> and \<open>Healthy\<close> to \<open>Healthy\<close>, the target
  was fetched, snapshotted and verified immediately before.
\<close>

theorem healthy_only_after_verified_snapshot:
  assumes path: "successively is_legal path" "path \<noteq> []"
    and first: "hd path \<notin> {Snapshotting, Verifying, Healthy}" and "last path = Healthy"
  shows "\<exists>before after. path = before @ [Fetching, Snapshotting, Verifying, Healthy] @ after"
proof -
  from assms obtain ys zs where p: "path = ys @ Verifying # Healthy # zs"
    using healthy_region.path_through_gate [of path] by auto
  with first obtain x ys' where ys: "ys = x # ys'" by (cases ys) auto
  from path(1) p ys obtain us a where us: "x # ys' = us @ [a]" "is_legal a Verifying"
    using legal_path_predecessor [of x ys' Verifying "Healthy # zs"] by auto
  then have a: "a = Snapshotting" by (simp add: into_Verifying)
  with us p ys have p2: "path = us @ Snapshotting # Verifying # Healthy # zs" by simp
  with first obtain u us' where us': "us = u # us'" by (cases us) auto
  from path(1) p2 us' obtain vs b where "u # us' = vs @ [b]" "is_legal b Snapshotting"
    using legal_path_predecessor [of u us' Snapshotting "Verifying # Healthy # zs"] by auto
  then have "path = vs @ [Fetching, Snapshotting, Verifying, Healthy] @ zs"
    using p2 us' by (simp add: into_Snapshotting)
  then show ?thesis by blast
qed

theorem healthy_only_after_verified_snapshot_witness:
  "\<exists>before after.
     [Requested, Cloning, Ready, Fetching, Snapshotting, Verifying, Healthy]
       = before @ [Fetching, Snapshotting, Verifying, Healthy] @ after"
  by (rule healthy_only_after_verified_snapshot) simp_all

text \<open>Reachability along legal moves, rule by rule.\<close>

inductive reaches :: "TargetStatus \<Rightarrow> TargetStatus \<Rightarrow> bool" where
  here: "reaches s s"
| move: "is_legal s t \<Longrightarrow> reaches t u \<Longrightarrow> reaches s u"

inductive_cases reaches_from_Deleted: "reaches Deleted s"

lemma reaches_trans: "reaches s t \<Longrightarrow> reaches t u \<Longrightarrow> reaches s u"
  by (induction rule: reaches.induct) (auto intro: reaches.intros)

lemma Ready_reaches_Healthy: "reaches Ready Healthy"
  by (rule move [of _ Fetching], simp, rule move [of _ Snapshotting], simp,
      rule move [of _ Verifying], simp, rule move [of _ Healthy], simp, rule here)

lemma Cloning_reaches_Ready: "reaches Cloning Ready"
  by (rule move [of _ Ready], simp, rule here)

lemma active_reaches_Ready:
  assumes "s \<notin> {Deleting, Deleted}"
  shows "reaches s Ready"
proof -
  have "reaches Requested Ready"
    by (rule move [of _ Cloning], simp, rule Cloning_reaches_Ready)
  moreover have "reaches Fetching Ready" "reaches Paused Ready"
    by (rule move [of _ Ready], simp, rule here)+
  moreover have "reaches Degraded Ready"
    by (rule move [of _ Cloning], simp, rule Cloning_reaches_Ready)
  ultimately show ?thesis
    using assms Cloning_reaches_Ready
    by (cases s) (auto intro: reaches.here reaches.move [where t = Degraded]
        reaches.move [where t = Fetching] reaches.move [where t = Requested])
qed

lemma deletion_never_left: "reaches s t \<Longrightarrow> s \<in> {Deleting, Deleted} \<Longrightarrow> t \<in> {Deleting, Deleted}"
  by (induction rule: reaches.induct) auto

text \<open>
  The machine never traps a target before deletion: a status can still lead to \<open>Healthy\<close> if
  and only if the deletion workflow does not own the target.
\<close>

theorem recoverable_iff_not_deleting:
  "reaches s Healthy \<longleftrightarrow> s \<noteq> Deleting \<and> s \<noteq> Deleted"
proof
  assume "reaches s Healthy"
  then show "s \<noteq> Deleting \<and> s \<noteq> Deleted" using deletion_never_left by blast
next
  assume "s \<noteq> Deleting \<and> s \<noteq> Deleted"
  then show "reaches s Healthy"
    using active_reaches_Ready Ready_reaches_Healthy reaches_trans by blast
qed

text \<open>
  The persisted name identifies the status: scanning the vocabulary for the name a status is
  persisted under recovers that status, and its rank in the schema is its position there.
\<close>

theorem status_name_round_trip:
  "find (\<lambda>t. TargetStatus_as_str t = TargetStatus_as_str s) TargetStatus_ALL = Some s
   \<and> map_option ((!) TargetStatus_ALL) (target_status_rank (TargetStatus_as_str s)) = Some s"
proof
  show "find (\<lambda>t. TargetStatus_as_str t = TargetStatus_as_str s) TargetStatus_ALL = Some s"
    by (rule target_status.scan_recovers)
  show "map_option ((!) TargetStatus_ALL) (target_status_rank (TargetStatus_as_str s)) = Some s"
    by (cases s) (simp_all add: target_status_rank_def TargetStatus_ALL_def)
qed

end
