(* ===== verification/Error_Taxonomy.thy ===== *)
theory Error_Taxonomy
  imports Vault_Prelude
begin

text \<open>
  The error taxonomy (\<open>crates/core/src/error.rs\<close>), the outcome vocabulary of one mirror
  operation (\<open>crates/core/src/mirror.rs\<close>) and the collector inventory
  (\<open>crates/core/src/collectors.rs\<close>). The lemmas show that codes identify their class, how a
  mirror outcome is classified, and which class the documented inventory leaves out.
\<close>

subsection \<open>Subsystems\<close>

datatype Subsystem = Config | Telemetry | Http | Persistence

definition Subsystem_ALL :: "Subsystem list" where
  "Subsystem_ALL = [Config, Telemetry, Http, Persistence]"

fun Subsystem_as_str :: "Subsystem \<Rightarrow> string" where
  "Subsystem_as_str Config = ''config''"
| "Subsystem_as_str Telemetry = ''telemetry''"
| "Subsystem_as_str Http = ''http''"
| "Subsystem_as_str Persistence = ''persistence''"

interpretation subsystem: closed_vocabulary Subsystem_as_str Subsystem_ALL
proof unfold_locales
  fix x y assume "Subsystem_as_str x = Subsystem_as_str y"
  then show "x = y" by (cases x; cases y) simp_all
next
  fix x show "x \<in> set Subsystem_ALL" by (cases x) (simp_all add: Subsystem_ALL_def)
qed (simp add: Subsystem_ALL_def)

subsection \<open>Failure classes\<close>

datatype FailureGroup = Transient | ActionRequired | Integrity

definition retryable :: "FailureGroup \<Rightarrow> bool" where
  "retryable g = (case g of Transient \<Rightarrow> True | _ \<Rightarrow> False)"

datatype FailureClass =
    RemoteUnavailable | RateLimited | DependencyUnavailable | Interrupted
  | AuthRequired | RepositoryUnavailable | QuotaExceeded | UnsupportedSource
  | MirrorCorruption | ArtifactVerificationFailed | ManifestMismatch | LfsIncomplete
  | OffsiteMismatch | RestoreDrillFailed | UnsafePath

definition FailureClass_ALL :: "FailureClass list" where
  "FailureClass_ALL =
     [RemoteUnavailable, RateLimited, DependencyUnavailable, Interrupted,
      AuthRequired, RepositoryUnavailable, QuotaExceeded, UnsupportedSource,
      MirrorCorruption, ArtifactVerificationFailed, ManifestMismatch, LfsIncomplete,
      OffsiteMismatch, RestoreDrillFailed]"

fun FailureClass_code :: "FailureClass \<Rightarrow> string" where
  "FailureClass_code RemoteUnavailable = ''vault.remote.unavailable''"
| "FailureClass_code RateLimited = ''vault.remote.rate_limited''"
| "FailureClass_code DependencyUnavailable = ''vault.dependency.unavailable''"
| "FailureClass_code Interrupted = ''vault.operation.interrupted''"
| "FailureClass_code AuthRequired = ''vault.auth.required''"
| "FailureClass_code RepositoryUnavailable = ''vault.repository.unavailable''"
| "FailureClass_code QuotaExceeded = ''vault.storage.quota_exceeded''"
| "FailureClass_code UnsupportedSource = ''vault.source.unsupported''"
| "FailureClass_code MirrorCorruption = ''vault.mirror.corrupt''"
| "FailureClass_code ArtifactVerificationFailed = ''vault.artifact.verification_failed''"
| "FailureClass_code ManifestMismatch = ''vault.manifest.mismatch''"
| "FailureClass_code LfsIncomplete = ''vault.lfs.incomplete''"
| "FailureClass_code OffsiteMismatch = ''vault.offsite.mismatch''"
| "FailureClass_code RestoreDrillFailed = ''vault.restore.drill_failed''"
| "FailureClass_code UnsafePath = ''vault.path.unsafe''"

fun FailureClass_group :: "FailureClass \<Rightarrow> FailureGroup" where
  "FailureClass_group RemoteUnavailable = Transient"
| "FailureClass_group RateLimited = Transient"
| "FailureClass_group DependencyUnavailable = Transient"
| "FailureClass_group Interrupted = Transient"
| "FailureClass_group AuthRequired = ActionRequired"
| "FailureClass_group RepositoryUnavailable = ActionRequired"
| "FailureClass_group QuotaExceeded = ActionRequired"
| "FailureClass_group UnsupportedSource = ActionRequired"
| "FailureClass_group MirrorCorruption = Integrity"
| "FailureClass_group ArtifactVerificationFailed = Integrity"
| "FailureClass_group ManifestMismatch = Integrity"
| "FailureClass_group LfsIncomplete = Integrity"
| "FailureClass_group OffsiteMismatch = Integrity"
| "FailureClass_group RestoreDrillFailed = Integrity"
| "FailureClass_group UnsafePath = Integrity"

text \<open>The codes satisfy the contract of stable names although \<open>ALL\<close> is no complete table.\<close>

interpretation failure_code: stable_names FailureClass_code
proof unfold_locales
  fix x y assume "FailureClass_code x = FailureClass_code y"
  then show "x = y" by (cases x; cases y) simp_all
qed

lemma FailureClass_ALL_grouped:
  "map FailureClass_group FailureClass_ALL =
     replicate 4 Transient @ replicate 4 ActionRequired @ replicate 6 Integrity"
  by (simp add: FailureClass_ALL_def numeral_eq_Suc)

subsection \<open>Errors of the store operations\<close>

datatype VaultError =
    InvalidDelivery string
  | IllegalTransition string string
  | DuplicateDelivery
  | StorageFailed

subsection \<open>Collectors\<close>

datatype CollectorKind = GitLfs | Wiki

definition CollectorKind_ALL :: "CollectorKind list" where
  "CollectorKind_ALL = [GitLfs, Wiki]"

fun CollectorKind_as_str :: "CollectorKind \<Rightarrow> string" where
  "CollectorKind_as_str GitLfs = ''git_lfs''"
| "CollectorKind_as_str Wiki = ''wiki''"

datatype UnsupportedCollector = Releases | Issues

interpretation collector: closed_vocabulary CollectorKind_as_str CollectorKind_ALL
proof unfold_locales
  fix x y assume "CollectorKind_as_str x = CollectorKind_as_str y"
  then show "x = y" by (cases x; cases y) simp_all
next
  fix x show "x \<in> set CollectorKind_ALL" by (cases x) (simp_all add: CollectorKind_ALL_def)
qed (simp add: CollectorKind_ALL_def)

subsection \<open>Outcomes of one mirror operation\<close>

datatype MirrorOperation = InitialClone | Fetch

datatype MirrorCheckpoint = ClonePending | FetchPending

fun MirrorOperation_checkpoint :: "MirrorOperation \<Rightarrow> MirrorCheckpoint" where
  "MirrorOperation_checkpoint InitialClone = ClonePending"
| "MirrorOperation_checkpoint Fetch = FetchPending"

datatype MirrorResult =
    Succeeded (object_count: u64) (bytes_on_disk: u64)
  | QuotaRefused
  | MirrorInterrupted MirrorCheckpoint
  | IntegrityFailed
  | Failed FailureClass

definition MirrorResult_is_success :: "MirrorResult \<Rightarrow> bool" where
  "MirrorResult_is_success r = (case r of Succeeded _ _ \<Rightarrow> True | _ \<Rightarrow> False)"

fun MirrorResult_failure_class :: "MirrorResult \<Rightarrow> FailureClass option" where
  "MirrorResult_failure_class (Succeeded _ _) = None"
| "MirrorResult_failure_class QuotaRefused = Some QuotaExceeded"
| "MirrorResult_failure_class (MirrorInterrupted _) = Some Interrupted"
| "MirrorResult_failure_class IntegrityFailed = Some MirrorCorruption"
| "MirrorResult_failure_class (Failed failure) = Some failure"

subsection \<open>Properties\<close>

text \<open>
  The inventory \<open>FailureClass::ALL\<close> is not the closed set it documents: it lists every
  class exactly once except \<open>UnsafePath\<close>, which has a code and a group but is missing.
\<close>

theorem failure_inventory_misses_unsafe_path:
  "distinct FailureClass_ALL \<and> {c. c \<notin> set FailureClass_ALL} = {UnsafePath}"
proof
  show "distinct FailureClass_ALL" by (simp add: FailureClass_ALL_def)
  have "c \<notin> set FailureClass_ALL \<longleftrightarrow> c = UnsafePath" for c
    by (cases c) (simp_all add: FailureClass_ALL_def)
  then show "{c. c \<notin> set FailureClass_ALL} = {UnsafePath}" by blast
qed

text \<open>
  A mirror outcome carries a failure class exactly when it did not succeed; of the outcomes the
  runner produces itself, an interruption may be retried unchanged, and neither a quota refusal nor
  an integrity failure ever is.
\<close>

theorem mirror_outcome_classified:
  "(MirrorResult_failure_class r = None \<longleftrightarrow> MirrorResult_is_success r)
   \<and> (case r of
        MirrorInterrupted _ \<Rightarrow> map_option (retryable \<circ> FailureClass_group) (MirrorResult_failure_class r) = Some True
      | QuotaRefused \<Rightarrow> map_option FailureClass_group (MirrorResult_failure_class r) = Some ActionRequired
      | IntegrityFailed \<Rightarrow> map_option FailureClass_group (MirrorResult_failure_class r) = Some Integrity
      | _ \<Rightarrow> True)"
  by (cases r) (simp_all add: MirrorResult_is_success_def retryable_def)

end
