(* ===== verification/Delivery.thy ===== *)
theory Delivery
  imports Error_Taxonomy
begin

text \<open>
  The desired-state delivery boundary (\<open>crates/core/src/delivery.rs\<close>): the raw record, the
  validated record, and the validation that separates them. Identifiers of the \<open>uuid\<close> crate
  (\<open>Uuid::parse_str\<close>, \<open>Uuid::new_v5\<close>) are parameters of the definitions that use them.
\<close>

record DesiredStateDelivery =
  preservation_level :: string
  pinned :: "bool option"
  include_wiki :: "bool option"
  include_releases :: "bool option"
  include_issues :: "bool option"
  offsite_required :: "bool option"
  correlation_id :: string
  policy_revision :: "u64 option"

record IncomingDelivery =
  provider :: string
  external_repository_id :: string
  source :: string
  message_id :: uuid
  delivery :: DesiredStateDelivery

record ValidatedDelivery =
  v_preservation_level :: string
  v_pinned :: "bool option"
  v_include_wiki :: "bool option"
  v_include_releases :: "bool option"
  v_include_issues :: "bool option"
  v_offsite_required :: "bool option"
  v_correlation_id :: string
  v_policy_revision :: "u64 option"

definition CORRELATION_NAMESPACE :: uuid where
  "CORRELATION_NAMESPACE = 0x72617461746F736B72007661756C7401"

definition correlation_key ::
  "(string \<Rightarrow> uuid option) \<Rightarrow> (uuid \<Rightarrow> string \<Rightarrow> uuid) \<Rightarrow> string \<Rightarrow> uuid" where
  "correlation_key parse_str new_v5 correlation =
     (case parse_str correlation of
        Some key \<Rightarrow> key
      | None \<Rightarrow> new_v5 CORRELATION_NAMESPACE correlation)"

definition PRESERVATION_LEVELS :: "string list" where
  "PRESERVATION_LEVELS =
     [''none'', ''metadata_only'', ''git_mirror'', ''git_mirror_with_lfs'', ''complete_archive'']"

definition validate_delivery :: "DesiredStateDelivery \<Rightarrow> (VaultError, ValidatedDelivery) result" where
  "validate_delivery d =
     (if preservation_level d \<notin> set PRESERVATION_LEVELS
      then Inl (InvalidDelivery ''preservation_level'')
      else if policy_revision d = None
      then Inl (InvalidDelivery ''policy_revision'')
      else if correlation_id d = ''''
      then Inl (InvalidDelivery ''correlation_id'')
      else Inr \<lparr> v_preservation_level = preservation_level d,
                 v_pinned = pinned d,
                 v_include_wiki = include_wiki d,
                 v_include_releases = include_releases d,
                 v_include_issues = include_issues d,
                 v_offsite_required = offsite_required d,
                 v_correlation_id = correlation_id d,
                 v_policy_revision = policy_revision d \<rparr>)"

subsection \<open>What validation guarantees\<close>

text \<open>The raw record a validated record came from.\<close>

definition delivered_form :: "ValidatedDelivery \<Rightarrow> DesiredStateDelivery" where
  "delivered_form v =
     \<lparr> preservation_level = v_preservation_level v, pinned = v_pinned v,
       include_wiki = v_include_wiki v, include_releases = v_include_releases v,
       include_issues = v_include_issues v, offsite_required = v_offsite_required v,
       correlation_id = v_correlation_id v, policy_revision = v_policy_revision v \<rparr>"

definition well_formed_delivery :: "ValidatedDelivery \<Rightarrow> bool" where
  "well_formed_delivery v \<longleftrightarrow>
     v_preservation_level v \<in> set PRESERVATION_LEVELS
     \<and> v_policy_revision v \<noteq> None \<and> v_correlation_id v \<noteq> ''''"

lemma validate_delivery_well_formed:
  "validate_delivery d = Inr v \<Longrightarrow> well_formed_delivery v"
  by (auto simp: validate_delivery_def well_formed_delivery_def split: if_splits)

text \<open>
  Validation neither invents nor drops anything: it accepts exactly the records with a known
  preservation level, a revision and a correlation identifier, and an accepted record is the
  delivered one, field by field.
\<close>

theorem validate_delivery_exact:
  "validate_delivery d = Inr v \<longleftrightarrow> delivered_form v = d \<and> well_formed_delivery v"
  by (cases d; cases v)
     (auto simp: validate_delivery_def delivered_form_def well_formed_delivery_def)

text \<open>
  A refusal names the first rejected field in contract order: the level is judged before the
  revision, and the revision before the correlation identifier.
\<close>

theorem validate_delivery_refusal:
  "validate_delivery d = Inl e \<longleftrightarrow>
     (if preservation_level d \<notin> set PRESERVATION_LEVELS then e = InvalidDelivery ''preservation_level''
      else if policy_revision d = None then e = InvalidDelivery ''policy_revision''
      else correlation_id d = '''' \<and> e = InvalidDelivery ''correlation_id'')"
  by (auto simp: validate_delivery_def)

end
