(* ===== verification/Planner.thy ===== *)
theory Planner
  imports Delivery Target_State
begin

text \<open>
  The pure reconciliation planner (\<open>crates/core/src/planner.rs\<close>): desired state and observed
  status in, work items, divergences and counters out. The lemmas state when each state-changing
  item is proposed, that a pinned target survives withdrawal visibly, and that runner work is
  reported without being counted as executable.
\<close>

datatype WorkItem = Enroll | Exclude | Reactivate | RecordRevisionOnly | CloneAndFetch | Snapshot

definition is_executable :: "WorkItem \<Rightarrow> bool" where
  "is_executable item = (item \<in> {Enroll, Exclude, Reactivate, RecordRevisionOnly})"

record PlanCounters =
  proposed :: nat
  executable :: nat

datatype DivergenceKind = PinnedWithdrawal | UnsupportedCollectorRequested UnsupportedCollector

record ReconciliationPlan =
  items :: "WorkItem list"
  divergences :: "DivergenceKind list"
  counters :: PlanCounters

definition plan_items :: "ValidatedDelivery \<Rightarrow> TargetStatus option \<Rightarrow> WorkItem list" where
  "plan_items desired observed =
     (let is_pinned = v_pinned desired = Some True;
          withdrawn = v_preservation_level desired = ''none''
      in case observed of
           None \<Rightarrow> if \<not> withdrawn then [Enroll] else []
         | Some status \<Rightarrow>
             if status = Excluded \<and> withdrawn then []
             else if withdrawn then (if is_pinned then [] else [Exclude])
             else if status = Excluded then [Reactivate]
             else if status = Ready then
               (if v_preservation_level desired = ''git_mirror_with_lfs''
                then [CloneAndFetch, Snapshot] else [RecordRevisionOnly])
             else [])"

definition plan_divergences :: "ValidatedDelivery \<Rightarrow> TargetStatus option \<Rightarrow> DivergenceKind list" where
  "plan_divergences desired observed =
     (let is_pinned = v_pinned desired = Some True;
          withdrawn = v_preservation_level desired = ''none''
      in (if v_include_releases desired = Some True
          then [UnsupportedCollectorRequested Releases] else [])
       @ (if v_include_issues desired = Some True
          then [UnsupportedCollectorRequested Issues] else [])
       @ (case observed of
            None \<Rightarrow> []
          | Some status \<Rightarrow>
              if status \<noteq> Excluded \<and> withdrawn \<and> is_pinned then [PinnedWithdrawal] else []))"

definition plan :: "ValidatedDelivery \<Rightarrow> TargetStatus option \<Rightarrow> ReconciliationPlan" where
  "plan desired observed =
     (let work = plan_items desired observed
      in \<lparr> items = work,
           divergences = plan_divergences desired observed,
           counters = \<lparr> proposed = length work,
                        executable = length (filter is_executable work) \<rparr> \<rparr>)"

subsection \<open>When each item is proposed\<close>

lemma plan_simps [simp]:
  "items (plan d obs) = plan_items d obs"
  "divergences (plan d obs) = plan_divergences d obs"
  "counters (plan d obs) =
     \<lparr> proposed = length (plan_items d obs), executable = length (filter is_executable (plan_items d obs)) \<rparr>"
  by (simp_all add: plan_def Let_def)

lemma Exclude_planned:
  "Exclude \<in> set (plan_items d obs) \<longleftrightarrow>
     v_preservation_level d = ''none'' \<and> v_pinned d \<noteq> Some True
     \<and> (\<exists>status. obs = Some status \<and> status \<noteq> Excluded)"
  by (auto simp: plan_items_def Let_def split: option.splits)

lemma Reactivate_planned:
  "Reactivate \<in> set (plan_items d obs) \<longleftrightarrow>
     v_preservation_level d \<noteq> ''none'' \<and> obs = Some Excluded"
  by (auto simp: plan_items_def Let_def split: option.splits)

lemma Enroll_planned:
  "Enroll \<in> set (plan_items d obs) \<longleftrightarrow> v_preservation_level d \<noteq> ''none'' \<and> obs = None"
  by (auto simp: plan_items_def Let_def split: option.splits)

lemmas planned_iffs = Exclude_planned Reactivate_planned Enroll_planned

text \<open>
  Withdrawal respects pins, and visibly: for an observed target that is not yet excluded, a
  withdrawn policy proposes exclusion exactly when the policy does not pin the target, and records
  the disagreement exactly when it does.
\<close>

theorem withdrawal_respects_pin:
  assumes "v_preservation_level desired = ''none''" and "status \<noteq> Excluded"
  shows "(Exclude \<in> set (items (plan desired (Some status))) \<longleftrightarrow> v_pinned desired \<noteq> Some True)
       \<and> (PinnedWithdrawal \<in> set (divergences (plan desired (Some status)))
            \<longleftrightarrow> v_pinned desired = Some True)
       \<and> (v_pinned desired = Some True \<longrightarrow> items (plan desired (Some status)) = [])"
  using assms by (auto simp: planned_iffs plan_divergences_def plan_items_def Let_def)

definition pinned_withdrawal_example :: ValidatedDelivery where
  "pinned_withdrawal_example =
     \<lparr> v_preservation_level = ''none'', v_pinned = Some True, v_include_wiki = Some False,
       v_include_releases = Some False, v_include_issues = Some False,
       v_offsite_required = Some True, v_correlation_id = ''corr'', v_policy_revision = Some 1 \<rparr>"

theorem withdrawal_respects_pin_witness:
  "items (plan pinned_withdrawal_example (Some Ready)) = []
   \<and> PinnedWithdrawal \<in> set (divergences (plan pinned_withdrawal_example (Some Ready)))"
  using withdrawal_respects_pin [of pinned_withdrawal_example Ready]
  by (simp add: pinned_withdrawal_example_def)

text \<open>
  The counters are honest: every plan proposes at most one item the executor can perform, and
  runner work (clone and snapshot) is only ever proposed for a ready target of an active policy and
  never counted as executable.
\<close>

theorem plan_counters_honest:
  "executable (counters (plan desired observed)) \<le> 1
   \<and> executable (counters (plan desired observed)) \<le> proposed (counters (plan desired observed))
   \<and> (CloneAndFetch \<in> set (items (plan desired observed)) \<longrightarrow>
        observed = Some Ready \<and> v_preservation_level desired = ''git_mirror_with_lfs''
        \<and> proposed (counters (plan desired observed)) = 2
        \<and> executable (counters (plan desired observed)) = 0)"
  by (auto simp: plan_items_def is_executable_def Let_def split: option.splits)

theorem plan_counters_honest_witness:
  "executable (counters (plan (pinned_withdrawal_example\<lparr>v_preservation_level := ''git_mirror_with_lfs''\<rparr>)
      (Some Ready))) = 0"
proof -
  let ?d = "pinned_withdrawal_example\<lparr>v_preservation_level := ''git_mirror_with_lfs''\<rparr>"
  have "CloneAndFetch \<in> set (items (plan ?d (Some Ready)))"
    by (simp add: plan_items_def Let_def pinned_withdrawal_example_def)
  then show ?thesis using plan_counters_honest [of ?d "Some Ready"] by simp
qed

end
