(* ===== verification/Retention_Policy.thy ===== *)
theory Retention_Policy
  imports Vault_Prelude
begin

text \<open>
  The pure retention engine (\<open>crates/core/src/retention.rs\<close>): classification of snapshots for a
  scheduled evaluation and selection under quota pressure. The lemmas give the keep-N window its
  declarative meaning (a rank among the restorable snapshots of the mirror), show that the result
  does not depend on the order of the input, and that pressure never selects a protected snapshot.
\<close>

subsection \<open>Data\<close>

record RetentionPolicy =
  keep_last_restorable :: u64
  minimum_age_seconds :: u64
  grace_seconds :: u64

definition DEFAULT_RETENTION_POLICY :: RetentionPolicy where
  "DEFAULT_RETENTION_POLICY =
     \<lparr> keep_last_restorable = 3, minimum_age_seconds = 2592000, grace_seconds = 2592000 \<rparr>"

datatype PinSource = Operator | User

fun PinSource_as_str :: "PinSource \<Rightarrow> string" where
  "PinSource_as_str Operator = ''operator''"
| "PinSource_as_str User = ''user''"

record RetentionSnapshot =
  snapshot_id :: uuid
  mirror_id :: uuid
  created_at_epoch_seconds :: u64
  restorable :: bool
  active_pins :: "PinSource set"
  target_inactive :: bool
  deletion_not_before_epoch_seconds :: "u64 option"
  estimated_bytes :: u64

datatype DecisionReason =
  EligibleOrdinary | ProtectedAgeFloor | ProtectedKeepLastRestorable | ProtectedPinned

record SnapshotDecision =
  decided_snapshot :: uuid
  reason :: DecisionReason

datatype PressureTier = Ordinary | InactiveTarget

record PressureSelection =
  selected_snapshot :: uuid
  tier :: PressureTier
  selected_bytes :: u64

record QuotaPressureDecision =
  selections :: "PressureSelection list"
  freed_bytes :: u64
  required_bytes :: u64
  allocation_refused :: bool

subsection \<open>The keep-N window\<close>

text \<open>The comparison of \<open>restorable.sort_by\<close>: newest first, ties by descending identifier.\<close>

definition newest_first :: "RetentionSnapshot \<Rightarrow> RetentionSnapshot \<Rightarrow> bool" where
  "newest_first left right \<longleftrightarrow>
     created_at_epoch_seconds right < created_at_epoch_seconds left
     \<or> created_at_epoch_seconds right = created_at_epoch_seconds left
        \<and> snapshot_id right \<le> snapshot_id left"

definition restorable_of_mirror :: "RetentionSnapshot list \<Rightarrow> uuid \<Rightarrow> RetentionSnapshot list" where
  "restorable_of_mirror snapshots mirror =
     filter (\<lambda>s. restorable s \<and> mirror_id s = mirror) snapshots"

text \<open>The window length \<open>keep_last_restorable.max(1)\<close>.\<close>

definition keep_window :: "RetentionPolicy \<Rightarrow> nat" where
  "keep_window policy = unat (max (keep_last_restorable policy) 1)"

definition keep_last :: "RetentionSnapshot list \<Rightarrow> RetentionPolicy \<Rightarrow> uuid set" where
  "keep_last snapshots policy =
     set (concat (map (\<lambda>mirror.
            map snapshot_id
              (take (keep_window policy)
                 (sort_by newest_first (restorable_of_mirror snapshots mirror))))
          (remdups (map mirror_id (filter restorable snapshots)))))"

subsection \<open>Scheduled evaluation\<close>

definition classify ::
  "uuid set \<Rightarrow> RetentionPolicy \<Rightarrow> u64 \<Rightarrow> RetentionSnapshot \<Rightarrow> DecisionReason" where
  "classify kept policy evaluated_at s =
     (if active_pins s \<noteq> {} then ProtectedPinned
      else if saturating_sub evaluated_at (created_at_epoch_seconds s) < minimum_age_seconds policy
      then ProtectedAgeFloor
      else if snapshot_id s \<in> kept then ProtectedKeepLastRestorable
      else EligibleOrdinary)"

definition evaluate_retention ::
  "RetentionSnapshot list \<Rightarrow> RetentionPolicy \<Rightarrow> u64 \<Rightarrow> SnapshotDecision list" where
  "evaluate_retention snapshots policy evaluated_at =
     (let kept = keep_last snapshots policy;
          ordered = sort_key (\<lambda>s. (mirror_id s, created_at_epoch_seconds s, snapshot_id s)) snapshots
      in map (\<lambda>s. \<lparr> decided_snapshot = snapshot_id s,
                    reason = classify kept policy evaluated_at s \<rparr>) ordered)"

subsection \<open>Quota pressure\<close>

text \<open>The \<open>BTreeMap\<close> collected from the decisions: the last decision for an identifier wins.\<close>

definition decision_map :: "SnapshotDecision list \<Rightarrow> uuid \<rightharpoonup> DecisionReason" where
  "decision_map decisions = map_of (rev (map (\<lambda>d. (decided_snapshot d, reason d)) decisions))"

definition grace_complete :: "u64 \<Rightarrow> RetentionSnapshot \<Rightarrow> bool" where
  "grace_complete evaluated_at s =
     (case deletion_not_before_epoch_seconds s of
        None \<Rightarrow> False | Some deadline \<Rightarrow> deadline \<le> evaluated_at)"

definition pressure_candidates ::
  "SnapshotDecision list \<Rightarrow> RetentionSnapshot list \<Rightarrow> u64 \<Rightarrow> RetentionSnapshot list" where
  "pressure_candidates decisions snapshots evaluated_at =
     sort_key (\<lambda>s. (target_inactive s, created_at_epoch_seconds s, mirror_id s, snapshot_id s))
       (filter (\<lambda>s. decision_map decisions (snapshot_id s) = Some EligibleOrdinary
                     \<and> grace_complete evaluated_at s) snapshots)"

definition selection_of :: "RetentionSnapshot \<Rightarrow> PressureSelection" where
  "selection_of s =
     \<lparr> selected_snapshot = snapshot_id s,
       tier = (if target_inactive s then InactiveTarget else Ordinary),
       selected_bytes = estimated_bytes s \<rparr>"

text \<open>The selection loop: stop as soon as enough bytes are released.\<close>

fun select_until ::
  "u64 \<Rightarrow> u64 \<Rightarrow> RetentionSnapshot list \<Rightarrow> PressureSelection list \<times> u64" where
  "select_until required freed [] = ([], freed)"
| "select_until required freed (s # rest) =
     (if required \<le> freed then ([], freed)
      else (case select_until required (saturating_add freed (estimated_bytes s)) rest of
              (chosen, released) \<Rightarrow> (selection_of s # chosen, released)))"

definition evaluate_quota_pressure ::
  "RetentionSnapshot list \<Rightarrow> RetentionPolicy \<Rightarrow> u64 \<Rightarrow> u64 \<Rightarrow> QuotaPressureDecision" where
  "evaluate_quota_pressure snapshots policy evaluated_at required =
     (let decisions = evaluate_retention snapshots policy evaluated_at;
          candidates = pressure_candidates decisions snapshots evaluated_at
      in case select_until required 0 candidates of
           (chosen, freed) \<Rightarrow>
             \<lparr> selections = chosen, freed_bytes = freed, required_bytes = required,
               allocation_refused = (freed < required) \<rparr>)"

subsection \<open>Vocabulary\<close>

interpretation pin_source: closed_vocabulary PinSource_as_str "[Operator, User]"
proof unfold_locales
  fix x y assume "PinSource_as_str x = PinSource_as_str y"
  then show "x = y" by (cases x; cases y) simp_all
next
  fix x show "x \<in> set [Operator, User]" by (cases x) simp_all
qed simp

subsection \<open>The keep-N window is a rank\<close>

lemma newest_first_total: "newest_first x y \<or> newest_first y x"
  by (auto simp: newest_first_def)

lemma newest_first_trans: "newest_first x y \<Longrightarrow> newest_first y z \<Longrightarrow> newest_first x z"
  by (auto simp: newest_first_def)

lemma newest_first_same_id: "newest_first x y \<Longrightarrow> newest_first y x \<Longrightarrow> snapshot_id x = snapshot_id y"
  by (auto simp: newest_first_def)

lemma keep_window_pos: "0 < keep_window policy"
  by (auto simp: keep_window_def max_def unat_gt_0)

abbreviation unique_ids :: "RetentionSnapshot list \<Rightarrow> bool" where
  "unique_ids snapshots \<equiv> distinct (map snapshot_id snapshots)"

definition newer_restorable :: "RetentionSnapshot list \<Rightarrow> RetentionSnapshot \<Rightarrow> RetentionSnapshot set" where
  "newer_restorable snapshots s =
     {t \<in> set snapshots. restorable t \<and> mirror_id t = mirror_id s \<and> t \<noteq> s \<and> newest_first t s}"

lemma unique_ids_eq:
  "unique_ids snapshots \<Longrightarrow> s \<in> set snapshots \<Longrightarrow> t \<in> set snapshots \<Longrightarrow>
     snapshot_id s = snapshot_id t \<Longrightarrow> s = t"
  by (auto simp: distinct_map inj_on_def)

lemma mem_keep_last:
  "i \<in> keep_last snapshots policy \<longleftrightarrow>
     (\<exists>s. i = snapshot_id s \<and> s \<in> set (take (keep_window policy)
          (sort_by newest_first (restorable_of_mirror snapshots (mirror_id s)))))"
proof -
  have mirror: "mirror_id s = m \<and> restorable s \<and> s \<in> set snapshots"
    if "s \<in> set (take k (sort_by newest_first (restorable_of_mirror snapshots m)))" for s k m
    using in_set_takeD [OF that] by (auto simp: restorable_of_mirror_def)
  then show ?thesis
    unfolding keep_last_def by (fastforce dest: mirror)
qed

lemma keep_last_iff_rank:
  assumes "unique_ids snapshots" and "s \<in> set snapshots"
  shows "snapshot_id s \<in> keep_last snapshots policy \<longleftrightarrow>
           restorable s \<and> card (newer_restorable snapshots s) < keep_window policy"
proof -
  let ?ys = "sort_by newest_first (restorable_of_mirror snapshots (mirror_id s))"
  have sub: "set ?ys \<subseteq> set snapshots" by (auto simp: restorable_of_mirror_def)
  have dist: "distinct ?ys"
    using assms(1) by (simp add: restorable_of_mirror_def distinct_map)
  have in_window: "snapshot_id s \<in> keep_last snapshots policy \<longleftrightarrow> s \<in> set (take (keep_window policy) ?ys)"
  proof
    assume "snapshot_id s \<in> keep_last snapshots policy"
    then obtain t where t: "snapshot_id s = snapshot_id t"
        "t \<in> set (take (keep_window policy)
            (sort_by newest_first (restorable_of_mirror snapshots (mirror_id t))))"
      by (auto simp: mem_keep_last)
    then have "t \<in> set snapshots" by (auto dest!: in_set_takeD simp: restorable_of_mirror_def)
    with assms t(1) have "t = s" by (metis unique_ids_eq)
    with t(2) show "s \<in> set (take (keep_window policy) ?ys)" by simp
  qed (auto simp: mem_keep_last)
  show ?thesis
  proof (cases "restorable s")
    case False
    then have "s \<notin> set ?ys" by (simp add: restorable_of_mirror_def)
    with in_window False show ?thesis by (metis in_set_takeD)
  next
    case True
    with assms(2) have mem: "s \<in> set ?ys" by (simp add: restorable_of_mirror_def)
    have "s \<in> set (take (keep_window policy) ?ys) \<longleftrightarrow>
        card {t \<in> set ?ys. t \<noteq> s \<and> newest_first t s} < keep_window policy"
    proof (rule sorted_prefix_rank [OF sorted_sort_by dist _ mem])
      fix x y assume "x \<in> set ?ys" "y \<in> set ?ys" "newest_first x y" "newest_first y x"
      with sub assms(1) show "x = y" by (blast intro: unique_ids_eq newest_first_same_id)
    qed (use newest_first_total newest_first_trans in blast)+
    moreover have "{t \<in> set ?ys. t \<noteq> s \<and> newest_first t s} = newer_restorable snapshots s"
      by (auto simp: newer_restorable_def restorable_of_mirror_def)
    ultimately show ?thesis using in_window True by simp
  qed
qed

lemma window_members_card:
  assumes "unique_ids snapshots"
  shows "card {s \<in> set snapshots. restorable s \<and> mirror_id s = m
                 \<and> card (newer_restorable snapshots s) < keep_window policy}
       = min (keep_window policy) (card {s \<in> set snapshots. restorable s \<and> mirror_id s = m})"
proof -
  let ?ys = "sort_by newest_first (restorable_of_mirror snapshots m)"
  have dist: "distinct ?ys"
    using assms by (simp add: restorable_of_mirror_def distinct_map)
  have set_ys: "set ?ys = {s \<in> set snapshots. restorable s \<and> mirror_id s = m}"
    by (auto simp: restorable_of_mirror_def)
  have "{s \<in> set snapshots. restorable s \<and> mirror_id s = m
           \<and> card (newer_restorable snapshots s) < keep_window policy}
      = set (take (keep_window policy) ?ys)"
  proof (intro equalityI subsetI)
    fix s assume s: "s \<in> {s \<in> set snapshots. restorable s \<and> mirror_id s = m
           \<and> card (newer_restorable snapshots s) < keep_window policy}"
    then have "snapshot_id s \<in> keep_last snapshots policy"
      by (simp add: keep_last_iff_rank assms)
    then obtain t where t: "snapshot_id s = snapshot_id t"
        "t \<in> set (take (keep_window policy)
            (sort_by newest_first (restorable_of_mirror snapshots (mirror_id t))))"
      by (auto simp: mem_keep_last)
    then have "t \<in> set snapshots" by (auto dest!: in_set_takeD simp: restorable_of_mirror_def)
    with s t assms have "t = s" by (metis (mono_tags, lifting) mem_Collect_eq unique_ids_eq)
    with s t(2) show "s \<in> set (take (keep_window policy) ?ys)" by simp
  next
    fix s assume s: "s \<in> set (take (keep_window policy) ?ys)"
    then have mem: "s \<in> set snapshots" "restorable s" "mirror_id s = m"
      by (auto dest!: in_set_takeD simp: restorable_of_mirror_def)
    with s have "snapshot_id s \<in> keep_last snapshots policy" by (auto simp: mem_keep_last)
    with mem show "s \<in> {s \<in> set snapshots. restorable s \<and> mirror_id s = m
           \<and> card (newer_restorable snapshots s) < keep_window policy}"
      by (simp add: keep_last_iff_rank assms)
  qed
  moreover have "card (set (take (keep_window policy) ?ys)) = min (keep_window policy) (length ?ys)"
    using dist by (simp add: distinct_card min.commute)
  moreover have "length ?ys = card {s \<in> set snapshots. restorable s \<and> mirror_id s = m}"
    using dist set_ys by (metis distinct_card)
  ultimately show ?thesis by simp
qed

subsection \<open>The evaluator contract\<close>

lemma decision_map_distinct:
  assumes "distinct (map decided_snapshot decisions)"
  shows "decision_map decisions i = Some r \<longleftrightarrow>
           (\<exists>d \<in> set decisions. decided_snapshot d = i \<and> reason d = r)"
proof -
  have "distinct (map fst (rev (map (\<lambda>d. (decided_snapshot d, reason d)) decisions)))"
    using assms by (simp add: rev_map [symmetric] comp_def)
  then show ?thesis by (auto simp: decision_map_def map_of_eq_Some_iff)
qed

lemma evaluated_ids:
  "mset (map decided_snapshot (evaluate_retention snapshots policy now)) = mset (map snapshot_id snapshots)"
  by (simp add: evaluate_retention_def Let_def comp_def)

lemma evaluated_decision:
  assumes "unique_ids snapshots" and "s \<in> set snapshots"
  shows "decision_map (evaluate_retention snapshots policy now) (snapshot_id s)
           = Some (classify (keep_last snapshots policy) policy now s)"
proof -
  have "distinct (map decided_snapshot (evaluate_retention snapshots policy now))"
    using assms(1) evaluated_ids mset_eq_imp_distinct_iff by blast
  moreover have "\<exists>d \<in> set (evaluate_retention snapshots policy now). decided_snapshot d = snapshot_id s
      \<and> reason d = classify (keep_last snapshots policy) policy now s"
    using assms(2) by (auto simp: evaluate_retention_def Let_def)
  ultimately show ?thesis by (simp add: decision_map_distinct)
qed

text \<open>
  What the pressure selector relies on: an evaluator never calls a pinned, a too young or a
  window-protected snapshot eligible. Everything below holds for any evaluator with these laws.
\<close>

locale retention_evaluator =
  fixes evaluate :: "RetentionSnapshot list \<Rightarrow> RetentionPolicy \<Rightarrow> u64 \<Rightarrow> SnapshotDecision list"
  assumes pin_protects: "\<lbrakk>unique_ids ss; s \<in> set ss; active_pins s \<noteq> {}\<rbrakk> \<Longrightarrow>
      decision_map (evaluate ss policy now) (snapshot_id s) \<noteq> Some EligibleOrdinary"
    and age_protects: "\<lbrakk>unique_ids ss; s \<in> set ss;
        unat now - unat (created_at_epoch_seconds s) < unat (minimum_age_seconds policy)\<rbrakk> \<Longrightarrow>
      decision_map (evaluate ss policy now) (snapshot_id s) \<noteq> Some EligibleOrdinary"
    and window_protects: "\<lbrakk>unique_ids ss; s \<in> set ss; restorable s;
        card (newer_restorable ss s) < keep_window policy\<rbrakk> \<Longrightarrow>
      decision_map (evaluate ss policy now) (snapshot_id s) \<noteq> Some EligibleOrdinary"
begin

lemma candidate_safe:
  assumes "unique_ids ss" and "s \<in> set (pressure_candidates (evaluate ss policy now) ss now)"
  shows "s \<in> set ss \<and> active_pins s = {} \<and> grace_complete now s
       \<and> unat (minimum_age_seconds policy) \<le> unat now - unat (created_at_epoch_seconds s)
       \<and> \<not> (restorable s \<and> card (newer_restorable ss s) < keep_window policy)"
proof -
  from assms(2) have mem: "s \<in> set ss" and
    eligible: "decision_map (evaluate ss policy now) (snapshot_id s) = Some EligibleOrdinary" and
    grace: "grace_complete now s"
    by (auto simp: pressure_candidates_def)
  show ?thesis
    using mem grace eligible pin_protects [OF assms(1) mem, of policy now]
      age_protects [OF assms(1) mem, of now policy] window_protects [OF assms(1) mem, of policy now]
    by (auto intro!: leI)
qed

lemma candidates_leave_window:
  assumes "unique_ids ss"
  shows "min (keep_window policy) (card {s \<in> set ss. restorable s \<and> mirror_id s = m})
       \<le> card {s \<in> set ss. restorable s \<and> mirror_id s = m
                 \<and> s \<notin> set (pressure_candidates (evaluate ss policy now) ss now)}"
  unfolding window_members_card [OF assms, of m policy, symmetric]
  by (rule card_mono) (use candidate_safe [OF assms] in auto)

end

interpretation engine: retention_evaluator evaluate_retention
proof unfold_locales
  fix ss s policy now
  assume "unique_ids ss" "s \<in> set ss"
  note decision = evaluated_decision [OF this, of policy now]
  show "decision_map (evaluate_retention ss policy now) (snapshot_id s) \<noteq> Some EligibleOrdinary"
    if "active_pins s \<noteq> {}"
    using that by (simp add: decision classify_def)
  show "decision_map (evaluate_retention ss policy now) (snapshot_id s) \<noteq> Some EligibleOrdinary"
    if "unat now - unat (created_at_epoch_seconds s) < unat (minimum_age_seconds policy)"
    using that by (simp add: decision classify_def word_less_nat_alt unat_saturating_sub)
  show "decision_map (evaluate_retention ss policy now) (snapshot_id s) \<noteq> Some EligibleOrdinary"
    if "restorable s" "card (newer_restorable ss s) < keep_window policy"
    using that \<open>unique_ids ss\<close> \<open>s \<in> set ss\<close> by (simp add: decision classify_def keep_last_iff_rank)
qed

subsection \<open>The selection loop\<close>

lemma select_until_prefix:
  "select_until required freed cs = (chosen, released) \<Longrightarrow>
     \<exists>k \<le> length cs. chosen = map selection_of (take k cs)
       \<and> released = fold (\<lambda>s acc. saturating_add acc (estimated_bytes s)) (take k cs) freed
       \<and> (k < length cs \<longrightarrow> required \<le> released)
       \<and> (\<forall>j < k. fold (\<lambda>s acc. saturating_add acc (estimated_bytes s)) (take j cs) freed < required)"
proof (induction cs arbitrary: freed chosen released)
  case Nil
  then show ?case by simp
next
  case (Cons c cs)
  show ?case
  proof (cases "required \<le> freed")
    case True
    with Cons.prems show ?thesis by (intro exI [of _ 0]) auto
  next
    case False
    with Cons.prems obtain chosen' where
      step: "select_until required (saturating_add freed (estimated_bytes c)) cs = (chosen', released)"
        "chosen = selection_of c # chosen'"
      by (auto split: prod.splits)
    from Cons.IH [OF step(1)] obtain k where k: "k \<le> length cs" "chosen' = map selection_of (take k cs)"
      "released = fold (\<lambda>s acc. saturating_add acc (estimated_bytes s)) (take k cs)
          (saturating_add freed (estimated_bytes c))"
      "k < length cs \<longrightarrow> required \<le> released"
      "\<forall>j < k. fold (\<lambda>s acc. saturating_add acc (estimated_bytes s)) (take j cs)
          (saturating_add freed (estimated_bytes c)) < required"
      by blast
    have "\<forall>j < Suc k. fold (\<lambda>s acc. saturating_add acc (estimated_bytes s)) (take j (c # cs)) freed < required"
      using k(5) False by (auto simp: less_Suc_eq_0_disj not_le)
    with k step(2) show ?thesis by (intro exI [of _ "Suc k"]) auto
  qed
qed

lemma fold_estimates:
  "fold (\<lambda>s acc. saturating_add acc (estimated_bytes s)) cs 0 = saturating_sum (map estimated_bytes cs)"
  by (simp add: saturating_sum_def fold_map comp_def)

lemma evaluate_quota_pressure_selects:
  obtains k where
    "k \<le> length (pressure_candidates (evaluate_retention ss policy now) ss now)"
    "selections (evaluate_quota_pressure ss policy now required)
       = map selection_of (take k (pressure_candidates (evaluate_retention ss policy now) ss now))"
    "freed_bytes (evaluate_quota_pressure ss policy now required)
       = saturating_sum (map estimated_bytes
           (take k (pressure_candidates (evaluate_retention ss policy now) ss now)))"
    "k < length (pressure_candidates (evaluate_retention ss policy now) ss now) \<longrightarrow>
       required \<le> freed_bytes (evaluate_quota_pressure ss policy now required)"
    "\<forall>j < k. saturating_sum (map estimated_bytes
           (take j (pressure_candidates (evaluate_retention ss policy now) ss now))) < required"
proof -
  let ?cs = "pressure_candidates (evaluate_retention ss policy now) ss now"
  obtain chosen released where run: "select_until required 0 ?cs = (chosen, released)"
    by (cases "select_until required 0 ?cs") auto
  then have "selections (evaluate_quota_pressure ss policy now required) = chosen"
    "freed_bytes (evaluate_quota_pressure ss policy now required) = released"
    by (simp_all add: evaluate_quota_pressure_def Let_def)
  with select_until_prefix [OF run] that show ?thesis
    by (auto simp: fold_estimates)
qed

definition example_snapshot :: "uuid \<Rightarrow> u64 \<Rightarrow> RetentionSnapshot" where
  "example_snapshot i created =
     \<lparr> snapshot_id = i, mirror_id = 7, created_at_epoch_seconds = created, restorable = True,
       active_pins = {}, target_inactive = False, deletion_not_before_epoch_seconds = Some 10,
       estimated_bytes = 100 \<rparr>"

definition example_snapshots :: "RetentionSnapshot list" where
  "example_snapshots = [example_snapshot 1 5, example_snapshot 2 6]"

definition eager_policy :: RetentionPolicy where
  "eager_policy = \<lparr> keep_last_restorable = 1, minimum_age_seconds = 0, grace_seconds = 1 \<rparr>"

lemma example_unique_ids: "unique_ids example_snapshots"
  by (simp add: example_snapshots_def example_snapshot_def)

subsection \<open>Properties\<close>

text \<open>
  Scheduled evaluation means what the policy says: a snapshot is eligible exactly when it has
  no active pin, has reached the minimum age (computed without wrap-around), and is not among the
  newest restorable snapshots of its mirror, counted by rank with the window never below one.
\<close>

theorem eligible_iff_unprotected:
  assumes "unique_ids snapshots" and "s \<in> set snapshots"
  shows "decision_map (evaluate_retention snapshots policy now) (snapshot_id s) = Some EligibleOrdinary \<longleftrightarrow>
           active_pins s = {}
           \<and> unat (minimum_age_seconds policy) \<le> unat now - unat (created_at_epoch_seconds s)
           \<and> (restorable s \<longrightarrow>
                max (unat (keep_last_restorable policy)) 1 \<le> card (newer_restorable snapshots s))"
proof -
  have "keep_window policy = max (unat (keep_last_restorable policy)) 1"
    by (auto simp: keep_window_def max_def word_le_nat_alt)
  then show ?thesis
    by (auto simp: evaluated_decision [OF assms] classify_def keep_last_iff_rank [OF assms]
        word_less_nat_alt unat_saturating_sub not_less)
qed

theorem eligible_iff_unprotected_witness:
  "decision_map (evaluate_retention example_snapshots DEFAULT_RETENTION_POLICY 5184000) 1
     \<noteq> Some EligibleOrdinary"
proof -
  have "card (newer_restorable example_snapshots (example_snapshot 1 5)) \<le> card (set example_snapshots)"
    by (rule card_mono) (auto simp: newer_restorable_def)
  then have "card (newer_restorable example_snapshots (example_snapshot 1 5)) < 3"
    using card_length [of example_snapshots] by (simp add: example_snapshots_def)
  then show ?thesis
    using eligible_iff_unprotected [OF example_unique_ids, of "example_snapshot 1 5"
        DEFAULT_RETENTION_POLICY 5184000]
    by (simp add: example_snapshots_def example_snapshot_def DEFAULT_RETENTION_POLICY_def)
qed

text \<open>
  Pressure never takes what retention protects: every selected snapshot is unpinned, past its
  age floor and its fixed deletion deadline, and outside the keep-N window of its mirror.
\<close>

theorem pressure_selects_only_unprotected:
  assumes "unique_ids snapshots"
    and "sel \<in> set (selections (evaluate_quota_pressure snapshots policy now required))"
  shows "\<exists>s \<in> set snapshots. sel = selection_of s \<and> active_pins s = {} \<and> grace_complete now s
           \<and> unat (minimum_age_seconds policy) \<le> unat now - unat (created_at_epoch_seconds s)
           \<and> \<not> (restorable s \<and> card (newer_restorable snapshots s) < keep_window policy)"
proof -
  obtain k where "selections (evaluate_quota_pressure snapshots policy now required)
      = map selection_of (take k (pressure_candidates (evaluate_retention snapshots policy now) snapshots now))"
    by (rule evaluate_quota_pressure_selects)
  with assms(2) obtain s where s: "sel = selection_of s"
    "s \<in> set (pressure_candidates (evaluate_retention snapshots policy now) snapshots now)"
    by (auto dest: in_set_takeD)
  with engine.candidate_safe [OF assms(1) s(2)] show ?thesis by blast
qed

theorem pressure_selects_only_unprotected_witness:
  "\<exists>s \<in> set example_snapshots. selection_of (example_snapshot 1 5) = selection_of s
     \<and> active_pins s = {} \<and> grace_complete 100 s
     \<and> unat (0 :: u64) \<le> unat (100 :: u64) - unat (created_at_epoch_seconds s)
     \<and> \<not> (restorable s \<and> card (newer_restorable example_snapshots s) < keep_window eager_policy)"
proof -
  have "selection_of (example_snapshot 1 5)
      \<in> set (selections (evaluate_quota_pressure example_snapshots eager_policy 100 50))"
    by code_simp
  from pressure_selects_only_unprotected [OF example_unique_ids this] show ?thesis
    by (simp add: eager_policy_def)
qed

lemma selected_is_candidate:
  assumes "unique_ids snapshots" and "s \<in> set snapshots"
    and "snapshot_id s \<in> selected_snapshot ` set (selections (evaluate_quota_pressure snapshots policy now required))"
  shows "s \<in> set (pressure_candidates (evaluate_retention snapshots policy now) snapshots now)"
proof -
  let ?cs = "pressure_candidates (evaluate_retention snapshots policy now) snapshots now"
  obtain k where "selections (evaluate_quota_pressure snapshots policy now required) = map selection_of (take k ?cs)"
    by (rule evaluate_quota_pressure_selects)
  with assms(3) obtain t where t: "t \<in> set ?cs" "snapshot_id s = snapshot_id t"
    by (auto simp: selection_of_def dest: in_set_takeD)
  then have "t \<in> set snapshots" by (auto simp: pressure_candidates_def)
  with t assms(1,2) show ?thesis by (metis unique_ids_eq)
qed

text \<open>The rank of the window in terms of the recorded times, ties broken by the identifier.\<close>

lemma newer_restorable_times:
  assumes "unique_ids snapshots" and "s \<in> set snapshots"
  shows "newer_restorable snapshots s =
    {t \<in> set snapshots. restorable t \<and> mirror_id t = mirror_id s
       \<and> (created_at_epoch_seconds s < created_at_epoch_seconds t
          \<or> created_at_epoch_seconds s = created_at_epoch_seconds t \<and> snapshot_id s < snapshot_id t)}"
proof -
  have "t \<noteq> s \<and> newest_first t s \<longleftrightarrow> created_at_epoch_seconds s < created_at_epoch_seconds t
      \<or> created_at_epoch_seconds s = created_at_epoch_seconds t \<and> snapshot_id s < snapshot_id t"
    if "t \<in> set snapshots" for t
  proof -
    have "snapshot_id t = snapshot_id s \<longleftrightarrow> t = s" using unique_ids_eq [OF assms(1) that assms(2)] by blast
    then show ?thesis by (auto simp: newest_first_def order_le_less)
  qed
  then show ?thesis unfolding newer_restorable_def by blast
qed

lemma keep_window_max: "keep_window policy = max (unat (keep_last_restorable policy)) 1"
  by (auto simp: keep_window_def max_def word_le_nat_alt)

text \<open>
  C25. The newest restorable snapshots survive any pressure. A restorable snapshot is never selected while
  fewer than \<open>max(keep, 1)\<close> restorable snapshots of its mirror are newer, by creation time and, at equal
  times, by identifier. After everything selected is deleted a mirror therefore still holds \<open>max(keep, 1)\<close>
  of its restorable snapshots, or all of them if it has fewer.
\<close>

theorem pressure_leaves_restorable_window:
  assumes "unique_ids snapshots"
  shows "(\<forall>s \<in> set snapshots. restorable s
           \<and> card {t \<in> set snapshots. restorable t \<and> mirror_id t = mirror_id s
                \<and> (created_at_epoch_seconds s < created_at_epoch_seconds t
                   \<or> created_at_epoch_seconds s = created_at_epoch_seconds t \<and> snapshot_id s < snapshot_id t)}
             < max (unat (keep_last_restorable policy)) 1
           \<longrightarrow> snapshot_id s \<notin> selected_snapshot ` set (selections (evaluate_quota_pressure snapshots policy now required)))
    \<and> min (max (unat (keep_last_restorable policy)) 1) (card {s \<in> set snapshots. restorable s \<and> mirror_id s = mirror})
       \<le> card {s \<in> set snapshots. restorable s \<and> mirror_id s = mirror
                 \<and> snapshot_id s \<notin> selected_snapshot ` set (selections (evaluate_quota_pressure snapshots policy now required))}"
proof
  let ?cs = "pressure_candidates (evaluate_retention snapshots policy now) snapshots now"
  let ?gone = "selected_snapshot ` set (selections (evaluate_quota_pressure snapshots policy now required))"
  note picked = selected_is_candidate [OF assms, where policy = policy and now = now and required = required]
  show "\<forall>s \<in> set snapshots. restorable s
      \<and> card {t \<in> set snapshots. restorable t \<and> mirror_id t = mirror_id s
           \<and> (created_at_epoch_seconds s < created_at_epoch_seconds t
              \<or> created_at_epoch_seconds s = created_at_epoch_seconds t \<and> snapshot_id s < snapshot_id t)}
        < max (unat (keep_last_restorable policy)) 1 \<longrightarrow> snapshot_id s \<notin> ?gone"
  proof (intro ballI impI notI, elim conjE)
    fix s assume s: "s \<in> set snapshots" "restorable s" "snapshot_id s \<in> ?gone"
      and few: "card {t \<in> set snapshots. restorable t \<and> mirror_id t = mirror_id s
           \<and> (created_at_epoch_seconds s < created_at_epoch_seconds t
              \<or> created_at_epoch_seconds s = created_at_epoch_seconds t \<and> snapshot_id s < snapshot_id t)}
        < max (unat (keep_last_restorable policy)) 1"
    have "card (newer_restorable snapshots s) < keep_window policy"
      using few unfolding newer_restorable_times [OF assms s(1)] keep_window_max .
    with s(2) engine.candidate_safe [OF assms picked [OF s(1,3)]] show False by blast
  qed
  have "{s \<in> set snapshots. restorable s \<and> mirror_id s = mirror \<and> s \<notin> set ?cs}
      \<subseteq> {s \<in> set snapshots. restorable s \<and> mirror_id s = mirror \<and> snapshot_id s \<notin> ?gone}"
    using picked by blast
  then have "card {s \<in> set snapshots. restorable s \<and> mirror_id s = mirror \<and> s \<notin> set ?cs}
      \<le> card {s \<in> set snapshots. restorable s \<and> mirror_id s = mirror \<and> snapshot_id s \<notin> ?gone}"
    by (rule card_mono [rotated]) simp
  with engine.candidates_leave_window [OF assms, of policy mirror now]
  show "min (max (unat (keep_last_restorable policy)) 1) (card {s \<in> set snapshots. restorable s \<and> mirror_id s = mirror})
      \<le> card {s \<in> set snapshots. restorable s \<and> mirror_id s = mirror \<and> snapshot_id s \<notin> ?gone}"
    by (simp add: keep_window_max)
qed

text \<open>Of two snapshots and a window of one, the older is selected and the newer is not.\<close>

theorem pressure_leaves_restorable_window_witness:
  "1 \<in> selected_snapshot ` set (selections (evaluate_quota_pressure example_snapshots eager_policy 100 1000))
   \<and> 2 \<notin> selected_snapshot ` set (selections (evaluate_quota_pressure example_snapshots eager_policy 100 1000))"
proof
  show "1 \<in> selected_snapshot ` set (selections (evaluate_quota_pressure example_snapshots eager_policy 100 1000))"
    by code_simp
  have none: "{t \<in> set example_snapshots. restorable t \<and> mirror_id t = mirror_id (example_snapshot 2 6)
      \<and> (created_at_epoch_seconds (example_snapshot 2 6) < created_at_epoch_seconds t
         \<or> created_at_epoch_seconds (example_snapshot 2 6) = created_at_epoch_seconds t
            \<and> snapshot_id (example_snapshot 2 6) < snapshot_id t)} = {}"
    by (auto simp: example_snapshots_def example_snapshot_def)
  have "example_snapshot 2 6 \<in> set example_snapshots" "restorable (example_snapshot 2 6)" "snapshot_id (example_snapshot 2 6) = 2"
    by (simp_all add: example_snapshots_def example_snapshot_def)
  then show "2 \<notin> selected_snapshot ` set (selections (evaluate_quota_pressure example_snapshots eager_policy 100 1000))"
    using conjunct1 [OF pressure_leaves_restorable_window [OF example_unique_ids, of eager_policy 100 1000 7],
        THEN bspec, of "example_snapshot 2 6"]
    unfolding none by simp
qed

lemma pressure_outcome_parts:
  fixes snapshots policy now required
  defines "candidates \<equiv> pressure_candidates (evaluate_retention snapshots policy now) snapshots now"
    and "decision \<equiv> evaluate_quota_pressure snapshots policy now required"
  shows "freed_bytes decision = saturating_sum (map selected_bytes (selections decision))"
    and "allocation_refused decision \<longleftrightarrow> saturating_sum (map estimated_bytes candidates) < required"
    and "selections decision \<noteq> [] \<longrightarrow>
           saturating_sum (map selected_bytes (butlast (selections decision))) < required"
proof -
  obtain k where k: "k \<le> length candidates" "selections decision = map selection_of (take k candidates)"
    "freed_bytes decision = saturating_sum (map estimated_bytes (take k candidates))"
    "k < length candidates \<longrightarrow> required \<le> freed_bytes decision"
    "\<forall>j < k. saturating_sum (map estimated_bytes (take j candidates)) < required"
    unfolding candidates_def decision_def by (rule evaluate_quota_pressure_selects)
  have bytes: "map selected_bytes (map selection_of cs) = map estimated_bytes cs" for cs
    by (simp add: selection_of_def)
  show "freed_bytes decision = saturating_sum (map selected_bytes (selections decision))"
    by (simp only: k(2,3) bytes)
  have refused: "allocation_refused decision \<longleftrightarrow> freed_bytes decision < required"
    by (simp add: decision_def evaluate_quota_pressure_def Let_def split: prod.splits)
  show "allocation_refused decision \<longleftrightarrow> saturating_sum (map estimated_bytes candidates) < required"
  proof (cases "k < length candidates")
    case True
    with k(4) have enough: "required \<le> freed_bytes decision" by simp
    have "sum_list (map (\<lambda>s. unat (estimated_bytes s)) (take k candidates))
        \<le> sum_list (map (\<lambda>s. unat (estimated_bytes s)) candidates)"
      by (metis append_take_drop_id le_add1 map_append sum_list_append)
    then have "saturating_sum (map estimated_bytes (take k candidates))
        \<le> saturating_sum (map estimated_bytes candidates)"
      unfolding word_le_nat_alt unat_saturating_sum map_map comp_def by (rule min.mono) simp
    with enough refused k(3) show ?thesis by auto
  next
    case False
    with k(1,3) refused show ?thesis by simp
  qed
  show "selections decision \<noteq> [] \<longrightarrow>
      saturating_sum (map selected_bytes (butlast (selections decision))) < required"
  proof
    assume "selections decision \<noteq> []"
    with k(2) have "0 < k" by auto
    then have "butlast (selections decision) = map selection_of (take (k - 1) candidates)"
      using k(1,2) by (simp add: butlast_take map_butlast [symmetric])
    with \<open>0 < k\<close> k(5) show "saturating_sum (map selected_bytes (butlast (selections decision))) < required"
      by (simp only: bytes)
  qed
qed

text \<open>
  The pressure outcome is exact and minimal: the reported bytes are the saturating sum of the
  selected estimates, an allocation is refused exactly when all safe candidates together cannot
  release what is required, and without its last selection the plan would not release enough.
\<close>

theorem pressure_outcome_exact:
  "let decision = evaluate_quota_pressure snapshots policy now required;
       candidates = pressure_candidates (evaluate_retention snapshots policy now) snapshots now
   in freed_bytes decision = saturating_sum (map selected_bytes (selections decision))
      \<and> (allocation_refused decision \<longleftrightarrow> saturating_sum (map estimated_bytes candidates) < required)
      \<and> (selections decision = []
          \<or> saturating_sum (map selected_bytes (butlast (selections decision))) < required)"
  unfolding Let_def using pressure_outcome_parts [of snapshots policy now required] by blast

text \<open>
  Retention is deterministic: the decisions depend on the set of snapshots and not on the order
  in which the store returned them.
\<close>

theorem evaluation_order_independent:
  assumes "unique_ids snapshots" and "mset snapshots = mset reordered"
  shows "evaluate_retention snapshots policy now = evaluate_retention reordered policy now"
proof -
  have same: "set reordered = set snapshots" using assms(2) by (metis set_mset_mset)
  have ids: "unique_ids reordered"
    using assms by (metis mset_eq_imp_distinct_iff mset_map)
  have newer: "newer_restorable reordered s = newer_restorable snapshots s" for s
    by (simp add: newer_restorable_def same)
  have kept: "snapshot_id s \<in> keep_last reordered policy \<longleftrightarrow> snapshot_id s \<in> keep_last snapshots policy"
    if "s \<in> set snapshots" for s
    using that assms(1) ids by (simp add: keep_last_iff_rank same newer)
  let ?key = "\<lambda>s. (mirror_id s, created_at_epoch_seconds s, snapshot_id s)"
  have inj: "inj_on ?key (set snapshots)"
    using assms(1) by (auto simp: distinct_map inj_on_def)
  have "sort_key ?key snapshots = sort_key ?key reordered"
    by (rule sort_key_inj_key_eq) (use assms(2) inj in simp_all)
  then show ?thesis
    using kept same by (auto simp: evaluate_retention_def Let_def classify_def)
qed

theorem evaluation_order_independent_witness:
  "evaluate_retention example_snapshots DEFAULT_RETENTION_POLICY 99
     = evaluate_retention (rev example_snapshots) DEFAULT_RETENTION_POLICY 99"
  by (rule evaluation_order_independent) (simp_all add: example_unique_ids)

end
