(* ===== verification/Snapshot_Manifest.thy ===== *)
theory Snapshot_Manifest
  imports Vault_Prelude
begin

text \<open>
  Immutable snapshot manifest evidence (\<open>crates/core/src/snapshot.rs\<close>): blob references, LFS
  evidence, canonical digests, hexadecimal coding, signing and verification, and the bounded walk
  along the parent chain. SHA-256, Ed25519 and JSON serialisation are library code; they are
  parameters (\<open>sha256_hex\<close>, \<open>sign\<close>, \<open>verify\<close>, \<open>to_vec\<close>) of the definitions that use them.
\<close>

subsection \<open>Data\<close>

record BlobRef =
  owner :: string
  sha256 :: string
  media_type :: string
  size_bytes :: u64

record RefEvidence =
  ref_name :: string
  ref_oid :: string

record LfsObjectEvidence =
  oid :: string
  blob :: BlobRef

record LfsEvidence =
  tool_version :: string
  objects :: "LfsObjectEvidence list"
  total_bytes :: u64
  aggregate_sha256 :: string

record UnsignedManifest =
  schema_version :: "16 word"
  refs :: "RefEvidence list"
  generator_version :: string
  created_at :: string
  parent_manifest :: "BlobRef option"
  bundles :: "BlobRef list"
  lfs :: "LfsEvidence option"
  ref_set_sha256 :: string
  signing_key_id :: string

text \<open>\<open>SnapshotManifest\<close> is the unsigned document extended by its signature.\<close>

record SnapshotManifest = UnsignedManifest +
  signature :: string

record ManifestVerificationKey =
  key_id :: string
  public_key :: "u8 list"

datatype ManifestError =
    InvalidSigningKey | InvalidVerificationKey | UnknownSigningKey | InvalidSignature
  | Serialization | InvalidLfsEvidence | MissingManifest | ChainCycle | ChainTooDeep

subsection \<open>Hexadecimal coding\<close>

definition hex_digit :: "nat \<Rightarrow> char" where
  "hex_digit n = (if n < 10 then char_of (48 + n) else char_of (87 + n))"

text \<open>\<open>{byte:02x}\<close> for one byte.\<close>

definition hex_byte :: "u8 \<Rightarrow> string" where
  "hex_byte byte = [hex_digit (unat byte div 16), hex_digit (unat byte mod 16)]"

definition encode_hex :: "u8 list \<Rightarrow> string" where
  "encode_hex bytes = concat (map hex_byte bytes)"

definition hex_value :: "char \<Rightarrow> u8 option" where
  "hex_value byte =
     (if CHR ''0'' \<le> byte \<and> byte \<le> CHR ''9'' then Some (of_nat (of_char byte - 48))
      else if CHR ''a'' \<le> byte \<and> byte \<le> CHR ''f'' then Some (of_nat (of_char byte - 97 + 10))
      else None)"

text \<open>\<open>chunks_exact(2)\<close> with the collected options; the length test precedes it.\<close>

fun decode_pairs :: "string \<Rightarrow> u8 list option" where
  "decode_pairs (h # l # rest) =
     (case hex_value h of
        None \<Rightarrow> None
      | Some high \<Rightarrow>
          (case hex_value l of
             None \<Rightarrow> None
           | Some low \<Rightarrow>
               map_option ((#) (or (push_bit 4 high) low)) (decode_pairs rest)))"
| "decode_pairs _ = Some []"

definition decode_hex :: "string \<Rightarrow> u8 list option" where
  "decode_hex encoded = (if odd (length encoded) then None else decode_pairs encoded)"

subsection \<open>Canonical digests\<close>

definition lfs_digest_input :: "LfsObjectEvidence list \<Rightarrow> string" where
  "lfs_digest_input objs =
     concat (map (\<lambda>obj. oid obj @ '' '' @ decimal (unat (size_bytes (blob obj))) @ '' ''
                          @ sha256 (blob obj) @ [CHR 0x0A]) objs)"

definition canonical_lfs_digest :: "(string \<Rightarrow> string) \<Rightarrow> LfsObjectEvidence list \<Rightarrow> string" where
  "canonical_lfs_digest sha256_hex objs = sha256_hex (lfs_digest_input objs)"

definition ref_digest_input :: "RefEvidence list \<Rightarrow> string" where
  "ref_digest_input rs =
     concat (map (\<lambda>r. ref_oid r @ [CHR 0x09] @ ref_name r @ [CHR 0x0A]) rs)"

definition canonical_ref_digest :: "(string \<Rightarrow> string) \<Rightarrow> RefEvidence list \<Rightarrow> string" where
  "canonical_ref_digest sha256_hex rs = sha256_hex (ref_digest_input rs)"

subsection \<open>LFS evidence\<close>

definition LfsEvidence_new ::
  "(string \<Rightarrow> string) \<Rightarrow> string \<Rightarrow> LfsObjectEvidence list \<Rightarrow> LfsEvidence" where
  "LfsEvidence_new sha256_hex version objs =
     (let sorted_objs = sort_key oid objs
      in \<lparr> tool_version = version, objects = sorted_objs,
           total_bytes = saturating_sum (map (\<lambda>obj. size_bytes (blob obj)) sorted_objs),
           aggregate_sha256 = canonical_lfs_digest sha256_hex sorted_objs \<rparr>)"

text \<open>The per-object loop of \<open>valid_lfs\<close>; \<open>previous\<close> is the last accepted identifier.\<close>

fun valid_lfs_objects :: "string option \<Rightarrow> LfsObjectEvidence list \<Rightarrow> bool" where
  "valid_lfs_objects previous [] = True"
| "valid_lfs_objects previous (obj # rest) =
     (if oid obj \<noteq> sha256 (blob obj)
         \<or> length (oid obj) \<noteq> 64
         \<or> \<not> list_all is_lowercase_hex (oid obj)
         \<or> owner (blob obj) \<noteq> ''ratatoskr-vault''
         \<or> media_type (blob obj) \<noteq> ''application/octet-stream''
         \<or> (case previous of None \<Rightarrow> False | Some value \<Rightarrow> oid obj \<le> value)
      then False
      else valid_lfs_objects (Some (oid obj)) rest)"

definition valid_lfs :: "(string \<Rightarrow> string) \<Rightarrow> LfsEvidence \<Rightarrow> bool" where
  "valid_lfs sha256_hex evidence =
     (if tool_version evidence = ''''
         \<or> total_bytes evidence
             \<noteq> saturating_sum (map (\<lambda>obj. size_bytes (blob obj)) (objects evidence))
         \<or> aggregate_sha256 evidence \<noteq> canonical_lfs_digest sha256_hex (objects evidence)
      then False
      else valid_lfs_objects None (objects evidence))"

subsection \<open>Signing and verification\<close>

text \<open>The unsigned document of a manifest: every field but the signature.\<close>

definition unsigned_document :: "SnapshotManifest \<Rightarrow> UnsignedManifest" where
  "unsigned_document m = UnsignedManifest.truncate m"

definition unsigned_bytes ::
  "(UnsignedManifest \<Rightarrow> u8 list option) \<Rightarrow> SnapshotManifest \<Rightarrow> (ManifestError, u8 list) result" where
  "unsigned_bytes to_vec m =
     (case to_vec (unsigned_document m) of None \<Rightarrow> Inl Serialization | Some bytes \<Rightarrow> Inr bytes)"

record 'k crypto =
  sha256_of :: "string \<Rightarrow> string"
  key_digest :: "u8 list \<Rightarrow> string"
  public_of :: "'k \<Rightarrow> u8 list"
  sign_with :: "'k \<Rightarrow> u8 list \<Rightarrow> u8 list"
  verify_with :: "u8 list \<Rightarrow> u8 list \<Rightarrow> u8 list \<Rightarrow> bool"

definition verification_key :: "'k crypto \<Rightarrow> 'k \<Rightarrow> ManifestVerificationKey" where
  "verification_key c signer =
     \<lparr> key_id = key_digest c (public_of c signer), public_key = public_of c signer \<rparr>"

definition SnapshotManifest_new ::
  "'k crypto \<Rightarrow> (UnsignedManifest \<Rightarrow> u8 list option) \<Rightarrow> string \<Rightarrow> RefEvidence list \<Rightarrow> BlobRef list
     \<Rightarrow> BlobRef option \<Rightarrow> string \<Rightarrow> LfsEvidence option \<Rightarrow> 'k \<Rightarrow> (ManifestError, SnapshotManifest) result" where
  "SnapshotManifest_new c to_vec pkg_version rs bs parent created evidence signer =
     (let sorted_refs = sort_key ref_name rs
      in if (case evidence of None \<Rightarrow> False | Some e \<Rightarrow> \<not> valid_lfs (sha256_of c) e)
         then Inl InvalidLfsEvidence
         else
           let m = \<lparr> schema_version = 1, refs = sorted_refs, generator_version = pkg_version,
                     created_at = created, parent_manifest = parent, bundles = bs, lfs = evidence,
                     ref_set_sha256 = canonical_ref_digest (sha256_of c) sorted_refs,
                     signing_key_id = key_id (verification_key c signer), signature = '''' \<rparr>
           in result_bind (unsigned_bytes to_vec m)
                (\<lambda>bytes. Inr (m\<lparr>signature := encode_hex (sign_with c signer bytes)\<rparr>)))"

definition includes_lfs :: "SnapshotManifest \<Rightarrow> bool" where
  "includes_lfs m = (lfs m \<noteq> None)"

definition verify_signature ::
  "'k crypto \<Rightarrow> (UnsignedManifest \<Rightarrow> u8 list option) \<Rightarrow> ManifestVerificationKey list
     \<Rightarrow> SnapshotManifest \<Rightarrow> (ManifestError, unit) result" where
  "verify_signature c to_vec trusted_keys m =
     (case find (\<lambda>key. key_id key = signing_key_id m) trusted_keys of
        None \<Rightarrow> Inl UnknownSigningKey
      | Some trusted_key \<Rightarrow>
          (case decode_hex (signature m) of
             None \<Rightarrow> Inl InvalidSignature
           | Some sig \<Rightarrow>
               result_bind (unsigned_bytes to_vec m)
                 (\<lambda>unsigned. if verify_with c (public_key trusted_key) unsigned sig
                             then Inr () else Inl InvalidSignature)))"

subsection \<open>The parent chain\<close>

text \<open>
  The \<open>while chain.len() < max_depth\<close> loop: \<open>budget\<close> is \<open>max_depth - chain.len()\<close>, \<open>visited\<close>
  the digests seen so far and \<open>chain\<close> the references accepted so far. Each round trip either
  returns or spends one unit of the budget.
\<close>

fun chain_loop ::
  "'k crypto \<Rightarrow> (UnsignedManifest \<Rightarrow> u8 list option) \<Rightarrow> ManifestVerificationKey list
     \<Rightarrow> (BlobRef \<Rightarrow> (ManifestError, SnapshotManifest) result)
     \<Rightarrow> nat \<Rightarrow> string set \<Rightarrow> BlobRef list \<Rightarrow> BlobRef \<Rightarrow> (ManifestError, BlobRef list) result" where
  "chain_loop c to_vec trusted_keys load 0 visited chain current = Inl ChainTooDeep"
| "chain_loop c to_vec trusted_keys load (Suc budget) visited chain current =
     (if sha256 current \<in> visited then Inl ChainCycle
      else result_bind (load current) (\<lambda>manifest.
           result_bind (verify_signature c to_vec trusted_keys manifest) (\<lambda>_.
             case parent_manifest manifest of
               None \<Rightarrow> Inr (chain @ [current])
             | Some parent \<Rightarrow>
                 chain_loop c to_vec trusted_keys load budget
                   (insert (sha256 current) visited) (chain @ [current]) parent)))"

definition verify_manifest_chain ::
  "'k crypto \<Rightarrow> (UnsignedManifest \<Rightarrow> u8 list option) \<Rightarrow> BlobRef \<Rightarrow> ManifestVerificationKey list
     \<Rightarrow> nat \<Rightarrow> (BlobRef \<Rightarrow> (ManifestError, SnapshotManifest) result)
     \<Rightarrow> (ManifestError, BlobRef list) result" where
  "verify_manifest_chain c to_vec head_ref trusted_keys max_depth load =
     chain_loop c to_vec trusted_keys load max_depth {} [] head_ref"

subsection \<open>Hexadecimal facts\<close>

lemma hex_digit_table:
  "list_all (\<lambda>n. hex_value (hex_digit n) = Some (of_nat n)) [0..<16]"
  by code_simp

text \<open>Evaluation looks a digit up in the table instead of computing its code point.\<close>

lemma hex_digit_code [code]: "hex_digit n = (if n < 16 then ''0123456789abcdef'' ! n else char_of (87 + n))"
proof (cases "n < 16")
  case True
  have "list_all (\<lambda>n. hex_digit n = ''0123456789abcdef'' ! n) [0..<16]" by code_simp
  with True show ?thesis by (simp add: list_all_iff del: upt_rec_numeral)
qed (simp add: hex_digit_def)

lemma nibble_table:
  "list_all (\<lambda>a. list_all (\<lambda>b. unat (or (push_bit 4 (of_nat a)) (of_nat b) :: u8) = 16 * a + b) [0..<16]) [0..<16]"
  by code_simp

lemma hex_value_hex_digit: "n < 16 \<Longrightarrow> hex_value (hex_digit n) = Some (of_nat n)"
  using hex_digit_table by (simp add: list_all_iff del: upt_rec_numeral)

lemma hex_value_Some:
  assumes "hex_value ch = Some v"
  shows "unat v < 16 \<and> hex_digit (unat v) = ch"
proof -
  define n :: nat where "n = of_char ch"
  have ch: "ch = char_of n" by (simp add: n_def)
  have small: "unat (of_nat k :: u8) = k" if "k < 256" for k
    using that by (simp add: unat_of_nat)
  from assms consider "48 \<le> n" "n \<le> 57" "v = of_nat (n - 48)"
    | "97 \<le> n" "n \<le> 102" "v = of_nat (n - 97 + 10)"
    by (auto simp: hex_value_def less_eq_char_def n_def split: if_splits)
  then show ?thesis
  proof cases
    case 1
    then have "unat v = n - 48" by (simp only: small)
    with 1 show ?thesis by (simp add: hex_digit_def ch)
  next
    case 2
    then have "unat v = n - 97 + 10" by (simp only: small)
    moreover have "\<not> n - 97 + 10 < 10" "n - 97 + 10 < 16" "87 + (n - 97 + 10) = n" using 2 by auto
    ultimately show ?thesis by (simp only: hex_digit_def ch if_False)
  qed
qed

lemma unat_nibbles:
  assumes "a < 16" "b < 16"
  shows "unat (or (push_bit 4 (of_nat a)) (of_nat b) :: u8) = 16 * a + b"
proof -
  from assms have "a \<in> set [0..<16]" "b \<in> set [0..<16]" by (simp_all del: upt_rec_numeral)
  with nibble_table show ?thesis unfolding list_all_iff by blast
qed

lemma encode_hex_Cons: "encode_hex (b # bs) = hex_byte b @ encode_hex bs"
  by (simp add: encode_hex_def)

lemma length_encode_hex [simp]: "length (encode_hex bs) = 2 * length bs"
  by (induction bs) (simp_all add: encode_hex_def hex_byte_def)

lemma decode_hex_byte: "decode_pairs (hex_byte b @ s) = map_option ((#) b) (decode_pairs s)"
proof -
  have "unat b < 256" using unsigned_less [of b] by simp
  then have nib: "unat b div 16 < 16" "unat b mod 16 < 16" by auto
  have "unat (or (push_bit 4 (of_nat (unat b div 16))) (of_nat (unat b mod 16)) :: u8) = unat b"
    unfolding unat_nibbles [OF nib] by simp
  then have "(or (push_bit 4 (of_nat (unat b div 16))) (of_nat (unat b mod 16)) :: u8) = b"
    by (simp only: word_unat_eq_iff)
  with nib show ?thesis by (simp add: hex_byte_def hex_value_hex_digit)
qed

lemma decode_pairs_encode: "decode_pairs (encode_hex bs) = Some bs"
  by (induction bs) (simp_all add: encode_hex_Cons decode_hex_byte, simp add: encode_hex_def)

lemma hex_byte_nibbles:
  assumes "hex_value h = Some hi" "hex_value l = Some lo"
  shows "hex_byte (or (push_bit 4 hi) lo) = [h, l]"
proof -
  from assms have hi: "unat hi < 16" "hex_digit (unat hi) = h" and lo: "unat lo < 16" "hex_digit (unat lo) = l"
    by (auto dest: hex_value_Some)
  have "unat (or (push_bit 4 hi) lo) = 16 * unat hi + unat lo"
    using unat_nibbles [OF hi(1) lo(1)] by simp
  with hi lo show ?thesis by (simp add: hex_byte_def)
qed

lemma encode_decode_pairs:
  "even (length s) \<Longrightarrow> decode_pairs s = Some bs \<Longrightarrow> encode_hex bs = s"
proof (induction s arbitrary: bs rule: decode_pairs.induct)
  case (1 h l rest)
  then obtain hi lo bs' where "hex_value h = Some hi" "hex_value l = Some lo"
    "decode_pairs rest = Some bs'" "bs = or (push_bit 4 hi) lo # bs'"
    by (auto split: option.splits)
  with 1 show ?case by (auto simp: encode_hex_Cons hex_byte_nibbles)
qed (auto simp: encode_hex_def)

subsection \<open>Chains\<close>

text \<open>The parent link of a reference whose manifest loads and verifies.\<close>

definition accepted_parent ::
  "'k crypto \<Rightarrow> (UnsignedManifest \<Rightarrow> u8 list option) \<Rightarrow> ManifestVerificationKey list
     \<Rightarrow> (BlobRef \<Rightarrow> (ManifestError, SnapshotManifest) result) \<Rightarrow> BlobRef \<Rightarrow> BlobRef option option" where
  "accepted_parent c to_vec keys load r =
     (case load r of Inl _ \<Rightarrow> None
      | Inr m \<Rightarrow> if verify_signature c to_vec keys m = Inr () then Some (parent_manifest m) else None)"

fun authentic_chain :: "(BlobRef \<Rightarrow> BlobRef option option) \<Rightarrow> BlobRef list \<Rightarrow> bool" where
  "authentic_chain parent_of [] = False"
| "authentic_chain parent_of [r] = (parent_of r = Some None)"
| "authentic_chain parent_of (r # s # rest) =
     (parent_of r = Some (Some s) \<and> authentic_chain parent_of (s # rest))"

lemma chain_loop_Suc:
  "chain_loop c to_vec keys load (Suc budget) visited chain cur = Inr res \<longleftrightarrow>
     sha256 cur \<notin> visited \<and>
     (case accepted_parent c to_vec keys load cur of
        None \<Rightarrow> False
      | Some None \<Rightarrow> res = chain @ [cur]
      | Some (Some p) \<Rightarrow>
          chain_loop c to_vec keys load budget (insert (sha256 cur) visited) (chain @ [cur]) p = Inr res)"
  by (auto simp: accepted_parent_def split: option.splits sum.splits if_splits)

declare chain_loop.simps(2) [simp del]

lemma chain_loop_Inr:
  "chain_loop c to_vec keys load budget visited chain cur = Inr res \<longleftrightarrow>
     (\<exists>suffix. res = chain @ cur # suffix
        \<and> authentic_chain (accepted_parent c to_vec keys load) (cur # suffix)
        \<and> distinct (map sha256 (cur # suffix)) \<and> sha256 ` set (cur # suffix) \<inter> visited = {}
        \<and> length (cur # suffix) \<le> budget)"
proof (induction budget arbitrary: visited chain cur)
  case 0
  then show ?case by simp
next
  case (Suc budget)
  let ?par = "accepted_parent c to_vec keys load"
  consider "?par cur = None" | "?par cur = Some None" | p where "?par cur = Some (Some p)"
    by (metis option.exhaust)
  then show ?case
  proof cases
    case 1
    then have "\<not> authentic_chain ?par (cur # suffix)" for suffix by (cases suffix) auto
    with 1 show ?thesis by (simp add: chain_loop_Suc)
  next
    case 2
    then have "authentic_chain ?par (cur # suffix) \<longleftrightarrow> suffix = []" for suffix by (cases suffix) auto
    with 2 show ?thesis by (auto simp: chain_loop_Suc)
  next
    case (3 p)
    then have auth: "authentic_chain ?par (cur # suffix) \<longleftrightarrow>
        (\<exists>rest. suffix = p # rest \<and> authentic_chain ?par (p # rest))" for suffix
      by (cases suffix) auto
    show ?thesis
      unfolding chain_loop_Suc Suc.IH auth 3 by auto
  qed
qed

subsection \<open>Digest inputs\<close>

lemma split_at_separator:
  assumes "x @ sep # xs = y @ sep # ys" and "sep \<notin> set x" and "sep \<notin> set y"
  shows "x = y \<and> xs = ys"
  using assms by (auto simp: append_eq_append_conv2 append_eq_Cons_conv Cons_eq_append_conv)

definition well_formed_ref :: "RefEvidence \<Rightarrow> bool" where
  "well_formed_ref r \<longleftrightarrow> CHR 0x09 \<notin> set (ref_oid r) \<and> CHR 0x0A \<notin> set (ref_name r)"

lemma ref_digest_input_Cons:
  "ref_digest_input (r # rs) = ref_oid r @ CHR 0x09 # ref_name r @ CHR 0x0A # ref_digest_input rs"
  by (simp add: ref_digest_input_def)

lemma ref_digest_input_Nil: "ref_digest_input rs = [] \<longleftrightarrow> rs = []"
  by (cases rs) (simp_all add: ref_digest_input_def)

lemma ref_digest_input_inject:
  "list_all well_formed_ref rs \<Longrightarrow> list_all well_formed_ref rs' \<Longrightarrow>
     ref_digest_input rs = ref_digest_input rs' \<Longrightarrow> rs = rs'"
proof (induction rs arbitrary: rs')
  case Nil
  then show ?case by (metis ref_digest_input_Nil)
next
  case (Cons r rs)
  then obtain r' rs'' where rs': "rs' = r' # rs''" by (metis ref_digest_input_Nil list.exhaust)
  from Cons.prems have wf: "well_formed_ref r" "well_formed_ref r'" "list_all well_formed_ref rs''"
    by (auto simp: rs')
  from Cons.prems(3) have eq: "ref_oid r @ CHR 0x09 # (ref_name r @ CHR 0x0A # ref_digest_input rs)
      = ref_oid r' @ CHR 0x09 # (ref_name r' @ CHR 0x0A # ref_digest_input rs'')"
    by (simp add: rs' ref_digest_input_Cons)
  from split_at_separator [OF eq] wf have oids: "ref_oid r = ref_oid r'"
    and eq2: "ref_name r @ CHR 0x0A # ref_digest_input rs = ref_name r' @ CHR 0x0A # ref_digest_input rs''"
    by (auto simp: well_formed_ref_def)
  from split_at_separator [OF eq2] wf have "ref_name r = ref_name r'"
      "ref_digest_input rs = ref_digest_input rs''"
    by (auto simp: well_formed_ref_def)
  with oids wf Cons show ?case by (auto simp: rs')
qed

subsection \<open>LFS evidence\<close>

definition well_formed_lfs_object :: "LfsObjectEvidence \<Rightarrow> bool" where
  "well_formed_lfs_object obj \<longleftrightarrow>
     oid obj = sha256 (blob obj) \<and> length (oid obj) = 64 \<and> list_all is_lowercase_hex (oid obj)
     \<and> owner (blob obj) = ''ratatoskr-vault'' \<and> media_type (blob obj) = ''application/octet-stream''"

lemma valid_lfs_objects_iff:
  "valid_lfs_objects previous objs \<longleftrightarrow>
     list_all well_formed_lfs_object objs \<and> sorted_wrt (<) (map oid objs)
     \<and> (case previous of None \<Rightarrow> True | Some value \<Rightarrow> (\<forall>obj \<in> set objs. value < oid obj))"
proof (induction objs arbitrary: previous)
  case Nil
  then show ?case by (simp split: option.splits)
next
  case (Cons obj objs)
  show ?case
    by (cases previous) (auto simp: Cons.IH well_formed_lfs_object_def not_le)
qed

subsection \<open>Properties\<close>

text \<open>
  Hexadecimal coding is exact in both directions: a string decodes to a byte list if and only if
  it is the lowercase encoding of that list, so a signature has one textual form only.
\<close>

theorem decode_hex_iff_encode_hex: "decode_hex s = Some bs \<longleftrightarrow> s = encode_hex bs"
  by (auto simp: decode_hex_def decode_pairs_encode encode_decode_pairs split: if_splits)

lemma built_manifest_verifies:
  assumes crypto_sound: "\<And>k msg. verify_with c (public_of c k) msg (sign_with c k msg)"
    and built: "SnapshotManifest_new c to_vec version rs bs parent created evidence signer = Inr m"
    and trusted: "find (\<lambda>key. key_id key = key_id (verification_key c signer)) trusted_keys
                    = Some (verification_key c signer)"
  shows "verify_signature c to_vec trusted_keys m = Inr ()"
proof -
  from built obtain m0 bytes where
    m0: "unsigned_bytes to_vec m0 = Inr bytes" "m = m0\<lparr>signature := encode_hex (sign_with c signer bytes)\<rparr>"
      "signing_key_id m0 = key_id (verification_key c signer)"
    by (auto simp: SnapshotManifest_new_def Let_def split: if_splits)
  have same: "unsigned_document m = unsigned_document m0"
    by (simp add: m0(2) unsigned_document_def UnsignedManifest.truncate_def)
  then have "unsigned_bytes to_vec m = Inr bytes"
    using m0(1) by (simp add: unsigned_bytes_def)
  moreover have "decode_hex (signature m) = Some (sign_with c signer bytes)"
    by (simp add: m0(2) decode_hex_def decode_pairs_encode)
  ultimately show ?thesis
    using trusted crypto_sound m0 by (simp add: verify_signature_def verification_key_def)
qed

text \<open>
  C38. What Vault signs, Vault accepts: when signatures made with a key verify under its public key,
  every manifest built by the constructor passes verification against a trusted set whose entry for
  the signer's key identifier is the signer's public key.
\<close>

theorem signed_manifest_verifies:
  assumes crypto_sound: "\<And>k msg. verify_with c (public_of c k) msg (sign_with c k msg)"
    and built: "SnapshotManifest_new c to_vec version rs bs parent created evidence signer = Inr m"
    and trusted: "find (\<lambda>key. key_id key = key_id (verification_key c signer)) trusted_keys
                    = Some (verification_key c signer)"
  shows "verify_signature c to_vec trusted_keys m = Inr ()"
  using assms by (rule built_manifest_verifies)

definition example_crypto :: "u8 crypto" where
  "example_crypto =
     \<lparr> sha256_of = id, key_digest = (\<lambda>pk. ''key''), public_of = (\<lambda>k. [k]),
       sign_with = (\<lambda>k msg. k # msg), verify_with = (\<lambda>pk msg sig. sig = pk @ msg) \<rparr>"

definition example_manifest :: SnapshotManifest where
  "example_manifest =
     \<lparr> schema_version = 1, refs = [], generator_version = ''0.1.0'', created_at = ''now'',
       parent_manifest = None, bundles = [], lfs = None, ref_set_sha256 = [],
       signing_key_id = ''key'', signature = encode_hex [5, 1, 2] \<rparr>"

theorem signed_manifest_verifies_witness:
  "verify_signature example_crypto (\<lambda>_. Some [1, 2]) [verification_key example_crypto 5]
     example_manifest = Inr ()"
proof (rule signed_manifest_verifies [where signer = 5])
  show "verify_with example_crypto (public_of example_crypto k) msg (sign_with example_crypto k msg)"
    for k msg by (simp add: example_crypto_def)
  show "SnapshotManifest_new example_crypto (\<lambda>_. Some [1, 2]) ''0.1.0'' [] [] None ''now'' None 5
      = Inr example_manifest"
    by (simp add: SnapshotManifest_new_def example_manifest_def example_crypto_def unsigned_bytes_def
        verification_key_def canonical_ref_digest_def ref_digest_input_def Let_def)
qed simp

text \<open>
  The chain walk is sound and complete: it returns a chain exactly when that chain starts at the
  requested head, every manifest on it loads and verifies and names the next one as its parent, the
  last one has no parent, no digest repeats, and the depth bound is respected.
\<close>

theorem verify_manifest_chain_exact:
  "verify_manifest_chain c to_vec head_ref trusted_keys max_depth load = Inr chain \<longleftrightarrow>
     authentic_chain (accepted_parent c to_vec trusted_keys load) chain
     \<and> hd chain = head_ref \<and> distinct (map sha256 chain) \<and> length chain \<le> max_depth"
proof (cases chain)
  case Nil
  then show ?thesis by (simp add: verify_manifest_chain_def chain_loop_Inr)
next
  case (Cons r rest)
  then show ?thesis by (auto simp: verify_manifest_chain_def chain_loop_Inr)
qed

text \<open>
  The canonical ref stream loses nothing: two ref lists whose object identifiers contain no tab
  and whose names contain no line feed produce the same digest input only if they are equal.
\<close>

theorem ref_stream_injective:
  assumes "list_all well_formed_ref rs" and "list_all well_formed_ref rs'"
    and "ref_digest_input rs = ref_digest_input rs'"
  shows "rs = rs'"
  by (rule ref_digest_input_inject) (fact assms)+

theorem ref_stream_injective_witness:
  "[\<lparr>ref_name = ''refs/heads/main'', ref_oid = ''abc''\<rparr>]
     = sort_key ref_name [\<lparr>ref_name = ''refs/heads/main'', ref_oid = ''abc''\<rparr>]"
  by (rule ref_stream_injective) (simp_all add: well_formed_ref_def)

text \<open>
  Accepted LFS evidence is canonical: evidence is valid exactly when it is what the constructor
  builds from its own objects, with a named tool, well-formed Vault-owned blobs and no repeated
  object identifier; in particular the objects are in strictly ascending order.
\<close>

theorem valid_lfs_iff_canonical:
  "valid_lfs sha256_hex evidence \<longleftrightarrow>
     tool_version evidence \<noteq> '''' \<and> list_all well_formed_lfs_object (objects evidence)
     \<and> distinct (map oid (objects evidence))
     \<and> evidence = LfsEvidence_new sha256_hex (tool_version evidence) (objects evidence)"
proof -
  let ?objs = "objects evidence"
  have canonical: "sorted (map oid ?objs) \<longleftrightarrow> sort_key oid ?objs = ?objs"
    by (metis sort_key_id_if_sorted sorted_sort_key)
  have eq: "evidence = LfsEvidence_new sha256_hex (tool_version evidence) ?objs \<longleftrightarrow>
      sort_key oid ?objs = ?objs
      \<and> total_bytes evidence = saturating_sum (map (\<lambda>obj. size_bytes (blob obj)) ?objs)
      \<and> aggregate_sha256 evidence = canonical_lfs_digest sha256_hex ?objs"
    by (cases evidence) (auto simp: LfsEvidence_new_def Let_def)
  show ?thesis
    unfolding eq canonical [symmetric]
    by (auto simp: valid_lfs_def valid_lfs_objects_iff strict_sorted_iff)
qed

end
