(* ===== verification/Vault_Store.thy ===== *)
theory Vault_Store
  imports Planner Retention_Policy
begin

text \<open>
  The persistent state of Vault and the transactions over it (\<open>crates/persistence/src/lib.rs\<close>,
  \<open>policy_lane.rs\<close>, the target part of \<open>retention.rs\<close>, and the constraints and triggers of
  \<open>schema.sql\<close> those statements meet). The database is a record of its tables; a transaction is a
  function that returns either an error, leaving the caller's database as it was, or the new one.
  Infrastructure failures (pool, connection) are not modelled: every modelled failure is a
  constraint, a trigger or a rule of the code. Identifiers minted by \<open>Uuid::now_v7\<close>, the text
  form of an identifier and name-based identifiers come from the \<open>uuid\<close> crate and are members of
  the environment record.
\<close>

subsection \<open>Tables\<close>

text \<open>Timestamps are microseconds, as \<open>timestamptz\<close> stores them.\<close>

type_synonym timestamp = int

record store_env =
  mint :: "nat \<Rightarrow> uuid"
  uuid_to_string :: "uuid \<Rightarrow> string"
  uuid_parse_str :: "string \<Rightarrow> uuid option"
  uuid_new_v5 :: "uuid \<Rightarrow> string \<Rightarrow> uuid"

record TargetRow =
  t_id :: uuid
  t_provider :: string
  t_external :: string
  t_kind :: string
  t_parent :: "uuid option"
  t_status :: string
  t_pinned :: bool

record RevisionRow =
  r_target :: uuid
  r_revision :: int
  r_level :: string
  r_pinned :: bool
  r_wiki :: bool
  r_releases :: bool
  r_issues :: bool
  r_offsite :: bool
  r_correlation :: string
  r_source :: "string option"

record TombstoneRow =
  tb_id :: uuid
  tb_target :: uuid
  tb_revision :: int
  tb_reason :: string
  tb_correlation :: uuid
  tb_recorded_at :: timestamp
  tb_not_before :: timestamp
  tb_cancelled_at :: "timestamp option"
  tb_completed_at :: "timestamp option"

record PlanRow =
  dp_id :: uuid
  dp_evaluation :: uuid
  dp_target :: uuid
  dp_snapshot :: uuid
  dp_tombstone :: "uuid option"
  dp_reason :: string
  dp_automatic :: bool
  dp_tombstoned_at :: timestamp
  dp_not_before :: timestamp
  dp_estimated_bytes :: int
  dp_status :: string
  dp_correlation :: uuid
  dp_cancelled_at :: "timestamp option"
  dp_completed_at :: "timestamp option"

record StageRow =
  st_id :: uuid
  st_plan :: uuid
  st_kind :: string
  st_key :: string
  st_artifact :: "uuid option"
  st_replica_target :: "uuid option"
  st_placement :: "uuid option"
  st_claim :: "uuid option"
  st_ordinal :: int
  st_outcome :: string
  st_failure_class :: "string option"
  st_lease_owner :: uuid
  st_lease_expires_at :: timestamp
  st_absence_verified :: bool
  st_started_at :: timestamp
  st_finished_at :: "timestamp option"

record ClaimRow =
  cl_id :: uuid
  cl_plan :: uuid
  cl_identity_kind :: string
  cl_identity_key :: string
  cl_lease_owner :: uuid
  cl_lease_expires_at :: timestamp
  cl_outcome :: string
  cl_failure_class :: "string option"
  cl_started_at :: timestamp
  cl_finished_at :: "timestamp option"

text \<open>
  The tables of the mirrors, snapshots and replicas, with the columns the modelled code reads or writes.
\<close>

record MirrorRow =
  mr_id :: uuid
  mr_target :: uuid
  mr_status :: string
  mr_storage_path :: string
  mr_fsck_result :: string
  mr_bytes_on_disk :: int
  mr_last_fetch_at :: "timestamp option"

record MirrorRunRow =
  lr_id :: uuid
  lr_target :: uuid
  lr_operation :: string
  lr_outcome :: string
  lr_failure_class :: "string option"
  lr_checkpoint :: "string option"
  lr_object_count :: "int option"
  lr_bytes_on_disk :: "int option"
  lr_created_at :: timestamp

record ReservationRow =
  qr_run :: uuid
  qr_target :: uuid
  qr_reserved_bytes :: int
  qr_created_at :: timestamp

record SnapshotRow =
  sn_id :: uuid
  sn_target :: uuid
  sn_mirror :: uuid
  sn_run :: uuid
  sn_parent :: "uuid option"
  sn_status :: string
  sn_refs_hash :: "u8 list"
  sn_includes_lfs :: bool
  sn_created_at :: timestamp

record ArtifactRow =
  ar_id :: uuid
  ar_snapshot :: uuid
  ar_kind :: string
  ar_sha256 :: "u8 list"
  ar_owner :: string
  ar_media_type :: string
  ar_size_bytes :: int

record LfsObjectRow =
  lo_snapshot :: uuid
  lo_artifact :: uuid
  lo_oid :: string
  lo_sha256 :: "u8 list"
  lo_size_bytes :: int

record ManifestRow =
  mf_id :: uuid
  mf_snapshot :: uuid
  mf_hash :: "u8 list"
  mf_owner :: string
  mf_media_type :: string
  mf_size_bytes :: int

record ReplicaTargetRow =
  rt_id :: uuid
  rt_name :: string
  rt_endpoint_origin :: string
  rt_bucket :: string
  rt_key_prefix :: string
  rt_required :: bool
  rt_enabled :: bool
  rt_first_seen_at :: timestamp
  rt_last_seen_at :: timestamp

record ReplicationAttemptRow =
  ra_id :: uuid
  ra_artifact :: uuid
  ra_replica_target :: uuid
  ra_outcome :: string
  ra_failure_class :: "string option"
  ra_lease_owner :: uuid
  ra_lease_expires_at :: timestamp
  ra_remote_hash :: "u8 list option"
  ra_remote_size :: "int option"
  ra_started_at :: timestamp
  ra_finished_at :: "timestamp option"

record PlacementRow =
  rp_id :: uuid
  rp_artifact :: uuid
  rp_replica_target :: uuid
  rp_object_key :: string
  rp_sha256 :: "u8 list"
  rp_size_bytes :: int
  rp_first_placed_at :: timestamp
  rp_last_verified_at :: timestamp
  rp_last_attempt :: uuid

record RetentionPolicyRow =
  po_id :: uuid
  po_minimum_age_seconds :: int
  po_grace_seconds :: int
  po_keep_last_restorable :: int

record EvaluationRow =
  ev_id :: uuid
  ev_target :: uuid
  ev_policy :: uuid
  ev_mode :: string
  ev_policy_snapshot :: RetentionPolicy
  ev_required_bytes :: "int option"
  ev_outcome :: string
  ev_correlation :: uuid
  ev_evaluated_at :: timestamp

record CandidateRow =
  ca_evaluation :: uuid
  ca_snapshot :: uuid
  ca_ordinal :: int
  ca_classification :: string
  ca_pin_sources :: "string list"
  ca_target_inactive :: bool
  ca_estimated_bytes :: int
  ca_deletion_not_before :: "timestamp option"

record PinRow =
  pin_id :: uuid
  pin_snapshot :: uuid
  pin_source :: string
  pin_reference :: string
  pin_correlation :: uuid
  pin_pinned_at :: timestamp
  pin_revoked_at :: "timestamp option"
  pin_revocation_correlation :: "uuid option"

record AuditRow =
  au_id :: uuid
  au_target :: uuid
  au_snapshot :: "uuid option"
  au_evaluation :: "uuid option"
  au_plan :: "uuid option"
  au_event_kind :: string
  au_reason :: string
  au_outcome :: string
  au_correlation :: uuid
  au_occurred_at :: timestamp

text \<open>\<open>serde_json::Value\<close>, the content of a \<open>jsonb\<close> column; the reports hold no fractional number.\<close>

datatype json =
    JNull
  | JBool bool
  | JNumber int
  | JString string
  | JArray "json list"
  | JObject "(string \<times> json) list"

record CollectorRunRow =
  cr_id :: uuid
  cr_target :: uuid
  cr_collector :: string
  cr_outcome :: string
  cr_mirror_run :: "uuid option"
  cr_child_target :: "uuid option"
  cr_tool_version :: "string option"
  cr_object_count :: int
  cr_total_bytes :: int
  cr_aggregate_hash :: "u8 list option"
  cr_failure_class :: "string option"
  cr_ran_at :: timestamp

record IntegrityCheckRow =
  ic_id :: uuid
  ic_snapshot :: uuid
  ic_manifest_hash :: "u8 list"
  ic_outcome :: string
  ic_failure_class :: "string option"
  ic_duration_millis :: int
  ic_stages :: json
  ic_checked_artifacts :: json
  ic_expected_ref_count :: int
  ic_expected_refs_hash :: "u8 list"
  ic_started_at :: timestamp
  ic_finished_at :: timestamp

record RestoreDrillRow =
  rd_id :: uuid
  rd_snapshot :: uuid
  rd_manifest_hash :: "u8 list"
  rd_source_kind :: string
  rd_replica_target :: "uuid option"
  rd_outcome :: string
  rd_failure_class :: "string option"
  rd_refs_matched :: bool
  rd_lfs_restored :: "bool option"
  rd_expected_lfs_object_count :: "int option"
  rd_observed_lfs_object_count :: "int option"
  rd_expected_lfs_bytes :: "int option"
  rd_observed_lfs_bytes :: "int option"
  rd_expected_lfs_aggregate_hash :: "u8 list option"
  rd_observed_lfs_aggregate_hash :: "u8 list option"
  rd_duration_millis :: int
  rd_stages :: json
  rd_expected_ref_count :: int
  rd_observed_ref_count :: int
  rd_expected_refs_hash :: "u8 list"
  rd_observed_refs_hash :: "u8 list"
  rd_network_disabled :: bool
  rd_live_mirror_accessed :: bool
  rd_started_at :: timestamp
  rd_finished_at :: timestamp

datatype OutboxPayload =
    StateChanged uuid "string option" string int string
  | AcknowledgementEnvelope string
  | VerificationFailedFact uuid uuid string "string option"
  | RestoreFailedFact uuid uuid string "string option"

record OutboxRow =
  ob_event_id :: uuid
  ob_event_type :: string
  ob_aggregate_type :: string
  ob_aggregate_id :: string
  ob_payload :: OutboxPayload
  ob_created_at :: timestamp
  ob_published_at :: "timestamp option"
  ob_attempt_count :: int
  ob_last_error :: "string option"
  ob_next_attempt_at :: "timestamp option"

record CommandRow =
  cm_id :: uuid
  cm_version :: int
  cm_outcome :: string
  cm_rejection_code :: "string option"
  cm_acknowledgement :: uuid

record vault_db =
  targets :: "TargetRow list"
  revisions :: "RevisionRow list"
  inbox :: "(string \<times> uuid) list"
  outbox :: "OutboxRow list"
  tombstones :: "TombstoneRow list"
  plans :: "PlanRow list"
  stages :: "StageRow list"
  claims :: "ClaimRow list"
  pins :: "PinRow list"
  snapshots :: "SnapshotRow list"
  artifacts :: "ArtifactRow list"
  mirrors :: "MirrorRow list"
  mirror_runs :: "MirrorRunRow list"
  reservations :: "ReservationRow list"
  lfs_objects :: "LfsObjectRow list"
  manifests :: "ManifestRow list"
  replica_targets :: "ReplicaTargetRow list"
  replication_attempts :: "ReplicationAttemptRow list"
  placements :: "PlacementRow list"
  collector_runs :: "CollectorRunRow list"
  integrity_checks :: "IntegrityCheckRow list"
  restore_drills :: "RestoreDrillRow list"
  retention_policies :: "RetentionPolicyRow list"
  evaluations :: "EvaluationRow list"
  candidates :: "CandidateRow list"
  audit :: "AuditRow list"
  commands :: "CommandRow list"
  minted :: nat

definition empty_db :: vault_db where
  "empty_db =
     \<lparr> targets = [], revisions = [], inbox = [], outbox = [], tombstones = [], plans = [],
       stages = [], claims = [], pins = [], snapshots = [], artifacts = [], mirrors = [],
       mirror_runs = [], reservations = [], lfs_objects = [], manifests = [], replica_targets = [],
       replication_attempts = [], placements = [], collector_runs = [], integrity_checks = [], restore_drills = [],
       retention_policies = [], evaluations = [], candidates = [], audit = [], commands = [], minted = 0 \<rparr>"

text \<open>\<open>Uuid::now_v7\<close>: the next identifier of the sequence, never handed out again.\<close>

definition now_v7 :: "store_env \<Rightarrow> vault_db \<Rightarrow> uuid" where
  "now_v7 env db = mint env (minted db)"

definition advance :: "vault_db \<Rightarrow> vault_db" where
  "advance db = db\<lparr>minted := Suc (minted db)\<rparr>"

text \<open>\<open>length(text)\<close> of PostgreSQL counts characters: every byte that does not continue one.\<close>

definition char_length :: "string \<Rightarrow> nat" where
  "char_length s = length (filter (\<lambda>b. (of_char b :: nat) div 64 \<noteq> 2) s)"

text \<open>Evaluation looks at the two leading bits of a byte.\<close>

lemma char_length_code [code]: "char_length s = length (filter (\<lambda>b. \<not> (digit7 b \<and> \<not> digit6 b)) s)"
proof -
  have "((of_char b :: nat) div 64 \<noteq> 2) = (\<not> (digit7 b \<and> \<not> digit6 b))" for b
  proof (cases b)
    case (Char b0 b1 b2 b3 b4 b5 b6 b7)
    then show ?thesis by (cases b0; cases b1; cases b2; cases b3; cases b4; cases b5; cases b6; cases b7) simp_all
  qed
  then show ?thesis by (simp add: char_length_def)
qed

definition i64_try_from :: "u64 \<Rightarrow> int option" where
  "i64_try_from v = (if uint v < 2 ^ 63 then Some (uint v) else None)"

subsection \<open>The target guard\<close>

text \<open>A refusal raised by a trigger: its SQLSTATE and its message.\<close>

type_synonym db_error = "string \<times> string"

definition active_tombstone :: "TombstoneRow \<Rightarrow> bool" where
  "active_tombstone tb \<longleftrightarrow> tb_cancelled_at tb = None \<and> tb_completed_at tb = None"

definition open_plan :: "PlanRow \<Rightarrow> bool" where
  "open_plan p \<longleftrightarrow> dp_status p \<notin> {''completed'', ''cancelled''}"

definition deletion_executable :: "vault_db \<Rightarrow> timestamp \<Rightarrow> uuid \<Rightarrow> bool" where
  "deletion_executable db clock target =
     list_ex (\<lambda>tb. tb_target tb = target \<and> active_tombstone tb \<and> tb_not_before tb \<le> clock
         \<and> list_ex (\<lambda>p. dp_tombstone p = Some (tb_id tb) \<and> open_plan p) (plans db)
         \<and> \<not> list_ex (\<lambda>p. dp_tombstone p = Some (tb_id tb) \<and> open_plan p
               \<and> list_ex (\<lambda>pin. pin_snapshot pin = dp_snapshot p \<and> pin_revoked_at pin = None) (pins db))
             (plans db))
       (tombstones db)"

definition deletion_terminal :: "vault_db \<Rightarrow> uuid \<Rightarrow> bool" where
  "deletion_terminal db target =
     list_ex (\<lambda>tb. tb_target tb = target \<and> tb_completed_at tb \<noteq> None
         \<and> list_ex (\<lambda>p. dp_tombstone p = Some (tb_id tb)) (plans db)
         \<and> \<not> list_ex (\<lambda>p. dp_tombstone p = Some (tb_id tb) \<and> dp_status p \<noteq> ''completed'') (plans db))
       (tombstones db)"

definition guard_refusal_message :: "string \<Rightarrow> string \<Rightarrow> string" where
  "guard_refusal_message from to = ''illegal target transition '' @ from @ '' -> '' @ to"

definition target_guard_status_transition ::
  "vault_db \<Rightarrow> timestamp \<Rightarrow> TargetRow \<Rightarrow> string \<Rightarrow> db_error option" where
  "target_guard_status_transition db clock old new_status =
     (if new_status = t_status old then None
      else if t_status old = ''excluded'' \<and> new_status = ''deleting''
              \<and> (t_pinned old \<or> \<not> deletion_executable db clock (t_id old))
      then Some (''VLT05'', ''target deletion requires executable unpinned tombstone evidence'')
      else if t_status old = ''deleting'' \<and> new_status = ''deleted'' \<and> \<not> deletion_terminal db (t_id old)
      then Some (''VLT06'', ''target deletion completion requires terminal plan evidence'')
      else if (t_status old, new_status) \<notin> set guard_legal_pairs
      then Some (''VLT01'', guard_refusal_message (t_status old) new_status)
      else None)"

definition GUARD_ERRCODE :: string where
  "GUARD_ERRCODE = ''VLT01''"

text \<open>Only the guard's own refusal is a domain refusal; both statuses are read from its message.\<close>

definition classify_status_update_failure :: "db_error \<Rightarrow> VaultError" where
  "classify_status_update_failure err =
     (if fst err = GUARD_ERRCODE then
        (case Option.bind (strip_prefix ''illegal target transition '' (snd err)) (split_once '' -> '') of
           Some (from, to) \<Rightarrow> IllegalTransition from to
         | None \<Rightarrow> StorageFailed)
      else StorageFailed)"

definition find_target :: "vault_db \<Rightarrow> uuid \<Rightarrow> TargetRow option" where
  "find_target db target = find (\<lambda>row. t_id row = target) (targets db)"

definition write_status :: "vault_db \<Rightarrow> uuid \<Rightarrow> string \<Rightarrow> vault_db" where
  "write_status db target status =
     db\<lparr>targets := map (\<lambda>row. if t_id row = target then row\<lparr>t_status := status\<rparr> else row) (targets db)\<rparr>"

text \<open>\<open>update targets set status = ... where target_id = ...\<close> behind the guard; no row, no effect.\<close>

definition guarded_status_update ::
  "vault_db \<Rightarrow> timestamp \<Rightarrow> uuid \<Rightarrow> string \<Rightarrow> (VaultError, vault_db) result" where
  "guarded_status_update db clock target status =
     (case find_target db target of
        None \<Rightarrow> Inr db
      | Some old \<Rightarrow>
          (case target_guard_status_transition db clock old status of
             Some refusal \<Rightarrow> Inl (classify_status_update_failure refusal)
           | None \<Rightarrow> Inr (write_status db target status)))"

definition set_target_status ::
  "vault_db \<Rightarrow> timestamp \<Rightarrow> uuid \<Rightarrow> TargetStatus \<Rightarrow> (VaultError, vault_db) result" where
  "set_target_status db clock target status =
     guarded_status_update db clock target (TargetStatus_as_str status)"

subsection \<open>Revisions\<close>

definition governed_inputs ::
  "store_env \<Rightarrow> ValidatedDelivery \<Rightarrow> (VaultError, int \<times> uuid) result" where
  "governed_inputs env d =
     (case v_policy_revision d of
        None \<Rightarrow> Inl (InvalidDelivery ''policy_revision'')
      | Some revision \<Rightarrow>
          (case i64_try_from revision of
             None \<Rightarrow> Inl (InvalidDelivery ''policy_revision'')
           | Some stored \<Rightarrow>
               if v_correlation_id d = '''' then Inl (InvalidDelivery ''correlation_id'')
               else Inr (stored, correlation_key (uuid_parse_str env) (uuid_new_v5 env) (v_correlation_id d))))"

definition revision_row :: "uuid \<Rightarrow> int \<Rightarrow> ValidatedDelivery \<Rightarrow> string option \<Rightarrow> RevisionRow" where
  "revision_row target revision d src =
     \<lparr> r_target = target, r_revision = revision, r_level = v_preservation_level d,
       r_pinned = (v_pinned d = Some True), r_wiki = (v_include_wiki d = Some True),
       r_releases = (v_include_releases d = Some True), r_issues = (v_include_issues d = Some True),
       r_offsite = (v_offsite_required d = Some True), r_correlation = v_correlation_id d,
       r_source = src \<rparr>"

definition revision_checks :: "RevisionRow \<Rightarrow> bool" where
  "revision_checks row \<longleftrightarrow>
     r_level row \<in> set PRESERVATION_LEVELS \<and> 0 < r_revision row
     \<and> 1 \<le> char_length (r_correlation row) \<and> int (char_length (r_correlation row)) \<le> 256
     \<and> (case r_source row of None \<Rightarrow> True | Some s \<Rightarrow> 1 \<le> char_length s \<and> char_length s \<le> 64)"

text \<open>
  \<open>insert into desired_state_revisions ... on conflict do nothing\<close>: the checks come first, an
  existing revision of the target is kept, and the target must exist.
\<close>

definition insert_revision :: "vault_db \<Rightarrow> RevisionRow \<Rightarrow> (VaultError, vault_db) result" where
  "insert_revision db row =
     (if \<not> revision_checks row then Inl StorageFailed
      else if list_ex (\<lambda>r. r_target r = r_target row \<and> r_revision r = r_revision row) (revisions db)
      then Inr db
      else if find_target db (r_target row) = None then Inl StorageFailed
      else Inr (advance (db\<lparr>revisions := revisions db @ [row]\<rparr>)))"

subsection \<open>Tombstones\<close>

definition append_audit ::
  "store_env \<Rightarrow> timestamp \<Rightarrow> uuid \<Rightarrow> uuid option \<Rightarrow> uuid option \<Rightarrow> uuid option \<Rightarrow> string \<Rightarrow> string
     \<Rightarrow> string \<Rightarrow> uuid \<Rightarrow> vault_db \<Rightarrow> vault_db" where
  "append_audit env now target snap evaluation plan_ref kind why outcome correlation db =
     advance (db\<lparr>audit := audit db @
       [\<lparr> au_id = now_v7 env db, au_target = target, au_snapshot = snap, au_evaluation = evaluation,
          au_plan = plan_ref, au_event_kind = kind, au_reason = why, au_outcome = outcome,
          au_correlation = correlation, au_occurred_at = now \<rparr>]\<rparr>)"

definition new_tombstone :: "uuid \<Rightarrow> timestamp \<Rightarrow> uuid \<Rightarrow> int \<Rightarrow> uuid \<Rightarrow> TombstoneRow" where
  "new_tombstone ident now target revision correlation =
     \<lparr> tb_id = ident, tb_target = target, tb_revision = revision, tb_reason = ''policy_inactive'',
       tb_correlation = correlation, tb_recorded_at = now,
       tb_not_before = now + uint (grace_seconds DEFAULT_RETENTION_POLICY) * 1000000,
       tb_cancelled_at = None, tb_completed_at = None \<rparr>"

definition create_target_tombstone ::
  "store_env \<Rightarrow> timestamp \<Rightarrow> vault_db \<Rightarrow> uuid \<Rightarrow> int \<Rightarrow> uuid \<Rightarrow> (VaultError, vault_db) result" where
  "create_target_tombstone env now db target revision correlation =
     (if \<not> 0 < revision then Inl StorageFailed
      else if list_ex (\<lambda>tb. tb_target tb = target \<and> active_tombstone tb) (tombstones db)
      then Inr db
      else Inr (append_audit env now target None None None ''tombstone'' ''policy_inactive'' ''active''
                  correlation
                  (advance (db\<lparr>tombstones := tombstones db
                     @ [new_tombstone (now_v7 env db) now target revision correlation]\<rparr>))))"

definition deletion_stage_started :: "vault_db \<Rightarrow> uuid \<Rightarrow> bool" where
  "deletion_stage_started db tombstone =
     list_ex (\<lambda>stage. list_ex (\<lambda>p. dp_id p = st_plan stage \<and> dp_tombstone p = Some tombstone) (plans db))
       (stages db)"

definition cancel_target_tombstone ::
  "store_env \<Rightarrow> timestamp \<Rightarrow> vault_db \<Rightarrow> uuid \<Rightarrow> uuid \<Rightarrow> (VaultError, vault_db) result" where
  "cancel_target_tombstone env now db target correlation =
     (case find (\<lambda>tb. tb_target tb = target \<and> active_tombstone tb) (tombstones db) of
        None \<Rightarrow> Inr db
      | Some active \<Rightarrow>
          if deletion_stage_started db (tb_id active)
          then Inl (InvalidDelivery ''reactivation_after_deletion_started'')
          else
            let plans' = map (\<lambda>p. if dp_tombstone p = Some (tb_id active) \<and> dp_automatic p
                                      \<and> dp_status p = ''planned''
                                   then p\<lparr>dp_status := ''cancelled'', dp_cancelled_at := Some now\<rparr> else p)
                           (plans db);
                tombstones' = map (\<lambda>tb. if tb_id tb = tb_id active
                                         then tb\<lparr>tb_cancelled_at := Some now\<rparr> else tb) (tombstones db)
            in Inr (append_audit env now target None None None ''tombstone'' ''policy_reactivated''
                      ''cancelled'' correlation (db\<lparr>plans := plans', tombstones := tombstones'\<rparr>)))"

definition apply_target_retention_transition ::
  "store_env \<Rightarrow> timestamp \<Rightarrow> vault_db \<Rightarrow> uuid \<Rightarrow> bool \<Rightarrow> TargetStatus \<Rightarrow> ValidatedDelivery \<Rightarrow> int \<Rightarrow> uuid
     \<Rightarrow> (VaultError, vault_db) result" where
  "apply_target_retention_transition env now db target target_pinned to governing revision correlation =
     (if to = Excluded then
        (if v_preservation_level governing \<noteq> ''none'' then Inl (InvalidDelivery ''tombstone_policy'')
         else if target_pinned \<or> v_pinned governing = Some True then Inl (InvalidDelivery ''target_pin'')
         else create_target_tombstone env now db target revision correlation)
      else if to = Requested \<and> v_preservation_level governing \<noteq> ''none''
      then cancel_target_tombstone env now db target correlation
      else Inr db)"

subsection \<open>Governed transitions and ingestion\<close>

definition emit_state_changed ::
  "store_env \<Rightarrow> timestamp \<Rightarrow> uuid \<Rightarrow> string option \<Rightarrow> string \<Rightarrow> int \<Rightarrow> string \<Rightarrow> vault_db \<Rightarrow> vault_db" where
  "emit_state_changed env now target from to revision correlation db =
     advance (db\<lparr>outbox := outbox db @
       [\<lparr> ob_event_id = now_v7 env db, ob_event_type = ''vault.target.state_changed.v1'',
          ob_aggregate_type = ''target'', ob_aggregate_id = uuid_to_string env target,
          ob_payload = StateChanged target from to revision correlation, ob_created_at = now,
          ob_published_at = None, ob_attempt_count = 0, ob_last_error = None,
          ob_next_attempt_at = None \<rparr>]\<rparr>)"

definition apply_transition ::
  "store_env \<Rightarrow> timestamp \<Rightarrow> vault_db \<Rightarrow> uuid \<Rightarrow> TargetStatus \<Rightarrow> ValidatedDelivery
     \<Rightarrow> (VaultError, vault_db) result" where
  "apply_transition env now db target to governing =
     result_bind (governed_inputs env governing) (\<lambda>(revision, correlation).
     result_bind (insert_revision db (revision_row target revision governing None)) (\<lambda>db1.
       case find_target db1 target of
         None \<Rightarrow> Inl (InvalidDelivery ''target_id'')
       | Some row \<Rightarrow>
           result_bind (apply_target_retention_transition env now db1 target (t_pinned row) to governing
                          revision correlation) (\<lambda>db2.
           result_bind (guarded_status_update db2 now target (TargetStatus_as_str to)) (\<lambda>db3.
             if t_status row \<noteq> TargetStatus_as_str to
             then Inr (emit_state_changed env now target (Some (t_status row)) (TargetStatus_as_str to)
                         revision (v_correlation_id governing) db3)
             else Inr db3))))"

definition find_repository :: "vault_db \<Rightarrow> string \<Rightarrow> string \<Rightarrow> TargetRow option" where
  "find_repository db prov external =
     find (\<lambda>row. t_provider row = prov \<and> t_external row = external \<and> t_kind row = ''repository'')
       (targets db)"

definition ensure_target ::
  "store_env \<Rightarrow> timestamp \<Rightarrow> vault_db \<Rightarrow> string \<Rightarrow> string \<Rightarrow> int \<Rightarrow> string
     \<Rightarrow> (VaultError, uuid \<times> vault_db) result" where
  "ensure_target env now db prov external revision correlation =
     (if prov \<noteq> ''github'' \<or> \<not> (1 \<le> char_length external \<and> char_length external \<le> 255)
      then Inl StorageFailed
      else case find_repository db prov external of
             Some row \<Rightarrow> Inr (t_id row, db)
           | None \<Rightarrow>
               let target = now_v7 env db;
                   row = \<lparr> t_id = target, t_provider = prov, t_external = external,
                           t_kind = ''repository'', t_parent = None, t_status = ''requested'', t_pinned = False \<rparr>
               in Inr (target, emit_state_changed env now target None ''requested'' revision correlation
                                 (advance (db\<lparr>targets := targets db @ [row]\<rparr>))))"

definition ingest_delivery ::
  "store_env \<Rightarrow> timestamp \<Rightarrow> vault_db \<Rightarrow> string \<Rightarrow> string \<Rightarrow> string \<Rightarrow> uuid \<Rightarrow> ValidatedDelivery
     \<Rightarrow> (VaultError, uuid \<times> vault_db) result" where
  "ingest_delivery env now db prov external src message d =
     result_bind (governed_inputs env d) (\<lambda>(revision, _).
       if \<not> (1 \<le> char_length src \<and> char_length src \<le> 64) then Inl StorageFailed
       else if (src, message) \<in> set (inbox db) then Inl DuplicateDelivery
       else
         result_bind (ensure_target env now (db\<lparr>inbox := inbox db @ [(src, message)]\<rparr>) prov external
                        revision (v_correlation_id d)) (\<lambda>(target, db1).
         result_bind (insert_revision db1 (revision_row target revision d (Some src))) (\<lambda>db2.
           Inr (target, db2))))"

subsection \<open>Reads\<close>

text \<open>\<open>order by policy_revision desc limit 1\<close>; revisions are unique per target.\<close>

fun highest_revision :: "RevisionRow list \<Rightarrow> RevisionRow option" where
  "highest_revision [] = None"
| "highest_revision (r # rs) =
     (case highest_revision rs of
        None \<Rightarrow> Some r
      | Some best \<Rightarrow> if r_revision best \<le> r_revision r then Some r else Some best)"

definition governing_policy :: "vault_db \<Rightarrow> uuid \<Rightarrow> RevisionRow option" where
  "governing_policy db target = highest_revision (filter (\<lambda>r. r_target r = target) (revisions db))"

definition observed_status :: "vault_db \<Rightarrow> uuid \<Rightarrow> (VaultError, TargetStatus option) result" where
  "observed_status db target =
     (case find_target db target of
        None \<Rightarrow> Inr None
      | Some row \<Rightarrow>
          (case find (\<lambda>known. TargetStatus_as_str known = t_status row) TargetStatus_ALL of
             Some known \<Rightarrow> Inr (Some known)
           | None \<Rightarrow> Inl StorageFailed))"

definition repository_target :: "vault_db \<Rightarrow> string \<Rightarrow> string \<Rightarrow> (VaultError, uuid) result" where
  "repository_target db prov external =
     (case find_repository db prov external of
        Some row \<Rightarrow> Inr (t_id row)
      | None \<Rightarrow> Inl (InvalidDelivery ''target_id''))"

end
