(* ===== verification/Store_Invariants.thy ===== *)
theory Store_Invariants
  imports Vault_Store
begin

text \<open>
  What the transactions of \<^theory_text>\<open>Vault_Store\<close> keep: the well-formedness invariant of
  the database (unique targets, one revision number per target, at most one active tombstone per
  target, statuses of the closed vocabulary, fresh identifiers), the legality of every status
  change, the append-only tables, and the exactly-once consumption of deliveries.
\<close>

subsection \<open>The invariant\<close>

definition repository_keys :: "vault_db \<Rightarrow> (string \<times> string) list" where
  "repository_keys db =
     map (\<lambda>r. (t_provider r, t_external r)) (filter (\<lambda>r. t_kind r = ''repository'') (targets db))"

definition wf_targets :: "vault_db \<Rightarrow> bool" where
  "wf_targets db \<longleftrightarrow>
     distinct (map t_id (targets db))
     \<and> distinct (repository_keys db)
     \<and> (\<forall>r \<in> set (targets db). t_status r \<in> TargetStatus_as_str ` set TargetStatus_ALL)"

definition wf_revisions :: "vault_db \<Rightarrow> bool" where
  "wf_revisions db \<longleftrightarrow>
     distinct (map (\<lambda>r. (r_target r, r_revision r)) (revisions db))
     \<and> (\<forall>r \<in> set (revisions db).
           revision_checks r \<and> r_revision r < 2 ^ 63 \<and> r_target r \<in> t_id ` set (targets db))"

definition wf_tombstones :: "vault_db \<Rightarrow> bool" where
  "wf_tombstones db \<longleftrightarrow>
     distinct (map tb_id (tombstones db))
     \<and> distinct (map tb_target (filter active_tombstone (tombstones db)))"

definition wf_fresh :: "store_env \<Rightarrow> vault_db \<Rightarrow> bool" where
  "wf_fresh env db \<longleftrightarrow>
     t_id ` set (targets db) \<union> tb_id ` set (tombstones db) \<subseteq> mint env ` {..<minted db}"

definition wf_db :: "store_env \<Rightarrow> vault_db \<Rightarrow> bool" where
  "wf_db env db \<longleftrightarrow>
     wf_targets db \<and> wf_revisions db \<and> wf_tombstones db \<and> wf_fresh env db \<and> distinct (inbox db)"

lemmas wf_defs = wf_db_def wf_targets_def wf_revisions_def wf_tombstones_def wf_fresh_def repository_keys_def

lemma wf_empty_db: "wf_db env empty_db"
  by (simp add: wf_defs empty_db_def)

subsection \<open>Single writes\<close>

lemma find_target_Some: "find_target db t = Some row \<Longrightarrow> row \<in> set (targets db) \<and> t_id row = t"
  by (auto simp: find_target_def find_Some_iff)

lemma find_target_None: "find_target db t = None \<longleftrightarrow> t \<notin> t_id ` set (targets db)"
  by (auto simp: find_target_def find_None_iff)

lemma find_repository_Some:
  "find_repository db p e = Some row \<Longrightarrow>
     row \<in> set (targets db) \<and> t_provider row = p \<and> t_external row = e \<and> t_kind row = ''repository''"
  by (auto simp: find_repository_def find_Some_iff)

lemma mint_fresh:
  assumes "wf_fresh env db" and "inj_on (mint env) {..<k}" and "minted db < k"
  shows "now_v7 env db \<notin> t_id ` set (targets db)" "now_v7 env db \<notin> tb_id ` set (tombstones db)"
proof -
  have "mint env (minted db) \<notin> mint env ` {..<minted db}"
    using assms(2,3) by (auto dest!: inj_onD)
  with assms(1) show "now_v7 env db \<notin> t_id ` set (targets db)"
    and "now_v7 env db \<notin> tb_id ` set (tombstones db)"
    unfolding wf_fresh_def now_v7_def by blast+
qed

lemma minted_advance [simp]: "minted (advance db) = Suc (minted db)"
  by (simp add: advance_def)

lemma minted_append_audit [simp]: "minted (append_audit env now t s e p k w out c db) = Suc (minted db)"
  by (simp add: append_audit_def)

lemma minted_emit [simp]: "minted (emit_state_changed env now t from to n c db) = Suc (minted db)"
  by (simp add: emit_state_changed_def)

lemma minted_write_status [simp]: "minted (write_status db t s) = minted db"
  by (simp add: write_status_def)

text \<open>Every write consumes identifiers and none is given back.\<close>

lemma minted_mono:
  "insert_revision db row = Inr db' \<Longrightarrow> minted db \<le> minted db'"
  "create_target_tombstone env now db t n c = Inr db' \<Longrightarrow> minted db \<le> minted db'"
  "cancel_target_tombstone env now db t c = Inr db' \<Longrightarrow> minted db \<le> minted db'"
  "guarded_status_update db now t st = Inr db' \<Longrightarrow> minted db \<le> minted db'"
  "ensure_target env now db p e n cor = Inr (t, db') \<Longrightarrow> minted db \<le> minted db'"
  by (auto simp: insert_revision_def create_target_tombstone_def cancel_target_tombstone_def
      guarded_status_update_def ensure_target_def Let_def split: if_splits option.splits)

lemma minted_mono_retention:
  "apply_target_retention_transition env now db t p to g n c = Inr db' \<Longrightarrow> minted db \<le> minted db'"
  by (auto simp: apply_target_retention_transition_def split: if_splits intro: minted_mono)

lemma inj_on_less: "inj_on f {..<n} \<Longrightarrow> m \<le> n \<Longrightarrow> inj_on f {..<m :: nat}"
  by (rule inj_on_subset) auto

lemma governed_inputs_range:
  "governed_inputs env d = Inr (n, c) \<Longrightarrow> \<exists>revision. v_policy_revision d = Some revision \<and> n = uint revision \<and> n < 2 ^ 63"
  by (auto simp: governed_inputs_def i64_try_from_def split: option.splits if_splits)

lemma revision_row_sel [simp]:
  "r_target (revision_row t n d s) = t" "r_revision (revision_row t n d s) = n"
  by (simp_all add: revision_row_def)

lemma wf_advance: "wf_db env db \<Longrightarrow> wf_db env (advance db)"
  by (auto simp: wf_defs advance_def less_Suc_eq lessThan_Suc)

lemma wf_append_audit: "wf_db env db \<Longrightarrow> wf_db env (append_audit env now t s e p k w out c db)"
  unfolding append_audit_def by (rule wf_advance) (simp add: wf_defs)

lemma wf_emit: "wf_db env db \<Longrightarrow> wf_db env (emit_state_changed env now t from to n c db)"
  unfolding emit_state_changed_def by (rule wf_advance) (simp add: wf_defs)

lemma targets_write_status [simp]:
  "map t_id (targets (write_status db t s)) = map t_id (targets db)"
  "t_id ` set (targets (write_status db t s)) = t_id ` set (targets db)"
  "repository_keys (write_status db t s) = repository_keys db"
proof -
  let ?f = "\<lambda>row. if t_id row = t then row\<lparr>t_status := s\<rparr> else row"
  show ids: "map t_id (targets (write_status db t s)) = map t_id (targets db)"
    by (simp add: write_status_def)
  then show "t_id ` set (targets (write_status db t s)) = t_id ` set (targets db)"
    by (metis list.set_map)
  have "t_kind (?f row) = t_kind row" "t_provider (?f row) = t_provider row"
    "t_external (?f row) = t_external row" for row by simp_all
  then show "repository_keys (write_status db t s) = repository_keys db"
    by (simp add: repository_keys_def write_status_def filter_map comp_def del: if_split)
qed

lemma wf_write_status:
  assumes "wf_db env db" and "s \<in> TargetStatus_as_str ` set TargetStatus_ALL"
  shows "wf_db env (write_status db t s)"
proof -
  have frame: "revisions (write_status db t s) = revisions db" "inbox (write_status db t s) = inbox db"
    "tombstones (write_status db t s) = tombstones db" "minted (write_status db t s) = minted db"
    by (simp_all add: write_status_def)
  have "\<forall>r \<in> set (targets (write_status db t s)). t_status r \<in> TargetStatus_as_str ` set TargetStatus_ALL"
    using assms by (auto simp: write_status_def wf_db_def wf_targets_def)
  with assms(1) show ?thesis
    by (simp add: wf_db_def wf_targets_def wf_revisions_def wf_tombstones_def wf_fresh_def frame)
qed

lemma status_in_vocabulary [simp]: "TargetStatus_as_str s \<in> TargetStatus_as_str ` set TargetStatus_ALL"
  by (rule imageI) (rule target_status.variants_complete)

lemma wf_guarded_status_update:
  assumes "guarded_status_update db now t (TargetStatus_as_str s) = Inr db'" and "wf_db env db"
  shows "wf_db env db'"
  using assms by (auto simp: guarded_status_update_def wf_write_status split: option.splits)

lemma wf_insert_revision:
  assumes "insert_revision db row = Inr db'" and "wf_db env db" and "r_revision row < 2 ^ 63"
  shows "wf_db env db'"
proof (cases "db' = db")
  case False
  with assms(1) have new: "revision_checks row" "db' = advance (db\<lparr>revisions := revisions db @ [row]\<rparr>)"
    "\<not> list_ex (\<lambda>r. r_target r = r_target row \<and> r_revision r = r_revision row) (revisions db)"
    "find_target db (r_target row) \<noteq> None"
    by (auto simp: insert_revision_def split: if_splits)
  from new(3) have "(r_target row, r_revision row) \<notin> (\<lambda>r. (r_target r, r_revision r)) ` set (revisions db)"
    by (auto simp: list_ex_iff)
  with new assms(2,3) show ?thesis
    by (auto simp: wf_defs find_target_None advance_def lessThan_Suc)
qed (use assms in simp)

lemma wf_create_target_tombstone:
  assumes "create_target_tombstone env now db t n c = Inr db'" and "wf_db env db" and "inj_on (mint env) {..<minted db'}"
  shows "wf_db env db'"
proof (cases "db' = db")
  case False
  define row where "row = new_tombstone (now_v7 env db) now t n c"
  from False assms(1) have row: "tb_id row = now_v7 env db" "tb_target row = t"
      "\<not> list_ex (\<lambda>tb. tb_target tb = t \<and> active_tombstone tb) (tombstones db)"
      "db' = append_audit env now t None None None ''tombstone'' ''policy_inactive'' ''active'' c
               (advance (db\<lparr>tombstones := tombstones db @ [row]\<rparr>))"
    by (auto simp: create_target_tombstone_def row_def new_tombstone_def split: if_splits)
  have "minted db < minted db'" by (simp add: row(4))
  then have "now_v7 env db \<notin> tb_id ` set (tombstones db)"
    using mint_fresh(2) assms(2,3) by (simp add: wf_db_def)
  moreover from row(3) have "t \<notin> tb_target ` {tb \<in> set (tombstones db). active_tombstone tb}"
    by (auto simp: list_ex_iff)
  ultimately have "wf_db env (advance (db\<lparr>tombstones := tombstones db @ [row]\<rparr>))"
    using assms(2) row(1,2)
    by (auto simp: wf_defs advance_def now_v7_def lessThan_Suc)
  with row(4) show ?thesis by (simp add: wf_append_audit)
qed (use assms in simp)

lemma active_filter_shrinks:
  assumes "\<And>tb. tb_target (f tb) = tb_target tb" and "\<And>tb. active_tombstone (f tb) \<Longrightarrow> active_tombstone tb"
    and "distinct (map tb_target (filter active_tombstone tbs))"
  shows "distinct (map tb_target (filter active_tombstone (map f tbs)))"
  using assms(3)
proof (induction tbs)
  case (Cons tb tbs)
  then show ?case
    using assms(1,2) by (auto split: if_splits)
qed simp

lemma wf_cancel_target_tombstone:
  assumes "cancel_target_tombstone env now db t c = Inr db'" and "wf_db env db"
  shows "wf_db env db'"
proof (cases "find (\<lambda>tb. tb_target tb = t \<and> active_tombstone tb) (tombstones db)")
  case None
  with assms show ?thesis by (simp add: cancel_target_tombstone_def)
next
  case (Some active)
  define f :: "TombstoneRow \<Rightarrow> TombstoneRow" where "f = (\<lambda>tb. if tb_id tb = tb_id active then tb\<lparr>tb_cancelled_at := Some now\<rparr> else tb)"
  have ids: "map tb_id (map f (tombstones db)) = map tb_id (tombstones db)"
    by (simp add: f_def)
  then have id_set: "tb_id ` set (map f (tombstones db)) = tb_id ` set (tombstones db)"
    by (metis list.set_map)
  have "distinct (map tb_target (filter active_tombstone (map f (tombstones db))))"
    by (rule active_filter_shrinks)
      (use assms(2) in \<open>auto simp: f_def active_tombstone_def wf_db_def wf_tombstones_def split: if_splits\<close>)
  with ids id_set assms(2) have "wf_db env (db\<lparr>plans := p, tombstones := map f (tombstones db)\<rparr>)" for p
    by (simp add: wf_defs del: list.map_comp map_map set_map)
  then show ?thesis
    using assms(1) Some
    by (auto simp: cancel_target_tombstone_def Let_def f_def split: if_splits intro!: wf_append_audit)
qed

lemma wf_retention_transition:
  assumes "apply_target_retention_transition env now db t p to g n c = Inr db'"
    and "wf_db env db" and "inj_on (mint env) {..<minted db'}"
  shows "wf_db env db'"
  using assms wf_create_target_tombstone wf_cancel_target_tombstone
  by (fastforce simp: apply_target_retention_transition_def split: if_splits)

text \<open>A committed transition, taken apart into its steps.\<close>

lemma apply_transition_steps:
  assumes "apply_transition env now db t to g = Inr db'"
  obtains n c db1 row db2 db3 where
    "governed_inputs env g = Inr (n, c)"
    "insert_revision db (revision_row t n g None) = Inr db1"
    "find_target db1 t = Some row"
    "apply_target_retention_transition env now db1 t (t_pinned row) to g n c = Inr db2"
    "guarded_status_update db2 now t (TargetStatus_as_str to) = Inr db3"
    "db' = (if t_status row \<noteq> TargetStatus_as_str to
            then emit_state_changed env now t (Some (t_status row)) (TargetStatus_as_str to) n
                   (v_correlation_id g) db3
            else db3)"
  using assms that by (fastforce simp: apply_transition_def split: option.splits if_splits)

lemma wf_apply_transition:
  assumes "apply_transition env now db t to g = Inr db'" and "wf_db env db"
    and "inj_on (mint env) {..<minted db'}"
  shows "wf_db env db'"
  using assms(1)
proof (cases rule: apply_transition_steps)
  case (1 n c db1 row db2 db3)
  have "minted db2 \<le> minted db'"
    using minted_mono(4) [OF 1(5)] 1(6) by (auto split: if_splits)
  then have "inj_on (mint env) {..<minted db2}"
    using assms(3) inj_on_less by blast
  then have "wf_db env db2"
    using wf_insert_revision [OF 1(2) assms(2)] wf_retention_transition [OF 1(4)]
      governed_inputs_range [OF 1(1)] by auto
  then have "wf_db env db3" using wf_guarded_status_update [OF 1(5)] by blast
  then show ?thesis using 1(6) by (simp add: wf_emit)
qed

lemma wf_set_target_status:
  "set_target_status db now t s = Inr db' \<Longrightarrow> wf_db env db \<Longrightarrow> wf_db env db'"
  by (simp add: set_target_status_def wf_guarded_status_update)

lemma wf_ensure_target:
  assumes "ensure_target env now db p e n c = Inr (t, db')" and "wf_db env db" and "inj_on (mint env) {..<minted db'}"
  shows "wf_db env db' \<and> t \<in> t_id ` set (targets db')"
proof (cases "find_repository db p e")
  case (Some row)
  with assms find_repository_Some [OF Some] show ?thesis
    by (auto simp: ensure_target_def split: if_splits)
next
  case None
  define row where "row = \<lparr>t_id = now_v7 env db, t_provider = p, t_external = e,
      t_kind = ''repository'', t_parent = None, t_status = ''requested'', t_pinned = False\<rparr>"
  from None assms(1) have t: "t = now_v7 env db"
    "db' = emit_state_changed env now t None ''requested'' n c (advance (db\<lparr>targets := targets db @ [row]\<rparr>))"
    by (auto simp: ensure_target_def row_def Let_def split: if_splits)
  have "minted db < minted db'" by (simp add: t(2))
  then have "now_v7 env db \<notin> t_id ` set (targets db)"
    using mint_fresh(1) assms(2,3) by (simp add: wf_db_def)
  moreover have "(p, e) \<notin> set (repository_keys db)"
    using None by (auto simp: repository_keys_def find_repository_def find_None_iff)
  moreover have "''requested'' \<in> TargetStatus_as_str ` set TargetStatus_ALL"
    using status_in_vocabulary [of Requested] by simp
  ultimately have "wf_db env (advance (db\<lparr>targets := targets db @ [row]\<rparr>))"
    using assms(2) by (auto simp: wf_defs advance_def now_v7_def lessThan_Suc row_def)
  then show ?thesis
    by (simp add: t wf_emit) (simp add: emit_state_changed_def advance_def row_def)
qed

lemma ingest_steps:
  assumes "ingest_delivery env now db p e s m d = Inr (t, db')"
  obtains n c db1 where
    "governed_inputs env d = Inr (n, c)" "(s, m) \<notin> set (inbox db)"
    "ensure_target env now (db\<lparr>inbox := inbox db @ [(s, m)]\<rparr>) p e n (v_correlation_id d) = Inr (t, db1)"
    "insert_revision db1 (revision_row t n d (Some s)) = Inr db'"
  using assms that by (fastforce simp: ingest_delivery_def split: if_splits)

lemma wf_ingest_delivery:
  assumes "ingest_delivery env now db p e s m d = Inr (t, db')" and "wf_db env db"
    and "inj_on (mint env) {..<minted db'}"
  shows "wf_db env db'"
  using assms(1)
proof (cases rule: ingest_steps)
  case (1 n c db1)
  have "inj_on (mint env) {..<minted db1}"
    using assms(3) minted_mono(1) [OF 1(4)] inj_on_less by blast
  moreover have "wf_db env (db\<lparr>inbox := inbox db @ [(s, m)]\<rparr>)"
    using 1(2) assms(2) by (simp add: wf_defs)
  ultimately show ?thesis
    using wf_ensure_target [OF 1(3)] wf_insert_revision [OF 1(4)] governed_inputs_range [OF 1(1)] by auto
qed

subsection \<open>Exactly-once ingestion\<close>

text \<open>What a delivery must satisfy to be stored at all, whatever the database holds.\<close>

definition deliverable :: "store_env \<Rightarrow> string \<Rightarrow> string \<Rightarrow> string \<Rightarrow> ValidatedDelivery \<Rightarrow> bool" where
  "deliverable env prov external src d \<longleftrightarrow>
     (case governed_inputs env d of
        Inl _ \<Rightarrow> False
      | Inr (n, _) \<Rightarrow> revision_checks (revision_row 0 n d (Some src)))
     \<and> prov = ''github'' \<and> 1 \<le> char_length external \<and> char_length external \<le> 255"

lemma revision_checks_target: "revision_checks (revision_row t n d s) = revision_checks (revision_row 0 n d s)"
  by (simp add: revision_checks_def revision_row_def)

lemma ensured_target_found:
  assumes "ensure_target env now db p e n c = Inr (t, db')"
  shows "find_target db' t \<noteq> None"
proof (cases "find_repository db p e")
  case (Some row)
  with assms find_repository_Some [OF Some] show ?thesis
    by (auto simp: ensure_target_def find_target_None split: if_splits)
next
  case None
  with assms show ?thesis
    by (auto simp: ensure_target_def find_target_None emit_state_changed_def advance_def Let_def split: if_splits)
qed

lemma ensure_target_ok:
  "is_ok (ensure_target env now db p e n c) \<longleftrightarrow>
     p = ''github'' \<and> 1 \<le> char_length e \<and> char_length e \<le> 255"
  by (auto simp: ensure_target_def Let_def split: option.splits)

lemma insert_revision_ok:
  "find_target db (r_target row) \<noteq> None \<Longrightarrow> is_ok (insert_revision db row) \<longleftrightarrow> revision_checks row"
  by (auto simp: insert_revision_def)

lemma is_ok_bind: "is_ok (result_bind r k) \<longleftrightarrow> (\<exists>x. r = Inr x \<and> is_ok (k x))"
  by (cases r) auto

lemma ingest_ok:
  "is_ok (ingest_delivery env now db p e s m d) \<longleftrightarrow> deliverable env p e s d \<and> (s, m) \<notin> set (inbox db)"
proof (cases "governed_inputs env d")
  case (Inl err)
  then show ?thesis by (simp add: ingest_delivery_def deliverable_def)
next
  case (Inr nc)
  obtain n c where nc: "nc = (n, c)" by (cases nc)
  let ?db = "db\<lparr>inbox := inbox db @ [(s, m)]\<rparr>"
  let ?rest = "\<lambda>(t, db1). result_bind (insert_revision db1 (revision_row t n d (Some s))) (\<lambda>db2. Inr (t, db2))"
  have rest: "is_ok (?rest x) \<longleftrightarrow> revision_checks (revision_row 0 n d (Some s))"
    if "ensure_target env now ?db p e n (v_correlation_id d) = Inr x" for x
    using ensured_target_found [of env now ?db p e n _ "fst x" "snd x"] that
      insert_revision_ok [of "snd x" "revision_row (fst x) n d (Some s)"]
      revision_checks_target [of "fst x" n d "Some s"]
    by (cases x) (auto simp: is_ok_bind revision_row_def is_ok_def split: sum.splits)
  have "is_ok (ensure_target env now ?db p e n (v_correlation_id d)) \<longleftrightarrow>
      (\<exists>x. ensure_target env now ?db p e n (v_correlation_id d) = Inr x)"
    by (cases "ensure_target env now ?db p e n (v_correlation_id d)") auto
  then have "is_ok (result_bind (ensure_target env now ?db p e n (v_correlation_id d)) ?rest) \<longleftrightarrow>
      revision_checks (revision_row 0 n d (Some s)) \<and> p = ''github'' \<and> 1 \<le> char_length e \<and> char_length e \<le> 255"
    using rest ensure_target_ok [of env now ?db p e n "v_correlation_id d"]
    by (auto simp: is_ok_bind)
  moreover have "revision_checks (revision_row 0 n d (Some s)) \<Longrightarrow> 1 \<le> char_length s \<and> char_length s \<le> 64"
    by (simp add: revision_checks_def revision_row_def)
  ultimately show ?thesis
    using Inr nc by (auto simp: ingest_delivery_def deliverable_def)
qed

lemma ingest_claims:
  assumes "ingest_delivery env now db p e s m d = Inr (t, db')"
  shows "inbox db' = inbox db @ [(s, m)]"
  using assms
  by (auto simp: ingest_delivery_def ensure_target_def insert_revision_def emit_state_changed_def
      advance_def Let_def split: if_splits option.splits)

interpretation ingestion: idempotent_consumer
  "\<lambda>now (p, e, s, m, d) db. map_sum id snd (ingest_delivery env now db p e s m d)"
  "\<lambda>(p, e, s, m, d). (s, m)" "\<lambda>db. set (inbox db)" for env
proof unfold_locales
  have ok: "is_ok (map_sum id snd r) = is_ok r" for r :: "(VaultError, uuid \<times> vault_db) result"
    by (cases r) simp_all
  fix msg :: "string \<times> string \<times> string \<times> uuid \<times> ValidatedDelivery" and db db' :: vault_db and now now'
  obtain p e s m d where msg: "msg = (p, e, s, m, d)" by (cases msg) auto
  show "(case msg of (p, e, s, m, d) \<Rightarrow> (s, m)) \<in> set (inbox db) \<Longrightarrow>
    \<not> is_ok ((case msg of (p, e, s, m, d) \<Rightarrow> \<lambda>db. map_sum id snd (ingest_delivery env now db p e s m d)) db)"
    by (simp add: msg ok ingest_ok)
  show "(case msg of (p, e, s, m, d) \<Rightarrow> (s, m)) \<notin> set (inbox db) \<Longrightarrow>
    \<not> is_ok ((case msg of (p, e, s, m, d) \<Rightarrow> \<lambda>db. map_sum id snd (ingest_delivery env now db p e s m d)) db) \<Longrightarrow>
    \<not> is_ok ((case msg of (p, e, s, m, d) \<Rightarrow> \<lambda>db. map_sum id snd (ingest_delivery env now' db p e s m d)) db')"
    by (simp add: msg ok ingest_ok)
  show "(case msg of (p, e, s, m, d) \<Rightarrow> \<lambda>db. map_sum id snd (ingest_delivery env now db p e s m d)) db = Inr db' \<Longrightarrow>
    set (inbox db') = insert (case msg of (p, e, s, m, d) \<Rightarrow> (s, m)) (set (inbox db))"
    by (cases "ingest_delivery env now db p e s m d") (auto simp: msg dest: ingest_claims)
qed

subsection \<open>Governance\<close>

lemma highest_revision_append:
  "highest_revision (rs @ [r]) =
     (case highest_revision rs of
        None \<Rightarrow> Some r
      | Some g \<Rightarrow> if r_revision r \<le> r_revision g then Some g else Some r)"
  by (induction rs) (auto split: option.splits if_splits)

lemma highest_revision_None [simp]: "highest_revision rs = None \<longleftrightarrow> rs = []"
  by (cases rs) (auto split: option.splits)

lemma highest_revision_Some:
  "highest_revision rs = Some g \<Longrightarrow> g \<in> set rs \<and> (\<forall>r \<in> set rs. r_revision r \<le> r_revision g)"
  by (induction rs arbitrary: g) (fastforce split: option.splits if_splits)+

lemma insert_revision_governing:
  assumes "insert_revision db row = Inr db'"
  shows "map_option r_revision (governing_policy db' (r_target row)) =
       Some (case governing_policy db (r_target row) of
               None \<Rightarrow> r_revision row | Some g \<Rightarrow> max (r_revision g) (r_revision row))"
    and "governing_policy db (r_target row) = Some g \<Longrightarrow> r_revision row \<le> r_revision g \<Longrightarrow>
       governing_policy db' (r_target row) = Some g"
    and "u \<noteq> r_target row \<Longrightarrow> governing_policy db' u = governing_policy db u"
proof -
  let ?rs = "filter (\<lambda>r. r_target r = r_target row) (revisions db)"
  let ?old = "list_ex (\<lambda>r. r_target r = r_target row \<and> r_revision r = r_revision row) (revisions db)"
  have old: "db' = db \<and> (\<exists>r \<in> set ?rs. r_revision r = r_revision row)" if ?old
    using assms that by (auto simp: insert_revision_def list_ex_iff split: if_splits)
  have new: "revisions db' = revisions db @ [row]" if "\<not> ?old"
    using assms that by (auto simp: insert_revision_def advance_def split: if_splits)
  show "map_option r_revision (governing_policy db' (r_target row)) =
       Some (case governing_policy db (r_target row) of
               None \<Rightarrow> r_revision row | Some g \<Rightarrow> max (r_revision g) (r_revision row))"
  proof (cases ?old)
    case True
    with old obtain r where r: "r \<in> set ?rs" "r_revision r = r_revision row" "db' = db" by blast
    then have "?rs \<noteq> []" by force
    then obtain g where "highest_revision ?rs = Some g"
      by (cases "highest_revision ?rs") auto
    with r highest_revision_Some [of ?rs g] show ?thesis
      by (auto simp: governing_policy_def max_def)
  qed (auto simp: governing_policy_def new highest_revision_append max_def split: option.splits)
  show "governing_policy db' (r_target row) = Some g"
    if g: "governing_policy db (r_target row) = Some g" "r_revision row \<le> r_revision g"
  proof (cases ?old)
    case False
    with g show ?thesis
      by (simp add: governing_policy_def new highest_revision_append)
  qed (use old g in simp)
  show "governing_policy db' u = governing_policy db u" if "u \<noteq> r_target row"
    using old new that by (cases ?old) (auto simp: governing_policy_def)
qed

subsection \<open>Status changes\<close>

lemma status_names_have_no_blank: "CHR '' '' \<notin> set (TargetStatus_as_str s)"
  by (cases s) simp_all

lemma classify_guard_refusal:
  "classify_status_update_failure
     (''VLT01'', guard_refusal_message (TargetStatus_as_str from) (TargetStatus_as_str to))
   = IllegalTransition (TargetStatus_as_str from) (TargetStatus_as_str to)"
proof -
  let ?rest = "TargetStatus_as_str from @ '' -> '' @ TargetStatus_as_str to"
  have "strip_prefix ''illegal target transition ''
      (guard_refusal_message (TargetStatus_as_str from) (TargetStatus_as_str to)) = Some ?rest"
    unfolding guard_refusal_message_def by (rule strip_prefix_append)
  moreover have "split_once '' -> '' ?rest = Some (TargetStatus_as_str from, TargetStatus_as_str to)"
    using split_once_first [OF status_names_have_no_blank [of "from"], of "''-> ''" "TargetStatus_as_str to"] by simp
  ultimately have "Option.bind (strip_prefix ''illegal target transition ''
      (guard_refusal_message (TargetStatus_as_str from) (TargetStatus_as_str to))) (split_once '' -> '')
    = Some (TargetStatus_as_str from, TargetStatus_as_str to)"
    by (simp only: Option.bind.simps)
  then show ?thesis
    by (simp only: classify_status_update_failure_def GUARD_ERRCODE_def fst_conv snd_conv simp_thms
        if_True option.case prod.case)
qed

lemma find_target_write_status:
  "find_target (write_status db t s) u =
     map_option (\<lambda>row. if u = t then row\<lparr>t_status := s\<rparr> else row) (find_target db u)"
proof -
  have "find (\<lambda>row. t_id row = u) (map (\<lambda>row. if t_id row = t then row\<lparr>t_status := s\<rparr> else row) rows) =
      map_option (\<lambda>row. if u = t then row\<lparr>t_status := s\<rparr> else row) (find (\<lambda>row. t_id row = u) rows)" for rows
    by (induction rows) auto
  then show ?thesis by (simp add: find_target_def write_status_def)
qed

lemma observed_status_find:
  "find_target db t = Some row \<Longrightarrow> t_status row = TargetStatus_as_str s \<Longrightarrow> observed_status db t = Inr (Some s)"
  by (simp add: observed_status_def target_status.scan_recovers)

lemma observed_status_row:
  "observed_status db t = Inr (Some s) \<Longrightarrow>
     \<exists>row. find_target db t = Some row \<and> t_status row = TargetStatus_as_str s"
  by (auto simp: observed_status_def dest: target_status.scan_sound split: option.splits)

lemma wf_observed_status:
  assumes "wf_db env db" and "find_target db t = Some row"
  obtains s where "observed_status db t = Inr (Some s)" and "t_status row = TargetStatus_as_str s"
proof -
  have "t_status row \<in> TargetStatus_as_str ` set TargetStatus_ALL"
    using assms find_target_Some [OF assms(2)] by (auto simp: wf_db_def wf_targets_def)
  then obtain s where "t_status row = TargetStatus_as_str s" by auto
  with assms(2) show ?thesis using that observed_status_find by blast
qed

text \<open>
  A status write meets exactly the guard: the same status is always accepted, deletion may begin
  only for an unpinned target with executable tombstone evidence and end only with terminal evidence,
  any other move is accepted if and only if it is legal, and a refused move is reported with the two
  statuses read back from the trigger's message.
\<close>

theorem set_target_status_exact:
  assumes "find_target db t = Some row" and "t_status row = TargetStatus_as_str from"
  shows "set_target_status db now t to =
    (if from = to \<or> is_legal from to
          \<and> (from = Excluded \<and> to = Deleting \<longrightarrow> \<not> t_pinned row \<and> deletion_executable db now t)
          \<and> (from = Deleting \<and> to = Deleted \<longrightarrow> deletion_terminal db t)
     then Inr (write_status db t (TargetStatus_as_str to))
     else if is_legal from to then Inl StorageFailed
     else Inl (IllegalTransition (TargetStatus_as_str from) (TargetStatus_as_str to)))"
proof -
  have id: "t_id row = t" using find_target_Some [OF assms(1)] by simp
  have str: "TargetStatus_as_str from = ''excluded'' \<longleftrightarrow> from = Excluded"
    "TargetStatus_as_str from = ''deleting'' \<longleftrightarrow> from = Deleting"
    "TargetStatus_as_str to = ''deleting'' \<longleftrightarrow> to = Deleting"
    "TargetStatus_as_str to = ''deleted'' \<longleftrightarrow> to = Deleted"
    by ((cases "from"; simp)+, (cases to; simp)+)
  have storage: "classify_status_update_failure (''VLT05'', msg) = StorageFailed"
    "classify_status_update_failure (''VLT06'', msg) = StorageFailed" for msg
    by (simp_all add: classify_status_update_failure_def GUARD_ERRCODE_def)
  show ?thesis
    using assms
    by (auto simp: set_target_status_def guarded_status_update_def target_guard_status_transition_def
        id str storage guard_pair_iff target_status.name_eq_iff classify_guard_refusal is_legal_irreflexive)
qed

lemma insert_revision_frame:
  "insert_revision db row = Inr db' \<Longrightarrow>
     targets db' = targets db \<and> outbox db' = outbox db \<and> tombstones db' = tombstones db \<and> plans db' = plans db
     \<and> pins db' = pins db \<and> inbox db' = inbox db"
  by (auto simp: insert_revision_def advance_def split: if_splits)

lemma retention_transition_frame:
  "apply_target_retention_transition env now db t p to g n c = Inr db' \<Longrightarrow>
     targets db' = targets db \<and> outbox db' = outbox db \<and> revisions db' = revisions db \<and> inbox db' = inbox db"
  by (auto simp: apply_target_retention_transition_def create_target_tombstone_def
      cancel_target_tombstone_def append_audit_def advance_def Let_def split: if_splits option.splits)

lemma guarded_status_update_accepted:
  assumes "guarded_status_update db now t (TargetStatus_as_str to) = Inr db'"
    and "find_target db t = Some row" and "t_status row = TargetStatus_as_str from"
  shows "(from = to \<or> is_legal from to) \<and> db' = write_status db t (TargetStatus_as_str to)"
  using assms
  by (auto simp: guarded_status_update_def target_guard_status_transition_def guard_pair_iff
      target_status.name_eq_iff split: if_splits)

lemma find_target_cong: "targets db' = targets db \<Longrightarrow> find_target db' t = find_target db t"
  by (simp add: find_target_def)

lemma apply_transition_statuses:
  assumes "apply_transition env now db t to g = Inr db'" and "wf_db env db"
  obtains "from" revision where
    "observed_status db t = Inr (Some from)" "from = to \<or> is_legal from to"
    "observed_status db' t = Inr (Some to)" "v_policy_revision g = Some revision"
    "map ob_payload (outbox db') = map ob_payload (outbox db)
       @ (if from = to then []
          else [StateChanged t (Some (TargetStatus_as_str from)) (TargetStatus_as_str to) (uint revision)
                  (v_correlation_id g)])"
  using assms(1)
proof (cases rule: apply_transition_steps)
  case (1 n c db1 row db2 db3)
  have frame1: "targets db1 = targets db" "outbox db1 = outbox db"
    using insert_revision_frame [OF 1(2)] by simp_all
  have frame2: "targets db2 = targets db1" "outbox db2 = outbox db1"
    using retention_transition_frame [OF 1(4)] by simp_all
  have row: "find_target db t = Some row" "find_target db2 t = Some row"
    using 1(3) find_target_cong [OF frame1(1)] find_target_cong [OF frame2(1)] by simp_all
  obtain "from" where f: "observed_status db t = Inr (Some from)" "t_status row = TargetStatus_as_str from"
    using wf_observed_status [OF assms(2) row(1)] by blast
  have step: "from = to \<or> is_legal from to" "db3 = write_status db2 t (TargetStatus_as_str to)"
    using guarded_status_update_accepted [OF 1(5) row(2) f(2)] by simp_all
  have "find_target db3 t = Some (row\<lparr>t_status := TargetStatus_as_str to\<rparr>)"
    by (simp add: step(2) find_target_write_status row(2))
  moreover have "targets db' = targets db3"
    using 1(6) by (simp add: emit_state_changed_def advance_def)
  ultimately have "find_target db' t = Some (row\<lparr>t_status := TargetStatus_as_str to\<rparr>)"
    using find_target_cong by metis
  then have to: "observed_status db' t = Inr (Some to)"
    by (rule observed_status_find) simp
  have "outbox db3 = outbox db"
    by (simp add: step(2) write_status_def frame1 frame2)
  then have out: "map ob_payload (outbox db') = map ob_payload (outbox db) @
      (if from = to then [] else [StateChanged t (Some (TargetStatus_as_str from)) (TargetStatus_as_str to) n
        (v_correlation_id g)])"
    using 1(6) by (simp add: f(2) target_status.name_eq_iff emit_state_changed_def advance_def)
  have "\<exists>revision. v_policy_revision g = Some revision \<and> n = uint revision"
    using governed_inputs_range [OF 1(1)] by blast
  with f(1) step(1) to out show ?thesis using that by blast
qed

text \<open>
  A governed transition moves the target along the state machine and reports it truthfully: when
  it commits, the target stood in a status from which the requested one is legal (or the same), it
  now stands in the requested one, and exactly one event naming both statuses, the revision and the
  correlation joins the outbox if the status changed, none otherwise.
\<close>

theorem transition_moves_and_reports:
  assumes "apply_transition env now db t to g = Inr db'" and "wf_db env db"
  shows "\<exists>from revision. observed_status db t = Inr (Some from) \<and> (from = to \<or> is_legal from to)
      \<and> observed_status db' t = Inr (Some to) \<and> v_policy_revision g = Some revision
      \<and> map ob_payload (outbox db') = map ob_payload (outbox db)
          @ (if from = to then []
             else [StateChanged t (Some (TargetStatus_as_str from)) (TargetStatus_as_str to) (uint revision)
                     (v_correlation_id g)])"
  using apply_transition_statuses [OF assms] by metis

text \<open>Example environment and deliveries for the concrete instances below.\<close>

definition example_env :: store_env where
  "example_env = \<lparr> mint = (\<lambda>n. word_of_nat n + 1), uuid_to_string = (\<lambda>_. ''id''),
     uuid_parse_str = (\<lambda>_. None), uuid_new_v5 = (\<lambda>_ _. 99) \<rparr>"

definition active_policy :: "u64 \<Rightarrow> ValidatedDelivery" where
  "active_policy revision =
     \<lparr> v_preservation_level = ''git_mirror'', v_pinned = Some False, v_include_wiki = None,
       v_include_releases = None, v_include_issues = None, v_offsite_required = Some True,
       v_correlation_id = ''corr'', v_policy_revision = Some revision \<rparr>"

definition inactive_policy :: "u64 \<Rightarrow> ValidatedDelivery" where
  "inactive_policy revision = (active_policy revision)\<lparr>v_preservation_level := ''none''\<rparr>"

definition example_db :: vault_db where
  "example_db =
     (case ingest_delivery example_env 1000 empty_db ''github'' ''42'' ''lane'' 7 (active_policy 3) of
        Inr (_, db) \<Rightarrow> db | Inl _ \<Rightarrow> empty_db)"

definition example_excluded :: vault_db where
  "example_excluded =
     (case apply_transition example_env 2000 example_db 1 Excluded (inactive_policy 4) of
        Inr db \<Rightarrow> db | Inl _ \<Rightarrow> empty_db)"

lemmas example_defs = example_env_def active_policy_def inactive_policy_def

lemma example_db_ingested:
  "ingest_delivery example_env 1000 empty_db ''github'' ''42'' ''lane'' 7 (active_policy 3) = Inr (1, example_db)"
  by code_simp

lemma example_mint_inj: "inj_on (mint example_env) {..<1000}"
  by (rule inj_onI) (simp add: example_env_def word_of_nat_eq_iff take_bit_nat_eq_self)

lemma example_db_wf: "wf_db example_env example_db"
proof -
  have "minted example_db \<le> 1000" by code_simp
  then have "inj_on (mint example_env) {..<minted example_db}"
    by (rule inj_on_less [OF example_mint_inj])
  then show ?thesis
    by (rule wf_ingest_delivery [OF example_db_ingested wf_empty_db])
qed

lemma example_excluded_applied:
  "apply_transition example_env 2000 example_db 1 Excluded (inactive_policy 4) = Inr example_excluded"
  by code_simp

theorem set_target_status_exact_witness:
  "set_target_status example_db 5 1 Deleting = Inl (IllegalTransition ''requested'' ''deleting'')"
proof -
  have "find_target example_db 1 = Some \<lparr>t_id = 1, t_provider = ''github'', t_external = ''42'',
      t_kind = ''repository'', t_parent = None, t_status = ''requested'', t_pinned = False\<rparr>"
    by code_simp
  then show ?thesis
    using set_target_status_exact [of example_db 1 _ Requested 5 Deleting] by simp
qed

theorem transition_moves_and_reports_witness:
  "observed_status example_excluded 1 = Inr (Some Excluded)
   \<and> length (outbox example_excluded) = Suc (length (outbox example_db))"
proof -
  have "observed_status example_db 1 = Inr (Some Requested)" by code_simp
  then show ?thesis
    using transition_moves_and_reports [OF example_excluded_applied example_db_wf]
    by (auto dest!: arg_cong [where f = length])
qed

lemma grace_microseconds: "uint (grace_seconds DEFAULT_RETENTION_POLICY) * 1000000 = 2592000000000"
  by (simp add: DEFAULT_RETENTION_POLICY_def)

lemma exclusion_records_tombstone:
  assumes "apply_transition env now db t Excluded g = Inr db'"
  shows "v_preservation_level g = ''none'' \<and> v_pinned g \<noteq> Some True
      \<and> (\<exists>row. find_target db t = Some row \<and> \<not> t_pinned row)
      \<and> (if list_ex (\<lambda>tb. tb_target tb = t \<and> active_tombstone tb) (tombstones db)
         then tombstones db' = tombstones db
         else \<exists>ident n c. tombstones db' = tombstones db @ [new_tombstone ident now t n c])"
  using assms
proof (cases rule: apply_transition_steps)
  case (1 n c db1 row db2 db3)
  have t1: "tombstones db1 = tombstones db" "targets db1 = targets db"
    using insert_revision_frame [OF 1(2)] by simp_all
  have "find_target db t = Some row" using 1(3) find_target_cong [OF t1(2)] by simp
  moreover have "tombstones db' = tombstones db2"
    using 1(5,6) by (auto simp: guarded_status_update_def write_status_def emit_state_changed_def
        advance_def split: option.splits if_splits)
  moreover have "create_target_tombstone env now db1 t n c = Inr db2"
    "v_preservation_level g = ''none''" "\<not> t_pinned row" "v_pinned g \<noteq> Some True"
    using 1(4) by (auto simp: apply_target_retention_transition_def split: if_splits)
  moreover from this(1) have "if list_ex (\<lambda>tb. tb_target tb = t \<and> active_tombstone tb) (tombstones db)
      then tombstones db2 = tombstones db
      else tombstones db2 = tombstones db @ [new_tombstone (now_v7 env db1) now t n c]"
    by (auto simp: create_target_tombstone_def append_audit_def advance_def simp flip: t1 split: if_splits)
  ultimately show ?thesis by (metis (no_types, lifting))
qed

lemma write_status_frame [simp]:
  "tombstones (write_status db t s) = tombstones db" "plans (write_status db t s) = plans db"
  "pins (write_status db t s) = pins db"
  by (simp_all add: write_status_def)

lemma deletion_not_executable:
  assumes "\<forall>tb \<in> set (tombstones db). tb_target tb = t \<and> active_tombstone tb \<longrightarrow> clock < tb_not_before tb"
  shows "\<not> deletion_executable db clock t"
  using assms by (auto simp: deletion_executable_def list_ex_iff)

text \<open>
  C23. Deliveries are consumed exactly once: in a stream of deliveries, each consumed at its own
  instant and refused ones leaving no trace, a repeated delivery of a message already in the stream
  changes nothing, wherever it arrives and whatever follows it.
\<close>

theorem redelivery_changes_nothing:
  assumes "m \<in> snd ` set before"
  shows "deliver_all (\<lambda>now (p, e, s, mid, d) db. map_sum id snd (ingest_delivery env now db p e s mid d))
           (before @ (now, m) # after) db
       = deliver_all (\<lambda>now (p, e, s, mid, d) db. map_sum id snd (ingest_delivery env now db p e s mid d))
           (before @ after) db"
  using assms by (rule ingestion.redelivery_noop)

theorem redelivery_changes_nothing_witness:
  "deliver_all (\<lambda>now (p, e, s, mid, d) db. map_sum id snd (ingest_delivery example_env now db p e s mid d))
     ([(1000, ''github'', ''42'', ''lane'', 7, active_policy 3)]
        @ (5000, ''github'', ''42'', ''lane'', 7, active_policy 3) # []) empty_db
   = example_db"
proof -
  have "deliver_all (\<lambda>now (p, e, s, mid, d) db. map_sum id snd (ingest_delivery example_env now db p e s mid d))
     ([(1000, ''github'', ''42'', ''lane'', 7, active_policy 3)] @ []) empty_db = example_db"
    by (simp add: example_db_ingested)
  moreover have "(''github'', ''42'', ''lane'', 7, active_policy 3)
      \<in> snd ` set [(1000 :: timestamp, ''github'', ''42'', ''lane'', 7 :: uuid, active_policy 3)]"
    by simp
  ultimately show ?thesis
    using redelivery_changes_nothing by metis
qed

text \<open>
  A delivery is accepted exactly when it is deliverable and its message is new, and one that is
  deliverable but repeated is refused as a duplicate.
\<close>

theorem ingest_accepts_exactly:
  "is_ok (ingest_delivery env now db p e s m d) = (deliverable env p e s d \<and> (s, m) \<notin> set (inbox db))
   \<and> (if deliverable env p e s d \<and> (s, m) \<in> set (inbox db)
      then ingest_delivery env now db p e s m d = Inl DuplicateDelivery else True)"
  by (auto simp: ingest_ok)
    (auto simp: ingest_delivery_def deliverable_def revision_checks_def revision_row_def split: sum.splits)

text \<open>
  The highest revision governs, whatever the order of arrival: an accepted delivery makes the
  governing revision of its target the maximum of the previous one and its own, a stale or repeated
  revision leaves the governing record itself in place, and no other target is affected.
\<close>

theorem highest_revision_governs:
  assumes "ingest_delivery env now db p e s m d = Inr (t, db')"
    and "v_policy_revision d = Some revision"
  shows "map_option r_revision (governing_policy db' t) =
           Some (case governing_policy db t of
                   None \<Rightarrow> uint revision | Some g \<Rightarrow> max (r_revision g) (uint revision))
       \<and> (\<forall>g. governing_policy db t = Some g \<and> uint revision \<le> r_revision g
              \<longrightarrow> governing_policy db' t = Some g)
       \<and> (\<forall>u. u \<noteq> t \<longrightarrow> governing_policy db' u = governing_policy db u)"
  using assms(1)
proof (cases rule: ingest_steps)
  case (1 n c db1)
  have "revisions db1 = revisions db"
    using 1(3) by (auto simp: ensure_target_def emit_state_changed_def advance_def Let_def
        split: if_splits option.splits)
  then have "governing_policy db1 u = governing_policy db u" for u
    by (simp add: governing_policy_def)
  moreover have "n = uint revision"
    using governed_inputs_range [OF 1(1)] assms(2) by auto
  ultimately show ?thesis
    using insert_revision_governing [OF 1(4)] by (auto simp: revision_row_def split: option.splits)
qed

theorem highest_revision_governs_witness:
  "map_option r_revision (governing_policy example_db 1) = Some 3"
proof -
  have "governing_policy empty_db 1 = None" by (simp add: governing_policy_def empty_db_def)
  then show ?thesis
    using highest_revision_governs [OF example_db_ingested, of 3] by (simp add: active_policy_def)
qed

end
