(* ===== verification/Reconcile.thy ===== *)
theory Reconcile
  imports Store_Invariants
begin

text \<open>
  The reconciliation cycle (\<open>services/vault/src/reconcile.rs\<close>): messages are validated and ingested
  one transaction at a time, then every touched target is converged toward its governing revision.
  Each transaction commits on its own, so an early return keeps what was committed before it: the
  operations return the database together with their result. The clock is a parameter, read by each
  transaction on the database it starts from.
\<close>

record CycleReport =
  cycle_proposed :: nat
  cycle_executable :: nat

definition remember :: "uuid list \<Rightarrow> uuid \<Rightarrow> uuid list" where
  "remember touched target = (if target \<in> set touched then touched else touched @ [target])"

definition governed_record :: "RevisionRow \<Rightarrow> (VaultError, ValidatedDelivery) result" where
  "governed_record g =
     (if r_revision g < 0 then Inl (InvalidDelivery ''policy_revision'')
      else Inr \<lparr> v_preservation_level = r_level g, v_pinned = Some (r_pinned g),
                 v_include_wiki = Some (r_wiki g), v_include_releases = Some (r_releases g),
                 v_include_issues = Some (r_issues g), v_offsite_required = Some (r_offsite g),
                 v_correlation_id = r_correlation g,
                 v_policy_revision = Some (word_of_int (r_revision g)) \<rparr>)"

text \<open>The executor's loop over the planned items; only two kinds of item run.\<close>

fun run_items ::
  "store_env \<Rightarrow> (vault_db \<Rightarrow> timestamp) \<Rightarrow> uuid \<Rightarrow> ValidatedDelivery \<Rightarrow> WorkItem list \<Rightarrow> vault_db
     \<Rightarrow> vault_db \<times> (VaultError, unit) result" where
  "run_items env clock target desired [] db = (db, Inr ())"
| "run_items env clock target desired (item # rest) db =
     (if item = Exclude \<or> item = Reactivate then
        (case apply_transition env (clock db) db target
                (if item = Exclude then Excluded else Requested) desired of
           Inl e \<Rightarrow> (db, Inl e)
         | Inr db' \<Rightarrow> run_items env clock target desired rest db')
      else run_items env clock target desired rest db)"

definition converge_target ::
  "store_env \<Rightarrow> (vault_db \<Rightarrow> timestamp) \<Rightarrow> vault_db \<Rightarrow> uuid \<Rightarrow> vault_db \<times> (VaultError, PlanCounters) result" where
  "converge_target env clock db target =
     (case governing_policy db target of
        None \<Rightarrow> (db, Inr \<lparr>proposed = 0, executable = 0\<rparr>)
      | Some policy \<Rightarrow>
          (case governed_record policy of
             Inl e \<Rightarrow> (db, Inl e)
           | Inr desired \<Rightarrow>
               (case observed_status db target of
                  Inl e \<Rightarrow> (db, Inl e)
                | Inr observed \<Rightarrow>
                    (let planned = plan desired observed
                     in case run_items env clock target desired (items planned) db of
                          (db', Inl e) \<Rightarrow> (db', Inl e)
                        | (db', Inr _) \<Rightarrow> (db', Inr (counters planned))))))"

fun ingest_messages ::
  "store_env \<Rightarrow> (vault_db \<Rightarrow> timestamp) \<Rightarrow> IncomingDelivery list \<Rightarrow> uuid list \<Rightarrow> vault_db
     \<Rightarrow> vault_db \<times> (VaultError, uuid list) result" where
  "ingest_messages env clock [] touched db = (db, Inr touched)"
| "ingest_messages env clock (m # ms) touched db =
     (case validate_delivery (delivery m) of
        Inl e \<Rightarrow> (db, Inl e)
      | Inr validated \<Rightarrow>
          (case ingest_delivery env (clock db) db (provider m) (external_repository_id m) (source m)
                  (message_id m) validated of
             Inr (target, db') \<Rightarrow> ingest_messages env clock ms (remember touched target) db'
           | Inl DuplicateDelivery \<Rightarrow>
               (case repository_target db (provider m) (external_repository_id m) of
                  Inl e \<Rightarrow> (db, Inl e)
                | Inr target \<Rightarrow> ingest_messages env clock ms (remember touched target) db)
           | Inl e \<Rightarrow> (db, Inl e)))"

fun converge_all ::
  "store_env \<Rightarrow> (vault_db \<Rightarrow> timestamp) \<Rightarrow> uuid list \<Rightarrow> CycleReport \<Rightarrow> vault_db
     \<Rightarrow> vault_db \<times> (VaultError, CycleReport) result" where
  "converge_all env clock [] report db = (db, Inr report)"
| "converge_all env clock (target # rest) report db =
     (case converge_target env clock db target of
        (db', Inl e) \<Rightarrow> (db', Inl e)
      | (db', Inr c) \<Rightarrow>
          converge_all env clock rest
            \<lparr> cycle_proposed = cycle_proposed report + proposed c,
              cycle_executable = cycle_executable report + executable c \<rparr> db')"

definition run_cycle ::
  "store_env \<Rightarrow> (vault_db \<Rightarrow> timestamp) \<Rightarrow> IncomingDelivery list \<Rightarrow> vault_db
     \<Rightarrow> vault_db \<times> (VaultError, CycleReport) result" where
  "run_cycle env clock messages db =
     (case ingest_messages env clock messages [] db of
        (db', Inl e) \<Rightarrow> (db', Inl e)
      | (db', Inr touched) \<Rightarrow>
          converge_all env clock touched \<lparr>cycle_proposed = 0, cycle_executable = 0\<rparr> db')"

subsection \<open>Convergence of one target\<close>

lemma governed_record_policy:
  assumes "governed_record g = Inr d" and "r_revision g < 2 ^ 63"
  shows "v_policy_revision d = Some (word_of_int (r_revision g))"
    and "uint (word_of_int (r_revision g) :: u64) = r_revision g"
  using assms by (auto simp: governed_record_def uint_word_of_int take_bit_int_eq_self split: if_splits)

lemma apply_transition_frame:
  assumes "apply_transition env now db t to g = Inr db'"
  shows "inbox db' = inbox db"
    and "u \<noteq> t \<Longrightarrow> find_target db' u = find_target db u"
    and "u \<noteq> t \<Longrightarrow> governing_policy db' u = governing_policy db u"
    and "\<exists>n c. governed_inputs env g = Inr (n, c) \<and> (\<forall>p. governing_policy db t = Some p \<and> n \<le> r_revision p \<longrightarrow>
           governing_policy db' t = Some p)"
    and "minted db \<le> minted db'"
    and "find_repository db' p e = map_option (\<lambda>row. if t_id row = t then row\<lparr>t_status := TargetStatus_as_str to\<rparr> else row)
           (find_repository db p e)"
proof -
  obtain n c db1 row db2 db3 where
    1: "governed_inputs env g = Inr (n, c)" "insert_revision db (revision_row t n g None) = Inr db1"
    "find_target db1 t = Some row"
    "apply_target_retention_transition env now db1 t (t_pinned row) to g n c = Inr db2"
    "guarded_status_update db2 now t (TargetStatus_as_str to) = Inr db3"
    "db' = (if t_status row \<noteq> TargetStatus_as_str to
            then emit_state_changed env now t (Some (t_status row)) (TargetStatus_as_str to) n
                   (v_correlation_id g) db3
            else db3)"
    using assms by (rule apply_transition_steps)
  have "find_target db2 t = Some row"
    using 1(3) find_target_cong retention_transition_frame [OF 1(4)] by metis
  then have db3: "db3 = write_status db2 t (TargetStatus_as_str to)"
    using 1(5) by (auto simp: guarded_status_update_def split: option.splits)
  note frames = insert_revision_frame [OF 1(2)] retention_transition_frame [OF 1(4)]
  have last: "inbox db' = inbox db3" "targets db' = targets db3" "revisions db' = revisions db3"
    "minted db3 \<le> minted db'"
    using 1(6) by (simp_all add: emit_state_changed_def advance_def)
  have ts: "targets db' = targets (write_status db t (TargetStatus_as_str to))"
    using last(2) frames by (simp add: db3 write_status_def)
  have revs: "revisions db' = revisions db1"
    using last(3) frames by (simp add: db3 write_status_def)
  show "inbox db' = inbox db" using last(1) frames by (simp add: db3 write_status_def)
  show "find_target db' u = find_target db u" if "u \<noteq> t"
    using that find_target_write_status [of db t _ u] find_target_cong [OF ts, of u]
    by (cases "find_target db u") simp_all
  have gov: "governing_policy db' u = governing_policy db1 u" for u
    by (simp add: governing_policy_def revs)
  show "governing_policy db' u = governing_policy db u" if "u \<noteq> t"
    using gov insert_revision_governing(3) [OF 1(2)] that by simp
  show "\<exists>n c. governed_inputs env g = Inr (n, c) \<and> (\<forall>p. governing_policy db t = Some p \<and> n \<le> r_revision p \<longrightarrow>
           governing_policy db' t = Some p)"
    using gov insert_revision_governing(2) [OF 1(2)] 1(1) by simp
  show "minted db \<le> minted db'"
    using minted_mono(1) [OF 1(2)] minted_mono_retention [OF 1(4)] minted_mono(4) [OF 1(5)] last(4) by linarith
  have "find P (map f rows) = map_option f (find P rows)"
    if "\<And>row. P (f row) = P row" for P and f :: "TargetRow \<Rightarrow> TargetRow" and rows
    using that by (induction rows) auto
  then show "find_repository db' p e = map_option (\<lambda>row. if t_id row = t then row\<lparr>t_status := TargetStatus_as_str to\<rparr> else row)
           (find_repository db p e)"
    unfolding find_repository_def ts write_status_def by simp
qed

text \<open>A target is settled when its plan holds nothing the executor would run.\<close>

definition settled :: "vault_db \<Rightarrow> uuid \<Rightarrow> bool" where
  "settled db t \<longleftrightarrow>
     (case governing_policy db t of
        None \<Rightarrow> True
      | Some g \<Rightarrow>
          (case (governed_record g, observed_status db t) of
             (Inr d, Inr obs) \<Rightarrow> Exclude \<notin> set (plan_items d obs) \<and> Reactivate \<notin> set (plan_items d obs)
           | _ \<Rightarrow> False))"

lemma plan_items_shape:
  "plan_items d obs = [Exclude] \<or> plan_items d obs = [Reactivate]
   \<or> Exclude \<notin> set (plan_items d obs) \<and> Reactivate \<notin> set (plan_items d obs)"
  by (auto simp: plan_items_def Let_def split: option.splits)

lemma run_items_idle:
  "Exclude \<notin> set work \<Longrightarrow> Reactivate \<notin> set work \<Longrightarrow> run_items env clock t d work db = (db, Inr ())"
  by (induction work) auto

lemma settled_converged: "settled db t \<Longrightarrow> \<exists>c. converge_target env clock db t = (db, Inr c)"
  by (auto simp: settled_def converge_target_def run_items_idle Let_def split: option.splits sum.splits)

lemma settled_cong:
  "governing_policy db' t = governing_policy db t \<Longrightarrow> find_target db' t = find_target db t \<Longrightarrow>
     settled db' t = settled db t"
  unfolding settled_def observed_status_def by (simp only:)

text \<open>One convergence is either idle on a settled target or a single governed transition.\<close>

lemma converge_target_cases:
  assumes "converge_target env clock db t = (db', Inr c)"
  obtains (idle) "db' = db" "settled db t"
  | (moved) g d obs to where "governing_policy db t = Some g" "governed_record g = Inr d"
      "observed_status db t = Inr obs"
      "to = Excluded \<and> v_preservation_level d = ''none'' \<or> to = Requested \<and> v_preservation_level d \<noteq> ''none''"
      "apply_transition env (clock db) db t to d = Inr db'"
proof (cases "governing_policy db t")
  case None
  then show ?thesis using assms idle by (simp add: converge_target_def settled_def)
next
  case (Some g)
  with assms obtain d obs where g: "governed_record g = Inr d" "observed_status db t = Inr obs"
    and run: "run_items env clock t d (plan_items d obs) db = (db', Inr ())"
    by (auto simp: converge_target_def Let_def split: sum.splits prod.splits)
  consider (ex) "plan_items d obs = [Exclude]" | (re) "plan_items d obs = [Reactivate]"
    | (no) "Exclude \<notin> set (plan_items d obs) \<and> Reactivate \<notin> set (plan_items d obs)"
    using plan_items_shape by blast
  then show ?thesis
  proof cases
    case ex
    then have "v_preservation_level d = ''none''" using Exclude_planned [of d obs] by simp
    with ex run Some g show ?thesis by (auto intro: moved split: sum.splits)
  next
    case re
    then have "v_preservation_level d \<noteq> ''none''" using Reactivate_planned [of d obs] by simp
    with re run Some g show ?thesis by (auto intro: moved split: sum.splits)
  next
    case no
    with run have "db' = db" by (simp add: run_items_idle)
    with no Some g show ?thesis using idle by (auto simp: settled_def)
  qed
qed

lemma wf_governing:
  assumes "wf_db env db" and "governing_policy db t = Some g"
  shows "0 < r_revision g \<and> r_revision g < 2 ^ 63 \<and> r_target g = t \<and> revision_checks g"
  using assms highest_revision_Some
  by (fastforce simp: governing_policy_def wf_db_def wf_revisions_def revision_checks_def)

lemma governed_transition_keeps_governing:
  assumes "wf_db env db" "governing_policy db t = Some g" "governed_record g = Inr d"
    "apply_transition env now db t to d = Inr db'"
  shows "governing_policy db' u = governing_policy db u"
proof (cases "u = t")
  case True
  from apply_transition_frame(4) [OF assms(4)] obtain n c where
    n: "governed_inputs env d = Inr (n, c)"
    "\<forall>p. governing_policy db t = Some p \<and> n \<le> r_revision p \<longrightarrow> governing_policy db' t = Some p"
    by blast
  have "n = r_revision g"
    using governed_inputs_range [OF n(1)] governed_record_policy [OF assms(3)] wf_governing [OF assms(1,2)] by auto
  with n(2) assms(2) True show ?thesis by simp
qed (rule apply_transition_frame(3) [OF assms(4)])

lemma converge_settles:
  assumes "converge_target env clock db t = (db', Inr c)" and "wf_db env db"
  shows "settled db' t \<and> (\<forall>u. settled db u \<longrightarrow> settled db' u) \<and> inbox db' = inbox db \<and> minted db \<le> minted db'
    \<and> (inj_on (mint env) {..<minted db'} \<longrightarrow> wf_db env db')
    \<and> (\<forall>p e. map_option t_id (find_repository db' p e) = map_option t_id (find_repository db p e))"
  using assms(1)
proof (cases rule: converge_target_cases)
  case (moved g d obs to)
  note gov = governed_transition_keeps_governing [OF assms(2) moved(1,2,5)]
  have "observed_status db' t = Inr (Some to)"
    using apply_transition_statuses [OF moved(5) assms(2)] by blast
  then have settled_t: "settled db' t"
    using moved(1,2,4) gov by (auto simp: settled_def planned_iffs)
  moreover have "settled db u \<Longrightarrow> settled db' u" for u
    using settled_t settled_cong [of db' u db] gov apply_transition_frame(2) [OF moved(5)] by (cases "u = t") auto
  moreover have "map_option t_id (find_repository db' p e) = map_option t_id (find_repository db p e)" for p e
    unfolding apply_transition_frame(6) [OF moved(5), of p e]
    by (cases "find_repository db p e") simp_all
  ultimately show ?thesis
    using apply_transition_frame(1,5) [OF moved(5)] wf_apply_transition [OF moved(5) assms(2)] by blast
qed (use assms in simp)

subsection \<open>The whole cycle\<close>

text \<open>What a later database still knows of an earlier one: its claimed messages and its repositories.\<close>

definition extends :: "vault_db \<Rightarrow> vault_db \<Rightarrow> bool" where
  "extends db db' \<longleftrightarrow>
     set (inbox db) \<subseteq> set (inbox db') \<and> minted db \<le> minted db'
     \<and> (\<forall>p e t. map_option t_id (find_repository db p e) = Some t
           \<longrightarrow> map_option t_id (find_repository db' p e) = Some t)"

lemma extends_refl [simp]: "extends db db"
  by (simp add: extends_def)

lemma extends_trans: "extends a b \<Longrightarrow> extends b c \<Longrightarrow> extends a c"
  by (force simp: extends_def)

lemma find_append_Some: "find P xs = Some x \<Longrightarrow> find P (xs @ ys) = Some x"
  by (induction xs) auto

lemma find_append_None: "find P xs = None \<Longrightarrow> find P (xs @ ys) = find P ys"
  by (induction xs) auto

lemma ensure_target_extends:
  assumes "ensure_target env now db p e n c = Inr (t, db')"
  shows "extends db db' \<and> map_option t_id (find_repository db' p e) = Some t"
proof (cases "find_repository db p e")
  case None
  define row where "row = \<lparr>t_id = now_v7 env db, t_provider = p, t_external = e,
      t_kind = ''repository'', t_parent = None, t_status = ''requested'', t_pinned = False\<rparr>"
  have new: "inbox db' = inbox db" "targets db' = targets db @ [row]" "minted db \<le> minted db'" "t = t_id row"
    using assms None
    by (auto simp: ensure_target_def row_def emit_state_changed_def advance_def Let_def split: if_splits)
  then show ?thesis
    using None by (auto simp: extends_def find_repository_def find_append_Some find_append_None row_def)
qed (use assms in \<open>auto simp: ensure_target_def split: if_splits\<close>)

lemma ingest_extends:
  assumes "ingest_delivery env now db p e s m d = Inr (t, db')"
  shows "extends db db' \<and> map_option t_id (find_repository db' p e) = Some t"
  using assms
proof (cases rule: ingest_steps)
  case (1 n c db1)
  have "extends db (db\<lparr>inbox := inbox db @ [(s, m)]\<rparr>)"
    by (auto simp: extends_def find_repository_def)
  moreover have "extends db1 db'" "find_repository db' p e = find_repository db1 p e"
    using insert_revision_frame [OF 1(4)] minted_mono(1) [OF 1(4)] by (auto simp: extends_def find_repository_def)
  ultimately show ?thesis
    using ensure_target_extends [OF 1(3)] extends_trans [of db "db\<lparr>inbox := inbox db @ [(s, m)]\<rparr>" db1]
      extends_trans [of db db1 db'] by simp
qed

lemma converge_extends:
  assumes "converge_target env clock db t = (db', Inr c)" and "wf_db env db"
  shows "extends db db'"
  using converge_settles [OF assms] by (auto simp: extends_def)

lemma ingest_duplicate_iff:
  "ingest_delivery env now db p e s m d = Inl DuplicateDelivery \<longleftrightarrow>
     is_ok (governed_inputs env d) \<and> 1 \<le> char_length s \<and> char_length s \<le> 64 \<and> (s, m) \<in> set (inbox db)"
proof (cases "governed_inputs env d")
  case (Inl err)
  then show ?thesis
    by (auto simp: ingest_delivery_def governed_inputs_def split: option.splits if_splits)
next
  case (Inr nc)
  have "ensure_target env now db p e n c \<noteq> Inl DuplicateDelivery"
    "insert_revision db row \<noteq> Inl DuplicateDelivery" for db n c row
    by (auto simp: ensure_target_def insert_revision_def Let_def split: option.splits)
  with Inr show ?thesis
    by (cases nc) (auto simp: ingest_delivery_def result_bind_Inl not_le)
qed

lemma ingest_again:
  assumes "ingest_delivery env now db p e s m v = Inr (t, db1)" and "extends db1 db2"
  shows "ingest_delivery env now' db2 p e s m v = Inl DuplicateDelivery" and "repository_target db2 p e = Inr t"
proof -
  have "is_ok (ingest_delivery env now db p e s m v)" by (simp add: assms(1))
  then have "is_ok (governed_inputs env v)" "1 \<le> char_length s \<and> char_length s \<le> 64"
    by (auto simp: ingest_ok deliverable_def revision_checks_def revision_row_def split: sum.splits)
  moreover have "(s, m) \<in> set (inbox db2)"
    using ingest_claims [OF assms(1)] assms(2) by (auto simp: extends_def)
  ultimately show "ingest_delivery env now' db2 p e s m v = Inl DuplicateDelivery"
    by (simp add: ingest_duplicate_iff)
  have "map_option t_id (find_repository db2 p e) = Some t"
    using ingest_extends [OF assms(1)] assms(2) unfolding extends_def by blast
  then show "repository_target db2 p e = Inr t"
    by (auto simp: repository_target_def)
qed

lemma ingest_messages_keeps:
  "ingest_messages env clock ms touched db = (db', Inr touched') \<Longrightarrow>
     extends db db' \<and> (wf_db env db \<longrightarrow> inj_on (mint env) {..<minted db'} \<longrightarrow> wf_db env db')"
proof (induction env clock ms touched db rule: ingest_messages.induct [case_names Nil Cons])
  case (Cons env clock m ms touched db)
  from Cons.prems obtain v where v: "validate_delivery (delivery m) = Inr v"
    by (cases "validate_delivery (delivery m)") auto
  let ?ingest = "ingest_delivery env (clock db) db (provider m) (external_repository_id m) (source m) (message_id m) v"
  show ?case
  proof (cases "?ingest")
    case (Inr r)
    obtain t db1 where r: "r = (t, db1)" by (cases r)
    with Inr have i: "?ingest = Inr (t, db1)" by simp
    with Cons.prems v have "ingest_messages env clock ms (remember touched t) db1 = (db', Inr touched')" by simp
    from Cons.IH(2) [OF v i refl this] have rest: "extends db1 db'"
      "wf_db env db1 \<Longrightarrow> inj_on (mint env) {..<minted db'} \<Longrightarrow> wf_db env db'" by blast+
    have "inj_on (mint env) {..<minted db'} \<Longrightarrow> inj_on (mint env) {..<minted db1}"
      using rest(1) inj_on_less by (auto simp: extends_def)
    then show ?thesis
      using rest ingest_extends [OF i] extends_trans wf_ingest_delivery [OF i] by blast
  next
    case (Inl e)
    with Cons.prems v have e: "e = DuplicateDelivery" by (cases e) auto
    with Inl Cons.prems v obtain t where
      "repository_target db (provider m) (external_repository_id m) = Inr t"
      "ingest_messages env clock ms (remember touched t) db = (db', Inr touched')"
      by (auto split: sum.splits)
    with Cons.IH(1) [OF v] Inl e show ?thesis by blast
  qed
qed simp

lemma ingest_messages_replay:
  "ingest_messages env clock ms touched db = (db1, Inr touched') \<Longrightarrow> extends db1 db2 \<Longrightarrow>
     ingest_messages env clock' ms touched db2 = (db2, Inr touched')"
proof (induction env clock ms touched db rule: ingest_messages.induct [case_names Nil Cons])
  case (Cons env clock m ms touched db)
  from Cons.prems obtain v where v: "validate_delivery (delivery m) = Inr v"
    by (cases "validate_delivery (delivery m)") auto
  let ?ingest = "\<lambda>clock db. ingest_delivery env (clock db) db (provider m) (external_repository_id m)
      (source m) (message_id m) v"
  have *: "ingest_messages env clock' (m # ms) touched db2 = ingest_messages env clock' ms (remember touched t) db2"
    if "?ingest clock' db2 = Inl DuplicateDelivery" "repository_target db2 (provider m) (external_repository_id m) = Inr t"
    for t using that v by simp
  show ?case
  proof (cases "?ingest clock db")
    case (Inr r)
    obtain t dbm where r: "r = (t, dbm)" by (cases r)
    with Inr have i: "?ingest clock db = Inr (t, dbm)" by simp
    with Cons.prems(1) v have rest: "ingest_messages env clock ms (remember touched t) dbm = (db1, Inr touched')" by simp
    have "extends dbm db2"
      using ingest_messages_keeps [OF rest] Cons.prems(2) extends_trans by blast
    then show ?thesis
      using * [OF ingest_again [OF i]] Cons.IH(2) [OF v i refl rest Cons.prems(2)] by simp
  next
    case (Inl e)
    with Cons.prems v have e: "e = DuplicateDelivery" by (cases e) auto
    with Inl Cons.prems v obtain t where
      t: "repository_target db (provider m) (external_repository_id m) = Inr t" and
      rest: "ingest_messages env clock ms (remember touched t) db = (db1, Inr touched')"
      by (auto split: sum.splits)
    have ext: "extends db db2"
      using ingest_messages_keeps [OF rest] Cons.prems(2) extends_trans by blast
    then have "?ingest clock' db2 = Inl DuplicateDelivery"
      using Inl e by (auto simp: ingest_duplicate_iff extends_def)
    moreover have "map_option t_id (find_repository db (provider m) (external_repository_id m)) = Some t"
      using t by (auto simp: repository_target_def split: option.splits)
    then have "map_option t_id (find_repository db2 (provider m) (external_repository_id m)) = Some t"
      using ext unfolding extends_def by blast
    then have "repository_target db2 (provider m) (external_repository_id m) = Inr t"
      by (auto simp: repository_target_def)
    ultimately show ?thesis
      using * Cons.IH(1) [OF v] Inl e t rest Cons.prems(2) by simp
  qed
qed simp

lemma converge_minted: "converge_target env clock db t = (db', Inr c) \<Longrightarrow> minted db \<le> minted db'"
  by (erule converge_target_cases) (auto dest: apply_transition_frame(5))

lemma converge_all_Cons:
  assumes "converge_all env clock (t # ts) report db = (db', Inr report')"
  obtains db1 c r1 where "converge_target env clock db t = (db1, Inr c)"
    "converge_all env clock ts r1 db1 = (db', Inr report')"
  using assms by (auto split: prod.splits sum.splits)

lemma converge_all_minted: "converge_all env clock ts report db = (db', Inr report') \<Longrightarrow> minted db \<le> minted db'"
proof (induction ts arbitrary: report db)
  case (Cons t ts)
  from Cons.prems show ?case
    by (rule converge_all_Cons) (use Cons.IH converge_minted in \<open>fastforce intro: order_trans\<close>)
qed simp

lemma converge_all_settles:
  "converge_all env clock ts report db = (db', Inr report') \<Longrightarrow> wf_db env db \<Longrightarrow>
     inj_on (mint env) {..<minted db'} \<Longrightarrow>
     wf_db env db' \<and> extends db db' \<and> (\<forall>t. t \<in> set ts \<or> settled db t \<longrightarrow> settled db' t)"
proof (induction ts arbitrary: report db)
  case (Cons t ts)
  from Cons.prems(1) obtain db1 c r1 where
    first: "converge_target env clock db t = (db1, Inr c)" and
    rest: "converge_all env clock ts r1 db1 = (db', Inr report')" by (rule converge_all_Cons)
  have "inj_on (mint env) {..<minted db1}"
    using inj_on_less [OF Cons.prems(3) converge_all_minted [OF rest]] .
  then have wf1: "wf_db env db1"
    using converge_settles [OF first Cons.prems(2)] by blast
  show ?case
    using Cons.IH [OF rest wf1 Cons.prems(3)] converge_settles [OF first Cons.prems(2)]
      converge_extends [OF first Cons.prems(2)] extends_trans by auto
qed simp

lemma converge_all_settled:
  "\<forall>t \<in> set ts. settled db t \<Longrightarrow> \<exists>report'. converge_all env clock ts report db = (db, Inr report')"
proof (induction ts arbitrary: report)
  case (Cons t ts)
  then obtain c where "converge_target env clock db t = (db, Inr c)"
    using settled_converged by (metis list.set_intros(1))
  with Cons show ?case by simp
qed simp

text \<open>A completed cycle, taken apart into its ingestion and its convergence.\<close>

lemma run_cycle_steps:
  assumes "run_cycle env clock ms db = (db', Inr report)" and "wf_db env db"
    and "inj_on (mint env) {..<minted db'}"
  obtains db1 touched r0 where "ingest_messages env clock ms [] db = (db1, Inr touched)"
    "converge_all env clock touched r0 db1 = (db', Inr report)" "wf_db env db1"
    "inj_on (mint env) {..<minted db1}"
proof -
  from assms(1) obtain db1 touched r0 where
    s: "ingest_messages env clock ms [] db = (db1, Inr touched)"
    "converge_all env clock touched r0 db1 = (db', Inr report)"
    by (auto simp: run_cycle_def split: prod.splits sum.splits)
  have inj: "inj_on (mint env) {..<minted db1}"
    using inj_on_less [OF assms(3) converge_all_minted [OF s(2)]] .
  then have "wf_db env db1" using ingest_messages_keeps [OF s(1)] assms(2) by blast
  with s inj show ?thesis using that by blast
qed

lemma run_cycle_again:
  assumes "run_cycle env clock ms db = (db', Inr report)" and "wf_db env db"
    and "inj_on (mint env) {..<minted db'}"
  shows "\<exists>report'. run_cycle env clock' ms db' = (db', Inr report')"
  using assms
proof (rule run_cycle_steps)
  fix db1 touched r0
  assume s: "ingest_messages env clock ms [] db = (db1, Inr touched)"
    "converge_all env clock touched r0 db1 = (db', Inr report)" "wf_db env db1"
  have fin: "extends db1 db'" "\<forall>t \<in> set touched. settled db' t"
    using converge_all_settles [OF s(2,3) assms(3)] by blast+
  show ?thesis
    using ingest_messages_replay [OF s(1) fin(1)] converge_all_settled [OF fin(2)] by (simp add: run_cycle_def)
qed

text \<open>
  C2. Reconciliation is idempotent: when a cycle over a batch of messages completes, running the
  same batch again, at any later instants, completes and leaves the database exactly as it is. Hence
  a redelivered batch, or a retry after a lost acknowledgement, has no effect.
\<close>

theorem reconciliation_idempotent:
  assumes "run_cycle env clock messages db = (db', Inr report)"
    and "wf_db env db" and "inj_on (mint env) {..<minted db'}"
  shows "\<exists>report'. run_cycle env clock' messages db' = (db', Inr report')"
  using assms by (rule run_cycle_again)

definition example_message :: "uuid \<Rightarrow> string \<Rightarrow> u64 \<Rightarrow> IncomingDelivery" where
  "example_message ident level revision =
     \<lparr> provider = ''github'', external_repository_id = ''42'', source = ''lane'', message_id = ident,
       delivery = \<lparr> preservation_level = level, pinned = Some False, include_wiki = None,
         include_releases = None, include_issues = None, offsite_required = None,
         correlation_id = ''corr'', policy_revision = Some revision \<rparr> \<rparr>"

definition example_batch :: "IncomingDelivery list" where
  "example_batch = [example_message 7 ''git_mirror'' 3, example_message 8 ''none'' 4]"

definition example_cycle :: vault_db where
  "example_cycle = fst (run_cycle example_env (\<lambda>_. 1000) example_batch empty_db)"

theorem reconciliation_idempotent_witness:
  "fst (run_cycle example_env (\<lambda>_. 9000) example_batch example_cycle) = example_cycle
   \<and> observed_status example_cycle 1 = Inr (Some Excluded)"
proof -
  have "run_cycle example_env (\<lambda>_. 1000) example_batch empty_db =
      (example_cycle, Inr \<lparr>cycle_proposed = 1, cycle_executable = 1\<rparr>)"
    by code_simp
  moreover have "minted example_cycle \<le> 1000" by code_simp
  then have "inj_on (mint example_env) {..<minted example_cycle}"
    by (rule inj_on_less [OF example_mint_inj])
  ultimately have "\<exists>report'. run_cycle example_env (\<lambda>_. 9000) example_batch example_cycle
      = (example_cycle, Inr report')"
    by (rule reconciliation_idempotent [OF _ wf_empty_db])
  then have "fst (run_cycle example_env (\<lambda>_. 9000) example_batch example_cycle) = example_cycle" by auto
  moreover have "observed_status example_cycle 1 = Inr (Some Excluded)" by code_simp
  ultimately show ?thesis by blast
qed

subsection \<open>Withdrawal\<close>

lemma insert_revision_again:
  assumes "wf_db env db" "governing_policy db t = Some g" "governed_record g = Inr d"
  shows "\<exists>c. governed_inputs env d = Inr (r_revision g, c)
      \<and> insert_revision db (revision_row t (r_revision g) d None) = Inr db"
proof -
  note g = wf_governing [OF assms(1,2)]
  have d: "v_policy_revision d = Some (word_of_int (r_revision g))" "v_correlation_id d = r_correlation g"
    "v_preservation_level d = r_level g"
    using assms(3) by (auto simp: governed_record_def split: if_splits)
  have u: "uint (word_of_int (r_revision g) :: u64) = r_revision g"
    using governed_record_policy(2) [OF assms(3)] g by blast
  have corr: "r_correlation g \<noteq> ''''"
    using g by (auto simp: revision_checks_def char_length_def)
  have "revision_checks (revision_row t (r_revision g) d None)"
    using g d by (simp add: revision_checks_def revision_row_def)
  moreover have "list_ex (\<lambda>r. r_target r = t \<and> r_revision r = r_revision g) (revisions db)"
    using assms(2) highest_revision_Some [of "filter (\<lambda>r. r_target r = t) (revisions db)" g]
    by (auto simp: governing_policy_def list_ex_iff)
  ultimately show ?thesis
    using g u corr d by (simp add: insert_revision_def governed_inputs_def i64_try_from_def)
qed

lemma exclude_exact:
  assumes wf: "wf_db env db" and gov: "governing_policy db t = Some g" and rec: "governed_record g = Inr d"
    and "r_level g = ''none''" "\<not> r_pinned g"
    and row: "find_target db t = Some row" "\<not> t_pinned row" "t_status row = TargetStatus_as_str from"
    and "from \<noteq> Excluded"
  shows "if is_legal from Excluded then is_ok (apply_transition env now db t Excluded d)
         else apply_transition env now db t Excluded d = Inl (IllegalTransition (TargetStatus_as_str from) ''excluded'')"
proof -
  from insert_revision_again [OF wf gov rec] obtain c where
    c: "governed_inputs env d = Inr (r_revision g, c)"
    "insert_revision db (revision_row t (r_revision g) d None) = Inr db" by blast
  have d: "v_preservation_level d = ''none''" "v_pinned d = Some False"
    using rec assms(4,5) by (auto simp: governed_record_def split: if_splits)
  have ret: "apply_target_retention_transition env now db t False Excluded d (r_revision g) c
      = create_target_tombstone env now db t (r_revision g) c"
    by (simp add: apply_target_retention_transition_def d)
  obtain db2 where db2: "create_target_tombstone env now db t (r_revision g) c = Inr db2"
    using wf_governing [OF wf gov]
    by (cases "create_target_tombstone env now db t (r_revision g) c")
      (auto simp: create_target_tombstone_def split: if_splits)
  have "find_target db2 t = Some row"
    using retention_transition_frame [OF trans [OF ret db2]] row(1) find_target_cong by metis
  moreover have "(TargetStatus_as_str from, ''excluded'') \<in> set guard_legal_pairs \<longleftrightarrow> is_legal from Excluded"
    using guard_pair_iff [of "from" Excluded] by simp
  moreover have "classify_status_update_failure (''VLT01'', guard_refusal_message (TargetStatus_as_str from) ''excluded'')
      = IllegalTransition (TargetStatus_as_str from) ''excluded''"
    using classify_guard_refusal [of "from" Excluded] by simp
  moreover have "TargetStatus_as_str from \<noteq> ''excluded''"
    using \<open>from \<noteq> Excluded\<close> target_status.name_eq_iff [of "from" Excluded] by simp
  ultimately show ?thesis
    using row c ret db2
    by (auto simp: apply_transition_def guarded_status_update_def target_guard_status_transition_def is_ok_def)
qed

text \<open>
  C32. Convergence of a withdrawn target is decided by the state machine alone: for a target that
  neither the policy nor an operator pins, whose governing revision preserves nothing and which is not
  yet excluded, convergence excludes it if the move is legal from its status, and otherwise reports the
  illegal move and changes nothing.
\<close>

theorem withdrawn_target_converges:
  assumes "wf_db env db" and "governing_policy db t = Some g" and "r_level g = ''none''" and "\<not> r_pinned g"
    and "find_target db t = Some row" and "\<not> t_pinned row" and "t_status row = TargetStatus_as_str from"
    and "from \<noteq> Excluded"
  shows "if is_legal from Excluded
         then \<exists>db' c. converge_target env clock db t = (db', Inr c) \<and> observed_status db' t = Inr (Some Excluded)
         else converge_target env clock db t = (db, Inl (IllegalTransition (TargetStatus_as_str from) ''excluded''))"
proof -
  obtain d where rec: "governed_record g = Inr d" and d: "v_preservation_level d = ''none''" "v_pinned d = Some False"
    using wf_governing [OF assms(1,2)] assms(3,4) by (auto simp: governed_record_def)
  have "items (plan d (Some from)) = [Exclude]"
    using d assms(8) by (simp add: plan_items_def)
  then have conv: "converge_target env clock db t =
      (case apply_transition env (clock db) db t Excluded d of
         Inl e \<Rightarrow> (db, Inl e) | Inr db' \<Rightarrow> (db', Inr (counters (plan d (Some from)))))"
    using observed_status_find [OF assms(5,7)] assms(2) rec
    by (auto simp: converge_target_def Let_def simp del: plan_simps split: sum.splits)
  show ?thesis
    using exclude_exact [OF assms(1,2) rec assms(3-8), of "clock db"] apply_transition_statuses [OF _ assms(1)]
    by (auto simp: conv is_ok_def split: sum.splits) metis
qed

definition example_withdrawn :: vault_db where
  "example_withdrawn = fst (ingest_messages example_env (\<lambda>_. 1000) example_batch [] empty_db)"

theorem withdrawn_target_converges_witness:
  "\<exists>db' c. converge_target example_env (\<lambda>_. 1000) example_withdrawn 1 = (db', Inr c)
     \<and> observed_status db' 1 = Inr (Some Excluded)"
proof -
  have "ingest_messages example_env (\<lambda>_. 1000) example_batch [] empty_db = (example_withdrawn, Inr [1])"
    by code_simp
  moreover have "minted example_withdrawn \<le> 1000" by code_simp
  ultimately have wf: "wf_db example_env example_withdrawn"
    using ingest_messages_keeps wf_empty_db inj_on_less [OF example_mint_inj] by blast
  have gov: "governing_policy example_withdrawn 1 = Some \<lparr>r_target = 1, r_revision = 4, r_level = ''none'',
      r_pinned = False, r_wiki = False, r_releases = False, r_issues = False, r_offsite = False,
      r_correlation = ''corr'', r_source = Some ''lane''\<rparr>"
    by code_simp
  have row: "find_target example_withdrawn 1 = Some \<lparr>t_id = 1, t_provider = ''github'', t_external = ''42'',
      t_kind = ''repository'', t_parent = None, t_status = ''requested'', t_pinned = False\<rparr>"
    by code_simp
  show ?thesis
    using withdrawn_target_converges [OF wf gov _ _ row, of Requested] by simp
qed

end
