(* ===== verification/Policy_Lane.thy ===== *)
theory Policy_Lane
  imports Reconcile
begin

text \<open>
  The policy lane: the pure adapter from a policy document to deliveries
  (\<open>crates/core/src/policy_feed.rs\<close>), the decision ledger (\<open>crates/persistence/src/policy_lane.rs\<close>),
  the command handler (\<open>services/vault/src/policy_bus/handler.rs\<close>) and the acknowledgement relay
  (\<open>crates/persistence/src/outbox_relay.rs\<close>, \<open>services/vault/src/policy_bus/relay.rs\<close>). The wire
  contracts (envelopes, references, JSON) belong to other crates and are members of the record
  \<open>contract_env\<close>; the broker's confirmation of a publish is a parameter.
\<close>

subsection \<open>Contracts\<close>

record DesiredBackupPolicy =
  policy_version :: u64
  repositories :: "string list"

record CommandEnvelope =
  command_id :: uuid
  command_type :: string
  producer :: string
  tenant_id :: "string option"
  command_correlation :: string
  command_payload :: string

datatype PolicyOutcome = AcceptedOutcome | RejectedOutcome
datatype PolicyRejectionCode = PolicyVersionNotMonotonic

record PolicyAcknowledged =
  acknowledged_policy_version :: u64
  ack_outcome :: PolicyOutcome
  ack_reasons :: "PolicyRejectionCode list"
  last_applied_policy_version :: u64

record EventEnvelope =
  ev_event_id :: uuid
  ev_producer :: string
  ev_aggregate_id :: string
  ev_correlation_id :: string
  ev_causation_id :: "string option"
  ev_payload :: PolicyAcknowledged

text \<open>
  The members: \<open>CommandEnvelope::from_json\<close>, \<open>payload_as\<close>, the wire form of a repository
  reference, \<open>EntityRef::parse\<close>, \<open>ProducerName::parse\<close>, the payload's own validation, the JSON
  value of an envelope, its reading back and its canonical text, the contract's command type and the stable
  rejection code.
\<close>

record contract_env =
  from_json :: "string \<Rightarrow> CommandEnvelope option"
  payload_as :: "CommandEnvelope \<Rightarrow> DesiredBackupPolicy option"
  to_wire :: "string \<Rightarrow> string"
  entity_ref_parse :: "string \<Rightarrow> string option"
  producer_parse :: "string \<Rightarrow> string option"
  validate_payload :: "PolicyAcknowledged \<Rightarrow> bool"
  envelope_to_value :: "EventEnvelope \<Rightarrow> string option"
  envelope_from_value :: "string \<Rightarrow> EventEnvelope option"
  to_canonical_json :: "EventEnvelope \<Rightarrow> string option"
  COMMAND_TYPE :: string
  rejection_code_str :: "PolicyRejectionCode \<Rightarrow> string"

subsection \<open>The adapter\<close>

definition POLICY_SOURCE :: string where
  "POLICY_SOURCE = ''github-policy''"

definition PROVIDER :: string where
  "PROVIDER = ''github''"

definition MIRRORED :: string where
  "MIRRORED = ''git_mirror''"

definition WITHDRAWN :: string where
  "WITHDRAWN = ''none''"

definition policy_reference :: "u64 \<Rightarrow> string" where
  "policy_reference version = ''backup_policy:'' @ decimal (unat version)"

definition policy_delivery :: "store_env \<Rightarrow> uuid \<Rightarrow> u64 \<Rightarrow> string \<Rightarrow> string \<Rightarrow> IncomingDelivery" where
  "policy_delivery env command version repository_ref level =
     \<lparr> provider = PROVIDER, external_repository_id = repository_ref, source = POLICY_SOURCE,
       message_id = uuid_new_v5 env command repository_ref,
       delivery = \<lparr> preservation_level = level, pinned = None, include_wiki = None,
                    include_releases = None, include_issues = None, offsite_required = None,
                    correlation_id = policy_reference version, policy_revision = Some version \<rparr> \<rparr>"

datatype PolicyFeedError = VersionNotMonotonic u64 u64

definition deliveries_for_policy ::
  "store_env \<Rightarrow> contract_env \<Rightarrow> uuid \<Rightarrow> DesiredBackupPolicy \<Rightarrow> u64 \<Rightarrow> string list
     \<Rightarrow> (PolicyFeedError, IncomingDelivery list) result" where
  "deliveries_for_policy env con command policy last_applied previously_governed =
     (if policy_version policy \<le> last_applied
      then Inl (VersionNotMonotonic (policy_version policy) last_applied)
      else
        let wanted = map (to_wire con) (repositories policy);
            dropped = filter (\<lambda>reference. reference \<notin> set wanted) previously_governed
        in Inr (map (\<lambda>reference. policy_delivery env command (policy_version policy) reference MIRRORED) wanted
              @ map (\<lambda>reference. policy_delivery env command (policy_version policy) reference WITHDRAWN) dropped))"

datatype PolicyDecision =
    Accepted u64 u64
  | Rejected u64 u64 PolicyRejectionCode

definition for_version :: "u64 \<Rightarrow> u64 \<Rightarrow> PolicyDecision" where
  "for_version version last_applied =
     (if last_applied < version then Accepted version last_applied
      else Rejected version last_applied PolicyVersionNotMonotonic)"

fun decision_payload :: "PolicyDecision \<Rightarrow> PolicyAcknowledged" where
  "decision_payload (Accepted version previous) =
     \<lparr> acknowledged_policy_version = version, ack_outcome = AcceptedOutcome, ack_reasons = [],
       last_applied_policy_version = previous \<rparr>"
| "decision_payload (Rejected version last_applied code) =
     \<lparr> acknowledged_policy_version = version, ack_outcome = RejectedOutcome, ack_reasons = [code],
       last_applied_policy_version = last_applied \<rparr>"

fun decision_version :: "PolicyDecision \<Rightarrow> u64" where
  "decision_version (Accepted version _) = version"
| "decision_version (Rejected version _ _) = version"

definition acknowledgement_envelope ::
  "store_env \<Rightarrow> contract_env \<Rightarrow> CommandEnvelope \<Rightarrow> uuid \<Rightarrow> PolicyDecision \<Rightarrow> EventEnvelope option" where
  "acknowledgement_envelope env con command event decision =
     (case entity_ref_parse con (policy_reference (decision_version decision)) of
        None \<Rightarrow> None
      | Some aggregate \<Rightarrow>
          (case entity_ref_parse con (''command:'' @ uuid_to_string env (command_id command)) of
             None \<Rightarrow> None
           | Some causation \<Rightarrow>
               (case producer_parse con ''ratatoskr-vault'' of
                  None \<Rightarrow> None
                | Some producer_name \<Rightarrow>
                    if \<not> validate_payload con (decision_payload decision) then None
                    else Some \<lparr> ev_event_id = event, ev_producer = producer_name,
                                ev_aggregate_id = aggregate,
                                ev_correlation_id = command_correlation command,
                                ev_causation_id = Some causation,
                                ev_payload = decision_payload decision \<rparr>)))"

subsection \<open>The ledger\<close>

text \<open>The governing revision of a target as it stood before the source's version.\<close>

definition governed_before :: "vault_db \<Rightarrow> string \<Rightarrow> int \<Rightarrow> uuid \<Rightarrow> RevisionRow option" where
  "governed_before db src version target =
     highest_revision
       (filter (\<lambda>r. r_target r = target \<and> (r_source r \<noteq> Some src \<or> r_revision r < version)) (revisions db))"

definition governs_row :: "vault_db \<Rightarrow> string \<Rightarrow> int \<Rightarrow> TargetRow \<Rightarrow> bool" where
  "governs_row db src version row =
     (t_kind row = ''repository''
      \<and> (case governed_before db src version (t_id row) of
           None \<Rightarrow> False
         | Some g \<Rightarrow> r_source g = Some src \<and> r_level g \<noteq> ''none''))"

definition targets_governed_before :: "vault_db \<Rightarrow> string \<Rightarrow> u64 \<Rightarrow> (VaultError, string list) result" where
  "targets_governed_before db src version =
     (case i64_try_from version of
        None \<Rightarrow> Inl (InvalidDelivery ''policy_version'')
      | Some v \<Rightarrow> Inr (sort (map t_external (filter (governs_row db src v) (targets db)))))"

definition last_applied_version :: "vault_db \<Rightarrow> (VaultError, u64) result" where
  "last_applied_version db =
     (let v = Max (insert 0 (set (map cm_version (filter (\<lambda>c. cm_outcome c = ''accepted'') (commands db)))))
      in if v < 0 then Inl StorageFailed else Inr (word_of_int v))"

definition policy_command_recorded :: "vault_db \<Rightarrow> uuid \<Rightarrow> bool" where
  "policy_command_recorded db command = list_ex (\<lambda>c. cm_id c = command) (commands db)"

datatype PolicyCommandOutcome = CommandAccepted | CommandRejected

fun PolicyCommandOutcome_as_str :: "PolicyCommandOutcome \<Rightarrow> string" where
  "PolicyCommandOutcome_as_str CommandAccepted = ''accepted''"
| "PolicyCommandOutcome_as_str CommandRejected = ''rejected''"

record PolicyDecisionRecord =
  rec_command_id :: uuid
  rec_policy_version :: u64
  rec_outcome :: PolicyCommandOutcome
  rec_rejection_code :: "string option"
  rec_acknowledgement_id :: uuid
  rec_acknowledgement :: string

datatype RecordedDecision = Recorded | AlreadyRecorded

definition ACKNOWLEDGEMENT_EVENT_TYPE :: string where
  "ACKNOWLEDGEMENT_EVENT_TYPE = ''vault.backup_policy.acknowledged.v1''"

definition record_policy_decision ::
  "timestamp \<Rightarrow> vault_db \<Rightarrow> PolicyDecisionRecord \<Rightarrow> (VaultError, RecordedDecision \<times> vault_db) result" where
  "record_policy_decision now db r =
     (case i64_try_from (rec_policy_version r) of
        None \<Rightarrow> Inl (InvalidDelivery ''policy_version'')
      | Some version \<Rightarrow>
          if policy_command_recorded db (rec_command_id r) then Inr (AlreadyRecorded, db)
          else if list_ex (\<lambda>event. ob_event_id event = rec_acknowledgement_id r) (outbox db) then Inl StorageFailed
          else if \<not> 0 < version \<or> (rec_outcome r = CommandRejected) \<noteq> (rec_rejection_code r \<noteq> None)
               \<or> list_ex (\<lambda>c. cm_acknowledgement c = rec_acknowledgement_id r) (commands db)
               \<or> rec_outcome r = CommandAccepted
                  \<and> list_ex (\<lambda>c. cm_version c = version \<and> cm_outcome c = ''accepted'') (commands db)
          then Inl StorageFailed
          else Inr (Recorded,
            db\<lparr>outbox := outbox db @
                 [\<lparr> ob_event_id = rec_acknowledgement_id r, ob_event_type = ACKNOWLEDGEMENT_EVENT_TYPE,
                    ob_aggregate_type = ''backup_policy'',
                    ob_aggregate_id = policy_reference (rec_policy_version r),
                    ob_payload = AcknowledgementEnvelope (rec_acknowledgement r), ob_created_at = now,
                    ob_published_at = None, ob_attempt_count = 0, ob_last_error = None,
                    ob_next_attempt_at = None \<rparr>],
               commands := commands db @
                 [\<lparr> cm_id = rec_command_id r, cm_version = version,
                    cm_outcome = PolicyCommandOutcome_as_str (rec_outcome r),
                    cm_rejection_code = rec_rejection_code r,
                    cm_acknowledgement = rec_acknowledgement_id r \<rparr>]\<rparr>))"

subsection \<open>The command handler\<close>

datatype Disposition = Ack | Term | Nak

definition PRODUCER :: string where
  "PRODUCER = ''ratatoskr-github''"

definition decode ::
  "contract_env \<Rightarrow> string \<Rightarrow> (string, CommandEnvelope \<times> DesiredBackupPolicy) result" where
  "decode con payload =
     (case from_json con payload of
        None \<Rightarrow> Inl ''undecodable_envelope''
      | Some command \<Rightarrow>
          if command_type command \<noteq> COMMAND_TYPE con then Inl ''unknown_command_type''
          else if producer command \<noteq> PRODUCER then Inl ''wrong_producer''
          else if tenant_id command \<noteq> None then Inl ''unexpected_tenant''
          else (case payload_as con command of
                  None \<Rightarrow> Inl ''undecodable_payload''
                | Some request \<Rightarrow> Inr (command, request)))"

definition apply_policy ::
  "store_env \<Rightarrow> contract_env \<Rightarrow> (vault_db \<Rightarrow> timestamp) \<Rightarrow> vault_db \<Rightarrow> uuid \<Rightarrow> DesiredBackupPolicy \<Rightarrow> u64
     \<Rightarrow> vault_db \<times> (VaultError, unit) result" where
  "apply_policy env con clock db command request last_applied =
     (case targets_governed_before db POLICY_SOURCE (policy_version request) of
        Inl e \<Rightarrow> (db, Inl e)
      | Inr governed \<Rightarrow>
          (case deliveries_for_policy env con command request last_applied governed of
             Inl _ \<Rightarrow> (db, Inl (InvalidDelivery ''policy_version''))
           | Inr deliveries \<Rightarrow>
               (case run_cycle env clock deliveries db of
                  (db', Inl e) \<Rightarrow> (db', Inl e)
                | (db', Inr _) \<Rightarrow> (db', Inr ()))))"

definition record_decision ::
  "store_env \<Rightarrow> contract_env \<Rightarrow> (vault_db \<Rightarrow> timestamp) \<Rightarrow> vault_db \<Rightarrow> CommandEnvelope \<Rightarrow> PolicyDecision
     \<Rightarrow> vault_db \<times> (VaultError, unit) result" where
  "record_decision env con clock db command decision =
     (let acknowledgement = now_v7 env db;
          db1 = advance db
      in case acknowledgement_envelope env con command acknowledgement decision of
           None \<Rightarrow> (db1, Inl StorageFailed)
         | Some envelope \<Rightarrow>
             (case envelope_to_value con envelope of
                None \<Rightarrow> (db1, Inl StorageFailed)
              | Some body \<Rightarrow>
                  (case record_policy_decision (clock db1) db1
                          \<lparr> rec_command_id = command_id command,
                            rec_policy_version = decision_version decision,
                            rec_outcome = (case decision of Accepted _ _ \<Rightarrow> CommandAccepted
                                                          | Rejected _ _ _ \<Rightarrow> CommandRejected),
                            rec_rejection_code = (case decision of Accepted _ _ \<Rightarrow> None
                                                    | Rejected _ _ code \<Rightarrow> Some (rejection_code_str con code)),
                            rec_acknowledgement_id = acknowledgement,
                            rec_acknowledgement = body \<rparr> of
                     Inl e \<Rightarrow> (db1, Inl e)
                   | Inr (_, db2) \<Rightarrow> (db2, Inr ()))))"

definition decide ::
  "store_env \<Rightarrow> contract_env \<Rightarrow> (vault_db \<Rightarrow> timestamp) \<Rightarrow> vault_db \<Rightarrow> CommandEnvelope \<Rightarrow> DesiredBackupPolicy
     \<Rightarrow> vault_db \<times> (VaultError, unit) result" where
  "decide env con clock db command request =
     (if policy_command_recorded db (command_id command) then (db, Inr ())
      else case last_applied_version db of
             Inl e \<Rightarrow> (db, Inl e)
           | Inr last_applied \<Rightarrow>
               (let decision = for_version (policy_version request) last_applied
                in case (case decision of
                           Accepted _ _ \<Rightarrow> apply_policy env con clock db (command_id command) request last_applied
                         | Rejected _ _ _ \<Rightarrow> (db, Inr ())) of
                     (db', Inl e) \<Rightarrow> (db', Inl e)
                   | (db', Inr _) \<Rightarrow> record_decision env con clock db' command decision))"

definition handle_command ::
  "store_env \<Rightarrow> contract_env \<Rightarrow> (vault_db \<Rightarrow> timestamp) \<Rightarrow> vault_db \<Rightarrow> string \<Rightarrow> vault_db \<times> Disposition" where
  "handle_command env con clock db payload =
     (case decode con payload of
        Inl _ \<Rightarrow> (db, Term)
      | Inr (command, request) \<Rightarrow>
          (case decide env con clock db command request of
             (db', Inr _) \<Rightarrow> (db', Ack)
           | (db', Inl (InvalidDelivery _)) \<Rightarrow> (db', Term)
           | (db', Inl _) \<Rightarrow> (db', Nak)))"

subsection \<open>The relay\<close>

definition relay_batch :: nat where
  "relay_batch = 16"

definition BACKOFF_CEILING_SECONDS :: u64 where
  "BACKOFF_CEILING_SECONDS = 300"

definition STUCK_ATTEMPTS :: u32 where
  "STUCK_ATTEMPTS = 3"

text \<open>Durations are microseconds; five minutes.\<close>

definition STUCK_AGE :: int where
  "STUCK_AGE = 5 * 60 * 1000000"

definition ACKNOWLEDGEMENT_SUBJECT :: string where
  "ACKNOWLEDGEMENT_SUBJECT = ''evt.vault.backup_policy.acknowledged.v1''"

definition UNACKNOWLEDGED :: string where
  "UNACKNOWLEDGED = ''publish_unacknowledged''"

definition unpublished :: "OutboxRow \<Rightarrow> bool" where
  "unpublished row = (ob_event_type row = ACKNOWLEDGEMENT_EVENT_TYPE \<and> ob_published_at row = None)"

definition older :: "OutboxRow \<Rightarrow> OutboxRow \<Rightarrow> bool" where
  "older a b = (ob_created_at a < ob_created_at b
                \<or> ob_created_at a = ob_created_at b \<and> ob_event_id a \<le> ob_event_id b)"

definition due_acknowledgements :: "timestamp \<Rightarrow> nat \<Rightarrow> vault_db \<Rightarrow> OutboxRow list" where
  "due_acknowledgements now limit db =
     take limit (sort_by older
       (filter (\<lambda>row. unpublished row
            \<and> (case ob_next_attempt_at row of None \<Rightarrow> True | Some at \<Rightarrow> at \<le> now)) (outbox db)))"

definition mark_outbox_published :: "timestamp \<Rightarrow> uuid \<Rightarrow> vault_db \<Rightarrow> vault_db" where
  "mark_outbox_published now event db =
     db\<lparr>outbox := map (\<lambda>row. if ob_event_id row = event \<and> ob_published_at row = None
                              then row\<lparr>ob_published_at := Some now\<rparr> else row) (outbox db)\<rparr>"

definition is_class_token :: "string \<Rightarrow> bool" where
  "is_class_token s =
     (1 \<le> length s \<and> length s \<le> 64
      \<and> list_all (\<lambda>c. CHR ''a'' \<le> c \<and> c \<le> CHR ''z'' \<or> c = CHR ''_'') s)"

definition record_publish_failure ::
  "timestamp \<Rightarrow> uuid \<Rightarrow> string \<Rightarrow> int \<Rightarrow> vault_db \<Rightarrow> (VaultError, vault_db) result" where
  "record_publish_failure now event failure retry_after db =
     (if list_ex (\<lambda>row. ob_event_id row = event
           \<and> (\<not> is_class_token failure \<or> 2 ^ 31 - 1 \<le> ob_attempt_count row)) (outbox db)
      then Inl StorageFailed
      else Inr (db\<lparr>outbox := map (\<lambda>row. if ob_event_id row = event
                     then row\<lparr>ob_attempt_count := ob_attempt_count row + 1, ob_last_error := Some failure,
                              ob_next_attempt_at := Some (now + retry_after)\<rparr> else row) (outbox db)\<rparr>))"

record PublishBacklog =
  oldest_attempt_count :: u32
  oldest_age :: int
  any_failed :: bool

definition u32_try_from :: "int \<Rightarrow> u32" where
  "u32_try_from v = (if 0 \<le> v \<and> v < 2 ^ 32 then word_of_int v else 0)"

definition publish_backlog :: "timestamp \<Rightarrow> vault_db \<Rightarrow> PublishBacklog option" where
  "publish_backlog now db =
     (case sort_by older (filter unpublished (outbox db)) of
        [] \<Rightarrow> None
      | oldest # rest \<Rightarrow>
          Some \<lparr> oldest_attempt_count = u32_try_from (ob_attempt_count oldest),
                 oldest_age = max (now - ob_created_at oldest) 0,
                 any_failed = list_ex (\<lambda>row. unpublished row \<and> 0 < ob_attempt_count row) (outbox db) \<rparr>)"

definition healthy_after :: "PublishBacklog option \<Rightarrow> bool \<Rightarrow> bool option" where
  "healthy_after backlog refused =
     (case backlog of
        None \<Rightarrow> Some True
      | Some b \<Rightarrow>
          if refused then Some (oldest_attempt_count b < STUCK_ATTEMPTS \<and> oldest_age b \<le> STUCK_AGE)
          else if any_failed b then None else Some True)"

definition backoff_seconds :: "u32 \<Rightarrow> u64" where
  "backoff_seconds attempts =
     (if unat attempts < 64 then min (push_bit (unat attempts) 1) BACKOFF_CEILING_SECONDS
      else BACKOFF_CEILING_SECONDS)"

datatype LaneError = Seed | Connect | Durable | BusLost | Storage | StoredEnvelope
datatype Attempt = Published | Refused

definition subject_for :: "string \<Rightarrow> (LaneError, string) result" where
  "subject_for event_type =
     (if event_type = ACKNOWLEDGEMENT_EVENT_TYPE then Inr ACKNOWLEDGEMENT_SUBJECT else Inl StoredEnvelope)"

text \<open>
  Publishing one row: \<open>confirm\<close> says whether the broker acknowledged the message it was handed
  under the row's identifier.
\<close>

definition publish ::
  "contract_env \<Rightarrow> (string \<Rightarrow> uuid \<Rightarrow> string \<Rightarrow> bool) \<Rightarrow> timestamp \<Rightarrow> OutboxRow \<Rightarrow> vault_db
     \<Rightarrow> vault_db \<times> (LaneError, Attempt) result" where
  "publish con confirm now row db =
     (case subject_for (ob_event_type row) of
        Inl e \<Rightarrow> (db, Inl e)
      | Inr subject \<Rightarrow>
          (case (case ob_payload row of AcknowledgementEnvelope v \<Rightarrow> envelope_from_value con v | _ \<Rightarrow> None) of
             None \<Rightarrow> (db, Inl StoredEnvelope)
           | Some envelope \<Rightarrow>
               if ev_event_id envelope \<noteq> ob_event_id row then (db, Inl StoredEnvelope)
               else (case to_canonical_json con envelope of
                       None \<Rightarrow> (db, Inl StoredEnvelope)
                     | Some body \<Rightarrow>
                         if confirm subject (ob_event_id row) body
                         then (mark_outbox_published now (ob_event_id row) db, Inr Published)
                         else (case record_publish_failure now (ob_event_id row) UNACKNOWLEDGED
                                 (uint (backoff_seconds (u32_try_from (ob_attempt_count row))) * 1000000) db of
                                 Inl _ \<Rightarrow> (db, Inl Storage)
                               | Inr db' \<Rightarrow> (db', Inr Refused)))))"

fun publish_rows ::
  "contract_env \<Rightarrow> (string \<Rightarrow> uuid \<Rightarrow> string \<Rightarrow> bool) \<Rightarrow> timestamp \<Rightarrow> OutboxRow list \<Rightarrow> bool \<Rightarrow> vault_db
     \<Rightarrow> vault_db \<times> (LaneError, bool) result" where
  "publish_rows con confirm now [] refused db = (db, Inr refused)"
| "publish_rows con confirm now (row # rows) refused db =
     (case publish con confirm now row db of
        (db', Inl e) \<Rightarrow> (db', Inl e)
      | (db', Inr attempt) \<Rightarrow> publish_rows con confirm now rows (refused \<or> attempt = Refused) db')"

text \<open>One pass of the relay's loop: the new database and the health it reports, if any.\<close>

definition relay_pass ::
  "contract_env \<Rightarrow> (string \<Rightarrow> uuid \<Rightarrow> string \<Rightarrow> bool) \<Rightarrow> timestamp \<Rightarrow> vault_db
     \<Rightarrow> vault_db \<times> (LaneError, bool option) result" where
  "relay_pass con confirm now db =
     (let due = due_acknowledgements now relay_batch db
      in case publish_rows con confirm now due False db of
           (db', Inl e) \<Rightarrow> (db', Inl e)
         | (db', Inr refused) \<Rightarrow>
             (db', Inr (if due = [] then None else healthy_after (publish_backlog now db') refused)))"

end
