(* ===== verification/Policy_Proofs.thy ===== *)
theory Policy_Proofs
  imports Policy_Lane
begin

text \<open>
  What the policy lane promises: the repositories a command withdraws are the same before, during
  and after its own deliveries; a crash between applying and recording is invisible; a command is
  decided once and the applied version only grows; the relay publishes what the broker confirmed and
  keeps everything else due.
\<close>

subsection \<open>The ledger is outside the cycle\<close>

lemma ingest_commands: "ingest_delivery env now db p e s m d = Inr (t, db') \<Longrightarrow> commands db' = commands db"
  by (auto simp: ingest_delivery_def ensure_target_def insert_revision_def emit_state_changed_def advance_def
      Let_def split: if_splits option.splits)

lemma step_commands:
  "insert_revision db row = Inr db' \<Longrightarrow> commands db' = commands db"
  "create_target_tombstone env now db t n c = Inr db' \<Longrightarrow> commands db' = commands db"
  "cancel_target_tombstone env now db t c = Inr db' \<Longrightarrow> commands db' = commands db"
  "guarded_status_update db now t st = Inr db' \<Longrightarrow> commands db' = commands db"
  by (auto simp: insert_revision_def create_target_tombstone_def cancel_target_tombstone_def append_audit_def
      guarded_status_update_def write_status_def advance_def Let_def split: if_splits option.splits)

lemma retention_commands:
  "apply_target_retention_transition env now db t p to g n c = Inr db' \<Longrightarrow> commands db' = commands db"
  by (auto simp: apply_target_retention_transition_def split: if_splits intro: step_commands)

lemma transition_commands:
  assumes "apply_transition env now db t to g = Inr db'"
  shows "commands db' = commands db"
  using assms
proof (cases rule: apply_transition_steps)
  case (1 n c db1 row db2 db3)
  then have "commands db3 = commands db"
    using step_commands(1) [OF 1(2)] retention_commands [OF 1(4)] step_commands(4) [OF 1(5)] by simp
  with 1(6) show ?thesis by (simp add: emit_state_changed_def advance_def)
qed

lemma run_items_commands: "commands (fst (run_items env clock t d work db)) = commands db"
  by (induction env clock t d work db rule: run_items.induct)
    (auto dest: transition_commands split: sum.splits)

lemma converge_commands: "commands (fst (converge_target env clock db t)) = commands db"
proof -
  have "commands (fst (run_items env clock t d work db)) = commands db" for d work
    by (rule run_items_commands)
  then show ?thesis
    by (auto simp: converge_target_def Let_def split: option.splits sum.splits prod.splits) (metis fst_conv)+
qed

lemma ingest_messages_commands: "commands (fst (ingest_messages env clock ms touched db)) = commands db"
  by (induction env clock ms touched db rule: ingest_messages.induct)
    (auto dest: ingest_commands split: sum.splits VaultError.splits)

lemma converge_all_commands: "commands (fst (converge_all env clock ts report db)) = commands db"
proof (induction ts arbitrary: report db)
  case (Cons t ts)
  then show ?case
    using converge_commands [of env clock db t] by (auto split: prod.splits sum.splits)
qed simp

lemma run_cycle_commands: "commands (fst (run_cycle env clock ms db)) = commands db"
  using ingest_messages_commands [of env clock ms "[]" db] converge_all_commands [of env clock]
  by (auto simp: run_cycle_def split: prod.splits sum.splits)

lemma apply_policy_commands: "commands (fst (apply_policy env con clock db c request last_applied)) = commands db"
  using run_cycle_commands [of env clock _ db]
  by (auto simp: apply_policy_def split: prod.splits sum.splits) (metis fst_conv)+

subsection \<open>The repositories a command withdraws\<close>

lemma governed_before_insert:
  assumes "insert_revision db row = Inr db'" and "r_source row = Some src" and "v \<le> r_revision row"
  shows "governed_before db' src v t = governed_before db src v t"
  using assms by (auto simp: insert_revision_def governed_before_def advance_def split: if_splits)

lemma targets_governed_cong:
  assumes "\<And>t. governed_before db' src v t = governed_before db src v t"
    and "map (\<lambda>r. (t_id r, t_kind r, t_external r)) (targets db') = map (\<lambda>r. (t_id r, t_kind r, t_external r)) (targets db)"
  shows "map t_external (filter (governs_row db' src v) (targets db')) =
         map t_external (filter (governs_row db src v) (targets db))"
proof -
  let ?key = "\<lambda>r. (t_id r, t_kind r, t_external r)"
  let ?gov = "\<lambda>(i, k, e :: string). k = ''repository'' \<and> (case governed_before db src v i of
      None \<Rightarrow> False | Some g \<Rightarrow> r_source g = Some src \<and> r_level g \<noteq> ''none'')"
  have row: "governs_row db' src v = ?gov \<circ> ?key" "governs_row db src v = ?gov \<circ> ?key"
    by (auto simp: governs_row_def assms(1) fun_eq_iff)
  have names: "map t_external (filter (?gov \<circ> ?key) rows) = map (snd \<circ> snd) (filter ?gov (map ?key rows))" for rows
    by (simp add: filter_map comp_def)
  show ?thesis
    unfolding row names assms(2) ..
qed

lemma ensure_target_governed:
  assumes "ensure_target env now db p e n c = Inr (t, db')" and "wf_db env db"
    and "inj_on (mint env) {..<minted db'}"
  shows "map t_external (filter (governs_row db' src v) (targets db')) =
         map t_external (filter (governs_row db src v) (targets db))"
proof (cases "find_repository db p e")
  case (Some row)
  with assms(1) show ?thesis by (auto simp: ensure_target_def split: if_splits)
next
  case None
  define row where "row = \<lparr>t_id = now_v7 env db, t_provider = p, t_external = e,
      t_kind = ''repository'', t_parent = None, t_status = ''requested'', t_pinned = False\<rparr>"
  have db': "revisions db' = revisions db" "targets db' = targets db @ [row]" "minted db < minted db'"
    using assms(1) None
    by (auto simp: ensure_target_def row_def emit_state_changed_def advance_def Let_def split: if_splits)
  have "now_v7 env db \<notin> t_id ` set (targets db)"
    using mint_fresh(1) assms(2,3) db'(3) by (simp add: wf_db_def)
  then have "filter (\<lambda>r. r_target r = now_v7 env db \<and> P r) (revisions db) = []" for P
    using assms(2) unfolding wf_db_def wf_revisions_def filter_empty_conv by metis
  then have "\<not> governs_row db' src v row"
    by (simp add: governs_row_def governed_before_def db'(1) row_def)
  moreover have "governs_row db' src v = governs_row db src v"
    by (simp add: governs_row_def governed_before_def db'(1) fun_eq_iff)
  ultimately show ?thesis by (simp add: db'(2))
qed

lemma ingest_governed:
  assumes "ingest_delivery env now db p e src m d = Inr (t, db')" and "wf_db env db"
    and "inj_on (mint env) {..<minted db'}"
    and "v_policy_revision d = Some revision" and "v \<le> uint revision"
  shows "map t_external (filter (governs_row db' src v) (targets db')) =
         map t_external (filter (governs_row db src v) (targets db))"
  using assms(1)
proof (cases rule: ingest_steps)
  case (1 n c db1)
  let ?db0 = "db\<lparr>inbox := inbox db @ [(src, m)]\<rparr>"
  have n: "n = uint revision" using governed_inputs_range [OF 1(1)] assms(4) by auto
  have wf0: "wf_db env ?db0" using 1(2) assms(2) by (simp add: wf_defs)
  have inj: "inj_on (mint env) {..<minted db1}"
    using inj_on_less [OF assms(3) minted_mono(1) [OF 1(4)]] .
  have "governs_row ?db0 src v = governs_row db src v"
    by (simp add: governs_row_def governed_before_def fun_eq_iff)
  then have first: "map t_external (filter (governs_row db1 src v) (targets db1)) =
      map t_external (filter (governs_row db src v) (targets db))"
    using ensure_target_governed [OF 1(3) wf0 inj, of src v] by simp
  have "map t_external (filter (governs_row db' src v) (targets db')) =
      map t_external (filter (governs_row db1 src v) (targets db1))"
    by (rule targets_governed_cong)
      (use 1(4) n assms(5) insert_revision_frame [OF 1(4)] in
        \<open>auto simp: revision_row_def intro!: governed_before_insert\<close>)
  with first show ?thesis by simp
qed

lemma transition_governed:
  assumes "wf_db env db" "governing_policy db t = Some g" "governed_record g = Inr d"
    "apply_transition env now db t to d = Inr db'"
  shows "map t_external (filter (governs_row db' src v) (targets db')) =
         map t_external (filter (governs_row db src v) (targets db))"
  using assms(4)
proof (cases rule: apply_transition_steps)
  case (1 n c db1 row db2 db3)
  from insert_revision_again [OF assms(1-3)] 1(1,2) have "db1 = db" by auto
  then have db2: "targets db2 = targets db" "revisions db2 = revisions db"
    using retention_transition_frame [OF 1(4)] by simp_all
  have "revisions db3 = revisions db2 \<and>
      map (\<lambda>r. (t_id r, t_kind r, t_external r)) (targets db3) = map (\<lambda>r. (t_id r, t_kind r, t_external r)) (targets db2)"
    using 1(5) by (auto simp: guarded_status_update_def write_status_def split: option.splits)
  then show ?thesis
    using 1(6) db2
    by (intro targets_governed_cong) (auto simp: governed_before_def emit_state_changed_def advance_def)
qed

text \<open>The names a source governed before a version, and that a lane's own messages keep them.\<close>

abbreviation governed_names :: "vault_db \<Rightarrow> string \<Rightarrow> int \<Rightarrow> string list" where
  "governed_names db src v \<equiv> map t_external (filter (governs_row db src v) (targets db))"

definition lane_message :: "string \<Rightarrow> int \<Rightarrow> IncomingDelivery \<Rightarrow> bool" where
  "lane_message src v m \<longleftrightarrow>
     source m = src \<and> (\<exists>revision. policy_revision (delivery m) = Some revision \<and> v \<le> uint revision)"

lemma validated_revision: "validate_delivery d = Inr v \<Longrightarrow> v_policy_revision v = policy_revision d"
  by (auto simp: validate_delivery_def split: if_splits)

lemma ingest_messages_governed:
  "ingest_messages env clock ms touched db = (db', Inr touched') \<Longrightarrow> list_all (lane_message src v) ms \<Longrightarrow>
     wf_db env db \<Longrightarrow> inj_on (mint env) {..<minted db'} \<Longrightarrow> governed_names db' src v = governed_names db src v"
proof (induction env clock ms touched db rule: ingest_messages.induct [case_names Nil Cons])
  case (Cons env clock m ms touched db)
  from Cons.prems(1) obtain w where w: "validate_delivery (delivery m) = Inr w"
    by (cases "validate_delivery (delivery m)") auto
  let ?ingest = "ingest_delivery env (clock db) db (provider m) (external_repository_id m) (source m) (message_id m) w"
  show ?case
  proof (cases "?ingest")
    case (Inr r)
    obtain t db1 where r: "r = (t, db1)" by (cases r)
    with Inr have i: "?ingest = Inr (t, db1)" by simp
    with Cons.prems(1) w have rest: "ingest_messages env clock ms (remember touched t) db1 = (db', Inr touched')" by simp
    have inj: "inj_on (mint env) {..<minted db1}"
      using inj_on_less [OF Cons.prems(4)] ingest_messages_keeps [OF rest] by (auto simp: extends_def)
    obtain revision where "source m = src" "policy_revision (delivery m) = Some revision" "v \<le> uint revision"
      using Cons.prems(2) by (auto simp: lane_message_def)
    then have "governed_names db1 src v = governed_names db src v"
      using ingest_governed [OF _ Cons.prems(3) inj] i validated_revision [OF w] by simp
    then show ?thesis
      using Cons.IH(2) [OF w i refl rest _ wf_ingest_delivery [OF i Cons.prems(3) inj] Cons.prems(4)] Cons.prems(2) by simp
  next
    case (Inl e)
    with Cons.prems(1) w have e: "e = DuplicateDelivery" by (cases e) auto
    with Inl Cons.prems(1) w obtain t where
      "repository_target db (provider m) (external_repository_id m) = Inr t"
      "ingest_messages env clock ms (remember touched t) db = (db', Inr touched')"
      by (auto split: sum.splits)
    with Cons.IH(1) [OF w] Inl e Cons.prems show ?thesis by simp
  qed
qed simp

lemma converge_governed:
  assumes "converge_target env clock db t = (db', Inr c)" and "wf_db env db"
  shows "governed_names db' src v = governed_names db src v"
  using assms(1)
proof (cases rule: converge_target_cases)
  case (moved g d obs to)
  then show ?thesis using transition_governed [OF assms(2)] by blast
qed simp

lemma converge_all_governed:
  "converge_all env clock ts report db = (db', Inr report') \<Longrightarrow> wf_db env db \<Longrightarrow>
     inj_on (mint env) {..<minted db'} \<Longrightarrow> governed_names db' src v = governed_names db src v"
proof (induction ts arbitrary: report db)
  case (Cons t ts)
  from Cons.prems(1) obtain db1 c r1 where
    first: "converge_target env clock db t = (db1, Inr c)" and
    rest: "converge_all env clock ts r1 db1 = (db', Inr report')" by (rule converge_all_Cons)
  have "inj_on (mint env) {..<minted db1}"
    using inj_on_less [OF Cons.prems(3) converge_all_minted [OF rest]] .
  then have "wf_db env db1"
    using converge_settles [OF first Cons.prems(2)] by blast
  then show ?case
    using Cons.IH [OF rest _ Cons.prems(3)] converge_governed [OF first Cons.prems(2), of src v] by simp
qed simp

lemma run_cycle_governed:
  assumes "run_cycle env clock ms db = (db', Inr report)" and "wf_db env db"
    and "inj_on (mint env) {..<minted db'}" and "list_all (lane_message src v) ms"
  shows "governed_names db' src v = governed_names db src v"
  using assms(1-3)
  by (rule run_cycle_steps)
    (use assms ingest_messages_governed converge_all_governed in metis)

subsection \<open>Decisions\<close>

lemma deliveries_from_lane:
  assumes "deliveries_for_policy env con c policy last_applied governed = Inr ds" and "v \<le> uint (policy_version policy)"
  shows "list_all (lane_message POLICY_SOURCE v) ds"
  using assms
  by (auto simp: deliveries_for_policy_def policy_delivery_def lane_message_def list_all_iff Let_def split: if_splits)

text \<open>The version recorded as applied, read as a word, and the ledger's range.\<close>

lemma uint_i64: "0 \<le> x \<Longrightarrow> x < 2 ^ 63 \<Longrightarrow> uint (word_of_int x :: u64) = x"
  by (simp add: uint_word_of_int take_bit_int_eq_self)

definition wf_commands :: "vault_db \<Rightarrow> bool" where
  "wf_commands db \<longleftrightarrow> (\<forall>c \<in> set (commands db). 0 < cm_version c \<and> cm_version c < 2 ^ 63)"

lemma last_applied_ok:
  assumes "wf_commands db"
  obtains last where "last_applied_version db = Inr last" and "uint last < 2 ^ 63"
    and "\<And>c. c \<in> set (commands db) \<Longrightarrow> cm_outcome c = ''accepted'' \<Longrightarrow> cm_version c \<le> uint last"
    and "uint last = Max (insert 0 (set (map cm_version (filter (\<lambda>c. cm_outcome c = ''accepted'') (commands db)))))"
proof -
  let ?S = "insert 0 (set (map cm_version (filter (\<lambda>c. cm_outcome c = ''accepted'') (commands db))))"
  have "Max ?S \<in> ?S" by (rule Max_in) simp_all
  then have range: "0 \<le> Max ?S" "Max ?S < 2 ^ 63"
    using assms by (auto simp: wf_commands_def)
  then have u: "uint (word_of_int (Max ?S) :: u64) = Max ?S"
    by (rule uint_i64)
  have le: "cm_version c \<le> Max ?S" if "c \<in> set (commands db)" "cm_outcome c = ''accepted''" for c
    using that by (intro Max_ge) auto
  show ?thesis
    by (rule that [of "word_of_int (Max ?S)"]) (use range u le in \<open>auto simp: last_applied_version_def Let_def\<close>)
qed

lemma apply_policy_steps:
  assumes "apply_policy env con clock db c request last_applied = (db', Inr ())"
  obtains governed ds report v where "i64_try_from (policy_version request) = Some v"
    "targets_governed_before db POLICY_SOURCE (policy_version request) = Inr governed"
    "deliveries_for_policy env con c request last_applied governed = Inr ds"
    "run_cycle env clock ds db = (db', Inr report)"
  using assms
  by (auto simp: apply_policy_def targets_governed_before_def split: sum.splits prod.splits option.splits)

lemma apply_policy_again:
  assumes "apply_policy env con clock db c request last_applied = (db', Inr ())" and "wf_db env db"
    and "inj_on (mint env) {..<minted db'}"
  shows "apply_policy env con clock' db' c request last_applied = (db', Inr ())"
  using assms(1)
proof (rule apply_policy_steps)
  fix governed ds report v
  assume s: "i64_try_from (policy_version request) = Some v"
    "targets_governed_before db POLICY_SOURCE (policy_version request) = Inr governed"
    "deliveries_for_policy env con c request last_applied governed = Inr ds"
    "run_cycle env clock ds db = (db', Inr report)"
  have "v = uint (policy_version request)" using s(1) by (auto simp: i64_try_from_def split: if_splits)
  then have "governed_names db' POLICY_SOURCE v = governed_names db POLICY_SOURCE v"
    using run_cycle_governed [OF s(4) assms(2,3)] deliveries_from_lane [OF s(3)] by simp
  then have "targets_governed_before db' POLICY_SOURCE (policy_version request) = Inr governed"
    using s(1,2) by (simp add: targets_governed_before_def)
  moreover obtain report' where "run_cycle env clock' ds db' = (db', Inr report')"
    using run_cycle_again [OF s(4) assms(2,3)] by blast
  ultimately show ?thesis using s(3) by (simp add: apply_policy_def)
qed

text \<open>
  C8. A crash between applying a policy and recording its decision is invisible: when the deliveries
  of an accepted command have been applied and nothing was recorded, deciding the redelivered command
  on the database the crash left gives exactly what deciding it without the crash gives.
\<close>

theorem crash_before_recording_invisible:
  assumes "wf_db env db" and "\<not> policy_command_recorded db (command_id command)"
    and "last_applied_version db = Inr last_applied" and "last_applied < policy_version request"
    and "apply_policy env con clock db (command_id command) request last_applied = (db1, Inr ())"
    and "inj_on (mint env) {..<minted db1}"
  shows "decide env con clock db1 command request = decide env con clock db command request"
proof -
  have "commands db1 = commands db"
    using apply_policy_commands [of env con clock db] assms(5) by (metis fst_conv)
  then have "\<not> policy_command_recorded db1 (command_id command)" "last_applied_version db1 = Inr last_applied"
    using assms(2,3) by (simp_all add: policy_command_recorded_def last_applied_version_def)
  then show ?thesis
    using apply_policy_again [OF assms(5,1,6), of clock] assms(2-5)
    by (simp add: decide_def for_version_def)
qed

text \<open>A contract environment whose parsers accept everything, and a small policy document.\<close>

definition example_contract :: contract_env where
  "example_contract =
     \<lparr> from_json = (\<lambda>_. Some \<lparr>command_id = 50, command_type = ''apply'', producer = ''ratatoskr-github'',
           tenant_id = None, command_correlation = ''c'', command_payload = ''''\<rparr>),
       payload_as = (\<lambda>_. Some \<lparr>policy_version = 2, repositories = [''repository:1'']\<rparr>),
       to_wire = (\<lambda>r. r), entity_ref_parse = Some, producer_parse = Some, validate_payload = (\<lambda>_. True),
       envelope_to_value = (\<lambda>_. Some ''ack''), envelope_from_value = (\<lambda>_. None),
       to_canonical_json = (\<lambda>_. None), COMMAND_TYPE = ''apply'',
       rejection_code_str = (\<lambda>_. ''policy_version_not_monotonic'') \<rparr>"

definition example_command :: CommandEnvelope where
  "example_command = \<lparr>command_id = 50, command_type = ''apply'', producer = ''ratatoskr-github'',
     tenant_id = None, command_correlation = ''c'', command_payload = ''''\<rparr>"

definition example_policy :: DesiredBackupPolicy where
  "example_policy = \<lparr>policy_version = 2, repositories = [''repository:1'']\<rparr>"

definition example_applied :: vault_db where
  "example_applied = fst (apply_policy example_env example_contract (\<lambda>_. 1000) empty_db 50 example_policy 0)"

lemma example_applied_ok:
  "apply_policy example_env example_contract (\<lambda>_. 1000) empty_db 50 example_policy 0 = (example_applied, Inr ())"
  by code_simp

theorem crash_before_recording_invisible_witness:
  "decide example_env example_contract (\<lambda>_. 1000) example_applied example_command example_policy
   = decide example_env example_contract (\<lambda>_. 1000) empty_db example_command example_policy"
proof -
  have "minted example_applied \<le> 1000" by code_simp
  then have inj: "inj_on (mint example_env) {..<minted example_applied}"
    by (rule inj_on_less [OF example_mint_inj])
  have cmd: "command_id example_command = 50" "policy_version example_policy = 2"
    by (simp_all add: example_command_def example_policy_def)
  have "\<not> policy_command_recorded empty_db (command_id example_command)"
    "last_applied_version empty_db = Inr 0"
    by (simp_all add: policy_command_recorded_def last_applied_version_def empty_db_def)
  then show ?thesis
    using crash_before_recording_invisible [OF wf_empty_db, of example_command 0 example_policy
        example_env example_contract "\<lambda>_. 1000" example_applied] example_applied_ok inj cmd by simp
qed

subsection \<open>The ledger's growth\<close>

text \<open>What recording a decision does, on each branch.\<close>

lemma record_decision_cases:
  assumes "record_decision env con clock db command decision = (db', Inr ())"
    and "\<not> policy_command_recorded db (command_id command)"
  shows "\<exists>body code. commands db' = commands db @
        [\<lparr>cm_id = command_id command, cm_version = uint (decision_version decision),
          cm_outcome = (case decision of Accepted _ _ \<Rightarrow> ''accepted'' | Rejected _ _ _ \<Rightarrow> ''rejected''),
          cm_rejection_code = code, cm_acknowledgement = now_v7 env db\<rparr>]
      \<and> map ob_payload (outbox db') = map ob_payload (outbox db) @ [AcknowledgementEnvelope body]
      \<and> 0 < uint (decision_version decision) \<and> uint (decision_version decision) < 2 ^ 63"
  using assms
  by (auto simp: record_decision_def record_policy_decision_def i64_try_from_def advance_def Let_def
      policy_command_recorded_def split: option.splits sum.splits if_splits PolicyDecision.splits)

lemma record_decision_failed:
  "record_decision env con clock db command decision = (db', Inl e) \<Longrightarrow> db' = advance db"
  by (auto simp: record_decision_def Let_def split: option.splits sum.splits)

lemma last_applied_append:
  assumes "wf_commands db" and "commands db' = commands db @ [row]" and "0 < cm_version row" "cm_version row < 2 ^ 63"
    and "last_applied_version db = Inr applied"
  shows "wf_commands db' \<and> last_applied_version db' =
      Inr (if cm_outcome row = ''accepted'' then word_of_int (max (uint applied) (cm_version row)) else applied)"
proof -
  let ?set = "\<lambda>db. set (map cm_version (filter (\<lambda>c. cm_outcome c = ''accepted'') (commands db)))"
  from assms(1) have "uint applied = Max (insert 0 (?set db))"
    by (rule last_applied_ok) (use assms(5) in simp)
  moreover have "Max (insert 0 (insert (cm_version row) (?set db))) = max (cm_version row) (Max (insert 0 (?set db)))"
    by (subst insert_commute, rule Max.insert) simp_all
  ultimately have "Max (insert 0 (?set db')) =
      (if cm_outcome row = ''accepted'' then max (uint applied) (cm_version row) else uint applied)"
    by (simp add: assms(2) max.commute)
  then show ?thesis
    using assms(1-4) by (auto simp: last_applied_version_def wf_commands_def Let_def max_def)
qed

lemma decide_unrecorded:
  assumes "decide env con clock db command request = (db', Inr ())"
    and "\<not> policy_command_recorded db (command_id command)" and "last_applied_version db = Inr applied"
  obtains db1 where "commands db1 = commands db"
    "record_decision env con clock db1 command (for_version (policy_version request) applied) = (db', Inr ())"
    "\<not> policy_command_recorded db1 (command_id command)"
proof -
  let ?run = "case for_version (policy_version request) applied of
      Accepted _ _ \<Rightarrow> apply_policy env con clock db (command_id command) request applied
    | Rejected _ _ _ \<Rightarrow> (db, Inr ())"
  obtain db1 where run: "?run = (db1, Inr ())"
    and rec: "record_decision env con clock db1 command (for_version (policy_version request) applied) = (db', Inr ())"
    using assms by (auto simp: decide_def Let_def split: prod.splits sum.splits)
  have "commands db1 = commands db"
    using run apply_policy_commands [of env con clock db "command_id command" request applied]
    by (auto split: PolicyDecision.splits)
  with rec assms(2) show ?thesis using that by (simp add: policy_command_recorded_def)
qed

text \<open>
  C26. A policy command is decided exactly once: a completed decision on a command that was not
  recorded adds one ledger row for it, accepted exactly when its version exceeds the last applied one,
  appends one acknowledgement, makes the last applied version the greater of the two, and from then on
  deciding the same command again, whatever document it carries, does nothing.
\<close>

theorem policy_command_decided_once:
  assumes "decide env con clock db command request = (db', Inr ())" and "wf_commands db"
    and "\<not> policy_command_recorded db (command_id command)" and "last_applied_version db = Inr applied"
  shows "\<exists>row. commands db' = commands db @ [row] \<and> cm_id row = command_id command
      \<and> (cm_outcome row = ''accepted'' \<longleftrightarrow> applied < policy_version request)
      \<and> (\<exists>body. AcknowledgementEnvelope body \<in> set (map ob_payload (outbox db')))
      \<and> last_applied_version db' = Inr (max applied (policy_version request))
      \<and> (\<forall>clock' request'. decide env con clock' db' command request' = (db', Inr ()))"
  using assms(1,3,4)
proof (rule decide_unrecorded)
  fix db1
  let ?d = "for_version (policy_version request) applied"
  assume s: "commands db1 = commands db" "record_decision env con clock db1 command ?d = (db', Inr ())"
    "\<not> policy_command_recorded db1 (command_id command)"
  have version: "decision_version ?d = policy_version request"
    by (simp add: for_version_def)
  from record_decision_cases [OF s(2,3)] s(1) version obtain body row where
    row: "commands db' = commands db @ [row]" "cm_id row = command_id command"
      "cm_version row = uint (policy_version request)"
      "cm_outcome row = (case ?d of Accepted _ _ \<Rightarrow> ''accepted'' | Rejected _ _ _ \<Rightarrow> ''rejected'')"
      "AcknowledgementEnvelope body \<in> set (map ob_payload (outbox db'))"
      "0 < cm_version row" "cm_version row < 2 ^ 63"
    by fastforce
  have accepted: "cm_outcome row = ''accepted'' \<longleftrightarrow> applied < policy_version request"
    using row(4) by (simp add: for_version_def)
  have "last_applied_version db' = Inr (max applied (policy_version request))"
    using last_applied_append [OF assms(2) row(1,6,7) assms(4)] accepted row(3)
    by (auto simp: max_def word_less_def word_le_def word_uint_eq_iff)
  moreover have "policy_command_recorded db' (command_id command)"
    using row(1,2) by (simp add: policy_command_recorded_def)
  ultimately show ?thesis
    using row(1,2,5) accepted by (auto simp: decide_def)
qed

definition example_decided :: vault_db where
  "example_decided = fst (decide example_env example_contract (\<lambda>_. 1000) empty_db example_command example_policy)"

theorem policy_command_decided_once_witness:
  "last_applied_version example_decided = Inr 2
   \<and> decide example_env example_contract (\<lambda>_. 7000) example_decided example_command example_policy
       = (example_decided, Inr ())"
proof -
  have "decide example_env example_contract (\<lambda>_. 1000) empty_db example_command example_policy
      = (example_decided, Inr ())"
    by code_simp
  moreover have "wf_commands empty_db" "\<not> policy_command_recorded empty_db (command_id example_command)"
    "last_applied_version empty_db = Inr 0"
    by (simp_all add: policy_command_recorded_def last_applied_version_def wf_commands_def empty_db_def)
  moreover have "max 0 (policy_version example_policy) = 2"
    by (simp add: example_policy_def max_def)
  ultimately show ?thesis
    using policy_command_decided_once [of example_env example_contract "\<lambda>_. 1000" empty_db example_command
        example_policy example_decided 0] by auto
qed

subsection \<open>The relay\<close>

text \<open>What one pass may do to a row: it stays the same event, a published row is left alone, and a row
  becomes published only if the broker confirmed it.\<close>

definition relay_safe :: "(string \<Rightarrow> uuid \<Rightarrow> string \<Rightarrow> bool) \<Rightarrow> OutboxRow \<Rightarrow> OutboxRow \<Rightarrow> bool" where
  "relay_safe confirm before after \<longleftrightarrow>
     ob_event_id after = ob_event_id before \<and> ob_payload after = ob_payload before
     \<and> ob_event_type after = ob_event_type before \<and> ob_created_at after = ob_created_at before
     \<and> (case ob_published_at before of
          Some at \<Rightarrow> ob_published_at after = Some at
        | None \<Rightarrow> ob_published_at after = None
                 \<or> (\<exists>body. confirm ACKNOWLEDGEMENT_SUBJECT (ob_event_id before) body))"

lemma relay_safe_refl: "list_all2 (relay_safe confirm) rows rows"
  by (rule list.rel_refl) (auto simp: relay_safe_def split: option.splits)

lemma relay_safe_trans:
  "list_all2 (relay_safe confirm) a b \<Longrightarrow> list_all2 (relay_safe confirm) b c \<Longrightarrow> list_all2 (relay_safe confirm) a c"
  by (rule list_all2_trans [of "relay_safe confirm" "relay_safe confirm"])
    (auto simp: relay_safe_def split: option.splits)

lemma list_all2_map_self: "(\<And>x. P x (f x)) \<Longrightarrow> list_all2 P xs (map f xs)"
  by (induction xs) auto

lemma publish_safe: "list_all2 (relay_safe confirm) (outbox db) (outbox (fst (publish con confirm now row db)))"
proof -
  have mark: "list_all2 (relay_safe confirm) (outbox db) (outbox (mark_outbox_published now event db))"
    if "confirm ACKNOWLEDGEMENT_SUBJECT event body" for event body
    unfolding mark_outbox_published_def
    by (simp, rule list_all2_map_self) (use that in \<open>auto simp: relay_safe_def split: option.splits\<close>)
  have failed: "list_all2 (relay_safe confirm) (outbox db) (outbox db')"
    if "record_publish_failure now event class retry db = Inr db'" for event "class" retry db'
    using that unfolding record_publish_failure_def
    by (auto split: if_splits intro!: list_all2_map_self simp: relay_safe_def split: option.splits)
  show ?thesis
    by (auto simp: publish_def subject_for_def relay_safe_refl intro: mark failed
        split: sum.splits option.splits OutboxPayload.splits)
qed

lemma publish_rows_safe:
  "list_all2 (relay_safe confirm) (outbox db) (outbox (fst (publish_rows con confirm now rows refused db)))"
proof (induction rows arbitrary: refused db)
  case Nil
  then show ?case by (simp add: relay_safe_refl)
next
  case (Cons row rows)
  show ?case
    using publish_safe [of confirm db con now row] Cons.IH
    by (auto split: prod.splits sum.splits intro: relay_safe_trans)
qed

text \<open>
  The relay neither loses nor invents an acknowledgement: whatever the broker answers and however
  a pass ends, every row of the outbox is still there as the same event, published rows stay as they
  were, and a row becomes published only if the broker confirmed its message.
\<close>

theorem relay_pass_safe:
  "list_all2 (relay_safe confirm) (outbox db) (outbox (fst (relay_pass con confirm now db)))"
  using publish_rows_safe [of confirm db con now "due_acknowledgements now relay_batch db" False]
  by (auto simp: relay_pass_def Let_def split: prod.splits sum.splits)

text \<open>
  The retry delay of a failing acknowledgement is the capped exponential: two to the number of
  failed attempts, and at most five minutes, for every 32-bit count, the shift never wrapping.
\<close>

theorem backoff_is_capped_exponential:
  "uint (backoff_seconds attempts) = min (2 ^ unat attempts) 300"
proof (cases "unat attempts < 64")
  case True
  then have "(2 :: int) ^ unat attempts < 2 ^ 64"
    by (intro power_strict_increasing) simp_all
  moreover have "push_bit (unat attempts) (1 :: u64) = word_of_int (2 ^ unat attempts)"
    by simp
  ultimately have "uint (push_bit (unat attempts) (1 :: u64)) = 2 ^ unat attempts"
    by (simp only: uint_word_of_int) (simp add: take_bit_int_eq_self)
  with True show ?thesis
    by (simp add: backoff_seconds_def BACKOFF_CEILING_SECONDS_def min_def word_le_def)
next
  case False
  then have "(2 :: int) ^ 64 \<le> 2 ^ unat attempts"
    by (intro power_increasing) simp_all
  with False show ?thesis
    by (simp add: backoff_seconds_def BACKOFF_CEILING_SECONDS_def)
qed

end
