(* ===== verification/Git_Runner.thy ===== *)
theory Git_Runner
  imports Vault_Prelude
begin

text \<open>
  The confined execution of Git (\<open>crates/gitrunner/src\<close>): path confinement, source URLs, the closed
  command vocabulary, the child environment, output capture and redaction, and the decisions around
  one run. The file system is a map from absolute paths (lists of segments) to nodes; the child
  process is a parameter that answers an argument vector and an environment with its exit and the
  chunks read from its pipes. The elapsed time of a run is not modelled.
\<close>

subsection \<open>Paths\<close>

datatype Component = Normal string | CurDir | ParentDir | RootDir | Prefix string

fun split_on :: "char \<Rightarrow> string \<Rightarrow> string list" where
  "split_on sep [] = [[]]"
| "split_on sep (c # s) =
     (if c = sep then [] # split_on sep s
      else case split_on sep s of [] \<Rightarrow> [[c]] | part # parts \<Rightarrow> (c # part) # parts)"

definition segment_component :: "string \<Rightarrow> Component list" where
  "segment_component s =
     (if s = '''' \<or> s = ''.'' then [] else if s = ''..'' then [ParentDir] else [Normal s])"

definition is_absolute :: "string \<Rightarrow> bool" where
  "is_absolute p = starts_with p ''/''"

text \<open>\<open>Path::components\<close> on Unix: repeated separators and inner \<open>.\<close> segments disappear.\<close>

definition path_components :: "string \<Rightarrow> Component list" where
  "path_components p =
     (if is_absolute p then [RootDir] else if hd (split_on (CHR ''/'') p) = ''.'' then [CurDir] else [])
     @ concat (map segment_component (split_on (CHR ''/'') p))"

definition path_text :: "string list \<Rightarrow> string" where
  "path_text segments = (if segments = [] then ''/'' else concat (map (\<lambda>s. CHR ''/'' # s) segments))"

text \<open>\<open>Path::parent\<close>: the path without its final component; none for a root or an empty path.\<close>

fun component_text :: "Component \<Rightarrow> string" where
  "component_text (Normal s) = s"
| "component_text CurDir = ''.''"
| "component_text ParentDir = ''..''"
| "component_text RootDir = ''''"
| "component_text (Prefix s) = s"

fun join_slash :: "string list \<Rightarrow> string" where
  "join_slash [] = ''''"
| "join_slash [s] = s"
| "join_slash (s # rest) = s @ ''/'' @ join_slash rest"

definition path_parent :: "string \<Rightarrow> string option" where
  "path_parent p =
     (let components = path_components p
      in if components = [] \<or> components = [RootDir] then None
         else if butlast components = [RootDir] then Some ''/''
         else Some (join_slash (map component_text (butlast components))))"

datatype fs_node = Directory | RegularFile | SymbolicLink "string list"

type_synonym file_system = "string list \<Rightarrow> fs_node option"

datatype lstat = Exists bool | NotFound | LstatFailed

text \<open>\<open>symlink_metadata\<close> on a path whose parents are not links.\<close>

definition symlink_metadata :: "file_system \<Rightarrow> string list \<Rightarrow> lstat" where
  "symlink_metadata fs p =
     (if p \<noteq> [] \<and> fs (butlast p) = Some RegularFile then LstatFailed
      else case fs p of
             None \<Rightarrow> NotFound
           | Some (SymbolicLink _) \<Rightarrow> Exists True
           | Some _ \<Rightarrow> Exists False)"

subsection \<open>Errors\<close>

datatype Stream = Stdout | Stderr

datatype GitRunnerError =
    DisallowedSubcommand string
  | SpawnFailed
  | InvalidSourceUrl string
  | PathOutsideConfinement string
  | Timeout nat
  | OutputLimitExceeded Stream nat
  | CredentialWriteFailed string
  | IntegrityCheckFailed string string

subsection \<open>Confinement\<close>

record ConfinedPath =
  cp_root :: "string list"
  cp_resolved :: "string list"

fun normalize_components :: "Component list \<Rightarrow> string list \<Rightarrow> string list option" where
  "normalize_components [] segments = Some segments"
| "normalize_components (Normal part # rest) segments = normalize_components rest (segments @ [part])"
| "normalize_components (CurDir # rest) segments = normalize_components rest segments"
| "normalize_components (ParentDir # rest) segments =
     (if segments = [] then None else normalize_components rest (butlast segments))"
| "normalize_components (RootDir # rest) segments = None"
| "normalize_components (Prefix _ # rest) segments = None"

definition normalize_lexically :: "string \<Rightarrow> string list option" where
  "normalize_lexically relative = normalize_components (path_components relative) []"

fun walk_segments ::
  "(string list \<Rightarrow> lstat) \<Rightarrow> string list \<Rightarrow> string list \<Rightarrow> (GitRunnerError, string list) result" where
  "walk_segments lstat resolved [] = Inr resolved"
| "walk_segments lstat resolved (segment # rest) =
     (case lstat (resolved @ [segment]) of
        Exists is_symlink \<Rightarrow>
          if is_symlink then Inl (PathOutsideConfinement ''path traverses symlinked component'')
          else walk_segments lstat (resolved @ [segment]) rest
      | NotFound \<Rightarrow> walk_segments lstat (resolved @ [segment]) rest
      | LstatFailed \<Rightarrow> Inl (PathOutsideConfinement ''cannot inspect''))"

definition ConfinedPath_new ::
  "(string \<Rightarrow> string list option) \<Rightarrow> (string list \<Rightarrow> lstat) \<Rightarrow> string \<Rightarrow> string
     \<Rightarrow> (GitRunnerError, ConfinedPath) result" where
  "ConfinedPath_new canonicalize lstat root relative =
     (if relative = '''' then Inl (PathOutsideConfinement ''relative path is empty'')
      else case canonicalize root of
             None \<Rightarrow> Inl (PathOutsideConfinement ''root does not resolve'')
           | Some canonical_root \<Rightarrow>
               (case normalize_lexically relative of
                  None \<Rightarrow> Inl (PathOutsideConfinement ''escapes the root through parent components'')
                | Some normalized \<Rightarrow>
                    result_bind (walk_segments lstat canonical_root normalized) (\<lambda>resolved.
                      Inr \<lparr> cp_root = canonical_root, cp_resolved = resolved \<rparr>)))"

record TargetIdentity =
  ti_id :: uuid
  ti_display_name :: string

definition mirror_path ::
  "(uuid \<Rightarrow> string) \<Rightarrow> (string \<Rightarrow> string list option) \<Rightarrow> (string list \<Rightarrow> lstat) \<Rightarrow> TargetIdentity \<Rightarrow> string
     \<Rightarrow> (GitRunnerError, ConfinedPath) result" where
  "mirror_path as_simple canonicalize lstat identity mirrors_root =
     (let hex = as_simple (ti_id identity)
      in ConfinedPath_new canonicalize lstat mirrors_root
           (''mirrors/'' @ take 2 hex @ ''/'' @ hex @ ''.git''))"

subsection \<open>Source URLs\<close>

definition ALLOWED_SCHEMES :: "string list" where
  "ALLOWED_SCHEMES = [''https'', ''file'']"

definition ascii_lower :: "char \<Rightarrow> char" where
  "ascii_lower c = (if CHR ''A'' \<le> c \<and> c \<le> CHR ''Z'' then char_of ((of_char c :: nat) + 32) else c)"

definition to_ascii_lowercase :: "string \<Rightarrow> string" where
  "to_ascii_lowercase s = map ascii_lower s"

definition SourceUrl_parse :: "string \<Rightarrow> (GitRunnerError, string) result" where
  "SourceUrl_parse raw =
     (if starts_with raw ''-''
      then Inl (InvalidSourceUrl ''URL begins with `-` and could be parsed as a Git option'')
      else case split_once ''://'' raw of
             None \<Rightarrow> Inl (InvalidSourceUrl ''URL carries no `scheme://` transport'')
           | Some (scheme, _) \<Rightarrow>
               if to_ascii_lowercase scheme \<notin> set ALLOWED_SCHEMES
               then Inl (InvalidSourceUrl ''transport is outside the allowed set'')
               else Inr raw)"

text \<open>\<open>rsplit_once\<close> on a single character: the last occurrence.\<close>

definition rsplit_once_char :: "char \<Rightarrow> string \<Rightarrow> (string \<times> string) option" where
  "rsplit_once_char c s =
     (if c \<in> set s
      then Some (butlast (rev (dropWhile (\<lambda>x. x \<noteq> c) (rev s))), rev (takeWhile (\<lambda>x. x \<noteq> c) (rev s)))
      else None)"

definition wiki_sibling :: "string \<Rightarrow> (GitRunnerError, string) result" where
  "wiki_sibling url =
     (case rsplit_once_char (CHR ''.'') url of
        None \<Rightarrow> Inl (InvalidSourceUrl ''repository URL must end with `.git`'')
      | Some (base, ext) \<Rightarrow>
          if CHR ''?'' \<in> set url \<or> CHR ''#'' \<in> set url \<or> ext \<noteq> ''git''
          then Inl (InvalidSourceUrl
                 ''repository URL must end with `.git` and carry no query or fragment'')
          else SourceUrl_parse (base @ ''.wiki.git''))"

definition is_file :: "string \<Rightarrow> bool" where
  "is_file url = starts_with url ''file://''"

subsection \<open>Commands\<close>

datatype Subcommand = Init | Version | Fsck | Fetch | RevList | CloneMirror | ShowRef | Bundle | LsRemote

definition Subcommand_ALL :: "Subcommand list" where
  "Subcommand_ALL = [Init, Version, Fsck, Fetch, RevList, CloneMirror, ShowRef, Bundle, LsRemote]"

fun Subcommand_as_str :: "Subcommand \<Rightarrow> string" where
  "Subcommand_as_str Init = ''init''"
| "Subcommand_as_str Version = ''version''"
| "Subcommand_as_str Fsck = ''fsck''"
| "Subcommand_as_str Fetch = ''fetch''"
| "Subcommand_as_str RevList = ''rev-list''"
| "Subcommand_as_str CloneMirror = ''clone''"
| "Subcommand_as_str ShowRef = ''show-ref''"
| "Subcommand_as_str Bundle = ''bundle''"
| "Subcommand_as_str LsRemote = ''ls-remote''"

record Credentials =
  username :: string
  password :: string

record GitOperation =
  op_subcommand :: Subcommand
  op_arguments :: "string list"
  op_credentials :: "Credentials option"

definition with_credentials :: "GitOperation \<Rightarrow> Credentials \<Rightarrow> GitOperation" where
  "with_credentials op c = op\<lparr>op_credentials := Some c\<rparr>"

definition git_operation :: "Subcommand \<Rightarrow> string list \<Rightarrow> GitOperation" where
  "git_operation sub args = \<lparr> op_subcommand = sub, op_arguments = args, op_credentials = None \<rparr>"

definition op_version :: GitOperation where
  "op_version = git_operation Version []"

definition fsck_full :: GitOperation where
  "fsck_full = git_operation Fsck [''--full'']"

definition fetch_all :: "string \<Rightarrow> GitOperation" where
  "fetch_all url = git_operation Fetch [url, ''+refs/*:refs/*'']"

definition rev_list_all :: GitOperation where
  "rev_list_all = git_operation RevList [''--all'']"

definition rev_list_all_objects :: GitOperation where
  "rev_list_all_objects = git_operation RevList [''--objects'', ''--all'']"

definition clone_mirror :: "string \<Rightarrow> ConfinedPath \<Rightarrow> GitOperation" where
  "clone_mirror url destination =
     git_operation CloneMirror [''--mirror'', url, path_text (cp_resolved destination)]"

definition show_ref :: GitOperation where
  "show_ref = git_operation ShowRef []"

definition bundle_create :: "ConfinedPath \<Rightarrow> GitOperation" where
  "bundle_create destination = git_operation Bundle [''create'', path_text (cp_resolved destination), ''--all'']"

definition init_bare :: GitOperation where
  "init_bare = git_operation Init [''--bare'']"

definition bundle_verify :: "ConfinedPath \<Rightarrow> GitOperation" where
  "bundle_verify bundle = git_operation Bundle [''verify'', path_text (cp_resolved bundle)]"

definition fetch_bundle :: "ConfinedPath \<Rightarrow> GitOperation" where
  "fetch_bundle bundle = git_operation Fetch [path_text (cp_resolved bundle), ''+refs/*:refs/*'']"

definition ls_remote :: "string \<Rightarrow> GitOperation" where
  "ls_remote url = git_operation LsRemote [url]"

subsection \<open>The child environment\<close>

definition CHILD_ENV_KEYS :: "string list" where
  "CHILD_ENV_KEYS =
     [''PATH'', ''HOME'', ''LANG'', ''GIT_CONFIG_NOSYSTEM'', ''GIT_CONFIG_GLOBAL'', ''GIT_CONFIG_SYSTEM'',
      ''GIT_TERMINAL_PROMPT'', ''GIT_ASKPASS'', ''SSH_ASKPASS'', ''GIT_PAGER'', ''GIT_ALLOW_PROTOCOL'', ''PAGER'']"

text \<open>\<open>join_paths\<close> refuses a part that contains the separator.\<close>

definition child_environment :: "string \<Rightarrow> string \<Rightarrow> (string \<times> string) list" where
  "child_environment git_dir home =
     [(''PATH'', if CHR '':'' \<in> set git_dir then ''/usr/bin:/bin'' else git_dir @ '':/usr/bin:/bin''),
      (''HOME'', home),
      (''GIT_CONFIG_NOSYSTEM'', ''1''), (''GIT_CONFIG_GLOBAL'', ''/dev/null''),
      (''GIT_CONFIG_SYSTEM'', ''/dev/null''), (''GIT_TERMINAL_PROMPT'', ''0''),
      (''GIT_ASKPASS'', ''/dev/null''), (''SSH_ASKPASS'', ''/dev/null''), (''GIT_PAGER'', ''cat''),
      (''GIT_ALLOW_PROTOCOL'', ''file''), (''PAGER'', ''cat''), (''LANG'', ''C.UTF-8'')]"

definition lfs_fixed_config :: "string \<Rightarrow> bool \<Rightarrow> (string \<times> string) list" where
  "lfs_fixed_config storage standalone_file =
     [(''core.hooksPath'', ''/dev/null''), (''lfs.fetchinclude'', ''''), (''lfs.fetchexclude'', ''''),
      (''filter.lfs.process'', ''''), (''filter.lfs.smudge'', ''''), (''filter.lfs.clean'', '''')]
     @ [if standalone_file then (''lfs.standalonetransferagent'', ''lfs-standalone-file'')
        else (''lfs.basictransfersonly'', ''true'')]
     @ (if standalone_file then [] else [(''lfs.storage'', storage)])"

definition lfs_child_environment ::
  "string \<Rightarrow> string \<Rightarrow> string \<Rightarrow> string \<Rightarrow> bool \<Rightarrow> (string \<times> string) list" where
  "lfs_child_environment lfs_dir home mirror storage standalone_file =
     (let fixed_config = lfs_fixed_config storage standalone_file
      in child_environment lfs_dir home
         @ [(''GIT_DIR'', mirror), (''GIT_LFS_SKIP_SMUDGE'', ''1''),
            (''GIT_CONFIG_COUNT'', decimal (length fixed_config))]
         @ concat (map (\<lambda>(index, key, value).
              [(''GIT_CONFIG_KEY_'' @ decimal index, key), (''GIT_CONFIG_VALUE_'' @ decimal index, value)])
              (enumerate 0 fixed_config)))"

subsection \<open>Captured output\<close>

definition REDACTED :: string where
  "REDACTED = ''[redacted]''"

text \<open>One secret: every leftmost occurrence is replaced, scanning on behind it.\<close>

function redact_one :: "string \<Rightarrow> string \<Rightarrow> string" where
  "redact_one secret rest =
     (if secret = [] then rest
      else case split_once secret rest of
             None \<Rightarrow> rest
           | Some (head, remainder) \<Rightarrow> head @ REDACTED @ redact_one secret remainder)"
  by pat_completeness auto

lemma split_once_shorter:
  "split_once needle s = Some (a, b) \<Longrightarrow> needle \<noteq> [] \<Longrightarrow> length b < length s"
  using split_once_sound [of needle s a b] by (cases needle) auto

termination redact_one
  by (relation "measure (\<lambda>(secret, rest). length rest)") (auto simp: split_once_shorter)

declare redact_one.simps [simp del]

fun redact_secrets :: "string \<Rightarrow> string list \<Rightarrow> string" where
  "redact_secrets bytes [] = bytes"
| "redact_secrets bytes (secret # secrets) =
     (if secret = [] \<or> length bytes < length secret then redact_secrets bytes secrets
      else redact_secrets (redact_one secret bytes) secrets)"

text \<open>Reading a pipe chunk by chunk under a cap; an empty chunk is the end of the stream.\<close>

fun read_capped :: "string list \<Rightarrow> nat \<Rightarrow> string \<Rightarrow> string \<times> bool" where
  "read_capped [] cap retained = (retained, False)"
| "read_capped (chunk # chunks) cap retained =
     (if chunk = [] then (retained, False)
      else let n = min (length chunk) (cap - length retained);
               retained' = retained @ take n chunk
           in if n < length chunk then (retained', True) else read_capped chunks cap retained')"

text \<open>
  UTF-8 as \<open>core::str\<close> reads it: the range of the second byte and the number of continuation bytes
  a leading byte asks for, the longest acceptable chunk, validity, and the lossy reading that puts the
  replacement character for each maximal ill-formed chunk.
\<close>

definition utf8_lead :: "nat \<Rightarrow> (nat \<times> nat \<times> nat) option" where
  "utf8_lead b =
     (if b < 128 then Some (128, 191, 0)
      else if 194 \<le> b \<and> b \<le> 223 then Some (128, 191, 1)
      else if b = 224 then Some (160, 191, 2)
      else if b = 237 then Some (128, 159, 2)
      else if 225 \<le> b \<and> b \<le> 239 then Some (128, 191, 2)
      else if b = 240 then Some (144, 191, 3)
      else if 241 \<le> b \<and> b \<le> 243 then Some (128, 191, 3)
      else if b = 244 then Some (128, 143, 3)
      else None)"

fun utf8_continuation :: "nat \<Rightarrow> nat \<Rightarrow> nat \<Rightarrow> string \<Rightarrow> nat" where
  "utf8_continuation lo hi 0 s = 0"
| "utf8_continuation lo hi (Suc n) [] = 0"
| "utf8_continuation lo hi (Suc n) (c # s) =
     (if lo \<le> of_char c \<and> of_char c \<le> hi then Suc (utf8_continuation 128 191 n s) else 0)"

fun utf8_chunk :: "char \<Rightarrow> string \<Rightarrow> nat \<times> bool" where
  "utf8_chunk c s =
     (case utf8_lead (of_char c) of
        None \<Rightarrow> (0, False)
      | Some (lo, hi, n) \<Rightarrow> (utf8_continuation lo hi n s, utf8_continuation lo hi n s = n))"

function utf8_valid :: "string \<Rightarrow> bool" where
  "utf8_valid [] = True"
| "utf8_valid (c # s) = (snd (utf8_chunk c s) \<and> utf8_valid (drop (fst (utf8_chunk c s)) s))"
  by pat_completeness auto

termination utf8_valid
  by (relation "measure length") auto

definition REPLACEMENT_CHARACTER :: string where
  "REPLACEMENT_CHARACTER = [CHR 0xEF, CHR 0xBF, CHR 0xBD]"

function from_utf8_lossy :: "string \<Rightarrow> string" where
  "from_utf8_lossy [] = []"
| "from_utf8_lossy (c # s) =
     (if snd (utf8_chunk c s) then c # take (fst (utf8_chunk c s)) s else REPLACEMENT_CHARACTER)
     @ from_utf8_lossy (drop (fst (utf8_chunk c s)) s)"
  by pat_completeness auto

termination from_utf8_lossy
  by (relation "measure length") auto

definition bounded_excerpt :: "string \<Rightarrow> nat \<Rightarrow> string" where
  "bounded_excerpt captured max_bytes =
     (let n = min (length captured) max_bytes
      in case find (\<lambda>bound. utf8_valid (take bound captured)) (rev [0..<Suc n]) of
           Some bound \<Rightarrow> if 0 < bound then from_utf8_lossy (take bound captured) else from_utf8_lossy (take n captured)
         | None \<Rightarrow> from_utf8_lossy (take n captured))"

record RunOutcome =
  exit_code :: int
  out_stdout :: string
  out_stderr :: string
  stdout_truncated :: bool
  stderr_truncated :: bool

subsection \<open>One run\<close>

definition SAFE_CONFIG_WORDS :: "string list" where
  "SAFE_CONFIG_WORDS = [''-c'', ''core.hooksPath=/dev/null'']"

record RunConfig =
  git_binary :: string
  allowed :: "Subcommand list"
  working_directory :: string
  run_home :: string
  deadline :: nat
  stdout_cap_bytes :: nat
  stderr_cap_bytes :: nat
  credential_helper :: string

definition command_words :: "string \<Rightarrow> GitOperation \<Rightarrow> string option \<Rightarrow> string list" where
  "command_words helper op staged_secret =
     SAFE_CONFIG_WORDS
     @ (if op_credentials op \<noteq> None
        then [''-c'', ''credential.helper='' @ helper @ '' ''
                @ (case staged_secret of None \<Rightarrow> ''<staged-secret>'' | Some path \<Rightarrow> path)]
        else [])
     @ [Subcommand_as_str (op_subcommand op)] @ op_arguments op"

definition command_preview :: "RunConfig \<Rightarrow> GitOperation \<Rightarrow> string list" where
  "command_preview config op = command_words (credential_helper config) op None"

definition resolve_or_self :: "(string \<Rightarrow> string option) \<Rightarrow> string \<Rightarrow> string" where
  "resolve_or_self canonicalize p = (case canonicalize p of Some resolved \<Rightarrow> resolved | None \<Rightarrow> p)"

definition path_starts_with :: "string \<Rightarrow> string \<Rightarrow> bool" where
  "path_starts_with p base = prefix (path_components base) (path_components p)"

definition refuse_denied_paths ::
  "(string \<Rightarrow> string option) \<Rightarrow> string list \<Rightarrow> GitOperation \<Rightarrow> (GitRunnerError, unit) result" where
  "refuse_denied_paths canonicalize denied_roots op =
     (if list_ex (\<lambda>argument. is_absolute argument
            \<and> list_ex (\<lambda>denied. path_starts_with (resolve_or_self canonicalize argument)
                                   (resolve_or_self canonicalize denied)) denied_roots) (op_arguments op)
      then Inl (PathOutsideConfinement ''operation path resolves inside a denied root'')
      else Inr ())"

definition secret_bytes :: "Credentials \<Rightarrow> string list" where
  "secret_bytes c = [username c, password c]"

definition secret_payload :: "Credentials \<Rightarrow> string" where
  "secret_payload c = ''username='' @ username c @ ''\<newline>'' @ ''password='' @ password c @ ''\<newline>''"

text \<open>
  Staging the credentials: \<open>staging_io\<close> holds what the file system answers to each call, in order,
  and the fresh identifier of the secret file.
\<close>

record staging_io =
  create_error :: "string option"
  dir_mode :: "(string, u32) result"
  write_error :: "string option"
  protect_error :: "string option"
  secret_id :: string

definition prepare_secret_file ::
  "staging_io \<Rightarrow> string \<Rightarrow> Credentials \<Rightarrow> (GitRunnerError, string) result" where
  "prepare_secret_file io run_dir credentials =
     (case create_error io of
        Some source \<Rightarrow> Inl (CredentialWriteFailed (''run directory '' @ run_dir @ '' unusable: '' @ source))
      | None \<Rightarrow>
      (case dir_mode io of
         Inl source \<Rightarrow> Inl (CredentialWriteFailed (''run directory '' @ run_dir @ '' unreadable: '' @ source))
       | Inr mode \<Rightarrow>
           if and mode 0x3F \<noteq> 0
           then Inl (CredentialWriteFailed (''run directory '' @ run_dir @ '' is group/world accessible''))
           else
             let path = run_dir @ ''/cred-'' @ secret_id io @ ''.secret''
             in case write_error io of
                  Some source \<Rightarrow> Inl (CredentialWriteFailed (''secret file '' @ path @ '' unwritable: '' @ source))
                | None \<Rightarrow>
                (case protect_error io of
                   Some source \<Rightarrow> Inl (CredentialWriteFailed (''secret file '' @ path @ '' unprotectable: '' @ source))
                 | None \<Rightarrow> Inr path)))"

datatype child_result =
    NotStarted
  | DeadlinePassed
  | WaitFailed
  | Exited "int option" "string list" "string list"

text \<open>
  The run: \<open>child\<close> is what the process does when it is started with the binary, the working
  directory, the argument vector and the whole environment it is given, up to the deadline.
\<close>

definition git_run ::
  "(string \<Rightarrow> string option) \<Rightarrow> staging_io
     \<Rightarrow> (string \<Rightarrow> string \<Rightarrow> string list \<Rightarrow> (string \<times> string) list \<Rightarrow> child_result) \<Rightarrow> RunConfig \<Rightarrow> string list \<Rightarrow> GitOperation
     \<Rightarrow> (GitRunnerError, RunOutcome) result" where
  "git_run canonicalize staging child config denied_roots op =
     (if op_subcommand op \<notin> set (allowed config)
      then Inl (DisallowedSubcommand (Subcommand_as_str (op_subcommand op)))
      else result_bind (refuse_denied_paths canonicalize denied_roots op) (\<lambda>_.
        result_bind (case op_credentials op of
                       None \<Rightarrow> Inr None
                     | Some c \<Rightarrow> map_sum id Some (prepare_secret_file staging (run_home config) c)) (\<lambda>staged.
          case child (git_binary config) (working_directory config)
                 (command_words (credential_helper config) op staged)
                 (child_environment (case path_parent (git_binary config) of Some dir \<Rightarrow> dir | None \<Rightarrow> ''/usr/bin'')
                    (run_home config)) of
            NotStarted \<Rightarrow> Inl SpawnFailed
          | DeadlinePassed \<Rightarrow> Inl (Timeout (deadline config))
          | WaitFailed \<Rightarrow> Inl SpawnFailed
          | Exited code stdout_chunks stderr_chunks \<Rightarrow>
              (let (out, out_overflow) = read_capped stdout_chunks (stdout_cap_bytes config) [];
                   (err, err_overflow) = read_capped stderr_chunks (stderr_cap_bytes config) []
               in if out_overflow then Inl (OutputLimitExceeded Stdout (length out))
                  else if err_overflow then Inl (OutputLimitExceeded Stderr (length err))
                  else
                    let secrets = (case op_credentials op of None \<Rightarrow> [] | Some c \<Rightarrow> secret_bytes c);
                        out' = redact_secrets out secrets;
                        err' = redact_secrets err secrets
                    in if (case code of None \<Rightarrow> False | Some n \<Rightarrow> n \<noteq> 0) \<and> op_subcommand op = Fsck
                       then Inl (IntegrityCheckFailed ''fsck'' (bounded_excerpt err' 512))
                       else Inr \<lparr> exit_code = (case code of Some n \<Rightarrow> n | None \<Rightarrow> -1), out_stdout = out',
                                  out_stderr = err', stdout_truncated = out_overflow,
                                  stderr_truncated = err_overflow \<rparr>))))"

subsection \<open>Confinement is real\<close>

text \<open>The kernel's resolution of an absolute path: links are followed, with fuel for link cycles.\<close>

fun fs_resolve :: "nat \<Rightarrow> file_system \<Rightarrow> string list \<Rightarrow> string list \<Rightarrow> string list option" where
  "fs_resolve fuel fs walked [] = Some walked"
| "fs_resolve 0 fs walked (segment # rest) = None"
| "fs_resolve (Suc fuel) fs walked (segment # rest) =
     (case fs (walked @ [segment]) of
        Some (SymbolicLink target) \<Rightarrow> fs_resolve fuel fs [] (target @ rest)
      | _ \<Rightarrow> fs_resolve fuel fs (walked @ [segment]) rest)"

definition link_free :: "file_system \<Rightarrow> string list \<Rightarrow> bool" where
  "link_free fs p \<longleftrightarrow> (\<forall>q target. prefix q p \<longrightarrow> fs q \<noteq> Some (SymbolicLink target))"

definition plain_segment :: "string \<Rightarrow> bool" where
  "plain_segment s \<longleftrightarrow> s \<noteq> '''' \<and> s \<noteq> ''.'' \<and> s \<noteq> ''..'' \<and> CHR ''/'' \<notin> set s"

lemma link_free_resolves:
  "link_free fs (walked @ rest) \<Longrightarrow> length rest \<le> fuel \<Longrightarrow> fs_resolve fuel fs walked rest = Some (walked @ rest)"
proof (induction rest arbitrary: walked fuel)
  case (Cons segment rest)
  then obtain n where n: "fuel = Suc n" "length rest \<le> n" by (cases fuel) auto
  have "prefix (walked @ [segment]) (walked @ segment # rest)" by simp
  then have "fs (walked @ [segment]) \<noteq> Some (SymbolicLink target)" for target
    using Cons.prems(1) unfolding link_free_def by blast
  moreover have "fs_resolve n fs (walked @ [segment]) rest = Some (walked @ segment # rest)"
    using Cons.IH [of "walked @ [segment]" n] Cons.prems(1) n(2) by simp
  ultimately show ?case
    by (auto simp: n(1) split: option.splits fs_node.splits)
qed simp

lemma split_on_segments: "s \<in> set (split_on sep p) \<Longrightarrow> sep \<notin> set s"
proof (induction p arbitrary: s)
  case (Cons c p)
  then show ?case by (auto split: if_splits list.splits)
qed simp

lemma normal_component_plain:
  "Normal s \<in> set (path_components p) \<Longrightarrow> plain_segment s"
  by (auto simp: path_components_def segment_component_def plain_segment_def split_on_segments split: if_splits)

lemma normalize_plain:
  "normalize_components cs segments = Some out \<Longrightarrow> \<forall>s. Normal s \<in> set cs \<longrightarrow> plain_segment s \<Longrightarrow>
     list_all plain_segment segments \<Longrightarrow> list_all plain_segment out"
proof (induction cs segments rule: normalize_components.induct)
  case (4 rest segments)
  then show ?case by (auto simp: list_all_iff split: if_splits dest: in_set_butlastD)
qed auto

lemma symlink_metadata_link: "fs p = Some (SymbolicLink target) \<Longrightarrow> symlink_metadata fs p \<in> {Exists True, LstatFailed}"
  by (simp add: symlink_metadata_def)

lemma walk_segments_link_free:
  "walk_segments (symlink_metadata fs) resolved rest = Inr out \<Longrightarrow> link_free fs resolved \<Longrightarrow>
     out = resolved @ rest \<and> link_free fs out"
proof (induction rest arbitrary: resolved)
  case (Cons segment rest)
  from Cons.prems(1) have "walk_segments (symlink_metadata fs) (resolved @ [segment]) rest = Inr out"
    and "fs (resolved @ [segment]) \<noteq> Some (SymbolicLink target)" for target
    by (auto dest: symlink_metadata_link split: lstat.splits if_splits)
  moreover from this(2) Cons.prems(2) have "link_free fs (resolved @ [segment])"
    by (auto simp: link_free_def prefix_snoc)
  ultimately show ?case using Cons.IH by fastforce
qed simp

text \<open>
  C34. Confinement is real: whenever a path is confined under a root whose canonical form contains no
  symbolic link, the resolved path lies under that root, its segments below the root are plain names
  (no parent, no separator), and opening it on the same file system, following every link there is,
  arrives at that very path and nowhere else.
\<close>

theorem confined_path_stays_inside:
  assumes "ConfinedPath_new canonicalize (symlink_metadata fs) root relative = Inr cp"
    and "\<And>p. canonicalize root = Some p \<Longrightarrow> link_free fs p"
  shows "canonicalize root = Some (cp_root cp)
      \<and> (\<exists>below. cp_resolved cp = cp_root cp @ below \<and> list_all plain_segment below)
      \<and> fs_resolve (length (cp_resolved cp)) fs [] (cp_resolved cp) = Some (cp_resolved cp)"
proof -
  from assms(1) obtain normalized where
    root: "canonicalize root = Some (cp_root cp)" and
    norm: "normalize_lexically relative = Some normalized" and
    walk: "walk_segments (symlink_metadata fs) (cp_root cp) normalized = Inr (cp_resolved cp)"
    by (auto simp: ConfinedPath_new_def split: if_splits option.splits)
  have "cp_resolved cp = cp_root cp @ normalized" "link_free fs (cp_resolved cp)"
    using walk_segments_link_free [OF walk assms(2) [OF root]] by blast+
  moreover have "list_all plain_segment normalized"
    using norm unfolding normalize_lexically_def
    by (rule normalize_plain) (auto intro: normal_component_plain)
  ultimately show ?thesis
    using root link_free_resolves [of fs "[]" "cp_resolved cp" "length (cp_resolved cp)"] by auto
qed

definition example_fs :: file_system where
  "example_fs p =
     (if p \<in> {[], [''srv''], [''srv'', ''vault'']} then Some Directory
      else if p = [''srv'', ''vault'', ''hop''] then Some (SymbolicLink [''etc'']) else None)"

theorem confined_path_stays_inside_witness:
  "fs_resolve (length [''srv'', ''vault'', ''a'', ''b.git'']) example_fs [] [''srv'', ''vault'', ''a'', ''b.git'']
     = Some [''srv'', ''vault'', ''a'', ''b.git'']"
proof -
  let ?canon = "\<lambda>_ :: string. Some [''srv'', ''vault'']"
  have "ConfinedPath_new ?canon (symlink_metadata example_fs) ''/srv/vault'' ''a/../a/./b.git''
      = Inr \<lparr>cp_root = [''srv'', ''vault''], cp_resolved = [''srv'', ''vault'', ''a'', ''b.git'']\<rparr>"
    by code_simp
  moreover have "link_free example_fs [''srv'', ''vault'']"
    by (auto simp: link_free_def example_fs_def prefix_Cons)
  ultimately show ?thesis
    using confined_path_stays_inside [of ?canon example_fs "''/srv/vault''" "''a/../a/./b.git''"]
    by (simp del: fs_resolve.simps)
qed

subsection \<open>No argument becomes an option\<close>

text \<open>The operations the builders produce from validated sources and confined paths.\<close>

inductive built :: "GitOperation \<Rightarrow> bool" where
  "built op_version"
| "built fsck_full"
| "SourceUrl_parse raw = Inr url \<Longrightarrow> built (fetch_all url)"
| "built rev_list_all"
| "built rev_list_all_objects"
| "SourceUrl_parse raw = Inr url \<Longrightarrow> built (clone_mirror url destination)"
| "built show_ref"
| "built (bundle_create destination)"
| "built init_bare"
| "built (bundle_verify bundle)"
| "built (fetch_bundle bundle)"
| "SourceUrl_parse raw = Inr url \<Longrightarrow> built (ls_remote url)"
| "built op \<Longrightarrow> built (with_credentials op c)"

definition fixed_options :: "string list" where
  "fixed_options = [''--full'', ''--all'', ''--objects'', ''--mirror'', ''--bare'']"

lemma parsed_not_option: "SourceUrl_parse raw = Inr url \<Longrightarrow> \<not> starts_with url ''-''"
  by (auto simp: SourceUrl_parse_def split: if_splits option.splits)

lemma path_text_not_option: "\<not> starts_with (path_text segments) ''-''"
  by (cases segments) (auto simp: path_text_def starts_with_def)

lemma fixed_not_option:
  "\<not> starts_with ''+refs/*:refs/*'' ''-''" "\<not> starts_with ''create'' ''-''" "\<not> starts_with ''verify'' ''-''"
  by (simp_all add: starts_with_def)

text \<open>
  Hostile input never becomes an option: whatever source and path an operation is built from,
  the argument vector handed to Git starts with the hook override, names the operation's subcommand,
  and every word behind the subcommand that begins with a dash is one of five fixed options.
\<close>

theorem built_arguments_safe:
  assumes "built op"
  shows "(\<exists>credential. command_words helper op secret =
            [''-c'', ''core.hooksPath=/dev/null''] @ credential @ [Subcommand_as_str (op_subcommand op)] @ op_arguments op
            \<and> (op_credentials op = None \<longrightarrow> credential = []))
       \<and> (\<forall>word \<in> set (op_arguments op). starts_with word ''-'' \<longrightarrow> word \<in> set fixed_options)"
proof
  show "\<exists>credential. command_words helper op secret =
      [''-c'', ''core.hooksPath=/dev/null''] @ credential @ [Subcommand_as_str (op_subcommand op)] @ op_arguments op
      \<and> (op_credentials op = None \<longrightarrow> credential = [])"
    unfolding command_words_def SAFE_CONFIG_WORDS_def by (cases "op_credentials op") auto
  show "\<forall>word \<in> set (op_arguments op). starts_with word ''-'' \<longrightarrow> word \<in> set fixed_options"
    using assms
    by (induction rule: built.induct)
      (auto simp: git_operation_def op_version_def fsck_full_def fetch_all_def rev_list_all_def
        rev_list_all_objects_def clone_mirror_def show_ref_def bundle_create_def init_bare_def
        bundle_verify_def fetch_bundle_def ls_remote_def with_credentials_def fixed_options_def
        path_text_not_option fixed_not_option dest: parsed_not_option)
qed

theorem built_arguments_safe_witness:
  "\<not> starts_with ''https://host/a.git'' ''-'' \<and> SourceUrl_parse ''--upload-pack=x'' \<noteq> Inr ''--upload-pack=x''
   \<and> set (filter (\<lambda>word. starts_with word ''-'') (op_arguments (ls_remote ''https://host/a.git'')))
        \<subseteq> set fixed_options"
proof -
  have "SourceUrl_parse ''https://host/a.git'' = Inr ''https://host/a.git''" by code_simp
  then have "built (ls_remote ''https://host/a.git'')" by (rule built.intros)
  moreover have "\<not> starts_with ''https://host/a.git'' ''-''"
    "SourceUrl_parse ''--upload-pack=x'' \<noteq> Inr ''--upload-pack=x''"
    by (simp_all add: starts_with_def SourceUrl_parse_def)
  ultimately show ?thesis
    using built_arguments_safe [of "ls_remote ''https://host/a.git''"] by (simp add: subset_iff)
qed

subsection \<open>Bounded capture and redaction\<close>

lemma read_capped_exact_from:
  "\<forall>chunk \<in> set chunks. chunk \<noteq> [] \<Longrightarrow> length retained \<le> cap \<Longrightarrow>
     read_capped chunks cap retained =
       (take cap (retained @ concat chunks), cap < length retained + length (concat chunks))"
proof (induction chunks arbitrary: retained)
  case (Cons chunk chunks)
  let ?n = "min (length chunk) (cap - length retained)"
  show ?case
  proof (cases "?n < length chunk")
    case True
    with Cons.prems show ?thesis by (auto simp: Let_def min_def split: if_splits)
  next
    case False
    then have n: "?n = length chunk" "length (retained @ chunk) \<le> cap" using Cons.prems by auto
    with Cons.IH [of "retained @ chunk"] Cons.prems show ?thesis by (simp add: Let_def add.assoc)
  qed
qed simp

text \<open>
  Captured output is exactly the bounded prefix: however the child's bytes arrive in chunks, the
  reader retains the first bytes up to the cap, and reports an overflow exactly when there were more.
\<close>

theorem read_capped_exact:
  assumes "\<forall>chunk \<in> set chunks. chunk \<noteq> []"
  shows "read_capped chunks cap [] = (take cap (concat chunks), cap < length (concat chunks))"
  using read_capped_exact_from [OF assms, of "[]" cap] by simp

theorem read_capped_exact_witness:
  "read_capped [''abc'', ''de''] 4 [] = (''abcd'', True)"
  using read_capped_exact [of "[''abc'', ''de'']" 4] by simp

lemma sublist_around:
  assumes "sublist t (a @ c # b)" and "c \<notin> set t"
  shows "sublist t a \<or> sublist t b"
proof -
  from assms(1) obtain p q where "a @ (c # b) = p @ (t @ q)" by (auto simp: sublist_def)
  then obtain us where "a = p @ us \<and> us @ c # b = t @ q \<or> a @ us = p \<and> c # b = us @ t @ q"
    unfolding append_eq_append_conv2 by blast
  then show ?thesis
  proof (elim disjE conjE)
    assume *: "a = p @ us" "us @ c # b = t @ q"
    then obtain vs where "us = t @ vs \<or> us @ vs = t \<and> c # b = vs @ q"
      unfolding append_eq_append_conv2 by blast
    then have "us = t @ vs \<or> us = t" using assms(2) by (cases vs) auto
    with * have "a = p @ t @ vs \<or> a = p @ t @ []" by auto
    then show ?thesis unfolding sublist_def by blast
  next
    assume "a @ us = p" "c # b = us @ t @ q"
    with assms(2) show ?thesis by (cases us; cases t) (auto simp: sublist_def)
  qed
qed

text \<open>A secret the placeholder cannot recreate: no bracket, and not a fragment of the word inside.\<close>

definition redactable :: "string \<Rightarrow> bool" where
  "redactable secret \<longleftrightarrow>
     secret \<noteq> [] \<and> CHR ''['' \<notin> set secret \<and> CHR '']'' \<notin> set secret \<and> \<not> contains ''redacted'' secret"

lemma around_placeholder:
  assumes "sublist t (a @ REDACTED @ b)" and "redactable t"
  shows "sublist t a \<or> sublist t b"
proof -
  have "a @ REDACTED @ b = a @ CHR ''['' # (''redacted'' @ CHR '']'' # b)" by (simp add: REDACTED_def)
  then have "sublist t a \<or> sublist t (''redacted'' @ CHR '']'' # b)"
    using assms sublist_around [of t a "CHR ''[''"] by (metis redactable_def)
  then show ?thesis
    using assms(2) sublist_around [of t "''redacted''" "CHR '']''" b] by (auto simp: redactable_def contains_def)
qed

lemma split_once_None: "split_once needle s = None \<Longrightarrow> \<not> sublist needle s"
  by (induction needle s rule: split_once.induct) (auto simp: sublist_Cons_right split: if_splits)

lemma split_once_first_occurrence: "split_once needle s = Some (a, b) \<Longrightarrow> needle \<noteq> [] \<Longrightarrow> \<not> sublist needle a"
proof (induction needle s arbitrary: a rule: split_once.induct)
  case (2 needle c s)
  show ?case
  proof (cases "prefix needle (c # s)")
    case False
    with 2 obtain a' where a': "a = c # a'" "split_once needle s = Some (a', b)" by auto
    then have "\<not> sublist needle a'" using 2 False by blast
    moreover have "\<not> prefix needle (c # a')"
      using False split_once_sound [OF a'(2)] by (metis append_Cons prefix_prefix)
    ultimately show ?thesis by (simp add: a'(1) sublist_Cons_right)
  qed (use 2 in simp)
qed (auto split: if_splits)

lemma redact_one_shrinks:
  "sublist t (redact_one secret s) \<Longrightarrow> redactable t \<Longrightarrow> sublist t s \<and> (secret = t \<longrightarrow> False)"
proof (induction secret s rule: redact_one.induct)
  case (1 secret s)
  show ?case
  proof (cases "secret = [] \<or> split_once secret s = None")
    case True
    then have "redact_one secret s = s" by (auto simp: redact_one.simps [of secret s])
    with True show ?thesis using 1(2,3) split_once_None by (auto simp: redactable_def)
  next
    case False
    then obtain a b where ab: "secret \<noteq> []" "split_once secret s = Some (a, b)" by auto
    then have "sublist t a \<or> sublist t (redact_one secret b)"
      using 1(2,3) around_placeholder by (simp add: redact_one.simps [of secret s])
    moreover have "s = a @ secret @ b" by (rule split_once_sound [OF ab(2)])
    moreover have "\<not> sublist secret a" by (rule split_once_first_occurrence [OF ab(2,1)])
    ultimately show ?thesis
      using 1(1) [OF ab(1,2) refl] 1(3) by (auto simp: sublist_append)
  qed
qed

lemma redact_secrets_shrinks: "sublist t (redact_secrets s secrets) \<Longrightarrow> redactable t \<Longrightarrow> sublist t s"
  by (induction s secrets rule: redact_secrets.induct) (auto dest: redact_one_shrinks split: if_splits)

text \<open>
  C37. Redaction removes the secrets: after redaction no secret occurs in the captured bytes, for every
  secret that has no bracket and is not a fragment of the placeholder's word, whatever the other
  secrets are and in whatever order they are replaced.
\<close>

theorem redaction_removes_secrets:
  assumes "secret \<in> set secrets" and "redactable secret"
  shows "\<not> contains (redact_secrets bytes secrets) secret"
  using assms(1)
proof (induction bytes secrets rule: redact_secrets.induct)
  case (2 bytes s secrets)
  show ?case
  proof (cases "secret \<in> set secrets")
    case False
    with 2 have s: "s = secret" by simp
    show ?thesis
    proof (cases "length bytes < length secret")
      case True
      have "\<not> sublist secret (redact_secrets bytes secrets)"
        using redact_secrets_shrinks [OF _ assms(2)] True sublist_length_le by fastforce
      with True s show ?thesis by (simp add: contains_def)
    next
      case False
      have "\<not> sublist secret (redact_secrets (redact_one secret bytes) secrets)"
        using redact_secrets_shrinks [OF _ assms(2)] redact_one_shrinks [OF _ assms(2)] by blast
      with False s assms(2) show ?thesis by (simp add: contains_def redactable_def)
    qed
  qed (use 2 in auto)
qed simp

theorem redaction_removes_secrets_witness:
  "\<not> contains (redact_secrets ''fatal: hunter2@host hunter2'' [''user'', ''hunter2'']) ''hunter2''"
proof -
  have "redactable ''hunter2''" by code_simp
  moreover have "''hunter2'' \<in> set [''user'', ''hunter2'']" by simp
  ultimately show ?thesis by (intro redaction_removes_secrets)
qed

text \<open>
  The limits of the replacement: secrets are replaced one after the other, so the rest of a secret that
  extends another one stays readable, and a fragment of the placeholder occurs in it again.
\<close>

lemma redaction_limits:
  "redact_secrets ''token hunter2-long'' [''hunter2'', ''hunter2-long''] = ''token [redacted]-long''"
  "redact_secrets ''act'' [''act''] = ''[redacted]''"
  by code_simp+

end
