(* ===== verification/Blob_Store.thy ===== *)
theory Blob_Store
  imports Snapshot_Manifest
begin

text \<open>
  Content-addressed artifact storage (\<open>crates/blobstore/src/lib.rs\<close>) and its off-host replica
  (\<open>replica.rs\<close>). The local store is a map from absolute paths to nodes; a file is read in chunks,
  as the buffered reader delivers them, and what is read may differ from what the metadata said.
  SHA-256 is a parameter. Replica requests are answered by a parameter, one answer per request; the
  request timeout around them and operating-system failures other than absence are not modelled.
\<close>

subsection \<open>References\<close>

definition OWNER :: string where
  "OWNER = ''ratatoskr-vault''"

datatype BlobStoreError = InvalidInput | Io | DigestMismatch | SizeLimitExceeded | ExistingContentMismatch

record LocalBlobStore =
  store_root :: string
  max_bytes :: u64

definition LocalBlobStore_new :: "string \<Rightarrow> u64 \<Rightarrow> (BlobStoreError, LocalBlobStore) result" where
  "LocalBlobStore_new root limit =
     (if \<not> starts_with root ''/'' \<or> limit = 0 then Inl InvalidInput
      else Inr \<lparr> store_root = root, max_bytes = limit \<rparr>)"

definition valid_digest :: "string \<Rightarrow> bool" where
  "valid_digest s = (length s = 64 \<and> list_all is_lowercase_hex s)"

definition validate_reference :: "BlobRef \<Rightarrow> (BlobStoreError, unit) result" where
  "validate_reference r =
     (if owner r \<noteq> OWNER \<or> \<not> valid_digest (sha256 r) \<or> media_type r = '''' then Inl InvalidInput else Inr ())"

text \<open>\<open>Path::join\<close> replaces the base when the joined part is absolute.\<close>

definition path_for :: "LocalBlobStore \<Rightarrow> BlobRef \<Rightarrow> (BlobStoreError, string) result" where
  "path_for store r =
     (if starts_with (sha256 r) ''/'' then Inl InvalidInput
      else Inr (store_root store @ ''/'' @ OWNER @ ''/sha256/'' @ sha256 r))"

subsection \<open>Streams\<close>

text \<open>The copy loop: an empty read ends it; the running total is checked and bounded.\<close>

fun stream_total :: "u64 \<Rightarrow> u8 list list \<Rightarrow> u64 \<Rightarrow> u64 option" where
  "stream_total limit [] done_bytes = Some done_bytes"
| "stream_total limit (chunk # chunks) done_bytes =
     (if chunk = [] then Some done_bytes
      else case checked_add done_bytes (word_of_nat (length chunk)) of
             None \<Rightarrow> None
           | Some n \<Rightarrow> if limit < n then None else stream_total limit chunks n)"

definition stream_bytes :: "u8 list list \<Rightarrow> u8 list" where
  "stream_bytes chunks = concat (takeWhile (\<lambda>chunk. chunk \<noteq> []) chunks)"

record source_file =
  src_is_file :: bool
  src_len :: u64
  src_chunks :: "u8 list list"

datatype blob_node = BlobFile "u8 list" | OtherNode

type_synonym blob_fs = "string \<Rightarrow> blob_node option"

definition stream_to_temporary ::
  "(u8 list \<Rightarrow> u8 list) \<Rightarrow> LocalBlobStore \<Rightarrow> BlobRef \<Rightarrow> source_file \<Rightarrow> (BlobStoreError, u8 list) result" where
  "stream_to_temporary hash store expected src =
     (case stream_total (max_bytes store) (src_chunks src) 0 of
        None \<Rightarrow> Inl SizeLimitExceeded
      | Some written \<Rightarrow>
          if written \<noteq> size_bytes expected \<or> encode_hex (hash (stream_bytes (src_chunks src))) \<noteq> sha256 expected
          then Inl DigestMismatch
          else Inr (stream_bytes (src_chunks src)))"

definition verify_existing ::
  "(u8 list \<Rightarrow> u8 list) \<Rightarrow> BlobRef \<Rightarrow> blob_node \<Rightarrow> (BlobStoreError, unit) result" where
  "verify_existing hash expected node =
     (case node of
        OtherNode \<Rightarrow> Inl ExistingContentMismatch
      | BlobFile bytes \<Rightarrow>
          if word_of_nat (length bytes) \<noteq> size_bytes expected then Inl ExistingContentMismatch
          else if encode_hex (hash bytes) = sha256 expected then Inr () else Inl ExistingContentMismatch)"

text \<open>
  Publication: the bytes are streamed to a temporary file beside the destination, which is then linked
  into place; a link never replaces an existing file.
\<close>

definition publish_file ::
  "(u8 list \<Rightarrow> u8 list) \<Rightarrow> LocalBlobStore \<Rightarrow> BlobRef \<Rightarrow> source_file option \<Rightarrow> blob_fs
     \<Rightarrow> blob_fs \<times> (BlobStoreError, BlobRef) result" where
  "publish_file hash store expected source fs =
     (case validate_reference expected of
        Inl e \<Rightarrow> (fs, Inl e)
      | Inr _ \<Rightarrow>
          (case source of
             None \<Rightarrow> (fs, Inl Io)
           | Some src \<Rightarrow>
               if \<not> src_is_file src \<or> max_bytes store < src_len src then (fs, Inl InvalidInput)
               else if src_len src \<noteq> size_bytes expected then (fs, Inl DigestMismatch)
               else
                 (case path_for store expected of
                    Inl e \<Rightarrow> (fs, Inl e)
                  | Inr destination \<Rightarrow>
                      (case stream_to_temporary hash store expected src of
                         Inl e \<Rightarrow> (fs, Inl e)
                       | Inr bytes \<Rightarrow>
                           (case fs destination of
                              None \<Rightarrow> (fs(destination \<mapsto> BlobFile bytes), Inr expected)
                            | Some node \<Rightarrow>
                                (case verify_existing hash expected node of
                                   Inl e \<Rightarrow> (fs, Inl e)
                                 | Inr _ \<Rightarrow> (fs, Inr expected)))))))"

definition reference_for_file ::
  "(u8 list \<Rightarrow> u8 list) \<Rightarrow> LocalBlobStore \<Rightarrow> source_file option \<Rightarrow> string \<Rightarrow> (BlobStoreError, BlobRef) result" where
  "reference_for_file hash store source media =
     (case source of
        None \<Rightarrow> Inl Io
      | Some src \<Rightarrow>
          if \<not> src_is_file src \<or> max_bytes store < src_len src \<or> media = '''' then Inl InvalidInput
          else Inr \<lparr> owner = OWNER, sha256 = encode_hex (hash (stream_bytes (src_chunks src))),
                     media_type = media, size_bytes = src_len src \<rparr>)"

definition resolve :: "LocalBlobStore \<Rightarrow> BlobRef \<Rightarrow> blob_fs \<Rightarrow> (BlobStoreError, string) result" where
  "resolve store r fs =
     result_bind (validate_reference r) (\<lambda>_.
     result_bind (path_for store r) (\<lambda>path.
       case fs path of
         None \<Rightarrow> Inl Io
       | Some OtherNode \<Rightarrow> Inl InvalidInput
       | Some (BlobFile _) \<Rightarrow> Inr path))"

text \<open>Verification reads the stored file again, in whatever chunks \<open>chunks_of\<close> delivers.\<close>

definition verify ::
  "(u8 list \<Rightarrow> u8 list) \<Rightarrow> (u8 list \<Rightarrow> u8 list list) \<Rightarrow> LocalBlobStore \<Rightarrow> BlobRef \<Rightarrow> blob_fs
     \<Rightarrow> (BlobStoreError, unit) result" where
  "verify hash chunks_of store r fs =
     result_bind (resolve store r fs) (\<lambda>path.
       case fs path of
         Some (BlobFile bytes) \<Rightarrow>
           let len = word_of_nat (length bytes)
           in if len \<noteq> size_bytes r \<or> max_bytes store < len then Inl DigestMismatch
              else (case stream_total (max_bytes store) (chunks_of bytes) 0 of
                      None \<Rightarrow> Inl SizeLimitExceeded
                    | Some n \<Rightarrow>
                        if n = size_bytes r \<and> encode_hex (hash (stream_bytes (chunks_of bytes))) = sha256 r
                        then Inr () else Inl DigestMismatch)
       | _ \<Rightarrow> Inl Io)"

datatype LocalDeleteOutcome = Deleted | AlreadyAbsent

definition delete_verified_blob ::
  "(u8 list \<Rightarrow> u8 list) \<Rightarrow> (u8 list \<Rightarrow> u8 list list) \<Rightarrow> bool \<Rightarrow> LocalBlobStore \<Rightarrow> BlobRef \<Rightarrow> blob_fs
     \<Rightarrow> blob_fs \<times> (BlobStoreError, LocalDeleteOutcome) result" where
  "delete_verified_blob hash chunks_of parent_inside_root store r fs =
     (case validate_reference r of
        Inl e \<Rightarrow> (fs, Inl e)
      | Inr _ \<Rightarrow>
          (case path_for store r of
             Inl e \<Rightarrow> (fs, Inl e)
           | Inr path \<Rightarrow>
               (case fs path of
                  None \<Rightarrow> (fs, Inr AlreadyAbsent)
                | Some OtherNode \<Rightarrow> (fs, Inl InvalidInput)
                | Some (BlobFile _) \<Rightarrow>
                    if \<not> parent_inside_root then (fs, Inl InvalidInput)
                    else (case verify hash chunks_of store r fs of
                            Inl e \<Rightarrow> (fs, Inl e)
                          | Inr _ \<Rightarrow> (fs(path := None), Inr Deleted)))))"

subsection \<open>The replica\<close>

datatype ReplicaError =
    ReplicaInvalidInput | SourceIo | Remote | ObjectNotFound | ReplicaTimeout | ReplicaDigestMismatch
  | RemoteChecksumMismatch | RemoteTruncated | RemoteOversized | RemoteStillPresent
  | ReplicaSizeLimitExceeded | Cancelled

record ReplicaStore =
  target_name :: string
  key_prefix :: string
  max_object_bytes :: u64

record ReplicaPlacement =
  pl_target :: string
  pl_object_key :: string
  pl_size_bytes :: u64
  pl_sha256 :: string

text \<open>What the object store answers to a read: absence, a failure, or a stream of chunks that may break.\<close>

datatype remote_get = RemoteAbsent | RemoteRefused | RemoteBody "u8 list option list"

definition validate_replica_reference :: "BlobRef \<Rightarrow> u64 \<Rightarrow> (ReplicaError, unit) result" where
  "validate_replica_reference r limit =
     (if owner r \<noteq> OWNER \<or> \<not> valid_digest (sha256 r) \<or> media_type r = '''' \<or> limit < size_bytes r
      then Inl ReplicaInvalidInput else Inr ())"

fun split_slash :: "string \<Rightarrow> string list" where
  "split_slash [] = [[]]"
| "split_slash (c # s) =
     (if c = CHR ''/'' then [] # split_slash s
      else case split_slash s of [] \<Rightarrow> [[c]] | part # parts \<Rightarrow> (c # part) # parts)"

definition object_key :: "string \<Rightarrow> BlobRef \<Rightarrow> (ReplicaError, string) result" where
  "object_key prefix_text r =
     (if prefix_text \<noteq> '''' \<and> list_ex (\<lambda>part. part = '''' \<or> part = ''.'' \<or> part = ''..'') (split_slash prefix_text)
      then Inl ReplicaInvalidInput
      else let key = ''sha256/'' @ take 2 (sha256 r) @ ''/'' @ sha256 r
           in Inr (if prefix_text = '''' then key else prefix_text @ ''/'' @ key))"

definition placement :: "ReplicaStore \<Rightarrow> BlobRef \<Rightarrow> string \<Rightarrow> ReplicaPlacement" where
  "placement store r key =
     \<lparr> pl_target = target_name store, pl_object_key = key, pl_size_bytes = size_bytes r, pl_sha256 = sha256 r \<rparr>"

fun remote_stream :: "u64 \<Rightarrow> u64 \<Rightarrow> u8 list option list \<Rightarrow> u64 \<Rightarrow> u8 list \<Rightarrow> (ReplicaError, u64 \<times> u8 list) result" where
  "remote_stream limit expected [] read acc = Inr (read, acc)"
| "remote_stream limit expected (None # chunks) read acc = Inl Remote"
| "remote_stream limit expected (Some chunk # chunks) read acc =
     (case checked_add read (word_of_nat (length chunk)) of
        None \<Rightarrow> Inl ReplicaSizeLimitExceeded
      | Some n \<Rightarrow>
          if limit < n \<or> expected < n then Inl RemoteOversized
          else remote_stream limit expected chunks n (acc @ chunk))"

definition verify_remote ::
  "(u8 list \<Rightarrow> u8 list) \<Rightarrow> ReplicaStore \<Rightarrow> BlobRef \<Rightarrow> remote_get \<Rightarrow> (ReplicaError, unit) result" where
  "verify_remote hash store r answer =
     (case answer of
        RemoteAbsent \<Rightarrow> Inl ObjectNotFound
      | RemoteRefused \<Rightarrow> Inl Remote
      | RemoteBody chunks \<Rightarrow>
          result_bind (remote_stream (max_object_bytes store) (size_bytes r) chunks 0 []) (\<lambda>(read, bytes).
            if read < size_bytes r then Inl RemoteTruncated
            else if encode_hex (hash bytes) \<noteq> sha256 r then Inl RemoteChecksumMismatch
            else Inr ()))"

text \<open>
  A multipart upload: what the object store answers when the upload is opened, to each part and when
  the upload is completed, and whether each read of the source succeeds, the first one with its opening.
  The model returns how the upload ended besides the result.
\<close>

record multipart =
  mp_opened :: bool
  mp_read_ok :: "nat \<Rightarrow> bool"
  mp_part_accepted :: "nat \<Rightarrow> bool"
  mp_completed :: bool

datatype upload_end = NotOpened | Completed | Aborted

fun stream_parts_loop ::
  "u64 \<Rightarrow> (nat \<Rightarrow> bool) \<Rightarrow> (nat \<Rightarrow> bool) \<Rightarrow> nat \<Rightarrow> u8 list list \<Rightarrow> u64 \<Rightarrow> u8 list
     \<Rightarrow> (ReplicaError, u64 \<times> u8 list) result" where
  "stream_parts_loop limit read_ok accepted part [] read acc =
     (if \<not> read_ok part then Inl SourceIo else Inr (read, acc))"
| "stream_parts_loop limit read_ok accepted part (bytes # chunks) read acc =
     (if \<not> read_ok part then Inl SourceIo
      else if bytes = [] then Inr (read, acc)
      else case checked_add read (word_of_nat (length bytes)) of
             None \<Rightarrow> Inl ReplicaSizeLimitExceeded
           | Some n \<Rightarrow>
               if limit < n then Inl ReplicaSizeLimitExceeded
               else if \<not> accepted part then Inl Remote
               else stream_parts_loop limit read_ok accepted (Suc part) chunks n (acc @ bytes))"

definition stream_parts ::
  "(u8 list \<Rightarrow> u8 list) \<Rightarrow> ReplicaStore \<Rightarrow> BlobRef \<Rightarrow> source_file \<Rightarrow> multipart \<Rightarrow> (ReplicaError, unit) result" where
  "stream_parts hash store r src upload =
     result_bind (stream_parts_loop (max_object_bytes store) (mp_read_ok upload) (mp_part_accepted upload) 0 (src_chunks src) 0 [])
       (\<lambda>(read, bytes).
          if read = size_bytes r \<and> encode_hex (hash bytes) = sha256 r then Inr () else Inl ReplicaDigestMismatch)"

definition upload_source ::
  "(u8 list \<Rightarrow> u8 list) \<Rightarrow> ReplicaStore \<Rightarrow> BlobRef \<Rightarrow> source_file option \<Rightarrow> multipart
     \<Rightarrow> upload_end \<times> (ReplicaError, unit) result" where
  "upload_source hash store r source upload =
     (case source of
        None \<Rightarrow> (NotOpened, Inl SourceIo)
      | Some src \<Rightarrow>
          if \<not> src_is_file src \<or> max_object_bytes store < src_len src then (NotOpened, Inl ReplicaInvalidInput)
          else if src_len src \<noteq> size_bytes r then (NotOpened, Inl ReplicaDigestMismatch)
          else if \<not> mp_opened upload then (NotOpened, Inl Remote)
          else (case stream_parts hash store r src upload of
                  Inl e \<Rightarrow> (Aborted, Inl e)
                | Inr _ \<Rightarrow> if \<not> mp_completed upload then (Aborted, Inl Remote) else (Completed, Inr ())))"

text \<open>The answers are consumed in order: the first read, the upload, the read back.\<close>

definition upload_and_verify_inner ::
  "(u8 list \<Rightarrow> u8 list) \<Rightarrow> (string \<Rightarrow> bool) \<Rightarrow> ReplicaStore \<Rightarrow> BlobRef \<Rightarrow> source_file option \<Rightarrow> remote_get
     \<Rightarrow> multipart \<Rightarrow> remote_get \<Rightarrow> upload_end \<times> (ReplicaError, ReplicaPlacement) result" where
  "upload_and_verify_inner hash parse_ok store r source before upload after =
     (case validate_replica_reference r (max_object_bytes store) of
        Inl e \<Rightarrow> (NotOpened, Inl e)
      | Inr _ \<Rightarrow>
     (case object_key (key_prefix store) r of
        Inl e \<Rightarrow> (NotOpened, Inl e)
      | Inr key \<Rightarrow>
          if \<not> parse_ok key then (NotOpened, Inl ReplicaInvalidInput)
          else case verify_remote hash store r before of
                 Inr _ \<Rightarrow> (NotOpened, Inr (placement store r key))
               | Inl e \<Rightarrow>
                   if e \<noteq> ObjectNotFound then (NotOpened, Inl e)
                   else case upload_source hash store r source upload of
                          (ended, Inl e') \<Rightarrow> (ended, Inl e')
                        | (ended, Inr _) \<Rightarrow>
                            (ended, result_bind (verify_remote hash store r after) (\<lambda>_. Inr (placement store r key)))))"

text \<open>
  The download into a scratch file the call creates itself: the destination must be absent, and the call
  tries to remove it again whenever the transfer, its verification or the final synchronisation fails.
  The whole call runs under the request deadline: when it passes, the call is dropped where it stands,
  before the file exists or with whatever has reached it. What the object store and the disk do is
  given by \<open>download_io\<close>: the answer of the store, whether the write that brings the file to a length
  succeeds, the final synchronisation, what stays when the removal fails, and the deadline.
\<close>

datatype deadline_passed = InTime | BeforeCreation | AfterCreation "u8 list"

record download_io =
  dl_answer :: remote_get
  dl_write_ok :: "u64 \<Rightarrow> bool"
  dl_synced :: bool
  dl_not_removed :: "u8 list option"
  dl_deadline :: deadline_passed

fun download_stream ::
  "(u64 \<Rightarrow> bool) \<Rightarrow> u64 \<Rightarrow> u64 \<Rightarrow> u8 list option list \<Rightarrow> u64 \<Rightarrow> u8 list \<Rightarrow> (ReplicaError, u64 \<times> u8 list) result" where
  "download_stream write_ok limit expected [] read acc = Inr (read, acc)"
| "download_stream write_ok limit expected (None # chunks) read acc = Inl Remote"
| "download_stream write_ok limit expected (Some chunk # chunks) read acc =
     (case checked_add read (word_of_nat (length chunk)) of
        None \<Rightarrow> Inl RemoteOversized
      | Some n \<Rightarrow>
          if limit < n \<or> expected < n then Inl RemoteOversized
          else if \<not> write_ok n then Inl SourceIo
          else download_stream write_ok limit expected chunks n (acc @ chunk))"

definition download_remote_to ::
  "(u8 list \<Rightarrow> u8 list) \<Rightarrow> ReplicaStore \<Rightarrow> BlobRef \<Rightarrow> download_io \<Rightarrow> (ReplicaError, u8 list) result" where
  "download_remote_to hash store r io =
     (case dl_answer io of
        RemoteAbsent \<Rightarrow> Inl ObjectNotFound
      | RemoteRefused \<Rightarrow> Inl Remote
      | RemoteBody chunks \<Rightarrow>
          result_bind (download_stream (dl_write_ok io) (max_object_bytes store) (size_bytes r) chunks 0 []) (\<lambda>(read, bytes).
            if read < size_bytes r then Inl RemoteTruncated
            else if encode_hex (hash bytes) \<noteq> sha256 r then Inl RemoteChecksumMismatch
            else Inr bytes))"

definition after_removal :: "download_io \<Rightarrow> string \<Rightarrow> blob_fs \<Rightarrow> blob_fs" where
  "after_removal io destination fs = fs(destination := map_option BlobFile (dl_not_removed io))"

text \<open>What is checked before the destination is created: the reference, the key and its parse.\<close>

definition download_key :: "(string \<Rightarrow> bool) \<Rightarrow> ReplicaStore \<Rightarrow> BlobRef \<Rightarrow> (ReplicaError, string) result" where
  "download_key parse_ok store r =
     result_bind (validate_replica_reference r (max_object_bytes store)) (\<lambda>_.
     result_bind (object_key (key_prefix store) r) (\<lambda>key.
       if parse_ok key then Inr key else Inl ReplicaInvalidInput))"

definition download_verified_inner ::
  "(u8 list \<Rightarrow> u8 list) \<Rightarrow> (string \<Rightarrow> bool) \<Rightarrow> ReplicaStore \<Rightarrow> BlobRef \<Rightarrow> string \<Rightarrow> download_io
     \<Rightarrow> blob_fs \<Rightarrow> blob_fs \<times> (ReplicaError, ReplicaPlacement) result" where
  "download_verified_inner hash parse_ok store r destination io fs =
     (case download_key parse_ok store r of
        Inl e \<Rightarrow> (fs, Inl e)
      | Inr key \<Rightarrow>
          if fs destination \<noteq> None then (fs, Inl SourceIo)
          else case download_remote_to hash store r io of
                 Inl e \<Rightarrow> (after_removal io destination fs, Inl e)
               | Inr bytes \<Rightarrow>
                   if \<not> dl_synced io then (after_removal io destination fs, Inl SourceIo)
                   else (fs(destination \<mapsto> BlobFile bytes), Inr (placement store r key)))"

definition download_verified ::
  "(u8 list \<Rightarrow> u8 list) \<Rightarrow> (string \<Rightarrow> bool) \<Rightarrow> ReplicaStore \<Rightarrow> BlobRef \<Rightarrow> string \<Rightarrow> download_io
     \<Rightarrow> blob_fs \<Rightarrow> blob_fs \<times> (ReplicaError, ReplicaPlacement) result" where
  "download_verified hash parse_ok store r destination io fs =
     (case (dl_deadline io, download_key parse_ok store r) of
        (BeforeCreation, Inr _) \<Rightarrow> (fs, Inl ReplicaTimeout)
      | (AfterCreation written, Inr _) \<Rightarrow>
          if fs destination \<noteq> None then (fs, Inl SourceIo)
          else (fs(destination \<mapsto> BlobFile written), Inl ReplicaTimeout)
      | _ \<Rightarrow> download_verified_inner hash parse_ok store r destination io fs)"

definition ABSENCE_CHECK_ATTEMPTS :: nat where
  "ABSENCE_CHECK_ATTEMPTS = 3"

datatype ReplicaDeleteOutcome = ReplicaDeleted | ReplicaAlreadyAbsent

fun absence_checks ::
  "(u8 list \<Rightarrow> u8 list) \<Rightarrow> ReplicaStore \<Rightarrow> BlobRef \<Rightarrow> remote_get list \<Rightarrow> (ReplicaError, ReplicaDeleteOutcome) result" where
  "absence_checks hash store r [] = Inl RemoteStillPresent"
| "absence_checks hash store r (answer # answers) =
     (case verify_remote hash store r answer of
        Inl ObjectNotFound \<Rightarrow> Inr ReplicaDeleted
      | Inr _ \<Rightarrow> absence_checks hash store r answers
      | Inl e \<Rightarrow>
          if e \<in> {RemoteChecksumMismatch, RemoteTruncated, RemoteOversized}
          then absence_checks hash store r answers else Inl e)"

text \<open>
  The removal of a remote object: the object is read back and must be the referenced one before its
  removal is requested, and must be absent afterwards. The first component of the result says whether
  the removal was requested. \<open>cut_off\<close> is the request deadline: \<open>Some reached\<close> when it passed, with
  \<open>reached\<close> when the request was on its way by then.
\<close>

definition delete_verified_inner ::
  "(u8 list \<Rightarrow> u8 list) \<Rightarrow> ReplicaStore \<Rightarrow> BlobRef \<Rightarrow> remote_get \<Rightarrow> bool \<Rightarrow> remote_get list
     \<Rightarrow> bool \<times> (ReplicaError, ReplicaDeleteOutcome) result" where
  "delete_verified_inner hash store r before delete_ok after =
     (case verify_remote hash store r before of
        Inl ObjectNotFound \<Rightarrow> (False, Inr ReplicaAlreadyAbsent)
      | Inl e \<Rightarrow> (False, Inl e)
      | Inr _ \<Rightarrow>
          (True, if \<not> delete_ok then Inl Remote
                 else absence_checks hash store r (take ABSENCE_CHECK_ATTEMPTS after)))"

definition delete_verified ::
  "(u8 list \<Rightarrow> u8 list) \<Rightarrow> (string \<Rightarrow> bool) \<Rightarrow> ReplicaStore \<Rightarrow> BlobRef \<Rightarrow> ReplicaPlacement \<Rightarrow> bool option \<Rightarrow> remote_get
     \<Rightarrow> bool \<Rightarrow> remote_get list \<Rightarrow> bool \<times> (ReplicaError, ReplicaDeleteOutcome) result" where
  "delete_verified hash parse_ok store r pl cut_off before delete_ok after =
     (case result_bind (validate_replica_reference r (max_object_bytes store)) (\<lambda>_. object_key (key_prefix store) r) of
        Inl e \<Rightarrow> (False, Inl e)
      | Inr key \<Rightarrow>
          if pl_target pl \<noteq> target_name store \<or> pl_object_key pl \<noteq> key \<or> pl_sha256 pl \<noteq> sha256 r
             \<or> pl_size_bytes pl \<noteq> size_bytes r \<or> \<not> parse_ok (pl_object_key pl)
          then (False, Inl ReplicaInvalidInput)
          else (case delete_verified_inner hash store r before delete_ok after of
                  (requested, outcome) \<Rightarrow>
                    (case cut_off of
                       None \<Rightarrow> (requested, outcome)
                     | Some reached \<Rightarrow> (requested \<and> reached, Inl ReplicaTimeout))))"

subsection \<open>Streaming is exact\<close>

definition COPY_BUFFER_BYTES :: nat where
  "COPY_BUFFER_BYTES = 16 * 1024"

definition readable :: "u8 list list \<Rightarrow> bool" where
  "readable chunks \<longleftrightarrow> list_all (\<lambda>chunk. length chunk < 2 ^ 64) chunks"

lemma checked_add_chunk:
  fixes read :: u64
  assumes "m < 2 ^ 64"
  shows "checked_add read (word_of_nat m) =
    (if unat read + m < 2 ^ 64 then Some (word_of_nat (unat read + m)) else None)"
proof -
  have m: "unat (word_of_nat m :: u64) = m"
    using assms by (simp add: unat_of_nat take_bit_nat_eq_self)
  have "read + word_of_nat m = word_of_nat (unat read + m)" by simp
  moreover have "\<not> read + word_of_nat m < read \<longleftrightarrow> unat read + m < 2 ^ 64"
    using unat_add_fits [of read "word_of_nat m"] m by simp
  ultimately show ?thesis by (auto simp: checked_add_def)
qed

lemma unat_fits: "n < 2 ^ 64 \<Longrightarrow> unat (word_of_nat n :: u64) = n"
  by (simp add: unat_of_nat take_bit_nat_eq_self)

lemma stream_total_exact:
  assumes "readable chunks" and "n \<le> limit"
  shows "stream_total limit chunks n =
    (if unat n + length (stream_bytes chunks) \<le> unat limit
     then Some (word_of_nat (unat n + length (stream_bytes chunks))) else None)"
  using assms
proof (induction limit chunks n rule: stream_total.induct)
  case (1 limit n)
  then show ?case by (simp add: stream_bytes_def word_le_nat_alt)
next
  case (2 limit chunk chunks n)
  have lim: "unat limit < 2 ^ 64" using unsigned_less [of limit] by simp
  show ?case
  proof (cases "chunk = []")
    case True
    with 2 show ?thesis by (simp add: stream_bytes_def word_le_nat_alt)
  next
    case False
    have len: "length chunk < 2 ^ 64" using 2(2) by (simp add: readable_def)
    have bytes: "length (stream_bytes (chunk # chunks)) = length chunk + length (stream_bytes chunks)"
      using False by (simp add: stream_bytes_def)
    show ?thesis
    proof (cases "unat n + length chunk \<le> unat limit")
      case True
      then have fits: "unat n + length chunk < 2 ^ 64" using lim by linarith
      let ?n = "word_of_nat (unat n + length chunk) :: u64"
      have u: "unat ?n = unat n + length chunk" by (rule unat_fits [OF fits])
      then have le: "?n \<le> limit" using True by (simp only: word_le_nat_alt)
      have step: "checked_add n (word_of_nat (length chunk)) = Some ?n"
        using checked_add_chunk [OF len, of n] fits by simp
      have "stream_total limit (chunk # chunks) n = stream_total limit chunks ?n"
        using False step leD [OF le] by simp
      moreover have "readable chunks" using 2(2) by (simp add: readable_def)
      ultimately show ?thesis
        using 2(1) [OF False step _ _ le] leD [OF le] by (simp add: u bytes add.assoc del: of_nat_add)
    next
      case False
      then show ?thesis
        using len bytes \<open>chunk \<noteq> []\<close>
        by (auto simp: checked_add_chunk word_less_nat_alt unat_fits simp del: of_nat_add)
    qed
  qed
qed

subsection \<open>Immutability\<close>

text \<open>
  The contract of an immutable store: publication keeps the invariant, what it reports as published is
  held, and nothing held is ever lost by a later publication.
\<close>

locale immutable_store =
  fixes put :: "'k \<Rightarrow> 'v \<Rightarrow> 's \<Rightarrow> 's \<times> ('e, 'r) result"
    and admissible :: "'v \<Rightarrow> bool"
    and inv :: "'s \<Rightarrow> bool"
    and holds :: "'s \<Rightarrow> 'k \<Rightarrow> bool"
  assumes put_inv: "inv s \<Longrightarrow> admissible v \<Longrightarrow> inv (fst (put k v s))"
    and put_holds: "inv s \<Longrightarrow> admissible v \<Longrightarrow> put k v s = (s', Inr r) \<Longrightarrow> holds s' k"
    and put_keeps: "inv s \<Longrightarrow> admissible v \<Longrightarrow> holds s j \<Longrightarrow> holds (fst (put k v s)) j"
begin

lemma puts_keep:
  "inv s \<Longrightarrow> holds s j \<Longrightarrow> \<forall>(k, v) \<in> set later. admissible v \<Longrightarrow>
     holds (fold (\<lambda>(k, v) s. fst (put k v s)) later s) j"
proof (induction later arbitrary: s)
  case (Cons entry later)
  then show ?case using put_inv put_keeps by (cases entry) auto
qed simp

lemma published_forever:
  assumes "inv s" "admissible v" "put k v s = (s', Inr r)" "\<forall>(k, v) \<in> set later. admissible v"
  shows "holds (fold (\<lambda>(k, v) s. fst (put k v s)) later s') k"
  using assms put_holds puts_keep put_inv [OF assms(1,2), of k] by simp

end

definition blobs_sized :: "blob_fs \<Rightarrow> bool" where
  "blobs_sized fs \<longleftrightarrow> (\<forall>path bytes. fs path = Some (BlobFile bytes) \<longrightarrow> length bytes < 2 ^ 64)"

definition readable_source :: "source_file \<Rightarrow> bool" where
  "readable_source src \<longleftrightarrow> readable (src_chunks src)"

text \<open>How a stored file is read back: all of it, in chunks that fit the buffer.\<close>

definition chunking :: "(u8 list \<Rightarrow> u8 list list) \<Rightarrow> bool" where
  "chunking chunks_of \<longleftrightarrow> (\<forall>bytes. stream_bytes (chunks_of bytes) = bytes \<and> readable (chunks_of bytes))"

lemma chunking_singletons: "chunking (map (\<lambda>byte. [byte]))"
proof -
  have "concat (takeWhile (\<lambda>chunk. chunk \<noteq> []) (map (\<lambda>byte. [byte]) bytes)) = bytes"
    for bytes :: "u8 list" by (induction bytes) simp_all
  then show ?thesis by (auto simp: chunking_def stream_bytes_def readable_def list_all_iff)
qed

definition blob_holds ::
  "(u8 list \<Rightarrow> u8 list) \<Rightarrow> LocalBlobStore \<Rightarrow> blob_fs \<Rightarrow> BlobRef \<Rightarrow> bool" where
  "blob_holds hash store fs r \<longleftrightarrow>
     validate_reference r = Inr () \<and> size_bytes r \<le> max_bytes store
     \<and> (\<exists>path bytes. path_for store r = Inr path \<and> fs path = Some (BlobFile bytes)
          \<and> word_of_nat (length bytes) = size_bytes r \<and> encode_hex (hash bytes) = sha256 r)"

lemma blob_holds_verifies:
  assumes "blob_holds hash store fs r" and "blobs_sized fs" and "chunking chunks_of"
  shows "verify hash chunks_of store r fs = Inr ()"
proof -
  from assms(1) obtain path bytes where b: "validate_reference r = Inr ()" "size_bytes r \<le> max_bytes store"
    "path_for store r = Inr path" "fs path = Some (BlobFile bytes)"
    "word_of_nat (length bytes) = size_bytes r" "encode_hex (hash bytes) = sha256 r"
    by (auto simp: blob_holds_def)
  have "length bytes < 2 ^ 64" using assms(2) b(4) by (simp add: blobs_sized_def)
  then have u: "unat (size_bytes r) = length bytes"
    using unat_fits [of "length bytes"] b(5) by simp
  have "stream_total (max_bytes store) (chunks_of bytes) 0 = Some (size_bytes r)"
    using stream_total_exact [of "chunks_of bytes" 0 "max_bytes store"] assms(3) b(2,5) u
    by (simp add: chunking_def word_le_nat_alt)
  then show ?thesis
    using b assms(3) leD [OF b(2)] by (simp add: verify_def resolve_def chunking_def)
qed

lemma publish_holds:
  assumes "readable_source src" and "publish_file hash store r (Some src) fs = (fs', Inr r')"
  shows "blob_holds hash store fs' r"
proof -
  from assms(2) obtain path where p: "validate_reference r = Inr ()" "path_for store r = Inr path"
    "src_len src = size_bytes r" "src_len src \<le> max_bytes store"
    by (auto simp: publish_file_def split: sum.splits if_splits)
  from assms(2) p obtain bytes where stream: "stream_to_temporary hash store r src = Inr bytes"
    by (auto simp: publish_file_def split: sum.splits if_splits)
  have "\<exists>bytes. fs' path = Some (BlobFile bytes) \<and> word_of_nat (length bytes) = size_bytes r
      \<and> encode_hex (hash bytes) = sha256 r"
  proof (cases "fs path")
    case None
    then have "fs' path = Some (BlobFile bytes)"
      using assms(2) p stream leD [OF p(4)] by (auto simp: publish_file_def split: if_splits)
    moreover have "word_of_nat (length bytes) = size_bytes r" "encode_hex (hash bytes) = sha256 r"
      using stream assms(1) stream_total_exact [of "src_chunks src" 0 "max_bytes store"]
      by (auto simp: stream_to_temporary_def readable_source_def split: option.splits if_splits)
    ultimately show ?thesis by blast
  next
    case (Some node)
    then have "fs' = fs" "verify_existing hash r node = Inr ()"
      using assms(2) p stream leD [OF p(4)] by (auto simp: publish_file_def split: sum.splits if_splits)
    with Some show ?thesis by (auto simp: verify_existing_def split: blob_node.splits if_splits)
  qed
  with p show ?thesis by (auto simp: blob_holds_def)
qed

lemma publish_never_overwrites: "fs path = Some node \<Longrightarrow> fst (publish_file hash store r src fs) path = Some node"
  by (auto simp: publish_file_def split: sum.splits if_splits option.splits)

lemma publish_sized:
  assumes "blobs_sized fs" and "readable_source src"
  shows "blobs_sized (fst (publish_file hash store r (Some src) fs))"
proof -
  have lim: "unat (max_bytes store) < 2 ^ 64" using unsigned_less [of "max_bytes store"] by simp
  have "length bytes < 2 ^ 64" if "stream_to_temporary hash store r src = Inr bytes" for bytes
    using that assms(2) stream_total_exact [of "src_chunks src" 0 "max_bytes store"] lim
    by (auto simp: stream_to_temporary_def readable_source_def split: option.splits if_splits)
  with assms(1) show ?thesis
    by (auto simp: publish_file_def blobs_sized_def split: sum.splits if_splits option.splits)
qed

interpretation local_store: immutable_store
  "\<lambda>r src. publish_file hash store r (Some src)" readable_source blobs_sized "blob_holds hash store" for hash store
proof unfold_locales
  show "blobs_sized (fst (publish_file hash store k (Some v) s))" if "blobs_sized s" "readable_source v" for s k v
    using that by (rule publish_sized)
  show "blob_holds hash store s' k"
    if "blobs_sized s" "readable_source v" "publish_file hash store k (Some v) s = (s', Inr r)" for s v k s' r
    using that(2,3) by (rule publish_holds)
  show "blob_holds hash store (fst (publish_file hash store k (Some v) s)) j"
    if "blobs_sized s" "readable_source v" "blob_holds hash store s j" for s v j k
    using that(3) publish_never_overwrites unfolding blob_holds_def by metis
qed

text \<open>
  C35. What was published once verifies forever: after a publication of a reference succeeds, and
  whatever is published afterwards, successfully or not, re-reading the stored file in any chunks
  verifies its length and digest against the reference.
\<close>

theorem published_blob_verifies_forever:
  assumes "blobs_sized fs" and "readable_source src"
    and "publish_file hash store r (Some src) fs = (fs1, Inr r')"
    and "\<forall>(k, v) \<in> set later. readable_source v" and "chunking chunks_of"
  shows "verify hash chunks_of store r
           (fold (\<lambda>(k, v) fs. fst (publish_file hash store k (Some v) fs)) later fs1) = Inr ()"
proof -
  have "blobs_sized (fold (\<lambda>(k, v) fs. fst (publish_file hash store k (Some v) fs)) later fs1)"
    if "blobs_sized fs1" using that assms(4)
  proof (induction later arbitrary: fs1)
    case (Cons entry later)
    then show ?case using publish_sized by (cases entry) auto
  qed simp
  moreover have "blobs_sized fs1" using publish_sized [OF assms(1,2), of hash store r] assms(3) by simp
  ultimately show ?thesis
    using blob_holds_verifies [OF local_store.published_forever [OF assms(1-4)] _ assms(5)] by blast
qed

definition example_hash :: "u8 list \<Rightarrow> u8 list" where
  "example_hash bytes = replicate 32 (word_of_nat (length bytes))"

definition example_store :: LocalBlobStore where
  "example_store = \<lparr>store_root = ''/srv'', max_bytes = 100\<rparr>"

definition example_ref :: BlobRef where
  "example_ref = \<lparr>owner = OWNER, sha256 = encode_hex (replicate 32 3), media_type = ''bundle'', size_bytes = 3\<rparr>"

definition example_source :: source_file where
  "example_source = \<lparr>src_is_file = True, src_len = 3, src_chunks = [[7, 8], [9]]\<rparr>"

definition example_blob_fs :: blob_fs where
  "example_blob_fs = fst (publish_file example_hash example_store example_ref (Some example_source) (\<lambda>_. None))"

theorem published_blob_verifies_forever_witness:
  "verify example_hash (map (\<lambda>byte. [byte])) example_store example_ref
     (fold (\<lambda>(k, v) fs. fst (publish_file example_hash example_store k (Some v) fs))
        [(example_ref, example_source)] example_blob_fs) = Inr ()"
proof -
  have "snd (publish_file example_hash example_store example_ref (Some example_source) (\<lambda>_. None)) = Inr example_ref"
    by code_simp
  then have "publish_file example_hash example_store example_ref (Some example_source) (\<lambda>_. None)
      = (example_blob_fs, Inr example_ref)"
    by (simp add: example_blob_fs_def prod_eq_iff)
  moreover have "blobs_sized (\<lambda>_. None)" by (simp add: blobs_sized_def)
  moreover have "readable_source example_source"
    by (simp add: readable_source_def readable_def example_source_def)
  moreover note chunking_singletons
  ultimately show ?thesis
    by (intro published_blob_verifies_forever) auto
qed

subsection \<open>Reading back from the replica\<close>

lemma remote_stream_exact:
  assumes "unat n + length (concat chunks) < 2 ^ 64" and "n \<le> limit" and "n \<le> expected"
  shows "remote_stream limit expected (map Some chunks) n acc =
    (if unat n + length (concat chunks) \<le> min (unat limit) (unat expected)
     then Inr (word_of_nat (unat n + length (concat chunks)), acc @ concat chunks)
     else Inl RemoteOversized)"
  using assms
proof (induction chunks arbitrary: n acc)
  case Nil
  then show ?case by (simp add: word_le_nat_alt)
next
  case (Cons chunk chunks)
  let ?n = "word_of_nat (unat n + length chunk) :: u64"
  have fits: "unat n + length chunk < 2 ^ 64" and len: "length chunk < 2 ^ 64" using Cons.prems(1) by simp_all
  have u: "unat ?n = unat n + length chunk" by (rule unat_fits [OF fits])
  have step: "checked_add n (word_of_nat (length chunk)) = Some ?n"
    using checked_add_chunk [OF len, of n] fits by simp
  show ?case
  proof (cases "?n \<le> limit \<and> ?n \<le> expected")
    case True
    then have "\<not> (limit < ?n \<or> expected < ?n)" by (simp add: not_less)
    then have "remote_stream limit expected (map Some (chunk # chunks)) n acc
        = remote_stream limit expected (map Some chunks) ?n (acc @ chunk)"
      using step by (simp del: of_nat_add)
    then show ?thesis
      using Cons.IH [of ?n "acc @ chunk"] Cons.prems(1) True u by (simp add: add.assoc del: of_nat_add)
  next
    case False
    then have "limit < ?n \<or> expected < ?n" by (simp add: not_le)
    moreover from False have "\<not> unat n + length (concat (chunk # chunks)) \<le> min (unat limit) (unat expected)"
      using u by (simp add: word_le_nat_alt del: of_nat_add) linarith
    ultimately show ?thesis using step by (simp del: of_nat_add)
  qed
qed

text \<open>
  A replica body is judged exactly: however the object arrives in chunks, the read back succeeds
  if and only if the bytes have the reference's length, stay within the configured ceiling and hash to
  its digest, and otherwise the failure says which of these was violated first.
\<close>

theorem verify_remote_exact:
  assumes "length (concat chunks) < 2 ^ 64"
  shows "verify_remote hash store r (RemoteBody (map Some chunks)) =
    (if unat (size_bytes r) < length (concat chunks) \<or> unat (max_object_bytes store) < length (concat chunks)
     then Inl RemoteOversized
     else if length (concat chunks) < unat (size_bytes r) then Inl RemoteTruncated
     else if encode_hex (hash (concat chunks)) \<noteq> sha256 r then Inl RemoteChecksumMismatch
     else Inr ())"
  using remote_stream_exact [of 0 chunks "max_object_bytes store" "size_bytes r" "[]"] assms
  by (auto simp: verify_remote_def word_less_nat_alt unat_fits min_def simp del: length_concat)

theorem verify_remote_exact_witness:
  "verify_remote example_hash \<lparr>target_name = ''t'', key_prefix = '''', max_object_bytes = 50\<rparr> example_ref
     (RemoteBody (map Some [[1], [2]])) = Inl RemoteTruncated"
  using verify_remote_exact [of "[[1], [2]]"] by (simp add: example_ref_def)


subsection \<open>Downloading from the replica\<close>

definition whole_chunks :: "remote_get \<Rightarrow> bool" where
  "whole_chunks answer \<longleftrightarrow>
     (\<forall>chunks chunk. answer = RemoteBody chunks \<longrightarrow> Some chunk \<in> set chunks \<longrightarrow> length chunk < 2 ^ 64)"

lemma download_stream_counts:
  assumes "download_stream write_ok limit expected chunks n acc = Inr (m, bytes)"
    and "\<And>chunk. Some chunk \<in> set chunks \<Longrightarrow> length chunk < 2 ^ 64"
    and "unat n = length acc" and "n \<le> expected"
  shows "unat m = length bytes \<and> m \<le> expected"
  using assms
proof (induction write_ok limit expected chunks n acc rule: download_stream.induct)
  case (3 write_ok limit expected chunk chunks n acc)
  from "3.prems"(1) obtain k where k: "checked_add n (word_of_nat (length chunk)) = Some k" "\<not> limit < k"
    "\<not> expected < k" "write_ok k" "download_stream write_ok limit expected chunks k (acc @ chunk) = Inr (m, bytes)"
    by (auto split: option.splits if_splits)
  have "unat k = length (acc @ chunk)"
    using unat_checked_add [OF k(1)] "3.prems"(2,3) by (simp add: unat_fits)
  then show ?case using "3.IH" [OF k(1) _ _ k(5)] "3.prems"(2) k(2-4) by (simp add: not_less)
qed simp_all

lemma downloaded_is_verified:
  assumes "download_remote_to hash store r io = Inr bytes" and "whole_chunks (dl_answer io)"
  shows "length bytes = unat (size_bytes r) \<and> encode_hex (hash bytes) = sha256 r"
proof -
  from assms(1) obtain chunks n where c: "dl_answer io = RemoteBody chunks" "\<not> n < size_bytes r"
    "download_stream (dl_write_ok io) (max_object_bytes store) (size_bytes r) chunks 0 [] = Inr (n, bytes)"
    "encode_hex (hash bytes) = sha256 r"
    by (auto simp: download_remote_to_def split: remote_get.splits sum.splits if_splits prod.splits)
  then have "unat n = length bytes" "n \<le> size_bytes r"
    using download_stream_counts [OF c(3)] assms(2) by (auto simp: whole_chunks_def)
  with c(2,4) show ?thesis by (simp add: word_less_nat_alt word_le_nat_alt)
qed

text \<open>
  C36. A download never leaves unverified bytes as a success, never touches an existing destination and
  cleans up after itself as far as it is allowed to. On success the destination did not exist and now
  holds bytes of the reference's length and digest, whatever the object store answered. On a failure the
  file system is as before, an existing destination included, with two exceptions, both on a destination
  that did not exist: the request deadline passed while the file was being written, which drops the call
  before it removes the file, or the removal itself failed.
\<close>

theorem download_leaves_verified_or_nothing:
  assumes "download_verified hash parse_ok store r destination io fs = (fs', res)"
    and "whole_chunks (dl_answer io)"
  shows "case res of
           Inl e \<Rightarrow> fs' = fs
             \<or> (\<exists>left. fs destination = None \<and> fs' = fs(destination \<mapsto> BlobFile left)
                  \<and> (e = ReplicaTimeout \<and> dl_deadline io = AfterCreation left \<or> dl_not_removed io = Some left))
         | Inr pl \<Rightarrow> fs destination = None \<and> pl_sha256 pl = sha256 r \<and> pl_size_bytes pl = size_bytes r
             \<and> (\<exists>bytes. fs' = fs(destination \<mapsto> BlobFile bytes) \<and> length bytes = unat (size_bytes r)
                  \<and> encode_hex (hash bytes) = sha256 r)"
proof (cases res)
  case (Inl e)
  have removed: "after_removal io destination fs = fs
      \<or> (\<exists>left. dl_not_removed io = Some left \<and> after_removal io destination fs = fs(destination \<mapsto> BlobFile left))"
    if "fs destination = None"
    using that by (cases "dl_not_removed io") (auto simp: after_removal_def fun_upd_idem)
  from Inl show ?thesis
    using assms(1) removed
    by (auto simp: download_verified_def download_verified_inner_def split: sum.splits if_splits deadline_passed.splits)
next
  case (Inr pl)
  then obtain bytes key where "download_remote_to hash store r io = Inr bytes" "fs destination = None"
    "fs' = fs(destination \<mapsto> BlobFile bytes)" "pl = placement store r key"
    using assms(1)
    by (auto simp: download_verified_def download_verified_inner_def split: sum.splits if_splits deadline_passed.splits)
  then show ?thesis using Inr downloaded_is_verified [OF _ assms(2)] by (auto simp: placement_def)
qed

definition example_download :: "deadline_passed \<Rightarrow> blob_fs \<times> (ReplicaError, ReplicaPlacement) result" where
  "example_download deadline =
     download_verified example_hash (\<lambda>_. True) \<lparr>target_name = ''t'', key_prefix = [], max_object_bytes = 50\<rparr> example_ref
       ''/scratch/o'' \<lparr> dl_answer = RemoteBody [Some [7, 8], Some [9]], dl_write_ok = (\<lambda>_. True), dl_synced = True,
         dl_not_removed = None, dl_deadline = deadline \<rparr> (\<lambda>_. None)"

theorem download_leaves_verified_or_nothing_witness:
  "(\<exists>bytes. fst (example_download InTime) = [''/scratch/o'' \<mapsto> BlobFile bytes]
     \<and> encode_hex (example_hash bytes) = sha256 example_ref)
   \<and> fst (example_download (AfterCreation [7])) = [''/scratch/o'' \<mapsto> BlobFile [7]]"
proof
  obtain fs' res where run: "example_download InTime = (fs', res)" by (cases "example_download InTime") auto
  have "case snd (example_download InTime) of Inl _ \<Rightarrow> False | Inr _ \<Rightarrow> True" by code_simp
  then obtain pl where "res = Inr pl" using run by (cases res) auto
  then show "\<exists>bytes. fst (example_download InTime) = [''/scratch/o'' \<mapsto> BlobFile bytes]
     \<and> encode_hex (example_hash bytes) = sha256 example_ref"
    using download_leaves_verified_or_nothing [OF run [unfolded example_download_def]] run by (auto simp: whole_chunks_def)
  have "snd (example_download (AfterCreation [7])) = Inl ReplicaTimeout \<and> fst (example_download (AfterCreation [7])) ''/scratch/o'' \<noteq> None"
    by code_simp
  then obtain late where late: "example_download (AfterCreation [7]) = (late, Inl ReplicaTimeout)" "late ''/scratch/o'' \<noteq> None"
    by (cases "example_download (AfterCreation [7])") auto
  show "fst (example_download (AfterCreation [7])) = [''/scratch/o'' \<mapsto> BlobFile [7]]"
    using download_leaves_verified_or_nothing [OF late(1) [unfolded example_download_def]] late
    by (auto simp: whole_chunks_def)
qed

end
