(* ===== verification/Deletion_Store.thy ===== *)
theory Deletion_Store
  imports Vault_Store Snapshot_Manifest
begin

text \<open>
  The durable side of retention (\<open>crates/persistence/src/retention.rs\<close>, \<open>retention/evaluation.rs\<close>,
  \<open>retention/stages.rs\<close>, \<open>retention_execution.rs\<close>, with the constraints and triggers of
  \<open>schema.sql\<close> they meet): snapshot pins, immutable evaluations, deletion plans with their deadline,
  the leased claims of single physical effects, and the terminal writes of a plan. \<open>now\<close> is the start
  of a transaction; \<open>clock k\<close> is the \<open>k\<close>-th reading of \<open>clock_timestamp()\<close> within it.
\<close>

subsection \<open>Shared pieces\<close>

text \<open>\<open>to_timestamp\<close> accepts seconds before the end of the \<open>timestamptz\<close> range.\<close>

definition TIMESTAMP_END_SECONDS :: int where
  "TIMESTAMP_END_SECONDS = 9224318016000"

definition to_timestamp :: "int \<Rightarrow> (VaultError, timestamp) result" where
  "to_timestamp seconds = (if seconds < TIMESTAMP_END_SECONDS then Inr (seconds * 1000000) else Inl StorageFailed)"

definition checked_epoch :: "u64 \<Rightarrow> (VaultError, int) result" where
  "checked_epoch v =
     (case i64_try_from v of Some n \<Rightarrow> Inr n | None \<Rightarrow> Inl (InvalidDelivery ''retention_timestamp''))"

definition find_snapshot :: "vault_db \<Rightarrow> uuid \<Rightarrow> SnapshotRow option" where
  "find_snapshot db s = find (\<lambda>row. sn_id row = s) (snapshots db)"

definition find_plan :: "vault_db \<Rightarrow> uuid \<Rightarrow> PlanRow option" where
  "find_plan db p = find (\<lambda>row. dp_id row = p) (plans db)"

definition snapshot_is_pinned :: "vault_db \<Rightarrow> uuid \<Rightarrow> bool" where
  "snapshot_is_pinned db s = list_ex (\<lambda>pin. pin_snapshot pin = s \<and> pin_revoked_at pin = None) (pins db)"

subsection \<open>Pins\<close>

definition active_pin_for :: "uuid \<Rightarrow> string \<Rightarrow> string \<Rightarrow> PinRow \<Rightarrow> bool" where
  "active_pin_for s src reference pin \<longleftrightarrow>
     pin_snapshot pin = s \<and> pin_source pin = src \<and> pin_reference pin = reference \<and> pin_revoked_at pin = None"

definition pin_snapshot_tx ::
  "store_env \<Rightarrow> timestamp \<Rightarrow> vault_db \<Rightarrow> uuid \<Rightarrow> PinSource \<Rightarrow> string \<Rightarrow> uuid \<Rightarrow> (VaultError, uuid \<times> vault_db) result" where
  "pin_snapshot_tx env now db s src reference correlation =
     (if \<not> (1 \<le> length reference \<and> length reference \<le> 255) then Inl (InvalidDelivery ''pin_source_reference'')
      else case find_snapshot db s of
             None \<Rightarrow> Inl (InvalidDelivery ''snapshot_id'')
           | Some row \<Rightarrow>
               (case find (active_pin_for s (PinSource_as_str src) reference) (pins db) of
                  Some existing \<Rightarrow> Inr (pin_id existing, advance db)
                | None \<Rightarrow>
                    let ident = now_v7 env db;
                        pin = \<lparr> pin_id = ident, pin_snapshot = s, pin_source = PinSource_as_str src,
                                pin_reference = reference, pin_correlation = correlation, pin_pinned_at = now,
                                pin_revoked_at = None, pin_revocation_correlation = None \<rparr>
                    in Inr (ident, append_audit env now (sn_target row) (Some s) None None ''pin''
                         (PinSource_as_str src) ''active'' correlation (advance (db\<lparr>pins := pins db @ [pin]\<rparr>)))))"

text \<open>The revocation must not precede the pin; the row's check refuses it otherwise.\<close>

definition revoke_snapshot_pin ::
  "store_env \<Rightarrow> timestamp \<Rightarrow> vault_db \<Rightarrow> uuid \<Rightarrow> uuid \<Rightarrow> (VaultError, vault_db) result" where
  "revoke_snapshot_pin env now db pid correlation =
     (case find (\<lambda>pin. pin_id pin = pid \<and> pin_revoked_at pin = None) (pins db) of
        None \<Rightarrow> Inl (InvalidDelivery ''pin_id'')
      | Some pin \<Rightarrow>
          (case find_snapshot db (pin_snapshot pin) of
             None \<Rightarrow> Inl (InvalidDelivery ''pin_id'')
           | Some row \<Rightarrow>
               if now < pin_pinned_at pin then Inl StorageFailed
               else
                 let pins' = map (\<lambda>p. if pin_id p = pid
                                       then p\<lparr>pin_revoked_at := Some now,
                                              pin_revocation_correlation := Some correlation\<rparr> else p) (pins db)
                 in Inr (append_audit env now (sn_target row) (Some (pin_snapshot pin)) None None ''unpin''
                      (pin_source pin) ''revoked'' correlation (db\<lparr>pins := pins'\<rparr>))))"

subsection \<open>Evaluations\<close>

datatype RetentionEvaluationMode = Scheduled | QuotaPressure

datatype RetentionEvaluationOutcome = Selected | NoCandidates | AllocationRefused

datatype RetentionCandidateClassification =
    CandidateEligibleOrdinary | CandidateEligibleInactiveTarget | CandidateProtectedPinned
  | CandidateProtectedAgeFloor | CandidateProtectedKeepLastRestorable | CandidateGraceActive

fun RetentionEvaluationMode_as_str :: "RetentionEvaluationMode \<Rightarrow> string" where
  "RetentionEvaluationMode_as_str Scheduled = ''scheduled''"
| "RetentionEvaluationMode_as_str QuotaPressure = ''quota_pressure''"

fun RetentionEvaluationOutcome_as_str :: "RetentionEvaluationOutcome \<Rightarrow> string" where
  "RetentionEvaluationOutcome_as_str Selected = ''selected''"
| "RetentionEvaluationOutcome_as_str NoCandidates = ''no_candidates''"
| "RetentionEvaluationOutcome_as_str AllocationRefused = ''allocation_refused''"

fun RetentionCandidateClassification_as_str :: "RetentionCandidateClassification \<Rightarrow> string" where
  "RetentionCandidateClassification_as_str CandidateEligibleOrdinary = ''eligible_ordinary''"
| "RetentionCandidateClassification_as_str CandidateEligibleInactiveTarget = ''eligible_inactive_target''"
| "RetentionCandidateClassification_as_str CandidateProtectedPinned = ''protected_pinned''"
| "RetentionCandidateClassification_as_str CandidateProtectedAgeFloor = ''protected_age_floor''"
| "RetentionCandidateClassification_as_str CandidateProtectedKeepLastRestorable = ''protected_keep_last_restorable''"
| "RetentionCandidateClassification_as_str CandidateGraceActive = ''grace_active''"

fun audit_outcome :: "RetentionCandidateClassification \<Rightarrow> string" where
  "audit_outcome CandidateEligibleOrdinary = ''selected''"
| "audit_outcome CandidateEligibleInactiveTarget = ''selected''"
| "audit_outcome CandidateProtectedPinned = ''protected''"
| "audit_outcome CandidateProtectedAgeFloor = ''protected''"
| "audit_outcome CandidateProtectedKeepLastRestorable = ''protected''"
| "audit_outcome CandidateGraceActive = ''protected''"

record RetentionCandidateEvidence =
  ce_snapshot_id :: uuid
  ce_classification :: RetentionCandidateClassification
  ce_pin_sources :: "PinSource list"
  ce_target_inactive :: bool
  ce_estimated_bytes :: u64
  ce_deletion_not_before :: "u64 option"

record RetentionEvaluationRequest =
  er_target_id :: uuid
  er_policy_id :: uuid
  er_policy :: RetentionPolicy
  er_mode :: RetentionEvaluationMode
  er_required_bytes :: "u64 option"
  er_outcome :: RetentionEvaluationOutcome
  er_correlation_id :: uuid
  er_evaluated_at :: u64
  er_candidates :: "RetentionCandidateEvidence list"

record ValidatedEvaluation =
  ve_required_bytes :: "int option"
  ve_evaluated_at :: int
  ve_minimum_age_seconds :: int
  ve_grace_seconds :: int
  ve_keep_last_restorable :: int

text \<open>The derived order of \<open>PinSource\<close>: operator before user.\<close>

fun pin_source_less :: "PinSource \<Rightarrow> PinSource \<Rightarrow> bool" where
  "pin_source_less Operator User = True"
| "pin_source_less _ _ = False"

text \<open>The loop over the candidates: fresh snapshot, strictly increasing pin sources.\<close>

fun candidates_well_formed :: "uuid set \<Rightarrow> RetentionCandidateEvidence list \<Rightarrow> bool" where
  "candidates_well_formed seen [] = True"
| "candidates_well_formed seen (c # cs) =
     (ce_snapshot_id c \<notin> seen
      \<and> list_all (\<lambda>(left, right). pin_source_less left right) (zip (ce_pin_sources c) (tl (ce_pin_sources c)))
      \<and> candidates_well_formed (insert (ce_snapshot_id c) seen) cs)"

definition validate_required_bytes :: "RetentionEvaluationRequest \<Rightarrow> (VaultError, int option) result" where
  "validate_required_bytes request =
     (case (er_mode request, er_required_bytes request) of
        (Scheduled, None) \<Rightarrow> Inr None
      | (QuotaPressure, Some bytes) \<Rightarrow>
          if 0 < bytes
          then (case i64_try_from bytes of
                  Some n \<Rightarrow> Inr (Some n)
                | None \<Rightarrow> Inl (InvalidDelivery ''retention_required_bytes''))
          else Inl (InvalidDelivery ''retention_required_bytes'')
      | _ \<Rightarrow> Inl (InvalidDelivery ''retention_required_bytes''))"

definition validate_evaluation_request :: "RetentionEvaluationRequest \<Rightarrow> (VaultError, ValidatedEvaluation) result" where
  "validate_evaluation_request request =
     (if 100000 < int (length (er_candidates request)) \<or> \<not> candidates_well_formed {} (er_candidates request)
      then Inl (InvalidDelivery ''retention_candidates'')
      else
        result_bind (validate_required_bytes request) (\<lambda>needed.
        if er_outcome request = AllocationRefused \<and> er_mode request \<noteq> QuotaPressure
        then Inl (InvalidDelivery ''retention_evaluation_outcome'')
        else if 2 ^ 31 \<le> uint (keep_last_restorable (er_policy request)) then Inl (InvalidDelivery ''retention_policy'')
        else
          result_bind (checked_epoch (er_evaluated_at request)) (\<lambda>at.
          result_bind (checked_epoch (minimum_age_seconds (er_policy request))) (\<lambda>age.
          result_bind (checked_epoch (grace_seconds (er_policy request))) (\<lambda>grace.
            if 315360000 < age \<or> \<not> (1 \<le> grace \<and> grace \<le> 315360000)
               \<or> \<not> (1 \<le> uint (keep_last_restorable (er_policy request))
                    \<and> uint (keep_last_restorable (er_policy request)) \<le> 1000000)
            then Inl (InvalidDelivery ''retention_policy'')
            else Inr \<lparr> ve_required_bytes = needed, ve_evaluated_at = at, ve_minimum_age_seconds = age,
                       ve_grace_seconds = grace,
                       ve_keep_last_restorable = uint (keep_last_restorable (er_policy request)) \<rparr>)))))"

definition validate_evaluation_scope ::
  "vault_db \<Rightarrow> RetentionEvaluationRequest \<Rightarrow> ValidatedEvaluation \<Rightarrow> (VaultError, unit) result" where
  "validate_evaluation_scope db request v =
     (if find_target db (er_target_id request) \<noteq> None
         \<and> (case find (\<lambda>po. po_id po = er_policy_id request) (retention_policies db) of
              None \<Rightarrow> False
            | Some po \<Rightarrow> (po_minimum_age_seconds po, po_grace_seconds po, po_keep_last_restorable po)
                = (ve_minimum_age_seconds v, ve_grace_seconds v, ve_keep_last_restorable v))
      then Inr () else Inl (InvalidDelivery ''retention_evaluation_scope''))"

definition insert_evaluation_candidate ::
  "store_env \<Rightarrow> timestamp \<Rightarrow> RetentionEvaluationRequest \<Rightarrow> uuid \<Rightarrow> int \<Rightarrow> RetentionCandidateEvidence \<Rightarrow> vault_db
     \<Rightarrow> (VaultError, vault_db) result" where
  "insert_evaluation_candidate env now request evaluation ordinal c db =
     (if \<not> list_ex (\<lambda>row. sn_id row = ce_snapshot_id c \<and> sn_target row = er_target_id request) (snapshots db)
      then Inl (InvalidDelivery ''retention_candidate_snapshot'')
      else case i64_try_from (ce_estimated_bytes c) of
             None \<Rightarrow> Inl (InvalidDelivery ''retention_estimated_bytes'')
           | Some bytes \<Rightarrow>
               result_bind (case ce_deletion_not_before c of
                              None \<Rightarrow> Inr None
                            | Some seconds \<Rightarrow>
                                result_bind (checked_epoch seconds) (\<lambda>n. map_sum id Some (to_timestamp n)))
                 (\<lambda>deadline.
                    Inr (append_audit env now (er_target_id request) (Some (ce_snapshot_id c)) (Some evaluation) None
                      ''evaluation'' (RetentionCandidateClassification_as_str (ce_classification c))
                      (audit_outcome (ce_classification c)) (er_correlation_id request)
                      (db\<lparr>candidates := candidates db @
                         [\<lparr> ca_evaluation = evaluation, ca_snapshot = ce_snapshot_id c, ca_ordinal = ordinal,
                            ca_classification = RetentionCandidateClassification_as_str (ce_classification c),
                            ca_pin_sources = map PinSource_as_str (ce_pin_sources c),
                            ca_target_inactive = ce_target_inactive c, ca_estimated_bytes = bytes,
                            ca_deletion_not_before = deadline \<rparr>]\<rparr>))))"

fun insert_evaluation_candidates ::
  "store_env \<Rightarrow> timestamp \<Rightarrow> RetentionEvaluationRequest \<Rightarrow> uuid \<Rightarrow> nat \<Rightarrow> RetentionCandidateEvidence list \<Rightarrow> vault_db
     \<Rightarrow> (VaultError, vault_db) result" where
  "insert_evaluation_candidates env now request evaluation ordinal [] db = Inr db"
| "insert_evaluation_candidates env now request evaluation ordinal (c # cs) db =
     result_bind (insert_evaluation_candidate env now request evaluation (int ordinal) c db)
       (insert_evaluation_candidates env now request evaluation (Suc ordinal) cs)"

definition record_retention_evaluation ::
  "store_env \<Rightarrow> timestamp \<Rightarrow> vault_db \<Rightarrow> RetentionEvaluationRequest \<Rightarrow> (VaultError, uuid \<times> vault_db) result" where
  "record_retention_evaluation env now db request =
     result_bind (validate_evaluation_request request) (\<lambda>v.
     result_bind (validate_evaluation_scope db request v) (\<lambda>_.
     result_bind (to_timestamp (ve_evaluated_at v)) (\<lambda>at.
       let evaluation = now_v7 env db;
           row = \<lparr> ev_id = evaluation, ev_target = er_target_id request, ev_policy = er_policy_id request,
                   ev_mode = RetentionEvaluationMode_as_str (er_mode request),
                   ev_policy_snapshot = er_policy request, ev_required_bytes = ve_required_bytes v,
                   ev_outcome = RetentionEvaluationOutcome_as_str (er_outcome request),
                   ev_correlation = er_correlation_id request, ev_evaluated_at = at \<rparr>
       in result_bind (insert_evaluation_candidates env now request evaluation 0 (er_candidates request)
                         (advance (db\<lparr>evaluations := evaluations db @ [row]\<rparr>)))
            (\<lambda>db'. Inr (evaluation, db')))))"

subsection \<open>Deletion plans\<close>

record DeletionPlanRequest =
  pr_evaluation_id :: uuid
  pr_target_id :: uuid
  pr_snapshot_id :: uuid
  pr_tombstone_id :: "uuid option"
  pr_automatic :: bool
  pr_tombstoned_at :: u64
  pr_not_before :: u64
  pr_estimated_bytes :: u64
  pr_correlation_id :: uuid

datatype DeletionPlanOutcome = PlanCreated uuid | PlanProtectedPinned

record ValidatedDeletionPlan =
  vp_tombstoned_at :: int
  vp_not_before :: int
  vp_estimated_bytes :: int

definition validate_deletion_plan_request :: "DeletionPlanRequest \<Rightarrow> (VaultError, ValidatedDeletionPlan) result" where
  "validate_deletion_plan_request request =
     result_bind (checked_epoch (pr_tombstoned_at request)) (\<lambda>tombstoned_at.
     result_bind (checked_epoch (pr_not_before request)) (\<lambda>not_before.
       case i64_try_from (pr_estimated_bytes request) of
         None \<Rightarrow> Inl (InvalidDelivery ''estimated_bytes'')
       | Some bytes \<Rightarrow>
           if not_before \<le> tombstoned_at then Inl (InvalidDelivery ''deletion_not_before'')
           else Inr \<lparr> vp_tombstoned_at = tombstoned_at, vp_not_before = not_before, vp_estimated_bytes = bytes \<rparr>))"

definition lock_deletion_snapshot :: "vault_db \<Rightarrow> DeletionPlanRequest \<Rightarrow> (VaultError, unit) result" where
  "lock_deletion_snapshot db request =
     (if list_ex (\<lambda>row. sn_id row = pr_snapshot_id request \<and> sn_target row = pr_target_id request) (snapshots db)
      then Inr () else Inl (InvalidDelivery ''deletion_snapshot''))"

definition deletion_plan_reason :: "DeletionPlanRequest \<Rightarrow> string" where
  "deletion_plan_reason request =
     (if \<not> pr_automatic request then ''operator_request''
      else if pr_tombstone_id request \<noteq> None then ''target_inactive'' else ''ordinary_retention'')"

definition new_plan ::
  "uuid \<Rightarrow> DeletionPlanRequest \<Rightarrow> ValidatedDeletionPlan \<Rightarrow> string \<Rightarrow> timestamp \<Rightarrow> timestamp \<Rightarrow> PlanRow" where
  "new_plan ident request v why tombstoned_at not_before =
     \<lparr> dp_id = ident, dp_evaluation = pr_evaluation_id request, dp_target = pr_target_id request,
       dp_snapshot = pr_snapshot_id request, dp_tombstone = pr_tombstone_id request, dp_reason = why,
       dp_automatic = pr_automatic request, dp_tombstoned_at = tombstoned_at, dp_not_before = not_before,
       dp_estimated_bytes = vp_estimated_bytes v, dp_status = ''planned'',
       dp_correlation = pr_correlation_id request, dp_cancelled_at = None, dp_completed_at = None \<rparr>"

text \<open>
  The insert meets the foreign keys, the positive window, the single open plan of a snapshot and the
  trigger that refuses an automatic plan for a pinned snapshot.
\<close>

definition insert_deletion_plan ::
  "uuid \<Rightarrow> DeletionPlanRequest \<Rightarrow> ValidatedDeletionPlan \<Rightarrow> string \<Rightarrow> vault_db \<Rightarrow> (VaultError, vault_db) result" where
  "insert_deletion_plan ident request v why db =
     result_bind (to_timestamp (vp_tombstoned_at v)) (\<lambda>tombstoned_at.
     result_bind (to_timestamp (vp_not_before v)) (\<lambda>not_before.
       if \<not> list_ex (\<lambda>ev. ev_id ev = pr_evaluation_id request) (evaluations db)
          \<or> find_target db (pr_target_id request) = None
          \<or> (case pr_tombstone_id request of
                None \<Rightarrow> False
              | Some tb \<Rightarrow> \<not> list_ex (\<lambda>row. tb_id row = tb) (tombstones db))
          \<or> list_ex (\<lambda>p. dp_snapshot p = pr_snapshot_id request \<and> open_plan p) (plans db)
          \<or> \<not> tombstoned_at < not_before
          \<or> pr_automatic request \<and> snapshot_is_pinned db (pr_snapshot_id request)
       then Inl StorageFailed
       else Inr (db\<lparr>plans := plans db @ [new_plan ident request v why tombstoned_at not_before]\<rparr>)))"

definition create_deletion_plan ::
  "store_env \<Rightarrow> timestamp \<Rightarrow> vault_db \<Rightarrow> DeletionPlanRequest \<Rightarrow> (VaultError, DeletionPlanOutcome \<times> vault_db) result" where
  "create_deletion_plan env now db request =
     result_bind (validate_deletion_plan_request request) (\<lambda>v.
     result_bind (lock_deletion_snapshot db request) (\<lambda>_.
       if pr_automatic request \<and> snapshot_is_pinned db (pr_snapshot_id request)
       then Inr (PlanProtectedPinned,
              append_audit env now (pr_target_id request) (Some (pr_snapshot_id request))
                (Some (pr_evaluation_id request)) None ''refusal'' ''protected_pinned'' ''refused''
                (pr_correlation_id request) db)
       else
         let ident = now_v7 env db;
             why = deletion_plan_reason request
         in result_bind (insert_deletion_plan ident request v why (advance db)) (\<lambda>db'.
              Inr (PlanCreated ident,
                append_audit env now (pr_target_id request) (Some (pr_snapshot_id request))
                  (Some (pr_evaluation_id request)) (Some ident) ''plan'' why ''planned''
                  (pr_correlation_id request) db'))))"

subsection \<open>The triggers of plans and stages\<close>

definition TERMINAL_OUTCOMES :: "string list" where
  "TERMINAL_OUTCOMES = [''succeeded'', ''shared_reference_retained'']"

definition local_evidence :: "vault_db \<Rightarrow> uuid \<Rightarrow> uuid \<Rightarrow> bool" where
  "local_evidence db plan_ref artifact =
     list_ex (\<lambda>st. st_plan st = plan_ref \<and> st_kind st = ''local'' \<and> st_artifact st = Some artifact
                 \<and> st_outcome st \<in> set TERMINAL_OUTCOMES) (stages db)"

definition local_evidence_complete :: "vault_db \<Rightarrow> uuid \<Rightarrow> uuid \<Rightarrow> bool" where
  "local_evidence_complete db plan_ref snap =
     list_all (\<lambda>ar. ar_snapshot ar = snap \<longrightarrow> local_evidence db plan_ref (ar_id ar)) (artifacts db)"

definition replica_evidence :: "vault_db \<Rightarrow> uuid \<Rightarrow> uuid \<Rightarrow> bool" where
  "replica_evidence db plan_ref pl =
     list_ex (\<lambda>st. st_plan st = plan_ref \<and> st_kind st = ''replica'' \<and> st_placement st = Some pl
                 \<and> st_outcome st \<in> set TERMINAL_OUTCOMES) (stages db)"

definition replica_evidence_complete :: "vault_db \<Rightarrow> uuid \<Rightarrow> uuid \<Rightarrow> bool" where
  "replica_evidence_complete db plan_ref snap =
     list_all (\<lambda>rp. list_ex (\<lambda>ar. ar_id ar = rp_artifact rp \<and> ar_snapshot ar = snap) (artifacts db)
                 \<longrightarrow> replica_evidence db plan_ref (rp_id rp)) (placements db)"

definition mirror_evidence :: "vault_db \<Rightarrow> uuid \<Rightarrow> bool" where
  "mirror_evidence db plan_ref =
     list_ex (\<lambda>st. st_plan st = plan_ref \<and> st_kind st = ''mirror_local'' \<and> st_outcome st = ''succeeded'')
       (stages db)"

text \<open>\<open>guard_deletion_plan_mutation\<close> for an update that changes only the status and its closing time.\<close>

definition plan_status_guard :: "vault_db \<Rightarrow> PlanRow \<Rightarrow> string \<Rightarrow> bool" where
  "plan_status_guard db p status \<longleftrightarrow>
     (dp_status p, status) \<in> {(''planned'', ''local_deleting''), (''planned'', ''cancelled''),
        (''local_deleting'', ''replica_deleting''), (''replica_deleting'', ''completed'')}
     \<and> (status = ''completed'' \<longrightarrow>
          local_evidence_complete db (dp_id p) (dp_snapshot p)
          \<and> replica_evidence_complete db (dp_id p) (dp_snapshot p)
          \<and> (dp_tombstone p \<noteq> None \<longrightarrow> mirror_evidence db (dp_id p)))"

text \<open>\<open>guard_deletion_stage_attempt\<close> for an insert.\<close>

definition stage_insert_guard :: "vault_db \<Rightarrow> timestamp \<Rightarrow> StageRow \<Rightarrow> bool" where
  "stage_insert_guard db clock st \<longleftrightarrow>
     (case find_plan db (st_plan st) of
        None \<Rightarrow> False
      | Some p \<Rightarrow>
          \<not> clock < dp_not_before p
          \<and> (st_kind st = ''replica'' \<longrightarrow>
               (case st_artifact st of None \<Rightarrow> False | Some artifact \<Rightarrow> local_evidence db (dp_id p) artifact))
          \<and> (st_kind st = ''mirror_local'' \<longrightarrow>
               dp_tombstone p \<noteq> None \<and> local_evidence_complete db (dp_id p) (dp_snapshot p))
          \<and> (st_kind st = ''replica'' \<and> dp_tombstone p \<noteq> None \<longrightarrow> mirror_evidence db (dp_id p)))"

subsection \<open>Claiming one physical effect\<close>

datatype DeletionStageKind = Local | MirrorLocal | Replica

record StageClaimRequest =
  cq_plan_id :: uuid
  cq_kind :: DeletionStageKind
  cq_stage_key :: string
  cq_artifact_id :: "uuid option"
  cq_replica_target_id :: "uuid option"
  cq_placement_id :: "uuid option"
  cq_lease_owner :: uuid
  cq_lease_seconds :: u64

datatype StageClaimOutcome =
  Claimed uuid uuid | GraceActive | StageProtectedPinned | SharedReferenceRetained uuid

record StagePlan =
  sp_target_id :: uuid
  sp_snapshot_id :: uuid
  sp_correlation_id :: uuid
  sp_status :: string
  sp_automatic :: bool
  sp_grace_active :: bool

definition validate_stage_claim :: "StageClaimRequest \<Rightarrow> (VaultError, int) result" where
  "validate_stage_claim request =
     (case i64_try_from (cq_lease_seconds request) of
        None \<Rightarrow> Inl (InvalidDelivery ''deletion_stage_lease'')
      | Some seconds \<Rightarrow>
          if 1 \<le> seconds \<and> seconds \<le> 86400
             \<and> 1 \<le> length (cq_stage_key request) \<and> int (length (cq_stage_key request)) \<le> 255
          then Inr seconds else Inl (InvalidDelivery ''deletion_stage_claim''))"

definition load_stage_plan :: "vault_db \<Rightarrow> timestamp \<Rightarrow> uuid \<Rightarrow> (VaultError, StagePlan) result" where
  "load_stage_plan db clock plan_ref =
     (case find_plan db plan_ref of
        None \<Rightarrow> Inl (InvalidDelivery ''plan_id'')
      | Some p \<Rightarrow>
          if find_snapshot db (dp_snapshot p) = None then Inl (InvalidDelivery ''plan_id'')
          else Inr \<lparr> sp_target_id = dp_target p, sp_snapshot_id = dp_snapshot p,
                     sp_correlation_id = dp_correlation p, sp_status = dp_status p,
                     sp_automatic = dp_automatic p, sp_grace_active = (clock < dp_not_before p) \<rparr>)"

definition stage_audit ::
  "store_env \<Rightarrow> timestamp \<Rightarrow> StagePlan \<Rightarrow> uuid \<Rightarrow> string \<Rightarrow> string \<Rightarrow> string \<Rightarrow> vault_db \<Rightarrow> vault_db" where
  "stage_audit env now p plan_ref kind why outcome db =
     append_audit env now (sp_target_id p) (Some (sp_snapshot_id p)) None (Some plan_ref) kind why outcome
       (sp_correlation_id p) db"

definition stage_claim_refusal :: "vault_db \<Rightarrow> StagePlan \<Rightarrow> (string \<times> StageClaimOutcome) option" where
  "stage_claim_refusal db p =
     (if sp_grace_active p then Some (''grace_active'', GraceActive)
      else if sp_automatic p \<and> snapshot_is_pinned db (sp_snapshot_id p)
      then Some (''protected_pinned'', StageProtectedPinned)
      else None)"

definition stage_identity ::
  "store_env \<Rightarrow> vault_db \<Rightarrow> uuid \<Rightarrow> StageClaimRequest \<Rightarrow> (VaultError, string \<times> string \<times> string) result" where
  "stage_identity env db snap request =
     (case cq_kind request of
        Local \<Rightarrow>
          (case cq_artifact_id request of
             None \<Rightarrow> Inl (InvalidDelivery ''deletion_local_artifact'')
           | Some artifact \<Rightarrow>
               if cq_replica_target_id request \<noteq> None \<or> cq_placement_id request \<noteq> None
               then Inl (InvalidDelivery ''deletion_local_shape'')
               else (case find (\<lambda>ar. ar_id ar = artifact \<and> ar_snapshot ar = snap) (artifacts db) of
                       None \<Rightarrow> Inl (InvalidDelivery ''deletion_local_artifact'')
                     | Some ar \<Rightarrow> Inr (''local'', ''local_digest'', encode_hex (ar_sha256 ar))))
      | MirrorLocal \<Rightarrow>
          if cq_artifact_id request \<noteq> None \<or> cq_replica_target_id request \<noteq> None
             \<or> cq_placement_id request \<noteq> None
          then Inl (InvalidDelivery ''deletion_mirror_shape'')
          else (case Option.bind (find_snapshot db snap) (\<lambda>sn. find (\<lambda>mr. mr_id mr = sn_mirror sn) (mirrors db)) of
                  None \<Rightarrow> Inl (InvalidDelivery ''deletion_mirror'')
                | Some mr \<Rightarrow> Inr (''mirror_local'', ''mirror_path'', mr_storage_path mr))
      | Replica \<Rightarrow>
          (case cq_artifact_id request of
             None \<Rightarrow> Inl (InvalidDelivery ''deletion_replica_artifact'')
           | Some artifact \<Rightarrow>
          (case cq_replica_target_id request of
             None \<Rightarrow> Inl (InvalidDelivery ''deletion_replica_target'')
           | Some target \<Rightarrow>
          (case cq_placement_id request of
             None \<Rightarrow> Inl (InvalidDelivery ''deletion_replica_placement'')
           | Some pl \<Rightarrow>
               (case find (\<lambda>rp. rp_id rp = pl \<and> rp_artifact rp = artifact \<and> rp_replica_target rp = target
                             \<and> list_ex (\<lambda>ar. ar_id ar = artifact \<and> ar_snapshot ar = snap) (artifacts db))
                       (placements db) of
                  None \<Rightarrow> Inl (InvalidDelivery ''deletion_replica_placement'')
                | Some rp \<Rightarrow>
                    Inr (''replica'', ''replica_key'', uuid_to_string env target @ '':'' @ rp_object_key rp))))))"

definition write_plan_status :: "vault_db \<Rightarrow> uuid \<Rightarrow> string \<Rightarrow> vault_db" where
  "write_plan_status db plan_ref status =
     db\<lparr>plans := map (\<lambda>p. if dp_id p = plan_ref then p\<lparr>dp_status := status\<rparr> else p) (plans db)\<rparr>"

definition advance_plan_for_stage :: "vault_db \<Rightarrow> StageClaimRequest \<Rightarrow> string \<Rightarrow> (VaultError, vault_db) result" where
  "advance_plan_for_stage db request plan_status =
     (let expected = (case cq_kind request of Replica \<Rightarrow> ''replica_deleting'' | _ \<Rightarrow> ''local_deleting'');
          db' = (if cq_kind request \<noteq> Replica \<and> plan_status = ''planned''
                 then write_plan_status db (cq_plan_id request) ''local_deleting'' else db)
      in if plan_status = expected \<or> plan_status = ''planned'' \<and> expected = ''local_deleting''
         then Inr db' else Inl (InvalidDelivery ''deletion_stage_order''))"

definition expired_unit :: "timestamp \<Rightarrow> StageClaimRequest \<Rightarrow> string \<Rightarrow> StageRow \<Rightarrow> bool" where
  "expired_unit clock request kind st \<longleftrightarrow>
     st_plan st = cq_plan_id request \<and> st_kind st = kind \<and> st_key st = cq_stage_key request
     \<and> st_outcome st = ''running'' \<and> st_lease_expires_at st \<le> clock"

definition abandon_expired_stage ::
  "store_env \<Rightarrow> timestamp \<Rightarrow> timestamp \<Rightarrow> StageClaimRequest \<Rightarrow> StagePlan \<Rightarrow> string \<Rightarrow> vault_db
     \<Rightarrow> (VaultError, vault_db) result" where
  "abandon_expired_stage env now clock request p kind db =
     (if list_ex (\<lambda>st. expired_unit clock request kind st \<and> now < st_started_at st) (stages db) then Inl StorageFailed
      else if list_ex (expired_unit clock request kind) (stages db)
      then Inr (stage_audit env now p (cq_plan_id request) ''stage'' kind ''abandoned''
             (db\<lparr>stages := map (\<lambda>st. if expired_unit clock request kind st
                                      then st\<lparr>st_outcome := ''abandoned'', st_failure_class := Some ''lease_expired'',
                                              st_finished_at := Some now\<rparr> else st) (stages db)\<rparr>))
      else Inr db)"

text \<open>Another retained snapshot references the same bytes.\<close>

definition retained_elsewhere :: "vault_db \<Rightarrow> uuid \<Rightarrow> uuid \<Rightarrow> bool" where
  "retained_elsewhere db snap other =
     list_ex (\<lambda>sn. sn_id sn = other \<and> sn_id sn \<noteq> snap \<and> sn_status sn \<noteq> ''deleted'') (snapshots db)"

definition identity_is_shared :: "vault_db \<Rightarrow> uuid \<Rightarrow> StageClaimRequest \<Rightarrow> (VaultError, bool) result" where
  "identity_is_shared db snap request =
     (case cq_kind request of
        Local \<Rightarrow>
          (case cq_artifact_id request of
             None \<Rightarrow> Inl (InvalidDelivery ''deletion_local_artifact'')
           | Some artifact \<Rightarrow>
               Inr (list_ex (\<lambda>selected. ar_id selected = artifact \<and> ar_snapshot selected = snap
                      \<and> list_ex (\<lambda>retained. ar_sha256 retained = ar_sha256 selected \<and> ar_id retained \<noteq> ar_id selected
                             \<and> retained_elsewhere db snap (ar_snapshot retained)) (artifacts db)) (artifacts db)))
      | Replica \<Rightarrow>
          (case cq_placement_id request of
             None \<Rightarrow> Inl (InvalidDelivery ''deletion_replica_placement'')
           | Some pl \<Rightarrow>
               Inr (list_ex (\<lambda>selected. rp_id selected = pl
                      \<and> list_ex (\<lambda>retained. rp_replica_target retained = rp_replica_target selected
                             \<and> rp_object_key retained = rp_object_key selected \<and> rp_id retained \<noteq> rp_id selected
                             \<and> list_ex (\<lambda>ar. ar_id ar = rp_artifact retained
                                    \<and> retained_elsewhere db snap (ar_snapshot ar)) (artifacts db))
                          (placements db)) (placements db)))
      | MirrorLocal \<Rightarrow> Inr False)"

definition next_ordinal :: "vault_db \<Rightarrow> uuid \<Rightarrow> int" where
  "next_ordinal db plan_ref =
     fold (\<lambda>st top. max top (st_ordinal st)) (filter (\<lambda>st. st_plan st = plan_ref) (stages db)) (-1) + 1"

definition new_stage ::
  "uuid \<Rightarrow> StageClaimRequest \<Rightarrow> string \<Rightarrow> uuid option \<Rightarrow> int \<Rightarrow> string \<Rightarrow> timestamp \<Rightarrow> timestamp \<Rightarrow> timestamp option
     \<Rightarrow> StageRow" where
  "new_stage ident request kind claim ordinal outcome expires started finished =
     \<lparr> st_id = ident, st_plan = cq_plan_id request, st_kind = kind, st_key = cq_stage_key request,
       st_artifact = cq_artifact_id request, st_replica_target = cq_replica_target_id request,
       st_placement = cq_placement_id request, st_claim = claim, st_ordinal = ordinal, st_outcome = outcome,
       st_failure_class = None, st_lease_owner = cq_lease_owner request, st_lease_expires_at = expires,
       st_absence_verified = False, st_started_at = started, st_finished_at = finished \<rparr>"

text \<open>An insert into the journal: the trigger, the ordinal and the single running row of a unit.\<close>

definition insert_stage :: "vault_db \<Rightarrow> timestamp \<Rightarrow> StageRow \<Rightarrow> (VaultError, vault_db) result" where
  "insert_stage db clock st =
     (if stage_insert_guard db clock st
         \<and> \<not> (st_outcome st = ''running''
               \<and> list_ex (\<lambda>old. st_plan old = st_plan st \<and> st_kind old = st_kind st \<and> st_key old = st_key st
                             \<and> st_outcome old = ''running'') (stages db))
      then Inr (db\<lparr>stages := stages db @ [st]\<rparr>) else Inl StorageFailed)"

definition insert_shared_stage_attempt ::
  "store_env \<Rightarrow> timestamp \<Rightarrow> timestamp \<Rightarrow> StageClaimRequest \<Rightarrow> StagePlan \<Rightarrow> string \<Rightarrow> vault_db
     \<Rightarrow> (VaultError, uuid \<times> vault_db) result" where
  "insert_shared_stage_attempt env now clock request p kind db =
     (let attempt = now_v7 env db
      in result_bind (insert_stage (advance db) clock
            (new_stage attempt request kind None (next_ordinal db (cq_plan_id request))
               ''shared_reference_retained'' now now (Some now))) (\<lambda>db'.
           Inr (attempt, stage_audit env now p (cq_plan_id request) ''stage'' kind ''shared_reference_retained'' db')))"

definition expired_claim :: "timestamp \<Rightarrow> string \<Rightarrow> string \<Rightarrow> ClaimRow \<Rightarrow> bool" where
  "expired_claim clock kind key c \<longleftrightarrow>
     cl_identity_kind c = kind \<and> cl_identity_key c = key \<and> cl_outcome c = ''running'' \<and> cl_lease_expires_at c \<le> clock"

definition release_expired :: "timestamp \<Rightarrow> timestamp \<Rightarrow> string \<Rightarrow> string \<Rightarrow> ClaimRow \<Rightarrow> ClaimRow" where
  "release_expired now clock kind key c =
     (if expired_claim clock kind key c
      then c\<lparr>cl_outcome := ''abandoned'', cl_failure_class := Some ''lease_expired'', cl_finished_at := Some now\<rparr>
      else c)"

definition new_claim :: "uuid \<Rightarrow> StageClaimRequest \<Rightarrow> string \<Rightarrow> string \<Rightarrow> timestamp \<Rightarrow> int \<Rightarrow> ClaimRow" where
  "new_claim ident request kind key now lease =
     \<lparr> cl_id = ident, cl_plan = cq_plan_id request, cl_identity_kind = kind, cl_identity_key = key,
       cl_lease_owner = cq_lease_owner request, cl_lease_expires_at = now + lease * 1000000,
       cl_outcome = ''running'', cl_failure_class = None, cl_started_at = now, cl_finished_at = None \<rparr>"

definition claim_physical_identity ::
  "store_env \<Rightarrow> timestamp \<Rightarrow> timestamp \<Rightarrow> StageClaimRequest \<Rightarrow> int \<Rightarrow> string \<Rightarrow> string \<Rightarrow> vault_db
     \<Rightarrow> (VaultError, uuid \<times> vault_db) result" where
  "claim_physical_identity env now clock request lease kind key db =
     (let released = map (release_expired now clock kind key) (claims db);
          ident = now_v7 env db
      in if list_ex (\<lambda>c. expired_claim clock kind key c \<and> now < cl_started_at c) (claims db)
            \<or> \<not> (1 \<le> char_length key \<and> int (char_length key) \<le> 768)
            \<or> list_ex (\<lambda>c. cl_identity_kind c = kind \<and> cl_identity_key c = key \<and> cl_outcome c = ''running'') released
         then Inl StorageFailed
         else Inr (ident, advance (db\<lparr>claims := released @ [new_claim ident request kind key now lease]\<rparr>)))"

definition claim_deletion_stage ::
  "store_env \<Rightarrow> timestamp \<Rightarrow> (nat \<Rightarrow> timestamp) \<Rightarrow> vault_db \<Rightarrow> StageClaimRequest
     \<Rightarrow> (VaultError, StageClaimOutcome \<times> vault_db) result" where
  "claim_deletion_stage env now clock db request =
     result_bind (validate_stage_claim request) (\<lambda>lease.
     result_bind (load_stage_plan db (clock 0) (cq_plan_id request)) (\<lambda>p.
       case stage_claim_refusal db p of
         Some (why, outcome) \<Rightarrow>
           Inr (outcome, stage_audit env now p (cq_plan_id request) ''refusal'' why ''refused'' db)
       | None \<Rightarrow>
           result_bind (stage_identity env db (sp_snapshot_id p) request) (\<lambda>(kind, identity_kind, identity_key).
           result_bind (advance_plan_for_stage db request (sp_status p)) (\<lambda>db1.
           result_bind (abandon_expired_stage env now (clock 1) request p kind db1) (\<lambda>db2.
           result_bind (identity_is_shared db2 (sp_snapshot_id p) request) (\<lambda>shared.
             if shared
             then result_bind (insert_shared_stage_attempt env now (clock 2) request p kind db2) (\<lambda>(attempt, db3).
                    Inr (SharedReferenceRetained attempt, db3))
             else
               result_bind (claim_physical_identity env now (clock 2) request lease identity_kind identity_key db2)
                 (\<lambda>(claim, db3).
                    let attempt = now_v7 env db3
                    in result_bind (insert_stage (advance db3) (clock 3)
                          (new_stage attempt request kind (Some claim) (next_ordinal db3 (cq_plan_id request))
                             ''running'' (now + lease * 1000000) now None)) (\<lambda>db4.
                         Inr (Claimed attempt claim,
                              stage_audit env now p (cq_plan_id request) ''stage'' kind ''claimed'' db4)))))))))"

subsection \<open>Execution: projection and terminal writes\<close>

record DeletionExecutionReplica =
  xr_placement_id :: uuid
  xr_replica_target_id :: uuid
  xr_object_key :: string

record DeletionExecutionArtifact =
  xa_artifact_id :: uuid
  xa_blob :: BlobRef
  xa_replicas :: "DeletionExecutionReplica list"

record DeletionExecutionPlan =
  xp_plan_id :: uuid
  xp_target_id :: uuid
  xp_snapshot_id :: uuid
  xp_tombstone_id :: "uuid option"
  xp_mirror_storage_path :: "string option"
  xp_status :: string
  xp_correlation_id :: uuid
  xp_artifacts :: "DeletionExecutionArtifact list"

datatype DeletionStageFailureClass = LocalIo | RemoteVerification | ReplicaUnavailable

fun DeletionStageFailureClass_as_str :: "DeletionStageFailureClass \<Rightarrow> string" where
  "DeletionStageFailureClass_as_str LocalIo = ''local_io''"
| "DeletionStageFailureClass_as_str RemoteVerification = ''remote_verification''"
| "DeletionStageFailureClass_as_str ReplicaUnavailable = ''replica_unavailable''"

definition execution_replicas :: "vault_db \<Rightarrow> uuid \<Rightarrow> DeletionExecutionReplica list" where
  "execution_replicas db artifact =
     map (\<lambda>rp. \<lparr> xr_placement_id = rp_id rp, xr_replica_target_id = rp_replica_target rp,
                xr_object_key = rp_object_key rp \<rparr>)
       (sort_key (\<lambda>rp. (rp_replica_target rp, rp_id rp)) (filter (\<lambda>rp. rp_artifact rp = artifact) (placements db)))"

text \<open>\<open>u64::try_from\<close> of a stored size refuses negative numbers; the column holds 64-bit numbers.\<close>

fun execution_artifacts :: "vault_db \<Rightarrow> ArtifactRow list \<Rightarrow> (VaultError, DeletionExecutionArtifact list) result" where
  "execution_artifacts db [] = Inr []"
| "execution_artifacts db (ar # ars) =
     (if ar_size_bytes ar < 0 then Inl (InvalidDelivery ''deletion_artifact_size'')
      else result_bind (execution_artifacts db ars) (\<lambda>rest.
        Inr (\<lparr> xa_artifact_id = ar_id ar,
               xa_blob = \<lparr> owner = ar_owner ar, sha256 = encode_hex (ar_sha256 ar), media_type = ar_media_type ar,
                          size_bytes = word_of_int (ar_size_bytes ar) \<rparr>,
               xa_replicas = execution_replicas db (ar_id ar) \<rparr> # rest)))"

definition deletion_execution_plan :: "vault_db \<Rightarrow> uuid \<Rightarrow> (VaultError, DeletionExecutionPlan) result" where
  "deletion_execution_plan db plan_ref =
     (case find_plan db plan_ref of
        None \<Rightarrow> Inl (InvalidDelivery ''plan_id'')
      | Some p \<Rightarrow>
     (case Option.bind (find_snapshot db (dp_snapshot p)) (\<lambda>sn. find (\<lambda>mr. mr_id mr = sn_mirror sn) (mirrors db)) of
        None \<Rightarrow> Inl (InvalidDelivery ''plan_id'')
      | Some mr \<Rightarrow>
          result_bind (execution_artifacts db
              (sort_key ar_id (filter (\<lambda>ar. ar_snapshot ar = dp_snapshot p) (artifacts db)))) (\<lambda>arts.
            Inr \<lparr> xp_plan_id = plan_ref, xp_target_id = dp_target p, xp_snapshot_id = dp_snapshot p,
                  xp_tombstone_id = dp_tombstone p,
                  xp_mirror_storage_path = (case dp_tombstone p of None \<Rightarrow> None | Some _ \<Rightarrow> Some (mr_storage_path mr)),
                  xp_status = dp_status p, xp_correlation_id = dp_correlation p, xp_artifacts = arts \<rparr>)))"

definition owned_stage :: "uuid \<Rightarrow> uuid \<Rightarrow> StageRow \<Rightarrow> bool" where
  "owned_stage attempt claim st \<longleftrightarrow> st_id st = attempt \<and> st_claim st = Some claim \<and> st_outcome st = ''running''"

text \<open>
  The common part of the two terminal writes: the running attempt and its claim are closed together.
  The row checks refuse a closing time before the start.
\<close>

definition close_stage ::
  "store_env \<Rightarrow> timestamp \<Rightarrow> vault_db \<Rightarrow> uuid \<Rightarrow> uuid \<Rightarrow> (StageRow \<Rightarrow> StageRow) \<Rightarrow> (ClaimRow \<Rightarrow> ClaimRow)
     \<Rightarrow> (StageRow \<Rightarrow> string) \<Rightarrow> string \<Rightarrow> (VaultError, vault_db) result" where
  "close_stage env now db attempt claim close_row close_claim why outcome =
     (case find (owned_stage attempt claim) (stages db) of
        None \<Rightarrow> Inl StorageFailed
      | Some st \<Rightarrow>
     (case find_plan db (st_plan st) of
        None \<Rightarrow> Inl StorageFailed
      | Some p \<Rightarrow>
          if now < st_started_at st
             \<or> list_ex (\<lambda>c. cl_id c = claim \<and> cl_outcome c = ''running'' \<and> now < cl_started_at c) (claims db)
          then Inl StorageFailed
          else Inr (append_audit env now (dp_target p) (Some (dp_snapshot p)) None (Some (dp_id p)) ''stage''
                 (why st) outcome (dp_correlation p)
                 (db\<lparr>stages := map (\<lambda>st. if owned_stage attempt claim st then close_row st else st) (stages db),
                     claims := map (\<lambda>c. if cl_id c = claim \<and> cl_outcome c = ''running'' then close_claim c else c)
                                 (claims db)\<rparr>))))"

definition record_deletion_stage_success ::
  "store_env \<Rightarrow> timestamp \<Rightarrow> vault_db \<Rightarrow> uuid \<Rightarrow> uuid \<Rightarrow> (VaultError, vault_db) result" where
  "record_deletion_stage_success env now db attempt claim =
     close_stage env now db attempt claim
       (\<lambda>st. st\<lparr>st_outcome := ''succeeded'', st_absence_verified := True, st_finished_at := Some now\<rparr>)
       (\<lambda>c. c\<lparr>cl_outcome := ''completed'', cl_finished_at := Some now\<rparr>)
       st_kind ''succeeded''"

definition record_deletion_stage_failure ::
  "store_env \<Rightarrow> timestamp \<Rightarrow> vault_db \<Rightarrow> uuid \<Rightarrow> uuid \<Rightarrow> DeletionStageFailureClass \<Rightarrow> (VaultError, vault_db) result" where
  "record_deletion_stage_failure env now db attempt claim failure =
     close_stage env now db attempt claim
       (\<lambda>st. st\<lparr>st_outcome := ''failed'', st_failure_class := Some (DeletionStageFailureClass_as_str failure),
                st_finished_at := Some now\<rparr>)
       (\<lambda>c. c\<lparr>cl_outcome := ''abandoned'', cl_failure_class := Some (DeletionStageFailureClass_as_str failure),
              cl_finished_at := Some now\<rparr>)
       (\<lambda>_. DeletionStageFailureClass_as_str failure) ''failed''"

definition advance_deletion_plan_to_replicas :: "vault_db \<Rightarrow> uuid \<Rightarrow> (VaultError, vault_db) result" where
  "advance_deletion_plan_to_replicas db plan_ref =
     (case find_plan db plan_ref of
        None \<Rightarrow> Inl StorageFailed
      | Some p \<Rightarrow>
          if dp_status p = ''local_deleting'' \<and> local_evidence_complete db plan_ref (dp_snapshot p)
          then Inr (write_plan_status db plan_ref ''replica_deleting'') else Inl StorageFailed)"

text \<open>
  Closing the tombstone meets its trigger (it must still be open) and its check (not before the
  deadline); the target update meets the status guard.
\<close>

definition complete_target_if_ready ::
  "timestamp \<Rightarrow> timestamp \<Rightarrow> vault_db \<Rightarrow> uuid \<Rightarrow> uuid \<Rightarrow> (VaultError, vault_db) result" where
  "complete_target_if_ready now clock db target tombstone =
     (if list_ex (\<lambda>p. dp_tombstone p = Some tombstone \<and> dp_status p \<noteq> ''completed'') (plans db) then Inr db
      else if list_ex (\<lambda>tb. tb_id tb = tombstone \<and> (\<not> active_tombstone tb \<or> now < tb_not_before tb)) (tombstones db)
      then Inl StorageFailed
      else
        let db1 = db\<lparr>tombstones := map (\<lambda>tb. if tb_id tb = tombstone then tb\<lparr>tb_completed_at := Some now\<rparr> else tb)
                                     (tombstones db)\<rparr>
        in case find_target db1 target of
             None \<Rightarrow> Inr db1
           | Some row \<Rightarrow>
               if t_status row \<noteq> ''deleting'' then Inr db1
               else if target_guard_status_transition db1 clock row ''deleted'' \<noteq> None then Inl StorageFailed
               else Inr (write_status db1 target ''deleted''))"

definition complete_deletion_plan ::
  "store_env \<Rightarrow> timestamp \<Rightarrow> timestamp \<Rightarrow> vault_db \<Rightarrow> uuid \<Rightarrow> (VaultError, vault_db) result" where
  "complete_deletion_plan env now clock db plan_ref =
     (case find_plan db plan_ref of
        None \<Rightarrow> Inl (InvalidDelivery ''plan_id'')
      | Some p \<Rightarrow>
          if \<not> plan_status_guard db p ''completed'' then Inl StorageFailed
          else
            let db1 = db\<lparr>plans := map (\<lambda>q. if dp_id q = plan_ref
                                           then q\<lparr>dp_status := ''completed'', dp_completed_at := Some now\<rparr> else q)
                                     (plans db),
                         snapshots := map (\<lambda>sn. if sn_id sn = dp_snapshot p then sn\<lparr>sn_status := ''deleted''\<rparr> else sn)
                                        (snapshots db)\<rparr>;
                db2 = append_audit env now (dp_target p) (Some (dp_snapshot p)) None (Some plan_ref) ''stage''
                        ''plan_complete'' ''completed'' (dp_correlation p) db1
            in case dp_tombstone p of
                 None \<Rightarrow> Inr db2
               | Some tombstone \<Rightarrow> complete_target_if_ready now clock db2 (dp_target p) tombstone)"

end
