(* ===== verification/Deletion_Proofs.thy ===== *)
theory Deletion_Proofs
  imports Deletion_Store Store_Invariants
begin

text \<open>
  What the durable side of retention keeps, whatever transactions are committed and in whatever
  order: one open plan per snapshot, one live claim per physical object, one live attempt per stage;
  plans that only move along their life cycle and never change identity or deadline; and the
  conditions under which a physical effect is claimed at all.
\<close>

subsection \<open>The invariant of the journal\<close>

definition running_stage :: "StageRow \<Rightarrow> bool" where
  "running_stage st \<longleftrightarrow> st_outcome st = ''running''"

definition running_claim :: "ClaimRow \<Rightarrow> bool" where
  "running_claim c \<longleftrightarrow> cl_outcome c = ''running''"

definition stage_unit :: "StageRow \<Rightarrow> uuid \<times> string \<times> string" where
  "stage_unit st = (st_plan st, st_kind st, st_key st)"

definition claim_identity :: "ClaimRow \<Rightarrow> string \<times> string" where
  "claim_identity c = (cl_identity_kind c, cl_identity_key c)"

definition wf_journal :: "store_env \<Rightarrow> vault_db \<Rightarrow> bool" where
  "wf_journal env db \<longleftrightarrow>
     distinct (map dp_id (plans db))
     \<and> distinct (map dp_snapshot (filter open_plan (plans db)))
     \<and> distinct (map claim_identity (filter running_claim (claims db)))
     \<and> distinct (map stage_unit (filter running_stage (stages db)))
     \<and> dp_id ` set (plans db) \<subseteq> mint env ` {..<minted db}"

lemma distinct_filter_map:
  assumes "distinct (map k (filter P xs))" and "\<And>x. x \<in> set xs \<Longrightarrow> P (f x) \<Longrightarrow> P x \<and> k (f x) = k x"
  shows "distinct (map k (filter P (map f xs)))"
proof -
  have "map k (filter P (map f xs)) = map k (filter (\<lambda>x. P (f x)) (filter P xs))"
    using assms(2) by (induction xs) auto
  then show ?thesis using distinct_map_filter [OF assms(1)] by simp
qed

lemma wf_journal_empty: "wf_journal env empty_db"
  by (simp add: wf_journal_def empty_db_def)

text \<open>Transactions that leave plans, stages and claims alone keep the invariant.\<close>

lemma wf_journal_frame:
  assumes "wf_journal env db" and "plans db' = plans db" and "stages db' = stages db" and "claims db' = claims db"
    and "minted db \<le> minted db'"
  shows "wf_journal env db'"
proof -
  have "mint env ` {..<minted db} \<subseteq> mint env ` {..<minted db'}" using assms(5) by auto
  with assms show ?thesis unfolding wf_journal_def by auto
qed

lemma journal_append_audit [simp]:
  "plans (append_audit env now t s e p k w out c db) = plans db"
  "stages (append_audit env now t s e p k w out c db) = stages db"
  "claims (append_audit env now t s e p k w out c db) = claims db"
  "pins (append_audit env now t s e p k w out c db) = pins db"
  "snapshots (append_audit env now t s e p k w out c db) = snapshots db"
  "artifacts (append_audit env now t s e p k w out c db) = artifacts db"
  "tombstones (append_audit env now t s e p k w out c db) = tombstones db"
  by (simp_all add: append_audit_def advance_def)

lemma journal_advance [simp]:
  "plans (advance db) = plans db" "stages (advance db) = stages db" "claims (advance db) = claims db"
  "pins (advance db) = pins db" "snapshots (advance db) = snapshots db" "artifacts (advance db) = artifacts db"
  by (simp_all add: advance_def)

lemma wf_journal_audit [simp]:
  "wf_journal env db \<Longrightarrow> wf_journal env (append_audit env' now t s e p k w out c db)"
  by (erule wf_journal_frame) simp_all

lemma wf_journal_advance [simp]: "wf_journal env db \<Longrightarrow> wf_journal env (advance db)"
  by (erule wf_journal_frame) simp_all

lemma wf_journal_stage_audit [simp]:
  "wf_journal env db \<Longrightarrow> wf_journal env (stage_audit env' now p i k w out db)"
  by (simp add: stage_audit_def)

text \<open>Rewriting rows in place, as every update of the journal does.\<close>

lemma wf_journal_plans_map:
  assumes "wf_journal env db"
    and "\<And>p. p \<in> set (plans db) \<Longrightarrow> dp_id (f p) = dp_id p \<and> dp_snapshot (f p) = dp_snapshot p"
    and "\<And>p. p \<in> set (plans db) \<Longrightarrow> open_plan (f p) \<Longrightarrow> open_plan p"
  shows "wf_journal env (db\<lparr>plans := map f (plans db)\<rparr>)"
proof -
  have "map dp_id (map f (plans db)) = map dp_id (plans db)" using assms(2) by simp
  moreover have "distinct (map dp_snapshot (filter open_plan (map f (plans db))))"
    using assms by (intro distinct_filter_map) (auto simp: wf_journal_def)
  moreover have "dp_id ` set (map f (plans db)) = dp_id ` set (plans db)"
    using calculation(1) by (metis list.set_map)
  ultimately show ?thesis using assms(1) by (simp add: wf_journal_def del: map_map)
qed

lemma wf_journal_stages_map:
  assumes "wf_journal env db"
    and "\<And>st. st \<in> set (stages db) \<Longrightarrow> running_stage (f st) \<Longrightarrow> running_stage st \<and> stage_unit (f st) = stage_unit st"
  shows "wf_journal env (db\<lparr>stages := map f (stages db)\<rparr>)"
  using assms distinct_filter_map [of stage_unit running_stage "stages db" f] by (simp add: wf_journal_def del: map_map)

lemma wf_journal_claims_map:
  assumes "wf_journal env db"
    and "\<And>c. c \<in> set (claims db) \<Longrightarrow> running_claim (f c) \<Longrightarrow> running_claim c \<and> claim_identity (f c) = claim_identity c"
  shows "wf_journal env (db\<lparr>claims := map f (claims db)\<rparr>)"
  using assms distinct_filter_map [of claim_identity running_claim "claims db" f] by (simp add: wf_journal_def del: map_map)

subsection \<open>Every transaction keeps the invariant\<close>

lemma pin_frame:
  assumes "pin_snapshot_tx env now db s src reference correlation = Inr (i, db')"
  shows "plans db' = plans db \<and> stages db' = stages db \<and> claims db' = claims db \<and> minted db \<le> minted db'"
  using assms by (auto simp: pin_snapshot_tx_def Let_def split: if_splits option.splits)

lemma revoke_frame:
  assumes "revoke_snapshot_pin env now db i correlation = Inr db'"
  shows "plans db' = plans db \<and> stages db' = stages db \<and> claims db' = claims db \<and> minted db \<le> minted db'"
  using assms by (auto simp: revoke_snapshot_pin_def Let_def split: if_splits option.splits)

lemma candidates_frame:
  assumes "insert_evaluation_candidates env now request e k cs db = Inr db'"
  shows "plans db' = plans db \<and> stages db' = stages db \<and> claims db' = claims db \<and> minted db \<le> minted db'"
  using assms
proof (induction cs arbitrary: k db)
  case (Cons c cs)
  then obtain db1 where "insert_evaluation_candidate env now request e (int k) c db = Inr db1"
    and rest: "insert_evaluation_candidates env now request e (Suc k) cs db1 = Inr db'"
    by auto
  then have "plans db1 = plans db \<and> stages db1 = stages db \<and> claims db1 = claims db \<and> minted db \<le> minted db1"
    by (auto simp: insert_evaluation_candidate_def split: if_splits option.splits)
  with Cons.IH [OF rest] show ?case by simp
qed simp

lemma evaluation_frame:
  assumes "record_retention_evaluation env now db request = Inr (e, db')"
  shows "plans db' = plans db \<and> stages db' = stages db \<and> claims db' = claims db \<and> minted db \<le> minted db'"
  using assms by (auto simp: record_retention_evaluation_def Let_def dest!: candidates_frame)

lemma new_plan_sel [simp]:
  "dp_id (new_plan i q v w a b) = i" "dp_snapshot (new_plan i q v w a b) = pr_snapshot_id q"
  "dp_status (new_plan i q v w a b) = ''planned''" "dp_automatic (new_plan i q v w a b) = pr_automatic q"
  "dp_tombstone (new_plan i q v w a b) = pr_tombstone_id q" "dp_not_before (new_plan i q v w a b) = b"
  "dp_tombstoned_at (new_plan i q v w a b) = a"
  by (simp_all add: new_plan_def)

lemma insert_plan_shape:
  assumes "insert_deletion_plan ident request v why db = Inr db'"
  obtains a b where "db' = db\<lparr>plans := plans db @ [new_plan ident request v why a b]\<rparr>" "a < b"
    "b = vp_not_before v * 1000000"
    "\<not> (pr_automatic request \<and> snapshot_is_pinned db (pr_snapshot_id request))"
    "\<forall>p \<in> set (plans db). open_plan p \<longrightarrow> dp_snapshot p \<noteq> pr_snapshot_id request"
proof -
  from assms show ?thesis
    by (intro that [of "vp_tombstoned_at v * 1000000" "vp_not_before v * 1000000"])
      (auto simp: insert_deletion_plan_def to_timestamp_def list_ex_iff split: if_splits)
qed

lemma create_plan_steps:
  assumes "create_deletion_plan env now db request = Inr (outcome, db')"
  obtains
    (refused) "outcome = PlanProtectedPinned" "pr_automatic request" "snapshot_is_pinned db (pr_snapshot_id request)"
      "db' = append_audit env now (pr_target_id request) (Some (pr_snapshot_id request))
         (Some (pr_evaluation_id request)) None ''refusal'' ''protected_pinned'' ''refused'' (pr_correlation_id request) db"
  | (created) v db1 where "outcome = PlanCreated (now_v7 env db)" "validate_deletion_plan_request request = Inr v"
      "insert_deletion_plan (now_v7 env db) request v (deletion_plan_reason request) (advance db) = Inr db1"
      "db' = append_audit env now (pr_target_id request) (Some (pr_snapshot_id request))
         (Some (pr_evaluation_id request)) (Some (now_v7 env db)) ''plan'' (deletion_plan_reason request) ''planned''
         (pr_correlation_id request) db1"
  using assms that by (auto simp: create_deletion_plan_def Let_def split: if_splits)

lemma create_plan_appends:
  assumes "create_deletion_plan env now db request = Inr (outcome, db')"
  shows "(\<exists>new. plans db' = plans db @ new) \<and> minted db \<le> minted db'"
  using assms
proof (cases rule: create_plan_steps)
  case refused
  then show ?thesis by simp
next
  case (created v db1)
  from created(3) show ?thesis by (rule insert_plan_shape) (simp add: created(4))
qed

lemma plan_id_fresh:
  assumes "wf_journal env db" and "inj_on (mint env) {..<k}" and "minted db < k"
  shows "now_v7 env db \<notin> dp_id ` set (plans db)"
proof -
  have "mint env (minted db) \<notin> mint env ` {..<minted db}"
    using assms(2,3) by (auto dest!: inj_onD)
  then show ?thesis using assms(1) by (auto simp: wf_journal_def now_v7_def)
qed

lemma wf_journal_create:
  assumes "create_deletion_plan env now db request = Inr (outcome, db')" and "wf_journal env db"
    and "inj_on (mint env) {..<minted db'}"
  shows "wf_journal env db'"
  using assms(1)
proof (cases rule: create_plan_steps)
  case refused
  with assms(2) show ?thesis by simp
next
  case (created v db1)
  from created(3) obtain a b where row: "db1 = (advance db)\<lparr>plans := plans (advance db)
      @ [new_plan (now_v7 env db) request v (deletion_plan_reason request) a b]\<rparr>"
    "\<forall>p \<in> set (plans (advance db)). open_plan p \<longrightarrow> dp_snapshot p \<noteq> pr_snapshot_id request"
    by (rule insert_plan_shape)
  have "now_v7 env db \<notin> dp_id ` set (plans db)"
    by (rule plan_id_fresh [OF assms(2,3)]) (simp add: created(4) row(1))
  then have "wf_journal env db1"
    using assms(2) row by (auto simp: wf_journal_def now_v7_def lessThan_Suc)
  then show ?thesis by (simp add: created(4))
qed

lemma find_SomeD: "find P xs = Some x \<Longrightarrow> x \<in> set xs \<and> P x"
  by (auto simp: find_Some_iff)

lemma find_plan_Some: "find_plan db i = Some p \<Longrightarrow> p \<in> set (plans db) \<and> dp_id p = i"
  by (auto simp: find_plan_def find_Some_iff)

lemma find_plan_unique:
  assumes "wf_journal env db" and "find_plan db i = Some p" and "q \<in> set (plans db)" and "dp_id q = i"
  shows "q = p"
proof -
  have "inj_on dp_id (set (plans db))" using assms(1) by (simp add: wf_journal_def distinct_map)
  with assms(3,4) find_plan_Some [OF assms(2)] show ?thesis by (auto dest: inj_onD)
qed

lemma wf_journal_write_plan_status:
  assumes "wf_journal env db" and "find_plan db i = Some p" and "open_plan p"
  shows "wf_journal env (write_plan_status db i status)"
  unfolding write_plan_status_def
  by (rule wf_journal_plans_map [OF assms(1)])
    (use find_plan_unique [OF assms(1,2)] assms(3) in \<open>auto split: if_splits\<close>)

lemma wf_journal_abandon:
  assumes "abandon_expired_stage env now clock request p kind db = Inr db'" and "wf_journal env' db"
  shows "wf_journal env' db'"
  using assms
  by (auto simp: abandon_expired_stage_def running_stage_def stage_unit_def split: if_splits
      intro!: wf_journal_stage_audit wf_journal_stages_map)

lemma insert_stage_shape:
  assumes "insert_stage db clock st = Inr db'"
  shows "db' = db\<lparr>stages := stages db @ [st]\<rparr> \<and> stage_insert_guard db clock st
    \<and> (running_stage st \<longrightarrow> stage_unit st \<notin> stage_unit ` set (filter running_stage (stages db)))"
  using assms by (auto simp: insert_stage_def running_stage_def stage_unit_def list_ex_iff split: if_splits)

lemma wf_journal_insert_stage:
  assumes "insert_stage db clock st = Inr db'" and "wf_journal env db"
  shows "wf_journal env db'"
  using insert_stage_shape [OF assms(1)] assms(2) by (simp add: wf_journal_def)

lemma new_claim_sel [simp]:
  "cl_id (new_claim i request kind key now lease) = i"
  "claim_identity (new_claim i request kind key now lease) = (kind, key)"
  "running_claim (new_claim i request kind key now lease)"
  by (simp_all add: new_claim_def claim_identity_def running_claim_def)

lemma release_expired_keeps:
  "claim_identity (release_expired now clock kind key c) = claim_identity c"
  "cl_id (release_expired now clock kind key c) = cl_id c"
  "running_claim (release_expired now clock kind key c) \<Longrightarrow> running_claim c"
  by (auto simp: release_expired_def claim_identity_def running_claim_def split: if_splits)

lemma claim_identity_shape:
  assumes "claim_physical_identity env now clock request lease kind key db = Inr (c, db')"
  shows "c = now_v7 env db
    \<and> db' = advance (db\<lparr>claims := map (release_expired now clock kind key) (claims db)
        @ [new_claim c request kind key now lease]\<rparr>)
    \<and> (kind, key) \<notin> claim_identity ` set (filter running_claim (map (release_expired now clock kind key) (claims db)))"
  using assms
  by (auto simp: claim_physical_identity_def Let_def list_ex_iff claim_identity_def running_claim_def split: if_splits)

lemma wf_journal_claim_identity:
  assumes "claim_physical_identity env now clock request lease kind key db = Inr (c, db')" and "wf_journal env' db"
  shows "wf_journal env' db'"
proof -
  have "wf_journal env' (db\<lparr>claims := map (release_expired now clock kind key) (claims db)\<rparr>)"
    by (rule wf_journal_claims_map [OF assms(2)]) (simp add: release_expired_keeps)
  then show ?thesis
    using claim_identity_shape [OF assms(1)] by (simp add: wf_journal_def lessThan_Suc del: filter_map) blast
qed

lemma load_stage_plan_shape:
  assumes "load_stage_plan db clock i = Inr sp"
  obtains p where "find_plan db i = Some p" "sp_snapshot_id sp = dp_snapshot p" "sp_status sp = dp_status p"
    "sp_automatic sp = dp_automatic p" "sp_grace_active sp \<longleftrightarrow> clock < dp_not_before p"
  using assms that by (auto simp: load_stage_plan_def split: option.splits if_splits)

lemma claim_stage_steps:
  assumes "claim_deletion_stage env now clock db request = Inr (outcome, db')"
  obtains
    (refused) sp why where "load_stage_plan db (clock 0) (cq_plan_id request) = Inr sp"
      "stage_claim_refusal db sp = Some (why, outcome)"
      "db' = stage_audit env now sp (cq_plan_id request) ''refusal'' why ''refused'' db"
  | (shared) sp kind ikind key db1 db2 attempt where "load_stage_plan db (clock 0) (cq_plan_id request) = Inr sp"
      "stage_claim_refusal db sp = None" "stage_identity env db (sp_snapshot_id sp) request = Inr (kind, ikind, key)"
      "advance_plan_for_stage db request (sp_status sp) = Inr db1"
      "abandon_expired_stage env now (clock 1) request sp kind db1 = Inr db2"
      "identity_is_shared db2 (sp_snapshot_id sp) request = Inr True"
      "insert_shared_stage_attempt env now (clock 2) request sp kind db2 = Inr (attempt, db')"
      "outcome = SharedReferenceRetained attempt"
  | (claimed) sp lease kind ikind key db1 db2 db3 db4 attempt claim where
      "load_stage_plan db (clock 0) (cq_plan_id request) = Inr sp" "stage_claim_refusal db sp = None"
      "stage_identity env db (sp_snapshot_id sp) request = Inr (kind, ikind, key)"
      "advance_plan_for_stage db request (sp_status sp) = Inr db1"
      "abandon_expired_stage env now (clock 1) request sp kind db1 = Inr db2"
      "identity_is_shared db2 (sp_snapshot_id sp) request = Inr False"
      "claim_physical_identity env now (clock 2) request lease ikind key db2 = Inr (claim, db3)"
      "insert_stage (advance db3) (clock 3) (new_stage attempt request kind (Some claim)
          (next_ordinal db3 (cq_plan_id request)) ''running'' (now + lease * 1000000) now None) = Inr db4"
      "db' = stage_audit env now sp (cq_plan_id request) ''stage'' kind ''claimed'' db4"
      "outcome = Claimed attempt claim"
proof -
  from assms obtain lease sp where base: "load_stage_plan db (clock 0) (cq_plan_id request) = Inr sp"
    "validate_stage_claim request = Inr lease" by (auto simp: claim_deletion_stage_def)
  show thesis
  proof (cases "stage_claim_refusal db sp")
    case (Some refusal)
    then show thesis using assms base refused by (cases refusal) (auto simp: claim_deletion_stage_def)
  next
    case None
    then show thesis
      using assms base shared claimed
      by (fastforce simp: claim_deletion_stage_def Let_def split: if_splits)
  qed
qed

lemma advance_plan_shape:
  assumes "advance_plan_for_stage db request (dp_status p) = Inr db'" and "find_plan db (cq_plan_id request) = Some p"
  shows "open_plan p \<and> (db' = db \<or> dp_status p = ''planned''
           \<and> db' = write_plan_status db (cq_plan_id request) ''local_deleting'')"
  using assms
  by (auto simp: advance_plan_for_stage_def open_plan_def Let_def split: if_splits DeletionStageKind.splits)

lemma wf_journal_claim:
  assumes "claim_deletion_stage env now clock db request = Inr (outcome, db')" and wf: "wf_journal env' db"
  shows "wf_journal env' db'"
proof -
  have prepared: "wf_journal env' db2"
    if load: "load_stage_plan db (clock 0) (cq_plan_id request) = Inr sp"
      and adv: "advance_plan_for_stage db request (sp_status sp) = Inr db1"
      and aband: "abandon_expired_stage env now (clock 1) request sp kind db1 = Inr db2" for sp kind db1 db2
  proof -
    from load obtain p where p: "find_plan db (cq_plan_id request) = Some p" "sp_status sp = dp_status p"
      by (rule load_stage_plan_shape)
    have "wf_journal env' db1"
      using advance_plan_shape [OF adv [unfolded p(2)] p(1)] wf wf_journal_write_plan_status [OF wf p(1)] by auto
    then show ?thesis by (rule wf_journal_abandon [OF aband])
  qed
  show ?thesis
    using assms(1)
  proof (cases rule: claim_stage_steps)
    case refused
    with wf show ?thesis by simp
  next
    case (shared sp kind ikind key db1 db2 attempt)
    have "wf_journal env' (advance db2)" using prepared [OF shared(1,4,5)] by simp
    with shared(7) show ?thesis
      by (auto simp: insert_shared_stage_attempt_def Let_def dest!: wf_journal_insert_stage)
  next
    case (claimed sp lease kind ikind key db1 db2 db3 db4 attempt claim)
    have "wf_journal env' db3"
      using wf_journal_claim_identity [OF claimed(7)] prepared [OF claimed(1,4,5)] .
    then have "wf_journal env' db4" using wf_journal_insert_stage [OF claimed(8)] by simp
    with claimed(9) show ?thesis by simp
  qed
qed

lemma wf_journal_close:
  assumes "close_stage env now db attempt claim close_row close_claim why outcome = Inr db'" and "wf_journal env' db"
    and "\<And>st. \<not> running_stage (close_row st)" and "\<And>c. \<not> running_claim (close_claim c)"
  shows "wf_journal env' db'"
proof -
  let ?fs = "\<lambda>st. if owned_stage attempt claim st then close_row st else st"
  let ?fc = "\<lambda>c. if cl_id c = claim \<and> cl_outcome c = ''running'' then close_claim c else c"
  from assms(1) obtain st p where row: "find (owned_stage attempt claim) (stages db) = Some st"
    "find_plan db (st_plan st) = Some p"
    by (auto simp: close_stage_def split: option.splits if_splits)
  with assms(1) have db': "db' = append_audit env now (dp_target p) (Some (dp_snapshot p)) None
      (Some (dp_id p)) ''stage'' (why st) outcome (dp_correlation p)
      (db\<lparr>stages := map ?fs (stages db), claims := map ?fc (claims db)\<rparr>)"
    by (auto simp: close_stage_def split: if_splits)
  have "wf_journal env' (db\<lparr>stages := map ?fs (stages db)\<rparr>)"
    by (rule wf_journal_stages_map [OF assms(2)]) (use assms(3) in \<open>auto split: if_splits\<close>)
  then have "wf_journal env' ((db\<lparr>stages := map ?fs (stages db)\<rparr>)
      \<lparr>claims := map ?fc (claims (db\<lparr>stages := map ?fs (stages db)\<rparr>))\<rparr>)"
    by (rule wf_journal_claims_map) (use assms(4) in \<open>auto split: if_splits\<close>)
  then show ?thesis by (simp add: db')
qed

lemma wf_journal_success:
  "record_deletion_stage_success env now db a c = Inr db' \<Longrightarrow> wf_journal env' db \<Longrightarrow> wf_journal env' db'"
  unfolding record_deletion_stage_success_def
  by (erule wf_journal_close) (simp_all add: running_stage_def running_claim_def)

lemma wf_journal_failure:
  "record_deletion_stage_failure env now db a c f = Inr db' \<Longrightarrow> wf_journal env' db \<Longrightarrow> wf_journal env' db'"
  unfolding record_deletion_stage_failure_def
  by (erule wf_journal_close) (simp_all add: running_stage_def running_claim_def)

lemma wf_journal_to_replicas:
  "advance_deletion_plan_to_replicas db i = Inr db' \<Longrightarrow> wf_journal env db \<Longrightarrow> wf_journal env db'"
  by (auto simp: advance_deletion_plan_to_replicas_def open_plan_def split: option.splits if_splits
      intro!: wf_journal_write_plan_status)

lemma complete_target_frame:
  assumes "complete_target_if_ready now clock db t tb = Inr db'"
  shows "plans db' = plans db \<and> stages db' = stages db \<and> claims db' = claims db \<and> minted db' = minted db
    \<and> snapshots db' = snapshots db \<and> artifacts db' = artifacts db"
  using assms
  by (auto simp: complete_target_if_ready_def write_status_def Let_def split: if_splits option.splits)

definition completed_row :: "timestamp \<Rightarrow> uuid \<Rightarrow> PlanRow \<Rightarrow> PlanRow" where
  "completed_row now i q = (if dp_id q = i then q\<lparr>dp_status := ''completed'', dp_completed_at := Some now\<rparr> else q)"

lemma complete_plan_shape:
  assumes "complete_deletion_plan env now clock db i = Inr db'"
  obtains p where "find_plan db i = Some p" "plan_status_guard db p ''completed''"
    "plans db' = map (completed_row now i) (plans db)" "stages db' = stages db" "claims db' = claims db"
    "minted db \<le> minted db'" "artifacts db' = artifacts db"
    "snapshots db' = map (\<lambda>sn. if sn_id sn = dp_snapshot p then sn\<lparr>sn_status := ''deleted''\<rparr> else sn) (snapshots db)"
proof -
  from assms obtain p where p: "find_plan db i = Some p" "plan_status_guard db p ''completed''"
    by (auto simp: complete_deletion_plan_def split: option.splits if_splits)
  show thesis
    by (rule that [OF p]) (use assms p in \<open>auto simp: complete_deletion_plan_def completed_row_def Let_def
        split: option.splits dest!: complete_target_frame\<close>)
qed

lemma wf_journal_complete:
  assumes "complete_deletion_plan env now clock db i = Inr db'" and "wf_journal env' db"
  shows "wf_journal env' db'"
  using assms(1)
proof (rule complete_plan_shape)
  assume db': "plans db' = map (completed_row now i) (plans db)" "stages db' = stages db" "claims db' = claims db"
    "minted db \<le> minted db'"
  have "wf_journal env' (db\<lparr>plans := map (completed_row now i) (plans db)\<rparr>)"
    by (rule wf_journal_plans_map [OF assms(2)]) (auto simp: completed_row_def open_plan_def split: if_splits)
  then show ?thesis by (rule wf_journal_frame) (use db' in simp_all)
qed

text \<open>The transactions of the other components.\<close>

definition cancelled_row :: "timestamp \<Rightarrow> uuid \<Rightarrow> PlanRow \<Rightarrow> PlanRow" where
  "cancelled_row now tombstone p =
     (if dp_tombstone p = Some tombstone \<and> dp_automatic p \<and> dp_status p = ''planned''
      then p\<lparr>dp_status := ''cancelled'', dp_cancelled_at := Some now\<rparr> else p)"

definition journal_kept :: "vault_db \<Rightarrow> vault_db \<Rightarrow> bool" where
  "journal_kept db db' \<longleftrightarrow> stages db' = stages db \<and> claims db' = claims db \<and> minted db \<le> minted db'
     \<and> snapshots db' = snapshots db \<and> artifacts db' = artifacts db"

lemma journal_kept_trans: "journal_kept a b \<Longrightarrow> journal_kept b c \<Longrightarrow> journal_kept a c"
  by (simp add: journal_kept_def)

lemma cancel_plans:
  assumes "cancel_target_tombstone env now db t c = Inr db'"
  shows "journal_kept db db' \<and> (plans db' = plans db \<or> (\<exists>tb. plans db' = map (cancelled_row now tb) (plans db)))"
proof (cases "find (\<lambda>tb. tb_target tb = t \<and> active_tombstone tb) (tombstones db)")
  case None
  then show ?thesis using assms by (simp add: cancel_target_tombstone_def journal_kept_def)
next
  case (Some tb)
  then have "plans db' = map (cancelled_row now (tb_id tb)) (plans db)" "journal_kept db db'"
    using assms by (auto simp: cancel_target_tombstone_def cancelled_row_def [abs_def] journal_kept_def Let_def
        simp del: map_eq_conv split: if_splits)
  then show ?thesis by blast
qed

lemma single_write_plans:
  "insert_revision db row = Inr db' \<Longrightarrow> journal_kept db db' \<and> plans db' = plans db"
  "create_target_tombstone env now db t n c = Inr db' \<Longrightarrow> journal_kept db db' \<and> plans db' = plans db"
  "guarded_status_update db clock t s = Inr db' \<Longrightarrow> journal_kept db db' \<and> plans db' = plans db"
  "ensure_target env now db p e n cor = Inr (t', db') \<Longrightarrow> journal_kept db db' \<and> plans db' = plans db"
  "journal_kept db (emit_state_changed env now t f to n cor db) \<and> plans (emit_state_changed env now t f to n cor db) = plans db"
  by (auto simp: insert_revision_def create_target_tombstone_def guarded_status_update_def ensure_target_def
      write_status_def journal_kept_def emit_state_changed_def advance_def Let_def split: option.splits if_splits)

lemma transition_plans:
  assumes "apply_transition env now db t to g = Inr db'"
  shows "journal_kept db db' \<and> (plans db' = plans db \<or> (\<exists>tb. plans db' = map (cancelled_row now tb) (plans db)))"
  using assms
proof (cases rule: apply_transition_steps)
  case (1 n c db1 row db2 db3)
  have "journal_kept db db1 \<and> plans db1 = plans db" by (rule single_write_plans(1) [OF 1(2)])
  moreover have "journal_kept db1 db2 \<and> (plans db2 = plans db1 \<or> (\<exists>tb. plans db2 = map (cancelled_row now tb) (plans db1)))"
    using 1(4) single_write_plans(2) cancel_plans
    by (auto simp: apply_target_retention_transition_def journal_kept_def split: if_splits TargetStatus.splits)
  moreover have "journal_kept db2 db3 \<and> plans db3 = plans db2" by (rule single_write_plans(3) [OF 1(5)])
  moreover have "journal_kept db3 db' \<and> plans db' = plans db3"
    using 1(6) single_write_plans(5) by (auto simp: journal_kept_def split: if_splits)
  ultimately show ?thesis using journal_kept_trans by metis
qed

lemma ingest_plans:
  assumes "ingest_delivery env now db p e s m d = Inr (t, db')"
  shows "journal_kept db db' \<and> plans db' = plans db"
  using assms
proof (cases rule: ingest_steps)
  case (1 n c db1)
  have "journal_kept (db\<lparr>inbox := inbox db @ [(s, m)]\<rparr>) db1 \<and> plans db1 = plans (db\<lparr>inbox := inbox db @ [(s, m)]\<rparr>)"
    by (rule single_write_plans(4) [OF 1(3)])
  moreover have "journal_kept db1 db' \<and> plans db' = plans db1" by (rule single_write_plans(1) [OF 1(4)])
  ultimately show ?thesis by (simp add: journal_kept_def)
qed

lemma wf_journal_transition:
  assumes "apply_transition env now db t to g = Inr db'" and "wf_journal env' db"
  shows "wf_journal env' db'"
proof -
  have cancelled: "wf_journal env' (db\<lparr>plans := map (cancelled_row now tb) (plans db)\<rparr>)" for tb
    by (rule wf_journal_plans_map [OF assms(2)]) (auto simp: cancelled_row_def open_plan_def split: if_splits)
  from transition_plans [OF assms(1)] show ?thesis
  proof (elim conjE disjE exE)
    assume "journal_kept db db'" "plans db' = plans db"
    then show ?thesis by (intro wf_journal_frame [OF assms(2)]) (simp_all add: journal_kept_def)
  next
    fix tb assume "journal_kept db db'" "plans db' = map (cancelled_row now tb) (plans db)"
    then show ?thesis by (intro wf_journal_frame [OF cancelled [of tb]]) (simp_all add: journal_kept_def)
  qed
qed

subsection \<open>Transactions as steps\<close>

text \<open>
  One committed transaction of the store. The transactions that fill the tables of the mirrors,
  the snapshots, the replicas, the collectors, the verification reports and the policies, enroll a wiki as a target,
  record a policy decision or append to the outbox are covered by \<open>evidence\<close>, which lets those tables change in
  any way.
\<close>

inductive store_step :: "store_env \<Rightarrow> vault_db \<Rightarrow> vault_db \<Rightarrow> bool" for env :: store_env where
  pin: "pin_snapshot_tx env now db s src reference correlation = Inr (i, db') \<Longrightarrow> store_step env db db'"
| unpin: "revoke_snapshot_pin env now db i correlation = Inr db' \<Longrightarrow> store_step env db db'"
| evaluate: "record_retention_evaluation env now db evaluation = Inr (e, db') \<Longrightarrow> store_step env db db'"
| plan_deletion: "create_deletion_plan env now db request = Inr (outcome, db') \<Longrightarrow> store_step env db db'"
| claim: "claim_deletion_stage env now clocks db stage = Inr (claim_outcome, db') \<Longrightarrow> store_step env db db'"
| succeed: "record_deletion_stage_success env now db attempt c = Inr db' \<Longrightarrow> store_step env db db'"
| fail: "record_deletion_stage_failure env now db attempt c failure = Inr db' \<Longrightarrow> store_step env db db'"
| to_replicas: "advance_deletion_plan_to_replicas db i = Inr db' \<Longrightarrow> store_step env db db'"
| complete: "complete_deletion_plan env now clock db i = Inr db' \<Longrightarrow> store_step env db db'"
| transition: "apply_transition env now db t to g = Inr db' \<Longrightarrow> store_step env db db'"
| status: "set_target_status db clock t to = Inr db' \<Longrightarrow> store_step env db db'"
| ingest: "ingest_delivery env now db p e src m d = Inr (t, db') \<Longrightarrow> store_step env db db'"
| evidence: "minted db \<le> n \<Longrightarrow>
    store_step env db (db\<lparr>targets := tgs, revisions := rvs, outbox := obs, snapshots := sns, artifacts := ars, mirrors := mrs, mirror_runs := lrs, reservations := qrs,
      lfs_objects := los, manifests := mfs, replica_targets := rts, replication_attempts := ras, placements := rps,
      collector_runs := crs, integrity_checks := ics, restore_drills := rds, retention_policies := pos,
      commands := cms, minted := n\<rparr>)"

lemma store_step_evidence:
  assumes "inbox db' = inbox db" and "tombstones db' = tombstones db" and "plans db' = plans db" and "stages db' = stages db" and "claims db' = claims db"
    and "pins db' = pins db" and "evaluations db' = evaluations db" and "candidates db' = candidates db"
    and "audit db' = audit db" and "minted db \<le> minted db'"
  shows "store_step env db db'"
proof -
  have "db' = db\<lparr>targets := targets db', revisions := revisions db', outbox := outbox db', snapshots := snapshots db', artifacts := artifacts db', mirrors := mirrors db', mirror_runs := mirror_runs db',
      reservations := reservations db', lfs_objects := lfs_objects db', manifests := manifests db',
      replica_targets := replica_targets db', replication_attempts := replication_attempts db', placements := placements db',
      collector_runs := collector_runs db', integrity_checks := integrity_checks db', restore_drills := restore_drills db',
      retention_policies := retention_policies db', commands := commands db', minted := minted db'\<rparr>"
    using assms by simp
  then show ?thesis using store_step.evidence [OF assms(10)] by metis
qed

lemma wf_journal_step:
  assumes "store_step env db db'" and "wf_journal env db" and "inj_on (mint env) {..<minted db'}"
  shows "wf_journal env db'"
  using assms
proof (cases rule: store_step.cases)
  case pin
  then show ?thesis using pin_frame assms(2) wf_journal_frame by blast
next
  case unpin
  then show ?thesis using revoke_frame assms(2) wf_journal_frame by blast
next
  case evaluate
  then show ?thesis using evaluation_frame assms(2) wf_journal_frame by blast
next
  case (status clock t to)
  then show ?thesis
    using single_write_plans(3) assms(2) wf_journal_frame unfolding set_target_status_def journal_kept_def by blast
next
  case ingest
  then show ?thesis using ingest_plans assms(2) wf_journal_frame unfolding journal_kept_def by blast
next
  case evidence
  then show ?thesis by (intro wf_journal_frame [OF assms(2)]) simp_all
next
  case plan_deletion
  then show ?thesis by (rule wf_journal_create [OF _ assms(2,3)])
next
  case claim
  then show ?thesis by (rule wf_journal_claim [OF _ assms(2)])
next
  case succeed
  then show ?thesis by (rule wf_journal_success [OF _ assms(2)])
next
  case fail
  then show ?thesis by (rule wf_journal_failure [OF _ assms(2)])
next
  case to_replicas
  then show ?thesis by (rule wf_journal_to_replicas [OF _ assms(2)])
next
  case complete
  then show ?thesis by (rule wf_journal_complete [OF _ assms(2)])
next
  case transition
  then show ?thesis by (rule wf_journal_transition [OF _ assms(2)])
qed

subsection \<open>The life cycle of a plan\<close>

text \<open>
  The abstract specification: a plan is planned, deletes its local bytes, then its replicas, and is
  completed; only a plan that has not started may be cancelled. Nothing else happens to it.
\<close>

datatype plan_phase = Planned | DeletingLocal | DeletingReplicas | Finished | Withdrawn

definition phase_of :: "string \<Rightarrow> plan_phase option" where
  "phase_of s =
     (if s = ''planned'' then Some Planned else if s = ''local_deleting'' then Some DeletingLocal
      else if s = ''replica_deleting'' then Some DeletingReplicas else if s = ''completed'' then Some Finished
      else if s = ''cancelled'' then Some Withdrawn else None)"

definition plan_journal :: "vault_db \<Rightarrow> uuid \<Rightarrow> plan_phase option" where
  "plan_journal db i = Option.bind (find_plan db i) (\<lambda>p. phase_of (dp_status p))"

inductive journal_step :: "(uuid \<Rightarrow> plan_phase option) \<Rightarrow> (uuid \<Rightarrow> plan_phase option) \<Rightarrow> bool" where
  idle: "journal_step j j"
| create: "j i = None \<Longrightarrow> journal_step j (j(i \<mapsto> Planned))"
| begin_local: "j i = Some Planned \<Longrightarrow> journal_step j (j(i \<mapsto> DeletingLocal))"
| begin_replicas: "j i = Some DeletingLocal \<Longrightarrow> journal_step j (j(i \<mapsto> DeletingReplicas))"
| finish: "j i = Some DeletingReplicas \<Longrightarrow> journal_step j (j(i \<mapsto> Finished))"
| withdraw: "\<forall>i \<in> withdrawn. j i = Some Planned \<Longrightarrow>
    journal_step j (\<lambda>i. if i \<in> withdrawn then Some Withdrawn else j i)"

lemma find_map: "find P (map f xs) = map_option f (find (\<lambda>x. P (f x)) xs)"
  by (induction xs) auto

lemma find_append: "find P (xs @ ys) = (case find P xs of None \<Rightarrow> find P ys | Some x \<Rightarrow> Some x)"
  by (induction xs) auto

lemma find_plan_map:
  assumes "plans db' = map f (plans db)" and "\<And>p. dp_id (f p) = dp_id p"
  shows "find_plan db' i = map_option f (find_plan db i)"
  using assms by (simp add: find_plan_def find_map)

lemma plan_journal_frame: "plans db' = plans db \<Longrightarrow> plan_journal db' = plan_journal db"
  by (simp add: plan_journal_def find_plan_def fun_eq_iff)

lemma journal_step_frame:
  assumes "journal_step j (plan_journal db)" and "plans db' = plans db"
  shows "journal_step j (plan_journal db')"
  using assms(1) plan_journal_frame [OF assms(2)] by simp

lemma journal_step_idle: "plans db' = plans db \<Longrightarrow> journal_step (plan_journal db) (plan_journal db')"
  by (rule journal_step_frame [OF journal_step.idle])

lemma plan_journal_one:
  assumes "plans db' = map (\<lambda>q. if dp_id q = i then g q else q) (plans db)" and "\<And>q. dp_id (g q) = dp_id q"
    and "find_plan db i = Some p" and "phase_of (dp_status (g p)) = Some ph"
  shows "plan_journal db' = (plan_journal db)(i \<mapsto> ph)"
proof
  fix k
  have found: "find_plan db' k = map_option (\<lambda>q. if dp_id q = i then g q else q) (find_plan db k)"
    by (rule find_plan_map [OF assms(1)]) (simp add: assms(2))
  show "plan_journal db' k = ((plan_journal db)(i \<mapsto> ph)) k"
  proof (cases "find_plan db k")
    case None
    with found assms(3) show ?thesis by (auto simp: plan_journal_def)
  next
    case (Some q)
    then have "dp_id q = k" using find_plan_Some by blast
    with found Some assms(3,4) show ?thesis by (cases "k = i") (simp_all add: plan_journal_def)
  qed
qed

lemma phase_of_simps [simp]:
  "phase_of ''planned'' = Some Planned" "phase_of ''local_deleting'' = Some DeletingLocal"
  "phase_of ''replica_deleting'' = Some DeletingReplicas" "phase_of ''completed'' = Some Finished"
  "phase_of ''cancelled'' = Some Withdrawn"
  by (simp_all add: phase_of_def)

lemma journal_cancelled:
  assumes "plans db' = map (cancelled_row now tb) (plans db)"
  shows "journal_step (plan_journal db) (plan_journal db')"
proof -
  let ?cancel = "\<lambda>p. dp_tombstone p = Some tb \<and> dp_automatic p \<and> dp_status p = ''planned''"
  define withdrawn where "withdrawn = {i. \<exists>p. find_plan db i = Some p \<and> ?cancel p}"
  have found: "find_plan db' k = map_option (cancelled_row now tb) (find_plan db k)" for k
    by (rule find_plan_map [OF assms]) (simp add: cancelled_row_def)
  have "plan_journal db' = (\<lambda>i. if i \<in> withdrawn then Some Withdrawn else plan_journal db i)"
  proof
    fix k
    show "plan_journal db' k = (if k \<in> withdrawn then Some Withdrawn else plan_journal db k)"
    proof (cases "find_plan db k")
      case (Some q)
      then show ?thesis
        by (cases "?cancel q") (auto simp: found plan_journal_def withdrawn_def cancelled_row_def)
    qed (simp add: found plan_journal_def withdrawn_def)
  qed
  moreover have "\<forall>i \<in> withdrawn. plan_journal db i = Some Planned"
    by (auto simp: withdrawn_def plan_journal_def)
  ultimately show ?thesis by (simp add: journal_step.withdraw)
qed

lemma journal_created:
  assumes "create_deletion_plan env now db request = Inr (outcome, db')" and "wf_journal env db"
    and "inj_on (mint env) {..<minted db'}"
  shows "journal_step (plan_journal db) (plan_journal db')"
  using assms(1)
proof (cases rule: create_plan_steps)
  case refused
  then show ?thesis by (intro journal_step_idle) simp
next
  case (created v db1)
  from created(3) obtain a b where row: "db1 = (advance db)\<lparr>plans := plans (advance db)
      @ [new_plan (now_v7 env db) request v (deletion_plan_reason request) a b]\<rparr>"
    by (rule insert_plan_shape)
  have none: "find_plan db (now_v7 env db) = None"
    using plan_id_fresh [OF assms(2,3)] by (force simp: find_plan_def find_None_iff created(4) row)
  have "plan_journal db' = (plan_journal db)(now_v7 env db \<mapsto> Planned)"
  proof
    fix k
    have "find_plan db' k = (case find_plan db k of
        Some p \<Rightarrow> Some p
      | None \<Rightarrow> if k = now_v7 env db then Some (new_plan k request v (deletion_plan_reason request) a b) else None)"
      by (auto simp: find_plan_def created(4) row find_append split: option.splits)
    then show "plan_journal db' k = ((plan_journal db)(now_v7 env db \<mapsto> Planned)) k"
      using none by (auto simp: plan_journal_def split: option.splits)
  qed
  then show ?thesis
    using none by (simp add: journal_step.create plan_journal_def)
qed

lemma claim_plans:
  assumes "claim_deletion_stage env now clock db request = Inr (outcome, db')"
  obtains p where "find_plan db (cq_plan_id request) = Some p"
    "plans db' = plans db \<or> dp_status p = ''planned''
       \<and> plans db' = plans (write_plan_status db (cq_plan_id request) ''local_deleting'')"
proof -
  note found = that
  have advanced: thesis
    if load: "load_stage_plan db (clock 0) (cq_plan_id request) = Inr sp"
      and adv: "advance_plan_for_stage db request (sp_status sp) = Inr db1"
      and aband: "abandon_expired_stage env now (clock 1) request sp kind db1 = Inr db2"
      and rest: "plans db' = plans db2" for sp kind db1 db2
  proof -
    from load obtain p where p: "find_plan db (cq_plan_id request) = Some p" "sp_status sp = dp_status p"
      by (rule load_stage_plan_shape)
    have "plans db' = plans db1"
      using rest aband by (auto simp: abandon_expired_stage_def stage_audit_def split: if_splits)
    then show thesis using advance_plan_shape [OF adv [unfolded p(2)] p(1)] found [OF p(1)] by auto
  qed
  show thesis
    using assms
  proof (cases rule: claim_stage_steps)
    case (refused sp why)
    then show thesis using found load_stage_plan_shape [OF refused(1)] by (metis stage_audit_def journal_append_audit(1))
  next
    case (shared sp kind ikind key db1 db2 attempt)
    show thesis
      by (rule advanced [OF shared(1,4,5)])
        (use shared(7) in \<open>auto simp: insert_shared_stage_attempt_def stage_audit_def Let_def dest!: insert_stage_shape\<close>)
  next
    case (claimed sp lease kind ikind key db1 db2 db3 db4 attempt claim)
    show thesis
      by (rule advanced [OF claimed(1,4,5)])
        (use claim_identity_shape [OF claimed(7)] insert_stage_shape [OF claimed(8)]
          in \<open>auto simp: claimed(9) stage_audit_def\<close>)
  qed
qed

lemma journal_written:
  assumes "find_plan db i = Some p" and "phase_of status = Some ph" and "plans db' = plans (write_plan_status db i status)"
  shows "plan_journal db' = (plan_journal db)(i \<mapsto> ph)"
  by (rule plan_journal_one [OF _ _ assms(1), where g = "\<lambda>q. q\<lparr>dp_status := status\<rparr>"])
    (simp_all add: assms(2,3) write_plan_status_def)

lemma journal_claimed:
  assumes "claim_deletion_stage env now clock db request = Inr (outcome, db')"
  shows "journal_step (plan_journal db) (plan_journal db')"
  using assms
proof (rule claim_plans)
  fix p assume p: "find_plan db (cq_plan_id request) = Some p"
    and "plans db' = plans db \<or> dp_status p = ''planned''
       \<and> plans db' = plans (write_plan_status db (cq_plan_id request) ''local_deleting'')"
  then show ?thesis
  proof (elim disjE conjE)
    assume w: "dp_status p = ''planned''" "plans db' = plans (write_plan_status db (cq_plan_id request) ''local_deleting'')"
    have "plan_journal db' = (plan_journal db)(cq_plan_id request \<mapsto> DeletingLocal)"
      by (rule journal_written [OF p _ w(2)]) simp
    then show ?thesis using p w(1) by (simp add: journal_step.begin_local plan_journal_def)
  qed (rule journal_step_idle)
qed

lemma close_plans:
  assumes "close_stage env now db attempt claim close_row close_claim why outcome = Inr db'"
  shows "plans db' = plans db"
  using assms by (auto simp: close_stage_def split: option.splits if_splits)

text \<open>What never changes of a plan once it is written.\<close>

definition plan_identity :: "PlanRow \<Rightarrow> PlanRow" where
  "plan_identity p = p\<lparr>dp_status := '''', dp_cancelled_at := None, dp_completed_at := None\<rparr>"

definition plans_kept :: "vault_db \<Rightarrow> vault_db \<Rightarrow> bool" where
  "plans_kept db db' \<longleftrightarrow> (\<exists>f new. plans db' = map f (plans db) @ new \<and> (\<forall>p. plan_identity (f p) = plan_identity p))"

lemma plans_kept_eq: "plans db' = plans db \<Longrightarrow> plans_kept db db'"
  unfolding plans_kept_def by (rule exI [of _ id]) simp

lemma plans_kept_map: "plans db' = map f (plans db) \<Longrightarrow> (\<And>p. plan_identity (f p) = plan_identity p) \<Longrightarrow> plans_kept db db'"
  unfolding plans_kept_def by auto

lemma plans_kept_append: "plans db' = plans db @ new \<Longrightarrow> plans_kept db db'"
  unfolding plans_kept_def by (rule exI [of _ id]) simp

lemma plans_kept_frame: "plans_kept db db1 \<Longrightarrow> plans db' = plans db1 \<Longrightarrow> plans_kept db db'"
  by (simp add: plans_kept_def)

lemma write_plan_status_kept: "plans_kept db (write_plan_status db i status)"
  by (rule plans_kept_map [where f = "\<lambda>p. if dp_id p = i then p\<lparr>dp_status := status\<rparr> else p"])
    (simp_all add: write_plan_status_def plan_identity_def)

text \<open>Every step refines a step of the life cycle and keeps the identity of every plan.\<close>

lemma store_step_plans:
  assumes "store_step env db db'" and "wf_journal env db" and "inj_on (mint env) {..<minted db'}"
  shows "journal_step (plan_journal db) (plan_journal db') \<and> plans_kept db db'"
proof -
  have unchanged: ?thesis if "plans db' = plans db"
    using that journal_step_idle plans_kept_eq by blast
  show ?thesis
    using assms(1)
proof (cases rule: store_step.cases)
  case (plan_deletion now request outcome)
  then show ?thesis
    using journal_created [OF plan_deletion assms(2,3)] create_plan_appends [OF plan_deletion]
    by (auto intro: plans_kept_append)
next
  case (claim now clocks stage claim_outcome)
  have "plans_kept db db'"
    using claim by (rule claim_plans) (auto intro: plans_kept_eq plans_kept_frame [OF write_plan_status_kept])
  then show ?thesis using journal_claimed [OF claim] by simp
next
  case (to_replicas i)
  then obtain p where p: "find_plan db i = Some p" "dp_status p = ''local_deleting''"
    and db': "db' = write_plan_status db i ''replica_deleting''"
    by (auto simp: advance_deletion_plan_to_replicas_def split: option.splits if_splits)
  have "plan_journal db' = (plan_journal db)(i \<mapsto> DeletingReplicas)"
    by (rule journal_written [OF p(1), of "''replica_deleting''"]) (simp_all add: db')
  then show ?thesis
    using p by (simp add: journal_step.begin_replicas plan_journal_def db' write_plan_status_kept)
next
  case (complete now clock i)
  then show ?thesis
  proof (rule complete_plan_shape)
    fix p assume p: "find_plan db i = Some p" "plan_status_guard db p ''completed''"
      and db': "plans db' = map (completed_row now i) (plans db)"
    have "plan_journal db' = (plan_journal db)(i \<mapsto> Finished)"
      by (rule plan_journal_one [OF _ _ p(1), where
            g = "\<lambda>q. q\<lparr>dp_status := ''completed'', dp_completed_at := Some now\<rparr>"])
        (simp_all add: db' completed_row_def [abs_def])
    moreover have "plan_journal db i = Some DeletingReplicas"
      using p by (simp add: plan_journal_def plan_status_guard_def)
    moreover have "plans_kept db db'"
      by (rule plans_kept_map [OF db']) (simp add: completed_row_def plan_identity_def)
    ultimately show ?thesis by (simp add: journal_step.finish)
  qed
next
  case (transition now t to g)
  have kept: "plan_identity (cancelled_row now tb p) = plan_identity p" for tb p
    by (simp add: cancelled_row_def plan_identity_def)
  from transition_plans [OF transition] show ?thesis
    by (auto intro: journal_step_idle plans_kept_eq journal_cancelled plans_kept_map [OF _ kept])
next
  case pin
  then show ?thesis using pin_frame unchanged by blast
next
  case unpin
  then show ?thesis using revoke_frame unchanged by blast
next
  case evaluate
  then show ?thesis using evaluation_frame unchanged by blast
next
  case succeed
  then show ?thesis using close_plans unchanged unfolding record_deletion_stage_success_def by blast
next
  case fail
  then show ?thesis using close_plans unchanged unfolding record_deletion_stage_failure_def by blast
next
  case status
  then show ?thesis using single_write_plans(3) unchanged unfolding set_target_status_def by blast
next
  case ingest
  then show ?thesis using ingest_plans unchanged by blast
next
  case evidence
  then show ?thesis using unchanged by simp
qed
qed

lemma prepared_frame:
  assumes "advance_plan_for_stage db request status = Inr db1"
    and "abandon_expired_stage env now clock request sp kind db1 = Inr db2"
  shows "minted db \<le> minted db2 \<and> artifacts db2 = artifacts db \<and> snapshots db2 = snapshots db
    \<and> placements db2 = placements db"
proof -
  have "minted db1 = minted db" "artifacts db1 = artifacts db" "snapshots db1 = snapshots db" "placements db1 = placements db"
    using assms(1) by (auto simp: advance_plan_for_stage_def write_plan_status_def Let_def split: if_splits)
  then show ?thesis
    using assms(2) by (auto simp: abandon_expired_stage_def stage_audit_def append_audit_def advance_def split: if_splits)
qed

lemma claim_minted:
  assumes "claim_deletion_stage env now clock db request = Inr (outcome, db')"
  shows "minted db \<le> minted db'"
  using assms
proof (cases rule: claim_stage_steps)
  case refused
  then show ?thesis by (simp add: stage_audit_def)
next
  case (shared sp kind ikind key db1 db2 attempt)
  have "minted db2 \<le> minted db'"
    using shared(7) by (auto simp: insert_shared_stage_attempt_def stage_audit_def Let_def dest!: insert_stage_shape)
  then show ?thesis using prepared_frame [OF shared(4,5)] by simp
next
  case (claimed sp lease kind ikind key db1 db2 db3 db4 attempt claim)
  have "minted db2 \<le> minted db'"
    using claim_identity_shape [OF claimed(7)] insert_stage_shape [OF claimed(8)]
    by (auto simp: claimed(9) stage_audit_def)
  then show ?thesis using prepared_frame [OF claimed(4,5)] by simp
qed

lemma close_minted:
  "close_stage env now db attempt claim close_row close_claim why outcome = Inr db' \<Longrightarrow> minted db \<le> minted db'"
  by (auto simp: close_stage_def split: option.splits if_splits)

lemma store_step_minted:
  assumes "store_step env db db'"
  shows "minted db \<le> minted db'"
  using assms
proof (cases rule: store_step.cases)
  case pin
  then show ?thesis using pin_frame by blast
next
  case unpin
  then show ?thesis using revoke_frame by blast
next
  case evaluate
  then show ?thesis using evaluation_frame by blast
next
  case plan_deletion
  then show ?thesis using create_plan_appends by blast
next
  case claim
  then show ?thesis by (rule claim_minted)
next
  case succeed
  then show ?thesis unfolding record_deletion_stage_success_def by (rule close_minted)
next
  case fail
  then show ?thesis unfolding record_deletion_stage_failure_def by (rule close_minted)
next
  case to_replicas
  then show ?thesis
    by (auto simp: advance_deletion_plan_to_replicas_def write_plan_status_def split: option.splits if_splits)
next
  case complete
  then show ?thesis by (rule complete_plan_shape)
next
  case transition
  then show ?thesis using transition_plans unfolding journal_kept_def by blast
next
  case status
  then show ?thesis using single_write_plans(3) unfolding set_target_status_def journal_kept_def by blast
next
  case ingest
  then show ?thesis using ingest_plans unfolding journal_kept_def by blast
next
  case evidence
  then show ?thesis by simp
qed

subsection \<open>Properties\<close>

text \<open>
  C16. The store implements the life cycle of deletion plans: every committed transaction, of any
  component, moves the plans by exactly one step of the abstract machine (or leaves them), so a plan
  never skips a phase, never returns from a terminal one and is withdrawn only before it started; and
  nothing else of a plan, its deadline and snapshot in particular, ever changes.
\<close>

theorem deletion_plans_follow_life_cycle:
  assumes "store_step env db db'" and "wf_journal env db" and "inj_on (mint env) {..<minted db'}"
  shows "journal_step (plan_journal db) (plan_journal db')
    \<and> (\<forall>p \<in> set (plans db). \<exists>q \<in> set (plans db'). plan_identity q = plan_identity p)"
proof -
  from store_step_plans [OF assms] obtain f new where step: "journal_step (plan_journal db) (plan_journal db')"
    and kept: "plans db' = map f (plans db) @ new" "\<forall>p. plan_identity (f p) = plan_identity p"
    by (auto simp: plans_kept_def)
  have "\<exists>q \<in> set (plans db'). plan_identity q = plan_identity p" if "p \<in> set (plans db)" for p
    using that kept by (intro bexI [of _ "f p"]) simp_all
  with step show ?thesis by blast
qed

lemma wf_journal_reachable:
  assumes "(store_step env)\<^sup>*\<^sup>* db db'" and "wf_journal env db" and "inj_on (mint env) {..<minted db'}"
  shows "wf_journal env db'"
  using assms
proof (induction rule: rtranclp_induct)
  case (step db1 db2)
  have "inj_on (mint env) {..<minted db1}"
    using step.prems(2) store_step_minted [OF step.hyps(2)] inj_on_less by blast
  with step show ?case using wf_journal_step by blast
qed

text \<open>
  C17. Exclusive work: in every database reachable from the empty one by any sequence of
  transactions, no snapshot has two open deletion plans, no physical object has two live claims and
  no stage of a plan has two live attempts.
\<close>

theorem journal_work_is_exclusive:
  assumes "(store_step env)\<^sup>*\<^sup>* empty_db db" and "inj_on (mint env) {..<minted db}"
  shows "distinct (map dp_snapshot (filter open_plan (plans db)))
    \<and> distinct (map claim_identity (filter running_claim (claims db)))
    \<and> distinct (map stage_unit (filter running_stage (stages db)))"
  using wf_journal_reachable [OF assms(1) wf_journal_empty assms(2)] by (simp add: wf_journal_def)

lemma claimed_stage_facts:
  assumes "claim_deletion_stage env now clock db request = Inr (Claimed attempt claim, db')"
  obtains p kind ikind key db2 where "find_plan db (cq_plan_id request) = Some p" "dp_not_before p \<le> clock 0"
    "\<not> (dp_automatic p \<and> snapshot_is_pinned db (dp_snapshot p))" "open_plan p"
    "stage_identity env db (dp_snapshot p) request = Inr (kind, ikind, key)"
    "identity_is_shared db2 (dp_snapshot p) request = Inr False"
    "artifacts db2 = artifacts db" "snapshots db2 = snapshots db" "placements db2 = placements db"
  using assms
proof (cases rule: claim_stage_steps)
  case (refused sp why)
  then show thesis by (auto simp: stage_claim_refusal_def split: if_splits)
next
  case (claimed sp lease kind ikind key db1 db2 db3 db4 attempt' claim')
  from claimed(1) obtain p where p: "find_plan db (cq_plan_id request) = Some p" "sp_snapshot_id sp = dp_snapshot p"
    "sp_status sp = dp_status p" "sp_automatic sp = dp_automatic p" "sp_grace_active sp \<longleftrightarrow> clock 0 < dp_not_before p"
    by (rule load_stage_plan_shape)
  have "artifacts db2 = artifacts db" "snapshots db2 = snapshots db" "placements db2 = placements db"
    using prepared_frame [OF claimed(4,5)] by simp_all
  moreover have "open_plan p" using advance_plan_shape [OF claimed(4) [unfolded p(3)] p(1)] by blast
  ultimately show thesis
    using claimed(2,3,6) p that by (auto simp: stage_claim_refusal_def split: if_splits)
qed simp

text \<open>
  What a stage would remove is shared: another artifact of a snapshot that is still retained has the same
  digest, or another placement of such an artifact names the same object of the same replica.
\<close>

definition unshared :: "vault_db \<Rightarrow> uuid \<Rightarrow> ArtifactRow \<Rightarrow> bool" where
  "unshared db snap ar \<longleftrightarrow>
     (\<forall>other \<in> set (artifacts db). ar_sha256 other = ar_sha256 ar \<and> ar_id other \<noteq> ar_id ar \<longrightarrow>
        \<not> retained_elsewhere db snap (ar_snapshot other))"

definition unshared_object :: "vault_db \<Rightarrow> uuid \<Rightarrow> PlacementRow \<Rightarrow> bool" where
  "unshared_object db snap rp \<longleftrightarrow>
     (\<forall>other \<in> set (placements db). \<forall>ar \<in> set (artifacts db).
        rp_replica_target other = rp_replica_target rp \<and> rp_object_key other = rp_object_key rp
        \<and> rp_id other \<noteq> rp_id rp \<and> rp_artifact other = ar_id ar \<longrightarrow>
        \<not> retained_elsewhere db snap (ar_snapshot ar))"

lemma claimed_local_unshared:
  assumes "stage_identity env db snap request = Inr (kind, ikind, key)" and "identity_is_shared db2 snap request = Inr False"
    and "cq_kind request = Local" and "artifacts db2 = artifacts db" and "snapshots db2 = snapshots db"
  obtains ar where "ar \<in> set (artifacts db)" "cq_artifact_id request = Some (ar_id ar)" "ar_snapshot ar = snap"
    "\<forall>ar' \<in> set (artifacts db). ar_id ar' = ar_id ar \<and> ar_snapshot ar' = snap \<longrightarrow> unshared db snap ar'"
proof -
  have same: "retained_elsewhere db2 = retained_elsewhere db" by (simp add: fun_eq_iff retained_elsewhere_def assms(5))
  from assms(1,3) obtain ar where ar: "ar \<in> set (artifacts db)" "cq_artifact_id request = Some (ar_id ar)" "ar_snapshot ar = snap"
    by (auto simp: stage_identity_def split: option.splits if_splits dest!: find_SomeD)
  have "\<forall>ar' \<in> set (artifacts db). ar_id ar' = ar_id ar \<and> ar_snapshot ar' = snap \<longrightarrow> unshared db snap ar'"
    using assms(2,3) ar by (auto simp: identity_is_shared_def unshared_def list_ex_iff same assms(4))
  with ar show thesis by (rule that)
qed

lemma claimed_replica_unshared:
  assumes "stage_identity env db snap request = Inr (kind, ikind, key)" and "identity_is_shared db2 snap request = Inr False"
    and "cq_kind request = Replica" and "artifacts db2 = artifacts db" and "snapshots db2 = snapshots db"
    and "placements db2 = placements db"
  obtains rp ar where "rp \<in> set (placements db)" "ar \<in> set (artifacts db)" "cq_placement_id request = Some (rp_id rp)"
    "cq_replica_target_id request = Some (rp_replica_target rp)" "rp_artifact rp = ar_id ar" "ar_snapshot ar = snap"
    "\<forall>rp' \<in> set (placements db). rp_id rp' = rp_id rp \<longrightarrow> unshared_object db snap rp'"
proof -
  have same: "retained_elsewhere db2 = retained_elsewhere db" by (simp add: fun_eq_iff retained_elsewhere_def assms(5))
  from assms(1,3) obtain rp ar where rp: "rp \<in> set (placements db)" "ar \<in> set (artifacts db)"
    "cq_placement_id request = Some (rp_id rp)" "cq_replica_target_id request = Some (rp_replica_target rp)"
    "rp_artifact rp = ar_id ar" "ar_snapshot ar = snap"
    by (auto simp: stage_identity_def list_ex_iff split: option.splits dest!: find_SomeD)
  have "\<forall>rp' \<in> set (placements db). rp_id rp' = rp_id rp \<longrightarrow> unshared_object db snap rp'"
    using assms(2,3) rp by (auto simp: identity_is_shared_def unshared_object_def list_ex_iff same assms(4,6)) metis
  with rp show thesis by (rule that)
qed

text \<open>
  C18. A physical effect is claimed only when it is allowed: the plan is open and its deadline has
  passed and no pin protects the snapshot of an automatic plan. The bytes of a local artifact belong to
  the plan's snapshot, and no other snapshot that is still retained has an artifact with the same digest;
  the remote object of a placement belongs to an artifact of the plan's snapshot, and no artifact of
  another snapshot that is still retained is placed under the same key of the same replica.
\<close>

theorem stage_claim_safe:
  assumes "claim_deletion_stage env now clock db request = Inr (Claimed attempt claim, db')"
  shows "\<exists>p. find_plan db (cq_plan_id request) = Some p \<and> dp_not_before p \<le> clock 0 \<and> open_plan p
    \<and> \<not> (dp_automatic p \<and> snapshot_is_pinned db (dp_snapshot p))
    \<and> (cq_kind request = Local \<longrightarrow> (\<exists>ar \<in> set (artifacts db).
          cq_artifact_id request = Some (ar_id ar) \<and> ar_snapshot ar = dp_snapshot p \<and> unshared db (dp_snapshot p) ar))
    \<and> (cq_kind request = Replica \<longrightarrow> (\<exists>rp \<in> set (placements db). \<exists>ar \<in> set (artifacts db).
          cq_placement_id request = Some (rp_id rp) \<and> cq_replica_target_id request = Some (rp_replica_target rp)
          \<and> rp_artifact rp = ar_id ar \<and> ar_snapshot ar = dp_snapshot p \<and> unshared_object db (dp_snapshot p) rp))"
  using assms
proof (rule claimed_stage_facts)
  fix p kind ikind key db2
  assume p: "find_plan db (cq_plan_id request) = Some p" "dp_not_before p \<le> clock 0"
    "\<not> (dp_automatic p \<and> snapshot_is_pinned db (dp_snapshot p))" "open_plan p"
    and ident: "stage_identity env db (dp_snapshot p) request = Inr (kind, ikind, key)"
    and shared: "identity_is_shared db2 (dp_snapshot p) request = Inr False"
    and frame: "artifacts db2 = artifacts db" "snapshots db2 = snapshots db" "placements db2 = placements db"
  have "\<exists>ar \<in> set (artifacts db). cq_artifact_id request = Some (ar_id ar) \<and> ar_snapshot ar = dp_snapshot p
      \<and> unshared db (dp_snapshot p) ar" if "cq_kind request = Local"
    using ident shared that frame(1,2) by (rule claimed_local_unshared) blast
  moreover have "\<exists>rp \<in> set (placements db). \<exists>ar \<in> set (artifacts db).
      cq_placement_id request = Some (rp_id rp) \<and> cq_replica_target_id request = Some (rp_replica_target rp)
      \<and> rp_artifact rp = ar_id ar \<and> ar_snapshot ar = dp_snapshot p \<and> unshared_object db (dp_snapshot p) rp"
    if "cq_kind request = Replica"
    using ident shared that frame by (rule claimed_replica_unshared) blast
  ultimately show ?thesis using p by blast
qed

subsection \<open>A database with a plan in progress\<close>

definition example_evidence :: vault_db where
  "example_evidence = example_db
     \<lparr> snapshots := [\<lparr> sn_id = 50, sn_target = 1, sn_mirror = 60, sn_run = 61, sn_parent = None, sn_status = ''restorable'',
                       sn_refs_hash = replicate 32 1, sn_includes_lfs = False, sn_created_at = 0 \<rparr>],
       artifacts := [\<lparr> ar_id = 70, ar_snapshot = 50, ar_kind = ''git_bundle'', ar_sha256 = replicate 32 3, ar_owner = ''ratatoskr-vault'',
                       ar_media_type = ''bundle'', ar_size_bytes = 3 \<rparr>],
       mirrors := [\<lparr> mr_id = 60, mr_target = 1, mr_status = ''ready'', mr_storage_path = ''mirrors/ab/m.git'',
                     mr_fsck_result = ''ok'', mr_bytes_on_disk = 10, mr_last_fetch_at = None \<rparr>],
       placements := [],
       retention_policies := [\<lparr> po_id = 40, po_minimum_age_seconds = 2592000, po_grace_seconds = 2592000,
                                po_keep_last_restorable = 3 \<rparr>] \<rparr>"

definition example_evaluation :: RetentionEvaluationRequest where
  "example_evaluation =
     \<lparr> er_target_id = 1, er_policy_id = 40, er_policy = DEFAULT_RETENTION_POLICY, er_mode = Scheduled,
       er_required_bytes = None, er_outcome = Selected, er_correlation_id = 5, er_evaluated_at = 1,
       er_candidates = [\<lparr> ce_snapshot_id = 50, ce_classification = CandidateEligibleOrdinary, ce_pin_sources = [],
                          ce_target_inactive = False, ce_estimated_bytes = 3, ce_deletion_not_before = None \<rparr>] \<rparr>"

definition example_evaluated :: "uuid \<times> vault_db" where
  "example_evaluated =
     (case record_retention_evaluation example_env 3000 example_evidence example_evaluation of
        Inr r \<Rightarrow> r | Inl _ \<Rightarrow> (0, empty_db))"

definition example_plan_request :: DeletionPlanRequest where
  "example_plan_request =
     \<lparr> pr_evaluation_id = fst example_evaluated, pr_target_id = 1, pr_snapshot_id = 50, pr_tombstone_id = None,
       pr_automatic = True, pr_tombstoned_at = 1, pr_not_before = 2, pr_estimated_bytes = 3, pr_correlation_id = 5 \<rparr>"

definition example_planned :: "DeletionPlanOutcome \<times> vault_db" where
  "example_planned =
     (case create_deletion_plan example_env 4000 (snd example_evaluated) example_plan_request of
        Inr r \<Rightarrow> r | Inl _ \<Rightarrow> (PlanProtectedPinned, empty_db))"

definition example_plan_id :: uuid where
  "example_plan_id = (case fst example_planned of PlanCreated i \<Rightarrow> i | PlanProtectedPinned \<Rightarrow> 0)"

definition example_claim_request :: StageClaimRequest where
  "example_claim_request =
     \<lparr> cq_plan_id = example_plan_id, cq_kind = Local, cq_stage_key = ''local:70'', cq_artifact_id = Some 70,
       cq_replica_target_id = None, cq_placement_id = None, cq_lease_owner = 9, cq_lease_seconds = 60 \<rparr>"

definition example_claimed :: "StageClaimOutcome \<times> vault_db" where
  "example_claimed =
     (case claim_deletion_stage example_env 3000000 (\<lambda>k. 3000000 + int k) (snd example_planned) example_claim_request of
        Inr r \<Rightarrow> r | Inl _ \<Rightarrow> (GraceActive, empty_db))"

lemma example_evaluated_ok:
  "record_retention_evaluation example_env 3000 example_evidence example_evaluation = Inr example_evaluated"
  by code_simp

lemma example_planned_ok:
  "create_deletion_plan example_env 4000 (snd example_evaluated) example_plan_request = Inr example_planned"
  by code_simp

lemma example_claimed_ok:
  "claim_deletion_stage example_env 3000000 (\<lambda>k. 3000000 + int k) (snd example_planned) example_claim_request
     = Inr example_claimed"
  by code_simp

lemma example_reachable: "(store_step example_env)\<^sup>*\<^sup>* empty_db (snd example_planned)"
proof -
  have "store_step example_env empty_db example_db" by (rule store_step.ingest [OF example_db_ingested])
  moreover have "store_step example_env example_db example_evidence"
    by (rule store_step_evidence) (simp_all add: example_evidence_def)
  moreover have "store_step example_env example_evidence (snd example_evaluated)"
    by (rule store_step.evaluate [where e = "fst example_evaluated"]) (simp, rule example_evaluated_ok)
  moreover have "store_step example_env (snd example_evaluated) (snd example_planned)"
    by (rule store_step.plan_deletion [where outcome = "fst example_planned"]) (simp, rule example_planned_ok)
  ultimately show ?thesis by (meson rtranclp.rtrancl_into_rtrancl rtranclp.rtrancl_refl)
qed

lemma example_claim_step: "store_step example_env (snd example_planned) (snd example_claimed)"
  by (rule store_step.claim [where claim_outcome = "fst example_claimed"]) (simp, rule example_claimed_ok)

lemma example_claimed_inj: "inj_on (mint example_env) {..<minted (snd example_claimed)}"
proof -
  have "minted (snd example_claimed) \<le> 1000" by code_simp
  then show ?thesis by (rule inj_on_less [OF example_mint_inj])
qed

lemma example_planned_wf: "wf_journal example_env (snd example_planned)"
  using store_step_minted [OF example_claim_step] inj_on_less [OF example_claimed_inj]
  by (intro wf_journal_reachable [OF example_reachable wf_journal_empty]) blast

theorem deletion_plans_follow_life_cycle_witness:
  "journal_step (plan_journal (snd example_planned)) (plan_journal (snd example_claimed))
   \<and> plan_journal (snd example_claimed) example_plan_id = Some DeletingLocal"
proof
  show "journal_step (plan_journal (snd example_planned)) (plan_journal (snd example_claimed))"
    using deletion_plans_follow_life_cycle [OF example_claim_step example_planned_wf example_claimed_inj] by blast
  show "plan_journal (snd example_claimed) example_plan_id = Some DeletingLocal" by code_simp
qed

theorem journal_work_is_exclusive_witness:
  "distinct (map claim_identity (filter running_claim (claims (snd example_claimed))))
   \<and> length (filter running_claim (claims (snd example_claimed))) = 1"
proof
  have "(store_step example_env)\<^sup>*\<^sup>* empty_db (snd example_claimed)"
    using example_reachable example_claim_step by (rule rtranclp.rtrancl_into_rtrancl)
  then show "distinct (map claim_identity (filter running_claim (claims (snd example_claimed))))"
    using journal_work_is_exclusive example_claimed_inj by blast
  show "length (filter running_claim (claims (snd example_claimed))) = 1" by code_simp
qed

theorem stage_claim_safe_witness:
  "\<exists>p. find_plan (snd example_planned) example_plan_id = Some p \<and> dp_not_before p \<le> 3000000"
proof -
  have "case fst example_claimed of Claimed _ _ \<Rightarrow> True | _ \<Rightarrow> False" by code_simp
  then obtain a c where "fst example_claimed = Claimed a c" by (cases "fst example_claimed") auto
  then have "claim_deletion_stage example_env 3000000 (\<lambda>k. 3000000 + int k) (snd example_planned) example_claim_request
      = Inr (Claimed a c, snd example_claimed)"
    using example_claimed_ok by (metis prod.collapse)
  from stage_claim_safe [OF this] show ?thesis by (auto simp: example_claim_request_def)
qed

end
