(* ===== verification/Grace_Period.thy ===== *)
theory Grace_Period
  imports Deletion_Proofs
begin

text \<open>
  The grace period of an excluded target. Excluding a target writes its tombstone with the instant
  deletion may begin; the trigger on the targets consults the tombstone whenever a status write asks for
  \<open>deleting\<close>. This theory follows the tombstone through every later transaction: as long as it is neither
  withdrawn nor completed it stays the only active tombstone of the target, so the deadline it carries
  binds every status write of every worker.
\<close>

subsection \<open>How transactions move tombstones\<close>

text \<open>
  A transaction leaves the tombstones, closes some of them, or adds one for a target that has no active
  tombstone.
\<close>

definition tombstone_move :: "TombstoneRow list \<Rightarrow> TombstoneRow list \<Rightarrow> bool" where
  "tombstone_move tbs tbs' \<longleftrightarrow>
     (\<exists>f. tbs' = map f tbs \<and> (\<forall>x. active_tombstone (f x) \<longrightarrow> f x = x))
     \<or> (\<exists>new. tbs' = tbs @ [new] \<and> \<not> list_ex (\<lambda>tb. tb_target tb = tb_target new \<and> active_tombstone tb) tbs)"

lemma tombstone_move_refl [simp]: "tombstone_move tbs tbs"
  unfolding tombstone_move_def by (rule disjI1) (rule exI [of _ id], simp)

lemma tombstones_advance [simp]: "tombstones (advance db) = tombstones db"
  by (simp add: advance_def)

lemma pin_tombstones: "pin_snapshot_tx env now db s src reference correlation = Inr (i, db') \<Longrightarrow> tombstones db' = tombstones db"
  by (auto simp: pin_snapshot_tx_def Let_def split: if_splits option.splits)

lemma revoke_tombstones: "revoke_snapshot_pin env now db i correlation = Inr db' \<Longrightarrow> tombstones db' = tombstones db"
  by (auto simp: revoke_snapshot_pin_def Let_def split: if_splits option.splits)

lemma candidates_tombstones:
  "insert_evaluation_candidates env now request e k cs db = Inr db' \<Longrightarrow> tombstones db' = tombstones db"
proof (induction cs arbitrary: k db)
  case (Cons c cs)
  then obtain db1 where "insert_evaluation_candidate env now request e (int k) c db = Inr db1"
    and rest: "insert_evaluation_candidates env now request e (Suc k) cs db1 = Inr db'" by auto
  then have "tombstones db1 = tombstones db"
    by (auto simp: insert_evaluation_candidate_def split: if_splits option.splits)
  with Cons.IH [OF rest] show ?case by simp
qed simp

lemma evaluation_tombstones: "record_retention_evaluation env now db request = Inr (e, db') \<Longrightarrow> tombstones db' = tombstones db"
  by (auto simp: record_retention_evaluation_def Let_def dest!: candidates_tombstones)

lemma create_plan_tombstones:
  assumes "create_deletion_plan env now db request = Inr (outcome, db')"
  shows "tombstones db' = tombstones db"
  using assms
proof (cases rule: create_plan_steps)
  case (created v db1)
  from created(3) show ?thesis by (rule insert_plan_shape) (simp add: created(4))
qed simp

lemma claim_tombstones:
  assumes "claim_deletion_stage env now clock db request = Inr (outcome, db')"
  shows "tombstones db' = tombstones db"
proof -
  have prepared: "tombstones db2 = tombstones db"
    if "advance_plan_for_stage db request status = Inr db1" "abandon_expired_stage env now c request sp kind db1 = Inr db2"
    for status db1 c sp kind db2
    using that by (auto simp: advance_plan_for_stage_def abandon_expired_stage_def write_plan_status_def stage_audit_def
        Let_def split: if_splits)
  from assms show ?thesis
  proof (cases rule: claim_stage_steps)
    case refused
    then show ?thesis by (simp add: stage_audit_def)
  next
    case (shared sp kind ikind key db1 db2 attempt)
    then show ?thesis using prepared [OF shared(4,5)]
      by (auto simp: insert_shared_stage_attempt_def stage_audit_def Let_def dest!: insert_stage_shape)
  next
    case (claimed sp lease kind ikind key db1 db2 db3 db4 attempt claim)
    then show ?thesis using prepared [OF claimed(4,5)] claim_identity_shape [OF claimed(7)] insert_stage_shape [OF claimed(8)]
      by (auto simp: stage_audit_def)
  qed
qed

lemma close_tombstones:
  "close_stage env now db attempt claim close_row close_claim why outcome = Inr db' \<Longrightarrow> tombstones db' = tombstones db"
  by (auto simp: close_stage_def split: option.splits if_splits)

lemma write_tombstones:
  "insert_revision db row = Inr db' \<Longrightarrow> tombstones db' = tombstones db"
  "guarded_status_update db clock t s = Inr db' \<Longrightarrow> tombstones db' = tombstones db"
  "ensure_target env now db p e n cor = Inr (t', db') \<Longrightarrow> tombstones db' = tombstones db"
  "tombstones (emit_state_changed env now t fr to n cor db) = tombstones db"
  by (auto simp: insert_revision_def guarded_status_update_def ensure_target_def write_status_def emit_state_changed_def
      advance_def Let_def split: option.splits if_splits)

lemma closing_moves:
  assumes "\<And>x. \<not> active_tombstone (close x)"
  shows "tombstone_move tbs (map (\<lambda>tb. if P tb then close tb else tb) tbs)"
  unfolding tombstone_move_def using assms by (intro disjI1 exI [of _ "\<lambda>tb. if P tb then close tb else tb"]) simp

lemma complete_tombstones:
  assumes "complete_deletion_plan env now clock db i = Inr db'"
  shows "tombstone_move (tombstones db) (tombstones db')"
proof -
  have closed: "\<not> active_tombstone (tb\<lparr>tb_completed_at := Some now\<rparr>)" for tb by (simp add: active_tombstone_def)
  have ready: "tombstone_move (tombstones d) (tombstones d')" if "complete_target_if_ready now clock d t tb = Inr d'" for d d' t tb
    using that closing_moves [OF closed]
    by (auto simp: complete_target_if_ready_def write_status_def Let_def split: if_splits option.splits)
  show ?thesis
    using assms by (auto simp: complete_deletion_plan_def Let_def split: option.splits if_splits dest!: ready)
qed

lemma retention_transition_tombstones:
  assumes "apply_target_retention_transition env now db t target_pinned to g n c = Inr db'"
  shows "tombstone_move (tombstones db) (tombstones db')"
proof -
  have closed: "\<not> active_tombstone (tb\<lparr>tb_cancelled_at := Some now\<rparr>)" for tb by (simp add: active_tombstone_def)
  have "tombstone_move (tombstones db) (tombstones db')" if "create_target_tombstone env now db t n c = Inr db'"
  proof (cases "list_ex (\<lambda>tb. tb_target tb = t \<and> active_tombstone tb) (tombstones db)")
    case True
    then show ?thesis using that by (simp add: create_target_tombstone_def split: if_splits)
  next
    case False
    then have "tombstones db' = tombstones db @ [new_tombstone (now_v7 env db) now t n c]"
      using that by (auto simp: create_target_tombstone_def split: if_splits)
    moreover have "tb_target (new_tombstone (now_v7 env db) now t n c) = t" by (simp add: new_tombstone_def)
    ultimately show ?thesis unfolding tombstone_move_def using False by metis
  qed
  moreover have "tombstone_move (tombstones db) (tombstones db')" if "cancel_target_tombstone env now db t c = Inr db'"
    using that closing_moves [OF closed]
    by (auto simp: cancel_target_tombstone_def Let_def split: option.splits if_splits)
  ultimately show ?thesis
    using assms by (auto simp: apply_target_retention_transition_def split: if_splits)
qed

lemma transition_tombstones:
  assumes "apply_transition env now db t to g = Inr db'"
  shows "tombstone_move (tombstones db) (tombstones db')"
  using assms
proof (cases rule: apply_transition_steps)
  case (1 n c db1 row db2 db3)
  then show ?thesis
    using retention_transition_tombstones [OF 1(4)] write_tombstones(1) [OF 1(2)] write_tombstones(2) [OF 1(5)]
    by (simp add: write_tombstones(4))
qed

lemma ingest_tombstones:
  assumes "ingest_delivery env now db p e s m d = Inr (t, db')"
  shows "tombstones db' = tombstones db"
  using assms
proof (cases rule: ingest_steps)
  case (1 n c db1)
  then show ?thesis using write_tombstones(3) [OF 1(3)] write_tombstones(1) [OF 1(4)] by simp
qed

lemma store_step_tombstones:
  assumes "store_step env db db'"
  shows "tombstone_move (tombstones db) (tombstones db')"
  using assms
proof (cases rule: store_step.cases)
  case complete
  then show ?thesis by (rule complete_tombstones)
next
  case transition
  then show ?thesis by (rule transition_tombstones)
next
  case to_replicas
  then show ?thesis
    by (auto simp: advance_deletion_plan_to_replicas_def write_plan_status_def split: option.splits if_splits)
next
  case succeed
  then show ?thesis by (simp add: record_deletion_stage_success_def close_tombstones)
next
  case fail
  then show ?thesis by (simp add: record_deletion_stage_failure_def close_tombstones)
next
  case status
  then show ?thesis by (simp add: set_target_status_def write_tombstones)
qed (simp_all add: pin_tombstones revoke_tombstones evaluation_tombstones create_plan_tombstones claim_tombstones
    ingest_tombstones)

subsection \<open>The deadline binds\<close>

text \<open>A row that is the only active tombstone of its target, if it is there at all, stays so.\<close>

definition sole_tombstone :: "TombstoneRow \<Rightarrow> TombstoneRow list \<Rightarrow> bool" where
  "sole_tombstone tb tbs \<longleftrightarrow>
     (tb \<in> set tbs \<longrightarrow> (\<forall>x \<in> set tbs. tb_target x = tb_target tb \<and> active_tombstone x \<longrightarrow> x = tb))"

lemma sole_tombstone_move:
  assumes "tombstone_move tbs tbs'" and "sole_tombstone tb tbs" and "active_tombstone tb"
  shows "sole_tombstone tb tbs'"
  using assms(1) unfolding tombstone_move_def
proof (elim disjE exE conjE)
  fix f assume f: "tbs' = map f tbs" "\<forall>x. active_tombstone (f x) \<longrightarrow> f x = x"
  have "x \<in> set tbs" if "x \<in> set tbs'" "active_tombstone x" for x using that f by auto
  then show ?thesis using assms(2,3) unfolding sole_tombstone_def by blast
next
  fix new assume "tbs' = tbs @ [new]" "\<not> list_ex (\<lambda>x. tb_target x = tb_target new \<and> active_tombstone x) tbs"
  then show ?thesis using assms(2,3) by (auto simp: sole_tombstone_def list_ex_iff)
qed

lemma sole_tombstone_reachable:
  assumes "(store_step env)\<^sup>*\<^sup>* db db'" and "sole_tombstone tb (tombstones db)" and "active_tombstone tb"
  shows "sole_tombstone tb (tombstones db')"
  using assms by (induction rule: rtranclp_induct) (auto intro: sole_tombstone_move store_step_tombstones)

lemma deletion_refused:
  assumes "find_target db t = Some row" and "t_status row \<noteq> ''deleting''" and "\<not> deletion_executable db clock t"
  shows "\<not> is_ok (set_target_status db clock t Deleting)"
proof -
  have "(t_status row, ''deleting'') \<in> set guard_legal_pairs \<Longrightarrow> t_status row = ''excluded''"
    by (auto simp: guard_legal_pairs_def)
  then have "target_guard_status_transition db clock row ''deleting'' \<noteq> None"
    using assms find_target_Some [OF assms(1)] by (auto simp: target_guard_status_transition_def)
  then show ?thesis using assms(1) by (auto simp: set_target_status_def guarded_status_update_def)
qed

text \<open>
  C24. Deletion cannot begin inside the grace period. Excluding a target that has no active tombstone
  writes one whose deadline lies thirty days ahead. Whatever transactions follow, in any order and of any
  worker, deletion plans for the tombstone included: as long as the tombstone has been neither withdrawn
  nor completed, every status write that would move the target to \<open>Deleting\<close> is refused when the clock of
  the write is before that deadline.
\<close>

theorem exclusion_opens_grace_period:
  assumes "apply_transition env now db t Excluded g = Inr db'"
    and "\<not> list_ex (\<lambda>tb. tb_target tb = t \<and> active_tombstone tb) (tombstones db)"
  shows "\<exists>tb. tombstones db' = tombstones db @ [tb] \<and> tb_target tb = t \<and> active_tombstone tb
    \<and> tb_not_before tb = now + 30 * 24 * 60 * 60 * 1000000
    \<and> (\<forall>later clock row. (store_step env)\<^sup>*\<^sup>* db' later \<and> tb \<in> set (tombstones later)
         \<and> clock < now + 30 * 24 * 60 * 60 * 1000000
         \<and> find_target later t = Some row \<and> t_status row \<noteq> ''deleting''
         \<longrightarrow> \<not> is_ok (set_target_status later clock t Deleting))"
proof -
  obtain ident n c where tb: "tombstones db' = tombstones db @ [new_tombstone ident now t n c]"
    using exclusion_records_tombstone [OF assms(1)] assms(2) by auto
  define new where "new = new_tombstone ident now t n c"
  have new: "tb_target new = t" "active_tombstone new" "tb_not_before new = now + 30 * 24 * 60 * 60 * 1000000"
    by (simp_all add: new_def new_tombstone_def active_tombstone_def DEFAULT_RETENTION_POLICY_def)
  have sole: "sole_tombstone new (tombstones db')"
    using assms(2) new(1) by (auto simp: sole_tombstone_def tb new_def list_ex_iff)
  have refused: "\<not> is_ok (set_target_status later clock t Deleting)"
    if "(store_step env)\<^sup>*\<^sup>* db' later" "new \<in> set (tombstones later)" "clock < now + 30 * 24 * 60 * 60 * 1000000"
      "find_target later t = Some row" "t_status row \<noteq> ''deleting''" for later clock row
  proof (rule deletion_refused [OF that(4,5)], rule deletion_not_executable)
    show "\<forall>x \<in> set (tombstones later). tb_target x = t \<and> active_tombstone x \<longrightarrow> clock < tb_not_before x"
    proof (intro ballI impI, elim conjE)
      fix x assume "x \<in> set (tombstones later)" "tb_target x = t" "active_tombstone x"
      with sole_tombstone_reachable [OF that(1) sole new(2)] that(2) new(1) have "x = new"
        unfolding sole_tombstone_def by blast
      with that(3) new(3) show "clock < tb_not_before x" by simp
    qed
  qed
  have "tombstones db' = tombstones db @ [new]" by (simp add: tb new_def)
  moreover have "\<forall>later clock row. (store_step env)\<^sup>*\<^sup>* db' later \<and> new \<in> set (tombstones later)
       \<and> clock < now + 30 * 24 * 60 * 60 * 1000000 \<and> find_target later t = Some row \<and> t_status row \<noteq> ''deleting''
       \<longrightarrow> \<not> is_ok (set_target_status later clock t Deleting)"
    using refused by blast
  ultimately show ?thesis by (intro exI [of _ new] conjI new)
qed

subsection \<open>An excluded target with a plan\<close>

definition example_excluded_evidence :: vault_db where
  "example_excluded_evidence = example_excluded
     \<lparr> snapshots := snapshots example_evidence, artifacts := artifacts example_evidence, mirrors := mirrors example_evidence,
       retention_policies := retention_policies example_evidence \<rparr>"

definition example_excluded_evaluated :: "uuid \<times> vault_db" where
  "example_excluded_evaluated =
     (case record_retention_evaluation example_env 3000 example_excluded_evidence example_evaluation of
        Inr r \<Rightarrow> r | Inl _ \<Rightarrow> (0, empty_db))"

definition example_tombstone_request :: DeletionPlanRequest where
  "example_tombstone_request = example_plan_request
     \<lparr> pr_evaluation_id := fst example_excluded_evaluated, pr_tombstone_id := Some (tb_id (hd (tombstones example_excluded))) \<rparr>"

definition example_excluded_planned :: "DeletionPlanOutcome \<times> vault_db" where
  "example_excluded_planned =
     (case create_deletion_plan example_env 4000 (snd example_excluded_evaluated) example_tombstone_request of
        Inr r \<Rightarrow> r | Inl _ \<Rightarrow> (PlanProtectedPinned, empty_db))"

lemma example_excluded_evaluated_ok:
  "record_retention_evaluation example_env 3000 example_excluded_evidence example_evaluation = Inr example_excluded_evaluated"
  by code_simp

lemma example_excluded_planned_ok:
  "create_deletion_plan example_env 4000 (snd example_excluded_evaluated) example_tombstone_request
     = Inr example_excluded_planned"
  by code_simp

lemma example_excluded_reachable: "(store_step example_env)\<^sup>*\<^sup>* example_excluded (snd example_excluded_planned)"
proof -
  have "store_step example_env example_excluded example_excluded_evidence"
    by (rule store_step_evidence) (simp_all add: example_excluded_evidence_def)
  moreover have "store_step example_env example_excluded_evidence (snd example_excluded_evaluated)"
    by (rule store_step.evaluate [where e = "fst example_excluded_evaluated"]) (simp, rule example_excluded_evaluated_ok)
  moreover have "store_step example_env (snd example_excluded_evaluated) (snd example_excluded_planned)"
    by (rule store_step.plan_deletion [where outcome = "fst example_excluded_planned"]) (simp, rule example_excluded_planned_ok)
  ultimately show ?thesis by (meson rtranclp.rtrancl_into_rtrancl rtranclp.rtrancl_refl)
qed

text \<open>One microsecond before the deadline the write is refused, at the deadline it is accepted.\<close>

theorem exclusion_opens_grace_period_witness:
  "\<not> is_ok (set_target_status (snd example_excluded_planned) 2592000001999 1 Deleting)
   \<and> is_ok (set_target_status (snd example_excluded_planned) 2592000002000 1 Deleting)"
proof
  have none: "\<not> list_ex (\<lambda>tb. tb_target tb = 1 \<and> active_tombstone tb) (tombstones example_db)" by code_simp
  have facts: "tombstones example_db = [] \<and> tombstones (snd example_excluded_planned) = tombstones example_excluded
     \<and> map_option t_status (find_target (snd example_excluded_planned) 1) = Some ''excluded''" by code_simp
  then obtain row where row: "find_target (snd example_excluded_planned) 1 = Some row" "t_status row = ''excluded''" by auto
  from exclusion_opens_grace_period [OF example_excluded_applied none] obtain tb where
    tb: "tombstones example_excluded = tombstones example_db @ [tb]"
    and refused: "\<forall>later clock row. (store_step example_env)\<^sup>*\<^sup>* example_excluded later \<and> tb \<in> set (tombstones later)
         \<and> clock < 2000 + 30 * 24 * 60 * 60 * 1000000 \<and> find_target later 1 = Some row \<and> t_status row \<noteq> ''deleting''
         \<longrightarrow> \<not> is_ok (set_target_status later clock 1 Deleting)" by blast
  from tb facts have "tb \<in> set (tombstones (snd example_excluded_planned))" by simp
  then show "\<not> is_ok (set_target_status (snd example_excluded_planned) 2592000001999 1 Deleting)"
    using refused example_excluded_reachable row by simp
  show "is_ok (set_target_status (snd example_excluded_planned) 2592000002000 1 Deleting)" by code_simp
qed

end
