(* ===== verification/Retention_Worker.thy ===== *)
theory Retention_Worker
  imports Deletion_Proofs Blob_Store Git_Runner
begin

text \<open>
  The deletion executor (\<open>services/vault/src/retention.rs\<close>): one pass over a plan, local artifacts
  first, then the bare mirror of a retired target, then the replicas. The world is the database, the
  local blob files, the directory tree of the mirrors and the removals requested of the replicas; every
  store call is a transaction of \<open>Deletion_Store\<close>, every byte is removed by the operations of
  \<open>Blob_Store\<close>. The theorems tie the two together: what a pass may remove, here and on the replicas, and
  what is gone when it reports completion. Metrics are not modelled.
\<close>

subsection \<open>Removing a mirror\<close>

text \<open>
  The tree as a finite list of entries; \<open>canonicalize\<close> follows links. \<open>fuel\<close> bounds the number of
  path segments and links the kernel follows. A file where a directory is needed is an error, a missing
  entry is not. Failures of the kernel after the checks of the tree are not modelled.
\<close>

type_synonym file_tree = "(string list \<times> fs_node) list"

definition tree_lstat :: "nat \<Rightarrow> file_tree \<Rightarrow> string list \<Rightarrow> fs_node option option" where
  "tree_lstat fuel files p =
     (if p = [] then Some (map_of files [])
      else case fs_resolve fuel (map_of files) [] (butlast p) of
             None \<Rightarrow> None
           | Some parent \<Rightarrow>
               if list_ex (\<lambda>(q, node). node = RegularFile \<and> prefix q parent) files then None
               else Some (map_of files (parent @ [last p])))"

definition validate_mirror_tree :: "file_tree \<Rightarrow> string list \<Rightarrow> bool" where
  "validate_mirror_tree files dir =
     list_all (\<lambda>(path, node). strict_prefix dir path \<longrightarrow> node = Directory \<or> node = RegularFile) files"

definition remove_dir_all :: "file_tree \<Rightarrow> string list \<Rightarrow> file_tree" where
  "remove_dir_all files dir = filter (\<lambda>(path, _). \<not> prefix dir path) files"

fun normal_segments :: "Component list \<Rightarrow> string list option" where
  "normal_segments [] = Some []"
| "normal_segments (Normal s # rest) = map_option ((#) s) (normal_segments rest)"
| "normal_segments (_ # rest) = None"

definition delete_confined_mirror ::
  "nat \<Rightarrow> (string \<Rightarrow> string list option) \<Rightarrow> string \<Rightarrow> string \<Rightarrow> file_tree \<Rightarrow> file_tree \<times> (string, unit) result" where
  "delete_confined_mirror fuel canonicalize root storage_path files =
     (case (if is_absolute storage_path then None else normal_segments (path_components storage_path)) of
        None \<Rightarrow> (files, Inl ''mirror path is not confined'')
      | Some relative \<Rightarrow>
     (case canonicalize root of
        None \<Rightarrow> (files, Inl ''root'')
      | Some canonical_root \<Rightarrow>
     (case tree_lstat fuel files (canonical_root @ relative) of
        None \<Rightarrow> (files, Inl ''metadata'')
      | Some None \<Rightarrow> (files, Inr ())
      | Some (Some node) \<Rightarrow>
          if node \<noteq> Directory then (files, Inl ''mirror target is not a regular directory'')
          else (case fs_resolve fuel (map_of files) [] (canonical_root @ relative) of
                  None \<Rightarrow> (files, Inl ''canonicalize'')
                | Some canonical_target \<Rightarrow>
                    if canonical_target = canonical_root \<or> \<not> prefix canonical_root canonical_target
                    then (files, Inl ''mirror target escapes its root'')
                    else if \<not> validate_mirror_tree files canonical_target
                    then (files, Inl ''mirror contains a symlink or non-regular entry'')
                    else (remove_dir_all files canonical_target, Inr ())))))"

subsection \<open>One pass over a plan\<close>

datatype RetentionPlanOutcome = Completed | Deferred | Failed

datatype ClaimAction = Effect uuid uuid | Suppressed | DeferredClaim

fun claim_action :: "StageClaimOutcome \<Rightarrow> ClaimAction" where
  "claim_action (Claimed attempt claim) = Effect attempt claim"
| "claim_action (SharedReferenceRetained _) = Suppressed"
| "claim_action GraceActive = DeferredClaim"
| "claim_action StageProtectedPinned = DeferredClaim"

text \<open>
  What the worker is built from: the settings, the stores, and the parameters of the code it calls.
  \<open>remote\<close> answers the requests about a placement: the deadline, then in order the read before, the
  removal, the reads after it. The clocks may depend on everything committed so far.
\<close>

record worker =
  wk_env :: store_env
  wk_now :: "vault_db \<Rightarrow> timestamp"
  wk_clock :: "vault_db \<Rightarrow> nat \<Rightarrow> timestamp"
  wk_hash :: "u8 list \<Rightarrow> u8 list"
  wk_chunks :: "u8 list \<Rightarrow> u8 list list"
  wk_parent_inside_root :: bool
  wk_local_store :: LocalBlobStore
  wk_replicas :: "uuid \<Rightarrow> ReplicaStore option"
  wk_parse_ok :: "string \<Rightarrow> bool"
  wk_remote :: "uuid \<Rightarrow> bool option \<times> remote_get \<times> bool \<times> remote_get list"
  wk_lease_seconds :: u64
  wk_mirror_root :: string
  wk_canonicalize :: "string \<Rightarrow> string list option"
  wk_fuel :: nat

text \<open>
  \<open>w_removals\<close> lists the removals requested of the replicas so far, as replica and object key: a remote
  object is removed by such a request and by nothing else, whether or not its answer ever arrived.
\<close>

record world =
  w_db :: vault_db
  w_blobs :: blob_fs
  w_files :: file_tree
  w_removals :: "(uuid \<times> string) list"

type_synonym 'a pass = "world \<times> (unit, 'a) result"

text \<open>A store call of the worker: an error leaves the database and ends the pass.\<close>

definition claim_stage ::
  "worker \<Rightarrow> world \<Rightarrow> uuid \<Rightarrow> DeletionStageKind \<Rightarrow> string \<Rightarrow> uuid option \<Rightarrow> uuid option \<Rightarrow> uuid option
     \<Rightarrow> ClaimAction pass" where
  "claim_stage wk w plan_ref kind key artifact replica pl =
     (let owner_id = now_v7 (wk_env wk) (w_db w);
          db = advance (w_db w)
      in case claim_deletion_stage (wk_env wk) (wk_now wk db) (wk_clock wk db) db
                \<lparr> cq_plan_id = plan_ref, cq_kind = kind, cq_stage_key = key, cq_artifact_id = artifact,
                  cq_replica_target_id = replica, cq_placement_id = pl, cq_lease_owner = owner_id,
                  cq_lease_seconds = wk_lease_seconds wk \<rparr> of
           Inl _ \<Rightarrow> (w\<lparr>w_db := db\<rparr>, Inl ())
         | Inr (outcome, db') \<Rightarrow> (w\<lparr>w_db := db'\<rparr>, Inr (claim_action outcome)))"

definition stage_succeeded :: "worker \<Rightarrow> world \<Rightarrow> uuid \<Rightarrow> uuid \<Rightarrow> bool pass" where
  "stage_succeeded wk w attempt claim =
     (case record_deletion_stage_success (wk_env wk) (wk_now wk (w_db w)) (w_db w) attempt claim of
        Inl _ \<Rightarrow> (w, Inl ())
      | Inr db \<Rightarrow> (w\<lparr>w_db := db\<rparr>, Inr True))"

text \<open>A failed effect is recorded, and ends the pass whether or not the record could be written.\<close>

definition stage_failed :: "worker \<Rightarrow> world \<Rightarrow> uuid \<Rightarrow> uuid \<Rightarrow> DeletionStageFailureClass \<Rightarrow> bool pass" where
  "stage_failed wk w attempt claim failure =
     (case record_deletion_stage_failure (wk_env wk) (wk_now wk (w_db w)) (w_db w) attempt claim failure of
        Inl _ \<Rightarrow> (w, Inl ())
      | Inr db \<Rightarrow> (w\<lparr>w_db := db\<rparr>, Inl ()))"

definition run_local_artifact :: "worker \<Rightarrow> uuid \<Rightarrow> DeletionExecutionArtifact \<Rightarrow> world \<Rightarrow> bool pass" where
  "run_local_artifact wk plan_ref artifact w =
     (case claim_stage wk w plan_ref Local (''local:'' @ uuid_to_string (wk_env wk) (xa_artifact_id artifact))
             (Some (xa_artifact_id artifact)) None None of
        (w1, Inl _) \<Rightarrow> (w1, Inl ())
      | (w1, Inr Suppressed) \<Rightarrow> (w1, Inr True)
      | (w1, Inr DeferredClaim) \<Rightarrow> (w1, Inr False)
      | (w1, Inr (Effect attempt claim)) \<Rightarrow>
          (case delete_verified_blob (wk_hash wk) (wk_chunks wk) (wk_parent_inside_root wk) (wk_local_store wk)
                  (xa_blob artifact) (w_blobs w1) of
             (blobs, Inl _) \<Rightarrow> stage_failed wk (w1\<lparr>w_blobs := blobs\<rparr>) attempt claim LocalIo
           | (blobs, Inr _) \<Rightarrow> stage_succeeded wk (w1\<lparr>w_blobs := blobs\<rparr>) attempt claim))"

definition run_mirror_stage :: "worker \<Rightarrow> DeletionExecutionPlan \<Rightarrow> world \<Rightarrow> bool pass" where
  "run_mirror_stage wk plan_view w =
     (case xp_mirror_storage_path plan_view of
        None \<Rightarrow> (w, Inl ())
      | Some storage_path \<Rightarrow>
     (case claim_stage wk w (xp_plan_id plan_view) MirrorLocal
             (''mirror:'' @ uuid_to_string (wk_env wk) (xp_target_id plan_view)) None None None of
        (w1, Inl _) \<Rightarrow> (w1, Inl ())
      | (w1, Inr Suppressed) \<Rightarrow> (w1, Inr True)
      | (w1, Inr DeferredClaim) \<Rightarrow> (w1, Inr False)
      | (w1, Inr (Effect attempt claim)) \<Rightarrow>
          (case delete_confined_mirror (wk_fuel wk) (wk_canonicalize wk) (wk_mirror_root wk) storage_path (w_files w1) of
             (files, Inl _) \<Rightarrow> stage_failed wk (w1\<lparr>w_files := files\<rparr>) attempt claim LocalIo
           | (files, Inr _) \<Rightarrow> stage_succeeded wk (w1\<lparr>w_files := files\<rparr>) attempt claim)))"

definition request_removal :: "DeletionExecutionReplica \<Rightarrow> bool \<Rightarrow> world \<Rightarrow> world" where
  "request_removal stored requested w =
     (if requested then w\<lparr>w_removals := w_removals w @ [(xr_replica_target_id stored, xr_object_key stored)]\<rparr> else w)"

definition run_replica ::
  "worker \<Rightarrow> uuid \<Rightarrow> DeletionExecutionArtifact \<Rightarrow> DeletionExecutionReplica \<Rightarrow> world \<Rightarrow> bool pass" where
  "run_replica wk plan_ref artifact stored w =
     (case claim_stage wk w plan_ref Replica (''replica:'' @ uuid_to_string (wk_env wk) (xr_placement_id stored))
             (Some (xa_artifact_id artifact)) (Some (xr_replica_target_id stored)) (Some (xr_placement_id stored)) of
        (w1, Inl _) \<Rightarrow> (w1, Inl ())
      | (w1, Inr Suppressed) \<Rightarrow> (w1, Inr True)
      | (w1, Inr DeferredClaim) \<Rightarrow> (w1, Inr False)
      | (w1, Inr (Effect attempt claim)) \<Rightarrow>
          (case wk_replicas wk (xr_replica_target_id stored) of
             None \<Rightarrow> stage_failed wk w1 attempt claim ReplicaUnavailable
           | Some store \<Rightarrow>
               (case wk_remote wk (xr_placement_id stored) of
                  (cut_off, before, removed, after) \<Rightarrow>
                    (case delete_verified (wk_hash wk) (wk_parse_ok wk) store (xa_blob artifact)
                            \<lparr> pl_target = target_name store, pl_object_key = xr_object_key stored,
                              pl_size_bytes = size_bytes (xa_blob artifact), pl_sha256 = sha256 (xa_blob artifact) \<rparr>
                            cut_off before removed after of
                       (requested, Inl _) \<Rightarrow>
                         stage_failed wk (request_removal stored requested w1) attempt claim RemoteVerification
                     | (requested, Inr _) \<Rightarrow> stage_succeeded wk (request_removal stored requested w1) attempt claim))))"

text \<open>A loop of stages: it stops at the first stage that is deferred or failed.\<close>

fun run_all :: "('a \<Rightarrow> world \<Rightarrow> bool pass) \<Rightarrow> 'a list \<Rightarrow> world \<Rightarrow> bool pass" where
  "run_all run [] w = (w, Inr True)"
| "run_all run (x # xs) w =
     (case run x w of
        (w1, Inl _) \<Rightarrow> (w1, Inl ())
      | (w1, Inr True) \<Rightarrow> run_all run xs w1
      | (w1, Inr False) \<Rightarrow> (w1, Inr False))"

definition run_local_stages :: "worker \<Rightarrow> DeletionExecutionPlan \<Rightarrow> world \<Rightarrow> bool pass" where
  "run_local_stages wk plan_view = run_all (run_local_artifact wk (xp_plan_id plan_view)) (xp_artifacts plan_view)"

definition run_replica_stages :: "worker \<Rightarrow> DeletionExecutionPlan \<Rightarrow> world \<Rightarrow> bool pass" where
  "run_replica_stages wk plan_view =
     run_all (\<lambda>artifact. run_all (run_replica wk (xp_plan_id plan_view) artifact) (xa_replicas artifact))
       (xp_artifacts plan_view)"

text \<open>The stages on this host: artifacts, the mirror of a retired target, the hand-over to the replicas.\<close>

definition run_host_stages :: "worker \<Rightarrow> DeletionExecutionPlan \<Rightarrow> world \<Rightarrow> bool pass" where
  "run_host_stages wk plan_view w =
     (case run_local_stages wk plan_view w of
        (w1, Inr True) \<Rightarrow>
          (case (if xp_tombstone_id plan_view \<noteq> None then run_mirror_stage wk plan_view w1 else (w1, Inr True)) of
             (w2, Inr True) \<Rightarrow>
               (case advance_deletion_plan_to_replicas (w_db w2) (xp_plan_id plan_view) of
                  Inl _ \<Rightarrow> (w2, Inl ())
                | Inr db \<Rightarrow> (w2\<lparr>w_db := db\<rparr>, Inr True))
           | stop \<Rightarrow> stop)
      | stop \<Rightarrow> stop)"

definition run_plan_inner :: "worker \<Rightarrow> uuid \<Rightarrow> world \<Rightarrow> RetentionPlanOutcome pass" where
  "run_plan_inner wk plan_ref w =
     (case deletion_execution_plan (w_db w) plan_ref of
        Inl _ \<Rightarrow> (w, Inl ())
      | Inr plan_view \<Rightarrow>
          if xp_status plan_view = ''completed'' then (w, Inr Completed)
          else
            (case (if xp_tombstone_id plan_view \<noteq> None \<and> xp_status plan_view = ''planned''
                   then set_target_status (w_db w) (wk_clock wk (w_db w) 0) (xp_target_id plan_view) Deleting
                   else Inr (w_db w)) of
               Inl _ \<Rightarrow> (w, Inl ())
             | Inr db \<Rightarrow>
                 (case (if xp_status plan_view \<noteq> ''replica_deleting''
                        then run_host_stages wk plan_view (w\<lparr>w_db := db\<rparr>) else (w\<lparr>w_db := db\<rparr>, Inr True)) of
                    (w1, Inl _) \<Rightarrow> (w1, Inl ())
                  | (w1, Inr False) \<Rightarrow> (w1, Inr Deferred)
                  | (w1, Inr True) \<Rightarrow>
                      (case run_replica_stages wk plan_view w1 of
                         (w2, Inl _) \<Rightarrow> (w2, Inl ())
                       | (w2, Inr False) \<Rightarrow> (w2, Inr Deferred)
                       | (w2, Inr True) \<Rightarrow>
                           (case complete_deletion_plan (wk_env wk) (wk_now wk (w_db w2)) (wk_clock wk (w_db w2) 0)
                                   (w_db w2) plan_ref of
                              Inl _ \<Rightarrow> (w2, Inl ())
                            | Inr db' \<Rightarrow> (w2\<lparr>w_db := db'\<rparr>, Inr Completed))))))"

definition run_plan :: "worker \<Rightarrow> uuid \<Rightarrow> world \<Rightarrow> world \<times> RetentionPlanOutcome" where
  "run_plan wk plan_ref w =
     (case run_plan_inner wk plan_ref w of (w', Inl _) \<Rightarrow> (w', Failed) | (w', Inr outcome) \<Rightarrow> (w', outcome))"

subsection \<open>What a pass leaves alone\<close>

text \<open>During a pass the evidence tables and everything of a plan but its status stay as they were.\<close>

definition kept :: "vault_db \<Rightarrow> vault_db \<Rightarrow> bool" where
  "kept db0 db \<longleftrightarrow> artifacts db = artifacts db0 \<and> snapshots db = snapshots db0 \<and> pins db = pins db0
     \<and> placements db = placements db0
     \<and> (\<forall>i. map_option plan_identity (find_plan db i) = map_option plan_identity (find_plan db0 i))"

lemma kept_refl [simp]: "kept db db"
  by (simp add: kept_def)

lemma kept_trans: "kept a b \<Longrightarrow> kept b c \<Longrightarrow> kept a c"
  by (simp add: kept_def)

lemma kept_frame:
  assumes "artifacts db = artifacts db0" and "snapshots db = snapshots db0" and "pins db = pins db0" and "plans db = plans db0"
    and "placements db = placements db0"
  shows "kept db0 db"
  using assms by (simp add: kept_def find_plan_def)

lemma placements_frame [simp]:
  "placements (advance db) = placements db"
  "placements (append_audit env now t s pn pl kind why outcome correlation db) = placements db"
  by (simp_all add: advance_def append_audit_def)

lemma kept_advance [simp]: "kept db (advance db)"
  by (rule kept_frame) simp_all

lemma write_plan_status_identity:
  "map_option plan_identity (find_plan (write_plan_status db i status) k) = map_option plan_identity (find_plan db k)"
proof -
  let ?f = "\<lambda>p. if dp_id p = i then p\<lparr>dp_status := status\<rparr> else p"
  have found: "find_plan (write_plan_status db i status) k = map_option ?f (find_plan db k)"
    by (rule find_plan_map) (simp_all add: write_plan_status_def)
  have "plan_identity (?f p) = plan_identity p" for p by (simp add: plan_identity_def)
  then show ?thesis by (simp add: found option.map_comp comp_def)
qed

lemma kept_plan_status: "kept db (write_plan_status db i status)"
  unfolding kept_def write_plan_status_identity by (simp add: write_plan_status_def)

lemma claim_tables:
  assumes "claim_deletion_stage env now clock db request = Inr (outcome, db')"
  shows "artifacts db' = artifacts db \<and> snapshots db' = snapshots db \<and> pins db' = pins db
    \<and> placements db' = placements db"
  using assms
proof (cases rule: claim_stage_steps)
  case refused
  then show ?thesis by (simp add: stage_audit_def)
next
  case (shared sp kind ikind key db1 db2 attempt)
  have "pins db2 = pins db"
    using shared(4,5) by (auto simp: abandon_expired_stage_def advance_plan_for_stage_def write_plan_status_def
        stage_audit_def Let_def split: if_splits)
  moreover have "artifacts db' = artifacts db2 \<and> snapshots db' = snapshots db2 \<and> pins db' = pins db2
      \<and> placements db' = placements db2"
    using shared(7) by (auto simp: insert_shared_stage_attempt_def stage_audit_def Let_def dest!: insert_stage_shape)
  ultimately show ?thesis using prepared_frame [OF shared(4,5)] by simp
next
  case (claimed sp lease kind ikind key db1 db2 db3 db4 attempt claim)
  have "pins db2 = pins db"
    using claimed(4,5) by (auto simp: abandon_expired_stage_def advance_plan_for_stage_def write_plan_status_def
        stage_audit_def Let_def split: if_splits)
  moreover have "artifacts db' = artifacts db2 \<and> snapshots db' = snapshots db2 \<and> pins db' = pins db2
      \<and> placements db' = placements db2"
    using claim_identity_shape [OF claimed(7)] insert_stage_shape [OF claimed(8)]
    by (auto simp: claimed(9) stage_audit_def)
  ultimately show ?thesis using prepared_frame [OF claimed(4,5)] by simp
qed

lemma kept_claim:
  assumes "claim_deletion_stage env now clock db request = Inr (outcome, db')"
  shows "kept db db'"
  using assms
proof (rule claim_plans)
  fix p assume "plans db' = plans db \<or> dp_status p = ''planned''
      \<and> plans db' = plans (write_plan_status db (cq_plan_id request) ''local_deleting'')"
  then have "map_option plan_identity (find_plan db' i) = map_option plan_identity (find_plan db i)" for i
    using write_plan_status_identity [of db "cq_plan_id request" "''local_deleting''" i]
    by (auto simp: find_plan_def)
  then show ?thesis using claim_tables [OF assms] by (simp add: kept_def)
qed

lemma kept_close:
  "close_stage env now db attempt claim close_row close_claim why outcome = Inr db' \<Longrightarrow> kept db db'"
  by (rule kept_frame) (auto simp: close_stage_def split: option.splits if_splits)

lemma kept_success: "record_deletion_stage_success env now db a c = Inr db' \<Longrightarrow> kept db db'"
  unfolding record_deletion_stage_success_def by (rule kept_close)

lemma kept_failure: "record_deletion_stage_failure env now db a c f = Inr db' \<Longrightarrow> kept db db'"
  unfolding record_deletion_stage_failure_def by (rule kept_close)

lemma kept_status: "set_target_status db clock t s = Inr db' \<Longrightarrow> kept db db'"
  unfolding set_target_status_def
  by (rule kept_frame) (auto simp: guarded_status_update_def write_status_def split: option.splits)

lemma kept_to_replicas: "advance_deletion_plan_to_replicas db i = Inr db' \<Longrightarrow> kept db db'"
  by (auto simp: advance_deletion_plan_to_replicas_def kept_plan_status split: option.splits if_splits)

text \<open>The bytes a stage of a plan may remove, judged on the database the pass started from.\<close>

definition due :: "vault_db \<Rightarrow> timestamp \<Rightarrow> uuid \<Rightarrow> uuid \<Rightarrow> bool" where
  "due db limit plan_ref snap \<longleftrightarrow>
     (\<exists>p. find_plan db plan_ref = Some p \<and> dp_snapshot p = snap \<and> dp_not_before p \<le> limit
        \<and> \<not> (dp_automatic p \<and> snapshot_is_pinned db snap))"

lemma unshared_kept: "kept db0 db \<Longrightarrow> unshared db = unshared db0"
  by (simp add: kept_def unshared_def retained_elsewhere_def fun_eq_iff)

lemma unshared_object_kept: "kept db0 db \<Longrightarrow> unshared_object db = unshared_object db0"
  by (simp add: kept_def unshared_object_def retained_elsewhere_def fun_eq_iff)

lemma due_kept:
  assumes "kept db0 db" and "due db limit i snap"
  shows "due db0 limit i snap"
proof -
  from assms(2) obtain p where p: "find_plan db i = Some p" "dp_snapshot p = snap" "dp_not_before p \<le> limit"
    "\<not> (dp_automatic p \<and> snapshot_is_pinned db snap)" by (auto simp: due_def)
  from assms(1) p(1) obtain q where q: "find_plan db0 i = Some q" "plan_identity p = plan_identity q"
    unfolding kept_def by (metis map_option_eq_Some option.simps(9))
  from q(2) have "dp_snapshot q = dp_snapshot p" "dp_not_before q = dp_not_before p" "dp_automatic q = dp_automatic p"
    unfolding plan_identity_def by (cases p; cases q; simp)+
  moreover have "snapshot_is_pinned db snap = snapshot_is_pinned db0 snap"
    using assms(1) by (simp add: kept_def snapshot_is_pinned_def)
  ultimately show ?thesis using p q(1) by (auto simp: due_def)
qed

definition stored_path :: "LocalBlobStore \<Rightarrow> ArtifactRow \<Rightarrow> string" where
  "stored_path store ar = store_root store @ ''/'' @ OWNER @ ''/sha256/'' @ encode_hex (ar_sha256 ar)"

definition deletable :: "worker \<Rightarrow> vault_db \<Rightarrow> timestamp \<Rightarrow> uuid \<Rightarrow> string \<Rightarrow> bool" where
  "deletable wk db limit plan_ref path \<longleftrightarrow>
     (\<exists>ar \<in> set (artifacts db). path = stored_path (wk_local_store wk) ar
        \<and> due db limit plan_ref (ar_snapshot ar) \<and> unshared db (ar_snapshot ar) ar)"

definition mirror_removable :: "worker \<Rightarrow> vault_db \<Rightarrow> timestamp \<Rightarrow> uuid \<Rightarrow> string list \<Rightarrow> bool" where
  "mirror_removable wk db limit plan_ref path \<longleftrightarrow>
     (\<exists>root snap. wk_canonicalize wk (wk_mirror_root wk) = Some root \<and> strict_prefix root path
        \<and> due db limit plan_ref snap)"

definition object_removable :: "vault_db \<Rightarrow> timestamp \<Rightarrow> uuid \<Rightarrow> uuid \<times> string \<Rightarrow> bool" where
  "object_removable db limit plan_ref object \<longleftrightarrow>
     (\<exists>rp \<in> set (placements db). \<exists>ar \<in> set (artifacts db). object = (rp_replica_target rp, rp_object_key rp)
        \<and> rp_artifact rp = ar_id ar \<and> due db limit plan_ref (ar_snapshot ar) \<and> unshared_object db (ar_snapshot ar) rp)"

definition safe_pass :: "worker \<Rightarrow> timestamp \<Rightarrow> uuid \<Rightarrow> world \<Rightarrow> world \<Rightarrow> bool" where
  "safe_pass wk limit plan_ref w w' \<longleftrightarrow>
     kept (w_db w) (w_db w')
     \<and> (\<forall>path. w_blobs w' path = w_blobs w path
          \<or> w_blobs w' path = None \<and> deletable wk (w_db w) limit plan_ref path)
     \<and> set (w_files w') \<subseteq> set (w_files w)
     \<and> (\<forall>(path, node) \<in> set (w_files w) - set (w_files w'). mirror_removable wk (w_db w) limit plan_ref path)
     \<and> (\<exists>more. w_removals w' = w_removals w @ more \<and> (\<forall>object \<in> set more. object_removable (w_db w) limit plan_ref object))"

lemma deletable_kept: "kept db0 db \<Longrightarrow> deletable wk db limit i path \<Longrightarrow> deletable wk db0 limit i path"
  using due_kept [of db0 db] unshared_kept [of db0 db] unfolding deletable_def kept_def by metis

lemma mirror_removable_kept:
  "kept db0 db \<Longrightarrow> mirror_removable wk db limit i path \<Longrightarrow> mirror_removable wk db0 limit i path"
  using due_kept unfolding mirror_removable_def by blast

lemma object_removable_kept:
  "kept db0 db \<Longrightarrow> object_removable db limit i object \<Longrightarrow> object_removable db0 limit i object"
  using due_kept [of db0 db] unshared_object_kept [of db0 db] unfolding object_removable_def kept_def by metis

lemma safe_pass_refl [simp]: "safe_pass wk limit i w w"
  by (simp add: safe_pass_def)

lemma safe_pass_db: "kept (w_db w) db \<Longrightarrow> safe_pass wk limit i w (w\<lparr>w_db := db\<rparr>)"
  by (simp add: safe_pass_def)

lemma safe_pass_trans:
  assumes "safe_pass wk limit i w w1" and "safe_pass wk limit i w1 w2"
  shows "safe_pass wk limit i w w2"
proof -
  have k: "kept (w_db w) (w_db w1)" using assms(1) by (simp add: safe_pass_def)
  have "w_blobs w2 path = w_blobs w path \<or> w_blobs w2 path = None \<and> deletable wk (w_db w) limit i path" for path
    using assms deletable_kept [OF k] unfolding safe_pass_def by metis
  moreover have "mirror_removable wk (w_db w) limit i path"
    if "(path, node) \<in> set (w_files w) - set (w_files w2)" for path node
    using that assms mirror_removable_kept [OF k] unfolding safe_pass_def by blast
  moreover have "\<exists>more. w_removals w2 = w_removals w @ more \<and> (\<forall>object \<in> set more. object_removable (w_db w) limit i object)"
    using assms object_removable_kept [OF k] unfolding safe_pass_def by fastforce
  ultimately show ?thesis using assms kept_trans unfolding safe_pass_def by blast
qed

lemma claim_stage_kept:
  assumes "claim_stage wk w i kind key artifact replica pl = (w1, r)"
  shows "kept (w_db w) (w_db w1) \<and> w_blobs w1 = w_blobs w \<and> w_files w1 = w_files w \<and> w_removals w1 = w_removals w"
  using assms kept_claim kept_trans [OF kept_advance [of "w_db w"]]
  by (fastforce simp: claim_stage_def Let_def split: sum.splits)

lemma claim_stage_safe: "claim_stage wk w i kind key artifact replica pl = (w1, r) \<Longrightarrow> safe_pass wk limit i w w1"
  using claim_stage_kept [of wk w i kind key artifact replica pl w1 r] by (simp add: safe_pass_def)

lemma claim_stage_effect:
  assumes "claim_stage wk w i kind key artifact replica pl = (w1, Inr (Effect attempt claim))"
    and "\<And>db k. wk_clock wk db k \<le> limit"
  obtains snap where "due (w_db w) limit i snap"
    "kind = Local \<Longrightarrow> \<forall>ar \<in> set (artifacts (w_db w)).
       artifact = Some (ar_id ar) \<and> ar_snapshot ar = snap \<longrightarrow> unshared (w_db w) snap ar"
    "kind = Replica \<Longrightarrow> \<forall>rp \<in> set (placements (w_db w)). pl = Some (rp_id rp) \<longrightarrow> unshared_object (w_db w) snap rp"
proof -
  define request where "request = \<lparr> cq_plan_id = i, cq_kind = kind, cq_stage_key = key, cq_artifact_id = artifact,
      cq_replica_target_id = replica, cq_placement_id = pl, cq_lease_owner = now_v7 (wk_env wk) (w_db w),
      cq_lease_seconds = wk_lease_seconds wk \<rparr>"
  let ?db = "advance (w_db w)"
  from assms(1) obtain outcome where
    "claim_deletion_stage (wk_env wk) (wk_now wk ?db) (wk_clock wk ?db) ?db request = Inr (outcome, w_db w1)"
    "claim_action outcome = Effect attempt claim"
    by (auto simp: claim_stage_def request_def Let_def split: sum.splits)
  then have "claim_deletion_stage (wk_env wk) (wk_now wk ?db) (wk_clock wk ?db) ?db request
      = Inr (Claimed attempt claim, w_db w1)"
    by (cases outcome) auto
  then show thesis
  proof (rule claimed_stage_facts)
    fix p kind' ikind key' db2
    assume p: "find_plan ?db (cq_plan_id request) = Some p" "dp_not_before p \<le> wk_clock wk ?db 0"
      "\<not> (dp_automatic p \<and> snapshot_is_pinned ?db (dp_snapshot p))"
      and ident: "stage_identity (wk_env wk) ?db (dp_snapshot p) request = Inr (kind', ikind, key')"
      and shared: "identity_is_shared db2 (dp_snapshot p) request = Inr False"
      and frame: "artifacts db2 = artifacts ?db" "snapshots db2 = snapshots ?db" "placements db2 = placements ?db"
    have "due (w_db w) limit i (dp_snapshot p)"
      using p assms(2) order_trans unfolding due_def
      by (fastforce simp: request_def find_plan_def snapshot_is_pinned_def)
    moreover have "\<forall>ar \<in> set (artifacts (w_db w)). artifact = Some (ar_id ar) \<and> ar_snapshot ar = dp_snapshot p \<longrightarrow>
        unshared (w_db w) (dp_snapshot p) ar" if "kind = Local"
    proof (rule claimed_local_unshared [OF ident shared _ frame(1,2)])
      show "cq_kind request = Local" using that by (simp add: request_def)
    qed (auto simp: request_def unshared_kept [OF kept_advance [of "w_db w"]])
    moreover have "\<forall>rp \<in> set (placements (w_db w)). pl = Some (rp_id rp) \<longrightarrow> unshared_object (w_db w) (dp_snapshot p) rp"
      if "kind = Replica"
    proof (rule claimed_replica_unshared [OF ident shared _ frame])
      show "cq_kind request = Replica" using that by (simp add: request_def)
    qed (auto simp: request_def unshared_object_kept [OF kept_advance [of "w_db w"]])
    ultimately show thesis using that by blast
  qed
qed

lemma delete_blob_frame:
  assumes "delete_verified_blob hash chunks_of inside store r fs = (fs', res)"
  shows "fs' = fs \<or> (\<exists>path. path_for store r = Inr path \<and> fs' = fs(path := None))"
  using assms by (auto simp: delete_verified_blob_def split: sum.splits option.splits blob_node.splits if_splits)

lemma mirror_delete_frame:
  assumes "delete_confined_mirror fuel canonicalize root path files = (files', res)"
  shows "set files' \<subseteq> set files \<and> (\<forall>(entry, node) \<in> set files - set files'.
           \<exists>canonical. canonicalize root = Some canonical \<and> strict_prefix canonical entry)"
proof -
  have below: "strict_prefix canonical entry" if "prefix target entry" "target \<noteq> canonical" "prefix canonical target"
    for canonical target entry :: "string list"
    using that by (metis prefix_order.antisym_conv2 prefix_order.less_le_trans)
  show ?thesis
    using assms below
    by (auto simp: delete_confined_mirror_def remove_dir_all_def split: option.splits if_splits)
qed

lemma stage_closed_safe:
  "stage_succeeded wk w attempt claim = (w', r) \<Longrightarrow> safe_pass wk limit i w w'"
  "stage_failed wk w attempt claim failure = (w', r) \<Longrightarrow> safe_pass wk limit i w w'"
  using kept_success kept_failure
  by (auto simp: stage_succeeded_def stage_failed_def intro: safe_pass_db split: sum.splits)

lemma stage_closed_result:
  "stage_succeeded wk w attempt claim = (w', Inr b) \<Longrightarrow> b \<and> w_blobs w' = w_blobs w"
  "stage_failed wk w attempt claim failure \<noteq> (w', Inr b)"
  by (auto simp: stage_succeeded_def stage_failed_def split: sum.splits)

text \<open>The plan view names the artifacts of the plan's snapshot.\<close>

lemma execution_artifacts_rows:
  assumes "execution_artifacts db ars = Inr xs"
  shows "list_all2 (\<lambda>ar x. xa_artifact_id x = ar_id ar \<and> sha256 (xa_blob x) = encode_hex (ar_sha256 ar)
    \<and> xa_replicas x = execution_replicas db (ar_id ar)) ars xs"
  using assms by (induction ars arbitrary: xs) (auto split: if_splits)

lemma list_all2_members:
  assumes "list_all2 P xs ys"
  shows "x \<in> set xs \<Longrightarrow> \<exists>y \<in> set ys. P x y" and "y \<in> set ys \<Longrightarrow> \<exists>x \<in> set xs. P x y"
  using assms by (induction rule: list_all2_induct) auto

definition view_of :: "vault_db \<Rightarrow> uuid \<Rightarrow> DeletionExecutionArtifact \<Rightarrow> bool" where
  "view_of db snap x \<longleftrightarrow> (\<exists>ar \<in> set (artifacts db). ar_snapshot ar = snap \<and> xa_artifact_id x = ar_id ar
     \<and> sha256 (xa_blob x) = encode_hex (ar_sha256 ar) \<and> xa_replicas x = execution_replicas db (ar_id ar))"

lemma plan_view_shape:
  assumes "deletion_execution_plan db i = Inr view"
  obtains p where "find_plan db i = Some p" "xp_plan_id view = i" "xp_snapshot_id view = dp_snapshot p"
    "xp_status view = dp_status p" "xp_tombstone_id view = dp_tombstone p"
    "\<forall>x \<in> set (xp_artifacts view). view_of db (dp_snapshot p) x"
    "\<forall>ar \<in> set (artifacts db). ar_snapshot ar = dp_snapshot p \<longrightarrow>
       (\<exists>x \<in> set (xp_artifacts view). xa_artifact_id x = ar_id ar \<and> sha256 (xa_blob x) = encode_hex (ar_sha256 ar))"
proof -
  from assms obtain p xs where p: "find_plan db i = Some p" "xp_plan_id view = i" "xp_snapshot_id view = dp_snapshot p"
    "xp_status view = dp_status p" "xp_tombstone_id view = dp_tombstone p" "xp_artifacts view = xs"
    and xs: "execution_artifacts db (sort_key ar_id (filter (\<lambda>ar. ar_snapshot ar = dp_snapshot p) (artifacts db))) = Inr xs"
    by (auto simp: deletion_execution_plan_def split: option.splits)
  note rows = execution_artifacts_rows [OF xs]
  have "view_of db (dp_snapshot p) x" if "x \<in> set xs" for x
    using list_all2_members(2) [OF rows that] by (auto simp: view_of_def)
  moreover have "\<exists>x \<in> set xs. xa_artifact_id x = ar_id ar \<and> sha256 (xa_blob x) = encode_hex (ar_sha256 ar)"
    if "ar \<in> set (artifacts db)" "ar_snapshot ar = dp_snapshot p" for ar
    using list_all2_members(1) [OF rows, of ar] that by auto
  ultimately show thesis using that p by blast
qed

lemma due_snapshot: "due db limit i snap \<Longrightarrow> find_plan db i = Some p \<Longrightarrow> dp_snapshot p = snap"
  by (simp add: due_def)

lemma local_artifact_safe:
  assumes "run_local_artifact wk i x w = (w', r)" and "\<And>db k. wk_clock wk db k \<le> limit"
    and "find_plan (w_db w) i = Some p" and "view_of (w_db w) (dp_snapshot p) x"
  shows "safe_pass wk limit i w w'"
proof -
  obtain w1 c where claim: "claim_stage wk w i Local (''local:'' @ uuid_to_string (wk_env wk) (xa_artifact_id x))
      (Some (xa_artifact_id x)) None None = (w1, c)" by fastforce
  have first: "safe_pass wk limit i w w1" by (rule claim_stage_safe [OF claim])
  show ?thesis
  proof (cases "\<exists>attempt claim. c = Inr (Effect attempt claim)")
    case False
    then have "w' = w1"
      using assms(1) claim by (cases c) (auto simp: run_local_artifact_def split: ClaimAction.splits)
    with first show ?thesis by simp
  next
    case True
    then obtain attempt k where c: "c = Inr (Effect attempt k)" by blast
    obtain blobs res where del: "delete_verified_blob (wk_hash wk) (wk_chunks wk) (wk_parent_inside_root wk)
        (wk_local_store wk) (xa_blob x) (w_blobs w1) = (blobs, res)" by fastforce
    from claim [unfolded c] assms(2) obtain snap where snap: "due (w_db w) limit i snap"
      "\<forall>ar \<in> set (artifacts (w_db w)). Some (xa_artifact_id x) = Some (ar_id ar) \<and> ar_snapshot ar = snap
         \<longrightarrow> unshared (w_db w) snap ar"
      by (rule claim_stage_effect) simp_all
    have "deletable wk (w_db w) limit i path" if "path_for (wk_local_store wk) (xa_blob x) = Inr path" for path
      using that assms(4) snap due_snapshot [OF snap(1) assms(3)]
      by (auto simp: view_of_def deletable_def stored_path_def path_for_def split: if_splits)
    then have "safe_pass wk limit i w (w1\<lparr>w_blobs := blobs\<rparr>)"
      using delete_blob_frame [OF del] claim_stage_kept [OF claim] by (auto simp: safe_pass_def split: if_splits)
    moreover have "safe_pass wk limit i (w1\<lparr>w_blobs := blobs\<rparr>) w'"
      using assms(1) claim c del stage_closed_safe by (auto simp: run_local_artifact_def split: sum.splits)
    ultimately show ?thesis by (rule safe_pass_trans)
  qed
qed

lemma mirror_stage_safe:
  assumes "run_mirror_stage wk view w = (w', r)" and "\<And>db k. wk_clock wk db k \<le> limit"
  shows "safe_pass wk limit (xp_plan_id view) w w'"
proof (cases "xp_mirror_storage_path view")
  case None
  then show ?thesis using assms(1) by (simp add: run_mirror_stage_def)
next
  case (Some storage)
  obtain w1 c where claim: "claim_stage wk w (xp_plan_id view) MirrorLocal
      (''mirror:'' @ uuid_to_string (wk_env wk) (xp_target_id view)) None None None = (w1, c)" by fastforce
  have first: "safe_pass wk limit (xp_plan_id view) w w1" by (rule claim_stage_safe [OF claim])
  show ?thesis
  proof (cases "\<exists>attempt claim. c = Inr (Effect attempt claim)")
    case False
    then have "w' = w1"
      using assms(1) claim Some by (cases c) (auto simp: run_mirror_stage_def split: ClaimAction.splits)
    with first show ?thesis by simp
  next
    case True
    then obtain attempt k where c: "c = Inr (Effect attempt k)" by blast
    obtain files res where del: "delete_confined_mirror (wk_fuel wk) (wk_canonicalize wk) (wk_mirror_root wk) storage
        (w_files w1) = (files, res)" by fastforce
    from claim [unfolded c] assms(2) obtain snap where "due (w_db w) limit (xp_plan_id view) snap"
      by (rule claim_stage_effect) simp_all
    then have "safe_pass wk limit (xp_plan_id view) w (w1\<lparr>w_files := files\<rparr>)"
      using mirror_delete_frame [OF del] claim_stage_kept [OF claim]
      unfolding safe_pass_def mirror_removable_def by simp blast
    moreover have "safe_pass wk limit (xp_plan_id view) (w1\<lparr>w_files := files\<rparr>) w'"
      using assms(1) claim c del Some stage_closed_safe by (auto simp: run_mirror_stage_def split: sum.splits)
    ultimately show ?thesis by (rule safe_pass_trans)
  qed
qed

lemma replica_row:
  assumes "view_of db snap x" and "stored \<in> set (xa_replicas x)"
  obtains rp ar where "rp \<in> set (placements db)" "ar \<in> set (artifacts db)" "ar_snapshot ar = snap" "rp_artifact rp = ar_id ar"
    "xr_placement_id stored = rp_id rp" "xr_replica_target_id stored = rp_replica_target rp"
    "xr_object_key stored = rp_object_key rp"
  using assms by (auto simp: view_of_def execution_replicas_def)

lemma replica_safe:
  assumes "run_replica wk i x stored w = (w', r)" and "\<And>db k. wk_clock wk db k \<le> limit"
    and "find_plan (w_db w) i = Some p" and "view_of (w_db w) (dp_snapshot p) x" and "stored \<in> set (xa_replicas x)"
  shows "safe_pass wk limit i w w'"
proof -
  obtain w1 c where claim: "claim_stage wk w i Replica (''replica:'' @ uuid_to_string (wk_env wk) (xr_placement_id stored))
      (Some (xa_artifact_id x)) (Some (xr_replica_target_id stored)) (Some (xr_placement_id stored)) = (w1, c)"
    by fastforce
  have first: "safe_pass wk limit i w w1" by (rule claim_stage_safe [OF claim])
  show ?thesis
  proof (cases "\<exists>attempt claim. c = Inr (Effect attempt claim)")
    case False
    then have "w' = w1"
      using assms(1) claim by (cases c) (auto simp: run_replica_def split: ClaimAction.splits)
    with first show ?thesis by simp
  next
    case True
    then obtain attempt k where c: "c = Inr (Effect attempt k)" by blast
    from claim [unfolded c] assms(2) obtain snap where snap: "due (w_db w) limit i snap"
      "\<forall>rp \<in> set (placements (w_db w)). Some (xr_placement_id stored) = Some (rp_id rp) \<longrightarrow> unshared_object (w_db w) snap rp"
      by (rule claim_stage_effect) simp_all
    have "object_removable (w_db w) limit i (xr_replica_target_id stored, xr_object_key stored)"
      using assms(4,5) by (rule replica_row)
        (use snap due_snapshot [OF snap(1) assms(3)] in \<open>auto simp: object_removable_def\<close>)
    then have requested: "safe_pass wk limit i w (request_removal stored requested w1)" for requested
      using claim_stage_kept [OF claim] by (simp add: safe_pass_def request_removal_def)
    have "\<exists>requested. safe_pass wk limit i (request_removal stored requested w1) w'"
    proof (cases "wk_replicas wk (xr_replica_target_id stored)")
      case None
      then have "safe_pass wk limit i (request_removal stored False w1) w'"
        using assms(1) claim c stage_closed_safe by (simp add: run_replica_def request_removal_def)
      then show ?thesis by blast
    next
      case (Some store)
      then show ?thesis
        using assms(1) claim c
        by (auto simp: run_replica_def split: prod.splits sum.splits intro: stage_closed_safe)
    qed
    then show ?thesis using requested safe_pass_trans by blast
  qed
qed

lemma run_all_safe:
  assumes "run_all run xs w = (w', r)"
    and "\<And>x w w' r. x \<in> set xs \<Longrightarrow> kept (w_db w0) (w_db w) \<Longrightarrow> run x w = (w', r) \<Longrightarrow> safe_pass wk limit i w w'"
    and "kept (w_db w0) (w_db w)"
  shows "safe_pass wk limit i w w'"
  using assms
proof (induction xs arbitrary: w)
  case (Cons x xs)
  obtain w1 r1 where first: "run x w = (w1, r1)" by fastforce
  have step: "safe_pass wk limit i w w1"
    by (rule Cons.prems(2) [OF _ Cons.prems(3) first]) simp
  then have k: "kept (w_db w0) (w_db w1)" using Cons.prems(3) kept_trans by (auto simp: safe_pass_def)
  have "safe_pass wk limit i w1 w'"
  proof (cases "r1 = Inr True")
    case True
    then have "run_all run xs w1 = (w', r)" using Cons.prems(1) first by simp
    then show ?thesis by (rule Cons.IH) (auto intro: Cons.prems(2) k)
  next
    case False
    then have "w' = w1" using Cons.prems(1) first by (auto split: sum.splits bool.splits)
    then show ?thesis by simp
  qed
  then show ?case by (rule safe_pass_trans [OF step])
qed simp

lemma kept_plan:
  assumes "kept db0 db" and "find_plan db0 i = Some p"
  obtains q where "find_plan db i = Some q" "dp_snapshot q = dp_snapshot p"
proof -
  from assms obtain q where q: "find_plan db i = Some q" "plan_identity q = plan_identity p"
    unfolding kept_def by (metis map_option_eq_Some option.simps(9))
  from q(2) have "dp_snapshot q = dp_snapshot p"
    unfolding plan_identity_def by (cases p; cases q; simp)
  with q(1) show thesis by (rule that)
qed

lemma view_of_kept: "kept db0 db \<Longrightarrow> view_of db = view_of db0"
  by (simp add: kept_def view_of_def execution_replicas_def fun_eq_iff)

lemma local_stages_safe:
  assumes "run_local_stages wk view w = (w', r)" and "\<And>db k. wk_clock wk db k \<le> limit"
    and "find_plan (w_db w) (xp_plan_id view) = Some p"
    and "\<forall>x \<in> set (xp_artifacts view). view_of (w_db w) (dp_snapshot p) x"
  shows "safe_pass wk limit (xp_plan_id view) w w'"
  using assms(1) unfolding run_local_stages_def
proof (rule run_all_safe [where ?w0.0 = w])
  fix x v v' r
  assume x: "x \<in> set (xp_artifacts view)" and k: "kept (w_db w) (w_db v)"
    and run: "run_local_artifact wk (xp_plan_id view) x v = (v', r)"
  from k assms(3) obtain q where q: "find_plan (w_db v) (xp_plan_id view) = Some q" "dp_snapshot q = dp_snapshot p"
    by (rule kept_plan)
  show "safe_pass wk limit (xp_plan_id view) v v'"
    by (rule local_artifact_safe [OF run assms(2) q(1)]) (use assms(4) x q(2) view_of_kept [OF k] in simp)
qed simp

lemma replica_stages_safe:
  assumes "run_replica_stages wk view w = (w', r)" and "\<And>db k. wk_clock wk db k \<le> limit"
    and "find_plan (w_db w) (xp_plan_id view) = Some p"
    and "\<forall>x \<in> set (xp_artifacts view). view_of (w_db w) (dp_snapshot p) x"
  shows "safe_pass wk limit (xp_plan_id view) w w'"
  using assms(1) unfolding run_replica_stages_def
proof (rule run_all_safe [where ?w0.0 = w])
  fix x v v' r
  assume x: "x \<in> set (xp_artifacts view)" and k: "kept (w_db w) (w_db v)"
    and run: "run_all (run_replica wk (xp_plan_id view) x) (xa_replicas x) v = (v', r)"
  from run show "safe_pass wk limit (xp_plan_id view) v v'"
  proof (rule run_all_safe [where ?w0.0 = w])
    fix stored u u' r
    assume stored: "stored \<in> set (xa_replicas x)" and k: "kept (w_db w) (w_db u)"
      and run: "run_replica wk (xp_plan_id view) x stored u = (u', r)"
    from k assms(3) obtain q where q: "find_plan (w_db u) (xp_plan_id view) = Some q" "dp_snapshot q = dp_snapshot p"
      by (rule kept_plan)
    show "safe_pass wk limit (xp_plan_id view) u u'"
      by (rule replica_safe [OF run assms(2) q(1) _ stored]) (use assms(4) x q(2) view_of_kept [OF k] in simp)
  qed (rule k)
qed simp

lemma host_stages_safe:
  assumes "run_host_stages wk view w = (w', r)" and "\<And>db k. wk_clock wk db k \<le> limit"
    and "find_plan (w_db w) (xp_plan_id view) = Some p"
    and "\<forall>x \<in> set (xp_artifacts view). view_of (w_db w) (dp_snapshot p) x"
  shows "safe_pass wk limit (xp_plan_id view) w w'"
proof -
  obtain w1 r1 where local: "run_local_stages wk view w = (w1, r1)" by fastforce
  have first: "safe_pass wk limit (xp_plan_id view) w w1"
    by (rule local_stages_safe [OF local assms(2-4)])
  obtain w2 r2 where mirror: "(if xp_tombstone_id view \<noteq> None then run_mirror_stage wk view w1 else (w1, Inr True)) = (w2, r2)"
    by fastforce
  have second: "safe_pass wk limit (xp_plan_id view) w1 w2"
    using mirror mirror_stage_safe [OF _ assms(2)] by (auto split: if_splits)
  have third: "safe_pass wk limit (xp_plan_id view) w2 (w2\<lparr>w_db := db\<rparr>)"
    if "advance_deletion_plan_to_replicas (w_db w2) (xp_plan_id view) = Inr db" for db
    by (rule safe_pass_db) (rule kept_to_replicas [OF that])
  show ?thesis
  proof (cases "r1 = Inr True")
    case True
    have "safe_pass wk limit (xp_plan_id view) w2 w'"
      using assms(1) local mirror True third
      by (auto simp: run_host_stages_def split: sum.splits bool.splits)
    with second have "safe_pass wk limit (xp_plan_id view) w1 w'" by (rule safe_pass_trans)
    with first show ?thesis by (rule safe_pass_trans)
  next
    case False
    then have "w' = w1" using assms(1) local by (auto simp: run_host_stages_def split: sum.splits bool.splits)
    with first show ?thesis by simp
  qed
qed

text \<open>The pass up to the final write, which touches the database only.\<close>

lemma run_plan_safe:
  assumes "run_plan wk i w = (w', outcome)" and "\<And>db k. wk_clock wk db k \<le> limit"
  obtains w2 where "safe_pass wk limit i w w2" "w_blobs w' = w_blobs w2" "w_files w' = w_files w2"
    "w_removals w' = w_removals w2"
proof (cases "deletion_execution_plan (w_db w) i")
  case (Inl e)
  then show thesis using assms(1) that [of w] by (simp add: run_plan_def run_plan_inner_def)
next
  case (Inr view)
  then obtain p where p: "find_plan (w_db w) i = Some p" "xp_plan_id view = i"
    "\<forall>x \<in> set (xp_artifacts view). view_of (w_db w) (dp_snapshot p) x"
    by (rule plan_view_shape)
  let ?start = "if xp_tombstone_id view \<noteq> None \<and> xp_status view = ''planned''
    then set_target_status (w_db w) (wk_clock wk (w_db w) 0) (xp_target_id view) Deleting else Inr (w_db w)"
  show thesis
  proof (cases ?start)
    case (Inl e)
    then show thesis
      using assms(1) Inr that [of w] by (auto simp: run_plan_def run_plan_inner_def split: if_splits)
  next
    case start: (Inr db)
    have k: "kept (w_db w) db" using start kept_status by (auto split: if_splits)
    let ?w = "w\<lparr>w_db := db\<rparr>"
    have zero: "safe_pass wk limit i w ?w" by (rule safe_pass_db [OF k])
    obtain w1 r1 where host: "(if xp_status view \<noteq> ''replica_deleting'' then run_host_stages wk view ?w
        else (?w, Inr True)) = (w1, r1)" by fastforce
    from k p(1) obtain q where q: "find_plan db i = Some q" "dp_snapshot q = dp_snapshot p" by (rule kept_plan)
    have "safe_pass wk limit i ?w w1"
    proof (cases "xp_status view = ''replica_deleting''")
      case False
      then have "run_host_stages wk view ?w = (w1, r1)" using host by simp
      then show ?thesis
        using host_stages_safe [of wk view ?w w1 r1 limit q] assms(2) p q view_of_kept [OF k] by simp
    qed (use host in simp)
    then have one: "safe_pass wk limit i w w1" by (rule safe_pass_trans [OF zero])
    obtain w2 r2 where repl: "run_replica_stages wk view w1 = (w2, r2)" by fastforce
    have k1: "kept (w_db w) (w_db w1)" using one by (simp add: safe_pass_def)
    from k1 p(1) obtain q1 where q1: "find_plan (w_db w1) i = Some q1" "dp_snapshot q1 = dp_snapshot p" by (rule kept_plan)
    have two: "safe_pass wk limit i w w2"
      by (rule safe_pass_trans [OF one])
        (use replica_stages_safe [OF repl assms(2)] p q1 view_of_kept [OF k1] in simp)
    show thesis
    proof (cases "w' = w \<or> w' = w1")
      case True
      then show thesis using that [of w] that [of w1] one by auto
    next
      case False
      then have "w_blobs w' = w_blobs w2 \<and> w_files w' = w_files w2 \<and> w_removals w' = w_removals w2"
        using assms(1) Inr start host repl
        by (auto simp: run_plan_def run_plan_inner_def split: sum.splits bool.splits if_splits)
      with two show thesis using that by blast
    qed
  qed
qed

subsection \<open>What is gone when a pass completes\<close>

lemma delete_blob_gone:
  assumes "delete_verified_blob hash chunks_of inside store r fs = (fs', Inr outcome)"
  shows "\<exists>path. path_for store r = Inr path \<and> fs' path = None"
  using assms by (auto simp: delete_verified_blob_def split: sum.splits option.splits blob_node.splits if_splits)

lemma claim_stage_suppressed:
  assumes "claim_stage wk w i Local key (Some a) None None = (w1, Inr Suppressed)" and "find_plan (w_db w) i = Some p"
  obtains ar where "ar \<in> set (artifacts (w_db w))" "ar_id ar = a" "ar_snapshot ar = dp_snapshot p"
    "\<not> unshared (w_db w) (dp_snapshot p) ar"
proof -
  define request where "request = \<lparr> cq_plan_id = i, cq_kind = Local, cq_stage_key = key, cq_artifact_id = Some a,
      cq_replica_target_id = None, cq_placement_id = None, cq_lease_owner = now_v7 (wk_env wk) (w_db w),
      cq_lease_seconds = wk_lease_seconds wk \<rparr>"
  let ?db = "advance (w_db w)"
  from assms(1) obtain outcome where
    "claim_deletion_stage (wk_env wk) (wk_now wk ?db) (wk_clock wk ?db) ?db request = Inr (outcome, w_db w1)"
    "claim_action outcome = Suppressed"
    by (auto simp: claim_stage_def request_def Let_def split: sum.splits)
  then obtain attempt where claim: "claim_deletion_stage (wk_env wk) (wk_now wk ?db) (wk_clock wk ?db) ?db request
      = Inr (SharedReferenceRetained attempt, w_db w1)"
    by (cases outcome) auto
  show thesis
    using claim
  proof (cases rule: claim_stage_steps)
    case (refused sp why)
    then show thesis by (auto simp: stage_claim_refusal_def split: if_splits)
  next
    case (shared sp kind ikind key db1 db2 attempt')
    from shared(1) obtain q where "find_plan ?db i = Some q" "sp_snapshot_id sp = dp_snapshot q"
      by (rule load_stage_plan_shape) (simp add: request_def)
    then have "sp_snapshot_id sp = dp_snapshot p" using assms(2) by (simp add: find_plan_def)
    with shared(6) prepared_frame [OF shared(4,5)] obtain selected where
      "selected \<in> set (artifacts (w_db w))" "ar_id selected = a" "ar_snapshot selected = dp_snapshot p"
      "\<not> unshared (w_db w) (dp_snapshot p) selected"
      by (auto simp: identity_is_shared_def request_def unshared_def list_ex_iff retained_elsewhere_def) blast
    then show thesis by (rule that)
  qed simp
qed

definition gone :: "worker \<Rightarrow> world \<Rightarrow> DeletionExecutionArtifact \<Rightarrow> bool" where
  "gone wk w x \<longleftrightarrow> (\<exists>path. path_for (wk_local_store wk) (xa_blob x) = Inr path \<and> w_blobs w path = None)"

definition retained_for :: "vault_db \<Rightarrow> uuid \<Rightarrow> uuid \<Rightarrow> bool" where
  "retained_for db snap a \<longleftrightarrow> (\<exists>ar \<in> set (artifacts db). ar_id ar = a \<and> ar_snapshot ar = snap \<and> \<not> unshared db snap ar)"

lemma gone_kept: "safe_pass wk limit i w w' \<Longrightarrow> gone wk w x \<Longrightarrow> gone wk w' x"
  unfolding safe_pass_def gone_def by metis

lemma local_artifact_done:
  assumes "run_local_artifact wk i x w = (w', Inr True)" and "find_plan (w_db w) i = Some p"
  shows "gone wk w' x \<or> retained_for (w_db w) (dp_snapshot p) (xa_artifact_id x)"
proof -
  obtain w1 c where claim: "claim_stage wk w i Local (''local:'' @ uuid_to_string (wk_env wk) (xa_artifact_id x))
      (Some (xa_artifact_id x)) None None = (w1, Inr c)"
    using assms(1) by (fastforce simp: run_local_artifact_def split: prod.splits sum.splits)
  show ?thesis
  proof (cases c)
    case Suppressed
    from claim [unfolded this] assms(2) show ?thesis
      by (rule claim_stage_suppressed) (auto simp: retained_for_def)
  next
    case DeferredClaim
    then show ?thesis using assms(1) claim by (simp add: run_local_artifact_def)
  next
    case (Effect attempt k)
    obtain blobs res where del: "delete_verified_blob (wk_hash wk) (wk_chunks wk) (wk_parent_inside_root wk)
        (wk_local_store wk) (xa_blob x) (w_blobs w1) = (blobs, res)" by fastforce
    then have "stage_succeeded wk (w1\<lparr>w_blobs := blobs\<rparr>) attempt k = (w', Inr True) \<and> (\<exists>out. res = Inr out)"
      using assms(1) claim Effect stage_closed_result(2) by (auto simp: run_local_artifact_def split: sum.splits)
    then show ?thesis using delete_blob_gone del stage_closed_result(1) unfolding gone_def by force
  qed
qed

lemma run_all_each:
  assumes "run_all run xs w = (w', Inr True)" and "x \<in> set xs"
    and "\<And>x w w' r. x \<in> set xs \<Longrightarrow> kept (w_db w0) (w_db w) \<Longrightarrow> run x w = (w', r) \<Longrightarrow> safe_pass wk limit i w w'"
    and "kept (w_db w0) (w_db w)"
  obtains v v' where "kept (w_db w0) (w_db v)" "run x v = (v', Inr True)" "safe_pass wk limit i v' w'"
  using assms
proof (induction xs arbitrary: w thesis)
  case (Cons y ys)
  from Cons.prems(2) obtain w1 where first: "run y w = (w1, Inr True)" "run_all run ys w1 = (w', Inr True)"
    by (auto split: prod.splits sum.splits bool.splits)
  have "safe_pass wk limit i w w1" by (rule Cons.prems(4) [OF _ Cons.prems(5) first(1)]) simp
  then have k: "kept (w_db w0) (w_db w1)" using Cons.prems(5) kept_trans by (auto simp: safe_pass_def)
  show ?case
  proof (cases "x = y")
    case True
    have "safe_pass wk limit i w1 w'"
      by (rule run_all_safe [where ?w0.0 = w0, OF first(2) _ k]) (auto intro: Cons.prems(4))
    with True show ?thesis using Cons.prems(1,5) first(1) by blast
  next
    case False
    then have "x \<in> set ys" using Cons.prems(3) by simp
    from first(2) this _ k show ?thesis
    proof (rule Cons.IH [rotated])
      fix z v v' r
      assume "z \<in> set ys" "kept (w_db w0) (w_db v)" "run z v = (v', r)"
      then show "safe_pass wk limit i v v'" by (rule Cons.prems(4) [OF list.set_intros(2)])
    qed (rule Cons.prems(1))
  qed
qed simp

lemma local_stages_done:
  assumes "run_local_stages wk view w = (w', Inr True)" and "\<And>db k. wk_clock wk db k \<le> limit"
    and "find_plan (w_db w) (xp_plan_id view) = Some p"
    and "\<forall>x \<in> set (xp_artifacts view). view_of (w_db w) (dp_snapshot p) x" and "x \<in> set (xp_artifacts view)"
  shows "gone wk w' x \<or> retained_for (w_db w) (dp_snapshot p) (xa_artifact_id x)"
  using assms(1,5) unfolding run_local_stages_def
proof (rule run_all_each [where ?w0.0 = w])
  fix z v v' r
  assume z: "z \<in> set (xp_artifacts view)" and k: "kept (w_db w) (w_db v)"
    and run: "run_local_artifact wk (xp_plan_id view) z v = (v', r)"
  from k assms(3) obtain q where q: "find_plan (w_db v) (xp_plan_id view) = Some q" "dp_snapshot q = dp_snapshot p"
    by (rule kept_plan)
  show "safe_pass wk limit (xp_plan_id view) v v'"
    by (rule local_artifact_safe [OF run assms(2) q(1)]) (use assms(4) z q(2) view_of_kept [OF k] in simp)
next
  fix v v'
  assume k: "kept (w_db w) (w_db v)" and run: "run_local_artifact wk (xp_plan_id view) x v = (v', Inr True)"
    and rest: "safe_pass wk limit (xp_plan_id view) v' w'"
  from k assms(3) obtain q where q: "find_plan (w_db v) (xp_plan_id view) = Some q" "dp_snapshot q = dp_snapshot p"
    by (rule kept_plan)
  have "retained_for (w_db v) = retained_for (w_db w)"
    using k unshared_kept [OF k] by (simp add: retained_for_def kept_def fun_eq_iff)
  then show ?thesis using local_artifact_done [OF run q(1)] q(2) gone_kept [OF rest] by auto
qed simp

lemma host_stages_done:
  assumes "run_host_stages wk view w = (w', Inr True)" and "\<And>db k. wk_clock wk db k \<le> limit"
    and "find_plan (w_db w) (xp_plan_id view) = Some p"
    and "\<forall>x \<in> set (xp_artifacts view). view_of (w_db w) (dp_snapshot p) x" and "x \<in> set (xp_artifacts view)"
  shows "gone wk w' x \<or> retained_for (w_db w) (dp_snapshot p) (xa_artifact_id x)"
proof -
  obtain w1 where local: "run_local_stages wk view w = (w1, Inr True)"
    using assms(1) by (auto simp: run_host_stages_def split: prod.splits sum.splits bool.splits)
  obtain w2 r2 where mirror: "(if xp_tombstone_id view \<noteq> None then run_mirror_stage wk view w1 else (w1, Inr True)) = (w2, r2)"
    by fastforce
  have "safe_pass wk limit (xp_plan_id view) w1 w2"
    using mirror mirror_stage_safe [OF _ assms(2)] by (auto split: if_splits)
  moreover have "w_blobs w' = w_blobs w2"
    using assms(1) local mirror by (auto simp: run_host_stages_def split: sum.splits bool.splits)
  ultimately show ?thesis
    using local_stages_done [OF local assms(2-5)] gone_kept unfolding gone_def by metis
qed

lemma completed_pass:
  assumes "run_plan wk i w = (w', Completed)" and "deletion_execution_plan (w_db w) i = Inr view"
    and "xp_status view \<in> {''planned'', ''local_deleting''}"
  obtains db w1 w2 where "kept (w_db w) db" "run_host_stages wk view (w\<lparr>w_db := db\<rparr>) = (w1, Inr True)"
    "run_replica_stages wk view w1 = (w2, Inr True)" "w_blobs w' = w_blobs w2"
    "complete_deletion_plan (wk_env wk) (wk_now wk (w_db w2)) (wk_clock wk (w_db w2) 0) (w_db w2) i = Inr (w_db w')"
proof -
  let ?start = "if xp_tombstone_id view \<noteq> None \<and> xp_status view = ''planned''
    then set_target_status (w_db w) (wk_clock wk (w_db w) 0) (xp_target_id view) Deleting else Inr (w_db w)"
  obtain db where db: "?start = Inr db"
    using assms by (cases ?start) (auto simp: run_plan_def run_plan_inner_def split: if_splits)
  then have k: "kept (w_db w) db" using kept_status by (auto split: if_splits)
  obtain w1 r1 where host: "run_host_stages wk view (w\<lparr>w_db := db\<rparr>) = (w1, r1)" by fastforce
  obtain w2 r2 where repl: "run_replica_stages wk view w1 = (w2, r2)" by fastforce
  have "r1 = Inr True \<and> r2 = Inr True \<and> w_blobs w' = w_blobs w2
    \<and> complete_deletion_plan (wk_env wk) (wk_now wk (w_db w2)) (wk_clock wk (w_db w2) 0) (w_db w2) i = Inr (w_db w')"
    using assms db host repl by (auto simp: run_plan_def run_plan_inner_def split: sum.splits bool.splits)
  with k host repl show thesis by (elim conjE) (rule that, assumption, simp, simp)
qed

lemma deletable_due:
  "deletable wk db limit i path \<longleftrightarrow>
     (\<exists>p ar. find_plan db i = Some p \<and> dp_not_before p \<le> limit \<and> \<not> (dp_automatic p \<and> snapshot_is_pinned db (dp_snapshot p))
        \<and> ar \<in> set (artifacts db) \<and> ar_snapshot ar = dp_snapshot p
        \<and> path = stored_path (wk_local_store wk) ar \<and> unshared db (dp_snapshot p) ar)"
  unfolding deletable_def due_def by metis

lemma mirror_removable_due:
  "mirror_removable wk db limit i path \<longleftrightarrow>
     (\<exists>p root. find_plan db i = Some p \<and> dp_not_before p \<le> limit \<and> \<not> (dp_automatic p \<and> snapshot_is_pinned db (dp_snapshot p))
        \<and> wk_canonicalize wk (wk_mirror_root wk) = Some root \<and> strict_prefix root path)"
  unfolding mirror_removable_def due_def by metis

lemma object_removable_due:
  "object_removable db limit i object \<longleftrightarrow>
     (\<exists>p rp ar. find_plan db i = Some p \<and> dp_not_before p \<le> limit \<and> \<not> (dp_automatic p \<and> snapshot_is_pinned db (dp_snapshot p))
        \<and> rp \<in> set (placements db) \<and> object = (rp_replica_target rp, rp_object_key rp)
        \<and> ar \<in> set (artifacts db) \<and> rp_artifact rp = ar_id ar \<and> ar_snapshot ar = dp_snapshot p
        \<and> unshared_object db (dp_snapshot p) rp)"
  unfolding object_removable_def due_def by (safe; metis)

text \<open>
  C9.  A pass over a deletion plan removes nothing but what the plan has made due. Whatever the pass
  meets on its way, failures included: a local blob that is not as it was is gone, is the content of an
  artifact of the plan's snapshot, the grace period of the plan is over, an automatic plan's snapshot is
  not pinned, and no other snapshot that is still kept stores the same content. A directory entry that
  is gone lay strictly below the mirror root, under the same conditions; nothing is written. The removal
  of a remote object is requested only for the object of a placement of an artifact of the plan's
  snapshot, under the same conditions, and only when no artifact of another snapshot that is still kept
  is placed under the same key of the same replica.
\<close>

theorem retention_run_removes_only_due:
  assumes "run_plan wk plan_ref w = (w', outcome)" and "\<forall>db k. wk_clock wk db k \<le> limit"
  shows "(\<forall>path. w_blobs w' path \<noteq> w_blobs w path \<longrightarrow>
            w_blobs w' path = None \<and>
            (\<exists>p ar. find_plan (w_db w) plan_ref = Some p \<and> dp_not_before p \<le> limit
               \<and> \<not> (dp_automatic p \<and> snapshot_is_pinned (w_db w) (dp_snapshot p))
               \<and> ar \<in> set (artifacts (w_db w)) \<and> ar_snapshot ar = dp_snapshot p
               \<and> path = stored_path (wk_local_store wk) ar \<and> unshared (w_db w) (dp_snapshot p) ar))
    \<and> set (w_files w') \<subseteq> set (w_files w)
    \<and> (\<forall>(path, node) \<in> set (w_files w) - set (w_files w').
            \<exists>p root. find_plan (w_db w) plan_ref = Some p \<and> dp_not_before p \<le> limit
               \<and> \<not> (dp_automatic p \<and> snapshot_is_pinned (w_db w) (dp_snapshot p))
               \<and> wk_canonicalize wk (wk_mirror_root wk) = Some root \<and> strict_prefix root path)
    \<and> (\<exists>requested. w_removals w' = w_removals w @ requested
         \<and> (\<forall>object \<in> set requested.
              \<exists>p rp ar. find_plan (w_db w) plan_ref = Some p \<and> dp_not_before p \<le> limit
               \<and> \<not> (dp_automatic p \<and> snapshot_is_pinned (w_db w) (dp_snapshot p))
               \<and> rp \<in> set (placements (w_db w)) \<and> object = (rp_replica_target rp, rp_object_key rp)
               \<and> ar \<in> set (artifacts (w_db w)) \<and> rp_artifact rp = ar_id ar \<and> ar_snapshot ar = dp_snapshot p
               \<and> unshared_object (w_db w) (dp_snapshot p) rp))"
proof -
  from assms(1) obtain w2 where w2: "safe_pass wk limit plan_ref w w2" "w_blobs w' = w_blobs w2" "w_files w' = w_files w2"
    "w_removals w' = w_removals w2"
    by (rule run_plan_safe) (use assms(2) in blast)
  have "\<forall>path. w_blobs w' path \<noteq> w_blobs w path \<longrightarrow> w_blobs w' path = None \<and> deletable wk (w_db w) limit plan_ref path"
    using w2 unfolding safe_pass_def by metis
  moreover have "\<forall>(path, node) \<in> set (w_files w) - set (w_files w'). mirror_removable wk (w_db w) limit plan_ref path"
    using w2 unfolding safe_pass_def by simp
  moreover have "set (w_files w') \<subseteq> set (w_files w)" using w2 by (simp add: safe_pass_def)
  moreover have "\<exists>more. w_removals w' = w_removals w @ more \<and> (\<forall>object \<in> set more. object_removable (w_db w) limit plan_ref object)"
    using w2 by (simp add: safe_pass_def)
  ultimately show ?thesis
    unfolding deletable_due mirror_removable_due object_removable_due by blast
qed

text \<open>
  C10.  A pass that reports completion has done the work. When it started on a plan in its local phase,
  every artifact of the plan's snapshot is afterwards absent from the local store, unless a snapshot
  that is still kept stores the same content, and the journal shows the plan as finished.
\<close>

theorem completed_run_leaves_no_bytes:
  assumes "run_plan wk plan_ref w = (w', Completed)" and "\<forall>db k. wk_clock wk db k \<le> limit"
    and "find_plan (w_db w) plan_ref = Some p" and "dp_status p \<in> {''planned'', ''local_deleting''}"
    and "distinct (map ar_id (artifacts (w_db w)))"
    and "ar \<in> set (artifacts (w_db w))" and "ar_snapshot ar = dp_snapshot p"
  shows "(w_blobs w' (stored_path (wk_local_store wk) ar) = None \<or> \<not> unshared (w_db w) (dp_snapshot p) ar)
    \<and> plan_journal (w_db w') plan_ref = Some Finished"
proof -
  obtain view where view: "deletion_execution_plan (w_db w) plan_ref = Inr view"
    using assms(1) by (auto simp: run_plan_def run_plan_inner_def split: sum.splits)
  then obtain p' where p: "find_plan (w_db w) plan_ref = Some p'" "xp_plan_id view = plan_ref" "xp_status view = dp_status p'"
    and seen: "\<forall>x \<in> set (xp_artifacts view). view_of (w_db w) (dp_snapshot p') x"
      "\<forall>ar \<in> set (artifacts (w_db w)). ar_snapshot ar = dp_snapshot p' \<longrightarrow>
         (\<exists>x \<in> set (xp_artifacts view). xa_artifact_id x = ar_id ar \<and> sha256 (xa_blob x) = encode_hex (ar_sha256 ar))"
    by (rule plan_view_shape)
  then have [simp]: "p' = p" using assms(3) by simp
  have "xp_status view \<in> {''planned'', ''local_deleting''}" using p(3) assms(4) by simp
  from completed_pass [OF assms(1) view this] obtain db w1 w2 where pass: "kept (w_db w) db"
    "run_host_stages wk view (w\<lparr>w_db := db\<rparr>) = (w1, Inr True)" "run_replica_stages wk view w1 = (w2, Inr True)"
    "w_blobs w' = w_blobs w2"
    and finish: "complete_deletion_plan (wk_env wk) (wk_now wk (w_db w2)) (wk_clock wk (w_db w2) 0) (w_db w2) plan_ref
      = Inr (w_db w')" by metis
  from pass(1) assms(3) obtain q where q: "find_plan db plan_ref = Some q" "dp_snapshot q = dp_snapshot p"
    by (rule kept_plan)
  from seen(2) assms(6,7) obtain x where x: "x \<in> set (xp_artifacts view)" "xa_artifact_id x = ar_id ar"
    "sha256 (xa_blob x) = encode_hex (ar_sha256 ar)" by auto
  have "gone wk w1 x \<or> retained_for db (dp_snapshot q) (xa_artifact_id x)"
    by (rule host_stages_done [OF pass(2), where limit = limit, simplified])
      (use assms(2) p q seen x view_of_kept [OF pass(1)] in simp_all)
  moreover have "\<not> unshared (w_db w) (dp_snapshot p) ar" if "retained_for db (dp_snapshot q) (xa_artifact_id x)"
    using that pass(1) unshared_kept [OF pass(1)] q(2) x(2) assms(5,6) unfolding retained_for_def kept_def
    by (auto simp: distinct_map dest: inj_onD)
  moreover have "safe_pass wk limit plan_ref (w\<lparr>w_db := db\<rparr>) w1"
    using host_stages_safe [OF pass(2), of limit q] assms(2) p q seen(1) view_of_kept [OF pass(1)] by simp
  then have k1: "kept (w_db w) (w_db w1)" using pass(1) kept_trans by (auto simp: safe_pass_def)
  from k1 assms(3) obtain q1 where q1: "find_plan (w_db w1) plan_ref = Some q1" "dp_snapshot q1 = dp_snapshot p"
    by (rule kept_plan)
  have rest: "safe_pass wk limit plan_ref w1 w2"
    using replica_stages_safe [OF pass(3), of limit q1] assms(2) p q1 seen(1) view_of_kept [OF k1] by simp
  have "w_blobs w' (stored_path (wk_local_store wk) ar) = None" if "gone wk w1 x"
    using gone_kept [OF rest that] x(3) pass(4)
    by (auto simp: gone_def path_for_def stored_path_def split: if_splits)
  moreover have "plan_journal (w_db w') plan_ref = Some Finished"
    using finish
  proof (rule complete_plan_shape)
    fix r assume "find_plan (w_db w2) plan_ref = Some r" and db': "plans (w_db w') = map (completed_row (wk_now wk (w_db w2)) plan_ref) (plans (w_db w2))"
    then show ?thesis
      using find_plan_Some by (auto simp: plan_journal_def find_plan_map [OF db'] completed_row_def)
  qed
  ultimately show ?thesis by blast
qed

subsection \<open>A concrete pass\<close>

definition example_worker :: worker where
  "example_worker =
     \<lparr> wk_env = example_env, wk_now = (\<lambda>_. 3000000), wk_clock = (\<lambda>_ k. 3000000), wk_hash = example_hash,
       wk_chunks = map (\<lambda>byte. [byte]), wk_parent_inside_root = True, wk_local_store = example_store,
       wk_replicas = (\<lambda>_. None), wk_parse_ok = (\<lambda>_. True), wk_remote = (\<lambda>_. (None, RemoteAbsent, False, [])), wk_lease_seconds = 60,
       wk_mirror_root = ''/mirrors'', wk_canonicalize = (\<lambda>_. Some [''mirrors'']), wk_fuel = 10 \<rparr>"

definition example_world :: world where
  "example_world =
     \<lparr> w_db = snd example_planned, w_blobs = example_blob_fs, w_files = [([''mirrors''], Directory)], w_removals = [] \<rparr>"

definition example_artifact :: ArtifactRow where
  "example_artifact = \<lparr> ar_id = 70, ar_snapshot = 50, ar_kind = ''git_bundle'', ar_sha256 = replicate 32 3, ar_owner = ''ratatoskr-vault'',
                        ar_media_type = ''bundle'', ar_size_bytes = 3 \<rparr>"

abbreviation example_pass :: "world \<times> RetentionPlanOutcome" where
  "example_pass \<equiv> run_plan example_worker example_plan_id example_world"

lemma example_pass_completes: "snd example_pass = Completed"
  by code_simp

text \<open>The same pass when the artifact also has a placement on a replica that answers.\<close>

definition example_placement :: PlacementRow where
  "example_placement = \<lparr> rp_id = 90, rp_artifact = 70, rp_replica_target = 9,
     rp_object_key = ''sha256/03/'' @ encode_hex (replicate 32 3), rp_sha256 = replicate 32 3, rp_size_bytes = 3,
     rp_first_placed_at = 0, rp_last_verified_at = 0, rp_last_attempt = 91 \<rparr>"

definition example_replica_worker :: worker where
  "example_replica_worker = example_worker
     \<lparr> wk_replicas := \<lambda>_. Some \<lparr>target_name = ''t'', key_prefix = [], max_object_bytes = 50\<rparr>,
       wk_remote := \<lambda>_. (None, RemoteBody [Some [7, 8, 9]], True, [RemoteAbsent]) \<rparr>"

definition example_replica_world :: world where
  "example_replica_world = example_world\<lparr>w_db := (snd example_planned)\<lparr>placements := [example_placement]\<rparr>\<rparr>"

abbreviation example_replica_pass :: "world \<times> RetentionPlanOutcome" where
  "example_replica_pass \<equiv> run_plan example_replica_worker example_plan_id example_replica_world"

theorem retention_run_removes_only_due_witness:
  "w_blobs (fst example_replica_pass) (stored_path example_store example_artifact) \<noteq>
     w_blobs example_replica_world (stored_path example_store example_artifact)
   \<and> w_removals (fst example_replica_pass) = [(9, rp_object_key example_placement)]
   \<and> (\<exists>p rp. find_plan (w_db example_replica_world) example_plan_id = Some p \<and> dp_not_before p \<le> 3000000
        \<and> rp_object_key rp = rp_object_key example_placement
        \<and> unshared_object (w_db example_replica_world) (dp_snapshot p) rp)"
proof -
  have changed: "w_blobs (fst example_replica_pass) (stored_path example_store example_artifact) \<noteq>
     w_blobs example_replica_world (stored_path example_store example_artifact)" by code_simp
  have removed: "w_removals (fst example_replica_pass) = [(9, rp_object_key example_placement)]
     \<and> w_removals example_replica_world = []" by code_simp
  have "\<forall>db k. wk_clock example_replica_worker db k \<le> 3000000" by (simp add: example_replica_worker_def example_worker_def)
  from retention_run_removes_only_due [OF prod.collapse [symmetric] this, of example_plan_id example_replica_world] removed
  obtain p rp where "find_plan (w_db example_replica_world) example_plan_id = Some p" "dp_not_before p \<le> 3000000"
    "(9, rp_object_key example_placement) = (rp_replica_target rp, rp_object_key rp)"
    "unshared_object (w_db example_replica_world) (dp_snapshot p) rp" by auto
  with changed removed show ?thesis by auto
qed

theorem completed_run_leaves_no_bytes_witness:
  "w_blobs (fst example_pass) (stored_path (wk_local_store example_worker) example_artifact) = None
   \<and> plan_journal (w_db (fst example_pass)) example_plan_id = Some Finished"
proof -
  have "find_plan (w_db example_world) example_plan_id \<noteq> None
    \<and> (case find_plan (w_db example_world) example_plan_id of None \<Rightarrow> False | Some p \<Rightarrow>
         dp_status p = ''planned'' \<and> ar_snapshot example_artifact = dp_snapshot p)" by code_simp
  then obtain p where p: "find_plan (w_db example_world) example_plan_id = Some p" "dp_status p = ''planned''"
    "ar_snapshot example_artifact = dp_snapshot p" by auto
  have "artifacts (w_db example_world) = [example_artifact]" by code_simp
  moreover have "\<forall>db k. wk_clock example_worker db k \<le> 3000000" by (simp add: example_worker_def)
  moreover have "example_pass = (fst example_pass, Completed)"
    using example_pass_completes by (metis prod.collapse)
  ultimately show ?thesis
    using completed_run_leaves_no_bytes [of example_worker example_plan_id example_world "fst example_pass" 3000000 p
        example_artifact] p by (simp add: unshared_def)
qed

end
