(* ===== verification/Replication_Store.thy ===== *)
theory Replication_Store
  imports Deletion_Proofs Blob_Store
begin

text \<open>
  Replication: the backlog planner and the health projection (the pure part of
  \<open>services/vault/src/replication.rs\<close>) and the durable side of it, replica targets, leased transfer
  attempts and verified placements (\<open>crates/persistence/src/replication.rs\<close>), with the constraints of
  \<open>schema.sql\<close>. The theorems give the bounds of a planner pass, the invariant that ties every
  placement to the attempt that verified it, and what the constraints refuse.
\<close>

subsection \<open>The backlog planner\<close>

record ReplicationCandidate =
  rc_snapshot_id :: uuid
  rc_artifact_id :: uuid
  rc_replica_target_id :: uuid
  rc_size_bytes :: u64
  rc_last_verified_at :: "u64 option"

record ReplicationBacklogLimits =
  bl_max_items :: u64
  bl_max_bytes :: u64
  bl_max_concurrent :: u64

record ReplicationPlan =
  rl_admitted :: "ReplicationCandidate list"
  rl_deferred :: "ReplicationCandidate list"
  rl_max_concurrent :: u64

definition backlog_key :: "ReplicationCandidate \<Rightarrow> bool \<times> u64 \<times> uuid \<times> uuid \<times> uuid" where
  "backlog_key c =
     (rc_last_verified_at c \<noteq> None, case rc_last_verified_at c of None \<Rightarrow> 0 | Some t \<Rightarrow> t,
      rc_snapshot_id c, rc_artifact_id c, rc_replica_target_id c)"

fun admit_loop ::
  "ReplicationBacklogLimits \<Rightarrow> ReplicationCandidate list \<Rightarrow> ReplicationCandidate list \<Rightarrow> ReplicationCandidate list
     \<Rightarrow> u64 \<Rightarrow> ReplicationCandidate list \<times> ReplicationCandidate list" where
  "admit_loop limits [] admitted deferred admitted_bytes = (admitted, deferred)"
| "admit_loop limits (c # cs) admitted deferred admitted_bytes =
     (case checked_add admitted_bytes (rc_size_bytes c) of
        Some bytes \<Rightarrow>
          if length admitted < unat (bl_max_items limits) \<and> bytes \<le> bl_max_bytes limits
          then admit_loop limits cs (admitted @ [c]) deferred bytes
          else admit_loop limits cs admitted (deferred @ [c]) admitted_bytes
      | None \<Rightarrow> admit_loop limits cs admitted (deferred @ [c]) admitted_bytes)"

definition plan_replication_backlog ::
  "ReplicationCandidate list \<Rightarrow> ReplicationBacklogLimits \<Rightarrow> ReplicationPlan" where
  "plan_replication_backlog cs limits =
     (case admit_loop limits (sort_key backlog_key cs) [] [] 0 of
        (admitted, deferred) \<Rightarrow>
          \<lparr> rl_admitted = admitted, rl_deferred = deferred, rl_max_concurrent = bl_max_concurrent limits \<rparr>)"

subsection \<open>Off-host health\<close>

record ReplicaRequirement =
  rq_replica_target_id :: uuid
  rq_required :: bool
  rq_enabled :: bool

record VerifiedPlacement =
  vp_artifact_id :: uuid
  vp_replica_target_id :: uuid

datatype ReplicaHealth = Complete | Degraded | NoRequiredTarget

record SnapshotHealth =
  sh_local_verified :: bool
  sh_replica_health :: ReplicaHealth
  sh_overall_healthy :: bool

definition project_snapshot_health ::
  "bool \<Rightarrow> uuid list \<Rightarrow> ReplicaRequirement list \<Rightarrow> VerifiedPlacement list \<Rightarrow> SnapshotHealth" where
  "project_snapshot_health local_verified artifact_ids targets_known placed =
     (let needed = filter (\<lambda>t. rq_enabled t \<and> rq_required t) targets_known;
          all_complete = list_all (\<lambda>t. list_all (\<lambda>a. list_ex (\<lambda>p. vp_artifact_id p = a
                           \<and> vp_replica_target_id p = rq_replica_target_id t) placed) artifact_ids) needed;
          health = (if needed = [] then NoRequiredTarget else if all_complete then Complete else Degraded)
      in \<lparr> sh_local_verified = local_verified, sh_replica_health = health,
           sh_overall_healthy = (local_verified \<and> health = Complete) \<rparr>)"

subsection \<open>Values at the boundary\<close>

definition decode_digest :: "string \<Rightarrow> (VaultError, u8 list) result" where
  "decode_digest encoded =
     (if length encoded \<noteq> 64 then Inl (InvalidDelivery ''replica_digest'')
      else case decode_pairs encoded of None \<Rightarrow> Inl (InvalidDelivery ''replica_digest'') | Some bytes \<Rightarrow> Inr bytes)"

definition encode_digest :: "u8 list \<Rightarrow> (VaultError, string) result" where
  "encode_digest bytes = (if length bytes \<noteq> 32 then Inl StorageFailed else Inr (encode_hex bytes))"

definition checked_u64 :: "int \<Rightarrow> (VaultError, u64) result" where
  "checked_u64 n = (if n < 0 then Inl StorageFailed else Inr (word_of_int n))"

text \<open>\<open>extract(epoch from t)::bigint\<close>: whole seconds, rounded half away from zero.\<close>

definition epoch_bigint :: "timestamp \<Rightarrow> int" where
  "epoch_bigint t = (if 0 \<le> t then (t + 500000) div 1000000 else - ((500000 - t) div 1000000))"

definition ends_with_char :: "string \<Rightarrow> char \<Rightarrow> bool" where
  "ends_with_char s c \<longleftrightarrow> s \<noteq> [] \<and> last s = c"

definition loopback_origin :: "string \<Rightarrow> bool" where
  "loopback_origin origin =
     list_ex (\<lambda>host. case strip_prefix host origin of None \<Rightarrow> False | Some rest \<Rightarrow> rest = '''' \<or> starts_with rest '':'')
       [''http://localhost'', ''http://127.0.0.1'', ''http://[::1]'']"

record ReplicaTargetObservation =
  ob_replica_target_id :: uuid
  ob_name :: string
  ob_endpoint_origin :: string
  ob_bucket :: string
  ob_key_prefix :: string
  ob_required :: bool
  ob_enabled :: bool

definition validate_target :: "ReplicaTargetObservation \<Rightarrow> (VaultError, unit) result" where
  "validate_target ob =
     (let origin = ob_endpoint_origin ob; key_prefix_text = ob_key_prefix ob
      in if ob_name ob \<noteq> '''' \<and> length (ob_name ob) \<le> 63
            \<and> (starts_with origin ''https://'' \<or> loopback_origin origin)
            \<and> \<not> list_ex (\<lambda>c. c \<in> {CHR ''@'', CHR ''?'', CHR ''#''}) origin
            \<and> ob_bucket ob \<noteq> '''' \<and> int (length (ob_bucket ob)) \<le> 255 \<and> int (length key_prefix_text) \<le> 255
            \<and> \<not> starts_with key_prefix_text ''/'' \<and> \<not> ends_with_char key_prefix_text CHR ''/''
            \<and> ''..'' \<notin> set (split_slash key_prefix_text)
         then Inr () else Inl (InvalidDelivery ''replica_target''))"

subsection \<open>Constraints of the tables\<close>

definition slug_char :: "char \<Rightarrow> bool" where
  "slug_char c \<longleftrightarrow> CHR ''a'' \<le> c \<and> c \<le> CHR ''z'' \<or> CHR ''0'' \<le> c \<and> c \<le> CHR ''9''"

definition lower_hex :: "char \<Rightarrow> bool" where
  "lower_hex c \<longleftrightarrow> hex_value c \<noteq> None"

definition replica_target_checks :: "ReplicaTargetRow \<Rightarrow> bool" where
  "replica_target_checks row \<longleftrightarrow>
     (case rt_name row of [] \<Rightarrow> False
        | c # rest \<Rightarrow> slug_char c \<and> list_all (\<lambda>d. slug_char d \<or> d = CHR ''_'' \<or> d = CHR ''-'') rest \<and> length rest \<le> 62)
     \<and> 8 \<le> char_length (rt_endpoint_origin row) \<and> int (char_length (rt_endpoint_origin row)) \<le> 512
     \<and> \<not> list_ex (\<lambda>c. c \<in> {CHR ''@'', CHR ''?'', CHR ''#''}) (rt_endpoint_origin row)
     \<and> 1 \<le> char_length (rt_bucket row) \<and> int (char_length (rt_bucket row)) \<le> 255
     \<and> int (char_length (rt_key_prefix row)) \<le> 255 \<and> ''..'' \<notin> set (split_slash (rt_key_prefix row))
     \<and> \<not> starts_with (rt_key_prefix row) ''/'' \<and> \<not> ends_with_char (rt_key_prefix row) CHR ''/''
     \<and> rt_first_seen_at row \<le> rt_last_seen_at row"

text \<open>The tail \<open>sha256/xx/<64 hex digits>\<close> has exactly 74 characters and starts a path segment.\<close>

definition content_derived :: "string \<Rightarrow> bool" where
  "content_derived key \<longleftrightarrow>
     74 \<le> length key
     \<and> (let lead = take (length key - 74) key; tail = drop (length key - 74) key
        in (lead = [] \<or> last lead = CHR ''/'') \<and> take 7 tail = ''sha256/''
           \<and> list_all lower_hex (take 2 (drop 7 tail)) \<and> tail ! 9 = CHR ''/''
           \<and> list_all lower_hex (drop 10 tail))"

definition placement_checks :: "PlacementRow \<Rightarrow> bool" where
  "placement_checks row \<longleftrightarrow>
     length (rp_sha256 row) = 32 \<and> 0 \<le> rp_size_bytes row
     \<and> 75 \<le> char_length (rp_object_key row) \<and> int (char_length (rp_object_key row)) \<le> 512
     \<and> content_derived (rp_object_key row) \<and> ''..'' \<notin> set (split_slash (rp_object_key row))
     \<and> rp_first_placed_at row \<le> rp_last_verified_at row"

subsection \<open>Targets\<close>

definition observed_row :: "timestamp \<Rightarrow> ReplicaTargetObservation \<Rightarrow> ReplicaTargetRow" where
  "observed_row now ob =
     \<lparr> rt_id = ob_replica_target_id ob, rt_name = ob_name ob, rt_endpoint_origin = ob_endpoint_origin ob,
       rt_bucket = ob_bucket ob, rt_key_prefix = ob_key_prefix ob, rt_required = ob_required ob,
       rt_enabled = ob_enabled ob, rt_first_seen_at = now, rt_last_seen_at = now \<rparr>"

definition observe_replica_target ::
  "timestamp \<Rightarrow> vault_db \<Rightarrow> ReplicaTargetObservation \<Rightarrow> (VaultError, uuid \<times> vault_db) result" where
  "observe_replica_target now db ob =
     result_bind (validate_target ob) (\<lambda>_.
       case find (\<lambda>row. rt_name row = ob_name ob) (replica_targets db) of
         None \<Rightarrow>
           if replica_target_checks (observed_row now ob)
              \<and> \<not> list_ex (\<lambda>row. rt_id row = ob_replica_target_id ob) (replica_targets db)
           then Inr (ob_replica_target_id ob, db\<lparr>replica_targets := replica_targets db @ [observed_row now ob]\<rparr>)
           else Inl StorageFailed
       | Some row \<Rightarrow>
           (let row' = (observed_row now ob)\<lparr>rt_id := rt_id row, rt_first_seen_at := rt_first_seen_at row\<rparr>
            in if replica_target_checks row' \<and> replica_target_checks (observed_row now ob)
               then Inr (rt_id row, db\<lparr>replica_targets :=
                      map (\<lambda>r. if rt_name r = ob_name ob then row' else r) (replica_targets db)\<rparr>)
               else Inl StorageFailed))"

subsection \<open>Leased attempts\<close>

definition being_deleted :: "vault_db \<Rightarrow> uuid \<Rightarrow> bool" where
  "being_deleted db snap =
     list_ex (\<lambda>p. dp_snapshot p = snap \<and> (dp_status p = ''local_deleting'' \<or> dp_status p = ''replica_deleting'')) (plans db)"

definition replica_object_key :: "ReplicaTargetRow \<Rightarrow> ArtifactRow \<Rightarrow> string" where
  "replica_object_key target ar =
     (if rt_key_prefix target = '''' then '''' else rt_key_prefix target @ ''/'') @ ''sha256/''
       @ take 2 (encode_hex (ar_sha256 ar)) @ ''/'' @ encode_hex (ar_sha256 ar)"

definition object_claimed :: "store_env \<Rightarrow> vault_db \<Rightarrow> timestamp \<Rightarrow> ReplicaTargetRow \<Rightarrow> ArtifactRow \<Rightarrow> bool" where
  "object_claimed env db clock target ar =
     list_ex (\<lambda>c. cl_identity_kind c = ''replica_key''
                \<and> cl_identity_key c = uuid_to_string env (rt_id target) @ '':'' @ replica_object_key target ar
                \<and> cl_outcome c = ''running'' \<and> clock < cl_lease_expires_at c) (claims db)"

definition running_attempt :: "ReplicationAttemptRow \<Rightarrow> bool" where
  "running_attempt a \<longleftrightarrow> ra_outcome a = ''running''"

definition attempt_unit :: "ReplicationAttemptRow \<Rightarrow> uuid \<times> uuid" where
  "attempt_unit a = (ra_artifact a, ra_replica_target a)"

definition abandon_expired_attempt :: "timestamp \<Rightarrow> uuid \<Rightarrow> uuid \<Rightarrow> ReplicationAttemptRow \<Rightarrow> ReplicationAttemptRow" where
  "abandon_expired_attempt now artifact target a =
     (if ra_artifact a = artifact \<and> ra_replica_target a = target \<and> running_attempt a \<and> ra_lease_expires_at a \<le> now
      then a\<lparr>ra_outcome := ''abandoned'', ra_failure_class := Some ''lease_expired'', ra_finished_at := Some now\<rparr>
      else a)"

definition new_attempt :: "uuid \<Rightarrow> uuid \<Rightarrow> uuid \<Rightarrow> uuid \<Rightarrow> timestamp \<Rightarrow> int \<Rightarrow> ReplicationAttemptRow" where
  "new_attempt ident artifact target owner_ref now lease =
     \<lparr> ra_id = ident, ra_artifact = artifact, ra_replica_target = target, ra_outcome = ''running'',
       ra_failure_class = None, ra_lease_owner = owner_ref, ra_lease_expires_at = now + lease * 1000000,
       ra_remote_hash = None, ra_remote_size = None, ra_started_at = now, ra_finished_at = None \<rparr>"

text \<open>
  One transaction: a refused claim also undoes the abandonment of the expired attempt. \<open>now\<close> is the
  start of the transaction, \<open>clock\<close> the reading of the clock inside it.
\<close>

definition claim_replication_attempt ::
  "store_env \<Rightarrow> timestamp \<Rightarrow> timestamp \<Rightarrow> vault_db \<Rightarrow> uuid \<Rightarrow> uuid \<Rightarrow> uuid \<Rightarrow> u64
     \<Rightarrow> (VaultError, uuid \<times> vault_db) result" where
  "claim_replication_attempt env now clock db artifact target owner_ref lease =
     (case i64_try_from lease of
        None \<Rightarrow> Inl (InvalidDelivery ''replication_lease'')
      | Some seconds \<Rightarrow>
          if seconds = 0 then Inl (InvalidDelivery ''replication_lease'')
          else
            (let ident = now_v7 env db;
                 attempts = map (abandon_expired_attempt now artifact target) (replication_attempts db)
             in case find (\<lambda>ar. ar_id ar = artifact) (artifacts db) of
                  None \<Rightarrow> Inl StorageFailed
                | Some ar \<Rightarrow>
               (case find (\<lambda>row. rt_id row = target) (replica_targets db) of
                  None \<Rightarrow> Inl StorageFailed
                | Some row \<Rightarrow>
                    if rt_enabled row \<and> \<not> being_deleted db (ar_snapshot ar) \<and> \<not> object_claimed env db clock row ar
                       \<and> now + seconds * 1000000 < TIMESTAMP_END_SECONDS * 1000000
                       \<and> \<not> list_ex (\<lambda>a. running_attempt a \<and> attempt_unit a = (artifact, target) \<or> ra_id a = ident) attempts
                    then Inr (ident, advance (db\<lparr>replication_attempts :=
                           attempts @ [new_attempt ident artifact target owner_ref now seconds]\<rparr>))
                    else Inl StorageFailed)))"

record StoredReplicaPlacement =
  so_placement_id :: uuid
  so_artifact_id :: uuid
  so_replica_target_id :: uuid
  so_object_key :: string
  so_blob :: BlobRef
  so_last_attempt_id :: uuid
  so_last_verified_at :: u64

definition live_owned :: "timestamp \<Rightarrow> uuid \<Rightarrow> uuid \<Rightarrow> ReplicationAttemptRow \<Rightarrow> bool" where
  "live_owned now attempt owner_ref a \<longleftrightarrow>
     ra_id a = attempt \<and> ra_lease_owner a = owner_ref \<and> running_attempt a \<and> now < ra_lease_expires_at a"

definition succeed_attempt :: "timestamp \<Rightarrow> u8 list \<Rightarrow> int \<Rightarrow> ReplicationAttemptRow \<Rightarrow> ReplicationAttemptRow" where
  "succeed_attempt now hash_bytes size_value a =
     a\<lparr>ra_outcome := ''succeeded'', ra_remote_hash := Some hash_bytes, ra_remote_size := Some size_value,
       ra_finished_at := Some now\<rparr>"

definition upsert_placement ::
  "store_env \<Rightarrow> timestamp \<Rightarrow> vault_db \<Rightarrow> ReplicationAttemptRow \<Rightarrow> string \<Rightarrow> u8 list \<Rightarrow> int
     \<Rightarrow> (VaultError, PlacementRow \<times> vault_db) result" where
  "upsert_placement env now db a key hash_bytes size_value =
     (let fresh = \<lparr> rp_id = now_v7 env db, rp_artifact = ra_artifact a, rp_replica_target = ra_replica_target a,
                    rp_object_key = key, rp_sha256 = hash_bytes, rp_size_bytes = size_value,
                    rp_first_placed_at = now, rp_last_verified_at = now, rp_last_attempt = ra_id a \<rparr>
      in if \<not> placement_checks fresh then Inl StorageFailed
         else case find (\<lambda>rp. rp_artifact rp = ra_artifact a \<and> rp_replica_target rp = ra_replica_target a) (placements db) of
                None \<Rightarrow>
                  if list_ex (\<lambda>rp. rp_id rp = rp_id fresh) (placements db) then Inl StorageFailed
                  else Inr (fresh, advance (db\<lparr>placements := placements db @ [fresh]\<rparr>))
              | Some old \<Rightarrow>
                  (let row = fresh\<lparr>rp_id := rp_id old, rp_first_placed_at := rp_first_placed_at old\<rparr>
                   in if \<not> placement_checks row then Inl StorageFailed
                      else Inr (row, advance (db\<lparr>placements := map (\<lambda>rp. if rp_artifact rp = ra_artifact a
                                 \<and> rp_replica_target rp = ra_replica_target a then row else rp) (placements db)\<rparr>))))"

text \<open>The last step reads a value of the committed row; it fails only for a time before 1970.\<close>

definition record_verified_replica ::
  "store_env \<Rightarrow> timestamp \<Rightarrow> vault_db \<Rightarrow> uuid \<Rightarrow> uuid \<Rightarrow> string \<Rightarrow> BlobRef
     \<Rightarrow> vault_db \<times> (VaultError, StoredReplicaPlacement) result" where
  "record_verified_replica env now db attempt owner_ref key r =
     (case decode_digest (sha256 r) of
        Inl e \<Rightarrow> (db, Inl e)
      | Inr hash_bytes \<Rightarrow>
     (case i64_try_from (size_bytes r) of
        None \<Rightarrow> (db, Inl (InvalidDelivery ''replica_size_bytes''))
      | Some size_value \<Rightarrow>
          if owner r \<noteq> ''ratatoskr-vault'' \<or> key = '''' then (db, Inl (InvalidDelivery ''replica_placement''))
          else
            (case find (live_owned now attempt owner_ref) (replication_attempts db) of
               None \<Rightarrow> (db, Inl StorageFailed)
             | Some a \<Rightarrow>
                 if \<not> list_ex (\<lambda>ar. ar_id ar = ra_artifact a \<and> ar_sha256 ar = hash_bytes \<and> ar_size_bytes ar = size_value)
                        (artifacts db) \<or> now < ra_started_at a
                 then (db, Inl StorageFailed)
                 else
                   (let db1 = db\<lparr>replication_attempts :=
                          map (\<lambda>b. if ra_id b = attempt then succeed_attempt now hash_bytes size_value b else b)
                            (replication_attempts db)\<rparr>
                    in case upsert_placement env now db1 a key hash_bytes size_value of
                         Inl e \<Rightarrow> (db, Inl e)
                       | Inr (row, db2) \<Rightarrow>
                           (db2, result_bind (checked_u64 (epoch_bigint (rp_last_verified_at row))) (\<lambda>verified.
                              Inr \<lparr> so_placement_id = rp_id row, so_artifact_id = ra_artifact a,
                                    so_replica_target_id = ra_replica_target a, so_object_key = key, so_blob = r,
                                    so_last_attempt_id = attempt, so_last_verified_at = verified \<rparr>))))))"

definition record_replication_failure ::
  "timestamp \<Rightarrow> vault_db \<Rightarrow> uuid \<Rightarrow> uuid \<Rightarrow> string \<Rightarrow> (VaultError, vault_db) result" where
  "record_replication_failure now db attempt owner_ref failure =
     (if failure = '''' \<or> 64 < length failure then Inl (InvalidDelivery ''replication_failure_class'')
      else
        case find (\<lambda>a. ra_id a = attempt \<and> ra_lease_owner a = owner_ref \<and> running_attempt a) (replication_attempts db) of
          None \<Rightarrow> Inl StorageFailed
        | Some a \<Rightarrow>
            if now < ra_started_at a then Inl StorageFailed
            else Inr (db\<lparr>replication_attempts :=
                   map (\<lambda>b. if ra_id b = attempt
                            then b\<lparr>ra_outcome := ''failed'', ra_failure_class := Some failure, ra_finished_at := Some now\<rparr>
                            else b) (replication_attempts db)\<rparr>))"

subsection \<open>Due units\<close>

record DueReplicationUnit =
  du_snapshot_id :: uuid
  du_artifact_id :: uuid
  du_replica_target_id :: uuid
  du_blob :: BlobRef
  du_object_key :: "string option"
  du_last_verified_at :: "u64 option"

definition placement_of :: "vault_db \<Rightarrow> uuid \<Rightarrow> uuid \<Rightarrow> PlacementRow option" where
  "placement_of db artifact target = find (\<lambda>rp. rp_artifact rp = artifact \<and> rp_replica_target rp = target) (placements db)"

definition due_rows :: "vault_db \<Rightarrow> uuid \<Rightarrow> timestamp \<Rightarrow> (ArtifactRow \<times> SnapshotRow) list" where
  "due_rows db target cutoff =
     (if \<not> list_ex (\<lambda>row. rt_id row = target \<and> rt_enabled row) (replica_targets db) then []
      else concat (map (\<lambda>ar.
             case find_snapshot db (ar_snapshot ar) of
               None \<Rightarrow> []
             | Some sn \<Rightarrow>
                 if (case placement_of db (ar_id ar) target of None \<Rightarrow> True | Some rp \<Rightarrow> rp_last_verified_at rp < cutoff)
                    \<and> \<not> being_deleted db (ar_snapshot ar)
                 then [(ar, sn)] else []) (artifacts db)))"

definition due_key :: "vault_db \<Rightarrow> uuid \<Rightarrow> ArtifactRow \<times> SnapshotRow \<Rightarrow> bool \<times> timestamp \<times> timestamp \<times> uuid" where
  "due_key db target = (\<lambda>(ar, sn).
     case placement_of db (ar_id ar) target of
       None \<Rightarrow> (False, 0, sn_created_at sn, ar_id ar)
     | Some rp \<Rightarrow> (True, rp_last_verified_at rp, sn_created_at sn, ar_id ar))"

fun due_units :: "vault_db \<Rightarrow> uuid \<Rightarrow> (ArtifactRow \<times> SnapshotRow) list \<Rightarrow> (VaultError, DueReplicationUnit list) result" where
  "due_units db target [] = Inr []"
| "due_units db target ((ar, sn) # rows) =
     result_bind (encode_digest (ar_sha256 ar)) (\<lambda>digest.
     result_bind (checked_u64 (ar_size_bytes ar)) (\<lambda>size_value.
     result_bind (case placement_of db (ar_id ar) target of
                    None \<Rightarrow> Inr None
                  | Some rp \<Rightarrow> result_bind (checked_u64 (epoch_bigint (rp_last_verified_at rp))) (\<lambda>t. Inr (Some t))) (\<lambda>verified.
     result_bind (due_units db target rows) (\<lambda>rest.
       Inr (\<lparr> du_snapshot_id = sn_id sn, du_artifact_id = ar_id ar, du_replica_target_id = target,
              du_blob = \<lparr> owner = ar_owner ar, sha256 = digest, media_type = ar_media_type ar, size_bytes = size_value \<rparr>,
              du_object_key = map_option rp_object_key (placement_of db (ar_id ar) target),
              du_last_verified_at = verified \<rparr> # rest)))))"

definition due_replication_units ::
  "vault_db \<Rightarrow> uuid \<Rightarrow> u64 \<Rightarrow> u32 \<Rightarrow> (VaultError, DueReplicationUnit list) result" where
  "due_replication_units db target verified_before limit =
     (if limit = 0 then Inl (InvalidDelivery ''replication_due_limit'')
      else case i64_try_from verified_before of
             None \<Rightarrow> Inl (InvalidDelivery ''replication_freshness_cutoff'')
           | Some seconds \<Rightarrow>
               result_bind (to_timestamp seconds) (\<lambda>cutoff.
                 due_units db target (take (unat limit) (sort_key (due_key db target) (due_rows db target cutoff)))))"

subsection \<open>A planner pass is bounded, complete and maximal\<close>

abbreviation pass_bytes :: "ReplicationCandidate list \<Rightarrow> nat" where
  "pass_bytes cs \<equiv> sum_list (map (\<lambda>c. unat (rc_size_bytes c)) cs)"

lemma admit_loop_exact:
  assumes "admit_loop limits cs admitted deferred bytes = (A, D)"
    and "unat bytes = pass_bytes admitted" and "bytes \<le> bl_max_bytes limits"
    and "length admitted \<le> unat (bl_max_items limits)"
  obtains a d where "A = admitted @ a" "D = deferred @ d" "mset cs = mset a + mset d" "subseq a cs" "subseq d cs"
    "length A \<le> unat (bl_max_items limits)" "pass_bytes A \<le> unat (bl_max_bytes limits)"
    "\<forall>c \<in> set d. length A = unat (bl_max_items limits) \<or> unat (bl_max_bytes limits) < pass_bytes A + unat (rc_size_bytes c)"
  using assms
proof (induction cs arbitrary: admitted deferred bytes thesis)
  case Nil
  then show ?case by (intro Nil.prems(1) [of "[]" "[]"]) (simp_all add: word_le_nat_alt)
next
  case (Cons c cs)
  let ?next = "checked_add bytes (rc_size_bytes c)"
  show ?case
  proof (cases "\<exists>n. ?next = Some n \<and> length admitted < unat (bl_max_items limits) \<and> n \<le> bl_max_bytes limits")
    case True
    then obtain n where n: "?next = Some n" "length admitted < unat (bl_max_items limits)" "n \<le> bl_max_bytes limits" by blast
    have "admit_loop limits cs (admitted @ [c]) deferred n = (A, D)" using n Cons.prems(2) by simp
    moreover have "unat n = pass_bytes (admitted @ [c])" using n(1) Cons.prems(3) by (simp add: unat_checked_add)
    moreover note n(3)
    moreover have "length (admitted @ [c]) \<le> unat (bl_max_items limits)" using n(2) by simp
    ultimately obtain a d where "A = (admitted @ [c]) @ a" "D = deferred @ d" "mset cs = mset a + mset d" "subseq a cs"
      "subseq d cs" "length A \<le> unat (bl_max_items limits)" "pass_bytes A \<le> unat (bl_max_bytes limits)"
      "\<forall>x \<in> set d. length A = unat (bl_max_items limits) \<or> unat (bl_max_bytes limits) < pass_bytes A + unat (rc_size_bytes x)"
      by (rule Cons.IH [rotated])
    then show ?thesis by (intro Cons.prems(1) [of "c # a" d]) auto
  next
    case False
    then have "admit_loop limits cs admitted (deferred @ [c]) bytes = (A, D)"
      using Cons.prems(2) by (auto split: option.splits if_splits)
    from this Cons.prems(3-5) obtain a d where ad: "A = admitted @ a" "D = (deferred @ [c]) @ d" "mset cs = mset a + mset d" "subseq a cs"
      "subseq d cs" "length A \<le> unat (bl_max_items limits)" "pass_bytes A \<le> unat (bl_max_bytes limits)"
      "\<forall>x \<in> set d. length A = unat (bl_max_items limits) \<or> unat (bl_max_bytes limits) < pass_bytes A + unat (rc_size_bytes x)"
      by (rule Cons.IH [rotated])
    have "length admitted = unat (bl_max_items limits)
        \<or> unat (bl_max_bytes limits) < pass_bytes admitted + unat (rc_size_bytes c)"
    proof (cases ?next)
      case None
      then have "2 ^ 64 \<le> unat bytes + unat (rc_size_bytes c)" 
        using unat_add_fits [of bytes "rc_size_bytes c"] by (auto simp: checked_add_def not_less split: if_splits)
      moreover have "unat (bl_max_bytes limits) < 2 ^ 64" using unsigned_less [of "bl_max_bytes limits", where ?'a = nat] by simp
      ultimately show ?thesis using Cons.prems(3) by simp
    next
      case (Some n)
      then have "unat n = pass_bytes admitted + unat (rc_size_bytes c)" using Cons.prems(3) by (simp add: unat_checked_add)
      then show ?thesis using False Some Cons.prems(5) by (auto simp: word_le_nat_alt)
    qed
    then have "length A = unat (bl_max_items limits) \<or> unat (bl_max_bytes limits) < pass_bytes A + unat (rc_size_bytes c)"
      using ad(1,6) by auto
    with ad show ?thesis by (intro Cons.prems(1) [of a "c # d"]) auto
  qed
qed

lemma sorted_map_subseq: "subseq xs ys \<Longrightarrow> sorted (map f ys) \<Longrightarrow> sorted (map f xs)"
proof (induction rule: list_emb.induct)
  case (list_emb_Cons2 x y xs ys)
  then have "set xs \<subseteq> set ys" using subseq_conv_nths set_nths_subset by metis
  with list_emb_Cons2 show ?case by auto
qed simp_all

text \<open>
   One pass of the replication planner is bounded, loses nothing and leaves nothing out that would
  have fitted: the admitted and the deferred units together are the candidates, at most the allowed
  number of units and bytes is admitted (as a true sum, no wrap-around), both lists keep the order of
  urgency, and every deferred unit would break one of the two bounds if it were added to the pass.
\<close>

theorem backlog_pass_exact:
  "let plan = plan_replication_backlog cs limits; A = rl_admitted plan; D = rl_deferred plan
   in mset A + mset D = mset cs
      \<and> length A \<le> unat (bl_max_items limits) \<and> pass_bytes A \<le> unat (bl_max_bytes limits)
      \<and> sorted (map backlog_key A) \<and> sorted (map backlog_key D)
      \<and> list_all (\<lambda>c. length A = unat (bl_max_items limits)
                    \<or> unat (bl_max_bytes limits) < pass_bytes A + unat (rc_size_bytes c)) D"
proof -
  obtain A D where plan: "admit_loop limits (sort_key backlog_key cs) [] [] 0 = (A, D)" by fastforce
  then obtain a d where "A = a" "D = d" "mset cs = mset a + mset d" "subseq a (sort_key backlog_key cs)"
    "subseq d (sort_key backlog_key cs)" "length A \<le> unat (bl_max_items limits)" "pass_bytes A \<le> unat (bl_max_bytes limits)"
    "\<forall>c \<in> set d. length A = unat (bl_max_items limits) \<or> unat (bl_max_bytes limits) < pass_bytes A + unat (rc_size_bytes c)"
    by (rule admit_loop_exact) simp_all
  then show ?thesis
    using plan sorted_map_subseq [OF _ sorted_sort_key [of backlog_key cs]]
    by (simp add: plan_replication_backlog_def Let_def list_all_iff)
qed

subsection \<open>Placements rest on verified attempts\<close>

definition placement_unit :: "PlacementRow \<Rightarrow> uuid \<times> uuid" where
  "placement_unit rp = (rp_artifact rp, rp_replica_target rp)"

definition verified_by :: "PlacementRow \<Rightarrow> ReplicationAttemptRow \<Rightarrow> bool" where
  "verified_by rp a \<longleftrightarrow>
     ra_id a = rp_last_attempt rp \<and> ra_outcome a = ''succeeded'' \<and> attempt_unit a = placement_unit rp
     \<and> ra_remote_hash a = Some (rp_sha256 rp) \<and> ra_remote_size a = Some (rp_size_bytes rp)
     \<and> ra_finished_at a = Some (rp_last_verified_at rp)"

definition places :: "PlacementRow \<Rightarrow> ArtifactRow \<Rightarrow> bool" where
  "places rp ar \<longleftrightarrow> ar_id ar = rp_artifact rp \<and> ar_sha256 ar = rp_sha256 rp \<and> ar_size_bytes ar = rp_size_bytes rp"

definition wf_replication :: "vault_db \<Rightarrow> bool" where
  "wf_replication db \<longleftrightarrow>
     distinct (map ra_id (replication_attempts db))
     \<and> distinct (map attempt_unit (filter running_attempt (replication_attempts db)))
     \<and> distinct (map placement_unit (placements db))
     \<and> (\<forall>rp \<in> set (placements db). placement_checks rp
          \<and> (\<exists>a \<in> set (replication_attempts db). verified_by rp a)
          \<and> (\<exists>ar \<in> set (artifacts db). places rp ar))"

text \<open>
  The transactions on the replication tables, and any other that leaves them alone and keeps the
  artifacts, which are append-only.
\<close>

inductive replication_step :: "store_env \<Rightarrow> vault_db \<Rightarrow> vault_db \<Rightarrow> bool" for env :: store_env where
  observe: "observe_replica_target now db ob = Inr (i, db') \<Longrightarrow> replication_step env db db'"
| claim: "claim_replication_attempt env now clock db artifact target owner_ref lease = Inr (i, db') \<Longrightarrow>
    replication_step env db db'"
| verified: "record_verified_replica env now db attempt owner_ref key r = (db', answer) \<Longrightarrow> replication_step env db db'"
| failed: "record_replication_failure now db attempt owner_ref failure = Inr db' \<Longrightarrow> replication_step env db db'"
| other: "replication_attempts db' = replication_attempts db \<Longrightarrow> placements db' = placements db \<Longrightarrow>
    set (artifacts db) \<subseteq> set (artifacts db') \<Longrightarrow> replication_step env db db'"

text \<open>A closed attempt is evidence: rewriting only running attempts keeps what rests on the others.\<close>

lemma distinct_ids_unique: "distinct (map f xs) \<Longrightarrow> x \<in> set xs \<Longrightarrow> y \<in> set xs \<Longrightarrow> f x = f y \<Longrightarrow> x = y"
  by (auto simp: distinct_map dest: inj_onD)

lemma running_filter_map:
  assumes "\<And>a. attempt_unit (f a) = attempt_unit a" and "\<And>a. running_attempt (f a) \<Longrightarrow> running_attempt a"
    and "distinct (map attempt_unit (filter running_attempt as))"
  shows "distinct (map attempt_unit (filter running_attempt (map f as)))"
proof -
  have "map attempt_unit (filter running_attempt (map f as)) = map attempt_unit (filter (\<lambda>a. running_attempt (f a)) as)"
    using assms(1) by (induction as) auto
  moreover have "filter (\<lambda>a. running_attempt (f a)) as = filter (\<lambda>a. running_attempt (f a)) (filter running_attempt as)"
    using assms(2) by (induction as) auto
  ultimately show ?thesis using assms(3) distinct_map_filter by metis
qed

lemma wf_replication_frame:
  assumes "wf_replication db" and "replication_attempts db' = replication_attempts db" and "placements db' = placements db"
    and "set (artifacts db) \<subseteq> set (artifacts db')"
  shows "wf_replication db'"
  using assms unfolding wf_replication_def by simp blast

lemma wf_replication_rewrite:
  assumes "wf_replication db" and "\<And>a. ra_id (f a) = ra_id a \<and> attempt_unit (f a) = attempt_unit a"
    and "\<And>a. running_attempt (f a) \<Longrightarrow> running_attempt a"
    and "\<And>a. a \<in> set (replication_attempts db) \<Longrightarrow> \<not> running_attempt a \<Longrightarrow> f a = a"
    and "replication_attempts db' = map f (replication_attempts db)"
    and "placements db' = placements db" and "artifacts db' = artifacts db"
  shows "wf_replication db'"
proof -
  have "distinct (map ra_id (map f (replication_attempts db)))"
    using assms(1,2) unfolding wf_replication_def by (simp add: comp_def)
  moreover have "distinct (map attempt_unit (filter running_attempt (map f (replication_attempts db))))"
    using assms(1-3) unfolding wf_replication_def by (intro running_filter_map) auto
  moreover have "\<exists>b \<in> set (map f (replication_attempts db)). verified_by rp b"
    if "a \<in> set (replication_attempts db)" "verified_by rp a" for rp a
    using that assms(4) [of a] by (auto simp: verified_by_def running_attempt_def intro!: bexI [of _ a])
  ultimately show ?thesis
    using assms(1,5-7) unfolding wf_replication_def by auto
qed

lemma abandon_expired_sel [simp]:
  "ra_id (abandon_expired_attempt now x t a) = ra_id a" "attempt_unit (abandon_expired_attempt now x t a) = attempt_unit a"
  "\<not> running_attempt a \<Longrightarrow> abandon_expired_attempt now x t a = a"
  by (auto simp: abandon_expired_attempt_def attempt_unit_def running_attempt_def split: if_splits)

lemma abandon_expired_running: "running_attempt (abandon_expired_attempt now x t a) \<Longrightarrow> running_attempt a"
  by (auto simp: abandon_expired_attempt_def running_attempt_def split: if_splits)

lemma new_attempt_sel [simp]:
  "ra_id (new_attempt i x t ow now lease) = i" "attempt_unit (new_attempt i x t ow now lease) = (x, t)"
  "running_attempt (new_attempt i x t ow now lease)"
  by (simp_all add: new_attempt_def attempt_unit_def running_attempt_def)

lemma claim_attempt_shape:
  assumes "claim_replication_attempt env now clock db x t ow lease = Inr (i, db')"
  obtains as seconds where "as = map (abandon_expired_attempt now x t) (replication_attempts db)"
    "\<not> list_ex (\<lambda>a. running_attempt a \<and> attempt_unit a = (x, t) \<or> ra_id a = i) as"
    "db' = advance (db\<lparr>replication_attempts := as @ [new_attempt i x t ow now seconds]\<rparr>)"
  using assms unfolding claim_replication_attempt_def
  by (auto simp: Let_def split: option.splits if_splits)

lemma evidence_advance [simp]:
  "replication_attempts (advance db) = replication_attempts db" "placements (advance db) = placements db"
  "artifacts (advance db) = artifacts db"
  by (simp_all add: advance_def)

lemma wf_replication_claim:
  assumes "claim_replication_attempt env now clock db x t ow lease = Inr (i, db')" and "wf_replication db"
  shows "wf_replication db'"
  using assms(1)
proof (rule claim_attempt_shape)
  fix as seconds
  assume as: "as = map (abandon_expired_attempt now x t) (replication_attempts db)"
    and free: "\<not> list_ex (\<lambda>a. running_attempt a \<and> attempt_unit a = (x, t) \<or> ra_id a = i) as"
    and db': "db' = advance (db\<lparr>replication_attempts := as @ [new_attempt i x t ow now seconds]\<rparr>)"
  have "wf_replication (db\<lparr>replication_attempts := as\<rparr>)"
    by (rule wf_replication_rewrite [OF assms(2), where f = "abandon_expired_attempt now x t"])
      (auto simp: as dest: abandon_expired_running)
  then show ?thesis
    using free unfolding wf_replication_def db' by (auto simp: list_ex_iff)
qed

lemma wf_replication_failure:
  assumes "record_replication_failure now db attempt ow failure = Inr db'" and "wf_replication db"
  shows "wf_replication db'"
proof -
  let ?f = "\<lambda>b. if ra_id b = attempt
    then b\<lparr>ra_outcome := ''failed'', ra_failure_class := Some failure, ra_finished_at := Some now\<rparr> else b"
  from assms(1) obtain a where "find (\<lambda>a. ra_id a = attempt \<and> ra_lease_owner a = ow \<and> running_attempt a) (replication_attempts db) = Some a"
    and db': "db' = db\<lparr>replication_attempts := map ?f (replication_attempts db)\<rparr>"
    by (auto simp: record_replication_failure_def split: if_splits option.splits)
  then have a: "a \<in> set (replication_attempts db)" "ra_id a = attempt" "running_attempt a"
    by (auto simp: find_Some_iff)
  have "distinct (map ra_id (replication_attempts db))" using assms(2) by (simp add: wf_replication_def)
  then have "ra_id b \<noteq> attempt" if "b \<in> set (replication_attempts db)" "\<not> running_attempt b" for b
    using that a distinct_ids_unique by metis
  then show ?thesis
    by (intro wf_replication_rewrite [OF assms(2), where f = ?f])
      (auto simp: db' attempt_unit_def running_attempt_def split: if_splits)
qed

lemma upsert_placement_shape:
  assumes "upsert_placement env now db a key hash_bytes size_value = Inr (row, db')"
  obtains rps where "db' = advance (db\<lparr>placements := rps\<rparr>)" "placement_checks row" "row \<in> set rps"
    "set rps \<subseteq> insert row {rp \<in> set (placements db). placement_unit rp \<noteq> attempt_unit a}"
    "distinct (map placement_unit (placements db)) \<Longrightarrow> distinct (map placement_unit rps)"
    "placement_unit row = attempt_unit a" "rp_sha256 row = hash_bytes" "rp_size_bytes row = size_value"
    "rp_last_attempt row = ra_id a" "rp_last_verified_at row = now" "rp_object_key row = key"
proof -
  let ?unit = "\<lambda>rp. rp_artifact rp = ra_artifact a \<and> rp_replica_target rp = ra_replica_target a"
  let ?rps = "\<lambda>row. map (\<lambda>rp. if ?unit rp then row else rp) (placements db)"
  have unit: "?unit rp \<longleftrightarrow> placement_unit rp = attempt_unit a" for rp
    by (auto simp: placement_unit_def attempt_unit_def)
  show thesis
  proof (cases "find ?unit (placements db)")
    case None
    then have fresh: "\<forall>rp \<in> set (placements db). placement_unit rp \<noteq> attempt_unit a" by (simp add: find_None_iff unit)
    have row: "db' = advance (db\<lparr>placements := placements db @ [row]\<rparr>)" "placement_checks row" "placement_unit row = attempt_unit a"
      "rp_sha256 row = hash_bytes" "rp_size_bytes row = size_value" "rp_last_attempt row = ra_id a"
      "rp_last_verified_at row = now" "rp_object_key row = key"
      using assms None
      by (auto simp: upsert_placement_def Let_def placement_unit_def attempt_unit_def split: if_splits)
    show thesis by (rule that [of "placements db @ [row]"]) (use row fresh in auto)
  next
    case (Some old)
    have row: "db' = advance (db\<lparr>placements := ?rps row\<rparr>)" "placement_checks row" "placement_unit row = attempt_unit a"
      "rp_sha256 row = hash_bytes" "rp_size_bytes row = size_value" "rp_last_attempt row = ra_id a"
      "rp_last_verified_at row = now" "rp_object_key row = key"
      using assms Some
      by (auto simp: upsert_placement_def Let_def placement_unit_def attempt_unit_def split: if_splits)
    from Some have "old \<in> set (placements db)" "?unit old" by (auto simp: find_Some_iff)
    then have "row \<in> set (?rps row)" by (auto intro!: image_eqI [of _ _ old])
    moreover have "map placement_unit (?rps row) = map placement_unit (placements db)"
      using row(3) by (auto simp: unit)
    moreover have "set (?rps row) \<subseteq> insert row {rp \<in> set (placements db). placement_unit rp \<noteq> attempt_unit a}"
      by (auto simp: unit)
    ultimately show thesis using row by (intro that [of "?rps row"]) (simp_all only:)
  qed
qed

lemma verified_shape:
  assumes "record_verified_replica env now db attempt ow key r = (db', answer)"
  shows "(db' = db \<and> (\<exists>e. answer = Inl e)) \<or>
    (\<exists>a hash_bytes size_value row. find (live_owned now attempt ow) (replication_attempts db) = Some a
       \<and> decode_digest (sha256 r) = Inr hash_bytes \<and> i64_try_from (size_bytes r) = Some size_value
       \<and> list_ex (\<lambda>ar. ar_id ar = ra_artifact a \<and> ar_sha256 ar = hash_bytes \<and> ar_size_bytes ar = size_value) (artifacts db)
       \<and> upsert_placement env now (db\<lparr>replication_attempts :=
             map (\<lambda>b. if ra_id b = attempt then succeed_attempt now hash_bytes size_value b else b) (replication_attempts db)\<rparr>)
           a key hash_bytes size_value = Inr (row, db'))"
  using assms unfolding record_verified_replica_def
  by (auto simp: Let_def split: sum.splits option.splits if_splits prod.splits)

lemma succeed_sel [simp]:
  "ra_id (succeed_attempt now h n a) = ra_id a" "attempt_unit (succeed_attempt now h n a) = attempt_unit a"
  "\<not> running_attempt (succeed_attempt now h n a)"
  by (simp_all add: succeed_attempt_def attempt_unit_def running_attempt_def)

lemma wf_replication_verified:
  assumes "record_verified_replica env now db attempt ow key r = (db', answer)" and "wf_replication db"
  shows "wf_replication db'"
proof (cases "db' = db")
  case False
  with verified_shape [OF assms(1)] obtain a h n row where
    a: "find (live_owned now attempt ow) (replication_attempts db) = Some a"
    and ar: "list_ex (\<lambda>ar. ar_id ar = ra_artifact a \<and> ar_sha256 ar = h \<and> ar_size_bytes ar = n) (artifacts db)"
    and upsert: "upsert_placement env now (db\<lparr>replication_attempts :=
        map (\<lambda>b. if ra_id b = attempt then succeed_attempt now h n b else b) (replication_attempts db)\<rparr>) a key h n = Inr (row, db')"
    by blast
  let ?f = "\<lambda>b. if ra_id b = attempt then succeed_attempt now h n b else b"
  let ?db1 = "db\<lparr>replication_attempts := map ?f (replication_attempts db)\<rparr>"
  from a have a': "a \<in> set (replication_attempts db)" "ra_id a = attempt" "running_attempt a"
    by (auto simp: find_Some_iff live_owned_def)
  have ids: "distinct (map ra_id (replication_attempts db))" using assms(2) by (simp add: wf_replication_def)
  have "ra_id b \<noteq> attempt" if "b \<in> set (replication_attempts db)" "\<not> running_attempt b" for b
    using that a' distinct_ids_unique [OF ids] by metis
  then have wf1: "wf_replication ?db1"
    by (intro wf_replication_rewrite [OF assms(2), where f = ?f]) (auto split: if_splits)
  from upsert obtain rps where rps: "db' = advance (?db1\<lparr>placements := rps\<rparr>)" "placement_checks row"
    "set rps \<subseteq> insert row {rp \<in> set (placements ?db1). placement_unit rp \<noteq> attempt_unit a}"
    "distinct (map placement_unit (placements ?db1)) \<Longrightarrow> distinct (map placement_unit rps)"
    "placement_unit row = attempt_unit a" "rp_sha256 row = h" "rp_size_bytes row = n"
    "rp_last_attempt row = ra_id a" "rp_last_verified_at row = now"
    by (rule upsert_placement_shape) simp
  have "verified_by row (?f a)"
    using a' rps(5-9) by (simp add: verified_by_def succeed_attempt_def attempt_unit_def)
  moreover have attempts: "replication_attempts db' = map ?f (replication_attempts db)" using rps(1) by simp
  have "?f a \<in> set (replication_attempts db')"
    unfolding attempts set_map by (rule imageI [OF a'(1)])
  ultimately have "\<exists>b \<in> set (replication_attempts db'). verified_by row b" by blast
  moreover have "\<exists>ar \<in> set (artifacts db'). places row ar"
    using ar rps(1,5-7) by (auto simp: list_ex_iff places_def placement_unit_def attempt_unit_def)
  moreover have "distinct (map placement_unit rps)" using wf1 rps(4) unfolding wf_replication_def by blast
  ultimately show ?thesis
    using wf1 rps(1-3) unfolding wf_replication_def by auto
qed (use assms(2) in simp)

lemma wf_replication_step:
  assumes "replication_step env db db'" and "wf_replication db"
  shows "wf_replication db'"
  using assms(1)
proof cases
  case observe
  then show ?thesis
    by (intro wf_replication_frame [OF assms(2)])
      (auto simp: observe_replica_target_def Let_def split: option.splits if_splits)
next
  case claim
  then show ?thesis using wf_replication_claim assms(2) by blast
next
  case verified
  then show ?thesis using wf_replication_verified assms(2) by blast
next
  case failed
  then show ?thesis using wf_replication_failure assms(2) by blast
next
  case other
  then show ?thesis using wf_replication_frame [OF assms(2)] by blast
qed

text \<open>
  C19.  A placement is never claimed without proof. In every database reached from the empty one, in
  any order of transactions, each artifact has at most one placement per replica target and at most
  one running transfer, and every placement names a succeeded attempt on the same unit whose read back
  hash and size are the placement's, and these are the hash and the size of the artifact itself.
\<close>

theorem placements_are_verified:
  assumes "(replication_step env)\<^sup>*\<^sup>* empty_db db"
  shows "distinct (map placement_unit (placements db))
    \<and> distinct (map attempt_unit (filter running_attempt (replication_attempts db)))
    \<and> (\<forall>rp \<in> set (placements db).
         \<exists>a \<in> set (replication_attempts db). \<exists>ar \<in> set (artifacts db). verified_by rp a \<and> places rp ar)"
proof -
  have "wf_replication empty_db" by (simp add: wf_replication_def empty_db_def)
  with assms have "wf_replication db" by (induction rule: rtranclp_induct) (auto intro: wf_replication_step)
  then show ?thesis unfolding wf_replication_def by blast
qed

text \<open>The transactions of this theory are steps of the whole store.\<close>

lemma replication_store_steps:
  "observe_replica_target now db ob = Inr (i, db') \<Longrightarrow> store_step env db db'"
  "claim_replication_attempt env now clock db x t ow lease = Inr (i, db') \<Longrightarrow> store_step env db db'"
  "record_verified_replica env now db attempt ow key r = (db', answer) \<Longrightarrow> store_step env db db'"
  "record_replication_failure now db attempt ow failure = Inr db' \<Longrightarrow> store_step env db db'"
proof -
  show "store_step env db db'" if "observe_replica_target now db ob = Inr (i, db')"
    by (rule store_step_evidence)
      (use that in \<open>auto simp: observe_replica_target_def Let_def split: option.splits if_splits\<close>)
  show "store_step env db db'" if "claim_replication_attempt env now clock db x t ow lease = Inr (i, db')"
    by (rule claim_attempt_shape [OF that], rule store_step_evidence) (simp_all add: advance_def)
  show "store_step env db db'" if "record_replication_failure now db attempt ow failure = Inr db'"
    by (rule store_step_evidence)
      (use that in \<open>auto simp: record_replication_failure_def split: option.splits if_splits\<close>)
  show "store_step env db db'" if "record_verified_replica env now db attempt ow key r = (db', answer)"
    using verified_shape [OF that]
  proof (elim disjE exE conjE)
    fix a h n row
    assume "upsert_placement env now (db\<lparr>replication_attempts :=
        map (\<lambda>b. if ra_id b = attempt then succeed_attempt now h n b else b) (replication_attempts db)\<rparr>) a key h n = Inr (row, db')"
    then show ?thesis
      by (rule upsert_placement_shape) (rule store_step_evidence, simp_all add: advance_def)
  qed (simp add: store_step_evidence)
qed

subsection \<open>A target without a key prefix\<close>

lemma char_length_le: "char_length s \<le> length s"
  by (simp add: char_length_def)

lemma plain_object_key:
  assumes "object_key '''' r = Inr key" and "length (sha256 r) = 64"
  shows "length key = 74"
  using assms by (auto simp: object_key_def)

text \<open>
   For a replica target with the default, empty, key prefix no placement is ever recorded: the
  object key the blob store derives has 74 characters, and the table accepts keys of 75 or more. Every
  verified upload to such a target is refused and the database stays as it was.
\<close>

theorem unprefixed_placement_refused:
  assumes "object_key '''' r = Inr key"
  shows "\<exists>e. record_verified_replica env now db attempt ow key r = (db, Inl e)"
proof -
  obtain db' answer where call: "record_verified_replica env now db attempt ow key r = (db', answer)" by fastforce
  from verified_shape [OF this] show ?thesis
  proof (elim disjE exE conjE)
    fix a h n row db0
    assume digest: "decode_digest (sha256 r) = Inr h"
      and "upsert_placement env now (db\<lparr>replication_attempts :=
        map (\<lambda>b. if ra_id b = attempt then succeed_attempt now h n b else b) (replication_attempts db)\<rparr>) a key h n = Inr (row, db')"
    then have "placement_checks row \<and> rp_object_key row = key" by (elim upsert_placement_shape) simp
    moreover have "length (sha256 r) = 64" using digest by (auto simp: decode_digest_def split: if_splits)
    ultimately show ?thesis
      using plain_object_key [OF assms] char_length_le [of key] by (auto simp: placement_checks_def)
  qed (use call in blast)
qed

subsection \<open>A concrete transfer\<close>

definition example_observation :: ReplicaTargetObservation where
  "example_observation =
     \<lparr> ob_replica_target_id = 90, ob_name = ''offsite'', ob_endpoint_origin = ''https://s3.example'', ob_bucket = ''vault'',
       ob_key_prefix = ''archive'', ob_required = True, ob_enabled = True \<rparr>"

definition result_db :: "vault_db \<Rightarrow> (VaultError, 'a \<times> vault_db) result \<Rightarrow> vault_db" where
  "result_db db answer = (case answer of Inl _ \<Rightarrow> db | Inr (_, db') \<Rightarrow> db')"

definition example_observed :: vault_db where
  "example_observed = result_db example_evidence (observe_replica_target 1000 example_evidence example_observation)"

definition example_attempt :: "uuid \<times> vault_db" where
  "example_attempt =
     (case claim_replication_attempt example_env 2000 2000 example_observed 70 90 8 60 of Inr r \<Rightarrow> r | Inl _ \<Rightarrow> (0, empty_db))"

definition example_key :: string where
  "example_key = ''archive/sha256/03/'' @ sha256 example_ref"

definition example_recorded :: "vault_db \<times> (VaultError, StoredReplicaPlacement) result" where
  "example_recorded =
     record_verified_replica example_env 3000 (snd example_attempt) (fst example_attempt) 8 example_key example_ref"

lemma example_transfer: "(replication_step example_env)\<^sup>*\<^sup>* empty_db (fst example_recorded)"
proof -
  have "replication_step example_env empty_db example_evidence"
    by (rule replication_step.other) (simp_all add: empty_db_def example_evidence_def, code_simp+)
  moreover have "observe_replica_target 1000 example_evidence example_observation = Inr (90, example_observed)" by code_simp
  then have "replication_step example_env example_evidence example_observed" by (rule replication_step.observe)
  moreover have "claim_replication_attempt example_env 2000 2000 example_observed 70 90 8 60 = Inr example_attempt" by code_simp
  then have "replication_step example_env example_observed (snd example_attempt)"
    by (intro replication_step.claim [where i = "fst example_attempt"]) simp
  moreover have "replication_step example_env (snd example_attempt) (fst example_recorded)"
    by (rule replication_step.verified [where answer = "snd example_recorded"]) (simp add: example_recorded_def)
  ultimately show ?thesis by (meson rtranclp.rtrancl_into_rtrancl rtranclp.rtrancl_refl)
qed

theorem placements_are_verified_witness:
  "length (placements (fst example_recorded)) = 1
   \<and> verified_by (hd (placements (fst example_recorded))) (hd (replication_attempts (fst example_recorded)))"
proof -
  have one: "length (placements (fst example_recorded)) = 1 \<and> length (replication_attempts (fst example_recorded)) = 1"
    by code_simp
  then obtain rp a where rows: "placements (fst example_recorded) = [rp]" "replication_attempts (fst example_recorded) = [a]"
    by (metis One_nat_def length_0_conv length_Suc_conv)
  with placements_are_verified [OF example_transfer] one show ?thesis by auto
qed

theorem unprefixed_placement_refused_witness:
  "\<exists>e. record_verified_replica example_env 3000 (snd example_attempt) (fst example_attempt) 8
         (''sha256/03/'' @ sha256 example_ref) example_ref = (snd example_attempt, Inl e)"
  by (rule unprefixed_placement_refused) (simp add: object_key_def example_ref_def, code_simp)

end
