(* ===== verification/Replication_Worker.thy ===== *)
theory Replication_Worker
  imports Replication_Store
begin

text \<open>
  One unit of replication work (\<open>services/vault/src/replication.rs\<close>, \<open>run_unit_cancellable\<close>) and the
  upload that a shutdown can interrupt (\<open>crates/blobstore/src/replica.rs\<close>). The theorems relate the
  interruptible upload to the plain one and say what a verified outcome is worth.
\<close>

subsection \<open>The interruptible upload\<close>

text \<open>
  The places where the code looks at the shutdown signal; \<open>stop p\<close> says that the signal is there
  before the operation at \<open>p\<close> has finished.
\<close>

datatype upload_point = AtStart | AtFirstCheck | AtOpen | AtRead nat | AtPart nat | AtComplete | AtLastCheck

fun cancellable_parts_loop ::
  "(upload_point \<Rightarrow> bool) \<Rightarrow> u64 \<Rightarrow> (nat \<Rightarrow> bool) \<Rightarrow> (nat \<Rightarrow> bool) \<Rightarrow> nat \<Rightarrow> u8 list list \<Rightarrow> u64 \<Rightarrow> u8 list
     \<Rightarrow> (ReplicaError, u64 \<times> u8 list) result" where
  "cancellable_parts_loop stop limit read_ok accepted part [] read acc =
     (if stop (AtRead part) then Inl Cancelled
      else if \<not> read_ok part then Inl SourceIo else Inr (read, acc))"
| "cancellable_parts_loop stop limit read_ok accepted part (bytes # chunks) read acc =
     (if stop (AtRead part) then Inl Cancelled
      else if \<not> read_ok part then Inl SourceIo
      else if bytes = [] then Inr (read, acc)
      else case checked_add read (word_of_nat (length bytes)) of
             None \<Rightarrow> Inl ReplicaSizeLimitExceeded
           | Some n \<Rightarrow>
               if limit < n then Inl ReplicaSizeLimitExceeded
               else if stop (AtPart part) then Inl Cancelled
               else if \<not> accepted part then Inl Remote
               else cancellable_parts_loop stop limit read_ok accepted (Suc part) chunks n (acc @ bytes))"

definition stream_parts_cancellable ::
  "(upload_point \<Rightarrow> bool) \<Rightarrow> (u8 list \<Rightarrow> u8 list) \<Rightarrow> ReplicaStore \<Rightarrow> BlobRef \<Rightarrow> source_file \<Rightarrow> multipart
     \<Rightarrow> (ReplicaError, unit) result" where
  "stream_parts_cancellable stop hash store r src upload =
     result_bind (cancellable_parts_loop stop (max_object_bytes store) (mp_read_ok upload) (mp_part_accepted upload) 0 (src_chunks src) 0 [])
       (\<lambda>(read, bytes).
          if read = size_bytes r \<and> encode_hex (hash bytes) = sha256 r then Inr () else Inl ReplicaDigestMismatch)"

definition upload_source_cancellable ::
  "(upload_point \<Rightarrow> bool) \<Rightarrow> (u8 list \<Rightarrow> u8 list) \<Rightarrow> ReplicaStore \<Rightarrow> BlobRef \<Rightarrow> source_file option \<Rightarrow> multipart
     \<Rightarrow> upload_end \<times> (ReplicaError, unit) result" where
  "upload_source_cancellable stop hash store r src_opt upload =
     (case src_opt of
        None \<Rightarrow> (NotOpened, Inl SourceIo)
      | Some src \<Rightarrow>
          if \<not> src_is_file src \<or> max_object_bytes store < src_len src then (NotOpened, Inl ReplicaInvalidInput)
          else if src_len src \<noteq> size_bytes r then (NotOpened, Inl ReplicaDigestMismatch)
          else if stop AtOpen then (NotOpened, Inl Cancelled)
          else if \<not> mp_opened upload then (NotOpened, Inl Remote)
          else (case stream_parts_cancellable stop hash store r src upload of
                  Inl e \<Rightarrow> (Aborted, Inl e)
                | Inr _ \<Rightarrow>
                    if stop AtComplete then (Aborted, Inl Cancelled)
                    else if \<not> mp_completed upload then (Aborted, Inl Remote)
                    else (upload_end.Completed, Inr ())))"

definition upload_and_verify_cancellable_inner ::
  "(upload_point \<Rightarrow> bool) \<Rightarrow> (u8 list \<Rightarrow> u8 list) \<Rightarrow> (string \<Rightarrow> bool) \<Rightarrow> ReplicaStore \<Rightarrow> BlobRef \<Rightarrow> source_file option
     \<Rightarrow> remote_get \<Rightarrow> multipart \<Rightarrow> remote_get \<Rightarrow> upload_end \<times> (ReplicaError, ReplicaPlacement) result" where
  "upload_and_verify_cancellable_inner stop hash parse_ok store r src_opt before upload after =
     (if stop AtStart then (NotOpened, Inl Cancelled)
      else case validate_replica_reference r (max_object_bytes store) of
        Inl e \<Rightarrow> (NotOpened, Inl e)
      | Inr _ \<Rightarrow>
     (case object_key (key_prefix store) r of
        Inl e \<Rightarrow> (NotOpened, Inl e)
      | Inr key \<Rightarrow>
          if \<not> parse_ok key then (NotOpened, Inl ReplicaInvalidInput)
          else if stop AtFirstCheck then (NotOpened, Inl Cancelled)
          else case verify_remote hash store r before of
                 Inr _ \<Rightarrow> (NotOpened, Inr (placement store r key))
               | Inl e \<Rightarrow>
                   if e \<noteq> ObjectNotFound then (NotOpened, Inl e)
                   else case upload_source_cancellable stop hash store r src_opt upload of
                          (ended, Inl e') \<Rightarrow> (ended, Inl e')
                        | (ended, Inr _) \<Rightarrow>
                            if stop AtLastCheck then (ended, Inl Cancelled)
                            else (ended, result_bind (verify_remote hash store r after) (\<lambda>_. Inr (placement store r key)))))"

text \<open>The request deadline: when it passes, the call answers \<open>Timeout\<close> whatever the rest would do.\<close>

definition upload_and_verify_cancellable ::
  "bool \<Rightarrow> (upload_point \<Rightarrow> bool) \<Rightarrow> (u8 list \<Rightarrow> u8 list) \<Rightarrow> (string \<Rightarrow> bool) \<Rightarrow> ReplicaStore \<Rightarrow> BlobRef
     \<Rightarrow> source_file option \<Rightarrow> remote_get \<Rightarrow> multipart \<Rightarrow> remote_get \<Rightarrow> (ReplicaError, ReplicaPlacement) result" where
  "upload_and_verify_cancellable timed_out stop hash parse_ok store r src_opt before upload after =
     (if timed_out then Inl ReplicaTimeout
      else snd (upload_and_verify_cancellable_inner stop hash parse_ok store r src_opt before upload after))"

subsection \<open>One unit of work\<close>

datatype ReplicationUnitOutcome = UnitVerified | UnitFailed | UnitCancelled

record ReplicationUnit =
  ru_artifact_id :: uuid
  ru_replica_target_id :: uuid
  ru_blob :: BlobRef

fun replica_failure_class :: "ReplicaError \<Rightarrow> string" where
  "replica_failure_class ReplicaInvalidInput = ''invalid_input''"
| "replica_failure_class SourceIo = ''local_io''"
| "replica_failure_class Remote = ''remote''"
| "replica_failure_class RemoteStillPresent = ''remote_still_present''"
| "replica_failure_class ObjectNotFound = ''remote_absent''"
| "replica_failure_class ReplicaTimeout = ''timeout''"
| "replica_failure_class ReplicaDigestMismatch = ''local_digest_mismatch''"
| "replica_failure_class RemoteChecksumMismatch = ''remote_checksum_mismatch''"
| "replica_failure_class RemoteTruncated = ''remote_truncated''"
| "replica_failure_class RemoteOversized = ''remote_oversized''"
| "replica_failure_class ReplicaSizeLimitExceeded = ''size_limit''"
| "replica_failure_class Cancelled = ''cancelled''"

text \<open>
  What the world answers during one unit: the signal and the deadline, the file as it is read, the
  object store, and the times of the three transactions.
\<close>

record transfer =
  tr_stop :: "upload_point \<Rightarrow> bool"
  tr_timed_out :: bool
  tr_chunks :: "u8 list \<Rightarrow> u8 list list"
  tr_before :: remote_get
  tr_upload :: multipart
  tr_after :: remote_get
  tr_claimed_at :: timestamp
  tr_clock :: timestamp
  tr_finished_at :: timestamp

record ReplicationWorker =
  rw_env :: store_env
  rw_hash :: "u8 list \<Rightarrow> u8 list"
  rw_parse_ok :: "string \<Rightarrow> bool"
  rw_local_store :: LocalBlobStore
  rw_replicas :: "uuid \<Rightarrow> ReplicaStore option"
  rw_lease_seconds :: u64
  rw_accepting :: bool

definition opened_source :: "(u8 list \<Rightarrow> u8 list list) \<Rightarrow> blob_fs \<Rightarrow> string \<Rightarrow> source_file option" where
  "opened_source chunks_of blobs path =
     (case blobs path of
        None \<Rightarrow> None
      | Some (BlobFile bytes) \<Rightarrow>
          Some \<lparr> src_is_file = True, src_len = word_of_nat (length bytes), src_chunks = chunks_of bytes \<rparr>
      | Some OtherNode \<Rightarrow> Some \<lparr> src_is_file = False, src_len = 0, src_chunks = [] \<rparr>)"

definition finish_failure ::
  "timestamp \<Rightarrow> vault_db \<Rightarrow> uuid \<Rightarrow> uuid \<Rightarrow> string \<Rightarrow> vault_db \<times> ReplicationUnitOutcome" where
  "finish_failure now db attempt owner_ref failure =
     (case record_replication_failure now db attempt owner_ref failure of
        Inl _ \<Rightarrow> (db, UnitFailed)
      | Inr db' \<Rightarrow> (db', UnitFailed))"

definition finish_verified ::
  "store_env \<Rightarrow> timestamp \<Rightarrow> vault_db \<Rightarrow> uuid \<Rightarrow> uuid \<Rightarrow> string \<Rightarrow> BlobRef \<Rightarrow> vault_db \<times> ReplicationUnitOutcome" where
  "finish_verified env now db attempt owner_ref key r =
     (case record_verified_replica env now db attempt owner_ref key r of
        (db', Inl _) \<Rightarrow> (db', UnitFailed)
      | (db', Inr _) \<Rightarrow> (db', UnitVerified))"

definition run_unit_cancellable ::
  "ReplicationWorker \<Rightarrow> transfer \<Rightarrow> blob_fs \<Rightarrow> ReplicationUnit \<Rightarrow> vault_db \<Rightarrow> vault_db \<times> ReplicationUnitOutcome" where
  "run_unit_cancellable wk tr blobs work db =
     (if \<not> rw_accepting wk then (db, UnitCancelled)
      else case rw_replicas wk (ru_replica_target_id work) of
             None \<Rightarrow> (db, UnitFailed)
           | Some store \<Rightarrow>
               (let owner_ref = now_v7 (rw_env wk) db;
                    db1 = advance db
                in case claim_replication_attempt (rw_env wk) (tr_claimed_at tr) (tr_clock tr) db1 (ru_artifact_id work)
                          (ru_replica_target_id work) owner_ref (rw_lease_seconds wk) of
                     Inl _ \<Rightarrow> (db1, UnitFailed)
                   | Inr (attempt, db2) \<Rightarrow>
                       (case resolve (rw_local_store wk) (ru_blob work) blobs of
                          Inl _ \<Rightarrow> finish_failure (tr_finished_at tr) db2 attempt owner_ref ''local_unavailable''
                        | Inr path \<Rightarrow>
                            (case upload_and_verify_cancellable (tr_timed_out tr) (tr_stop tr) (rw_hash wk) (rw_parse_ok wk)
                                    store (ru_blob work) (opened_source (tr_chunks tr) blobs path)
                                    (tr_before tr) (tr_upload tr) (tr_after tr) of
                               Inr placed \<Rightarrow>
                                 finish_verified (rw_env wk) (tr_finished_at tr) db2 attempt owner_ref
                                   (pl_object_key placed) (ru_blob work)
                             | Inl e \<Rightarrow>
                                 if e = Cancelled then (db2, UnitCancelled)
                                 else finish_failure (tr_finished_at tr) db2 attempt owner_ref (replica_failure_class e)))))"

subsection \<open>A shutdown only cancels\<close>

lemma cancellable_parts_loop_agrees:
  "cancellable_parts_loop stop limit read_ok accepted part chunks read acc = Inl Cancelled
   \<or> cancellable_parts_loop stop limit read_ok accepted part chunks read acc = stream_parts_loop limit read_ok accepted part chunks read acc"
  by (induction stop limit read_ok accepted part chunks read acc rule: cancellable_parts_loop.induct) (auto split: option.splits)

lemma cancellable_parts_loop_plain:
  "\<forall>p. \<not> stop p \<Longrightarrow>
   cancellable_parts_loop stop limit read_ok accepted part chunks read acc = stream_parts_loop limit read_ok accepted part chunks read acc"
  by (induction stop limit read_ok accepted part chunks read acc rule: cancellable_parts_loop.induct) (auto split: option.splits)

lemma stream_parts_cancellable_agrees:
  "stream_parts_cancellable stop hash store r src upload = Inl Cancelled
   \<or> stream_parts_cancellable stop hash store r src upload = stream_parts hash store r src upload"
  unfolding stream_parts_cancellable_def stream_parts_def
  using cancellable_parts_loop_agrees [of stop "max_object_bytes store" "mp_read_ok upload" "mp_part_accepted upload" 0 "src_chunks src" 0 "[]"]
  by auto

lemma upload_source_cancellable_agrees:
  "snd (upload_source_cancellable stop hash store r src_opt upload) = Inl Cancelled
   \<or> upload_source_cancellable stop hash store r src_opt upload = upload_source hash store r src_opt upload"
  using stream_parts_cancellable_agrees [of stop hash store r "the src_opt" upload]
  by (auto simp: upload_source_cancellable_def upload_source_def split: option.splits sum.splits)

text \<open>
   Interrupting an upload changes nothing but its outcome: whatever the moment of the shutdown
  signal, the interruptible upload either behaves exactly as the plain one or answers that it was
  cancelled, and without a signal it is the plain one.
\<close>

theorem shutdown_only_cancels:
  "(upload_and_verify_cancellable_inner stop hash parse_ok store r src_opt before upload after
      = upload_and_verify_inner hash parse_ok store r src_opt before upload after
    \<or> snd (upload_and_verify_cancellable_inner stop hash parse_ok store r src_opt before upload after) = Inl Cancelled)
   \<and> upload_and_verify_cancellable_inner (\<lambda>_. False) hash parse_ok store r src_opt before upload after
       = upload_and_verify_inner hash parse_ok store r src_opt before upload after"
proof
  show "upload_and_verify_cancellable_inner stop hash parse_ok store r src_opt before upload after
      = upload_and_verify_inner hash parse_ok store r src_opt before upload after
    \<or> snd (upload_and_verify_cancellable_inner stop hash parse_ok store r src_opt before upload after) = Inl Cancelled"
    using upload_source_cancellable_agrees [of stop hash store r src_opt upload]
    by (auto simp: upload_and_verify_cancellable_inner_def upload_and_verify_inner_def
        split: sum.splits if_splits prod.splits)
  have "upload_source_cancellable (\<lambda>_. False) hash store r src_opt upload = upload_source hash store r src_opt upload"
    by (simp add: upload_source_cancellable_def upload_source_def stream_parts_cancellable_def stream_parts_def
        cancellable_parts_loop_plain split: option.splits)
  then show "upload_and_verify_cancellable_inner (\<lambda>_. False) hash parse_ok store r src_opt before upload after
      = upload_and_verify_inner hash parse_ok store r src_opt before upload after"
    by (simp add: upload_and_verify_cancellable_inner_def upload_and_verify_inner_def split: sum.splits)
qed

subsection \<open>What a verified outcome is worth\<close>

lemma remote_stream_counts:
  assumes "remote_stream limit expected answers n acc = Inr (m, bytes)" and "unat n = length acc" and "n \<le> expected"
    and "\<And>chunk. Some chunk \<in> set answers \<Longrightarrow> length chunk < 2 ^ 64"
  shows "\<exists>chunks. answers = map Some chunks \<and> bytes = acc @ concat chunks \<and> unat m = length bytes \<and> m \<le> expected"
  using assms
proof (induction limit expected answers n acc rule: remote_stream.induct)
  case (3 limit expected chunk answers n acc)
  from "3.prems"(1) obtain k where k: "checked_add n (word_of_nat (length chunk)) = Some k" "\<not> limit < k" "\<not> expected < k"
    "remote_stream limit expected answers k (acc @ chunk) = Inr (m, bytes)"
    by (auto split: option.splits if_splits)
  have "unat k = length (acc @ chunk)"
    using unat_checked_add [OF k(1)] "3.prems"(2,4) by (simp add: unat_fits)
  then obtain chunks where "answers = map Some chunks" "bytes = (acc @ chunk) @ concat chunks" "unat m = length bytes" "m \<le> expected"
    using "3.IH" [OF k(1) _ k(4)] "3.prems"(4) k(2,3) by (force simp: not_less)
  then show ?case by (intro exI [of _ "chunk # chunks"]) simp
qed simp_all

definition holds_content :: "(u8 list \<Rightarrow> u8 list) \<Rightarrow> BlobRef \<Rightarrow> remote_get \<Rightarrow> bool" where
  "holds_content hash r answer \<longleftrightarrow>
     (\<exists>chunks. answer = RemoteBody (map Some chunks) \<and> length (concat chunks) = unat (size_bytes r)
        \<and> encode_hex (hash (concat chunks)) = sha256 r)"

lemma verify_remote_content:
  assumes "verify_remote hash store r answer = Inr ()" and "whole_chunks answer"
  shows "holds_content hash r answer"
proof (cases answer)
  case (RemoteBody answers)
  with assms(1) obtain m bytes where read: "remote_stream (max_object_bytes store) (size_bytes r) answers 0 [] = Inr (m, bytes)"
    "\<not> m < size_bytes r" "encode_hex (hash bytes) = sha256 r"
    by (cases "remote_stream (max_object_bytes store) (size_bytes r) answers 0 []")
      (auto simp: verify_remote_def split: if_splits)
  from remote_stream_counts [OF read(1)] assms(2) RemoteBody obtain chunks where
    "answers = map Some chunks" "bytes = concat chunks" "unat m = length bytes" "m \<le> size_bytes r"
    by (auto simp: whole_chunks_def)
  with read RemoteBody show ?thesis unfolding holds_content_def by (metis antisym_conv3 leD)
qed (use assms(1) in \<open>simp_all add: verify_remote_def\<close>)

lemma upload_verified:
  assumes "upload_and_verify_cancellable late stop hash parse_ok store r src_opt before upload after = Inr placed"
    and "whole_chunks before" and "whole_chunks after"
  shows "object_key (key_prefix store) r = Inr (pl_object_key placed)
    \<and> (holds_content hash r before \<or> holds_content hash r after)"
proof -
  have inner: "snd (upload_and_verify_cancellable_inner stop hash parse_ok store r src_opt before upload after) = Inr placed"
    using assms(1) by (auto simp: upload_and_verify_cancellable_def split: if_splits)
  then obtain key where key: "object_key (key_prefix store) r = Inr key" "placed = placement store r key"
    and "verify_remote hash store r before = Inr () \<or> verify_remote hash store r after = Inr ()"
    by (cases "verify_remote hash store r after")
      (auto simp: upload_and_verify_cancellable_inner_def split: if_splits sum.splits prod.splits)
  then show ?thesis using verify_remote_content assms(2,3) by (auto simp: placement_def)
qed

lemma finish_verified_shape:
  assumes "finish_verified env now db attempt ow key r = (db', UnitVerified)"
  obtains a h n row where "find (live_owned now attempt ow) (replication_attempts db) = Some a"
    "decode_digest (sha256 r) = Inr h" "i64_try_from (size_bytes r) = Some n" "row \<in> set (placements db')"
    "placement_unit row = attempt_unit a" "rp_sha256 row = h" "rp_size_bytes row = n" "rp_object_key row = key"
proof -
  from assms obtain answer where call: "record_verified_replica env now db attempt ow key r = (db', Inr answer)"
    by (auto simp: finish_verified_def split: prod.splits sum.splits)
  from verified_shape [OF this] obtain a h n row where shape:
    "find (live_owned now attempt ow) (replication_attempts db) = Some a" "decode_digest (sha256 r) = Inr h"
    "i64_try_from (size_bytes r) = Some n"
    and "upsert_placement env now (db\<lparr>replication_attempts :=
        map (\<lambda>b. if ra_id b = attempt then succeed_attempt now h n b else b) (replication_attempts db)\<rparr>) a key h n = Inr (row, db')"
    by blast
  from this(4) have "row \<in> set (placements db') \<and> placement_unit row = attempt_unit a \<and> rp_sha256 row = h
      \<and> rp_size_bytes row = n \<and> rp_object_key row = key"
    by (rule upsert_placement_shape) simp
  with shape that show thesis by blast
qed

text \<open>The three ways a unit of work ends once its attempt is claimed.\<close>

lemma run_unit_shape:
  assumes "run_unit_cancellable wk tr blobs work db = (db', outcome)"
  obtains (refused) "db' = db \<or> db' = advance db" "outcome \<noteq> UnitVerified"
      "outcome = UnitCancelled \<Longrightarrow> \<not> rw_accepting wk"
  | (claimed) store attempt db2 where "rw_replicas wk (ru_replica_target_id work) = Some store"
      "claim_replication_attempt (rw_env wk) (tr_claimed_at tr) (tr_clock tr) (advance db) (ru_artifact_id work)
         (ru_replica_target_id work) (now_v7 (rw_env wk) db) (rw_lease_seconds wk) = Inr (attempt, db2)"
      "db' = db2 \<and> outcome = UnitCancelled
       \<or> (\<exists>failure. finish_failure (tr_finished_at tr) db2 attempt (now_v7 (rw_env wk) db) failure = (db', outcome))
       \<or> (\<exists>path placed. upload_and_verify_cancellable (tr_timed_out tr) (tr_stop tr) (rw_hash wk) (rw_parse_ok wk)
              store (ru_blob work) (opened_source (tr_chunks tr) blobs path) (tr_before tr) (tr_upload tr) (tr_after tr) = Inr placed
            \<and> finish_verified (rw_env wk) (tr_finished_at tr) db2 attempt (now_v7 (rw_env wk) db)
                 (pl_object_key placed) (ru_blob work) = (db', outcome))"
proof (cases "rw_accepting wk \<and> (\<exists>store attempt db2. rw_replicas wk (ru_replica_target_id work) = Some store
    \<and> claim_replication_attempt (rw_env wk) (tr_claimed_at tr) (tr_clock tr) (advance db) (ru_artifact_id work)
         (ru_replica_target_id work) (now_v7 (rw_env wk) db) (rw_lease_seconds wk) = Inr (attempt, db2))")
  case True
  then obtain store attempt db2 where claim: "rw_accepting wk" "rw_replicas wk (ru_replica_target_id work) = Some store"
    "claim_replication_attempt (rw_env wk) (tr_claimed_at tr) (tr_clock tr) (advance db) (ru_artifact_id work)
       (ru_replica_target_id work) (now_v7 (rw_env wk) db) (rw_lease_seconds wk) = Inr (attempt, db2)" by blast
  show thesis
    by (rule claimed [OF claim(2,3)])
      (use assms claim in \<open>auto simp: run_unit_cancellable_def Let_def split: sum.splits if_splits\<close>)
next
  case False
  then show thesis
    using assms refused by (auto simp: run_unit_cancellable_def Let_def split: option.splits sum.splits if_splits)
qed

lemma finish_failure_step: "finish_failure now db attempt ow failure = (db', outcome) \<Longrightarrow>
    (db' = db \<or> replication_step env db db') \<and> outcome = UnitFailed"
  by (auto simp: finish_failure_def split: sum.splits intro: replication_step.failed)

lemma finish_verified_step: "finish_verified env now db attempt ow key r = (db', outcome) \<Longrightarrow>
    replication_step env db db' \<and> outcome \<noteq> UnitCancelled"
  by (auto simp: finish_verified_def split: prod.splits sum.splits intro: replication_step.verified)

lemma claimed_unit:
  assumes "claim_replication_attempt env now clock db x t ow lease = Inr (i, db')" and "wf_replication db"
    and "find (live_owned later i ow') (replication_attempts db') = Some a"
  shows "attempt_unit a = (x, t)"
proof -
  from assms(1) obtain as seconds where db': "db' = advance (db\<lparr>replication_attempts := as @ [new_attempt i x t ow now seconds]\<rparr>)"
    "\<not> list_ex (\<lambda>a. running_attempt a \<and> attempt_unit a = (x, t) \<or> ra_id a = i) as"
    by (rule claim_attempt_shape)
  from assms(3) have "a \<in> set (replication_attempts db')" "ra_id a = i" by (auto simp: find_Some_iff live_owned_def)
  with db' have "a = new_attempt i x t ow now seconds" by (auto simp: list_ex_iff)
  then show ?thesis by simp
qed

text \<open>
  C22.  A unit reported as verified is really there. The worker knows a store for the target, the object
  store returned, before or after the upload, a body of exactly the size and digest of the blob, and
  the database now holds the placement of this artifact at this target, with the key derived from the
  content and the digest and size of the blob.
\<close>

theorem verified_outcome_is_earned:
  assumes "run_unit_cancellable wk tr blobs work db = (db', UnitVerified)" and "wf_replication db"
    and "whole_chunks (tr_before tr)" and "whole_chunks (tr_after tr)"
  shows "\<exists>store row. rw_replicas wk (ru_replica_target_id work) = Some store
    \<and> (holds_content (rw_hash wk) (ru_blob work) (tr_before tr) \<or> holds_content (rw_hash wk) (ru_blob work) (tr_after tr))
    \<and> row \<in> set (placements db') \<and> placement_unit row = (ru_artifact_id work, ru_replica_target_id work)
    \<and> object_key (key_prefix store) (ru_blob work) = Inr (rp_object_key row)
    \<and> encode_hex (rp_sha256 row) = sha256 (ru_blob work) \<and> rp_size_bytes row = uint (size_bytes (ru_blob work))"
  using assms(1)
proof (cases rule: run_unit_shape)
  case (claimed store attempt db2)
  let ?ow = "now_v7 (rw_env wk) db"
  from claimed(3) obtain path placed where
    up: "upload_and_verify_cancellable (tr_timed_out tr) (tr_stop tr) (rw_hash wk) (rw_parse_ok wk)
        store (ru_blob work) (opened_source (tr_chunks tr) blobs path) (tr_before tr) (tr_upload tr) (tr_after tr) = Inr placed"
    and rec: "finish_verified (rw_env wk) (tr_finished_at tr) db2 attempt ?ow (pl_object_key placed) (ru_blob work) = (db', UnitVerified)"
    using finish_failure_step by blast
  from rec obtain a h n row where row: "find (live_owned (tr_finished_at tr) attempt ?ow) (replication_attempts db2) = Some a"
    "decode_digest (sha256 (ru_blob work)) = Inr h" "i64_try_from (size_bytes (ru_blob work)) = Some n"
    "row \<in> set (placements db')" "placement_unit row = attempt_unit a" "rp_sha256 row = h" "rp_size_bytes row = n"
    "rp_object_key row = pl_object_key placed"
    by (rule finish_verified_shape)
  have "wf_replication (advance db)" by (rule wf_replication_frame [OF assms(2)]) simp_all
  then have "attempt_unit a = (ru_artifact_id work, ru_replica_target_id work)"
    by (rule claimed_unit [OF claimed(2) _ row(1)])
  moreover have "encode_hex h = sha256 (ru_blob work)"
    using row(2) by (auto simp: decode_digest_def intro: encode_decode_pairs split: if_splits option.splits)
  moreover have "n = uint (size_bytes (ru_blob work))"
    using row(3) by (auto simp: i64_try_from_def split: if_splits)
  ultimately show ?thesis
    using upload_verified [OF up assms(3,4)] claimed(1) row by auto
qed simp

subsection \<open>An interrupted transfer is recovered\<close>

lemma claim_attempt_conditions:
  assumes "claim_replication_attempt env now clock db x t ow lease = Inr (i, db')"
  obtains seconds ar row where "i64_try_from lease = Some seconds" "seconds \<noteq> 0"
    "find (\<lambda>ar. ar_id ar = x) (artifacts db) = Some ar" "find (\<lambda>row. rt_id row = t) (replica_targets db) = Some row"
    "rt_enabled row" "\<not> being_deleted db (ar_snapshot ar)" "\<not> object_claimed env db clock row ar"
    "\<not> list_ex (\<lambda>a. running_attempt a \<and> attempt_unit a = (x, t) \<or> ra_id a = i)
         (map (abandon_expired_attempt now x t) (replication_attempts db))"
    "db' = advance (db\<lparr>replication_attempts := map (abandon_expired_attempt now x t) (replication_attempts db)
         @ [new_attempt i x t ow now seconds]\<rparr>)"
  using assms unfolding claim_replication_attempt_def
  by (auto simp: Let_def split: option.splits if_splits)

lemma object_claim_expires: "object_claimed env db later row ar \<Longrightarrow> clock \<le> later \<Longrightarrow> object_claimed env db clock row ar"
  by (fastforce simp: object_claimed_def list_ex_iff)

lemma expired_claim_again:
  assumes "claim_replication_attempt env now clock db x t ow lease = Inr (i, db')"
    and "now + uint lease * 1000000 \<le> later" and "later + uint lease * 1000000 < TIMESTAMP_END_SECONDS * 1000000"
    and "clock \<le> clock'" and "now_v7 env db' \<notin> ra_id ` set (replication_attempts db')"
  shows "\<exists>i' db''. claim_replication_attempt env later clock' db' x t ow' lease = Inr (i', db'')"
  using assms(1)
proof (rule claim_attempt_conditions)
  fix seconds ar row
  assume c: "i64_try_from lease = Some seconds" "seconds \<noteq> 0"
    "find (\<lambda>ar. ar_id ar = x) (artifacts db) = Some ar" "find (\<lambda>row. rt_id row = t) (replica_targets db) = Some row"
    "rt_enabled row" "\<not> being_deleted db (ar_snapshot ar)" "\<not> object_claimed env db clock row ar"
    and free: "\<not> list_ex (\<lambda>a. running_attempt a \<and> attempt_unit a = (x, t) \<or> ra_id a = i)
         (map (abandon_expired_attempt now x t) (replication_attempts db))"
    and db': "db' = advance (db\<lparr>replication_attempts := map (abandon_expired_attempt now x t) (replication_attempts db)
         @ [new_attempt i x t ow now seconds]\<rparr>)"
  let ?later = "map (abandon_expired_attempt later x t) (replication_attempts db')"
  have seconds: "seconds = uint lease" using c(1) by (auto simp: i64_try_from_def split: if_splits)
  have new: "\<not> running_attempt (abandon_expired_attempt later x t (new_attempt i x t ow now seconds))"
    using assms(2) seconds by (simp add: abandon_expired_attempt_def new_attempt_def running_attempt_def)
  have "\<not> running_attempt b" if "b \<in> set ?later" "attempt_unit b = (x, t)" for b
  proof
    assume run: "running_attempt b"
    from that(1) obtain a where a: "b = abandon_expired_attempt later x t a" "a \<in> set (replication_attempts db')" by auto
    have "running_attempt a" using run unfolding a(1) by (rule abandon_expired_running)
    moreover have "attempt_unit a = (x, t)" using that(2) a(1) by simp
    ultimately have "a = new_attempt i x t ow now seconds" using free a(2) by (auto simp: db' list_ex_iff)
    with new run a(1) show False by simp
  qed
  moreover have "ra_id b \<noteq> now_v7 env db'" if "b \<in> set ?later" for b
    using that assms(5) by (auto simp: image_iff)
  ultimately have free': "\<not> list_ex (\<lambda>a. running_attempt a \<and> attempt_unit a = (x, t) \<or> ra_id a = now_v7 env db') ?later"
    unfolding list_ex_iff by blast
  have eqs: "being_deleted db' = being_deleted db" "object_claimed env db' = object_claimed env db"
    "artifacts db' = artifacts db" "replica_targets db' = replica_targets db"
    by (simp_all add: db' being_deleted_def object_claimed_def fun_eq_iff advance_def)
  have "\<not> object_claimed env db clock' row ar" using c(7) object_claim_expires [OF _ assms(4)] by blast
  then show ?thesis
    unfolding claim_replication_attempt_def Let_def eqs using c(1-6) free' assms(3) seconds by simp
qed

text \<open>
  C33.  A shutdown never strands a transfer. When a unit was interrupted after its attempt had been
  claimed, the attempt stays behind under its lease, and as soon as the lease has run out the same unit
  can be claimed again by any worker.
\<close>

theorem interrupted_transfer_recoverable:
  assumes "run_unit_cancellable wk tr blobs work db = (db', UnitCancelled)" and "rw_accepting wk"
    and "tr_claimed_at tr + uint (rw_lease_seconds wk) * 1000000 \<le> later" and "tr_clock tr \<le> clock"
    and "later + uint (rw_lease_seconds wk) * 1000000 < TIMESTAMP_END_SECONDS * 1000000"
    and "now_v7 (rw_env wk) db' \<notin> ra_id ` set (replication_attempts db')"
  shows "\<exists>i db''. claim_replication_attempt (rw_env wk) later clock db' (ru_artifact_id work)
           (ru_replica_target_id work) anyone (rw_lease_seconds wk) = Inr (i, db'')"
  using assms(1)
proof (cases rule: run_unit_shape)
  case (claimed store attempt db2)
  then have "db' = db2" using finish_failure_step finish_verified_step by blast
  with claimed(2) assms(3-6) show ?thesis by (blast intro: expired_claim_again)
qed (use assms(2) in simp)

subsection \<open>A concrete unit\<close>

definition example_replication_worker :: ReplicationWorker where
  "example_replication_worker =
     \<lparr> rw_env = example_env, rw_hash = example_hash, rw_parse_ok = (\<lambda>_. True), rw_local_store = example_store,
       rw_replicas = (\<lambda>i. if i = 90 then Some \<lparr>target_name = ''offsite'', key_prefix = ''archive'', max_object_bytes = 100\<rparr> else None),
       rw_lease_seconds = 60, rw_accepting = True \<rparr>"

definition example_transfer_world :: "(upload_point \<Rightarrow> bool) \<Rightarrow> transfer" where
  "example_transfer_world stop =
     \<lparr> tr_stop = stop, tr_timed_out = False, tr_chunks = map (\<lambda>byte. [byte]), tr_before = RemoteAbsent,
       tr_upload = \<lparr>mp_opened = True, mp_read_ok = (\<lambda>_. True), mp_part_accepted = (\<lambda>_. True), mp_completed = True\<rparr>,
       tr_after = RemoteBody (map Some [[7, 8], [9]]), tr_claimed_at = 2000, tr_clock = 2000, tr_finished_at = 3000 \<rparr>"

definition example_unit :: ReplicationUnit where
  "example_unit = \<lparr> ru_artifact_id = 70, ru_replica_target_id = 90, ru_blob = example_ref \<rparr>"

abbreviation example_run :: "(upload_point \<Rightarrow> bool) \<Rightarrow> vault_db \<times> ReplicationUnitOutcome" where
  "example_run stop \<equiv>
     run_unit_cancellable example_replication_worker (example_transfer_world stop) example_blob_fs example_unit example_observed"

lemma example_observed_wf: "wf_replication example_observed"
proof -
  have "replication_attempts example_observed = [] \<and> placements example_observed = []" by code_simp
  then show ?thesis by (simp add: wf_replication_def)
qed

theorem verified_outcome_is_earned_witness:
  "snd (example_run (\<lambda>_. False)) = UnitVerified
   \<and> (\<exists>row \<in> set (placements (fst (example_run (\<lambda>_. False)))). placement_unit row = (70, 90))"
proof -
  have v: "snd (example_run (\<lambda>_. False)) = UnitVerified" by code_simp
  then have run: "example_run (\<lambda>_. False) = (fst (example_run (\<lambda>_. False)), UnitVerified)" by (metis prod.collapse)
  have "whole_chunks (tr_before (example_transfer_world (\<lambda>_. False)))"
    "whole_chunks (tr_after (example_transfer_world (\<lambda>_. False)))"
    by (auto simp: whole_chunks_def example_transfer_world_def)
  from verified_outcome_is_earned [OF run example_observed_wf this] v show ?thesis
    by (auto simp: example_unit_def)
qed

theorem interrupted_transfer_recoverable_witness:
  "\<exists>i db''. claim_replication_attempt example_env 60002000 2000 (fst (example_run (\<lambda>p. p = AtPart 1))) 70 90 5 60 = Inr (i, db'')"
proof -
  have "snd (example_run (\<lambda>p. p = AtPart 1)) = UnitCancelled" by code_simp
  then have run: "example_run (\<lambda>p. p = AtPart 1) = (fst (example_run (\<lambda>p. p = AtPart 1)), UnitCancelled)" by (metis prod.collapse)
  have "now_v7 (rw_env example_replication_worker) (fst (example_run (\<lambda>p. p = AtPart 1)))
      \<notin> ra_id ` set (replication_attempts (fst (example_run (\<lambda>p. p = AtPart 1))))" by code_simp
  from interrupted_transfer_recoverable [OF run _ _ _ _ this, of 60002000 2000 5] show ?thesis
    by (simp add: example_replication_worker_def example_transfer_world_def example_unit_def TIMESTAMP_END_SECONDS_def)
qed

end
