(* ===== verification/Mirror_Store.thy ===== *)
theory Mirror_Store
  imports Deletion_Proofs
begin

text \<open>
  The durable side of a mirror (\<open>crates/persistence/src/mirror_lifecycle.rs\<close> with the tables
  \<open>mirrors\<close>, \<open>mirror_lifecycle_runs\<close> and \<open>mirror_quota_reservations\<close> of \<open>schema.sql\<close>): the mirror row of a
  target, the admission of a run against the byte budgets, and the terminal record of a run, which
  releases what the run had reserved.
\<close>

subsection \<open>Values at the boundary\<close>

definition mirror_checked_i64 :: "u64 \<Rightarrow> (VaultError, int) result" where
  "mirror_checked_i64 v = (case i64_try_from v of Some n \<Rightarrow> Inr n | None \<Rightarrow> Inl StorageFailed)"

definition I64_MAX :: int where
  "I64_MAX = 9223372036854775807"

definition i64_saturating_add :: "int \<Rightarrow> int \<Rightarrow> int" where
  "i64_saturating_add a b = max (- I64_MAX - 1) (min I64_MAX (a + b))"

text \<open>The pattern \<open>^mirrors/[0-9a-z]{2}/[0-9a-f-]{36}\.git$\<close>.\<close>

definition storage_path_matches :: "string \<Rightarrow> bool" where
  "storage_path_matches path \<longleftrightarrow>
     length path = 51 \<and> take 8 path = ''mirrors/''
     \<and> list_all (\<lambda>c. is_ascii_digit c \<or> CHR ''a'' \<le> c \<and> c \<le> CHR ''z'') (take 2 (drop 8 path))
     \<and> take 1 (drop 10 path) = ''/''
     \<and> list_all (\<lambda>c. is_ascii_digit c \<or> CHR ''a'' \<le> c \<and> c \<le> CHR ''f'' \<or> c = CHR ''-'') (take 36 (drop 11 path))
     \<and> drop 47 path = ''.git''"

subsection \<open>The mirror row\<close>

definition ensure_mirror :: "store_env \<Rightarrow> vault_db \<Rightarrow> uuid \<Rightarrow> string \<Rightarrow> (VaultError, vault_db) result" where
  "ensure_mirror env db target path =
     (if \<not> storage_path_matches path then Inl StorageFailed
      else if list_ex (\<lambda>m. mr_target m = target) (mirrors db) then Inr (advance db)
      else if find_target db target = None then Inl StorageFailed
      else Inr (advance (db\<lparr>mirrors := mirrors db @
             [\<lparr> mr_id = now_v7 env db, mr_target = target, mr_status = ''initializing'', mr_storage_path = path,
                mr_fsck_result = ''unknown'', mr_bytes_on_disk = 0, mr_last_fetch_at = None \<rparr>]\<rparr>)))"

definition update_mirror :: "uuid \<Rightarrow> (MirrorRow \<Rightarrow> MirrorRow) \<Rightarrow> vault_db \<Rightarrow> vault_db" where
  "update_mirror target f db =
     db\<lparr>mirrors := map (\<lambda>m. if mr_target m = target then f m else m) (mirrors db)\<rparr>"

definition record_verified_mirror :: "timestamp \<Rightarrow> vault_db \<Rightarrow> uuid \<Rightarrow> u64 \<Rightarrow> (VaultError, vault_db) result" where
  "record_verified_mirror now db target bytes_seen =
     result_bind (mirror_checked_i64 bytes_seen) (\<lambda>bytes.
       Inr (update_mirror target (\<lambda>m. m\<lparr>mr_status := ''ready'', mr_fsck_result := ''ok'',
              mr_bytes_on_disk := bytes, mr_last_fetch_at := Some now\<rparr>) db))"

definition mark_mirror_degraded :: "vault_db \<Rightarrow> uuid \<Rightarrow> vault_db" where
  "mark_mirror_degraded db target =
     update_mirror target (\<lambda>m. m\<lparr>mr_status := ''degraded'', mr_fsck_result := ''failed''\<rparr>) db"

subsection \<open>Admission\<close>

datatype QuotaReservationOutcome = Reserved | QuotaReservationExceeded

definition target_reserved :: "vault_db \<Rightarrow> uuid \<Rightarrow> int" where
  "target_reserved db target =
     sum_list (map qr_reserved_bytes (filter (\<lambda>r. qr_target r = target) (reservations db)))"

definition global_reserved :: "vault_db \<Rightarrow> int" where
  "global_reserved db = sum_list (map qr_reserved_bytes (reservations db))"

text \<open>\<open>sum(...)::bigint\<close>: the sum is a \<open>numeric\<close>, the cast refuses what \<open>bigint\<close> cannot hold.\<close>

definition to_bigint :: "int \<Rightarrow> (VaultError, int) result" where
  "to_bigint n = (if - I64_MAX - 1 \<le> n \<and> n \<le> I64_MAX then Inr n else Inl StorageFailed)"

definition reserve_mirror_quota ::
  "timestamp \<Rightarrow> vault_db \<Rightarrow> uuid \<Rightarrow> uuid \<Rightarrow> u64 \<Rightarrow> u64 \<Rightarrow> u64
     \<Rightarrow> (VaultError, QuotaReservationOutcome \<times> vault_db) result" where
  "reserve_mirror_quota now db target run requested_bytes per_mirror_max_bytes global_max_bytes =
     result_bind (mirror_checked_i64 requested_bytes) (\<lambda>requested.
     result_bind (mirror_checked_i64 per_mirror_max_bytes) (\<lambda>per_limit.
     result_bind (mirror_checked_i64 global_max_bytes) (\<lambda>global_limit.
       if requested \<le> 0 \<or> per_limit \<le> 0 \<or> global_limit \<le> 0 then Inl StorageFailed
       else
         result_bind (to_bigint (target_reserved db target)) (\<lambda>target_sum.
         result_bind (to_bigint (global_reserved db)) (\<lambda>global_sum.
           if i64_saturating_add target_sum requested > per_limit
              \<or> i64_saturating_add global_sum requested > global_limit
           then Inr (QuotaReservationExceeded, db)
           else if list_ex (\<lambda>r. qr_run r = run) (reservations db) \<or> find_target db target = None
           then Inl StorageFailed
           else Inr (Reserved, db\<lparr>reservations := reservations db @
                  [\<lparr> qr_run = run, qr_target = target, qr_reserved_bytes = requested, qr_created_at = now \<rparr>]\<rparr>))))))"

subsection \<open>Terminal records\<close>

fun operation_name :: "MirrorOperation \<Rightarrow> string" where
  "operation_name InitialClone = ''clone''"
| "operation_name MirrorOperation.Fetch = ''fetch''"

fun checkpoint_name :: "MirrorCheckpoint \<Rightarrow> string" where
  "checkpoint_name ClonePending = ''clone_pending''"
| "checkpoint_name FetchPending = ''fetch_pending''"

fun result_fields ::
  "MirrorResult \<Rightarrow> (VaultError, string \<times> string option \<times> int option \<times> int option) result" where
  "result_fields (Succeeded objs bytes) =
     result_bind (mirror_checked_i64 objs) (\<lambda>n. result_bind (mirror_checked_i64 bytes) (\<lambda>b.
       Inr (''succeeded'', None, Some n, Some b)))"
| "result_fields QuotaRefused = Inr (''quota_refused'', None, None, None)"
| "result_fields (MirrorInterrupted checkpoint) = Inr (''interrupted'', Some (checkpoint_name checkpoint), None, None)"
| "result_fields IntegrityFailed = Inr (''integrity_failed'', None, None, None)"
| "result_fields (MirrorResult.Failed failure) = Inr (''failed'', None, None, None)"

text \<open>The checks of the table \<open>mirror_lifecycle_runs\<close>.\<close>

definition mirror_run_checks :: "MirrorRunRow \<Rightarrow> bool" where
  "mirror_run_checks row \<longleftrightarrow>
     lr_operation row \<in> {''clone'', ''fetch''}
     \<and> lr_outcome row \<in> {''succeeded'', ''quota_refused'', ''interrupted'', ''integrity_failed'', ''failed''}
     \<and> (case lr_failure_class row of None \<Rightarrow> True | Some c \<Rightarrow> 1 \<le> char_length c \<and> char_length c \<le> 64)
     \<and> (case lr_checkpoint row of None \<Rightarrow> True | Some c \<Rightarrow> c \<in> {''clone_pending'', ''fetch_pending''})
     \<and> (case lr_object_count row of None \<Rightarrow> True | Some n \<Rightarrow> 0 \<le> n)
     \<and> (case lr_bytes_on_disk row of None \<Rightarrow> True | Some n \<Rightarrow> 0 \<le> n)"

definition record_mirror_run ::
  "timestamp \<Rightarrow> vault_db \<Rightarrow> uuid \<Rightarrow> uuid \<Rightarrow> MirrorOperation \<Rightarrow> MirrorResult \<Rightarrow> (VaultError, vault_db) result" where
  "record_mirror_run now db target run operation r =
     result_bind (result_fields r) (\<lambda>(outcome, checkpoint, object_count, bytes_on_disk).
       let row = \<lparr> lr_id = run, lr_target = target, lr_operation = operation_name operation, lr_outcome = outcome,
                   lr_failure_class = map_option FailureClass_code (MirrorResult_failure_class r),
                   lr_checkpoint = checkpoint, lr_object_count = object_count, lr_bytes_on_disk = bytes_on_disk,
                   lr_created_at = now \<rparr>
       in if \<not> mirror_run_checks row \<or> list_ex (\<lambda>m. lr_id m = run) (mirror_runs db) \<or> find_target db target = None
          then Inl StorageFailed
          else Inr (db\<lparr>mirror_runs := mirror_runs db @ [row],
                       reservations := filter (\<lambda>q. qr_run q \<noteq> run) (reservations db)\<rparr>))"


subsection \<open>The budgets hold\<close>

lemma mirror_checked_i64_ok [simp]: "mirror_checked_i64 v = Inr n \<longleftrightarrow> uint v \<le> I64_MAX \<and> n = uint v"
  by (auto simp: mirror_checked_i64_def i64_try_from_def I64_MAX_def)

lemma to_bigint_ok [simp]: "to_bigint n = Inr m \<longleftrightarrow> - I64_MAX - 1 \<le> n \<and> n \<le> I64_MAX \<and> m = n"
  by (auto simp: to_bigint_def)

lemma saturating_within:
  assumes "i64_saturating_add a b \<le> limit" and "limit < I64_MAX"
  shows "a + b \<le> limit"
  using assms by (auto simp: i64_saturating_add_def)

lemma reserve_mirror_quota_shape:
  assumes "reserve_mirror_quota now db target run req per glob = Inr (outcome, db')"
  obtains "outcome = QuotaReservationExceeded" "db' = db"
  | "outcome = Reserved" "0 < uint req" "uint req \<le> I64_MAX" "find_target db target \<noteq> None"
    "run \<notin> set (map qr_run (reservations db))"
    "i64_saturating_add (target_reserved db target) (uint req) \<le> uint per"
    "i64_saturating_add (global_reserved db) (uint req) \<le> uint glob"
    "db' = db\<lparr>reservations := reservations db
        @ [\<lparr>qr_run = run, qr_target = target, qr_reserved_bytes = uint req, qr_created_at = now\<rparr>]\<rparr>"
proof (cases "i64_saturating_add (target_reserved db target) (uint req) > uint per
    \<or> i64_saturating_add (global_reserved db) (uint req) > uint glob")
  case True
  with assms have "outcome = QuotaReservationExceeded \<and> db' = db"
    unfolding reserve_mirror_quota_def by (simp split: if_splits)
  then show thesis using that(1) by blast
next
  case False
  with assms have "outcome = Reserved \<and> uint req \<noteq> 0 \<and> uint req \<le> I64_MAX \<and> find_target db target \<noteq> None
      \<and> \<not> list_ex (\<lambda>r. qr_run r = run) (reservations db)
      \<and> db' = db\<lparr>reservations := reservations db
        @ [\<lparr>qr_run = run, qr_target = target, qr_reserved_bytes = uint req, qr_created_at = now\<rparr>]\<rparr>"
    unfolding reserve_mirror_quota_def by (simp split: if_splits)
  moreover from this have "0 < uint req" by (simp add: less_le)
  moreover from calculation have "run \<notin> set (map qr_run (reservations db))" by (auto simp: list_ex_iff)
  ultimately show thesis using that(2) False by simp
qed

lemma record_mirror_run_shape:
  assumes "record_mirror_run now db target run operation r = Inr db'"
  obtains row where "lr_id row = run" "lr_target row = target" "mirror_run_checks row"
    "result_fields r = Inr (lr_outcome row, lr_checkpoint row, lr_object_count row, lr_bytes_on_disk row)"
    "lr_failure_class row = map_option FailureClass_code (MirrorResult_failure_class r)"
    "lr_operation row = operation_name operation"
    "run \<notin> set (map lr_id (mirror_runs db))" "find_target db target \<noteq> None"
    "db' = db\<lparr>mirror_runs := mirror_runs db @ [row], reservations := filter (\<lambda>q. qr_run q \<noteq> run) (reservations db)\<rparr>"
proof -
  from assms obtain outcome checkpoint n b where fields: "result_fields r = Inr (outcome, checkpoint, n, b)"
    by (auto simp: record_mirror_run_def)
  define row where "row = \<lparr> lr_id = run, lr_target = target, lr_operation = operation_name operation, lr_outcome = outcome,
    lr_failure_class = map_option FailureClass_code (MirrorResult_failure_class r),
    lr_checkpoint = checkpoint, lr_object_count = n, lr_bytes_on_disk = b, lr_created_at = now \<rparr>"
  have "mirror_run_checks row \<and> \<not> list_ex (\<lambda>m. lr_id m = run) (mirror_runs db) \<and> find_target db target \<noteq> None
      \<and> db' = db\<lparr>mirror_runs := mirror_runs db @ [row], reservations := filter (\<lambda>q. qr_run q \<noteq> run) (reservations db)\<rparr>"
    using assms by (simp add: record_mirror_run_def fields row_def [symmetric] split: if_splits)
  then show thesis by (intro that [of row]) (auto simp: row_def fields list_ex_iff)
qed

text \<open>
  One transaction of a deployment with fixed budgets: an admission, a terminal record, or any transaction
  that leaves the reservations alone.
\<close>

inductive quota_step :: "u64 \<Rightarrow> u64 \<Rightarrow> vault_db \<Rightarrow> vault_db \<Rightarrow> bool" for per glob :: u64 where
  admit: "reserve_mirror_quota now db target run req per glob = Inr (outcome, db') \<Longrightarrow> quota_step per glob db db'"
| finish: "record_mirror_run now db target run operation r = Inr db' \<Longrightarrow> quota_step per glob db db'"
| other: "reservations db' = reservations db \<Longrightarrow> quota_step per glob db db'"

definition within_quota :: "u64 \<Rightarrow> u64 \<Rightarrow> vault_db \<Rightarrow> bool" where
  "within_quota per glob db \<longleftrightarrow>
     list_all (\<lambda>q. 0 < qr_reserved_bytes q) (reservations db)
     \<and> global_reserved db \<le> uint glob \<and> (\<forall>t. target_reserved db t \<le> uint per)"

lemma sum_list_filter_le:
  "list_all (\<lambda>x. 0 < f x) xs \<Longrightarrow> sum_list (map f (filter P xs)) \<le> sum_list (map f xs)" for f :: "'a \<Rightarrow> int"
  by (induction xs) auto

lemma reserved_simps [simp]:
  "global_reserved (db\<lparr>mirror_runs := x, reservations := qs\<rparr>) = sum_list (map qr_reserved_bytes qs)"
  "target_reserved (db\<lparr>mirror_runs := x, reservations := qs\<rparr>) t
     = sum_list (map qr_reserved_bytes (filter (\<lambda>r. qr_target r = t) qs))"
  "global_reserved (db\<lparr>reservations := reservations db @ [q]\<rparr>) = global_reserved db + qr_reserved_bytes q"
  "target_reserved (db\<lparr>reservations := reservations db @ [q]\<rparr>) t
     = target_reserved db t + (if qr_target q = t then qr_reserved_bytes q else 0)"
  by (simp_all add: global_reserved_def target_reserved_def)

lemma within_quota_release:
  assumes "within_quota per glob db"
  shows "within_quota per glob (db\<lparr>mirror_runs := x, reservations := filter P (reservations db)\<rparr>)"
proof -
  have pos: "list_all (\<lambda>q. 0 < qr_reserved_bytes q) (reservations db)"
    using assms by (simp add: within_quota_def)
  then have "list_all (\<lambda>q. 0 < qr_reserved_bytes q) (filter Q (reservations db))" for Q
    by (simp add: list_all_iff)
  moreover have "sum_list (map qr_reserved_bytes (filter (\<lambda>r. qr_target r = t) (filter P (reservations db))))
      \<le> target_reserved db t" for t
    unfolding target_reserved_def filter_filter
    using sum_list_filter_le [of qr_reserved_bytes "filter (\<lambda>r. qr_target r = t) (reservations db)" P] calculation
    by (simp add: conj_commute)
  moreover have "sum_list (map qr_reserved_bytes (filter P (reservations db))) \<le> global_reserved db"
    unfolding global_reserved_def by (rule sum_list_filter_le [OF pos])
  ultimately show ?thesis using assms unfolding within_quota_def by (auto intro: order_trans)
qed

lemma quota_step_keeps:
  assumes "quota_step per glob db db'" and "within_quota per glob db"
    and "uint per < I64_MAX" and "uint glob < I64_MAX"
  shows "within_quota per glob db'"
  using assms(1)
proof cases
  case (admit now target run req outcome)
  from admit show ?thesis
  proof (cases rule: reserve_mirror_quota_shape)
    case 2
    show ?thesis
      using assms(2) 2 saturating_within [OF 2(6) assms(3)] saturating_within [OF 2(7) assms(4)]
      unfolding within_quota_def by simp
  qed (use assms(2) in simp)
next
  case (finish now target run operation r)
  then show ?thesis
    by (rule record_mirror_run_shape) (simp add: within_quota_release [OF assms(2)])
next
  case other
  then show ?thesis using assms(2) by (simp add: within_quota_def global_reserved_def target_reserved_def)
qed

text \<open>
  C12. Admission keeps the budgets: whatever runs are admitted, refused and finished, and in whatever
  order their transactions commit, the live reservations of a mirror never exceed the per-mirror budget
  and all live reservations together never exceed the global one. Both budgets lie below the largest
  \<open>i64\<close>; at that value the saturated sum no longer exceeds the limit and the next request is admitted.
\<close>

theorem quota_never_exceeded:
  assumes "(quota_step per glob)\<^sup>*\<^sup>* empty_db db" and "uint per < I64_MAX" and "uint glob < I64_MAX"
  shows "target_reserved db t \<le> uint per \<and> global_reserved db \<le> uint glob"
proof -
  have "within_quota per glob empty_db"
    by (simp add: within_quota_def empty_db_def global_reserved_def target_reserved_def)
  with assms(1) have "within_quota per glob db"
    by (induction rule: rtranclp_induct) (auto intro: quota_step_keeps assms(2,3))
  then show ?thesis by (simp add: within_quota_def)
qed


subsection \<open>The tables stay well typed\<close>

text \<open>
  What the rows of the three tables look like: a run's evidence fits its outcome, a mirror lies at the
  path of its layout, and its status and its last integrity observation agree.
\<close>

definition run_well_typed :: "MirrorRunRow \<Rightarrow> bool" where
  "run_well_typed row \<longleftrightarrow> mirror_run_checks row
     \<and> (lr_failure_class row = None \<longleftrightarrow> lr_outcome row = ''succeeded'')
     \<and> (case lr_failure_class row of None \<Rightarrow> True | Some c \<Rightarrow> c \<in> range FailureClass_code)
     \<and> (lr_checkpoint row \<noteq> None \<longleftrightarrow> lr_outcome row = ''interrupted'')
     \<and> (lr_object_count row \<noteq> None \<longleftrightarrow> lr_outcome row = ''succeeded'')
     \<and> (lr_bytes_on_disk row \<noteq> None \<longleftrightarrow> lr_outcome row = ''succeeded'')"

definition mirror_well_typed :: "MirrorRow \<Rightarrow> bool" where
  "mirror_well_typed m \<longleftrightarrow> storage_path_matches (mr_storage_path m) \<and> 0 \<le> mr_bytes_on_disk m
     \<and> (mr_status m, mr_fsck_result m) \<in> {(''initializing'', ''unknown''), (''ready'', ''ok''), (''degraded'', ''failed'')}"

definition wf_mirrors :: "vault_db \<Rightarrow> bool" where
  "wf_mirrors db \<longleftrightarrow>
     distinct (map lr_id (mirror_runs db)) \<and> list_all run_well_typed (mirror_runs db)
     \<and> distinct (map qr_run (reservations db)) \<and> list_all (\<lambda>q. 0 < qr_reserved_bytes q) (reservations db)
     \<and> distinct (map mr_target (mirrors db)) \<and> list_all mirror_well_typed (mirrors db)"

inductive mirror_step :: "store_env \<Rightarrow> vault_db \<Rightarrow> vault_db \<Rightarrow> bool" for env :: store_env where
  ensure: "ensure_mirror env db target path = Inr db' \<Longrightarrow> mirror_step env db db'"
| verified: "record_verified_mirror now db target bytes = Inr db' \<Longrightarrow> mirror_step env db db'"
| degraded: "mirror_step env db (mark_mirror_degraded db target)"
| admit: "reserve_mirror_quota now db target run req per glob = Inr (outcome, db') \<Longrightarrow> mirror_step env db db'"
| finish: "record_mirror_run now db target run operation r = Inr db' \<Longrightarrow> mirror_step env db db'"
| other: "mirrors db' = mirrors db \<Longrightarrow> mirror_runs db' = mirror_runs db \<Longrightarrow> reservations db' = reservations db
    \<Longrightarrow> mirror_step env db db'"

text \<open>The codes of the failure taxonomy and the counts of a result always meet the checks of the table.\<close>

lemma failure_code_bounded: "1 \<le> char_length (FailureClass_code c) \<and> char_length (FailureClass_code c) \<le> 64"
  by (cases c) (simp_all, code_simp+)

lemma result_row_well_typed:
  assumes "result_fields r = Inr (lr_outcome row, lr_checkpoint row, lr_object_count row, lr_bytes_on_disk row)"
    and "lr_failure_class row = map_option FailureClass_code (MirrorResult_failure_class r)"
    and "lr_operation row = operation_name operation"
  shows "run_well_typed row"
proof -
  have op: "lr_operation row \<in> {''clone'', ''fetch''}" using assms(3) by (cases operation) simp_all
  have cp: "checkpoint_name c \<in> {''clone_pending'', ''fetch_pending''}" for c by (cases c) simp_all
  obtain outcome checkpoint n b where
    row: "lr_outcome row = outcome" "lr_checkpoint row = checkpoint" "lr_object_count row = n" "lr_bytes_on_disk row = b"
    by simp
  have "result_fields r = Inr (outcome, checkpoint, n, b)" using assms(1) row by simp
  then show ?thesis
    using assms(2) op cp failure_code_bounded
    by (cases r) (auto simp: run_well_typed_def mirror_run_checks_def row simp del: FailureClass_code.simps)
qed

lemma update_mirror_wf:
  assumes "wf_mirrors db" and "\<And>m. mr_target (f m) = mr_target m"
    and "\<And>m. mirror_well_typed m \<Longrightarrow> mirror_well_typed (f m)"
  shows "wf_mirrors (update_mirror target f db)"
proof -
  have "map (mr_target \<circ> (\<lambda>m. if mr_target m = target then f m else m)) (mirrors db) = map mr_target (mirrors db)"
    by (auto simp: assms(2))
  then show ?thesis using assms(1,3) by (auto simp del: map_eq_conv simp: wf_mirrors_def update_mirror_def list_all_iff)
qed

lemma mirror_step_keeps:
  assumes "mirror_step env db db'" and "wf_mirrors db"
  shows "wf_mirrors db'"
  using assms(1)
proof cases
  case (ensure target path)
  then show ?thesis using assms(2)
    by (auto simp: ensure_mirror_def wf_mirrors_def advance_def mirror_well_typed_def list_ex_iff split: if_splits)
next
  case (verified now target bytes)
  then obtain n where "0 \<le> n" "db' = update_mirror target (\<lambda>m. m\<lparr>mr_status := ''ready'', mr_fsck_result := ''ok'',
      mr_bytes_on_disk := n, mr_last_fetch_at := Some now\<rparr>) db"
    by (auto simp: record_verified_mirror_def)
  moreover from this have "wf_mirrors (update_mirror target (\<lambda>m. m\<lparr>mr_status := ''ready'', mr_fsck_result := ''ok'',
      mr_bytes_on_disk := n, mr_last_fetch_at := Some now\<rparr>) db)"
    by (intro update_mirror_wf [OF assms(2)]) (simp_all add: mirror_well_typed_def)
  ultimately show ?thesis by simp
next
  case (degraded target)
  then show ?thesis
    unfolding mark_mirror_degraded_def by (auto intro!: update_mirror_wf [OF assms(2)] simp: mirror_well_typed_def)
next
  case (admit now target run req per glob outcome)
  then show ?thesis
    by (cases rule: reserve_mirror_quota_shape) (use assms(2) in \<open>simp_all add: wf_mirrors_def\<close>)
next
  case (finish now target run operation r)
  then show ?thesis
  proof (rule record_mirror_run_shape)
    fix row
    assume row: "result_fields r = Inr (lr_outcome row, lr_checkpoint row, lr_object_count row, lr_bytes_on_disk row)"
      "lr_failure_class row = map_option FailureClass_code (MirrorResult_failure_class r)"
      "lr_operation row = operation_name operation" "lr_id row = run" "run \<notin> set (map lr_id (mirror_runs db))"
      "db' = db\<lparr>mirror_runs := mirror_runs db @ [row], reservations := filter (\<lambda>q. qr_run q \<noteq> run) (reservations db)\<rparr>"
    show ?thesis using assms(2) row(4-6) result_row_well_typed [OF row(1-3)]
      by (auto simp: wf_mirrors_def distinct_map_filter list_all_iff)
  qed
next
  case other
  then show ?thesis using assms(2) by (simp add: wf_mirrors_def)
qed

text \<open>
  C21. The mirror tables stay well typed through every sequence of transactions: one row per mirror and per
  run, positive reservations, storage paths of the layout, a failure class exactly on a run that did not
  succeed and always one of the taxonomy, a checkpoint exactly on an interrupted run, counts exactly on a
  successful one, and a mirror is \<open>ready\<close> exactly when its last integrity check was \<open>ok\<close>.
\<close>

theorem mirror_tables_well_typed:
  assumes "(mirror_step env)\<^sup>*\<^sup>* empty_db db"
  shows "wf_mirrors db"
  using assms
proof (induction rule: rtranclp_induct)
  case base
  show ?case by (simp add: wf_mirrors_def empty_db_def)
qed (rule mirror_step_keeps)

text \<open>No check of the table refuses a terminal record: the refusals are named here in full.\<close>

lemma record_mirror_run_accepts:
  "is_ok (record_mirror_run now db target run operation r) \<longleftrightarrow>
     (case r of Succeeded n b \<Rightarrow> uint n \<le> I64_MAX \<and> uint b \<le> I64_MAX | _ \<Rightarrow> True)
     \<and> run \<notin> set (map lr_id (mirror_runs db)) \<and> find_target db target \<noteq> None"
proof (cases "result_fields r")
  case (Inl e)
  then show ?thesis by (cases r) (auto simp: record_mirror_run_def mirror_checked_i64_def i64_try_from_def I64_MAX_def split: if_splits option.splits)
next
  case (Inr f)
  obtain outcome cp n b where f: "f = (outcome, cp, n, b)" by (cases f)
  let ?row = "\<lparr> lr_id = run, lr_target = target, lr_operation = operation_name operation, lr_outcome = outcome,
    lr_failure_class = map_option FailureClass_code (MirrorResult_failure_class r),
    lr_checkpoint = cp, lr_object_count = n, lr_bytes_on_disk = b, lr_created_at = now \<rparr>"
  have "mirror_run_checks ?row"
    using result_row_well_typed [of r ?row operation] Inr f by (simp add: run_well_typed_def)
  moreover have "(case r of Succeeded n b \<Rightarrow> uint n \<le> I64_MAX \<and> uint b \<le> I64_MAX | _ \<Rightarrow> True)"
    using Inr by (cases r) auto
  ultimately show ?thesis using Inr f by (auto simp: record_mirror_run_def list_ex_iff)
qed


text \<open>The mirror's transactions are steps of the store: the deletion journal never notices them.\<close>

lemma mirror_store_steps:
  "ensure_mirror env db target path = Inr db' \<Longrightarrow> store_step env db db'"
  "record_verified_mirror now db target bytes = Inr db' \<Longrightarrow> store_step env db db'"
  "reserve_mirror_quota now db target run req per glob = Inr (outcome, db') \<Longrightarrow> store_step env db db'"
  "record_mirror_run now db target run operation r = Inr db' \<Longrightarrow> store_step env db db'"
proof -
  show "store_step env db db'" if "ensure_mirror env db target path = Inr db'"
    by (rule store_step_evidence; use that in \<open>auto simp: ensure_mirror_def advance_def split: if_splits\<close>)
  show "store_step env db db'" if "record_verified_mirror now db target bytes = Inr db'"
    by (rule store_step_evidence; use that in \<open>auto simp: record_verified_mirror_def update_mirror_def\<close>)
  show "store_step env db db'" if "reserve_mirror_quota now db target run req per glob = Inr (outcome, db')"
    using that by (cases rule: reserve_mirror_quota_shape) (rule store_step_evidence; simp)+
  show "store_step env db db'" if "record_mirror_run now db target run operation r = Inr db'"
    using that by (rule record_mirror_run_shape) (rule store_step_evidence; simp)
qed

subsection \<open>A mirror in use\<close>

definition example_mirror_path :: string where
  "example_mirror_path = ''mirrors/ab/01234567-89ab-cdef-0123-456789abcdef.git''"

definition example_mirrored :: vault_db where
  "example_mirrored = (case ensure_mirror example_env example_db 1 example_mirror_path of Inr db \<Rightarrow> db | Inl _ \<Rightarrow> empty_db)"

definition example_admitted :: vault_db where
  "example_admitted =
     (case reserve_mirror_quota 2000 example_mirrored 1 80 60 100 150 of Inr (_, db) \<Rightarrow> db | Inl _ \<Rightarrow> empty_db)"

definition example_refused :: "QuotaReservationOutcome option" where
  "example_refused =
     (case reserve_mirror_quota 2500 example_admitted 1 81 60 100 150 of Inr (outcome, _) \<Rightarrow> Some outcome | Inl _ \<Rightarrow> None)"

definition example_finished :: vault_db where
  "example_finished =
     (case record_mirror_run 3000 example_admitted 1 80 InitialClone (Succeeded 7 40) of Inr db \<Rightarrow> db | Inl _ \<Rightarrow> empty_db)"

definition example_verified :: vault_db where
  "example_verified = (case record_verified_mirror 3500 example_finished 1 40 of Inr db \<Rightarrow> db | Inl _ \<Rightarrow> empty_db)"

lemma example_mirrored_ok: "ensure_mirror example_env example_db 1 example_mirror_path = Inr example_mirrored"
  by code_simp

lemma example_admitted_ok: "reserve_mirror_quota 2000 example_mirrored 1 80 60 100 150 = Inr (Reserved, example_admitted)"
  by code_simp

theorem quota_never_exceeded_witness:
  "target_reserved example_admitted 1 \<le> uint (100 :: u64) \<and> global_reserved example_admitted \<le> uint (150 :: u64)
   \<and> global_reserved example_admitted = 60 \<and> example_refused = Some QuotaReservationExceeded"
proof -
  have "quota_step 100 150 empty_db example_mirrored" by (rule quota_step.other) code_simp
  moreover have "quota_step 100 150 example_mirrored example_admitted"
    by (rule quota_step.admit [OF example_admitted_ok])
  ultimately have "(quota_step 100 150)\<^sup>*\<^sup>* empty_db example_admitted" by (rule converse_rtranclp_into_rtranclp [OF _ r_into_rtranclp])
  then have "target_reserved example_admitted 1 \<le> uint (100 :: u64) \<and> global_reserved example_admitted \<le> uint (150 :: u64)"
    by (rule quota_never_exceeded) (simp_all add: I64_MAX_def)
  moreover have "global_reserved example_admitted = 60 \<and> example_refused = Some QuotaReservationExceeded" by code_simp
  ultimately show ?thesis by simp
qed

lemma example_finished_ok:
  "record_mirror_run 3000 example_admitted 1 80 InitialClone (Succeeded 7 40) = Inr example_finished"
  by code_simp

lemma example_verified_ok: "record_verified_mirror 3500 example_finished 1 40 = Inr example_verified"
  by code_simp

theorem mirror_tables_well_typed_witness:
  "wf_mirrors example_verified \<and> map mr_status (mirrors example_verified) = [''ready''] \<and> reservations example_verified = []"
proof -
  have "mirror_step example_env empty_db example_db" by (rule mirror_step.other; code_simp)
  moreover note mirror_step.ensure [OF example_mirrored_ok] mirror_step.admit [OF example_admitted_ok]
    mirror_step.finish [OF example_finished_ok] mirror_step.verified [OF example_verified_ok]
  ultimately have "(mirror_step example_env)\<^sup>*\<^sup>* empty_db example_verified"
    by (meson rtranclp.rtrancl_refl rtranclp.rtrancl_into_rtrancl)
  then have "wf_mirrors example_verified" by (rule mirror_tables_well_typed)
  then show ?thesis by (simp, code_simp)
qed

end
