(* ===== verification/Snapshot_Store.thy ===== *)
theory Snapshot_Store
  imports Mirror_Store Replication_Store
begin

text \<open>
  The durable side of snapshots and collectors (\<open>crates/persistence/src/snapshot.rs\<close>,
  \<open>lfs_collection.rs\<close>, \<open>wiki.rs\<close> with the tables they fill): the parent of the next snapshot, the record
  of a built snapshot with its artifacts and its manifest, and the terminal records of the LFS and wiki
  collectors. A transaction that fails leaves the database as it was. SHA-256 is a parameter.
\<close>

subsection \<open>Values at the boundary\<close>

record SnapshotSource =
  src_target_id :: uuid
  src_mirror_id :: uuid
  src_run_id :: uuid

record SnapshotParent =
  par_snapshot_id :: uuid
  par_manifest :: BlobRef

definition snapshot_decode_digest :: "string \<Rightarrow> (VaultError, u8 list) result" where
  "snapshot_decode_digest hex =
     (if length hex \<noteq> 64 \<or> \<not> list_all (\<lambda>b. CHR ''a'' \<le> b \<and> b \<le> CHR ''z'' \<or> is_ascii_digit b) hex
      then Inl (InvalidDelivery ''snapshot_digest'')
      else case decode_pairs hex of None \<Rightarrow> Inl (InvalidDelivery ''snapshot_digest'') | Some bytes \<Rightarrow> Inr bytes)"

definition checked_size :: "u64 \<Rightarrow> (VaultError, int) result" where
  "checked_size bytes =
     (case i64_try_from bytes of
        None \<Rightarrow> Inl StorageFailed
      | Some converted \<Rightarrow> if converted > 0 then Inr converted else Inl (InvalidDelivery ''snapshot_blob_ref''))"

definition validate_blob_ref :: "BlobRef \<Rightarrow> (VaultError, unit) result" where
  "validate_blob_ref reference =
     (if owner reference \<noteq> ''ratatoskr-vault'' \<or> media_type reference = ''''
      then Inl (InvalidDelivery ''snapshot_blob_ref'')
      else result_bind (snapshot_decode_digest (sha256 reference)) (\<lambda>_.
           result_bind (checked_size (size_bytes reference)) (\<lambda>_. Inr ())))"

text \<open>\<open>iter().sum::<u64>()\<close> of a release build wraps.\<close>

definition evidence_consistent :: "(string \<Rightarrow> string) \<Rightarrow> LfsEvidence \<Rightarrow> bool" where
  "evidence_consistent sha256_hex evidence \<longleftrightarrow>
     aggregate_sha256 evidence = canonical_lfs_digest sha256_hex (objects evidence)
     \<and> total_bytes evidence = sum_list (map (\<lambda>obj. size_bytes (blob obj)) (objects evidence))"

definition validate_lfs_evidence :: "(string \<Rightarrow> string) \<Rightarrow> LfsEvidence option \<Rightarrow> (VaultError, unit) result" where
  "validate_lfs_evidence sha256_hex collected =
     (if (case collected of None \<Rightarrow> False | Some evidence \<Rightarrow> \<not> evidence_consistent sha256_hex evidence)
      then Inl (InvalidDelivery ''snapshot_lfs_object'') else Inr ())"

subsection \<open>The source and the parent of a snapshot\<close>

definition ensure_healthy_source :: "vault_db \<Rightarrow> SnapshotSource \<Rightarrow> (VaultError, unit) result" where
  "ensure_healthy_source db src =
     (if list_ex (\<lambda>m. mr_id m = src_mirror_id src \<and> mr_target m = src_target_id src
            \<and> mr_status m = ''ready'' \<and> mr_fsck_result m = ''ok''
            \<and> list_ex (\<lambda>run. lr_target run = mr_target m \<and> lr_id run = src_run_id src
                   \<and> lr_outcome run = ''succeeded'') (mirror_runs db)) (mirrors db)
      then Inr () else Inl (InvalidDelivery ''snapshot_source''))"

definition ensure_parent :: "vault_db \<Rightarrow> SnapshotSource \<Rightarrow> uuid option \<Rightarrow> (VaultError, unit) result" where
  "ensure_parent db src parent =
     (case parent of
        None \<Rightarrow> Inr ()
      | Some p \<Rightarrow>
          if list_ex (\<lambda>s. sn_id s = p \<and> sn_target s = src_target_id src \<and> sn_mirror s = src_mirror_id src) (snapshots db)
          then Inr () else Inl (InvalidDelivery ''parent_snapshot_id''))"

text \<open>\<open>order by created_at desc, snapshot_id desc limit 1\<close>.\<close>

definition newest_first :: "SnapshotRow \<Rightarrow> int \<times> int" where
  "newest_first s = (- sn_created_at s, - uint (sn_id s))"

definition snapshot_parent :: "vault_db \<Rightarrow> SnapshotSource \<Rightarrow> (VaultError, SnapshotParent option) result" where
  "snapshot_parent db src =
     result_bind (ensure_healthy_source db src) (\<lambda>_.
       case sort_key (\<lambda>(s, mf). newest_first s)
              (concat (map (\<lambda>s. map (Pair s) (filter (\<lambda>mf. mf_snapshot mf = sn_id s) (manifests db)))
                 (filter (\<lambda>s. sn_target s = src_target_id src \<and> sn_mirror s = src_mirror_id src) (snapshots db)))) of
         [] \<Rightarrow> Inr None
       | (s, mf) # _ \<Rightarrow>
           result_bind (encode_digest (mf_hash mf)) (\<lambda>digest.
           result_bind (checked_u64 (mf_size_bytes mf)) (\<lambda>bytes.
             Inr (Some \<lparr> par_snapshot_id = sn_id s,
                         par_manifest = \<lparr> owner = mf_owner mf, sha256 = digest, media_type = mf_media_type mf,
                                          size_bytes = bytes \<rparr> \<rparr>))))"

subsection \<open>The record of a built snapshot\<close>

definition artifact_checks :: "ArtifactRow \<Rightarrow> bool" where
  "artifact_checks ar \<longleftrightarrow>
     ar_kind ar \<in> {''git_bundle'', ''manifest'', ''lfs_object''} \<and> length (ar_sha256 ar) = 32
     \<and> ar_owner ar = ''ratatoskr-vault'' \<and> 1 \<le> char_length (ar_media_type ar)
     \<and> int (char_length (ar_media_type ar)) \<le> 255 \<and> 0 < ar_size_bytes ar"

definition local_digest_claimed :: "vault_db \<Rightarrow> timestamp \<Rightarrow> u8 list \<Rightarrow> bool" where
  "local_digest_claimed db clock digest =
     list_ex (\<lambda>cl. cl_identity_kind cl = ''local_digest'' \<and> cl_identity_key cl = encode_hex digest
         \<and> cl_outcome cl = ''running'' \<and> clock < cl_lease_expires_at cl) (claims db)"

definition insert_artifact ::
  "store_env \<Rightarrow> timestamp \<Rightarrow> vault_db \<Rightarrow> uuid \<Rightarrow> string \<Rightarrow> BlobRef \<Rightarrow> u8 list \<Rightarrow> int
     \<Rightarrow> (VaultError, uuid \<times> vault_db) result" where
  "insert_artifact env clock db snap kind reference digest bytes =
     (let row = \<lparr> ar_id = now_v7 env db, ar_snapshot = snap, ar_kind = kind, ar_sha256 = digest,
                  ar_owner = owner reference, ar_media_type = media_type reference, ar_size_bytes = bytes \<rparr>
      in if local_digest_claimed db clock digest \<or> \<not> artifact_checks row then Inl StorageFailed
         else Inr (ar_id row, advance (db\<lparr>artifacts := artifacts db @ [row]\<rparr>)))"

definition insert_lfs_artifact ::
  "store_env \<Rightarrow> timestamp \<Rightarrow> uuid \<Rightarrow> LfsObjectEvidence \<Rightarrow> vault_db \<Rightarrow> (VaultError, vault_db) result" where
  "insert_lfs_artifact env clock snap obj db =
     result_bind (validate_blob_ref (blob obj)) (\<lambda>_.
       if oid obj \<noteq> sha256 (blob obj) \<or> media_type (blob obj) \<noteq> ''application/octet-stream''
       then Inl (InvalidDelivery ''snapshot_lfs_object'')
       else
         result_bind (snapshot_decode_digest (sha256 (blob obj))) (\<lambda>digest.
         result_bind (checked_size (size_bytes (blob obj))) (\<lambda>bytes.
         result_bind (insert_artifact env clock db snap ''lfs_object'' (blob obj) digest bytes) (\<lambda>(artifact, db1).
           if list_ex (\<lambda>lo. lo_snapshot lo = snap \<and> lo_oid lo = oid obj) (lfs_objects db1) then Inl StorageFailed
           else Inr (db1\<lparr>lfs_objects := lfs_objects db1 @
                  [\<lparr> lo_snapshot = snap, lo_artifact = artifact, lo_oid = oid obj, lo_sha256 = digest,
                     lo_size_bytes = bytes \<rparr>]\<rparr>)))))"

fun insert_lfs_artifacts ::
  "store_env \<Rightarrow> (nat \<Rightarrow> timestamp) \<Rightarrow> uuid \<Rightarrow> LfsObjectEvidence list \<Rightarrow> vault_db \<Rightarrow> (VaultError, vault_db) result" where
  "insert_lfs_artifacts env clocks snap [] db = Inr db"
| "insert_lfs_artifacts env clocks snap (obj # rest) db =
     result_bind (insert_lfs_artifact env (clocks 0) snap obj db) (\<lambda>db1.
       insert_lfs_artifacts env (\<lambda>k. clocks (Suc k)) snap rest db1)"

definition snapshot_row ::
  "uuid \<Rightarrow> timestamp \<Rightarrow> SnapshotSource \<Rightarrow> uuid option \<Rightarrow> u8 list \<Rightarrow> bool \<Rightarrow> SnapshotRow" where
  "snapshot_row ident now src parent refs_digest with_lfs =
     \<lparr> sn_id = ident, sn_target = src_target_id src, sn_mirror = src_mirror_id src, sn_run = src_run_id src,
       sn_parent = parent, sn_status = ''built'', sn_refs_hash = refs_digest, sn_includes_lfs = with_lfs,
       sn_created_at = now \<rparr>"

definition insert_manifest ::
  "store_env \<Rightarrow> uuid \<Rightarrow> BlobRef \<Rightarrow> u8 list \<Rightarrow> int \<Rightarrow> vault_db \<Rightarrow> (VaultError, vault_db) result" where
  "insert_manifest env snap manifest digest bytes db =
     (if list_ex (\<lambda>mf. mf_snapshot mf = snap) (manifests db) then Inl StorageFailed
      else Inr (advance (db\<lparr>manifests := manifests db @
             [\<lparr> mf_id = now_v7 env db, mf_snapshot = snap, mf_hash = digest, mf_owner = owner manifest,
                mf_media_type = media_type manifest, mf_size_bytes = bytes \<rparr>]\<rparr>)))"

text \<open>\<open>clocks k\<close> is the reading of \<open>clock_timestamp()\<close> at the \<open>k\<close>-th artifact of the transaction.\<close>

definition record_built_snapshot ::
  "store_env \<Rightarrow> (string \<Rightarrow> string) \<Rightarrow> timestamp \<Rightarrow> (nat \<Rightarrow> timestamp) \<Rightarrow> vault_db \<Rightarrow> SnapshotSource \<Rightarrow> uuid option
     \<Rightarrow> BlobRef \<Rightarrow> BlobRef \<Rightarrow> string \<Rightarrow> LfsEvidence option \<Rightarrow> (VaultError, uuid \<times> vault_db) result" where
  "record_built_snapshot env sha256_hex now clocks db src parent bundle manifest refs_hash collected =
     result_bind (snapshot_decode_digest (sha256 bundle)) (\<lambda>bundle_digest.
     result_bind (snapshot_decode_digest (sha256 manifest)) (\<lambda>manifest_digest.
     result_bind (snapshot_decode_digest refs_hash) (\<lambda>refs_digest.
     result_bind (validate_blob_ref bundle) (\<lambda>_.
     result_bind (validate_blob_ref manifest) (\<lambda>_.
       if media_type bundle \<noteq> ''application/vnd.git.bundle'' \<or> media_type manifest \<noteq> ''application/json''
       then Inl (InvalidDelivery ''snapshot_blob_ref'')
       else
         result_bind (validate_lfs_evidence sha256_hex collected) (\<lambda>_.
         result_bind (checked_size (size_bytes bundle)) (\<lambda>bundle_size.
         result_bind (checked_size (size_bytes manifest)) (\<lambda>manifest_size.
         result_bind (ensure_healthy_source db src) (\<lambda>_.
         result_bind (ensure_parent db src parent) (\<lambda>_.
           let snap = now_v7 env db;
               db1 = advance (db\<lparr>snapshots := snapshots db
                       @ [snapshot_row snap now src parent refs_digest (collected \<noteq> None)]\<rparr>)
           in result_bind (insert_artifact env (clocks 0) db1 snap ''git_bundle'' bundle bundle_digest bundle_size) (\<lambda>(_, db2).
              result_bind (insert_artifact env (clocks 1) db2 snap ''manifest'' manifest manifest_digest manifest_size) (\<lambda>(_, db3).
              result_bind (insert_lfs_artifacts env (\<lambda>k. clocks (k + 2)) snap
                             (case collected of None \<Rightarrow> [] | Some evidence \<Rightarrow> objects evidence) db3) (\<lambda>db4.
              result_bind (insert_manifest env snap manifest manifest_digest manifest_size db4) (\<lambda>db5.
                Inr (snap, db5)))))))))))))))"


subsection \<open>Collector records\<close>

datatype LfsCollectionTerminal = LfsComplete LfsEvidence | LfsFailed string

definition lfs_decode_digest :: "string \<Rightarrow> (VaultError, u8 list) result" where
  "lfs_decode_digest hex =
     (if length hex \<noteq> 64 \<or> \<not> list_all is_lowercase_hex hex then Inl (InvalidDelivery ''lfs_collection_evidence'')
      else case decode_pairs hex of None \<Rightarrow> Inl (InvalidDelivery ''lfs_collection_evidence'') | Some bytes \<Rightarrow> Inr bytes)"

definition lfs_i64 :: "u64 \<Rightarrow> (VaultError, int) result" where
  "lfs_i64 v = (case i64_try_from v of Some n \<Rightarrow> Inr n | None \<Rightarrow> Inl (InvalidDelivery ''lfs_collection_evidence''))"

text \<open>The checks of \<open>collector_runs\<close>.\<close>

definition collector_run_checks :: "CollectorRunRow \<Rightarrow> bool" where
  "collector_run_checks row \<longleftrightarrow>
     cr_collector row \<in> {''git_lfs'', ''wiki''} \<and> cr_outcome row \<in> {''complete'', ''absent'', ''incomplete'', ''failed''}
     \<and> 0 \<le> cr_object_count row \<and> 0 \<le> cr_total_bytes row
     \<and> (case cr_aggregate_hash row of None \<Rightarrow> True | Some h \<Rightarrow> length h = 32)
     \<and> (cr_outcome row = ''complete'' \<and> cr_failure_class row = None
        \<or> cr_outcome row = ''absent'' \<and> cr_collector row = ''wiki'' \<and> cr_failure_class row = None
          \<and> cr_child_target row = None
        \<or> cr_outcome row \<in> {''incomplete'', ''failed''} \<and> cr_failure_class row \<noteq> None)
     \<and> (cr_collector row \<noteq> ''git_lfs'' \<or> cr_mirror_run row \<noteq> None \<and> cr_child_target row = None
          \<and> cr_tool_version row \<noteq> None \<and> (cr_outcome row \<noteq> ''complete'' \<or> cr_aggregate_hash row \<noteq> None))
     \<and> (cr_collector row \<noteq> ''wiki'' \<or> cr_mirror_run row = None \<and> cr_tool_version row = None
          \<and> cr_object_count row = 0 \<and> cr_total_bytes row = 0 \<and> cr_aggregate_hash row = None)"

definition insert_collector_run :: "CollectorRunRow \<Rightarrow> vault_db \<Rightarrow> (VaultError, vault_db) result" where
  "insert_collector_run row db =
     (if \<not> collector_run_checks row \<or> find_target db (cr_target row) = None
         \<or> (case cr_mirror_run row of None \<Rightarrow> False | Some run \<Rightarrow> \<not> list_ex (\<lambda>lr. lr_id lr = run) (mirror_runs db))
      then Inl StorageFailed
      else Inr (advance (db\<lparr>collector_runs := collector_runs db @ [row]\<rparr>)))"

text \<open>The fields of a terminal result: outcome, tool version, counts, aggregate digest, failure class.\<close>

definition lfs_terminal_fields ::
  "(string \<Rightarrow> string) \<Rightarrow> LfsCollectionTerminal
     \<Rightarrow> (VaultError, string \<times> string option \<times> int \<times> int \<times> u8 list option \<times> string option) result" where
  "lfs_terminal_fields sha256_hex terminal =
     (case terminal of
        LfsComplete evidence \<Rightarrow>
          if \<not> evidence_consistent sha256_hex evidence then Inl (InvalidDelivery ''lfs_collection_evidence'')
          else
            result_bind (lfs_i64 (word_of_nat (length (objects evidence)))) (\<lambda>n.
            result_bind (lfs_i64 (total_bytes evidence)) (\<lambda>b.
            result_bind (lfs_decode_digest (aggregate_sha256 evidence)) (\<lambda>digest.
              Inr (''complete'', Some (tool_version evidence), n, b, Some digest, None))))
      | LfsFailed failure \<Rightarrow>
          if failure = '''' \<or> length failure > 64 then Inl (InvalidDelivery ''lfs_failure_class'')
          else Inr (''failed'', Some ''unknown'', 0, 0, None, Some failure))"

definition record_lfs_collection ::
  "store_env \<Rightarrow> (string \<Rightarrow> string) \<Rightarrow> timestamp \<Rightarrow> vault_db \<Rightarrow> uuid \<Rightarrow> uuid \<Rightarrow> LfsCollectionTerminal
     \<Rightarrow> (VaultError, uuid \<times> vault_db) result" where
  "record_lfs_collection env sha256_hex now db target run terminal =
     result_bind (lfs_terminal_fields sha256_hex terminal) (\<lambda>(outcome, version, n, b, digest, failure).
       let row = \<lparr> cr_id = now_v7 env db, cr_target = target, cr_collector = ''git_lfs'', cr_outcome = outcome,
                   cr_mirror_run = Some run, cr_child_target = None, cr_tool_version = version, cr_object_count = n,
                   cr_total_bytes = b, cr_aggregate_hash = digest, cr_failure_class = failure, cr_ran_at = now \<rparr>
       in result_bind (insert_collector_run row db) (\<lambda>db1. Inr (cr_id row, db1)))"

datatype WikiDiscovery = WikiPresent | WikiAbsent | WikiFailed string

record WikiDiscoveryRecord =
  wd_collector_run_id :: uuid
  wd_child_target_id :: "uuid option"

text \<open>\<open>on conflict (parent_target_id) where target_kind = 'wiki' do update ... returning target_id\<close>.\<close>

definition enroll_wiki :: "store_env \<Rightarrow> vault_db \<Rightarrow> TargetRow \<Rightarrow> uuid \<times> vault_db" where
  "enroll_wiki env db parent =
     (case find (\<lambda>t. t_kind t = ''wiki'' \<and> t_parent t = Some (t_id parent)) (targets db) of
        Some child \<Rightarrow> (t_id child, advance db)
      | None \<Rightarrow>
          (now_v7 env db, advance (db\<lparr>targets := targets db @
             [\<lparr> t_id = now_v7 env db, t_provider = t_provider parent, t_external = t_external parent,
                t_kind = ''wiki'', t_parent = Some (t_id parent), t_status = ''requested'', t_pinned = False \<rparr>]\<rparr>)))"

definition project_wiki_revision :: "vault_db \<Rightarrow> uuid \<Rightarrow> uuid \<Rightarrow> (VaultError, vault_db) result" where
  "project_wiki_revision db parent child =
     (case governing_policy db parent of
        None \<Rightarrow> Inr (advance db)
      | Some r \<Rightarrow>
          insert_revision db (r\<lparr>r_target := child, r_level := ''git_mirror'', r_wiki := False, r_releases := False,
                                r_issues := False, r_source := None\<rparr>))"

definition wiki_outcome :: "WikiDiscovery \<Rightarrow> string \<times> string option" where
  "wiki_outcome discovery =
     (case discovery of WikiPresent \<Rightarrow> (''complete'', None) | WikiAbsent \<Rightarrow> (''absent'', None)
      | WikiFailed failure \<Rightarrow> (''failed'', Some failure))"

definition record_wiki_discovery ::
  "store_env \<Rightarrow> timestamp \<Rightarrow> vault_db \<Rightarrow> uuid \<Rightarrow> WikiDiscovery \<Rightarrow> (VaultError, WikiDiscoveryRecord \<times> vault_db) result" where
  "record_wiki_discovery env now db parent discovery =
     (if (case discovery of WikiFailed failure \<Rightarrow> failure = '''' \<or> length failure > 64 | _ \<Rightarrow> False)
      then Inl (InvalidDelivery ''wiki_failure_class'')
      else case find (\<lambda>t. t_id t = parent \<and> t_kind t = ''repository'') (targets db) of
             None \<Rightarrow> Inl (InvalidDelivery ''parent_target_id'')
           | Some row \<Rightarrow>
               result_bind
                 (if discovery = WikiPresent
                  then let (child, db1) = enroll_wiki env db row
                       in result_bind (project_wiki_revision db1 parent child) (\<lambda>db2. Inr (Some child, db2))
                  else Inr (None, db)) (\<lambda>(child, db2).
               let (outcome, failure) = wiki_outcome discovery;
                   run = \<lparr> cr_id = now_v7 env db2, cr_target = parent, cr_collector = ''wiki'', cr_outcome = outcome,
                           cr_mirror_run = None, cr_child_target = child, cr_tool_version = None, cr_object_count = 0,
                           cr_total_bytes = 0, cr_aggregate_hash = None, cr_failure_class = failure, cr_ran_at = now \<rparr>
               in result_bind (insert_collector_run run db2) (\<lambda>db3.
                    Inr (\<lparr> wd_collector_run_id = cr_id run, wd_child_target_id = child \<rparr>, db3))))"


subsection \<open>What a recorded snapshot looks like\<close>

lemma snapshot_decode_digest_ok:
  "snapshot_decode_digest hex = Inr bytes \<Longrightarrow> encode_hex bytes = hex \<and> length bytes = 32"
proof -
  assume "snapshot_decode_digest hex = Inr bytes"
  then have "length hex = 64" "decode_pairs hex = Some bytes"
    by (auto simp: snapshot_decode_digest_def split: if_splits option.splits)
  moreover from this have "encode_hex bytes = hex" by (intro encode_decode_pairs) simp_all
  ultimately show ?thesis using length_encode_hex [of bytes] by simp
qed

lemma checked_size_ok [simp]: "checked_size v = Inr n \<longleftrightarrow> 0 < uint v \<and> uint v \<le> I64_MAX \<and> n = uint v"
  by (auto simp: checked_size_def i64_try_from_def I64_MAX_def split: if_splits)

text \<open>An artifact row that stands for a reference: same digest, owner, media type and size.\<close>

definition artifact_of :: "uuid \<Rightarrow> string \<times> BlobRef \<Rightarrow> ArtifactRow \<Rightarrow> bool" where
  "artifact_of snap named ar \<longleftrightarrow>
     ar_snapshot ar = snap \<and> ar_kind ar = fst named \<and> encode_hex (ar_sha256 ar) = sha256 (snd named)
     \<and> ar_owner ar = owner (snd named) \<and> ar_media_type ar = media_type (snd named)
     \<and> ar_size_bytes ar = uint (size_bytes (snd named)) \<and> artifact_checks ar"

definition lfs_row_of :: "uuid \<Rightarrow> LfsObjectEvidence \<Rightarrow> ArtifactRow \<Rightarrow> LfsObjectRow \<Rightarrow> bool" where
  "lfs_row_of snap obj ar lo \<longleftrightarrow>
     lo_snapshot lo = snap \<and> lo_artifact lo = ar_id ar \<and> lo_oid lo = oid obj \<and> lo_sha256 lo = ar_sha256 ar
     \<and> lo_size_bytes lo = ar_size_bytes ar"

lemma insert_artifact_shape:
  assumes "insert_artifact env clock db snap kind r digest bytes = Inr (i, db')"
  obtains ar where "ar_id ar = i" "ar_snapshot ar = snap" "ar_kind ar = kind" "ar_sha256 ar = digest"
    "ar_owner ar = owner r" "ar_media_type ar = media_type r" "ar_size_bytes ar = bytes" "artifact_checks ar"
    "\<not> local_digest_claimed db clock digest" "db' = advance (db\<lparr>artifacts := artifacts db @ [ar]\<rparr>)"
proof -
  let ?ar = "\<lparr> ar_id = now_v7 env db, ar_snapshot = snap, ar_kind = kind, ar_sha256 = digest,
    ar_owner = owner r, ar_media_type = media_type r, ar_size_bytes = bytes \<rparr>"
  have "i = now_v7 env db \<and> artifact_checks ?ar \<and> \<not> local_digest_claimed db clock digest
      \<and> db' = advance (db\<lparr>artifacts := artifacts db @ [?ar]\<rparr>)"
    using assms by (auto simp: insert_artifact_def Let_def split: if_splits)
  then show thesis by (intro that [of ?ar]) simp_all
qed

lemma insert_named_artifact:
  assumes "insert_artifact env clock db snap kind r digest (uint (size_bytes r)) = Inr (i, db')"
    and "snapshot_decode_digest (sha256 r) = Inr digest"
  shows "\<exists>ar. ar_id ar = i \<and> ar_sha256 ar = digest \<and> artifact_of snap (kind, r) ar
    \<and> \<not> local_digest_claimed db clock (ar_sha256 ar) \<and> db' = advance (db\<lparr>artifacts := artifacts db @ [ar]\<rparr>)"
  by (rule insert_artifact_shape [OF assms(1)])
    (use snapshot_decode_digest_ok [OF assms(2)] in \<open>auto simp: artifact_of_def\<close>)

lemma insert_lfs_artifact_shape:
  assumes "insert_lfs_artifact env clock snap obj db = Inr db'"
  obtains ar lo where "artifact_of snap (''lfs_object'', blob obj) ar" "lfs_row_of snap obj ar lo"
    "\<not> local_digest_claimed db clock (ar_sha256 ar)"
    "db' = advance (db\<lparr>artifacts := artifacts db @ [ar]\<rparr>)\<lparr>lfs_objects := lfs_objects db @ [lo]\<rparr>"
proof -
  from assms obtain digest i db1 where
    dec: "snapshot_decode_digest (sha256 (blob obj)) = Inr digest"
    and ins: "insert_artifact env clock db snap ''lfs_object'' (blob obj) digest (uint (size_bytes (blob obj))) = Inr (i, db1)"
    and db': "db' = db1\<lparr>lfs_objects := lfs_objects db1 @
                  [\<lparr> lo_snapshot = snap, lo_artifact = i, lo_oid = oid obj, lo_sha256 = digest,
                     lo_size_bytes = uint (size_bytes (blob obj)) \<rparr>]\<rparr>"
    by (auto simp: insert_lfs_artifact_def split: if_splits)
  from insert_named_artifact [OF ins dec] obtain ar where ar: "ar_id ar = i" "ar_sha256 ar = digest"
    "artifact_of snap (''lfs_object'', blob obj) ar" "\<not> local_digest_claimed db clock (ar_sha256 ar)"
    "db1 = advance (db\<lparr>artifacts := artifacts db @ [ar]\<rparr>)" by blast
  have "lfs_row_of snap obj ar \<lparr> lo_snapshot = snap, lo_artifact = i, lo_oid = oid obj, lo_sha256 = digest,
      lo_size_bytes = uint (size_bytes (blob obj)) \<rparr>"
    using ar(1-3) by (simp add: lfs_row_of_def artifact_of_def)
  then show thesis by (rule that [OF ar(3) _ ar(4)]) (simp add: db' ar(5) advance_def)
qed

lemma local_digest_claimed_frame: "claims db' = claims db \<Longrightarrow> local_digest_claimed db' = local_digest_claimed db"
  by (simp add: fun_eq_iff local_digest_claimed_def)

text \<open>No artifact of the list lies under a deletion that was running when it was inserted.\<close>

fun none_claimed :: "vault_db \<Rightarrow> (nat \<Rightarrow> timestamp) \<Rightarrow> ArtifactRow list \<Rightarrow> bool" where
  "none_claimed db clocks [] = True"
| "none_claimed db clocks (ar # rest) \<longleftrightarrow>
     \<not> local_digest_claimed db (clocks 0) (ar_sha256 ar) \<and> none_claimed db (\<lambda>k. clocks (Suc k)) rest"

lemma none_claimed_frame: "claims db' = claims db \<Longrightarrow> none_claimed db' clocks ars = none_claimed db clocks ars"
proof (induction ars arbitrary: clocks)
  case (Cons ar ars)
  then show ?case using local_digest_claimed_frame [of db' db] by simp
qed simp

text \<open>What one snapshot adds: rows in five tables and fresh identifiers, nothing else.\<close>

definition snapshot_growth :: "vault_db \<Rightarrow> vault_db \<Rightarrow> bool" where
  "snapshot_growth db db' \<longleftrightarrow>
     minted db \<le> minted db' \<and> (\<exists>sns ars los mfs n. db' = db\<lparr>snapshots := snapshots db @ sns,
       artifacts := artifacts db @ ars, lfs_objects := lfs_objects db @ los, manifests := manifests db @ mfs, minted := n\<rparr>)"

lemma insert_lfs_artifacts_shape:
  assumes "insert_lfs_artifacts env clocks snap objs db = Inr db'"
  shows "\<exists>ars los n. minted db \<le> n
    \<and> list_all2 (artifact_of snap) (map (\<lambda>obj. (''lfs_object'', blob obj)) objs) ars
    \<and> list_all2 (\<lambda>(obj, ar) lo. lfs_row_of snap obj ar lo) (zip objs ars) los \<and> none_claimed db clocks ars
    \<and> db' = db\<lparr>artifacts := artifacts db @ ars, lfs_objects := lfs_objects db @ los, minted := n\<rparr>"
  using assms
proof (induction env clocks snap objs db arbitrary: db' rule: insert_lfs_artifacts.induct)
  case (1 env clocks snap db)
  then show ?case by (intro exI [of _ "[]"] exI [of _ "minted db"]) simp
next
  case (2 env clocks snap obj rest db)
  then obtain db1 where first: "insert_lfs_artifact env (clocks 0) snap obj db = Inr db1"
    and second: "insert_lfs_artifacts env (\<lambda>k. clocks (Suc k)) snap rest db1 = Inr db'" by auto
  note rest = "2.IH" [OF second]
  from first obtain ar lo where one: "artifact_of snap (''lfs_object'', blob obj) ar" "lfs_row_of snap obj ar lo"
    "\<not> local_digest_claimed db (clocks 0) (ar_sha256 ar)"
    "db1 = advance (db\<lparr>artifacts := artifacts db @ [ar]\<rparr>)\<lparr>lfs_objects := lfs_objects db @ [lo]\<rparr>"
    by (rule insert_lfs_artifact_shape)
  from rest obtain ars los n where more: "minted db1 \<le> n"
    "list_all2 (artifact_of snap) (map (\<lambda>obj. (''lfs_object'', blob obj)) rest) ars"
    "list_all2 (\<lambda>(obj, ar) lo. lfs_row_of snap obj ar lo) (zip rest ars) los"
    "none_claimed db1 (\<lambda>k. clocks (Suc k)) ars"
    "db' = db1\<lparr>artifacts := artifacts db1 @ ars, lfs_objects := lfs_objects db1 @ los, minted := n\<rparr>" by blast
  have "none_claimed db (\<lambda>k. clocks (Suc k)) ars"
    using more(4) one(4) none_claimed_frame [of db1 db] by (simp add: advance_def)
  then show ?case
    using one more by (intro exI [of _ "ar # ars"] exI [of _ "lo # los"] exI [of _ n]) (simp add: advance_def)
qed


text \<open>The references a snapshot consists of, in the order of their rows.\<close>

definition snapshot_references :: "BlobRef \<Rightarrow> BlobRef \<Rightarrow> LfsEvidence option \<Rightarrow> (string \<times> BlobRef) list" where
  "snapshot_references bundle manifest collected =
     (''git_bundle'', bundle) # (''manifest'', manifest)
       # map (\<lambda>obj. (''lfs_object'', blob obj)) (case collected of None \<Rightarrow> [] | Some e \<Rightarrow> objects e)"

lemma insert_manifest_shape:
  assumes "insert_manifest env snap manifest digest bytes db = Inr db'"
  shows "db' = advance (db\<lparr>manifests := manifests db @
           [\<lparr> mf_id = now_v7 env db, mf_snapshot = snap, mf_hash = digest, mf_owner = owner manifest,
              mf_media_type = media_type manifest, mf_size_bytes = bytes \<rparr>]\<rparr>)"
  using assms by (auto simp: insert_manifest_def split: if_splits)

lemma record_built_snapshot_steps:
  assumes "record_built_snapshot env sha now clocks db src parent bundle manifest refs_hash collected = Inr (snap, db')"
  obtains bundle_digest manifest_digest refs_digest a2 db2 a3 db3 db4 where
    "snap = now_v7 env db" "snapshot_decode_digest (sha256 bundle) = Inr bundle_digest"
    "snapshot_decode_digest (sha256 manifest) = Inr manifest_digest" "snapshot_decode_digest refs_hash = Inr refs_digest"
    "validate_lfs_evidence sha collected = Inr ()" "ensure_healthy_source db src = Inr ()" "ensure_parent db src parent = Inr ()"
    "insert_artifact env (clocks 0) (advance (db\<lparr>snapshots := snapshots db
        @ [snapshot_row snap now src parent refs_digest (collected \<noteq> None)]\<rparr>)) snap ''git_bundle'' bundle bundle_digest
        (uint (size_bytes bundle)) = Inr (a2, db2)"
    "insert_artifact env (clocks 1) db2 snap ''manifest'' manifest manifest_digest (uint (size_bytes manifest)) = Inr (a3, db3)"
    "insert_lfs_artifacts env (\<lambda>k. clocks (k + 2)) snap (case collected of None \<Rightarrow> [] | Some e \<Rightarrow> objects e) db3 = Inr db4"
    "insert_manifest env snap manifest manifest_digest (uint (size_bytes manifest)) db4 = Inr db'"
  using assms by (auto simp: record_built_snapshot_def Let_def split: if_splits prod.splits)

lemma recorded_snapshot_rows:
  assumes "record_built_snapshot env sha now clocks db src parent bundle manifest refs_hash collected = Inr (snap, db')"
  shows "\<exists>refs_digest ars los mf n. snap = now_v7 env db \<and> minted db \<le> n
    \<and> ensure_healthy_source db src = Inr () \<and> ensure_parent db src parent = Inr ()
    \<and> validate_lfs_evidence sha collected = Inr ()
    \<and> encode_hex refs_digest = refs_hash
    \<and> list_all2 (artifact_of snap) (snapshot_references bundle manifest collected) ars
    \<and> list_all2 (\<lambda>(obj, ar) lo. lfs_row_of snap obj ar lo)
        (zip (case collected of None \<Rightarrow> [] | Some e \<Rightarrow> objects e) (drop 2 ars)) los
    \<and> none_claimed db clocks ars
    \<and> mf_snapshot mf = snap \<and> encode_hex (mf_hash mf) = sha256 manifest \<and> mf_size_bytes mf = uint (size_bytes manifest)
    \<and> db' = db\<lparr>snapshots := snapshots db @ [snapshot_row snap now src parent refs_digest (collected \<noteq> None)],
         artifacts := artifacts db @ ars, lfs_objects := lfs_objects db @ los,
         manifests := manifests db @ [mf], minted := n\<rparr>"
  using assms
proof (rule record_built_snapshot_steps)
  fix bundle_digest manifest_digest refs_digest a2 db2 a3 db3 db4
  let ?objs = "case collected of None \<Rightarrow> [] | Some e \<Rightarrow> objects e"
  let ?row = "snapshot_row snap now src parent refs_digest (collected \<noteq> None)"
  let ?db1 = "advance (db\<lparr>snapshots := snapshots db @ [?row]\<rparr>)"
  assume start: "snap = now_v7 env db" "ensure_healthy_source db src = Inr ()" "ensure_parent db src parent = Inr ()"
      "validate_lfs_evidence sha collected = Inr ()"
    and dec: "snapshot_decode_digest (sha256 bundle) = Inr bundle_digest"
      "snapshot_decode_digest (sha256 manifest) = Inr manifest_digest" "snapshot_decode_digest refs_hash = Inr refs_digest"
    and b: "insert_artifact env (clocks 0) ?db1 snap ''git_bundle'' bundle bundle_digest (uint (size_bytes bundle)) = Inr (a2, db2)"
    and m: "insert_artifact env (clocks 1) db2 snap ''manifest'' manifest manifest_digest (uint (size_bytes manifest)) = Inr (a3, db3)"
    and l: "insert_lfs_artifacts env (\<lambda>k. clocks (k + 2)) snap ?objs db3 = Inr db4"
    and mf: "insert_manifest env snap manifest manifest_digest (uint (size_bytes manifest)) db4 = Inr db'"
  from insert_named_artifact [OF b dec(1)] obtain ba where ba: "artifact_of snap (''git_bundle'', bundle) ba"
      "\<not> local_digest_claimed ?db1 (clocks 0) (ar_sha256 ba)" "db2 = advance (?db1\<lparr>artifacts := artifacts ?db1 @ [ba]\<rparr>)" by blast
  from insert_named_artifact [OF m dec(2)] obtain ma where ma: "artifact_of snap (''manifest'', manifest) ma"
      "\<not> local_digest_claimed db2 (clocks 1) (ar_sha256 ma)" "db3 = advance (db2\<lparr>artifacts := artifacts db2 @ [ma]\<rparr>)" by blast
  from insert_lfs_artifacts_shape [OF l] obtain ars los n where more: "minted db3 \<le> n"
      "list_all2 (artifact_of snap) (map (\<lambda>obj. (''lfs_object'', blob obj)) ?objs) ars"
      "list_all2 (\<lambda>(obj, ar) lo. lfs_row_of snap obj ar lo) (zip ?objs ars) los"
      "none_claimed db3 (\<lambda>k. clocks (k + 2)) ars"
      "db4 = db3\<lparr>artifacts := artifacts db3 @ ars, lfs_objects := lfs_objects db3 @ los, minted := n\<rparr>" by blast
  have frame: "claims ?db1 = claims db" "claims db2 = claims db" "claims db3 = claims db"
    by (simp_all add: ma(3) ba(3) advance_def)
  have "none_claimed db clocks (ba # ma # ars)"
    using ba(2) ma(2) more(4) none_claimed_frame [OF frame(3)] local_digest_claimed_frame [OF frame(1)]
      local_digest_claimed_frame [OF frame(2)] by simp
  then show ?thesis
    using start dec(3) snapshot_decode_digest_ok [OF dec(2)] snapshot_decode_digest_ok [OF dec(3)] ba(1) ma(1) more
      insert_manifest_shape [OF mf] ba(3) ma(3)
    by (intro exI [of _ refs_digest] exI [of _ "ba # ma # ars"] exI [of _ los] exI [of _ "Suc n"]
        exI [of _ "\<lparr> mf_id = now_v7 env db4, mf_snapshot = snap, mf_hash = manifest_digest, mf_owner = owner manifest,
              mf_media_type = media_type manifest, mf_size_bytes = uint (size_bytes manifest) \<rparr>"])
      (simp add: snapshot_references_def advance_def)
qed


text \<open>
  C13. A recorded snapshot is whole and nothing else changes: its source was a ready mirror whose check
  passed and a successful run of the same target, its parent (if any) a snapshot of the same target and
  mirror, and the transaction adds one row for the snapshot, one artifact for the bundle, the manifest and
  each LFS object, with the digest, owner, media type and size of its reference, and one manifest row. None
  of the digests lay under a running deletion when its row was inserted.
\<close>

theorem recorded_snapshot_whole:
  assumes "record_built_snapshot env sha now clocks db src parent bundle manifest refs_hash collected = Inr (snap, db')"
  shows "\<exists>row ars los mf n.
    db' = db\<lparr>snapshots := snapshots db @ [row], artifacts := artifacts db @ ars, lfs_objects := lfs_objects db @ los,
             manifests := manifests db @ [mf], minted := n\<rparr>
    \<and> sn_id row = snap \<and> sn_target row = src_target_id src \<and> sn_parent row = parent \<and> encode_hex (sn_refs_hash row) = refs_hash
    \<and> list_all2 (artifact_of snap) (snapshot_references bundle manifest collected) ars
    \<and> map lo_artifact los = map ar_id (drop 2 ars) \<and> mf_snapshot mf = snap \<and> encode_hex (mf_hash mf) = sha256 manifest
    \<and> none_claimed db clocks ars
    \<and> (\<exists>m \<in> set (mirrors db). mr_id m = src_mirror_id src \<and> mr_target m = src_target_id src \<and> mr_status m = ''ready''
          \<and> mr_fsck_result m = ''ok'')
    \<and> (\<forall>p. parent = Some p \<longrightarrow> (\<exists>s \<in> set (snapshots db). sn_id s = p \<and> sn_target s = src_target_id src
          \<and> sn_mirror s = src_mirror_id src))"
proof -
  from recorded_snapshot_rows [OF assms] obtain refs_digest ars los mf n where rows:
    "ensure_healthy_source db src = Inr ()" "ensure_parent db src parent = Inr ()" "encode_hex refs_digest = refs_hash"
    "list_all2 (artifact_of snap) (snapshot_references bundle manifest collected) ars"
    "list_all2 (\<lambda>(obj, ar) lo. lfs_row_of snap obj ar lo)
        (zip (case collected of None \<Rightarrow> [] | Some e \<Rightarrow> objects e) (drop 2 ars)) los"
    "none_claimed db clocks ars" "mf_snapshot mf = snap" "encode_hex (mf_hash mf) = sha256 manifest"
    "db' = db\<lparr>snapshots := snapshots db @ [snapshot_row snap now src parent refs_digest (collected \<noteq> None)],
         artifacts := artifacts db @ ars, lfs_objects := lfs_objects db @ los, manifests := manifests db @ [mf], minted := n\<rparr>"
    by blast
  let ?objs = "case collected of None \<Rightarrow> [] | Some e \<Rightarrow> objects e"
  have "length (drop 2 ars) = length ?objs"
    using list_all2_lengthD [OF rows(4)] by (simp add: snapshot_references_def)
  then have "map ar_id (drop 2 ars) = map (ar_id \<circ> snd) (zip ?objs (drop 2 ars))"
    by (metis map_map map_snd_zip)
  also have "\<dots> = map lo_artifact los"
    using rows(5) by (induction rule: list_all2_induct) (auto simp: lfs_row_of_def split: prod.splits)
  finally have lfs: "map lo_artifact los = map ar_id (drop 2 ars)" by simp
  show ?thesis
    by (rule exI [of _ "snapshot_row snap now src parent refs_digest (collected \<noteq> None)"], rule exI [of _ ars],
        rule exI [of _ los], rule exI [of _ mf], rule exI [of _ n])
      (use rows lfs in \<open>auto simp: snapshot_row_def ensure_healthy_source_def ensure_parent_def list_ex_iff
        split: if_splits option.splits\<close>)
qed

subsection \<open>Snapshot lineages\<close>

lemma length_takeWhile_unique:
  "distinct xs \<Longrightarrow> k < length xs \<Longrightarrow> xs ! k = x \<Longrightarrow> length (takeWhile (\<lambda>y. y \<noteq> x) xs) = k"
proof (induction xs arbitrary: k)
  case (Cons a xs)
  then show ?case by (cases k) auto
qed simp

lemma length_takeWhile_in_take: "x \<in> set (take k xs) \<Longrightarrow> length (takeWhile (\<lambda>y. y \<noteq> x) xs) < k"
proof (induction xs arbitrary: k)
  case (Cons a xs)
  then show ?case by (cases k) auto
qed simp

text \<open>The identity of a snapshot, its target, its mirror and its parent.\<close>

definition lineage_of :: "SnapshotRow \<Rightarrow> uuid \<times> uuid \<times> uuid \<times> uuid option" where
  "lineage_of s = (sn_id s, sn_target s, sn_mirror s, sn_parent s)"

text \<open>A parent stands earlier in the table, in the same target and mirror.\<close>

definition parents_precede :: "(uuid \<times> uuid \<times> uuid \<times> uuid option) list \<Rightarrow> bool" where
  "parents_precede ls \<longleftrightarrow>
     (\<forall>k < length ls. \<forall>i t m p. ls ! k = (i, t, m, Some p) \<longrightarrow> (\<exists>q. (p, t, m, q) \<in> set (take k ls)))"

lemma parents_precede_snoc:
  "parents_precede (ls @ [x]) \<longleftrightarrow>
     parents_precede ls \<and> (\<forall>i t m p. x = (i, t, m, Some p) \<longrightarrow> (\<exists>q. (p, t, m, q) \<in> set ls))"
proof -
  have "(\<forall>k < length (ls @ [x]). P k) \<longleftrightarrow> (\<forall>k < length ls. P k) \<and> P (length ls)" for P
    by (auto simp: less_Suc_eq)
  then show ?thesis by (simp add: parents_precede_def nth_append)
qed

definition wf_lineage :: "store_env \<Rightarrow> vault_db \<Rightarrow> bool" where
  "wf_lineage env db \<longleftrightarrow>
     distinct (map sn_id (snapshots db)) \<and> set (map sn_id (snapshots db)) \<subseteq> mint env ` {..<minted db}
     \<and> parents_precede (map lineage_of (snapshots db))"

text \<open>A transaction either records a snapshot or leaves the identity and the parent of every snapshot.\<close>

inductive lineage_step :: "store_env \<Rightarrow> vault_db \<Rightarrow> vault_db \<Rightarrow> bool" for env :: store_env where
  build: "record_built_snapshot env sha now clocks db src parent bundle manifest refs_hash collected = Inr (snap, db')
    \<Longrightarrow> lineage_step env db db'"
| other: "map lineage_of (snapshots db') = map lineage_of (snapshots db) \<Longrightarrow> minted db \<le> minted db'
    \<Longrightarrow> lineage_step env db db'"

lemma ids_of_lineage: "map sn_id sns = map fst (map lineage_of sns)"
  by (simp add: lineage_of_def comp_def)

lemma recorded_mints: 
  assumes "record_built_snapshot env sha now clocks db src parent bundle manifest refs_hash collected = Inr (snap, db')"
  shows "minted db < minted db'"
  using assms
proof (rule record_built_snapshot_steps)
  fix bundle_digest manifest_digest refs_digest a2 db2 a3 db3 db4
  assume "insert_artifact env (clocks 0) (advance (db\<lparr>snapshots := snapshots db
        @ [snapshot_row snap now src parent refs_digest (collected \<noteq> None)]\<rparr>)) snap ''git_bundle'' bundle bundle_digest
        (uint (size_bytes bundle)) = Inr (a2, db2)"
    and m: "insert_artifact env (clocks 1) db2 snap ''manifest'' manifest manifest_digest (uint (size_bytes manifest)) = Inr (a3, db3)"
    and l: "insert_lfs_artifacts env (\<lambda>k. clocks (k + 2)) snap (case collected of None \<Rightarrow> [] | Some e \<Rightarrow> objects e) db3 = Inr db4"
    and mf: "insert_manifest env snap manifest manifest_digest (uint (size_bytes manifest)) db4 = Inr db'"
  then have "minted db < minted db2" by (elim insert_artifact_shape) (simp add: advance_def)
  moreover have "minted db2 \<le> minted db3" using m by (elim insert_artifact_shape) (simp add: advance_def)
  moreover have "minted db3 \<le> minted db4" using insert_lfs_artifacts_shape [OF l] by auto
  moreover have "minted db4 \<le> minted db'" using insert_manifest_shape [OF mf] by (simp add: advance_def)
  ultimately show ?thesis by simp
qed

lemma lineage_step_keeps:
  assumes "lineage_step env db db'" and "wf_lineage env db" and "inj_on (mint env) {..<minted db'}"
  shows "wf_lineage env db'"
  using assms(1)
proof cases
  case other
  from other(1) have "map sn_id (snapshots db') = map sn_id (snapshots db)" by (simp only: ids_of_lineage)
  then show ?thesis using assms(2) other unfolding wf_lineage_def by (auto simp: subset_iff)
next
  case (build sha now clocks src parent bnd manifest refs_hash collected snap)
  note grows = recorded_mints [OF build]
  from recorded_snapshot_rows [OF build] obtain refs_digest where
    snap: "snap = mint env (minted db)" and parent: "ensure_parent db src parent = Inr ()"
    and sns: "snapshots db' = snapshots db @ [snapshot_row snap now src parent refs_digest (collected \<noteq> None)]"
    by (auto simp: now_v7_def)
  have "mint env (minted db) \<noteq> mint env k" if "k < minted db" for k
    using inj_onD [OF assms(3), of k "minted db"] that grows by auto
  then have "snap \<notin> set (map sn_id (snapshots db))" using assms(2) snap unfolding wf_lineage_def by fastforce
  moreover have "\<exists>q. (p, src_target_id src, src_mirror_id src, q) \<in> set (map lineage_of (snapshots db))"
    if "parent = Some p" for p
    using parent that by (auto simp: ensure_parent_def list_ex_iff lineage_of_def image_iff split: if_splits) metis
  ultimately show ?thesis
    using assms(2) sns snap grows unfolding wf_lineage_def
    by (auto simp: parents_precede_snoc snapshot_row_def lineage_of_def subset_iff)
qed

lemma lineage_step_minted: "lineage_step env db db' \<Longrightarrow> minted db \<le> minted db'"
  by (cases rule: lineage_step.cases) (auto dest: recorded_mints)

lemma wf_lineage_reachable:
  assumes "(lineage_step env)\<^sup>*\<^sup>* empty_db db" and "inj_on (mint env) {..<minted db}"
  shows "wf_lineage env db"
  using assms
proof (induction rule: rtranclp_induct)
  case base
  show ?case by (simp add: wf_lineage_def parents_precede_def empty_db_def)
next
  case (step db db')
  then have "inj_on (mint env) {..<minted db}"
    using lineage_step_minted inj_on_subset [of "mint env" "{..<minted db'}" "{..<minted db}"] by auto
  then show ?case using step lineage_step_keeps by blast
qed

text \<open>The rank of a snapshot is its position: a parent ranks below its child.\<close>

lemma lineage_well_founded:
  assumes "wf_lineage env db"
  shows "wf {(p, i). \<exists>s \<in> set (snapshots db). sn_id s = i \<and> sn_parent s = Some p}"
proof -
  let ?ids = "map sn_id (snapshots db)"
  define rank where "rank i = length (takeWhile (\<lambda>j. j \<noteq> i) ?ids)" for i
  have below: "rank p < rank i" if s: "s \<in> set (snapshots db)" "sn_id s = i" "sn_parent s = Some p" for s i p
  proof -
    from s(1) obtain k where k: "k < length (snapshots db)" "snapshots db ! k = s" by (auto simp: in_set_conv_nth)
    have "rank i = k"
      unfolding rank_def using assms k s(2) unfolding wf_lineage_def
      by (intro length_takeWhile_unique) simp_all
    moreover have "\<exists>q. (p, sn_target s, sn_mirror s, q) \<in> set (take k (map lineage_of (snapshots db)))"
      using assms k s(2,3) unfolding wf_lineage_def parents_precede_def by (fastforce simp: lineage_of_def)
    then have "p \<in> set (take k ?ids)" by (auto simp: take_map lineage_of_def)
    then have "rank p < k" unfolding rank_def by (rule length_takeWhile_in_take)
    ultimately show ?thesis by simp
  qed
  show ?thesis by (rule wf_subset [OF wf_measure [of rank]]) (auto simp: below)
qed


text \<open>
  C20. The lineage of snapshots is sound in every reachable database: identifiers are unique, the parent of
  a snapshot was recorded before it for the same target and the same mirror, and the parent relation is
  well-founded, so following parents from any snapshot ends.
\<close>

theorem snapshot_lineage_sound:
  assumes "(lineage_step env)\<^sup>*\<^sup>* empty_db db" and "inj_on (mint env) {..<minted db}"
  shows "distinct (map sn_id (snapshots db)) \<and> parents_precede (map lineage_of (snapshots db))
    \<and> wf {(p, i). \<exists>s \<in> set (snapshots db). sn_id s = i \<and> sn_parent s = Some p}"
  using wf_lineage_reachable [OF assms] lineage_well_founded unfolding wf_lineage_def by blast

text \<open>Closing a deletion plan rewrites the status of its snapshot and nothing of its lineage.\<close>

lemma complete_lineage_step:
  assumes "complete_deletion_plan env now clock db i = Inr db'"
  shows "lineage_step env db db'"
  using assms
proof (rule complete_plan_shape)
  fix p assume "minted db \<le> minted db'"
    "snapshots db' = map (\<lambda>sn. if sn_id sn = dp_snapshot p then sn\<lparr>sn_status := ''deleted''\<rparr> else sn) (snapshots db)"
  then show ?thesis by (intro lineage_step.other) (auto simp: lineage_of_def)
qed

lemma snapshot_store_steps:
  "record_built_snapshot env sha now clocks db src parent bundle manifest refs_hash collected = Inr (snap, db')
     \<Longrightarrow> store_step env db db'"
proof (drule recorded_snapshot_rows, elim exE conjE)
  fix refs_digest ars los mf n
  assume "minted db \<le> n" "db' = db\<lparr>snapshots := snapshots db @ [snapshot_row snap now src parent refs_digest (collected \<noteq> None)],
    artifacts := artifacts db @ ars, lfs_objects := lfs_objects db @ los, manifests := manifests db @ [mf], minted := n\<rparr>"
  then show "store_step env db db'" by (intro store_step_evidence) simp_all
qed

subsection \<open>Wikis are enrolled once\<close>

definition wf_wikis :: "vault_db \<Rightarrow> bool" where
  "wf_wikis db \<longleftrightarrow>
     (\<forall>t \<in> set (targets db). t_kind t = ''wiki'' \<longrightarrow>
        (\<exists>parent \<in> set (targets db). t_parent t = Some (t_id parent) \<and> t_kind parent = ''repository''))
     \<and> distinct (map t_parent (filter (\<lambda>t. t_kind t = ''wiki'') (targets db)))"

lemma wiki_revision_frame:
  "insert_revision db row = Inr db' \<Longrightarrow> targets db' = targets db \<and> collector_runs db' = collector_runs db
     \<and> revisions db' \<in> {revisions db, revisions db @ [row]}"
  by (auto simp: insert_revision_def advance_def split: if_splits)

lemma insert_collector_run_frame:
  "insert_collector_run row db = Inr db' \<Longrightarrow> targets db' = targets db \<and> revisions db' = revisions db
     \<and> collector_runs db' = collector_runs db @ [row] \<and> collector_run_checks row"
  by (auto simp: insert_collector_run_def advance_def split: if_splits)

lemma wiki_discovery_shape:
  assumes "record_wiki_discovery env now db parent discovery = Inr (r, db')"
  obtains row db2 where "row \<in> set (targets db)" "t_id row = parent" "t_kind row = ''repository''"
    "discovery \<noteq> WikiPresent \<Longrightarrow> wd_child_target_id r = None \<and> targets db' = targets db \<and> revisions db' = revisions db"
    "discovery = WikiPresent \<Longrightarrow> wd_child_target_id r = Some (fst (enroll_wiki env db row))
       \<and> targets db' = targets (snd (enroll_wiki env db row))
       \<and> project_wiki_revision (snd (enroll_wiki env db row)) parent (fst (enroll_wiki env db row)) = Inr db2
       \<and> revisions db' = revisions db2"
    "\<exists>run. collector_runs db' = collector_runs db @ [run] \<and> cr_target run = parent \<and> cr_outcome run = fst (wiki_outcome discovery)
       \<and> cr_child_target run = wd_child_target_id r"
proof -
  from assms obtain row child db2 where row: "find (\<lambda>t. t_id t = parent \<and> t_kind t = ''repository'') (targets db) = Some row"
    and enrolled: "(if discovery = WikiPresent
                  then let (child, db1) = enroll_wiki env db row
                       in result_bind (project_wiki_revision db1 parent child) (\<lambda>db2. Inr (Some child, db2))
                  else Inr (None, db)) = Inr (child, db2)"
    and rest: "(let (outcome, failure) = wiki_outcome discovery;
                   run = \<lparr> cr_id = now_v7 env db2, cr_target = parent, cr_collector = ''wiki'', cr_outcome = outcome,
                           cr_mirror_run = None, cr_child_target = child, cr_tool_version = None, cr_object_count = 0,
                           cr_total_bytes = 0, cr_aggregate_hash = None, cr_failure_class = failure, cr_ran_at = now \<rparr>
               in result_bind (insert_collector_run run db2) (\<lambda>db3.
                    Inr (\<lparr> wd_collector_run_id = cr_id run, wd_child_target_id = child \<rparr>, db3))) = Inr (r, db')"
    by (auto simp: record_wiki_discovery_def split: if_splits option.splits)
  have runs: "wd_child_target_id r = child \<and> targets db' = targets db2 \<and> revisions db' = revisions db2
      \<and> (\<exists>run. collector_runs db' = collector_runs db2 @ [run] \<and> cr_target run = parent
           \<and> cr_outcome run = fst (wiki_outcome discovery) \<and> cr_child_target run = child)"
    using rest insert_collector_run_frame by (fastforce simp: Let_def split: prod.splits)
  have frame: "collector_runs (snd (enroll_wiki env db row)) = collector_runs db"
    by (simp add: enroll_wiki_def advance_def split: option.splits)
  have proj: "project_wiki_revision d parent c = Inr d' \<Longrightarrow> targets d' = targets d \<and> collector_runs d' = collector_runs d" for d c d'
    by (auto simp: project_wiki_revision_def advance_def dest: wiki_revision_frame split: option.splits)
  show thesis
  proof (cases "discovery = WikiPresent")
    case True
    with enrolled have "child = Some (fst (enroll_wiki env db row))"
      "project_wiki_revision (snd (enroll_wiki env db row)) parent (fst (enroll_wiki env db row)) = Inr db2"
      by (auto simp: case_prod_beta)
    then show thesis using that [of row db2] True row runs frame proj by (auto simp: find_Some_iff)
  next
    case False
    with enrolled have "child = None" "db2 = db" by simp_all
    then show thesis using that [of row db2] False row runs by (auto simp: find_Some_iff)
  qed
qed


lemma enroll_wiki_shape:
  assumes "row \<in> set (targets db)" and "t_kind row = ''repository''" and "wf_wikis db"
  shows "wf_wikis (snd (enroll_wiki env db row))
    \<and> (\<exists>child \<in> set (targets (snd (enroll_wiki env db row))). t_id child = fst (enroll_wiki env db row)
         \<and> t_kind child = ''wiki'' \<and> t_parent child = Some (t_id row))"
proof (cases "find (\<lambda>t. t_kind t = ''wiki'' \<and> t_parent t = Some (t_id row)) (targets db)")
  case None
  then have fresh: "Some (t_id row) \<notin> t_parent ` {t \<in> set (targets db). t_kind t = ''wiki''}"
    by (auto simp: find_None_iff)
  then show ?thesis using assms None unfolding wf_wikis_def enroll_wiki_def
    by (auto simp: advance_def)
next
  case (Some child)
  then have "child \<in> set (targets db) \<and> t_kind child = ''wiki'' \<and> t_parent child = Some (t_id row)"
    by (auto simp: find_Some_iff)
  then show ?thesis using assms(3) unfolding wf_wikis_def enroll_wiki_def
    by (auto simp: advance_def Some)
qed

lemma enroll_wiki_again:
  assumes "targets db' = targets (snd (enroll_wiki env db row))"
  shows "enroll_wiki env' db' row = (fst (enroll_wiki env db row), advance db')"
  using assms
  by (cases "find (\<lambda>t. t_kind t = ''wiki'' \<and> t_parent t = Some (t_id row)) (targets db)")
    (auto simp: enroll_wiki_def advance_def find_append split: option.splits)

text \<open>
  A wiki is enrolled at most once: a discovery keeps one wiki target per repository, each under an
  existing repository; presence names that target, a later discovery for the same repository names the same
  one and adds no target, and neither absence nor a failure enrolls anything. Every discovery appends its
  own evidence row.
\<close>

theorem wiki_enrolled_once:
  assumes "wf_wikis db" and "distinct (map t_id (targets db))"
    and "record_wiki_discovery env now db parent discovery = Inr (r, db')"
  shows "wf_wikis db'
    \<and> (if discovery = WikiPresent
       then (\<exists>child \<in> set (targets db'). wd_child_target_id r = Some (t_id child) \<and> t_kind child = ''wiki''
               \<and> t_parent child = Some parent)
       else wd_child_target_id r = None \<and> targets db' = targets db)
    \<and> (\<exists>run. collector_runs db' = collector_runs db @ [run] \<and> cr_target run = parent
         \<and> cr_child_target run = wd_child_target_id r)
    \<and> (\<forall>now2 r2 db2. discovery = WikiPresent \<and> record_wiki_discovery env now2 db' parent WikiPresent = Inr (r2, db2)
         \<longrightarrow> wd_child_target_id r2 = wd_child_target_id r \<and> targets db2 = targets db')"
  using assms(3)
proof (rule wiki_discovery_shape)
  fix row db1
  assume row: "row \<in> set (targets db)" "t_id row = parent" "t_kind row = ''repository''"
    and none: "discovery \<noteq> WikiPresent \<Longrightarrow> wd_child_target_id r = None \<and> targets db' = targets db \<and> revisions db' = revisions db"
    and some: "discovery = WikiPresent \<Longrightarrow> wd_child_target_id r = Some (fst (enroll_wiki env db row))
       \<and> targets db' = targets (snd (enroll_wiki env db row))
       \<and> project_wiki_revision (snd (enroll_wiki env db row)) parent (fst (enroll_wiki env db row)) = Inr db1
       \<and> revisions db' = revisions db1"
    and evidence: "\<exists>run. collector_runs db' = collector_runs db @ [run] \<and> cr_target run = parent
       \<and> cr_outcome run = fst (wiki_outcome discovery) \<and> cr_child_target run = wd_child_target_id r"
  have frame: "wf_wikis d = wf_wikis d'" if "targets d = targets d'" for d d' using that by (simp add: wf_wikis_def)
  have "wd_child_target_id r2 = wd_child_target_id r \<and> targets db2 = targets db'"
    if present: "discovery = WikiPresent" and again: "record_wiki_discovery env now2 db' parent WikiPresent = Inr (r2, db2)" for now2 r2 db2
    using again
  proof (rule wiki_discovery_shape)
    fix row2 db3
    assume row2: "row2 \<in> set (targets db')" "t_id row2 = parent" "t_kind row2 = ''repository''"
      and child2: "WikiPresent = WikiPresent \<Longrightarrow> wd_child_target_id r2 = Some (fst (enroll_wiki env db' row2))
        \<and> targets db2 = targets (snd (enroll_wiki env db' row2))
        \<and> project_wiki_revision (snd (enroll_wiki env db' row2)) parent (fst (enroll_wiki env db' row2)) = Inr db3
        \<and> revisions db2 = revisions db3"
    have "row2 \<in> set (targets db)"
      using row2 some [OF present] by (auto simp: enroll_wiki_def advance_def split: option.splits)
    then have "row2 = row" using row row2(2) assms(2) by (auto simp: distinct_map inj_on_def)
    moreover have "enroll_wiki env db' row = (fst (enroll_wiki env db row), advance db')"
      using some [OF present] by (intro enroll_wiki_again) simp
    ultimately show ?thesis using child2 some [OF present] by (simp add: advance_def)
  qed
  moreover note enroll_wiki_shape [OF row(1,3) assms(1), of env]
  ultimately show ?thesis
    using none some evidence row(2) assms(1) frame [of db' db] frame [of db' "snd (enroll_wiki env db row)"]
    by (cases "discovery = WikiPresent") (auto, metis)
qed


subsection \<open>A snapshot and its successor\<close>

definition example_sha :: "string \<Rightarrow> string" where
  "example_sha _ = replicate 64 CHR ''0''"

definition example_blob :: "string \<Rightarrow> char \<Rightarrow> BlobRef" where
  "example_blob media digit =
     \<lparr> owner = ''ratatoskr-vault'', sha256 = replicate 64 digit, media_type = media, size_bytes = 5 \<rparr>"

definition example_lfs :: LfsEvidence where
  "example_lfs = LfsEvidence_new example_sha ''git-lfs/3''
     [\<lparr> oid = replicate 64 CHR ''c'', blob = example_blob ''application/octet-stream'' CHR ''c'' \<rparr>]"

definition example_snapshot_source :: SnapshotSource where
  "example_snapshot_source = \<lparr> src_target_id = 1, src_mirror_id = mint example_env (minted example_db), src_run_id = 80 \<rparr>"

definition example_built :: "uuid \<times> vault_db" where
  "example_built =
     (case record_built_snapshot example_env example_sha 5000 (\<lambda>_. 5000) example_verified example_snapshot_source None
             (example_blob ''application/vnd.git.bundle'' CHR ''a'') (example_blob ''application/json'' CHR ''b'')
             (replicate 64 CHR ''d'') (Some example_lfs) of
        Inr r \<Rightarrow> r | Inl _ \<Rightarrow> (0, empty_db))"

definition example_parent :: "uuid option" where
  "example_parent =
     (case snapshot_parent (snd example_built) example_snapshot_source of
        Inr (Some p) \<Rightarrow> Some (par_snapshot_id p) | _ \<Rightarrow> None)"

definition example_rebuilt :: "uuid \<times> vault_db" where
  "example_rebuilt =
     (case record_built_snapshot example_env example_sha 6000 (\<lambda>_. 6000) (snd example_built) example_snapshot_source example_parent
             (example_blob ''application/vnd.git.bundle'' CHR ''e'') (example_blob ''application/json'' CHR ''f'')
             (replicate 64 CHR ''d'') None of
        Inr r \<Rightarrow> r | Inl _ \<Rightarrow> (0, empty_db))"

lemma example_built_ok:
  "record_built_snapshot example_env example_sha 5000 (\<lambda>_. 5000) example_verified example_snapshot_source None
     (example_blob ''application/vnd.git.bundle'' CHR ''a'') (example_blob ''application/json'' CHR ''b'')
     (replicate 64 CHR ''d'') (Some example_lfs) = Inr example_built"
  by code_simp

lemma example_rebuilt_ok:
  "record_built_snapshot example_env example_sha 6000 (\<lambda>_. 6000) (snd example_built) example_snapshot_source example_parent
     (example_blob ''application/vnd.git.bundle'' CHR ''e'') (example_blob ''application/json'' CHR ''f'')
     (replicate 64 CHR ''d'') None = Inr example_rebuilt"
  by code_simp

theorem recorded_snapshot_whole_witness:
  "map ar_kind (artifacts (snd example_built)) = [''git_bundle'', ''manifest'', ''lfs_object'']
   \<and> (\<exists>row. snapshots (snd example_built) = snapshots example_verified @ [row] \<and> sn_id row = fst example_built)"
proof -
  have "record_built_snapshot example_env example_sha 5000 (\<lambda>_. 5000) example_verified example_snapshot_source None
     (example_blob ''application/vnd.git.bundle'' CHR ''a'') (example_blob ''application/json'' CHR ''b'')
     (replicate 64 CHR ''d'') (Some example_lfs) = Inr (fst example_built, snd example_built)"
    using example_built_ok by simp
  from recorded_snapshot_whole [OF this]
  have "\<exists>row. snapshots (snd example_built) = snapshots example_verified @ [row] \<and> sn_id row = fst example_built" by auto
  moreover have "map ar_kind (artifacts (snd example_built)) = [''git_bundle'', ''manifest'', ''lfs_object'']" by code_simp
  ultimately show ?thesis by simp
qed

theorem snapshot_lineage_sound_witness:
  "distinct (map sn_id (snapshots (snd example_rebuilt)))
   \<and> map sn_parent (snapshots (snd example_rebuilt)) = [None, Some (fst example_built)]"
proof -
  have "lineage_step example_env empty_db example_verified" by (rule lineage_step.other; code_simp)
  moreover have "lineage_step example_env example_verified (snd example_built)"
    by (rule lineage_step.build [where snap = "fst example_built"]) (simp, rule example_built_ok)
  moreover have "lineage_step example_env (snd example_built) (snd example_rebuilt)"
    by (rule lineage_step.build [where snap = "fst example_rebuilt"]) (simp, rule example_rebuilt_ok)
  ultimately have "(lineage_step example_env)\<^sup>*\<^sup>* empty_db (snd example_rebuilt)"
    by (meson rtranclp.rtrancl_refl rtranclp.rtrancl_into_rtrancl)
  moreover have "inj_on (mint example_env) {..<minted (snd example_rebuilt)}"
  proof -
    have "minted (snd example_rebuilt) \<le> 1000" by code_simp
    then show ?thesis using inj_on_less [OF example_mint_inj] by auto
  qed
  ultimately have "distinct (map sn_id (snapshots (snd example_rebuilt)))"
    using snapshot_lineage_sound by blast
  moreover have "map sn_parent (snapshots (snd example_rebuilt)) = [None, Some (fst example_built)]" by code_simp
  ultimately show ?thesis by simp
qed

definition example_wiki :: "WikiDiscoveryRecord \<times> vault_db" where
  "example_wiki =
     (case record_wiki_discovery example_env 7000 example_db 1 WikiPresent of
        Inr r \<Rightarrow> r | Inl _ \<Rightarrow> (\<lparr> wd_collector_run_id = 0, wd_child_target_id = None \<rparr>, empty_db))"

theorem wiki_enrolled_once_witness:
  "wf_wikis (snd example_wiki) \<and> map t_kind (targets (snd example_wiki)) = [''repository'', ''wiki'']"
proof -
  have "wf_wikis example_db" unfolding wf_wikis_def by code_simp
  moreover have "distinct (map t_id (targets example_db))" by code_simp
  moreover have "record_wiki_discovery example_env 7000 example_db 1 WikiPresent = Inr (fst example_wiki, snd example_wiki)"
    by code_simp
  ultimately have "wf_wikis (snd example_wiki)" using wiki_enrolled_once by blast
  moreover have "map t_kind (targets (snd example_wiki)) = [''repository'', ''wiki'']" by code_simp
  ultimately show ?thesis by simp
qed

end
