(* ===== verification/LFS_Collection.thy ===== *)
theory LFS_Collection
  imports Git_Runner Blob_Store
begin

text \<open>
  The LFS runner (\<open>crates/gitrunner/src/lfs.rs\<close>) and the collection of a mirror's LFS objects into the
  blob store (\<open>services/vault/src/lfs_collection.rs\<close>). Directories are finite trees; what the child process
  does, how the run directories answer and the digest are parameters. The runner of this service uses no
  cancellation, so the run that can be interrupted is not modelled.
\<close>

subsection \<open>Text\<close>

text \<open>\<open>str::lines\<close>: a line ends at a line feed, a carriage return before it is dropped with it.\<close>

definition strip_cr :: "string \<Rightarrow> string" where
  "strip_cr s = (if s \<noteq> [] \<and> last s = CHR 0x0D then butlast s else s)"

definition str_lines :: "string \<Rightarrow> string list" where
  "str_lines s =
     (let parts = split_on (CHR 0x0A) s
      in map strip_cr (butlast parts) @ (if last parts = [] then [] else [last parts]))"

text \<open>The characters with the property \<open>White_Space\<close>, in UTF-8.\<close>

definition WHITE_SPACE :: "string list" where
  "WHITE_SPACE =
     [[CHR 0x09], [CHR 0x0A], [CHR 0x0B], [CHR 0x0C], [CHR 0x0D], [CHR 0x20], [CHR 0xC2, CHR 0x85], [CHR 0xC2, CHR 0xA0],
      [CHR 0xE1, CHR 0x9A, CHR 0x80]]
     @ map (\<lambda>b. [CHR 0xE2, CHR 0x80, b])
         [CHR 0x80, CHR 0x81, CHR 0x82, CHR 0x83, CHR 0x84, CHR 0x85, CHR 0x86, CHR 0x87, CHR 0x88, CHR 0x89, CHR 0x8A,
          CHR 0xA8, CHR 0xA9, CHR 0xAF]
     @ [[CHR 0xE2, CHR 0x81, CHR 0x9F], [CHR 0xE3, CHR 0x80, CHR 0x80]]"

definition space_prefix :: "string \<Rightarrow> nat" where
  "space_prefix s = (case find (\<lambda>w. prefix w s) WHITE_SPACE of None \<Rightarrow> 0 | Some w \<Rightarrow> length w)"

text \<open>\<open>skip\<close> counts the remaining bytes of a separator.\<close>

fun words_loop :: "nat \<Rightarrow> string \<Rightarrow> string \<Rightarrow> string list" where
  "words_loop skip word [] = (if word = [] then [] else [word])"
| "words_loop (Suc skip) word (c # s) = words_loop skip word s"
| "words_loop 0 word (c # s) =
     (case space_prefix (c # s) of
        0 \<Rightarrow> words_loop 0 (word @ [c]) s
      | Suc n \<Rightarrow> (if word = [] then [] else [word]) @ words_loop n [] s)"

definition split_whitespace :: "string \<Rightarrow> string list" where
  "split_whitespace s = words_loop 0 [] s"

text \<open>\<open>str::trim\<close>: leading separators are skipped, then the shortest prefix is kept whose rest is all separators.\<close>

function trim_start :: "string \<Rightarrow> string" where
  "trim_start s = (case space_prefix s of 0 \<Rightarrow> s | Suc n \<Rightarrow> trim_start (drop (Suc n) s))"
  by pat_completeness auto

lemma space_prefix_bound: "space_prefix s \<le> length s"
  by (auto simp: space_prefix_def find_Some_iff prefix_length_le split: option.splits)

lemma space_prefix_shortens: "space_prefix s = Suc n \<Longrightarrow> length (drop (Suc n) s) < length s"
  using space_prefix_bound [of s] by simp

termination trim_start
  by (relation "measure length") (auto dest: space_prefix_shortens)

declare trim_start.simps [simp del]

definition trim_end :: "string \<Rightarrow> string" where
  "trim_end s =
     (case find (\<lambda>i. split_whitespace (drop i s) = []) [0..<Suc (length s)] of Some i \<Rightarrow> take i s | None \<Rightarrow> s)"

definition str_trim :: "string \<Rightarrow> string" where
  "str_trim s = trim_end (trim_start s)"

subsection \<open>Directories\<close>

datatype disk_node =
    FileNode u64 "u8 list list"
  | DirNode "(string \<times> disk_node) list"
  | LinkNode
  | SpecialNode
  | UnreadableNode

fun source_of_node :: "disk_node \<Rightarrow> source_file" where
  "source_of_node (FileNode n chunks) = \<lparr> src_is_file = True, src_len = n, src_chunks = chunks \<rparr>"
| "source_of_node _ = \<lparr> src_is_file = False, src_len = 0, src_chunks = [] \<rparr>"

fun node_at :: "disk_node \<Rightarrow> string list \<Rightarrow> disk_node option" where
  "node_at node [] = Some node"
| "node_at (DirNode entries) (name # rest) =
     (case map_of entries name of None \<Rightarrow> None | Some node \<Rightarrow> node_at node rest)"
| "node_at _ (name # rest) = None"

subsection \<open>The runner\<close>

datatype LfsOperation = LfsVersion | FetchAll | ListAllLong | FsckObjects

datatype LfsTransferMode = Basic | StandaloneFile

fun lfs_arguments :: "LfsOperation \<Rightarrow> string list" where
  "lfs_arguments LfsVersion = [''version'']"
| "lfs_arguments FetchAll = [''fetch'', ''--all'', ''origin'']"
| "lfs_arguments ListAllLong = [''ls-files'', ''--all'', ''--long'']"
| "lfs_arguments FsckObjects = [''fsck'', ''--objects'']"

record LfsRunConfig =
  lc_binary :: string
  lc_mirror_directory :: ConfinedPath
  lc_storage_directory :: ConfinedPath
  lc_run_home :: ConfinedPath
  lc_transfer_mode :: LfsTransferMode
  lc_deadline :: nat
  lc_stdout_cap_bytes :: nat
  lc_stderr_cap_bytes :: nat

datatype LfsRunnerError =
    LfsInterrupted
  | LfsInvalidConfiguration string
  | LfsSpawnFailed
  | LfsTimeout nat
  | LfsOutputLimitExceeded Stream nat

definition revalidate ::
  "(string \<Rightarrow> string list option) \<Rightarrow> (string list \<Rightarrow> lstat) \<Rightarrow> ConfinedPath \<Rightarrow> (LfsRunnerError, unit) result" where
  "revalidate canonicalize lstat path =
     (if \<not> prefix (cp_root path) (cp_resolved path)
      then Inl (LfsInvalidConfiguration ''confined path no longer belongs to its root'')
      else case ConfinedPath_new canonicalize lstat (path_text (cp_root path))
                  (join_slash (drop (length (cp_root path)) (cp_resolved path))) of
             Inl error \<Rightarrow> Inl (LfsInvalidConfiguration ''path escapes its confinement'')
           | Inr _ \<Rightarrow> Inr ())"

text \<open>What the file system answers when the private directories of a run are made.\<close>

record lfs_run_io =
  li_canonicalize :: "string \<Rightarrow> string list option"
  li_lstat :: "string list \<Rightarrow> lstat"
  li_storage_error :: "string option"
  li_home_error :: "string option"

definition lfs_process_checks :: "lfs_run_io \<Rightarrow> LfsRunConfig \<Rightarrow> (LfsRunnerError, unit) result" where
  "lfs_process_checks io config =
     (if \<not> is_absolute (lc_binary config)
      then Inl (LfsInvalidConfiguration ''Git LFS binary must be an absolute path'')
      else
        result_bind (revalidate (li_canonicalize io) (li_lstat io) (lc_mirror_directory config)) (\<lambda>_.
        result_bind (revalidate (li_canonicalize io) (li_lstat io) (lc_storage_directory config)) (\<lambda>_.
        result_bind (revalidate (li_canonicalize io) (li_lstat io) (lc_run_home config)) (\<lambda>_.
          case li_storage_error io of
            Some source \<Rightarrow> Inl (LfsInvalidConfiguration (''cannot create confined LFS storage: '' @ source))
          | None \<Rightarrow>
              (case li_home_error io of
                 Some source \<Rightarrow> Inl (LfsInvalidConfiguration (''cannot create confined LFS home: '' @ source))
               | None \<Rightarrow> Inr ())))))"

definition lfs_run ::
  "lfs_run_io \<Rightarrow> (string \<Rightarrow> string \<Rightarrow> string list \<Rightarrow> (string \<times> string) list \<Rightarrow> child_result) \<Rightarrow> LfsRunConfig
     \<Rightarrow> LfsOperation \<Rightarrow> (LfsRunnerError, RunOutcome) result" where
  "lfs_run io child config operation =
     result_bind (lfs_process_checks io config) (\<lambda>_.
       case child (lc_binary config) (path_text (cp_resolved (lc_mirror_directory config))) (lfs_arguments operation)
              (lfs_child_environment (case path_parent (lc_binary config) of Some dir \<Rightarrow> dir | None \<Rightarrow> ''/usr/bin'')
                 (path_text (cp_resolved (lc_run_home config))) (path_text (cp_resolved (lc_mirror_directory config)))
                 (path_text (cp_resolved (lc_storage_directory config))) (lc_transfer_mode config = StandaloneFile)) of
         NotStarted \<Rightarrow> Inl LfsSpawnFailed
       | DeadlinePassed \<Rightarrow> Inl (LfsTimeout (lc_deadline config))
       | WaitFailed \<Rightarrow> Inl LfsSpawnFailed
       | Exited code stdout_chunks stderr_chunks \<Rightarrow>
           (let (out, out_overflow) = read_capped stdout_chunks (lc_stdout_cap_bytes config) [];
                (err, err_overflow) = read_capped stderr_chunks (lc_stderr_cap_bytes config) []
            in if out_overflow then Inl (LfsOutputLimitExceeded Stdout (length out))
               else if err_overflow then Inl (LfsOutputLimitExceeded Stderr (length err))
               else Inr \<lparr> exit_code = (case code of Some n \<Rightarrow> n | None \<Rightarrow> -1), out_stdout = out, out_stderr = err,
                          stdout_truncated = out_overflow, stderr_truncated = err_overflow \<rparr>))"


subsection \<open>The collector\<close>

record LfsCollectionSettings =
  ls_lfs_binary :: string
  ls_mirror_root :: string
  ls_work_root :: string
  ls_stage_max_bytes :: u64
  ls_max_objects :: nat
  ls_deadline :: nat
  ls_transfer_mode :: LfsTransferMode

record LfsCollection =
  lf_run_id :: uuid
  lf_evidence :: LfsEvidence
  lf_staged_bytes :: u64

datatype LfsCollectionError =
    LfsToolUnavailable
  | LfsUnsafePath
  | LfsRunner LfsRunnerError
  | LfsToolFailed string string
  | LfsInvalidEnumeration
  | LfsQuotaExceeded
  | LfsMissingOrCorrupt
  | LfsStorage

text \<open>\<open>roots_made\<close>: whether both owned roots could be created.\<close>

definition LfsCollector_new ::
  "bool \<Rightarrow> LfsCollectionSettings \<Rightarrow> (LfsCollectionError, LfsCollectionSettings) result" where
  "LfsCollector_new roots_made settings =
     (if \<not> is_absolute (ls_lfs_binary settings) \<or> \<not> is_absolute (ls_mirror_root settings)
         \<or> \<not> is_absolute (ls_work_root settings) \<or> ls_stage_max_bytes settings = 0 \<or> ls_max_objects settings = 0
         \<or> ls_deadline settings = 0
      then Inl LfsUnsafePath
      else if \<not> roots_made then Inl LfsStorage else Inr settings)"

definition lfs_reservation_bytes :: "LfsCollectionSettings \<Rightarrow> u64" where
  "lfs_reservation_bytes settings = ls_stage_max_bytes settings"

definition tool_failure :: "string \<Rightarrow> RunOutcome \<Rightarrow> LfsCollectionError" where
  "tool_failure operation outcome = LfsToolFailed operation (bounded_excerpt (out_stderr outcome) 512)"

text \<open>The entries of one directory, in the order \<open>read_dir\<close> lists them.\<close>

fun lfs_entries_size :: "u64 \<Rightarrow> (string \<times> disk_node) list \<Rightarrow> (LfsCollectionError, u64) result" where
  "lfs_entries_size tot [] = Inr tot"
| "lfs_entries_size tot ((_, FileNode n _) # rest) = lfs_entries_size (saturating_add tot n) rest"
| "lfs_entries_size tot ((_, DirNode entries) # rest) =
     result_bind (lfs_entries_size 0 entries) (\<lambda>n. lfs_entries_size (saturating_add tot n) rest)"
| "lfs_entries_size tot ((_, LinkNode) # rest) = Inl LfsUnsafePath"
| "lfs_entries_size tot ((_, SpecialNode) # rest) = Inl LfsUnsafePath"
| "lfs_entries_size tot ((_, UnreadableNode) # rest) = Inl LfsStorage"

fun lfs_directory_size :: "disk_node option \<Rightarrow> (LfsCollectionError, u64) result" where
  "lfs_directory_size (Some (DirNode entries)) = lfs_entries_size 0 entries"
| "lfs_directory_size _ = Inl LfsStorage"

text \<open>\<open>create_failed\<close> and \<open>copy_failed\<close> answer for the directory and the files the copy writes.\<close>

fun copy_entries :: "(string list \<Rightarrow> bool) \<Rightarrow> string list \<Rightarrow> (string \<times> disk_node) list
    \<Rightarrow> (LfsCollectionError, (string \<times> disk_node) list) result" where
  "copy_entries write_failed path [] = Inr []"
| "copy_entries write_failed path ((name, FileNode n chunks) # rest) =
     (if write_failed (path @ [name]) then Inl LfsStorage
      else result_bind (copy_entries write_failed path rest) (\<lambda>done. Inr ((name, FileNode n chunks) # done)))"
| "copy_entries write_failed path ((name, DirNode entries) # rest) =
     (if write_failed (path @ [name]) then Inl LfsStorage
      else result_bind (copy_entries write_failed (path @ [name]) entries) (\<lambda>inner.
           result_bind (copy_entries write_failed path rest) (\<lambda>done. Inr ((name, DirNode inner) # done))))"
| "copy_entries write_failed path ((name, LinkNode) # rest) = Inl LfsUnsafePath"
| "copy_entries write_failed path ((name, SpecialNode) # rest) = Inl LfsUnsafePath"
| "copy_entries write_failed path ((name, UnreadableNode) # rest) = Inl LfsStorage"

definition copy_tree :: "(string list \<Rightarrow> bool) \<Rightarrow> disk_node option \<Rightarrow> (LfsCollectionError, disk_node) result" where
  "copy_tree write_failed source =
     (if write_failed [] then Inl LfsStorage
      else case source of
             Some (DirNode entries) \<Rightarrow> result_bind (copy_entries write_failed [] entries) (\<lambda>copied. Inr (DirNode copied))
           | _ \<Rightarrow> Inl LfsStorage)"

definition valid_oid :: "string \<Rightarrow> bool" where
  "valid_oid ident \<longleftrightarrow> length ident = 64 \<and> list_all is_lowercase_hex ident"

fun parse_oid_lines :: "nat \<Rightarrow> string set \<Rightarrow> string list \<Rightarrow> (LfsCollectionError, string set) result" where
  "parse_oid_lines max_objects unique [] = Inr unique"
| "parse_oid_lines max_objects unique (line # rest) =
     (case split_whitespace line of
        [] \<Rightarrow> Inl LfsInvalidEnumeration
      | ident # _ \<Rightarrow>
          if \<not> valid_oid ident \<or> ident \<in> unique \<or> card (insert ident unique) > max_objects
          then Inl LfsInvalidEnumeration
          else parse_oid_lines max_objects (insert ident unique) rest)"

definition parse_oids :: "string \<Rightarrow> nat \<Rightarrow> (LfsCollectionError, string list) result" where
  "parse_oids bytes max_objects =
     (if \<not> utf8_valid bytes then Inl LfsInvalidEnumeration
      else result_bind (parse_oid_lines max_objects {} (filter (\<lambda>line. line \<noteq> []) (str_lines bytes))) (\<lambda>unique.
        Inr (sorted_list_of_set unique)))"

definition object_node :: "disk_node option \<Rightarrow> string \<Rightarrow> (LfsCollectionError, disk_node) result" where
  "object_node storage ident =
     (case Option.bind storage (\<lambda>root. node_at root [''objects'', take 2 ident, take 2 (drop 2 ident), ident]) of
        Some (FileNode n chunks) \<Rightarrow> Inr (FileNode n chunks)
      | _ \<Rightarrow> Inl LfsMissingOrCorrupt)"

fun collect_objects ::
  "(u8 list \<Rightarrow> u8 list) \<Rightarrow> LocalBlobStore \<Rightarrow> disk_node option \<Rightarrow> string list \<Rightarrow> blob_fs
     \<Rightarrow> blob_fs \<times> (LfsCollectionError, LfsObjectEvidence list) result" where
  "collect_objects hash store storage [] fs = (fs, Inr [])"
| "collect_objects hash store storage (ident # rest) fs =
     (case object_node storage ident of
        Inl e \<Rightarrow> (fs, Inl e)
      | Inr node \<Rightarrow>
          (case reference_for_file hash store (Some (source_of_node node)) ''application/octet-stream'' of
             Inl _ \<Rightarrow> (fs, Inl LfsMissingOrCorrupt)
           | Inr reference \<Rightarrow>
               if sha256 reference \<noteq> ident then (fs, Inl LfsMissingOrCorrupt)
               else
                 (case publish_file hash store reference (Some (source_of_node node)) fs of
                    (fs1, Inl _) \<Rightarrow> (fs1, Inl LfsStorage)
                  | (fs1, Inr published) \<Rightarrow>
                      (case collect_objects hash store storage rest fs1 of
                         (fs2, Inl e) \<Rightarrow> (fs2, Inl e)
                       | (fs2, Inr objs) \<Rightarrow> (fs2, Inr (\<lparr> oid = ident, blob = published \<rparr> # objs))))))"

text \<open>
  \<open>run\<close> is the runner; \<open>storage\<close> is what the fetch left in the storage directory.
\<close>

definition collect_with_runner ::
  "(u8 list \<Rightarrow> u8 list) \<Rightarrow> (string \<Rightarrow> string) \<Rightarrow> LocalBlobStore \<Rightarrow> LfsCollectionSettings \<Rightarrow> uuid
     \<Rightarrow> (LfsOperation \<Rightarrow> (LfsRunnerError, RunOutcome) result) \<Rightarrow> disk_node option \<Rightarrow> blob_fs
     \<Rightarrow> blob_fs \<times> (LfsCollectionError, LfsCollection) result" where
  "collect_with_runner hash sha256_hex store settings run_id run storage fs =
     (case map_sum LfsRunner id (run LfsVersion) of
        Inl e \<Rightarrow> (fs, Inl e)
      | Inr version \<Rightarrow>
          if exit_code version \<noteq> 0 then (fs, Inl (tool_failure ''version'' version))
          else
     (case map_sum LfsRunner id (run FetchAll) of
        Inl e \<Rightarrow> (fs, Inl e)
      | Inr fetched \<Rightarrow>
          if exit_code fetched \<noteq> 0 then (fs, Inl (tool_failure ''fetch'' fetched))
          else
     (case lfs_directory_size storage of
        Inl e \<Rightarrow> (fs, Inl e)
      | Inr staged_bytes \<Rightarrow>
          if ls_stage_max_bytes settings < staged_bytes then (fs, Inl LfsQuotaExceeded)
          else
     (case map_sum LfsRunner id (run ListAllLong) of
        Inl e \<Rightarrow> (fs, Inl e)
      | Inr listed \<Rightarrow>
          if exit_code listed \<noteq> 0 then (fs, Inl (tool_failure ''ls-files'' listed))
          else
     (case parse_oids (out_stdout listed) (ls_max_objects settings) of
        Inl e \<Rightarrow> (fs, Inl e)
      | Inr oids \<Rightarrow>
     (case collect_objects hash store storage oids fs of
        (fs1, Inl e) \<Rightarrow> (fs1, Inl e)
      | (fs1, Inr objs) \<Rightarrow>
          if \<not> utf8_valid (out_stdout version) then (fs1, Inl (LfsToolFailed ''version'' ''non-UTF-8 output''))
          else (fs1, Inr \<lparr> lf_run_id = run_id,
                           lf_evidence = LfsEvidence_new sha256_hex (str_trim (out_stdout version)) objs,
                           lf_staged_bytes = staged_bytes \<rparr>)))))))"


definition lfs_run_config ::
  "LfsCollectionSettings \<Rightarrow> ConfinedPath \<Rightarrow> ConfinedPath \<Rightarrow> ConfinedPath \<Rightarrow> LfsRunConfig" where
  "lfs_run_config settings mirror storage home =
     \<lparr> lc_binary = ls_lfs_binary settings, lc_mirror_directory = mirror, lc_storage_directory = storage,
       lc_run_home = home, lc_transfer_mode = ls_transfer_mode settings, lc_deadline = ls_deadline settings,
       lc_stdout_cap_bytes = 4 * 1024 * 1024, lc_stderr_cap_bytes = 256 * 1024 \<rparr>"

text \<open>
  One collection. \<open>mirror_tree\<close> is the directory of the mirror, \<open>write_failed\<close> answers for its copy,
  \<open>storage_tree\<close> is what the fetch leaves in the storage directory; the run's own directory is removed
  afterwards, which no result depends on.
\<close>

definition lfs_collect ::
  "(u8 list \<Rightarrow> u8 list) \<Rightarrow> (string \<Rightarrow> string) \<Rightarrow> (uuid \<Rightarrow> string) \<Rightarrow> lfs_run_io
     \<Rightarrow> (string \<Rightarrow> string \<Rightarrow> string list \<Rightarrow> (string \<times> string) list \<Rightarrow> child_result)
     \<Rightarrow> (string list \<Rightarrow> bool) \<Rightarrow> disk_node option \<Rightarrow> disk_node option
     \<Rightarrow> LocalBlobStore \<Rightarrow> LfsCollectionSettings \<Rightarrow> uuid \<Rightarrow> string \<Rightarrow> blob_fs
     \<Rightarrow> blob_fs \<times> (LfsCollectionError, LfsCollection) result" where
  "lfs_collect hash sha256_hex to_string io child write_failed mirror_tree storage_tree store settings run_id
       mirror_relative fs =
     (let confine = (\<lambda>root relative. map_sum (\<lambda>_. LfsUnsafePath) id
                       (ConfinedPath_new (li_canonicalize io) (li_lstat io) root relative));
          run_relative = ''runs/'' @ to_string run_id;
          prepared =
            result_bind (confine (ls_mirror_root settings) mirror_relative) (\<lambda>source_mirror.
            result_bind
              (if ls_transfer_mode settings = StandaloneFile
               then result_bind (confine (ls_work_root settings) (run_relative @ ''/mirror.git'')) (\<lambda>staged.
                    result_bind (copy_tree write_failed mirror_tree) (\<lambda>_.
                      Inr (staged, run_relative @ ''/mirror.git/lfs'')))
               else Inr (source_mirror, run_relative @ ''/lfs'')) (\<lambda>(mirror, storage_relative).
            result_bind (confine (ls_work_root settings) storage_relative) (\<lambda>storage.
            result_bind (confine (ls_work_root settings) (run_relative @ ''/home'')) (\<lambda>home.
              Inr (lfs_run_config settings mirror storage home)))))
      in case prepared of
           Inl e \<Rightarrow> (fs, Inl e)
         | Inr config \<Rightarrow>
             collect_with_runner hash sha256_hex store settings run_id (lfs_run io child config) storage_tree fs)"

subsection \<open>Sizes and copies\<close>

fun node_bytes :: "disk_node \<Rightarrow> nat" where
  "node_bytes (FileNode n _) = unat n"
| "node_bytes (DirNode entries) = sum_list (map (\<lambda>(_, node). node_bytes node) entries)"
| "node_bytes _ = 0"

fun plain_tree :: "disk_node \<Rightarrow> bool" where
  "plain_tree (FileNode _ _) = True"
| "plain_tree (DirNode entries) = list_all (\<lambda>(_, node). plain_tree node) entries"
| "plain_tree _ = False"

lemma unat_saturating_add_u64: "unat (saturating_add a b :: u64) = min (unat a + unat b) (2 ^ 64 - 1)"
  using unat_saturating_add [of a b] by simp

lemma lfs_entries_size_exact:
  "(case lfs_entries_size t entries of
      Inr n \<Rightarrow> plain_tree (DirNode entries) \<and> unat n = min (unat t + node_bytes (DirNode entries)) (2 ^ 64 - 1)
    | Inl _ \<Rightarrow> \<not> plain_tree (DirNode entries))"
proof (induction t entries rule: lfs_entries_size.induct)
  case (1 t)
  have "unat t < 2 ^ 64" using unsigned_less [of t] by simp
  then show ?case by (simp add: min_def)
next
  case (2 t name n chunks rest)
  then show ?case by (auto simp: unat_saturating_add_u64 split: sum.splits)
next
  case (3 t name entries rest)
  show ?case
  proof (cases "lfs_entries_size 0 entries")
    case (Inl e)
    then show ?thesis using "3.IH"(1) by simp
  next
    case (Inr n)
    then show ?thesis using "3.IH"(1) "3.IH"(2) [of n]
      by (auto simp: unat_saturating_add_u64 split: sum.splits)
  qed
qed simp_all

lemma copy_entries_exact: "copy_entries write_failed path entries = Inr copied \<Longrightarrow> copied = entries"
proof (induction write_failed path entries arbitrary: copied rule: copy_entries.induct)
  case (2 write_failed path name n chunks rest)
  then show ?case by (auto split: if_splits)
next
  case (3 write_failed path name entries rest)
  then show ?case by (fastforce split: if_splits)
qed auto

lemma copy_tree_exact: "copy_tree write_failed source = Inr copied \<Longrightarrow> source = Some copied"
  by (auto simp: copy_tree_def dest: copy_entries_exact split: if_splits option.splits disk_node.splits)


subsection \<open>A complete collection is verified\<close>

text \<open>Files are read in chunks that fit a buffer.\<close>

fun readable_tree :: "disk_node \<Rightarrow> bool" where
  "readable_tree (FileNode _ chunks) = readable chunks"
| "readable_tree (DirNode entries) = list_all (\<lambda>(_, node). readable_tree node) entries"
| "readable_tree _ = True"

lemma readable_at: "readable_tree node \<Longrightarrow> node_at node path = Some found \<Longrightarrow> readable_tree found"
proof (induction node path rule: node_at.induct)
  case (2 entries name rest)
  then show ?case by (auto simp: list_all_iff dest: map_of_SomeD split: option.splits)
qed auto

lemma object_node_shape:
  assumes "object_node storage ident = Inr node"
  obtains root n chunks where "storage = Some root" "node = FileNode n chunks"
    "node_at root [''objects'', take 2 ident, take 2 (drop 2 ident), ident] = Some node"
  using assms by (auto simp: object_node_def split: option.splits disk_node.splits bind_splits)

text \<open>Each enumerated identifier gives one object whose reference carries it and whose bytes the store holds.\<close>

lemma collect_objects_verified:
  assumes "collect_objects hash store storage idents fs = (fs', Inr objs)" and "blobs_sized fs"
    and "\<And>root. storage = Some root \<Longrightarrow> readable_tree root"
  shows "map oid objs = idents \<and> blobs_sized fs' \<and> (\<forall>r. blob_holds hash store fs r \<longrightarrow> blob_holds hash store fs' r)
    \<and> (\<forall>obj \<in> set objs. sha256 (blob obj) = oid obj \<and> owner (blob obj) = OWNER
         \<and> media_type (blob obj) = ''application/octet-stream'' \<and> blob_holds hash store fs' (blob obj))"
  using assms
proof (induction hash store storage idents fs arbitrary: fs' objs rule: collect_objects.induct)
  case (2 hash store storage ident rest fs)
  from "2.prems"(1) obtain node reference fs1 published objs' where
    node: "object_node storage ident = Inr node"
    and reference: "reference_for_file hash store (Some (source_of_node node)) ''application/octet-stream'' = Inr reference"
    and digest: "sha256 reference = ident"
    and pub: "publish_file hash store reference (Some (source_of_node node)) fs = (fs1, Inr published)"
    and more: "collect_objects hash store storage rest fs1 = (fs', Inr objs')"
    and objs: "objs = \<lparr>oid = ident, blob = published\<rparr> # objs'"
    by (auto split: sum.splits if_splits prod.splits)
  have src: "readable_source (source_of_node node)"
    using node by (rule object_node_shape) (use "2.prems"(3) readable_at in \<open>force simp: readable_source_def\<close>)
  have same: "published = reference"
    using pub by (auto simp: publish_file_def split: sum.splits if_splits option.splits)
  have fs1: "fs1 = fst (publish_file hash store reference (Some (source_of_node node)) fs)" using pub by simp
  have sized: "blobs_sized fs1" unfolding fs1 by (rule publish_sized [OF "2.prems"(2) src])
  have IH: "map oid objs' = rest \<and> blobs_sized fs' \<and> (\<forall>r. blob_holds hash store fs1 r \<longrightarrow> blob_holds hash store fs' r)
    \<and> (\<forall>obj \<in> set objs'. sha256 (blob obj) = oid obj \<and> owner (blob obj) = OWNER
         \<and> media_type (blob obj) = ''application/octet-stream'' \<and> blob_holds hash store fs' (blob obj))"
    using "2.IH" [OF node reference _ pub [symmetric] refl more sized "2.prems"(3)] digest by simp
  have "blob_holds hash store fs1 reference" by (rule publish_holds [OF src pub [unfolded same]])
  moreover have "owner reference = OWNER \<and> media_type reference = ''application/octet-stream''"
    using reference by (auto simp: reference_for_file_def split: if_splits)
  moreover have "blob_holds hash store fs1 r" if "blob_holds hash store fs r" for r
    unfolding fs1 by (rule local_store.put_keeps [OF "2.prems"(2) src that])
  ultimately show ?case using IH objs same digest by auto
qed simp

lemma parse_oid_lines_valid:
  "parse_oid_lines n unique lines = Inr found \<Longrightarrow> finite unique \<Longrightarrow> \<forall>i \<in> unique. valid_oid i
     \<Longrightarrow> finite found \<and> (\<forall>i \<in> found. valid_oid i) \<and> (card unique \<le> n \<longrightarrow> card found \<le> n)"
proof (induction n unique lines rule: parse_oid_lines.induct)
  case (2 n unique line rest)
  from "2.prems"(1) obtain ident more where words: "split_whitespace line = ident # more"
    and ok: "valid_oid ident" "ident \<notin> unique" "card (insert ident unique) \<le> n"
    and rest: "parse_oid_lines n (insert ident unique) rest = Inr found"
    by (simp split: list.splits if_splits)
  have "finite (insert ident unique)" "\<forall>i \<in> insert ident unique. valid_oid i" using "2.prems"(2,3) ok(1) by simp_all
  then show ?case using "2.IH" [OF words _ rest] ok by simp
qed simp

lemma parse_oids_sound:
  assumes "parse_oids bytes n = Inr idents"
  shows "sorted_wrt (<) idents \<and> list_all valid_oid idents \<and> length idents \<le> n"
proof -
  from assms obtain found where found: "parse_oid_lines n {} (filter (\<lambda>line. line \<noteq> []) (str_lines bytes)) = Inr found"
    and idents: "idents = sorted_list_of_set found"
    by (auto simp: parse_oids_def split: if_splits)
  from parse_oid_lines_valid [OF found] have "finite found" "\<forall>i \<in> found. valid_oid i" "card found \<le> n" by simp_all
  then show ?thesis unfolding idents by (simp add: list_all_iff)
qed

text \<open>The identifiers a listing names: the first word of each of its lines.\<close>

definition listed_idents :: "string \<Rightarrow> string list" where
  "listed_idents listing = map (\<lambda>line. hd (split_whitespace line)) (filter (\<lambda>line. line \<noteq> []) (str_lines listing))"

lemma parse_oid_lines_exact:
  "parse_oid_lines n unique lines = Inr found \<Longrightarrow>
     found = unique \<union> set (map (\<lambda>line. hd (split_whitespace line)) lines)
     \<and> distinct (map (\<lambda>line. hd (split_whitespace line)) lines)
     \<and> unique \<inter> set (map (\<lambda>line. hd (split_whitespace line)) lines) = {}"
proof (induction n unique lines rule: parse_oid_lines.induct)
  case (2 n unique line rest)
  from "2.prems" obtain ident more where words: "split_whitespace line = ident # more"
    and ok: "valid_oid ident" "ident \<notin> unique" "card (insert ident unique) \<le> n"
    and rest: "parse_oid_lines n (insert ident unique) rest = Inr found"
    by (simp split: list.splits if_splits)
  from "2.IH" [OF words _ rest] ok words show ?case by auto
qed simp

lemma parse_oids_exact: "parse_oids listing n = Inr idents \<Longrightarrow> idents = sort (listed_idents listing)"
  by (auto simp: parse_oids_def listed_idents_def sorted_list_of_set_sort_remdups distinct_remdups_id
      dest!: parse_oid_lines_exact split: if_splits simp del: set_map)

lemma sorted_objects_valid:
  assumes "sorted_wrt (<) (map oid objs)" and "\<forall>obj \<in> set objs. valid_oid (oid obj) \<and> sha256 (blob obj) = oid obj
      \<and> owner (blob obj) = ''ratatoskr-vault'' \<and> media_type (blob obj) = ''application/octet-stream''"
    and "\<And>p obj. previous = Some p \<Longrightarrow> obj \<in> set objs \<Longrightarrow> p < oid obj"
  shows "valid_lfs_objects previous objs"
  using assms
proof (induction objs arbitrary: previous)
  case (Cons obj objs)
  have "valid_lfs_objects (Some (oid obj)) objs"
    using Cons.prems by (intro Cons.IH) auto
  then show ?case using Cons.prems by (auto simp: valid_oid_def not_le split: option.splits)
qed simp

lemma sort_key_sorted: "sorted (map f xs) \<Longrightarrow> sort_key f xs = xs"
  by (induction xs) (auto simp: insort_is_Cons)

lemma lfs_collect_runs:
  assumes "lfs_collect hash sha to_string io child write_failed mirror_tree storage_tree store settings run_id relative fs
             = (fs', Inr c)"
  obtains config where "lc_binary config = ls_lfs_binary settings"
    "collect_with_runner hash sha store settings run_id (lfs_run io child config) storage_tree fs = (fs', Inr c)"
proof -
  have binary: "lc_binary (lfs_run_config settings mirror storage home) = ls_lfs_binary settings" for mirror storage home
    by (simp add: lfs_run_config_def)
  show thesis
    using assms by (auto simp: lfs_collect_def Let_def split: sum.splits if_splits intro: that [OF binary])
qed

lemma ran_iff: "map_sum LfsRunner id outcome = Inr x \<longleftrightarrow> outcome = Inr x"
  by (cases outcome) simp_all

lemma collect_with_runner_parts:
  assumes "collect_with_runner hash sha store settings run_id run storage fs = (fs', Inr c)"
  obtains listing idents objs version where "run ListAllLong = Inr listing" "exit_code listing = 0"
    "parse_oids (out_stdout listing) (ls_max_objects settings) = Inr idents"
    "collect_objects hash store storage idents fs = (fs', Inr objs)"
    "lf_evidence c = LfsEvidence_new sha version objs" "lf_staged_bytes c \<le> ls_stage_max_bytes settings"
  using assms
  by (auto simp: collect_with_runner_def not_less ran_iff split: sum.splits if_splits prod.splits)

text \<open>
  C27. A complete collection is complete: when \<open>collect\<close> returns evidence, \<open>git lfs ls-files\<close> of the
  configured tool has exited with 0, and the objects of the evidence are exactly the ones its listing
  names, one for each line, in order of their identifiers. They are valid manifest entries, at most as many
  as the settings allow; each identifier is the digest of its reference, and the store holds the bytes of
  every one of them. The staged bytes were within the admitted ceiling, and what the store held before it
  still holds.
\<close>

theorem lfs_collection_verified:
  assumes "lfs_collect hash sha to_string io child write_failed mirror_tree storage_tree store settings run_id relative fs
             = (fs', Inr c)"
    and "blobs_sized fs" and "\<And>root. storage_tree = Some root \<Longrightarrow> readable_tree root"
  shows "(\<exists>config listing. lc_binary config = ls_lfs_binary settings \<and> lfs_run io child config ListAllLong = Inr listing
         \<and> exit_code listing = 0 \<and> map oid (objects (lf_evidence c)) = sort (listed_idents (out_stdout listing)))
    \<and> valid_lfs_objects None (objects (lf_evidence c))
    \<and> length (objects (lf_evidence c)) \<le> ls_max_objects settings
    \<and> aggregate_sha256 (lf_evidence c) = canonical_lfs_digest sha (objects (lf_evidence c))
    \<and> (\<forall>obj \<in> set (objects (lf_evidence c)). blob_holds hash store fs' (blob obj) \<and> sha256 (blob obj) = oid obj)
    \<and> lf_staged_bytes c \<le> ls_stage_max_bytes settings
    \<and> (\<forall>r. blob_holds hash store fs r \<longrightarrow> blob_holds hash store fs' r)"
proof -
  from assms(1) obtain config where binary: "lc_binary config = ls_lfs_binary settings"
    and collect: "collect_with_runner hash sha store settings run_id (lfs_run io child config) storage_tree fs = (fs', Inr c)"
    by (rule lfs_collect_runs)
  from collect obtain listing idents objs version where list: "lfs_run io child config ListAllLong = Inr listing"
      "exit_code listing = 0"
    and run: "parse_oids (out_stdout listing) (ls_max_objects settings) = Inr idents"
    and objs: "collect_objects hash store storage_tree idents fs = (fs', Inr objs)"
    and c: "lf_evidence c = LfsEvidence_new sha version objs" "lf_staged_bytes c \<le> ls_stage_max_bytes settings"
    by (rule collect_with_runner_parts)
  note sound = parse_oids_sound [OF run] and verified = collect_objects_verified [OF objs assms(2,3)]
  have order: "sorted_wrt (<) (map oid objs)" using sound verified by simp
  then have "sort_key oid objs = objs"
    by (intro sort_key_sorted) (simp add: strict_sorted_imp_sorted)
  moreover have "valid_lfs_objects None objs"
    using sound verified by (intro sorted_objects_valid [OF order]) (auto simp: OWNER_def list_all_iff)
  moreover have "length objs \<le> ls_max_objects settings"
    using sound verified by (metis length_map)
  moreover have "map oid objs = sort (listed_idents (out_stdout listing))"
    using verified parse_oids_exact [OF run] by simp
  ultimately show ?thesis using c verified binary list by (auto simp: LfsEvidence_new_def Let_def)
qed


subsection \<open>A collection of one object\<close>

definition example_oid :: string where
  "example_oid = encode_hex (example_hash [7, 8])"

definition example_lfs_child :: "string \<Rightarrow> string \<Rightarrow> string list \<Rightarrow> (string \<times> string) list \<Rightarrow> child_result" where
  "example_lfs_child _ _ args _ =
     Exited (Some 0) (if args = [''version''] then [''git-lfs/3 ''] else if args = [''ls-files'', ''--all'', ''--long'']
                      then [example_oid @ '' * a.bin'' @ [CHR 0x0A]] else []) []"

definition example_storage :: disk_node where
  "example_storage = DirNode [(''objects'', DirNode [(take 2 example_oid, DirNode [(take 2 (drop 2 example_oid),
     DirNode [(example_oid, FileNode 2 [[7, 8]])])])])]"

definition example_lfs_settings :: LfsCollectionSettings where
  "example_lfs_settings =
     \<lparr> ls_lfs_binary = ''/usr/bin/git-lfs'', ls_mirror_root = ''/v'', ls_work_root = ''/w'', ls_stage_max_bytes = 10,
       ls_max_objects = 4, ls_deadline = 60, ls_transfer_mode = Basic \<rparr>"

definition example_lfs_io :: lfs_run_io where
  "example_lfs_io = \<lparr> li_canonicalize = (\<lambda>p. Some [p]), li_lstat = (\<lambda>_. NotFound), li_storage_error = None, li_home_error = None \<rparr>"

lemma read_capped_within:
  assumes "\<forall>chunk \<in> set chunks. chunk \<noteq> []" and "length (concat chunks) \<le> cap"
  shows "read_capped chunks cap [] = (concat chunks, False)"
  using read_capped_exact [OF assms(1), of cap] assms(2) by simp

definition example_lfs_outcome :: "LfsOperation \<Rightarrow> (LfsRunnerError, RunOutcome) result" where
  "example_lfs_outcome operation =
     Inr \<lparr> exit_code = 0,
           out_stdout = (case operation of LfsVersion \<Rightarrow> ''git-lfs/3 ''
                          | ListAllLong \<Rightarrow> example_oid @ '' * a.bin'' @ [CHR 0x0A] | _ \<Rightarrow> ''''),
           out_stderr = '''', stdout_truncated = False, stderr_truncated = False \<rparr>"

lemma example_lfs_run:
  assumes "lfs_process_checks example_lfs_io config = Inr ()"
    and "lc_stdout_cap_bytes config = 4 * 1024 * 1024" and "lc_stderr_cap_bytes config = 256 * 1024"
  shows "lfs_run example_lfs_io example_lfs_child config = example_lfs_outcome"
proof
  fix operation
  have "length example_oid = 64" by (simp add: example_oid_def example_hash_def)
  then show "lfs_run example_lfs_io example_lfs_child config operation = example_lfs_outcome operation"
    using assms
    by (cases operation) (auto simp: lfs_run_def example_lfs_child_def example_lfs_outcome_def read_capped_within)
qed

definition example_config :: LfsRunConfig where
  "example_config = lfs_run_config example_lfs_settings
     \<lparr> cp_root = [''/v''], cp_resolved = [''/v'', ''m.git''] \<rparr>
     \<lparr> cp_root = [''/w''], cp_resolved = [''/w'', ''runs'', ''r'', ''lfs''] \<rparr>
     \<lparr> cp_root = [''/w''], cp_resolved = [''/w'', ''runs'', ''r'', ''home''] \<rparr>"

lemma example_config_checked: "lfs_process_checks example_lfs_io example_config = Inr ()"
proof -
  have "lfs_process_checks example_lfs_io example_config
      = lfs_process_checks example_lfs_io (example_config\<lparr>lc_stdout_cap_bytes := 0, lc_stderr_cap_bytes := 0\<rparr>)"
    by (simp add: lfs_process_checks_def)
  also have "\<dots> = Inr ()" unfolding example_config_def lfs_run_config_def LfsRunConfig.simps by code_simp
  finally show ?thesis .
qed

lemma example_confined:
  "ConfinedPath_new (li_canonicalize example_lfs_io) (li_lstat example_lfs_io) ''/v'' ''m.git''
     = Inr \<lparr> cp_root = [''/v''], cp_resolved = [''/v'', ''m.git''] \<rparr>"
  "ConfinedPath_new (li_canonicalize example_lfs_io) (li_lstat example_lfs_io) ''/w'' ''runs/r/lfs''
     = Inr \<lparr> cp_root = [''/w''], cp_resolved = [''/w'', ''runs'', ''r'', ''lfs''] \<rparr>"
  "ConfinedPath_new (li_canonicalize example_lfs_io) (li_lstat example_lfs_io) ''/w'' ''runs/r/home''
     = Inr \<lparr> cp_root = [''/w''], cp_resolved = [''/w'', ''runs'', ''r'', ''home''] \<rparr>"
  by code_simp+

definition example_collected :: "blob_fs \<times> (LfsCollectionError, LfsCollection) result" where
  "example_collected =
     collect_with_runner example_hash (\<lambda>s. s) example_store example_lfs_settings 5 example_lfs_outcome
       (Some example_storage) (\<lambda>_. None)"

lemma example_collect:
  "lfs_collect example_hash (\<lambda>s. s) (\<lambda>_. ''r'') example_lfs_io example_lfs_child (\<lambda>_. False) None
     (Some example_storage) example_store example_lfs_settings 5 ''m.git'' (\<lambda>_. None) = example_collected"
proof -
  have settings: "ls_mirror_root example_lfs_settings = ''/v''" "ls_work_root example_lfs_settings = ''/w''"
    "ls_transfer_mode example_lfs_settings = Basic"
    by (simp_all add: example_lfs_settings_def)
  have "lfs_run example_lfs_io example_lfs_child example_config = example_lfs_outcome"
    by (rule example_lfs_run [OF example_config_checked]) (simp_all add: example_config_def lfs_run_config_def)
  then show ?thesis
    by (simp add: lfs_collect_def settings example_confined example_collected_def example_config_def)
qed

theorem lfs_collection_verified_witness:
  "\<exists>fs' c. example_collected = (fs', Inr c) \<and> map oid (objects (lf_evidence c)) = [example_oid]
     \<and> tool_version (lf_evidence c) = ''git-lfs/3'' \<and> valid_lfs_objects None (objects (lf_evidence c))"
proof -
  have "case snd example_collected of
      Inr c \<Rightarrow> map oid (objects (lf_evidence c)) = [example_oid] \<and> tool_version (lf_evidence c) = ''git-lfs/3'' | Inl _ \<Rightarrow> False"
    by code_simp
  then obtain c where c: "snd example_collected = Inr c" "map oid (objects (lf_evidence c)) = [example_oid]"
    "tool_version (lf_evidence c) = ''git-lfs/3''" by (auto split: sum.splits)
  then have run: "lfs_collect example_hash (\<lambda>s. s) (\<lambda>_. ''r'') example_lfs_io example_lfs_child (\<lambda>_. False) None
       (Some example_storage) example_store example_lfs_settings 5 ''m.git'' (\<lambda>_. None) = (fst example_collected, Inr c)"
    by (simp add: example_collect prod_eq_iff)
  have "valid_lfs_objects None (objects (lf_evidence c))"
    using lfs_collection_verified [OF run] by (simp add: blobs_sized_def example_storage_def readable_def)
  then show ?thesis using c by (intro exI [of _ "fst example_collected"] exI [of _ c]) (simp add: prod_eq_iff)
qed

end

