(* ===== verification/Mirror_Lifecycle.thy ===== *)
theory Mirror_Lifecycle
  imports Snapshot_Store LFS_Collection
begin

text \<open>
  The clone, the fetch and the verification of one bare mirror
  (\<open>services/vault/src/mirror_lifecycle.rs\<close>). A run threads a world of the database,
  the directories on disk and the blob store; each database call commits on its own. What a Git process
  prints and does to the disk, when the cancellation flag is seen, and how the file system answers are
  parameters. The semaphore of four permits and the two hooks for tests are not modelled.
\<close>

subsection \<open>Settings, requests and the world\<close>

record MirrorLifecycleSettings =
  ms_root :: string
  ms_work_root :: string
  ms_git_binary :: string
  ms_per_mirror_max_bytes :: u64
  ms_global_max_bytes :: u64

definition MirrorLifecycle_new ::
  "bool \<Rightarrow> MirrorLifecycleSettings \<Rightarrow> (VaultError, MirrorLifecycleSettings) result" where
  "MirrorLifecycle_new roots_made settings =
     (if ms_per_mirror_max_bytes settings = 0 \<or> ms_global_max_bytes settings = 0 \<or> \<not> roots_made
      then Inl StorageFailed else Inr settings)"

record MirrorRequest =
  mq_target_id :: uuid
  mq_source :: string
  mq_reservation_bytes :: u64
  mq_lfs_enabled :: bool

definition MirrorRequest_new :: "uuid \<Rightarrow> string \<Rightarrow> u64 \<Rightarrow> MirrorRequest" where
  "MirrorRequest_new target src bytes =
     \<lparr> mq_target_id = target, mq_source = src, mq_reservation_bytes = bytes, mq_lfs_enabled = False \<rparr>"

definition with_lfs :: "MirrorRequest \<Rightarrow> MirrorRequest" where
  "with_lfs request = request\<lparr>mq_lfs_enabled := True\<rparr>"

record LifecycleOutcome =
  le_mirror :: MirrorResult
  le_lfs_required :: bool
  le_lfs :: "LfsCollection option"
  le_lfs_failure_class :: "string option"

definition LifecycleOutcome_is_success :: "LifecycleOutcome \<Rightarrow> bool" where
  "LifecycleOutcome_is_success outcome \<longleftrightarrow>
     MirrorResult_is_success (le_mirror outcome) \<and> (\<not> le_lfs_required outcome \<or> le_lfs outcome \<noteq> None)"

type_synonym disk = "string \<Rightarrow> disk_node option"

record mirror_world =
  mw_db :: vault_db
  mw_disk :: disk
  mw_blobs :: blob_fs

text \<open>The parts of the \<open>uuid\<close> crate and of the operating system a run uses.\<close>

record mirror_env =
  me_store :: store_env
  as_simple :: "uuid \<Rightarrow> string"
  as_hyphenated :: "uuid \<Rightarrow> string"
  me_sha256 :: "string \<Rightarrow> string"
  me_resolve :: "string \<Rightarrow> string list option"
  me_lstat :: "string list \<Rightarrow> lstat"
  me_canonicalize :: "string \<Rightarrow> string option"
  me_staging :: staging_io
  me_run_root_made :: bool
  me_parent_made :: bool
  me_rename_allowed :: bool
  me_times :: "nat \<Rightarrow> timestamp"

record lfs_attachment =
  la_settings :: LfsCollectionSettings
  la_store :: LocalBlobStore
  la_hash :: "u8 list \<Rightarrow> u8 list"
  la_io :: lfs_run_io
  la_child :: "string \<Rightarrow> string \<Rightarrow> string list \<Rightarrow> (string \<times> string) list \<Rightarrow> child_result"
  la_write_failed :: "string list \<Rightarrow> bool"
  la_mirror_tree :: "disk_node option"
  la_storage_tree :: "disk_node option"
  la_run_id :: uuid

subsection \<open>One Git call\<close>

text \<open>
  The flag is read before the call; then the process and a change of the flag race. A change that leaves
  the flag clear, or the loss of the sender, drops the process and runs the command again.
\<close>

datatype select_race = RunnerFirst | SignalFirst bool

record git_call =
  gc_cancelled :: bool
  gc_race :: select_race
  gc_child :: "string \<Rightarrow> string \<Rightarrow> string list \<Rightarrow> (string \<times> string) list \<Rightarrow> child_result"
  gc_effect :: "disk \<Rightarrow> disk"
  gc_again_child :: "string \<Rightarrow> string \<Rightarrow> string list \<Rightarrow> (string \<times> string) list \<Rightarrow> child_result"
  gc_again_effect :: "disk \<Rightarrow> disk"

datatype GitCallFailure = GitCancelled | GitRunnerFailed

datatype IntegrityFailure = Broken | IntegrityCancelled | Unavailable

fun IntegrityFailure_from :: "GitCallFailure \<Rightarrow> IntegrityFailure" where
  "IntegrityFailure_from GitCancelled = IntegrityCancelled"
| "IntegrityFailure_from GitRunnerFailed = Unavailable"

definition mirror_runner :: "MirrorLifecycleSettings \<Rightarrow> string \<Rightarrow> RunConfig" where
  "mirror_runner settings directory =
     \<lparr> git_binary = ms_git_binary settings, allowed = [CloneMirror, Subcommand.Fetch, Fsck, ShowRef, RevList],
       working_directory = directory, run_home = ms_work_root settings @ ''/runner-home'', deadline = 60,
       stdout_cap_bytes = 64 * 1024, stderr_cap_bytes = 64 * 1024, credential_helper = ''/usr/bin/false'' \<rparr>"

definition run_git ::
  "mirror_env \<Rightarrow> git_call \<Rightarrow> RunConfig \<Rightarrow> GitOperation \<Rightarrow> disk \<Rightarrow> disk \<times> (GitCallFailure, RunOutcome) result" where
  "run_git env call config op d =
     (if gc_cancelled call then (d, Inl GitCancelled)
      else case gc_race call of
             RunnerFirst \<Rightarrow>
               (gc_effect call d, map_sum (\<lambda>_. GitRunnerFailed) id
                  (git_run (me_canonicalize env) (me_staging env) (gc_child call) config [] op))
           | SignalFirst True \<Rightarrow> (gc_effect call d, Inl GitCancelled)
           | SignalFirst False \<Rightarrow>
               (gc_again_effect call (gc_effect call d), map_sum (\<lambda>_. GitRunnerFailed) id
                  (git_run (me_canonicalize env) (me_staging env) (gc_again_child call) config [] op)))"

definition is_zero_exit :: "(GitCallFailure, RunOutcome) result \<Rightarrow> bool" where
  "is_zero_exit r = (case r of Inl _ \<Rightarrow> False | Inr outcome \<Rightarrow> exit_code outcome = 0)"

subsection \<open>Directories\<close>

fun mirror_entries_size :: "u64 \<Rightarrow> (string \<times> disk_node) list \<Rightarrow> u64 option" where
  "mirror_entries_size acc [] = Some acc"
| "mirror_entries_size acc ((_, FileNode n _) # rest) = mirror_entries_size (saturating_add acc n) rest"
| "mirror_entries_size acc ((_, DirNode entries) # rest) =
     (case mirror_entries_size 0 entries of
        None \<Rightarrow> None | Some n \<Rightarrow> mirror_entries_size (saturating_add acc n) rest)"
| "mirror_entries_size acc ((_, LinkNode) # rest) = None"
| "mirror_entries_size acc ((_, SpecialNode) # rest) = None"
| "mirror_entries_size acc ((_, UnreadableNode) # rest) = None"

fun mirror_directory_size :: "disk_node option \<Rightarrow> u64 option" where
  "mirror_directory_size (Some (DirNode entries)) = mirror_entries_size 0 entries"
| "mirror_directory_size _ = None"

definition mirror_relative_path :: "mirror_env \<Rightarrow> uuid \<Rightarrow> string" where
  "mirror_relative_path env target =
     ''mirrors/'' @ take 2 (as_simple env target) @ ''/'' @ as_hyphenated env target @ ''.git''"

definition lifecycle_mirror_path :: "mirror_env \<Rightarrow> MirrorLifecycleSettings \<Rightarrow> uuid \<Rightarrow> (VaultError, string) result" where
  "lifecycle_mirror_path env settings target =
     (case ConfinedPath_new (me_resolve env) (me_lstat env) (ms_root settings) (mirror_relative_path env target) of
        Inl _ \<Rightarrow> Inl StorageFailed
      | Inr path \<Rightarrow> Inr (path_text (cp_resolved path)))"

text \<open>\<open>rename\<close>: a directory replaces nothing or an empty directory.\<close>

definition rename_dir :: "mirror_env \<Rightarrow> string \<Rightarrow> string \<Rightarrow> disk \<Rightarrow> disk option" where
  "rename_dir env from_path to_path d =
     (if me_rename_allowed env \<and> d from_path \<noteq> None \<and> d to_path \<in> {None, Some (DirNode [])}
      then Some (d(from_path := None, to_path := d from_path)) else None)"

definition publish_staging ::
  "mirror_env \<Rightarrow> MirrorLifecycleSettings \<Rightarrow> uuid \<Rightarrow> string \<Rightarrow> disk \<Rightarrow> disk \<times> u64 option" where
  "publish_staging env settings target staging d =
     (case lifecycle_mirror_path env settings target of
        Inl _ \<Rightarrow> (d, None)
      | Inr published \<Rightarrow>
          if \<not> me_parent_made env then (d, None)
          else (case rename_dir env staging published d of
                  None \<Rightarrow> (d, None)
                | Some d' \<Rightarrow> (d', mirror_directory_size (d' published))))"

subsection \<open>Verification\<close>

definition integrity_evidence ::
  "mirror_env \<Rightarrow> MirrorLifecycleSettings \<Rightarrow> (nat \<Rightarrow> git_call) \<Rightarrow> string \<Rightarrow> disk
     \<Rightarrow> disk \<times> (IntegrityFailure, u64) result" where
  "integrity_evidence env settings calls directory d =
     (let config = mirror_runner settings directory
      in case run_git env (calls 1) config fsck_full d of
           (d1, fsck) \<Rightarrow>
             if fsck = Inl GitCancelled then (d1, Inl IntegrityCancelled)
             else if \<not> is_zero_exit fsck then (d1, Inl Broken)
             else
               (case run_git env (calls 2) config show_ref d1 of
                  (d2, Inl e) \<Rightarrow> (d2, Inl (IntegrityFailure_from e))
                | (d2, Inr refs_run) \<Rightarrow>
                    (case run_git env (calls 3) config rev_list_all_objects d2 of
                       (d3, Inl e) \<Rightarrow> (d3, Inl (IntegrityFailure_from e))
                     | (d3, Inr objects_run) \<Rightarrow>
                         let count = length (filter (\<lambda>line. line \<noteq> []) (str_lines (out_stdout objects_run)))
                         in if exit_code refs_run \<noteq> 0 \<or> exit_code objects_run \<noteq> 0 then (d3, Inl Broken)
                            else if \<not> utf8_valid (out_stdout refs_run) \<or> \<not> utf8_valid (out_stdout objects_run)
                            then (d3, Inl Broken)
                            else if str_lines (out_stdout refs_run) = [] \<or> count = 0 then (d3, Inl Broken)
                            else (d3, Inr (word_of_nat count)))))"

fun verification_result ::
  "MirrorOperation \<Rightarrow> (IntegrityFailure, u64) result \<Rightarrow> u64 option \<Rightarrow> MirrorResult" where
  "verification_result operation (Inr n) (Some b) = Succeeded n b"
| "verification_result operation (Inr n) None = MirrorResult.Failed DependencyUnavailable"
| "verification_result operation (Inl Broken) _ = IntegrityFailed"
| "verification_result operation (Inl IntegrityCancelled) _ = MirrorInterrupted (MirrorOperation_checkpoint operation)"
| "verification_result operation (Inl Unavailable) _ = MirrorResult.Failed DependencyUnavailable"

definition clone_and_verify ::
  "mirror_env \<Rightarrow> MirrorLifecycleSettings \<Rightarrow> (nat \<Rightarrow> git_call) \<Rightarrow> uuid \<Rightarrow> uuid \<Rightarrow> string \<Rightarrow> disk \<Rightarrow> disk \<times> MirrorResult" where
  "clone_and_verify env settings calls target run_id src d =
     (let stage_relative = ''runs/'' @ uuid_to_string (me_store env) run_id @ ''/mirror.git''
      in if \<not> me_run_root_made env then (d, MirrorResult.Failed DependencyUnavailable)
         else case ConfinedPath_new (me_resolve env) (me_lstat env) (ms_work_root settings) stage_relative of
                Inl _ \<Rightarrow> (d, MirrorResult.Failed UnsafePath)
              | Inr stage \<Rightarrow>
                  let staged = path_text (cp_resolved stage)
                  in case run_git env (calls 0) (mirror_runner settings (ms_work_root settings)) (clone_mirror src stage) d of
                       (d1, cloned) \<Rightarrow>
                         if cloned = Inl GitCancelled
                         then (d1(staged := None), MirrorInterrupted (MirrorOperation_checkpoint InitialClone))
                         else if \<not> is_zero_exit cloned
                         then (d1(staged := None), MirrorResult.Failed RemoteUnavailable)
                         else
                           (case integrity_evidence env settings calls staged d1 of
                              (d2, evidence) \<Rightarrow>
                                (case (if is_ok evidence then publish_staging env settings target staged d2 else (d2, None)) of
                                   (d3, bytes) \<Rightarrow>
                                     (d3(staged := None), verification_result InitialClone evidence bytes))))"

definition fetch_and_verify ::
  "mirror_env \<Rightarrow> MirrorLifecycleSettings \<Rightarrow> (nat \<Rightarrow> git_call) \<Rightarrow> string \<Rightarrow> string \<Rightarrow> disk \<Rightarrow> disk \<times> MirrorResult" where
  "fetch_and_verify env settings calls src published d =
     (case run_git env (calls 0) (mirror_runner settings published) (fetch_all src) d of
        (d1, fetched) \<Rightarrow>
          if fetched = Inl GitCancelled
          then (d1, MirrorInterrupted (MirrorOperation_checkpoint MirrorOperation.Fetch))
          else if \<not> is_zero_exit fetched then (d1, MirrorResult.Failed RemoteUnavailable)
          else
            (case integrity_evidence env settings calls published d1 of
               (d2, evidence) \<Rightarrow>
                 (d2, verification_result MirrorOperation.Fetch evidence (mirror_directory_size (d2 published)))))"


subsection \<open>The run\<close>

text \<open>A database call of the service: it commits or fails alone; a failure ends the run with the world so far.\<close>

type_synonym 'a world_result = "mirror_world \<times> (VaultError, 'a) result"

definition db_call ::
  "(vault_db \<Rightarrow> (VaultError, 'a \<times> vault_db) result) \<Rightarrow> mirror_world \<Rightarrow> ('a \<Rightarrow> mirror_world \<Rightarrow> 'b world_result)
     \<Rightarrow> 'b world_result" where
  "db_call f w k =
     (case f (mw_db w) of Inl e \<Rightarrow> (w, Inl e) | Inr (x, db') \<Rightarrow> k x (w\<lparr>mw_db := db'\<rparr>))"

definition unit_call :: "(VaultError, vault_db) result \<Rightarrow> (VaultError, unit \<times> vault_db) result" where
  "unit_call r = map_sum id (Pair ()) r"

definition set_status_call ::
  "mirror_env \<Rightarrow> nat \<Rightarrow> uuid \<Rightarrow> TargetStatus \<Rightarrow> mirror_world \<Rightarrow> unit world_result" where
  "set_status_call env n target status w =
     db_call (\<lambda>db. unit_call (set_target_status db (me_times env n) target status)) w (\<lambda>_ w'. (w', Inr ()))"

definition finish ::
  "mirror_env \<Rightarrow> uuid \<Rightarrow> uuid \<Rightarrow> MirrorOperation \<Rightarrow> MirrorResult \<Rightarrow> mirror_world \<Rightarrow> unit world_result" where
  "finish env target run_id operation r w =
     db_call (\<lambda>db. unit_call (record_mirror_run (me_times env 2) db target run_id operation r)) w (\<lambda>_ w1.
       case r of
         Succeeded n bytes \<Rightarrow>
           db_call (\<lambda>db. unit_call (ensure_mirror (me_store env) db target (mirror_relative_path env target))) w1 (\<lambda>_ w2.
           db_call (\<lambda>db. unit_call (record_verified_mirror (me_times env 4) db target bytes)) w2 (\<lambda>_ w3.
             set_status_call env 5 target Ready w3))
       | IntegrityFailed \<Rightarrow>
           set_status_call env 5 target TargetStatus.Degraded (w1\<lparr>mw_db := mark_mirror_degraded (mw_db w1) target\<rparr>)
       | _ \<Rightarrow> set_status_call env 5 target TargetStatus.Degraded w1)"

definition transition_started ::
  "mirror_env \<Rightarrow> uuid \<Rightarrow> MirrorOperation \<Rightarrow> mirror_world \<Rightarrow> unit world_result" where
  "transition_started env target operation w =
     set_status_call env 0 target
       (case operation of InitialClone \<Rightarrow> Cloning | MirrorOperation.Fetch \<Rightarrow> Fetching) w"

definition admitted_reservation :: "lfs_attachment option \<Rightarrow> MirrorRequest \<Rightarrow> u64" where
  "admitted_reservation collector request =
     saturating_add (mq_reservation_bytes request)
       (if mq_lfs_enabled request
        then (case collector of None \<Rightarrow> 0 | Some c \<Rightarrow> lfs_reservation_bytes (la_settings c)) else 0)"

fun lfs_failure_class :: "LfsCollectionError \<Rightarrow> string" where
  "lfs_failure_class LfsQuotaExceeded = FailureClass_code QuotaExceeded"
| "lfs_failure_class LfsUnsafePath = FailureClass_code UnsafePath"
| "lfs_failure_class (LfsRunner LfsInterrupted) = FailureClass_code Interrupted"
| "lfs_failure_class (LfsRunner LfsSpawnFailed) = FailureClass_code DependencyUnavailable"
| "lfs_failure_class (LfsRunner (LfsInvalidConfiguration _)) = FailureClass_code DependencyUnavailable"
| "lfs_failure_class LfsStorage = FailureClass_code DependencyUnavailable"
| "lfs_failure_class LfsToolUnavailable = FailureClass_code DependencyUnavailable"
| "lfs_failure_class (LfsRunner (LfsTimeout _)) = FailureClass_code RemoteUnavailable"
| "lfs_failure_class (LfsRunner (LfsOutputLimitExceeded _ _)) = FailureClass_code LfsIncomplete"
| "lfs_failure_class (LfsToolFailed _ _) = FailureClass_code LfsIncomplete"
| "lfs_failure_class LfsInvalidEnumeration = FailureClass_code LfsIncomplete"
| "lfs_failure_class LfsMissingOrCorrupt = FailureClass_code LfsIncomplete"

definition collect_lfs ::
  "mirror_env \<Rightarrow> lfs_attachment option \<Rightarrow> MirrorRequest \<Rightarrow> MirrorResult \<Rightarrow> blob_fs
     \<Rightarrow> blob_fs \<times> (LfsCollectionError, LfsCollection) result option" where
  "collect_lfs env collector request r blobs =
     (if \<not> MirrorResult_is_success r \<or> \<not> mq_lfs_enabled request then (blobs, None)
      else case collector of
             None \<Rightarrow> (blobs, Some (Inl LfsToolUnavailable))
           | Some c \<Rightarrow>
               map_prod id Some (lfs_collect (la_hash c) (me_sha256 env) (uuid_to_string (me_store env)) (la_io c) (la_child c)
                 (la_write_failed c) (la_mirror_tree c) (la_storage_tree c) (la_store c) (la_settings c) (la_run_id c)
                 (mirror_relative_path env (mq_target_id request)) blobs))"

definition persist_lfs_result ::
  "mirror_env \<Rightarrow> uuid \<Rightarrow> uuid \<Rightarrow> (LfsCollectionError, LfsCollection) result option \<Rightarrow> mirror_world
     \<Rightarrow> (LfsCollection option \<times> string option) world_result" where
  "persist_lfs_result env target run_id collected w =
     (case collected of
        Some (Inr c) \<Rightarrow>
          db_call (\<lambda>db. record_lfs_collection (me_store env) (me_sha256 env) (me_times env 6) db target run_id
                          (LfsComplete (lf_evidence c))) w (\<lambda>_ w1. (w1, Inr (Some c, None)))
      | Some (Inl e) \<Rightarrow>
          db_call (\<lambda>db. record_lfs_collection (me_store env) (me_sha256 env) (me_times env 6) db target run_id
                          (LfsFailed (lfs_failure_class e))) w (\<lambda>_ w1. (w1, Inr (None, Some (lfs_failure_class e))))
      | None \<Rightarrow> (w, Inr (None, None)))"

definition world_bind :: "'a world_result \<Rightarrow> ('a \<Rightarrow> mirror_world \<Rightarrow> 'b world_result) \<Rightarrow> 'b world_result" where
  "world_bind m k = (case m of (w, Inl e) \<Rightarrow> (w, Inl e) | (w, Inr x) \<Rightarrow> k x w)"

definition plain_outcome :: "MirrorRequest \<Rightarrow> MirrorResult \<Rightarrow> LifecycleOutcome" where
  "plain_outcome request r =
     \<lparr> le_mirror = r, le_lfs_required = mq_lfs_enabled request, le_lfs = None, le_lfs_failure_class = None \<rparr>"

text \<open>The part of a run after its admission: Git, the collector, the terminal record and its consequences.\<close>

definition run_admitted ::
  "mirror_env \<Rightarrow> MirrorLifecycleSettings \<Rightarrow> lfs_attachment option \<Rightarrow> (nat \<Rightarrow> git_call) \<Rightarrow> MirrorRequest \<Rightarrow> string
     \<Rightarrow> MirrorOperation \<Rightarrow> uuid \<Rightarrow> mirror_world \<Rightarrow> LifecycleOutcome world_result" where
  "run_admitted env settings collector calls request published operation run_id w =
     (let target = mq_target_id request
      in case (case operation of
                 InitialClone \<Rightarrow> clone_and_verify env settings calls target run_id (mq_source request) (mw_disk w)
               | MirrorOperation.Fetch \<Rightarrow> fetch_and_verify env settings calls (mq_source request) published (mw_disk w)) of
           (d1, r) \<Rightarrow>
             (case collect_lfs env collector request r (mw_blobs w) of
                (blobs1, collected) \<Rightarrow>
                  world_bind (finish env target run_id operation r (w\<lparr>mw_disk := d1, mw_blobs := blobs1\<rparr>)) (\<lambda>_ w2.
                  world_bind (persist_lfs_result env target run_id collected w2) (\<lambda>(lfs_found, failure) w3.
                  world_bind (if mq_lfs_enabled request \<and> lfs_found = None \<and> MirrorResult_is_success r
                              then set_status_call env 7 target TargetStatus.Degraded w3 else (w3, Inr ())) (\<lambda>_ w4.
                    (w4, Inr \<lparr> le_mirror = r, le_lfs_required = mq_lfs_enabled request, le_lfs = lfs_found,
                               le_lfs_failure_class = failure \<rparr>))))))"

definition chosen_operation :: "disk \<Rightarrow> string \<Rightarrow> MirrorOperation" where
  "chosen_operation d published = (if d published \<noteq> None then MirrorOperation.Fetch else InitialClone)"

text \<open>\<open>stopped\<close> is the flag as it is read between the admission and the first Git process.\<close>

definition run_cancellable ::
  "mirror_env \<Rightarrow> MirrorLifecycleSettings \<Rightarrow> lfs_attachment option \<Rightarrow> (nat \<Rightarrow> git_call) \<Rightarrow> bool \<Rightarrow> MirrorRequest
     \<Rightarrow> mirror_world \<Rightarrow> LifecycleOutcome world_result" where
  "run_cancellable env settings collector calls stopped request w =
     (let target = mq_target_id request
      in case SourceUrl_parse (mq_source request) of
           Inl _ \<Rightarrow> (w, Inl (InvalidDelivery ''source_url''))
         | Inr _ \<Rightarrow>
             (case lifecycle_mirror_path env settings target of
                Inl e \<Rightarrow> (w, Inl e)
              | Inr published \<Rightarrow>
                  let operation = chosen_operation (mw_disk w) published
                  in world_bind (transition_started env target operation w) (\<lambda>_ w1.
                       let run_id = now_v7 (me_store env) (mw_db w1)
                       in db_call (\<lambda>db. reserve_mirror_quota (me_times env 1) (advance db) target run_id
                                   (admitted_reservation collector request) (ms_per_mirror_max_bytes settings)
                                   (ms_global_max_bytes settings)) w1 (\<lambda>admission w2.
                            if admission = QuotaReservationExceeded
                            then world_bind (finish env target run_id operation QuotaRefused w2) (\<lambda>_ w3.
                                   (w3, Inr (plain_outcome request QuotaRefused)))
                            else if stopped
                            then let r = MirrorInterrupted (MirrorOperation_checkpoint operation)
                                 in world_bind (finish env target run_id operation r w2) (\<lambda>_ w3.
                                      (w3, Inr (plain_outcome request r)))
                            else run_admitted env settings collector calls request published operation run_id w2))))"


subsection \<open>Reading a run\<close>

lemma unit_call_ok [simp]: "unit_call r = Inr (u, db') \<longleftrightarrow> r = Inr db'"
  by (cases r) (auto simp: unit_call_def)

lemma unit_call_error [simp]: "unit_call r = Inl e \<longleftrightarrow> r = Inl e"
  by (cases r) (auto simp: unit_call_def)

lemma db_call_ok [simp]:
  "db_call f w k = (w', Inr y) \<longleftrightarrow> (\<exists>x db'. f (mw_db w) = Inr (x, db') \<and> k x (w\<lparr>mw_db := db'\<rparr>) = (w', Inr y))"
  by (auto simp: db_call_def split: sum.splits)

lemma world_bind_ok [simp]:
  "world_bind m k = (w', Inr y) \<longleftrightarrow> (\<exists>w x. m = (w, Inr x) \<and> k x w = (w', Inr y))"
  by (auto simp: world_bind_def split: sum.splits prod.splits)

lemma set_status_call_ok [simp]:
  "set_status_call env n target status w = (w', Inr u) \<longleftrightarrow>
     (\<exists>db'. set_target_status (mw_db w) (me_times env n) target status = Inr db' \<and> w' = w\<lparr>mw_db := db'\<rparr>)"
  by (auto simp: set_status_call_def)

text \<open>What a call answers does not depend on the disk.\<close>

definition git_answer :: "mirror_env \<Rightarrow> git_call \<Rightarrow> RunConfig \<Rightarrow> GitOperation \<Rightarrow> (GitCallFailure, RunOutcome) result" where
  "git_answer env call config op = snd (run_git env call config op (\<lambda>_. None))"

lemma run_git_answer: "run_git env call config op d = (d', r) \<Longrightarrow> r = git_answer env call config op"
  by (auto simp: git_answer_def run_git_def split: if_splits select_race.splits bool.splits)

text \<open>The three checks of a directory passed and counted \<open>n\<close> objects.\<close>

definition checks_passed :: "mirror_env \<Rightarrow> MirrorLifecycleSettings \<Rightarrow> (nat \<Rightarrow> git_call) \<Rightarrow> string \<Rightarrow> nat \<Rightarrow> bool" where
  "checks_passed env settings calls directory n \<longleftrightarrow>
     (\<exists>fsck refs_run objects_run.
        git_answer env (calls 1) (mirror_runner settings directory) fsck_full = Inr fsck \<and> exit_code fsck = 0
        \<and> git_answer env (calls 2) (mirror_runner settings directory) show_ref = Inr refs_run \<and> exit_code refs_run = 0
        \<and> git_answer env (calls 3) (mirror_runner settings directory) rev_list_all_objects = Inr objects_run
        \<and> exit_code objects_run = 0
        \<and> str_lines (out_stdout refs_run) \<noteq> [] \<and> 0 < n
        \<and> n = length (filter (\<lambda>line. line \<noteq> []) (str_lines (out_stdout objects_run))))"

lemma is_zero_exit_iff [simp]: "is_zero_exit r \<longleftrightarrow> (\<exists>o'. r = Inr o' \<and> exit_code o' = 0)"
  by (auto simp: is_zero_exit_def split: sum.splits)

lemma integrity_evidence_sound:
  assumes "integrity_evidence env settings calls directory d = (d', Inr n)"
  shows "\<exists>m. n = word_of_nat m \<and> checks_passed env settings calls directory m"
proof -
  let ?config = "mirror_runner settings directory"
  obtain d1 fsck where fsck: "run_git env (calls 1) ?config fsck_full d = (d1, fsck)" by fastforce
  with assms have ok: "is_zero_exit fsck"
    by (auto simp: integrity_evidence_def Let_def split: if_splits)
  obtain d2 refs_run where refs: "run_git env (calls 2) ?config show_ref d1 = (d2, Inr refs_run)"
    using assms fsck by (auto simp: integrity_evidence_def Let_def split: if_splits sum.splits prod.splits)
  obtain d3 objects_run where objs: "run_git env (calls 3) ?config rev_list_all_objects d2 = (d3, Inr objects_run)"
    using assms fsck refs by (auto simp: integrity_evidence_def Let_def split: if_splits sum.splits prod.splits)
  have "exit_code refs_run = 0 \<and> exit_code objects_run = 0 \<and> str_lines (out_stdout refs_run) \<noteq> []
      \<and> filter (\<lambda>line. line \<noteq> []) (str_lines (out_stdout objects_run)) \<noteq> []
      \<and> n = word_of_nat (length (filter (\<lambda>line. line \<noteq> []) (str_lines (out_stdout objects_run))))"
    using assms fsck refs objs ok by (auto simp: integrity_evidence_def Let_def split: if_splits)
  then show ?thesis
    using ok run_git_answer [OF fsck] run_git_answer [OF refs, symmetric] run_git_answer [OF objs, symmetric]
    unfolding checks_passed_def
    by (intro exI [of _ "length (filter (\<lambda>line. line \<noteq> []) (str_lines (out_stdout objects_run)))"] conjI) auto
qed

lemma verification_result_success:
  "verification_result operation evidence bytes = Succeeded n b \<longleftrightarrow> evidence = Inr n \<and> bytes = Some b"
  by (cases "(operation, evidence, bytes)" rule: verification_result.cases) auto

lemma fetch_and_verify_sound:
  assumes "fetch_and_verify env settings calls src published d = (d', Succeeded n b)"
  shows "(\<exists>m. n = word_of_nat m \<and> checks_passed env settings calls published m)
    \<and> mirror_directory_size (d' published) = Some b"
  using assms
  by (auto simp: fetch_and_verify_def verification_result_success
      dest: integrity_evidence_sound split: prod.splits if_splits)

lemma clone_and_verify_sound:
  assumes "clone_and_verify env settings calls target run_id src d = (d', Succeeded n b)"
    and "lifecycle_mirror_path env settings target = Inr published"
  shows "\<exists>staged. (\<exists>m. n = word_of_nat m \<and> checks_passed env settings calls staged m)
    \<and> (published \<noteq> staged \<longrightarrow> mirror_directory_size (d' published) = Some b)"
proof -
  obtain stage where stage: "ConfinedPath_new (me_resolve env) (me_lstat env) (ms_work_root settings)
      (''runs/'' @ uuid_to_string (me_store env) run_id @ ''/mirror.git'') = Inr stage"
    using assms(1) by (auto simp: clone_and_verify_def Let_def split: if_splits sum.splits)
  let ?staged = "path_text (cp_resolved stage)"
  obtain d1 c where clone: "run_git env (calls 0) (mirror_runner settings (ms_work_root settings)) (clone_mirror src stage) d = (d1, c)"
    by fastforce
  obtain d2 e where check: "integrity_evidence env settings calls ?staged d1 = (d2, e)" by fastforce
  obtain cloned bytes where publish: "(if is_ok e then publish_staging env settings target ?staged d2 else (d2, None)) = (cloned, bytes)"
    by fastforce
  have d': "d' = cloned(?staged := None)" and fin: "e = Inr n" "bytes = Some b"
    using assms(1) stage clone check publish
    by (auto simp: clone_and_verify_def Let_def verification_result_success split: if_splits)
  have evidence: "integrity_evidence env settings calls ?staged d1 = (d2, Inr n)" using check fin by simp
  have pub: "publish_staging env settings target ?staged d2 = (cloned, Some b)" using publish fin by simp
  have "mirror_directory_size (cloned published) = Some b"
    using pub assms(2) by (auto simp: publish_staging_def split: if_splits option.splits)
  then show ?thesis using integrity_evidence_sound [OF evidence] d' by auto
qed


subsection \<open>A mirror is ready only after its checks\<close>

lemma set_target_status_frame:
  "set_target_status db clock t s = Inr db' \<Longrightarrow>
     mirrors db' = mirrors db \<and> mirror_runs db' = mirror_runs db \<and> reservations db' = reservations db
     \<and> map t_id (targets db') = map t_id (targets db) \<and> minted db' = minted db"
  by (auto simp: set_target_status_def guarded_status_update_def write_status_def split: option.splits)

lemma set_status_call_frame [simp]:
  "mirrors (mw_db (fst (set_status_call env n t s w))) = mirrors (mw_db w)"
  "mirror_runs (mw_db (fst (set_status_call env n t s w))) = mirror_runs (mw_db w)"
  "reservations (mw_db (fst (set_status_call env n t s w))) = reservations (mw_db w)"
  "map t_id (targets (mw_db (fst (set_status_call env n t s w)))) = map t_id (targets (mw_db w))"
  "minted (mw_db (fst (set_status_call env n t s w))) = minted (mw_db w)"
  by (auto simp: set_status_call_def db_call_def dest: set_target_status_frame split: sum.splits)

lemma record_lfs_frame:
  "record_lfs_collection env sha now db t run terminal = Inr (i, db') \<Longrightarrow>
     mirrors db' = mirrors db \<and> mirror_runs db' = mirror_runs db \<and> reservations db' = reservations db
     \<and> targets db' = targets db"
  by (auto simp: record_lfs_collection_def insert_collector_run_def advance_def Let_def split: if_splits prod.splits)

lemma persist_lfs_frame [simp]:
  "mirrors (mw_db (fst (persist_lfs_result env t run c w))) = mirrors (mw_db w)"
  "mirror_runs (mw_db (fst (persist_lfs_result env t run c w))) = mirror_runs (mw_db w)"
  "reservations (mw_db (fst (persist_lfs_result env t run c w))) = reservations (mw_db w)"
  by (auto simp: persist_lfs_result_def db_call_def dest!: record_lfs_frame split: sum.splits option.splits)

lemma world_bind_ok_case: "world_bind (w, Inr x) k = k x w"
  by (simp add: world_bind_def)

lemma fst_world_bind: "fst (world_bind m k) = (case snd m of Inl _ \<Rightarrow> fst m | Inr x \<Rightarrow> fst (k x (fst m)))"
  by (auto simp: world_bind_def split: sum.splits prod.splits)

lemma fst_db_call: "fst (db_call f w k) = (case f (mw_db w) of Inl _ \<Rightarrow> w | Inr (x, db') \<Rightarrow> fst (k x (w\<lparr>mw_db := db'\<rparr>)))"
  by (auto simp: db_call_def split: sum.splits)

text \<open>Every ready row of the second table was there before, or it belongs to the target and the condition holds.\<close>

definition ready_rows_from :: "bool \<Rightarrow> uuid \<Rightarrow> vault_db \<Rightarrow> vault_db \<Rightarrow> bool" where
  "ready_rows_from earned target db db' \<longleftrightarrow>
     (\<forall>row \<in> set (mirrors db'). mr_status row = ''ready'' \<longrightarrow> row \<in> set (mirrors db) \<or> earned \<and> mr_target row = target)"

lemma ready_rows_refl: "mirrors db' = mirrors db \<Longrightarrow> ready_rows_from earned target db db'"
  by (simp add: ready_rows_from_def)

lemma ready_rows_verified:
  assumes "ensure_mirror env db target path = Inr db1" and "record_verified_mirror now db1 target bytes = Inr db2"
  shows "ready_rows_from True target db db2"
  using assms
  by (auto simp: ready_rows_from_def ensure_mirror_def record_verified_mirror_def update_mirror_def advance_def split: if_splits)

lemma ready_rows_ensured: "ensure_mirror env db target path = Inr db1 \<Longrightarrow> ready_rows_from earned target db db1"
  by (auto simp: ready_rows_from_def ensure_mirror_def advance_def split: if_splits)

lemma ready_rows_degraded: "ready_rows_from earned target db (mark_mirror_degraded db target)"
  by (auto simp: ready_rows_from_def mark_mirror_degraded_def update_mirror_def)

lemma ready_rows_trans_frame:
  "ready_rows_from earned target db db1 \<Longrightarrow> mirrors db0 = mirrors db \<Longrightarrow> mirrors db2 = mirrors db1
     \<Longrightarrow> ready_rows_from earned target db0 db2"
  by (simp add: ready_rows_from_def)

lemma record_mirror_run_mirrors: "record_mirror_run now db target run op r = Inr db' \<Longrightarrow> mirrors db' = mirrors db"
  by (erule record_mirror_run_shape) simp

lemma finish_ready_rows:
  "ready_rows_from (MirrorResult_is_success r) target (mw_db w) (mw_db (fst (finish env target run_id operation r w)))"
proof (cases "record_mirror_run (me_times env 2) (mw_db w) target run_id operation r")
  case (Inl e)
  then show ?thesis by (simp add: finish_def fst_db_call unit_call_def ready_rows_refl)
next
  case (Inr db1)
  note same = record_mirror_run_mirrors [OF Inr]
  show ?thesis
  proof (cases r)
    case (Succeeded n b)
    have earned: "MirrorResult_is_success r" using Succeeded by (simp add: MirrorResult_is_success_def)
    show ?thesis
    proof (cases "ensure_mirror (me_store env) db1 target (mirror_relative_path env target)")
      case (Inl e)
      then show ?thesis using Inr Succeeded same by (simp add: finish_def fst_db_call unit_call_def ready_rows_refl)
    next
      case ensured: (Inr db2)
      show ?thesis
      proof (cases "record_verified_mirror (me_times env 4) db2 target b")
        case (Inl e)
        then show ?thesis
          using Inr Succeeded same ensured ready_rows_ensured [OF ensured, of True] earned
          by (simp add: finish_def fst_db_call unit_call_def ready_rows_trans_frame)
      next
        case verified: (Inr db3)
        show ?thesis
          using Inr Succeeded ensured verified earned
          by (simp add: finish_def fst_db_call unit_call_def
              ready_rows_trans_frame [OF ready_rows_verified [OF ensured verified] same [symmetric]])
      qed
    qed
  next
    case IntegrityFailed
    then show ?thesis
      using Inr ready_rows_trans_frame [OF ready_rows_degraded same [symmetric]]
      by (simp add: finish_def fst_db_call unit_call_def)
  qed (use Inr same in \<open>simp_all add: finish_def fst_db_call unit_call_def ready_rows_refl\<close>)
qed


lemma reserve_frame:
  "reserve_mirror_quota now db target run req per glob = Inr (outcome, db') \<Longrightarrow>
     mirrors db' = mirrors db \<and> mirror_runs db' = mirror_runs db \<and> targets db' = targets db"
  by (erule reserve_mirror_quota_shape) simp_all

lemma run_admitted_end:
  obtains d1 r blobs1 where
    "(case operation of
        InitialClone \<Rightarrow> clone_and_verify env settings calls (mq_target_id request) run_id (mq_source request) (mw_disk w)
      | MirrorOperation.Fetch \<Rightarrow> fetch_and_verify env settings calls (mq_source request) published (mw_disk w)) = (d1, r)"
    "\<And>f. f \<in> {mirrors} \<Longrightarrow>
       f (mw_db (fst (run_admitted env settings collector calls request published operation run_id w)))
       = f (mw_db (fst (finish env (mq_target_id request) run_id operation r (w\<lparr>mw_disk := d1, mw_blobs := blobs1\<rparr>))))"
    "\<And>f. f \<in> {mirror_runs} \<Longrightarrow>
       f (mw_db (fst (run_admitted env settings collector calls request published operation run_id w)))
       = f (mw_db (fst (finish env (mq_target_id request) run_id operation r (w\<lparr>mw_disk := d1, mw_blobs := blobs1\<rparr>))))"
    "\<And>f. f \<in> {reservations} \<Longrightarrow>
       f (mw_db (fst (run_admitted env settings collector calls request published operation run_id w)))
       = f (mw_db (fst (finish env (mq_target_id request) run_id operation r (w\<lparr>mw_disk := d1, mw_blobs := blobs1\<rparr>))))"
proof -
  obtain d1 r where git: "(case operation of
       InitialClone \<Rightarrow> clone_and_verify env settings calls (mq_target_id request) run_id (mq_source request) (mw_disk w)
     | MirrorOperation.Fetch \<Rightarrow> fetch_and_verify env settings calls (mq_source request) published (mw_disk w)) = (d1, r)"
    by fastforce
  obtain blobs1 collected where lfs: "collect_lfs env collector request r (mw_blobs w) = (blobs1, collected)" by fastforce
  let ?fin = "finish env (mq_target_id request) run_id operation r (w\<lparr>mw_disk := d1, mw_blobs := blobs1\<rparr>)"
  let ?all = "run_admitted env settings collector calls request published operation run_id w"
  have "mirrors (mw_db (fst ?all)) = mirrors (mw_db (fst ?fin))"
    "mirror_runs (mw_db (fst ?all)) = mirror_runs (mw_db (fst ?fin))"
    "reservations (mw_db (fst ?all)) = reservations (mw_db (fst ?fin))"
    using git lfs by (auto simp: run_admitted_def Let_def fst_world_bind split: sum.splits prod.splits)
  then show thesis using that [OF git] by simp
qed

lemma run_cancellable_end:
  obtains (unstarted) "mirrors (mw_db (fst (run_cancellable env settings collector calls stopped request w))) = mirrors (mw_db w)"
    "mirror_runs (mw_db (fst (run_cancellable env settings collector calls stopped request w))) = mirror_runs (mw_db w)"
    "reservations (mw_db (fst (run_cancellable env settings collector calls stopped request w))) = reservations (mw_db w)"
    "\<exists>e. snd (run_cancellable env settings collector calls stopped request w) = Inl e"
  | (closed) w1 w2 :: mirror_world and outcome operation r where
    "reserve_mirror_quota (me_times env 1) (advance (mw_db w1)) (mq_target_id request) (now_v7 (me_store env) (mw_db w1))
       (admitted_reservation collector request) (ms_per_mirror_max_bytes settings) (ms_global_max_bytes settings) = Inr (outcome, mw_db w2)"
    "mirrors (mw_db w1) = mirrors (mw_db w)" "mirror_runs (mw_db w1) = mirror_runs (mw_db w)"
    "reservations (mw_db w1) = reservations (mw_db w)" "minted (mw_db w1) = minted (mw_db w)"
    "\<not> MirrorResult_is_success r"
    "run_cancellable env settings collector calls stopped request w
       = world_bind (finish env (mq_target_id request) (now_v7 (me_store env) (mw_db w1)) operation r w2)
           (\<lambda>_ w3. (w3, Inr (plain_outcome request r)))"
  | (admitted) w1 w2 :: mirror_world and outcome operation published where
    "reserve_mirror_quota (me_times env 1) (advance (mw_db w1)) (mq_target_id request) (now_v7 (me_store env) (mw_db w1))
       (admitted_reservation collector request) (ms_per_mirror_max_bytes settings) (ms_global_max_bytes settings) = Inr (outcome, mw_db w2)"
    "mirrors (mw_db w1) = mirrors (mw_db w)" "mirror_runs (mw_db w1) = mirror_runs (mw_db w)"
    "reservations (mw_db w1) = reservations (mw_db w)" "minted (mw_db w1) = minted (mw_db w)"
    "lifecycle_mirror_path env settings (mq_target_id request) = Inr published"
    "run_cancellable env settings collector calls stopped request w
       = run_admitted env settings collector calls request published operation (now_v7 (me_store env) (mw_db w1)) w2"
proof -
  let ?run = "run_cancellable env settings collector calls stopped request w" and ?t = "mq_target_id request"
  show thesis
  proof (cases "SourceUrl_parse (mq_source request)")
    case (Inl e)
    then show thesis using unstarted by (simp add: run_cancellable_def)
  next
    case src: (Inr parsed)
    show thesis
    proof (cases "lifecycle_mirror_path env settings ?t")
      case (Inl e)
      then show thesis using src unstarted by (simp add: run_cancellable_def)
    next
      case path: (Inr published)
      define op where "op = chosen_operation (mw_disk w) published"
      obtain w1 started where start: "transition_started env ?t op w = (w1, started)" by fastforce
      have w1: "mirrors (mw_db w1) = mirrors (mw_db w)" "mirror_runs (mw_db w1) = mirror_runs (mw_db w)"
        "reservations (mw_db w1) = reservations (mw_db w)" "minted (mw_db w1) = minted (mw_db w)"
      proof -
        have "w1 = fst (set_status_call env 0 ?t (case op of InitialClone \<Rightarrow> Cloning | MirrorOperation.Fetch \<Rightarrow> Fetching) w)"
          using start by (simp add: transition_started_def)
        then show "mirrors (mw_db w1) = mirrors (mw_db w)" "mirror_runs (mw_db w1) = mirror_runs (mw_db w)"
          "reservations (mw_db w1) = reservations (mw_db w)" "minted (mw_db w1) = minted (mw_db w)"
          by simp_all
      qed
      show thesis
      proof (cases started)
        case (Inl e)
        then have "?run = (w1, Inl e)"
          using src path start by (simp add: run_cancellable_def Let_def op_def [symmetric] world_bind_def)
        then show thesis using w1 unstarted by simp
      next
        case (Inr u)
        let ?i = "now_v7 (me_store env) (mw_db w1)"
        have run: "?run = db_call (\<lambda>db. reserve_mirror_quota (me_times env 1) (advance db) ?t ?i
              (admitted_reservation collector request) (ms_per_mirror_max_bytes settings) (ms_global_max_bytes settings)) w1
            (\<lambda>admission w2. if admission = QuotaReservationExceeded
              then world_bind (finish env ?t ?i op QuotaRefused w2) (\<lambda>_ w3. (w3, Inr (plain_outcome request QuotaRefused)))
              else if stopped
              then world_bind (finish env ?t ?i op (MirrorInterrupted (MirrorOperation_checkpoint op)) w2)
                     (\<lambda>_ w3. (w3, Inr (plain_outcome request (MirrorInterrupted (MirrorOperation_checkpoint op)))))
              else run_admitted env settings collector calls request published op ?i w2)"
          using src path start Inr
          by (simp add: run_cancellable_def Let_def op_def [symmetric] world_bind_ok_case cong: if_cong)
        show thesis
        proof (cases "reserve_mirror_quota (me_times env 1) (advance (mw_db w1)) ?t ?i (admitted_reservation collector request)
            (ms_per_mirror_max_bytes settings) (ms_global_max_bytes settings)")
          case (Inl e)
          then have "?run = (w1, Inl e)" unfolding run by (simp add: db_call_def)
          then show thesis using w1 unstarted by simp
        next
          case (Inr admission)
          then obtain outcome db2 where res: "reserve_mirror_quota (me_times env 1) (advance (mw_db w1)) ?t ?i
              (admitted_reservation collector request) (ms_per_mirror_max_bytes settings) (ms_global_max_bytes settings)
              = Inr (outcome, mw_db (w1\<lparr>mw_db := db2\<rparr>))" by (cases admission) simp
          show thesis
          proof (cases "outcome = QuotaReservationExceeded \<or> stopped")
            case True
            define r where "r = (if outcome = QuotaReservationExceeded then QuotaRefused
                                 else MirrorInterrupted (MirrorOperation_checkpoint op))"
            have "\<not> MirrorResult_is_success r" by (simp add: r_def MirrorResult_is_success_def)
            moreover have "?run = world_bind (finish env ?t ?i op r (w1\<lparr>mw_db := db2\<rparr>)) (\<lambda>_ w3. (w3, Inr (plain_outcome request r)))"
              unfolding run using res True by (auto simp: db_call_def r_def)
            ultimately show thesis using closed [OF res w1] by blast
          next
            case False
            then have "?run = run_admitted env settings collector calls request published op ?i (w1\<lparr>mw_db := db2\<rparr>)"
              unfolding run using res by (simp add: db_call_def)
            then show thesis using admitted [OF res w1 path] by blast
          qed
        qed
      qed
    qed
  qed
qed

lemma run_admitted_ready_rows:
  assumes "lifecycle_mirror_path env settings (mq_target_id request) = Inr published"
  shows "ready_rows_from (\<exists>dir m. checks_passed env settings calls dir m) (mq_target_id request) (mw_db w)
           (mw_db (fst (run_admitted env settings collector calls request published operation run_id w)))"
proof (rule run_admitted_end [where operation = operation and env = env and settings = settings and calls = calls
      and request = request and run_id = run_id and w = w and published = published and collector = collector])
  fix d1 r blobs1
  let ?w = "w\<lparr>mw_disk := d1, mw_blobs := blobs1\<rparr>"
  assume git: "(case operation of
       InitialClone \<Rightarrow> clone_and_verify env settings calls (mq_target_id request) run_id (mq_source request) (mw_disk w)
     | MirrorOperation.Fetch \<Rightarrow> fetch_and_verify env settings calls (mq_source request) published (mw_disk w)) = (d1, r)"
    and same: "\<And>f. f \<in> {mirrors} \<Longrightarrow>
       f (mw_db (fst (run_admitted env settings collector calls request published operation run_id w)))
       = f (mw_db (fst (finish env (mq_target_id request) run_id operation r ?w)))"
  have earned: "\<exists>dir m. checks_passed env settings calls dir m" if "MirrorResult_is_success r"
  proof -
    from that obtain n b where r: "r = Succeeded n b" by (auto simp: MirrorResult_is_success_def split: MirrorResult.splits)
    show ?thesis
    proof (cases operation)
      case InitialClone
      then show ?thesis using git r clone_and_verify_sound [OF _ assms, of calls run_id "mq_source request" "mw_disk w" d1 n b]
        by auto
    next
      case Fetch
      then show ?thesis using git r fetch_and_verify_sound [of env settings calls "mq_source request" published "mw_disk w" d1 n b]
        by auto
    qed
  qed
  have "ready_rows_from (MirrorResult_is_success r) (mq_target_id request) (mw_db w)
      (mw_db (fst (finish env (mq_target_id request) run_id operation r ?w)))"
    using finish_ready_rows [of r "mq_target_id request" ?w env run_id operation] by simp
  then show ?thesis using earned same [of mirrors] unfolding ready_rows_from_def by auto
qed

text \<open>
  C5. A mirror is called ready only when its checks passed: whatever a run returns and wherever it stops,
  every mirror row that is \<open>ready\<close> afterwards was there before unchanged, or it is the row of the run's
  target and, in this run, \<open>git fsck --full\<close>, the listing of the refs and the listing of all objects of
  one directory each ended with exit code zero, with at least one ref and one object.
\<close>

theorem mirror_ready_only_after_checks:
  assumes "row \<in> set (mirrors (mw_db (fst (run_cancellable env settings collector calls stopped request w))))"
    and "mr_status row = ''ready''" and "row \<notin> set (mirrors (mw_db w))"
  shows "mr_target row = mq_target_id request \<and> (\<exists>dir m. checks_passed env settings calls dir m)"
proof (rule run_cancellable_end [of env settings collector calls stopped request w])
  assume "mirrors (mw_db (fst (run_cancellable env settings collector calls stopped request w))) = mirrors (mw_db w)"
  then show ?thesis using assms by simp
next
  fix w1 w2 :: mirror_world and outcome operation r
  assume res: "reserve_mirror_quota (me_times env 1) (advance (mw_db w1)) (mq_target_id request) (now_v7 (me_store env) (mw_db w1))
       (admitted_reservation collector request) (ms_per_mirror_max_bytes settings) (ms_global_max_bytes settings) = Inr (outcome, mw_db w2)"
    and "mirrors (mw_db w1) = mirrors (mw_db w)" "\<not> MirrorResult_is_success r"
    and "run_cancellable env settings collector calls stopped request w
       = world_bind (finish env (mq_target_id request) (now_v7 (me_store env) (mw_db w1)) operation r w2)
           (\<lambda>_ w3. (w3, Inr (plain_outcome request r)))"
  then show ?thesis
    using assms reserve_frame [OF res] finish_ready_rows [of r "mq_target_id request" w2 env "now_v7 (me_store env) (mw_db w1)" operation]
    by (auto simp: ready_rows_from_def advance_def fst_world_bind split: sum.splits)
next
  fix w1 w2 :: mirror_world and outcome operation published
  assume res: "reserve_mirror_quota (me_times env 1) (advance (mw_db w1)) (mq_target_id request) (now_v7 (me_store env) (mw_db w1))
       (admitted_reservation collector request) (ms_per_mirror_max_bytes settings) (ms_global_max_bytes settings) = Inr (outcome, mw_db w2)"
    and "mirrors (mw_db w1) = mirrors (mw_db w)"
    and path: "lifecycle_mirror_path env settings (mq_target_id request) = Inr published"
    and "run_cancellable env settings collector calls stopped request w
       = run_admitted env settings collector calls request published operation (now_v7 (me_store env) (mw_db w1)) w2"
  then show ?thesis
    using assms reserve_frame [OF res]
      run_admitted_ready_rows [OF path, of calls w2 collector operation "now_v7 (me_store env) (mw_db w1)"]
    by (auto simp: ready_rows_from_def advance_def)
qed


subsection \<open>A run releases what it reserved\<close>

lemma ensure_mirror_frame:
  "ensure_mirror env db t p = Inr db' \<Longrightarrow> reservations db' = reservations db \<and> mirror_runs db' = mirror_runs db"
  by (auto simp: ensure_mirror_def advance_def split: if_splits)

lemma record_verified_frame:
  "record_verified_mirror now db t b = Inr db' \<Longrightarrow> reservations db' = reservations db \<and> mirror_runs db' = mirror_runs db"
  by (auto simp: record_verified_mirror_def update_mirror_def)

lemma mark_degraded_frame:
  "reservations (mark_mirror_degraded db t) = reservations db" "mirror_runs (mark_mirror_degraded db t) = mirror_runs db"
  by (simp_all add: mark_mirror_degraded_def update_mirror_def)

text \<open>The terminal record either fails and changes nothing, or it is written together with the release.\<close>

lemma finish_end:
  obtains (unwritten) e where "finish env target run_id operation r w = (w, Inl e)"
  | (written) row where "lr_id row = run_id" "lr_target row = target"
    "lr_failure_class row = map_option FailureClass_code (MirrorResult_failure_class r)"
    "mirror_runs (mw_db (fst (finish env target run_id operation r w))) = mirror_runs (mw_db w) @ [row]"
    "reservations (mw_db (fst (finish env target run_id operation r w)))
       = filter (\<lambda>q. qr_run q \<noteq> run_id) (reservations (mw_db w))"
proof (cases "record_mirror_run (me_times env 2) (mw_db w) target run_id operation r")
  case (Inl e)
  then show thesis using unwritten by (simp add: finish_def db_call_def unit_call_def)
next
  case (Inr db1)
  then obtain row where row: "lr_id row = run_id" "lr_target row = target"
    "lr_failure_class row = map_option FailureClass_code (MirrorResult_failure_class r)"
    "db1 = (mw_db w)\<lparr>mirror_runs := mirror_runs (mw_db w) @ [row],
       reservations := filter (\<lambda>q. qr_run q \<noteq> run_id) (reservations (mw_db w))\<rparr>"
    by (rule record_mirror_run_shape)
  have "reservations (mw_db (fst (finish env target run_id operation r w))) = reservations db1
    \<and> mirror_runs (mw_db (fst (finish env target run_id operation r w))) = mirror_runs db1"
  proof (cases r)
    case (Succeeded n b)
    then show ?thesis
      using Inr by (auto simp: finish_def fst_db_call dest!: ensure_mirror_frame record_verified_frame split: sum.splits)
  qed (use Inr in \<open>simp_all add: finish_def fst_db_call mark_degraded_frame unit_call_def\<close>)
  then show thesis using written [OF row(1-3)] row(4) by simp
qed

text \<open>What a run leaves of its reservation, by its result.\<close>

definition run_settled :: "uuid \<Rightarrow> uuid \<Rightarrow> vault_db \<Rightarrow> vault_db \<Rightarrow> MirrorResult option \<Rightarrow> bool" where
  "run_settled run_id target db db' outcome \<longleftrightarrow>
     (case outcome of
        Some r \<Rightarrow> reservations db' = reservations db
          \<and> (\<exists>row. mirror_runs db' = mirror_runs db @ [row] \<and> lr_id row = run_id \<and> lr_target row = target
               \<and> lr_failure_class row = map_option FailureClass_code (MirrorResult_failure_class r))
      | None \<Rightarrow> reservations db' = reservations db \<or> mirror_runs db' = mirror_runs db)"

lemma reserve_reservations:
  assumes "reserve_mirror_quota now db target run req per glob = Inr (outcome, db')"
    and "run \<notin> set (map qr_run (reservations db))"
  shows "filter (\<lambda>q. qr_run q \<noteq> run) (reservations db') = reservations db"
proof -
  have "filter (\<lambda>q. qr_run q \<noteq> run) (reservations db) = reservations db"
    using assms(2) by (intro filter_True) auto
  with assms(1) show ?thesis by (elim reserve_mirror_quota_shape) simp_all
qed

lemma run_admitted_outcome:
  "snd (run_admitted env settings collector calls request published operation run_id w) = Inr outcome \<Longrightarrow>
   \<exists>d1 blobs1 w2. finish env (mq_target_id request) run_id operation (le_mirror outcome) (w\<lparr>mw_disk := d1, mw_blobs := blobs1\<rparr>) = (w2, Inr ())
     \<and> mirror_runs (mw_db (fst (run_admitted env settings collector calls request published operation run_id w))) = mirror_runs (mw_db w2)
     \<and> reservations (mw_db (fst (run_admitted env settings collector calls request published operation run_id w))) = reservations (mw_db w2)"
proof -
  assume ok: "snd (run_admitted env settings collector calls request published operation run_id w) = Inr outcome"
  obtain d1 r where git: "(case operation of
       InitialClone \<Rightarrow> clone_and_verify env settings calls (mq_target_id request) run_id (mq_source request) (mw_disk w)
     | MirrorOperation.Fetch \<Rightarrow> fetch_and_verify env settings calls (mq_source request) published (mw_disk w)) = (d1, r)"
    by fastforce
  obtain blobs1 collected where lfs: "collect_lfs env collector request r (mw_blobs w) = (blobs1, collected)" by fastforce
  let ?w = "w\<lparr>mw_disk := d1, mw_blobs := blobs1\<rparr>" and ?t = "mq_target_id request"
  obtain w' where run: "run_admitted env settings collector calls request published operation run_id w = (w', Inr outcome)"
    using ok by (metis prod.collapse)
  then obtain w2 w3 lfs_found failure w4 where fin: "finish env ?t run_id operation r ?w = (w2, Inr ())"
    and per: "persist_lfs_result env ?t run_id collected w2 = (w3, Inr (lfs_found, failure))"
    and st: "(if mq_lfs_enabled request \<and> lfs_found = None \<and> MirrorResult_is_success r
              then set_status_call env 7 ?t TargetStatus.Degraded w3 else (w3, Inr ())) = (w4, Inr ())"
    and out: "w' = w4" "le_mirror outcome = r"
    using git lfs by (auto simp: run_admitted_def Let_def)
  have "mirror_runs (mw_db w3) = mirror_runs (mw_db w2)" "reservations (mw_db w3) = reservations (mw_db w2)"
    using persist_lfs_frame [of env ?t run_id collected w2] per by simp_all
  moreover have "mirror_runs (mw_db w4) = mirror_runs (mw_db w3)" "reservations (mw_db w4) = reservations (mw_db w3)"
    using set_status_call_frame [of env 7 ?t TargetStatus.Degraded w3] st by (auto split: if_splits dest!: set_target_status_frame)
  ultimately show ?thesis using fin out run by (intro exI [of _ d1] exI [of _ blobs1] exI [of _ w2]) simp
qed


lemma finish_settled:
  assumes "filter (\<lambda>q. qr_run q \<noteq> run_id) (reservations (mw_db w)) = reservations db"
    and "mirror_runs (mw_db w) = mirror_runs db"
  shows "run_settled run_id target db (mw_db (fst (finish env target run_id operation r w)))
           (case snd (finish env target run_id operation r w) of Inl _ \<Rightarrow> None | Inr _ \<Rightarrow> Some r)"
  by (rule finish_end [of env target run_id operation r w])
    (use assms in \<open>auto simp: run_settled_def split: sum.splits\<close>)

lemma run_settled_weaken: "run_settled run_id target db db' outcome \<Longrightarrow> run_settled run_id target db db' None"
  by (auto simp: run_settled_def split: option.splits)

text \<open>
  C11. Capacity follows evidence: a run that returns an outcome has appended exactly one terminal row, for
  its target and with the outcome's failure class, and holds no reservation any more; a run that returns an
  error may keep its reservation only if no terminal row was written for it.
\<close>

theorem run_settles_reservation:
  assumes "mint (me_store env) (minted (mw_db w)) \<notin> set (map qr_run (reservations (mw_db w)))"
  shows "run_settled (mint (me_store env) (minted (mw_db w))) (mq_target_id request) (mw_db w)
           (mw_db (fst (run_cancellable env settings collector calls stopped request w)))
           (case snd (run_cancellable env settings collector calls stopped request w) of
              Inl _ \<Rightarrow> None | Inr outcome \<Rightarrow> Some (le_mirror outcome))"
proof (rule run_cancellable_end [of env settings collector calls stopped request w])
  assume "reservations (mw_db (fst (run_cancellable env settings collector calls stopped request w))) = reservations (mw_db w)"
    "\<exists>e. snd (run_cancellable env settings collector calls stopped request w) = Inl e"
  then show ?thesis by (auto simp: run_settled_def)
next
  fix w1 w2 :: mirror_world and outcome operation r
  let ?i = "now_v7 (me_store env) (mw_db w1)"
  assume res: "reserve_mirror_quota (me_times env 1) (advance (mw_db w1)) (mq_target_id request) ?i
       (admitted_reservation collector request) (ms_per_mirror_max_bytes settings) (ms_global_max_bytes settings) = Inr (outcome, mw_db w2)"
    and frame: "mirror_runs (mw_db w1) = mirror_runs (mw_db w)" "reservations (mw_db w1) = reservations (mw_db w)"
      "minted (mw_db w1) = minted (mw_db w)"
    and run: "run_cancellable env settings collector calls stopped request w
       = world_bind (finish env (mq_target_id request) ?i operation r w2) (\<lambda>_ w3. (w3, Inr (plain_outcome request r)))"
  have released: "filter (\<lambda>q. qr_run q \<noteq> ?i) (reservations (mw_db w2)) = reservations (mw_db w)"
    using reserve_reservations [OF res] assms frame by (simp add: advance_def now_v7_def)
  have "mirror_runs (mw_db w2) = mirror_runs (mw_db w)" using reserve_frame [OF res] frame by (simp add: advance_def)
  from finish_settled [OF released this, of "mq_target_id request" env operation r] show ?thesis
    using run frame by (cases "finish env (mq_target_id request) ?i operation r w2")
      (auto simp: world_bind_def now_v7_def plain_outcome_def split: sum.splits)
next
  fix w1 w2 :: mirror_world and outcome operation published
  let ?i = "now_v7 (me_store env) (mw_db w1)"
  assume res: "reserve_mirror_quota (me_times env 1) (advance (mw_db w1)) (mq_target_id request) ?i
       (admitted_reservation collector request) (ms_per_mirror_max_bytes settings) (ms_global_max_bytes settings) = Inr (outcome, mw_db w2)"
    and frame: "mirror_runs (mw_db w1) = mirror_runs (mw_db w)" "reservations (mw_db w1) = reservations (mw_db w)"
      "minted (mw_db w1) = minted (mw_db w)"
    and run: "run_cancellable env settings collector calls stopped request w
       = run_admitted env settings collector calls request published operation ?i w2"
  have released: "filter (\<lambda>q. qr_run q \<noteq> ?i) (reservations (mw_db w2)) = reservations (mw_db w)"
    using reserve_reservations [OF res] assms frame by (simp add: advance_def now_v7_def)
  have runs: "mirror_runs (mw_db w2) = mirror_runs (mw_db w)" using reserve_frame [OF res] frame by (simp add: advance_def)
  have settled: "run_settled ?i (mq_target_id request) (mw_db w)
      (mw_db (fst (finish env (mq_target_id request) ?i operation r (w2\<lparr>mw_disk := d, mw_blobs := bl\<rparr>))))
      (case snd (finish env (mq_target_id request) ?i operation r (w2\<lparr>mw_disk := d, mw_blobs := bl\<rparr>)) of Inl _ \<Rightarrow> None | Inr _ \<Rightarrow> Some r)"
    for r d bl using released runs by (intro finish_settled) simp_all
  have i: "?i = mint (me_store env) (minted (mw_db w))" using frame(3) by (simp add: now_v7_def)
  show ?thesis
  proof (cases "snd (run_admitted env settings collector calls request published operation ?i w2)")
    case (Inl e)
    show ?thesis
      by (rule run_admitted_end [where operation = operation and env = env and settings = settings and calls = calls
            and request = request and run_id = ?i and w = w2 and published = published and collector = collector])
        (use Inl run i run_settled_weaken [OF settled] in \<open>auto simp: run_settled_def\<close>)
  next
    case (Inr out)
    from run_admitted_outcome [OF Inr] obtain d1 bl w3 where
      fin: "finish env (mq_target_id request) ?i operation (le_mirror out) (w2\<lparr>mw_disk := d1, mw_blobs := bl\<rparr>) = (w3, Inr ())"
      and same: "mirror_runs (mw_db (fst (run_admitted env settings collector calls request published operation ?i w2)))
          = mirror_runs (mw_db w3)"
        "reservations (mw_db (fst (run_admitted env settings collector calls request published operation ?i w2)))
          = reservations (mw_db w3)" by blast
    have "run_settled ?i (mq_target_id request) (mw_db w) (mw_db w3) (Some (le_mirror out))"
      using settled [where r = "le_mirror out" and d = d1 and bl = bl] fin by simp
    then show ?thesis using Inr run same unfolding i by (simp add: run_settled_def)
  qed
qed


subsection \<open>Which targets a run may start on\<close>

definition start_status :: "MirrorOperation \<Rightarrow> string" where
  "start_status operation = (case operation of InitialClone \<Rightarrow> ''cloning'' | MirrorOperation.Fetch \<Rightarrow> ''fetching'')"

text \<open>The statuses from which a clone, and from which a fetch, may begin.\<close>

definition may_start :: "MirrorOperation \<Rightarrow> string \<Rightarrow> bool" where
  "may_start operation status \<longleftrightarrow>
     (case operation of
        InitialClone \<Rightarrow> status \<in> {''requested'', ''cloning'', ''degraded''}
      | MirrorOperation.Fetch \<Rightarrow> status \<in> {''ready'', ''fetching'', ''healthy'', ''degraded''})"

lemma no_separator_in_names: "s \<in> set (map TargetStatus_as_str TargetStatus_ALL) \<Longrightarrow> split_once '' -> '' (s @ '' -> '' @ t) = Some (s, t)"
  by (auto simp: TargetStatus_ALL_def starts_with_def)

lemma start_transition:
  assumes "find_target db target = Some row" and "t_status row \<in> set (map TargetStatus_as_str TargetStatus_ALL)"
  shows "set_target_status db clock target (case operation of InitialClone \<Rightarrow> Cloning | MirrorOperation.Fetch \<Rightarrow> Fetching)
    = (if may_start operation (t_status row) then Inr (write_status db target (start_status operation))
       else Inl (IllegalTransition (t_status row) (start_status operation)))"
  using assms no_separator_in_names [OF assms(2)]
  by (cases operation)
    (auto simp: set_target_status_def guarded_status_update_def target_guard_status_transition_def start_status_def
      may_start_def guard_legal_pairs_def classify_status_update_failure_def GUARD_ERRCODE_def guard_refusal_message_def
      strip_prefix_def TargetStatus_ALL_def starts_with_def)


text \<open>
  A run starts only where the status allows its operation, and a refusal is final: with a mirror on
  disk a run may start from \<open>ready\<close>, \<open>fetching\<close>, \<open>healthy\<close> or \<open>degraded\<close>, without one from
  \<open>requested\<close>, \<open>cloning\<close> or \<open>degraded\<close>; from any other status it returns the illegal transition and
  changes nothing, so every later run is refused the same way. This includes a re-requested target whose
  mirror is still on disk, one that stopped between publishing its clone and recording it, and a ready
  target whose directory is gone.
\<close>

theorem run_refused_by_status:
  assumes "is_ok (SourceUrl_parse (mq_source request))"
    and "lifecycle_mirror_path env settings (mq_target_id request) = Inr published"
    and "find_target (mw_db w) (mq_target_id request) = Some row"
    and "t_status row \<in> set (map TargetStatus_as_str TargetStatus_ALL)"
    and "\<not> may_start (chosen_operation (mw_disk w) published) (t_status row)"
  shows "run_cancellable env settings collector calls stopped request w
    = (w, Inl (IllegalTransition (t_status row) (start_status (chosen_operation (mw_disk w) published))))"
proof -
  have "transition_started env (mq_target_id request) (chosen_operation (mw_disk w) published) w
      = (w, Inl (IllegalTransition (t_status row) (start_status (chosen_operation (mw_disk w) published))))"
    using start_transition [OF assms(3,4), of "me_times env 0" "chosen_operation (mw_disk w) published"] assms(5)
    by (simp add: transition_started_def set_status_call_def db_call_def unit_call_def)
  then show ?thesis
    using assms(1,2) by (auto simp: run_cancellable_def Let_def is_ok_def world_bind_def split: sum.splits)
qed

subsection \<open>The size of what can be verified\<close>

lemma split_on_lengths: "sum_list (map (\<lambda>part. length part + 1) (split_on sep s)) = length s + 1"
  by (induction s) (auto split: list.splits)

lemma split_on_nonempty: "split_on sep s \<noteq> []"
  by (induction s) (auto split: list.splits)

lemma sum_list_butlast_last:
  "xs \<noteq> [] \<Longrightarrow> sum_list (map f xs) = sum_list (map f (butlast xs)) + f (last xs)" for f :: "'a \<Rightarrow> nat"
  by (induction xs) auto

lemma str_lines_lengths: "sum_list (map (\<lambda>line. length line + 1) (str_lines s)) \<le> length s + 1"
proof -
  let ?parts = "split_on (CHR 0x0A) s"
  have "sum_list (map (\<lambda>line. length line + 1) (map strip_cr (butlast ?parts)))
      \<le> sum_list (map (\<lambda>line. length line + 1) (butlast ?parts))"
    unfolding map_map by (intro sum_list_mono) (simp add: strip_cr_def)
  moreover have "sum_list (map (\<lambda>line. length line + 1) ?parts)
      = sum_list (map (\<lambda>line. length line + 1) (butlast ?parts)) + length (last ?parts) + 1"
    using sum_list_butlast_last [OF split_on_nonempty, of "\<lambda>line. length line + 1" "CHR 0x0A" s] by simp
  ultimately show ?thesis
    using split_on_lengths [of "CHR 0x0A" s] by (simp add: str_lines_def Let_def)
qed

lemma read_capped_length: "length retained \<le> cap \<Longrightarrow> length (fst (read_capped chunks cap retained)) \<le> cap"
  by (induction chunks cap retained rule: read_capped.induct) (auto simp: Let_def)

lemma read_capped_fst_length: "read_capped chunks cap [] = (out, flag) \<Longrightarrow> length out \<le> cap"
  using read_capped_length [of "[]" cap chunks] by simp

lemma git_run_output_capped:
  assumes "git_run canonicalize staging child config denied op = Inr outcome" and "op_credentials op = None"
  shows "length (out_stdout outcome) \<le> stdout_cap_bytes config"
  using assms
  by (auto simp: git_run_def Let_def dest!: read_capped_fst_length split: if_splits child_result.splits prod.splits)


lemma map_sum_Inr [simp]: "map_sum f id r = Inr y \<longleftrightarrow> r = Inr y"
  by (cases r) auto

lemma git_answer_capped:
  assumes "git_answer env call (mirror_runner settings directory) op = Inr outcome" and "op_credentials op = None"
  shows "length (out_stdout outcome) \<le> 64 * 1024"
proof -
  have "\<exists>child. git_run (me_canonicalize env) (me_staging env) child (mirror_runner settings directory) [] op = Inr outcome"
    using assms(1) by (auto simp: git_answer_def run_git_def split: if_splits select_race.splits bool.splits)
  then show ?thesis using git_run_output_capped [OF _ assms(2)] by (fastforce simp: mirror_runner_def)
qed

lemma lines_at_least:
  "\<forall>line \<in> set lines. line \<noteq> [] \<longrightarrow> k \<le> length line \<Longrightarrow>
     length (filter (\<lambda>line. line \<noteq> []) lines) * (k + 1) \<le> sum_list (map (\<lambda>line. length line + 1) lines)"
proof (induction lines)
  case (Cons line lines)
  then show ?case by (cases "line = []") auto
qed simp

text \<open>
  C39. Only small repositories verify: the runner keeps 64 KiB of a child's output and fails beyond it, so when
  \<open>git rev-list --all --objects\<close> prints at least the forty digits of a name for each object, a mirror passes
  verification only with at most 1598 objects.
\<close>

theorem verified_mirror_is_small:
  assumes "integrity_evidence env settings calls directory d = (d', Inr n)"
    and "\<And>outcome line. git_answer env (calls 3) (mirror_runner settings directory) rev_list_all_objects = Inr outcome
           \<Longrightarrow> line \<in> set (str_lines (out_stdout outcome)) \<Longrightarrow> line \<noteq> [] \<Longrightarrow> 40 \<le> length line"
  shows "unat n \<le> 1598"
proof -
  from integrity_evidence_sound [OF assms(1)] obtain m outcome where n: "n = word_of_nat m"
    and answer: "git_answer env (calls 3) (mirror_runner settings directory) rev_list_all_objects = Inr outcome"
    and m: "m = length (filter (\<lambda>line. line \<noteq> []) (str_lines (out_stdout outcome)))"
    by (auto simp: checks_passed_def)
  have "m * 41 \<le> sum_list (map (\<lambda>line. length line + 1) (str_lines (out_stdout outcome)))"
    unfolding m using lines_at_least [of "str_lines (out_stdout outcome)" 40] assms(2) [OF answer] by simp
  also have "\<dots> \<le> length (out_stdout outcome) + 1" by (rule str_lines_lengths)
  also have "\<dots> \<le> 64 * 1024 + 1"
    using git_answer_capped [OF answer] by (simp add: rev_list_all_objects_def git_operation_def)
  finally have "m \<le> 1598" by simp
  then show ?thesis using n by (simp add: unat_fits)
qed


subsection \<open>Example runs\<close>

definition example_git_child :: "string \<Rightarrow> string \<Rightarrow> string list \<Rightarrow> (string \<times> string) list \<Rightarrow> child_result" where
  "example_git_child _ _ words _ =
     Exited (Some 0)
       (if ''show-ref'' \<in> set words then [replicate 40 CHR ''a'' @ '' refs/heads/main'' @ [CHR 0x0A]]
        else if ''rev-list'' \<in> set words then [replicate 40 CHR ''a'' @ [CHR 0x0A]] else []) []"

definition example_stage :: string where
  "example_stage = ''/w/runs/id/mirror.git''"

definition example_calls :: "nat \<Rightarrow> git_call" where
  "example_calls k =
     \<lparr> gc_cancelled = False, gc_race = RunnerFirst, gc_child = example_git_child,
       gc_effect = (if k = 0 then (\<lambda>d. d(example_stage := Some (DirNode [(''HEAD'', FileNode 21 [])]))) else id),
       gc_again_child = example_git_child, gc_again_effect = id \<rparr>"

definition example_mirror_env :: mirror_env where
  "example_mirror_env =
     \<lparr> me_store = example_env, as_simple = (\<lambda>_. ''abcd''), as_hyphenated = (\<lambda>_. ''01234567-89ab-cdef-0123-456789abcdef''),
       me_sha256 = id, me_resolve = (\<lambda>p. Some [tl p]), me_lstat = (\<lambda>_. NotFound), me_canonicalize = (\<lambda>_. None),
       me_staging = \<lparr> create_error = None, dir_mode = Inr 0, write_error = None, protect_error = None, secret_id = '''' \<rparr>,
       me_run_root_made = True, me_parent_made = True, me_rename_allowed = True, me_times = (\<lambda>n. 2000 + int n) \<rparr>"

definition example_mirror_settings :: MirrorLifecycleSettings where
  "example_mirror_settings =
     \<lparr> ms_root = ''/v'', ms_work_root = ''/w'', ms_git_binary = ''/usr/bin/git'', ms_per_mirror_max_bytes = 100,
       ms_global_max_bytes = 150 \<rparr>"

definition example_mirror_request :: MirrorRequest where
  "example_mirror_request = MirrorRequest_new 1 ''file:///srv/a.git'' 60"

definition example_world :: mirror_world where
  "example_world = \<lparr> mw_db = example_db, mw_disk = (\<lambda>_. None), mw_blobs = (\<lambda>_. None) \<rparr>"

definition example_published :: string where
  "example_published = ''/v/mirrors/ab/01234567-89ab-cdef-0123-456789abcdef.git''"

lemma example_paths:
  "lifecycle_mirror_path example_mirror_env example_mirror_settings 1 = Inr example_published"
  "is_ok (SourceUrl_parse (mq_source example_mirror_request))"
  by code_simp+

text \<open>A target that was withdrawn and requested again, with its mirror still on disk.\<close>

theorem run_refused_by_status_witness:
  "run_cancellable example_mirror_env example_mirror_settings None example_calls False example_mirror_request
     (example_world\<lparr>mw_disk := (\<lambda>_. None)(example_published := Some (DirNode []))\<rparr>)
   = (example_world\<lparr>mw_disk := (\<lambda>_. None)(example_published := Some (DirNode []))\<rparr>,
      Inl (IllegalTransition ''requested'' ''fetching''))"
proof -
  let ?w = "example_world\<lparr>mw_disk := (\<lambda>_. None)(example_published := Some (DirNode []))\<rparr>"
  have target: "mq_target_id example_mirror_request = 1" by code_simp
  obtain row where row: "find_target example_db 1 = Some row" "t_status row = ''requested''"
  proof -
    have "map_option t_status (find_target example_db 1) = Some ''requested''" by code_simp
    then show thesis using that by blast
  qed
  have op: "chosen_operation (mw_disk ?w) example_published = MirrorOperation.Fetch" by (simp add: chosen_operation_def)
  have "run_cancellable example_mirror_env example_mirror_settings None example_calls False example_mirror_request ?w
      = (?w, Inl (IllegalTransition (t_status row) (start_status (chosen_operation (mw_disk ?w) example_published))))"
    using row example_paths
    by (intro run_refused_by_status) (simp_all add: target chosen_operation_def may_start_def example_world_def TargetStatus_ALL_def)
  then show ?thesis unfolding op by (simp add: row start_status_def)
qed

theorem run_settles_reservation_witness:
  "run_settled (mint example_env (minted example_db)) 1 example_db
     (mw_db (fst (run_cancellable example_mirror_env example_mirror_settings None example_calls True example_mirror_request example_world)))
     (Some (MirrorInterrupted ClonePending))
   \<and> map lr_outcome (mirror_runs (mw_db (fst (run_cancellable example_mirror_env example_mirror_settings None example_calls True
       example_mirror_request example_world)))) = [''interrupted'']"
proof -
  have fresh: "mint (me_store example_mirror_env) (minted (mw_db example_world)) \<notin> set (map qr_run (reservations (mw_db example_world)))"
    by code_simp
  have out: "(case snd (run_cancellable example_mirror_env example_mirror_settings None example_calls True example_mirror_request example_world) of
      Inl _ \<Rightarrow> None | Inr outcome \<Rightarrow> Some (le_mirror outcome)) = Some (MirrorInterrupted ClonePending)" by code_simp
  have "map lr_outcome (mirror_runs (mw_db (fst (run_cancellable example_mirror_env example_mirror_settings None example_calls True
       example_mirror_request example_world)))) = [''interrupted'']" by code_simp
  moreover have "mq_target_id example_mirror_request = 1" "mw_db example_world = example_db" "me_store example_mirror_env = example_env"
    by (simp_all add: example_mirror_request_def MirrorRequest_new_def example_world_def example_mirror_env_def)
  ultimately show ?thesis
    using run_settles_reservation [OF fresh, of example_mirror_request example_mirror_settings None example_calls True] out by simp
qed


text \<open>The answers of the example's Git calls.\<close>

lemma example_git_answer:
  assumes "op_subcommand op \<in> {CloneMirror, Subcommand.Fetch, Fsck, ShowRef, RevList}" and "op_credentials op = None"
  shows "run_git example_mirror_env (example_calls k) (mirror_runner example_mirror_settings directory) op d
    = (gc_effect (example_calls k) d,
       Inr \<lparr> exit_code = 0,
             out_stdout = (if ''show-ref'' \<in> set (command_words ''/usr/bin/false'' op None)
                           then replicate 40 CHR ''a'' @ '' refs/heads/main'' @ [CHR 0x0A]
                           else if ''rev-list'' \<in> set (command_words ''/usr/bin/false'' op None)
                           then replicate 40 CHR ''a'' @ [CHR 0x0A] else ''''),
             out_stderr = '''', stdout_truncated = False, stderr_truncated = False \<rparr>)"
proof -
  have small: "read_capped [replicate 40 CHR ''a'' @ '' refs/heads/main'' @ [CHR 0x0A]] (64 * 1024) []
      = (replicate 40 CHR ''a'' @ '' refs/heads/main'' @ [CHR 0x0A], False)"
    "read_capped [replicate 40 CHR ''a'' @ [CHR 0x0A]] (64 * 1024) [] = (replicate 40 CHR ''a'' @ [CHR 0x0A], False)"
    by (simp_all add: read_capped_within)
  have "refuse_denied_paths (\<lambda>_. None) [] op = Inr ()" by (simp add: refuse_denied_paths_def list_ex_iff)
  then show ?thesis
    using assms(1,2) small
    by (auto simp: run_git_def example_calls_def git_run_def mirror_runner_def example_mirror_env_def example_git_child_def
        Let_def)
qed

lemma example_integrity:
  "integrity_evidence example_mirror_env example_mirror_settings example_calls directory d = (d, Inr 1)"
proof -
  have effects: "gc_effect (example_calls (Suc k)) = id" for k by (simp add: example_calls_def)
  have lines: "str_lines (replicate 40 CHR ''a'' @ '' refs/heads/main'' @ [CHR 0x0A]) \<noteq> []"
    "length (filter (\<lambda>line. line \<noteq> []) (str_lines (replicate 40 CHR ''a'' @ [CHR 0x0A]))) = 1"
    "utf8_valid (replicate 40 CHR ''a'' @ '' refs/heads/main'' @ [CHR 0x0A])" "utf8_valid (replicate 40 CHR ''a'' @ [CHR 0x0A])"
    by code_simp+
  show ?thesis
    unfolding integrity_evidence_def Let_def using lines
    by (simp add: example_git_answer fsck_full_def show_ref_def rev_list_all_objects_def git_operation_def effects
        numeral_2_eq_2 numeral_3_eq_3 command_words_def SAFE_CONFIG_WORDS_def del: replicate.simps)
qed

theorem verified_mirror_is_small_witness:
  "integrity_evidence example_mirror_env example_mirror_settings example_calls ''/m'' (\<lambda>_. None) = (\<lambda>_. None, Inr 1)
   \<and> unat (1 :: u64) \<le> 1598"
proof -
  have "unat (1 :: u64) \<le> 1598"
  proof (rule verified_mirror_is_small [OF example_integrity [of "''/m''" "\<lambda>_. None"]])
    fix outcome line
    assume "git_answer example_mirror_env (example_calls 3) (mirror_runner example_mirror_settings ''/m'') rev_list_all_objects = Inr outcome"
      and line: "line \<in> set (str_lines (out_stdout outcome))"
    then have "out_stdout outcome = replicate 40 CHR ''a'' @ [CHR 0x0A]"
      by (auto simp: git_answer_def example_git_answer rev_list_all_objects_def git_operation_def command_words_def SAFE_CONFIG_WORDS_def
          simp del: replicate.simps)
    moreover have "str_lines (replicate 40 CHR ''a'' @ [CHR 0x0A]) = [replicate 40 CHR ''a'']" by code_simp
    ultimately show "40 \<le> length line" using line by simp
  qed
  then show ?thesis by (simp add: example_integrity)
qed


definition example_started :: mirror_world where
  "example_started = fst (transition_started example_mirror_env 1 InitialClone example_world)"

definition example_reserved :: mirror_world where
  "example_reserved = example_started\<lparr>mw_db :=
     (case reserve_mirror_quota 2001 (advance (mw_db example_started)) 1 (now_v7 example_env (mw_db example_started)) 60 100 150 of
        Inr (_, db) \<Rightarrow> db | Inl _ \<Rightarrow> empty_db)\<rparr>"

definition example_cloned_disk :: disk where
  "example_cloned_disk = (\<lambda>_. None)(example_published := Some (DirNode [(''HEAD'', FileNode 21 [])]))"

definition example_finished_world :: mirror_world where
  "example_finished_world = fst (finish example_mirror_env 1 (now_v7 example_env (mw_db example_started)) InitialClone (Succeeded 1 21)
     (example_reserved\<lparr>mw_disk := example_cloned_disk\<rparr>))"

lemma example_clone:
  "clone_and_verify example_mirror_env example_mirror_settings example_calls 1 i ''file:///srv/a.git'' (\<lambda>_. None)
     = (example_cloned_disk, Succeeded 1 21)"
proof -
  have stage: "ConfinedPath_new (me_resolve example_mirror_env) (me_lstat example_mirror_env) ''/w'' ''runs/id/mirror.git''
      = Inr \<lparr> cp_root = [''w''], cp_resolved = [''w'', ''runs'', ''id'', ''mirror.git''] \<rparr>" by code_simp
  have staged_text: "path_text [''w'', ''runs'', ''id'', ''mirror.git''] = example_stage" by code_simp
  have env: "me_run_root_made example_mirror_env" "me_parent_made example_mirror_env" "me_rename_allowed example_mirror_env"
    "uuid_to_string (me_store example_mirror_env) i = ''id''" "ms_work_root example_mirror_settings = ''/w''"
    by (simp_all add: example_mirror_env_def example_env_def example_mirror_settings_def)
  have differ: "example_published \<noteq> example_stage" by code_simp
  have effect: "gc_effect (example_calls 0) d = d(example_stage := Some (DirNode [(''HEAD'', FileNode 21 [])]))" for d
    by (simp add: example_calls_def)
  have sized: "mirror_directory_size (Some (DirNode [(''HEAD'', FileNode 21 [])])) = Some 21" "saturating_add 0 21 = (21 :: u64)"
    by code_simp+
  show ?thesis
    using differ differ [symmetric]
    by (auto simp: clone_and_verify_def Let_def stage staged_text env example_git_answer clone_mirror_def git_operation_def effect
        example_integrity publish_staging_def example_paths rename_dir_def sized example_cloned_disk_def fun_eq_iff)
qed

lemma example_run:
  "fst (run_cancellable example_mirror_env example_mirror_settings None example_calls False example_mirror_request example_world)
     = example_finished_world"
proof -
  let ?i = "now_v7 example_env (mw_db example_started)"
  have request: "mq_target_id example_mirror_request = 1" "mq_source example_mirror_request = ''file:///srv/a.git''"
    "\<not> mq_lfs_enabled example_mirror_request" "admitted_reservation None example_mirror_request = 60"
    "ms_per_mirror_max_bytes example_mirror_settings = 100" "ms_global_max_bytes example_mirror_settings = 150"
    "me_times example_mirror_env 1 = 2001"
    by code_simp+
  have store: "me_store example_mirror_env = example_env" by (simp add: example_mirror_env_def)
  have disk: "mw_disk example_world = (\<lambda>_. None)" "mw_disk example_reserved = (\<lambda>_. None)"
    by (simp_all add: example_world_def example_reserved_def example_started_def transition_started_def set_status_call_def
        db_call_def split: sum.splits)
  have started: "transition_started example_mirror_env 1 InitialClone example_world = (example_started, Inr ())"
    by (simp add: example_started_def prod_eq_iff) code_simp
  have reserved: "reserve_mirror_quota 2001 (advance (mw_db example_started)) 1 ?i 60 100 150 = Inr (Reserved, mw_db example_reserved)"
    by code_simp
  have finished: "snd (finish example_mirror_env 1 ?i InitialClone (Succeeded 1 21) (example_reserved\<lparr>mw_disk := example_cloned_disk\<rparr>)) = Inr ()"
    by code_simp
  have "example_started\<lparr>mw_db := mw_db example_reserved\<rparr> = example_reserved" by (simp add: example_reserved_def)
  moreover have "run_admitted example_mirror_env example_mirror_settings None example_calls example_mirror_request example_published
      InitialClone ?i example_reserved = (example_finished_world, Inr (plain_outcome example_mirror_request (Succeeded 1 21)))"
    using finished disk request
    by (simp add: run_admitted_def Let_def example_clone collect_lfs_def world_bind_def persist_lfs_result_def
        example_finished_world_def plain_outcome_def prod_eq_iff split: prod.splits sum.splits)
  ultimately show ?thesis
    using started reserved request store disk example_paths
    by (simp add: run_cancellable_def Let_def is_ok_def chosen_operation_def world_bind_def db_call_def split: sum.splits)
qed

theorem mirror_ready_only_after_checks_witness:
  "map mr_status (mirrors (mw_db example_finished_world)) = [''ready'']
   \<and> (\<exists>dir m. checks_passed example_mirror_env example_mirror_settings example_calls dir m)"
proof -
  have status: "map mr_status (mirrors (mw_db example_finished_world)) = [''ready'']" by code_simp
  then obtain row where row: "row \<in> set (mirrors (mw_db example_finished_world))" "mr_status row = ''ready''" by auto
  have "mirrors (mw_db example_world) = []" by code_simp
  then have "row \<notin> set (mirrors (mw_db example_world))" by simp
  with mirror_ready_only_after_checks [OF row(1) [folded example_run] row(2)] status show ?thesis by blast
qed

end
