(* ===== verification/Civil_Calendar.thy ===== *)
theory Civil_Calendar
  imports Vault_Store "HOL-Library.Signed_Division"
begin

text \<open>
  The timestamp of a manifest (\<open>civil_date\<close> and \<open>utc_timestamp\<close> of
  \<open>services/vault/src/snapshot_lifecycle.rs\<close>), and the proof that the day arithmetic of \<open>civil_date\<close> is the
  proleptic Gregorian calendar. Integer division of the code truncates (\<open>sdiv\<close>). The clock yields at most
  \<open>2^64 - 1\<close> seconds, some \<open>2.2 * 10^14\<close> days, so that no intermediate value leaves the range of \<open>i64\<close> and
  unbounded integers stand for it.
\<close>

subsection \<open>Operations\<close>

definition civil_date :: "int \<Rightarrow> int \<times> int \<times> int" where
  "civil_date days_since_epoch =
     (let shifted = days_since_epoch + 719468;
          era = (if shifted \<ge> 0 then shifted else shifted - 146096) sdiv 146097;
          day_of_era = shifted - era * 146097;
          year_of_era = (day_of_era - day_of_era sdiv 1460 + day_of_era sdiv 36524 - day_of_era sdiv 146096) sdiv 365;
          year = year_of_era + era * 400;
          day_of_year = day_of_era - (365 * year_of_era + year_of_era sdiv 4 - year_of_era sdiv 100);
          month_prime = (5 * day_of_year + 2) sdiv 153;
          day = day_of_year - (153 * month_prime + 2) sdiv 5 + 1;
          month = month_prime + (if month_prime < 10 then 3 else -9)
      in (year + (if month \<le> 2 then 1 else 0), month, day))"

text \<open>\<open>{value:0width}\<close>: zeros after the sign.\<close>

definition zero_padded :: "nat \<Rightarrow> int \<Rightarrow> string" where
  "zero_padded width v =
     (let digits = decimal (nat \<bar>v\<bar>); sign = (if v < 0 then ''-'' else '''')
      in sign @ replicate (width - length sign - length digits) CHR ''0'' @ digits)"

datatype ClockError = BeforeEpoch | ClockOutOfRange

text \<open>\<open>now\<close> is \<open>SystemTime::now().duration_since(UNIX_EPOCH)\<close> in whole seconds, if it is defined.\<close>

definition utc_timestamp :: "u64 option \<Rightarrow> (ClockError, string) result" where
  "utc_timestamp now =
     (case now of
        None \<Rightarrow> Inl BeforeEpoch
      | Some seconds \<Rightarrow>
          (case i64_try_from (seconds div 86400) of
             None \<Rightarrow> Inl ClockOutOfRange
           | Some days \<Rightarrow>
               let day_seconds = uint (seconds mod 86400);
                   (year, month, day) = civil_date days
               in Inr (zero_padded 4 year @ ''-'' @ zero_padded 2 month @ ''-'' @ zero_padded 2 day @ ''T''
                       @ zero_padded 2 (day_seconds div 3600) @ '':'' @ zero_padded 2 (day_seconds mod 3600 div 60)
                       @ '':'' @ zero_padded 2 (day_seconds mod 60) @ ''Z'')))"

subsection \<open>The calendar\<close>

definition leap_year :: "int \<Rightarrow> bool" where
  "leap_year y \<longleftrightarrow> 4 dvd y \<and> (\<not> 100 dvd y \<or> 400 dvd y)"

definition month_length :: "int \<Rightarrow> int \<Rightarrow> int" where
  "month_length y m = (if m = 2 then (if leap_year y then 29 else 28) else if m \<in> {4, 6, 9, 11} then 30 else 31)"

definition valid_date :: "int \<Rightarrow> int \<Rightarrow> int \<Rightarrow> bool" where
  "valid_date y m d \<longleftrightarrow> 1 \<le> m \<and> m \<le> 12 \<and> 1 \<le> d \<and> d \<le> month_length y m"

text \<open>The day on which a year starts, and the days of a year before a month, counted from 1 January 1970.\<close>

definition year_start :: "int \<Rightarrow> int" where
  "year_start y = 365 * (y - 1) + (y - 1) div 4 - (y - 1) div 100 + (y - 1) div 400 - 719162"

definition days_before_month :: "int \<Rightarrow> int \<Rightarrow> int" where
  "days_before_month y m = (\<Sum>k \<leftarrow> [1..m - 1]. month_length y k)"

definition days_of_date :: "int \<Rightarrow> int \<Rightarrow> int \<Rightarrow> int" where
  "days_of_date y m d = year_start y + days_before_month y m + d - 1"

lemma div_step:
  fixes y n :: int
  assumes "0 < n"
  shows "(y + 1) div n = y div n + (if n dvd y + 1 then 1 else 0)"
proof -
  have r: "0 \<le> y mod n" "y mod n < n" using assms by simp_all
  have "(y + 1) div n = ((y mod n + 1) + n * (y div n)) div n"
    by (rule arg_cong [where f = "\<lambda>x. x div n"]) (metis add.commute add.left_commute mult_div_mod_eq)
  also have "\<dots> = y div n + (y mod n + 1) div n" using assms by (simp only: div_mult_self2 [OF less_imp_neq [THEN not_sym]])
  also have "(y mod n + 1) div n = (if n dvd y + 1 then 1 else 0)"
  proof (cases "y mod n + 1 = n")
    case True
    then have "(y + 1) mod n = 0" by (metis mod_add_left_eq mod_self)
    with True assms show ?thesis by (simp add: dvd_eq_mod_eq_0)
  next
    case False
    with r have "(y + 1) mod n = y mod n + 1" "(y mod n + 1) div n = 0"
      by (smt (verit) mod_add_left_eq mod_pos_pos_trivial, simp)
    with r show ?thesis by (simp add: dvd_eq_mod_eq_0)
  qed
  finally show ?thesis .
qed

text \<open>The definition of a year's start is the calendar's: year by year, by the leap rule, from the epoch.\<close>

lemma year_start_1970: "year_start 1970 = 0"
  by (simp add: year_start_def)

lemma year_start_Suc: "year_start (y + 1) = year_start y + (if leap_year y then 366 else 365)"
  using div_step [of 4 "y - 1"] div_step [of 100 "y - 1"] div_step [of 400 "y - 1"]
  by (auto simp: year_start_def leap_year_def dest: dvd_trans [of 4 100] dvd_trans [of 100 400])

subsection \<open>The cycle of 400 years\<close>

text \<open>Days before a year of a cycle that starts on 1 March; the last year of a cycle has a day more.\<close>

definition cycle_start :: "int \<Rightarrow> int" where
  "cycle_start y = 365 * y + y div 4 - y div 100 + y div 400"

definition scaled_day :: "int \<Rightarrow> int" where
  "scaled_day d = d - d div 1460 + d div 36524 - d div 146096"

lemma scaled_day_mono: "d \<le> e \<Longrightarrow> scaled_day d \<le> scaled_day e"
proof (induction e rule: int_ge_induct)
  case (step e)
  have steps: "e div 1460 + 1 \<ge> (e + 1) div 1460"
    "(e + 1) div 36524 = e div 36524 \<or> (e + 1) div 36524 = e div 36524 + 1"
    using div_step [of 1460 e] div_step [of 36524 e] by (auto split: if_splits)
  have "(e + 1) div 36524 div 4 - e div 36524 div 4 \<le> (e + 1) div 36524 - e div 36524"
    using steps(2) div_step [of 4 "e div 36524"] by (auto split: if_splits)
  moreover have "x div 36524 div 4 = x div 146096" for x :: int
    using zdiv_zmult2_eq [of 4 x 36524] by simp
  ultimately have "(e + 1) div 146096 - e div 146096 \<le> (e + 1) div 36524 - e div 36524" by simp
  moreover have "e - a + q - r \<le> e + 1 - a' + q' - r'" if "a' \<le> a + 1" "r' - r \<le> q' - q" for a a' q q' r r' :: int
    using that by linarith
  ultimately have "scaled_day e \<le> scaled_day (e + 1)" using steps(1) unfolding scaled_day_def by blast
  with step show ?case by simp
qed simp

lemma scaled_year_ends:
  "list_all (\<lambda>y. scaled_day (cycle_start y) div 365 = y \<and> scaled_day (cycle_start (y + 1) - 1) div 365 = y) [0..399]"
  by code_simp

lemma year_of_era_exact:
  assumes "0 \<le> y" "y < 400" "cycle_start y \<le> d" "d < cycle_start (y + 1)"
  shows "scaled_day d div 365 = y"
proof -
  have "y \<in> set [0..399]" using assms by simp
  then have ends: "scaled_day (cycle_start y) div 365 = y" "scaled_day (cycle_start (y + 1) - 1) div 365 = y"
    using scaled_year_ends unfolding list_all_iff by blast+
  have "scaled_day (cycle_start y) div 365 \<le> scaled_day d div 365"
    "scaled_day d div 365 \<le> scaled_day (cycle_start (y + 1) - 1) div 365"
    using assms by (simp_all add: scaled_day_mono zdiv_mono1)
  with ends show ?thesis by simp
qed

text \<open>Months that start in March: \<open>(153 * m + 2) div 5\<close> days lie before month \<open>m\<close>.\<close>

definition march_month :: "int \<Rightarrow> int" where
  "march_month day_of_year = (5 * day_of_year + 2) div 153"

lemma march_months:
  "list_all (\<lambda>k. let m = march_month k; d = k - (153 * m + 2) div 5 + 1
     in 0 \<le> m \<and> m \<le> 11 \<and> 1 \<le> d \<and> d \<le> month_length 4 (if m < 10 then m + 3 else m - 9)
        \<and> (k < 365 \<longrightarrow> d \<le> month_length 5 (if m < 10 then m + 3 else m - 9))) [0..365]"
  by code_simp

lemma march_month_exact:
  "list_all (\<lambda>m. list_all (\<lambda>d. let k = (153 * m + 2) div 5 + d - 1
       in march_month k = m \<and> 0 \<le> k \<and> k \<le> 365 \<and> (k = 365 \<longrightarrow> m = 11 \<and> d = 29))
     [1..month_length 4 (if m < 10 then m + 3 else m - 9)]) [0..11]"
  by code_simp


lemma sdiv_nonneg: "0 \<le> a \<Longrightarrow> 0 < b \<Longrightarrow> a sdiv b = a div (b :: int)"
  by (simp add: signed_divide_int_def sgn_if)

lemma ceiling_div:
  fixes s n :: int
  assumes "0 < n"
  shows "(n - 1 - s) div n = - (s div n)"
proof -
  have "n - 1 - s = (n - 1 - s mod n) + n * (- (s div n))"
    by (simp add: algebra_simps)
  then have "(n - 1 - s) div n = - (s div n) + (n - 1 - s mod n) div n"
    using div_mult_self2 [of n "n - 1 - s mod n" "- (s div n)"] less_imp_neq [OF assms] by (metis add.commute)
  moreover have "0 \<le> n - 1 - s mod n" "n - 1 - s mod n < n" using assms pos_mod_bound [of n s] pos_mod_sign [of n s] by linarith+
  ultimately show ?thesis by simp
qed

lemma era_floor: "(if s \<ge> 0 then s else s - 146096) sdiv 146097 = s div (146097 :: int)"
proof (cases "s \<ge> 0")
  case False
  then have "(s - 146096) sdiv 146097 = - ((146097 - 1 - s) div 146097)"
    by (simp add: signed_divide_int_def sgn_if)
  then show ?thesis using False ceiling_div [of 146097 s] by simp
qed (simp add: sdiv_nonneg)

lemma cycle_start_Suc: "cycle_start (y + 1) = cycle_start y + 365 + (if leap_year (y + 1) then 1 else 0)"
proof -
  have "cycle_start x = year_start (x + 1) + 719162" for x by (simp add: cycle_start_def year_start_def)
  then show ?thesis by (simp add: year_start_Suc)
qed

lemma cycle_start_mono: "y \<le> z \<Longrightarrow> cycle_start y \<le> cycle_start z"
proof (induction z rule: int_ge_induct)
  case (step z)
  then show ?case using cycle_start_Suc [of z] by (auto split: if_splits)
qed simp

lemma cycle_start_era: "cycle_start (y + 400 * era) = cycle_start y + 146097 * era"
proof -
  have "(y + 400 * era) div 4 = y div 4 + 100 * era" "(y + 400 * era) div 100 = y div 100 + 4 * era"
    "(y + 400 * era) div 400 = y div 400 + era"
    using div_mult_self2 [of 4 y "100 * era"] div_mult_self2 [of 100 y "4 * era"] div_mult_self2 [of 400 y era] by simp_all
  then show ?thesis by (simp add: cycle_start_def)
qed

lemma cycle_year_exists:
  assumes "0 \<le> d" "d < cycle_start n" "0 \<le> n"
  shows "\<exists>y. 0 \<le> y \<and> y < n \<and> cycle_start y \<le> d \<and> d < cycle_start (y + 1)"
  using assms(3,2)
proof (induction n rule: int_ge_induct)
  case base
  then show ?case using assms(1) by (simp add: cycle_start_def)
next
  case (step n)
  show ?case
  proof (cases "d < cycle_start n")
    case True
    with step.IH obtain y where "0 \<le> y" "y < n" "cycle_start y \<le> d" "d < cycle_start (y + 1)" by blast
    then show ?thesis by (intro exI [of _ y]) simp
  next
    case False
    with step show ?thesis by (intro exI [of _ n]) simp
  qed
qed

text \<open>The civil month of a month counted from March.\<close>

definition civil_month :: "int \<Rightarrow> int" where
  "civil_month m = (if m < 10 then m + 3 else m - 9)"

lemma civil_date_parts:
  assumes "0 \<le> y" "y < 400" and "cycle_start y \<le> d" "d < cycle_start (y + 1)"
  shows "civil_date (era * 146097 + d - 719468) =
    (let k = d - cycle_start y; m = march_month k
     in (y + 400 * era + (if civil_month m \<le> 2 then 1 else 0), civil_month m, k - (153 * m + 2) div 5 + 1))"
proof -
  have "0 \<le> cycle_start y" using cycle_start_mono [of 0 y] assms(1) by (simp add: cycle_start_def)
  moreover have "cycle_start (y + 1) \<le> 146097"
    using cycle_start_mono [of "y + 1" 400] assms(2) by (simp add: cycle_start_def)
  ultimately have d: "0 \<le> d" "d < 146097" using assms(3,4) by linarith+
  let ?s = "era * 146097 + d - 719468 + 719468"
  have era: "?s div 146097 = era" using d by simp
  have year: "scaled_day d div 365 = y" using assms by (rule year_of_era_exact)
  moreover have "0 \<le> scaled_day d" using scaled_day_mono [OF d(1)] by (simp add: scaled_day_def)
  ultimately have yoe: "(d - d sdiv 1460 + d sdiv 36524 - d sdiv 146096) sdiv 365 = y"
    using d(1) by (simp add: sdiv_nonneg scaled_day_def)
  have k: "0 \<le> d - cycle_start y" using assms(3) by simp
  have start: "365 * y + y sdiv 4 - y sdiv 100 = cycle_start y"
    using assms(1,2) by (simp add: sdiv_nonneg cycle_start_def)
  have month: "(5 * (d - cycle_start y) + 2) sdiv 153 = march_month (d - cycle_start y)"
    using k by (simp add: sdiv_nonneg march_month_def)
  have "0 \<le> march_month (d - cycle_start y)" using k by (simp add: march_month_def)
  then have days: "(153 * march_month (d - cycle_start y) + 2) sdiv 5 = (153 * march_month (d - cycle_start y) + 2) div 5"
    by (simp add: sdiv_nonneg)
  have "?s - era * 146097 = d" by simp
  then show ?thesis
    unfolding civil_date_def Let_def era_floor era
    by (simp only: yoe start month days civil_month_def) simp
qed

lemma march_part:
  assumes "0 \<le> k" "k < 365 + (if leap_year (y + 1) then 1 else 0)"
  defines "m \<equiv> march_month k"
  shows "0 \<le> m" "m \<le> 11" "1 \<le> k - (153 * m + 2) div 5 + 1"
    "k - (153 * m + 2) div 5 + 1 \<le> month_length (y + (if civil_month m \<le> 2 then 1 else 0)) (civil_month m)"
proof -
  have "k \<in> set [0..365]" using assms(1,2) by (auto split: if_splits)
  then have k: "0 \<le> m \<and> m \<le> 11 \<and> 1 \<le> k - (153 * m + 2) div 5 + 1
      \<and> k - (153 * m + 2) div 5 + 1 \<le> month_length 4 (civil_month m)
      \<and> (k < 365 \<longrightarrow> k - (153 * m + 2) div 5 + 1 \<le> month_length 5 (civil_month m))"
    using march_months unfolding list_all_iff Let_def m_def civil_month_def by blast
  then show "0 \<le> m" "m \<le> 11" "1 \<le> k - (153 * m + 2) div 5 + 1" by simp_all
  have "leap_year 4" "\<not> leap_year 5" by (simp_all add: leap_year_def)
  with k assms(2) show "k - (153 * m + 2) div 5 + 1 \<le> month_length (y + (if civil_month m \<le> 2 then 1 else 0)) (civil_month m)"
    by (auto simp: month_length_def split: if_splits)
qed


lemma days_before_months:
  assumes "0 \<le> m" "m \<le> 11"
  shows "year_start (y + (if civil_month m \<le> 2 then 1 else 0)) + days_before_month (y + (if civil_month m \<le> 2 then 1 else 0)) (civil_month m)
    = cycle_start y + (153 * m + 2) div 5 - 719468"
proof -
  have start: "cycle_start x = year_start (x + 1) + 719162" for x by (simp add: cycle_start_def year_start_def)
  have "m \<in> {0, 1, 2, 3, 4, 5, 6, 7, 8, 9, 10, 11}" using assms unfolding insert_iff empty_iff by presburger
  then show ?thesis
    by (auto simp: civil_month_def days_before_month_def upto_rec1 month_length_def start year_start_Suc)
qed

lemma civil_date_sound:
  assumes "civil_date days = (y, m, d)"
  shows "valid_date y m d \<and> days_of_date y m d = days"
proof -
  define era where "era = (days + 719468) div 146097"
  define doe where "doe = (days + 719468) mod 146097"
  have split: "days = era * 146097 + doe - 719468" by (simp add: era_def doe_def)
  have "0 \<le> doe" "doe < cycle_start 400" by (simp_all add: doe_def cycle_start_def)
  then obtain yoe where yoe: "0 \<le> yoe" "yoe < 400" "cycle_start yoe \<le> doe" "doe < cycle_start (yoe + 1)"
    using cycle_year_exists [of doe 400] by auto
  define k where "k = doe - cycle_start yoe"
  define mp where "mp = march_month k"
  have date: "(y, m, d) = (yoe + 400 * era + (if civil_month mp \<le> 2 then 1 else 0), civil_month mp, k - (153 * mp + 2) div 5 + 1)"
    using civil_date_parts [OF yoe, of era] assms unfolding split k_def mp_def Let_def by simp
  have k: "0 \<le> k" "k < 365 + (if leap_year (yoe + 400 * era + 1) then 1 else 0)"
    using yoe(3,4) cycle_start_Suc [of "yoe + 400 * era"] cycle_start_era [of yoe era] cycle_start_era [of "yoe + 1" era]
    by (auto simp: k_def ac_simps split: if_splits)
  have part: "0 \<le> mp" "mp \<le> 11" "1 \<le> d" "d \<le> month_length y m"
    using march_part [OF k] date unfolding mp_def by auto
  moreover have "1 \<le> m" "m \<le> 12" using part(1,2) date by (auto simp: civil_month_def split: if_splits)
  moreover have "days_of_date y m d = days"
    using days_before_months [OF part(1,2), of "yoe + 400 * era"] date cycle_start_era [of yoe era]
    by (simp add: days_of_date_def split k_def)
  ultimately show ?thesis by (simp add: valid_date_def)
qed

lemma civil_date_complete:
  assumes "valid_date y m d"
  shows "civil_date (days_of_date y m d) = (y, m, d)"
proof -
  define mp where "mp = (if m > 2 then m - 3 else m + 9)"
  define y' where "y' = y - (if m \<le> 2 then 1 else 0)"
  define k where "k = (153 * mp + 2) div 5 + d - 1"
  have mp: "0 \<le> mp" "mp \<le> 11" "civil_month mp = m"
    using assms by (auto simp: valid_date_def mp_def civil_month_def)
  have leap: "leap_year 4" by (simp add: leap_year_def)
  have "d \<le> month_length 4 m" using assms leap by (auto simp: valid_date_def month_length_def split: if_splits)
  then have "mp \<in> set [0..11]" "d \<in> set [1..month_length 4 (if mp < 10 then mp + 3 else mp - 9)]"
    using assms mp by (auto simp: valid_date_def civil_month_def split: if_splits)
  then have table: "march_month k = mp" "0 \<le> k" "k \<le> 365" "k = 365 \<Longrightarrow> mp = 11 \<and> d = 29"
    using march_month_exact unfolding list_all_iff Let_def k_def by blast+
  have "k < 365 + (if leap_year (y' + 1) then 1 else 0)"
  proof (cases "k = 365")
    case True
    with table(4) assms have "m = 2" "d = 29" by (auto simp: mp_def valid_date_def split: if_splits)
    then show ?thesis using assms True by (auto simp: valid_date_def month_length_def y'_def split: if_splits)
  qed (use table(3) in auto)
  moreover have split: "y' = y' mod 400 + 400 * (y' div 400)" by simp
  ultimately have "cycle_start (y' mod 400) + k < cycle_start (y' mod 400 + 1)"
    using cycle_start_Suc [of y'] cycle_start_era [of "y' mod 400" "y' div 400"]
      cycle_start_era [of "y' mod 400 + 1" "y' div 400"] by (simp add: ac_simps)
  moreover have "days_of_date y m d = y' div 400 * 146097 + (cycle_start (y' mod 400) + k) - 719468"
    using days_before_months [OF mp(1,2), of y'] cycle_start_era [of "y' mod 400" "y' div 400"] mp(3)
    by (simp add: days_of_date_def k_def y'_def)
  ultimately show ?thesis
    using civil_date_parts [of "y' mod 400" "cycle_start (y' mod 400) + k" "y' div 400"] table(1,2) mp(3)
    by (simp add: Let_def k_def y'_def)
qed

text \<open>
  C40. The day arithmetic is the calendar: a count of days since the epoch, negative ones included, becomes the
  date \<open>y\<close>-\<open>m\<close>-\<open>d\<close> exactly when that is a date of the proleptic Gregorian calendar and that many days lie
  between it and 1 January 1970.
\<close>

theorem civil_date_is_gregorian:
  "civil_date days = (y, m, d) \<longleftrightarrow> valid_date y m d \<and> days_of_date y m d = days"
  using civil_date_sound civil_date_complete by blast

end
