(* ===== verification/Snapshot_Lifecycle.thy ===== *)
theory Snapshot_Lifecycle
  imports Mirror_Lifecycle Civil_Calendar
begin

text \<open>
  The construction of one snapshot from a healthy mirror (\<open>services/vault/src/snapshot_lifecycle.rs\<close>): the
  parent is selected, Git bundles every ref, the refs are listed and parsed, bundle and signed manifest are
  published to the blob store, and one transaction records them. What the Git processes print and write, the
  clock, SHA-256, Ed25519, JSON serialisation and the removal of the run directory are parameters. Other
  workers may use the database and the blob store between the publication and the transaction;
  \<open>sv_meanwhile\<close> is what they do.
\<close>

subsection \<open>Settings, requests and results\<close>

record 'k SnapshotSettings =
  ss_work_root :: string
  ss_git_binary :: string
  ss_max_bytes :: u64
  ss_manifest_signer :: 'k

record SnapshotRequest =
  sq_target_id :: uuid
  sq_mirror_id :: uuid
  sq_run_id :: uuid

definition SnapshotSource_from :: "SnapshotRequest \<Rightarrow> SnapshotSource" where
  "SnapshotSource_from request =
     \<lparr> src_target_id = sq_target_id request, src_mirror_id = sq_mirror_id request, src_run_id = sq_run_id request \<rparr>"

record SnapshotResult =
  sr_snapshot_id :: uuid
  sr_bundle :: BlobRef
  sr_manifest :: BlobRef
  sr_evidence :: SnapshotManifest

subsection \<open>The refs of a mirror\<close>

datatype RefParseError = MalformedShowRef | InvalidRefEvidence | DuplicateRefEvidence

definition is_ascii_control :: "char \<Rightarrow> bool" where
  "is_ascii_control c \<longleftrightarrow> c < CHR 0x20 \<or> c = CHR 0x7F"

definition valid_ref_oid :: "string \<Rightarrow> bool" where
  "valid_ref_oid oid_text \<longleftrightarrow>
     length oid_text \<in> {40, 64} \<and> list_all (\<lambda>b. CHR ''a'' \<le> b \<and> b \<le> CHR ''z'' \<or> is_ascii_digit b) oid_text"

text \<open>\<open>names\<close> are the names accepted so far.\<close>

fun parse_ref_lines :: "string set \<Rightarrow> string list \<Rightarrow> (RefParseError, RefEvidence list) result" where
  "parse_ref_lines names [] = Inr []"
| "parse_ref_lines names (line # rest) =
     (case split_once '' '' line of
        None \<Rightarrow> Inl MalformedShowRef
      | Some (oid_text, name) \<Rightarrow>
          if \<not> valid_ref_oid oid_text \<or> name = '''' \<or> list_ex is_ascii_control name then Inl InvalidRefEvidence
          else if name \<in> names then Inl DuplicateRefEvidence
          else map_sum id ((#) \<lparr> ref_name = name, ref_oid = oid_text \<rparr>) (parse_ref_lines (insert name names) rest))"

definition parse_refs :: "string \<Rightarrow> (RefParseError, RefEvidence list) result" where
  "parse_refs output = parse_ref_lines {} (str_lines output)"

subsection \<open>The construction\<close>

text \<open>The places at which a construction stops; the code reports each as a diagnostic text.\<close>

datatype SnapshotFailure =
    SourceSelectionFailed VaultError
  | RunRootUnavailable
  | StagingRefused GitRunnerError
  | GitCallFailed GitRunnerError
  | BundleCreationFailed
  | BundleUnreadable
  | BundleOutOfBounds
  | RefEnumerationFailed
  | NonUtf8Refs
  | RefsRefused RefParseError
  | BlobFailed BlobStoreError
  | ClockFailed ClockError
  | ManifestFailed ManifestError
  | ManifestNotSerialized
  | ManifestNotWritten
  | SnapshotPersistenceFailed VaultError

record 'k snapshot_env = mirror_env +
  sv_crypto :: "'k crypto"
  sv_hash :: "u8 list \<Rightarrow> u8 list"
  sv_unsigned_vec :: "UnsignedManifest \<Rightarrow> u8 list option"
  sv_manifest_vec :: "SnapshotManifest \<Rightarrow> u8 list option"
  sv_chunks_of :: "u8 list \<Rightarrow> u8 list list"
  sv_pkg_version :: string
  sv_metadata_len :: "disk_node \<Rightarrow> u64 option"
  sv_manifest_written :: bool
  sv_clock :: "u64 option"
  sv_cleanup :: "disk \<Rightarrow> disk"
  sv_meanwhile :: "vault_db \<times> blob_fs \<Rightarrow> vault_db \<times> blob_fs"
  sv_clocks :: "nat \<Rightarrow> timestamp"

record snapshot_call =
  sc_child :: "string \<Rightarrow> string \<Rightarrow> string list \<Rightarrow> (string \<times> string) list \<Rightarrow> child_result"
  sc_effect :: "disk \<Rightarrow> disk"

definition snapshot_runner :: "'k SnapshotSettings \<Rightarrow> string \<Rightarrow> string \<Rightarrow> RunConfig" where
  "snapshot_runner settings directory run_root =
     \<lparr> git_binary = ss_git_binary settings, allowed = [Bundle, ShowRef], working_directory = directory,
       run_home = run_root @ ''/runner-home'', deadline = 60, stdout_cap_bytes = 64 * 1024,
       stderr_cap_bytes = 64 * 1024, credential_helper = ''/usr/bin/false'' \<rparr>"

definition snapshot_git ::
  "'k snapshot_env \<Rightarrow> snapshot_call \<Rightarrow> RunConfig \<Rightarrow> GitOperation \<Rightarrow> (SnapshotFailure, RunOutcome) result" where
  "snapshot_git env call config op =
     map_sum GitCallFailed id
       (git_run (me_canonicalize env) (me_staging env) (sc_child call) config [] op)"

definition bundle_admitted ::
  "'k snapshot_env \<Rightarrow> 'k SnapshotSettings \<Rightarrow> RunOutcome \<Rightarrow> disk_node option \<Rightarrow> (SnapshotFailure, unit) result" where
  "bundle_admitted env settings outcome staged =
     (if exit_code outcome \<noteq> 0 then Inl BundleCreationFailed
      else case Option.bind staged (sv_metadata_len env) of
             None \<Rightarrow> Inl BundleUnreadable
           | Some n \<Rightarrow> if n = 0 \<or> ss_max_bytes settings < n then Inl BundleOutOfBounds else Inr ())"

definition listed_refs :: "RunOutcome \<Rightarrow> (SnapshotFailure, RefEvidence list) result" where
  "listed_refs outcome =
     (if exit_code outcome \<noteq> 0 then Inl RefEnumerationFailed
      else if \<not> utf8_valid (out_stdout outcome) then Inl NonUtf8Refs
      else map_sum RefsRefused id (parse_refs (out_stdout outcome)))"

text \<open>\<open>?\<close> on a fallible step: a failure ends the construction with the disk and the store as they are.\<close>

definition stage_bind :: "(SnapshotFailure, 'a) result \<Rightarrow> 's \<Rightarrow> ('a \<Rightarrow> 's \<times> (SnapshotFailure, 'b) result) \<Rightarrow> 's \<times> (SnapshotFailure, 'b) result" where
  "stage_bind r s k = (case r of Inl e \<Rightarrow> (s, Inl e) | Inr x \<Rightarrow> k x)"

definition store_file ::
  "'k snapshot_env \<Rightarrow> LocalBlobStore \<Rightarrow> disk_node option \<Rightarrow> string \<Rightarrow> disk \<times> blob_fs
     \<Rightarrow> (BlobRef \<Rightarrow> disk \<times> blob_fs \<Rightarrow> (disk \<times> blob_fs) \<times> (SnapshotFailure, 'b) result)
     \<Rightarrow> (disk \<times> blob_fs) \<times> (SnapshotFailure, 'b) result" where
  "store_file env store node media s k =
     (let file = map_option source_of_node node
      in stage_bind (map_sum BlobFailed id (reference_for_file (sv_hash env) store file media)) s (\<lambda>reference.
           case publish_file (sv_hash env) store reference file (snd s) of
             (blobs, published) \<Rightarrow>
               stage_bind (map_sum BlobFailed id published) (fst s, blobs) (\<lambda>_. k reference (fst s, blobs))))"

definition manifest_payload :: "'k snapshot_env \<Rightarrow> SnapshotManifest \<Rightarrow> (SnapshotFailure, u8 list) result" where
  "manifest_payload env evidence =
     (case sv_manifest_vec env evidence of
        None \<Rightarrow> Inl ManifestNotSerialized
      | Some payload \<Rightarrow> if sv_manifest_written env then Inr payload else Inl ManifestNotWritten)"

definition written_file :: "'k snapshot_env \<Rightarrow> u8 list \<Rightarrow> disk_node" where
  "written_file env payload = FileNode (word_of_nat (length payload)) (sv_chunks_of env payload)"

definition snapshot_run_relative :: "'k snapshot_env \<Rightarrow> uuid \<Rightarrow> string" where
  "snapshot_run_relative env run_id = ''snapshot-runs/'' @ uuid_to_string (me_store env) run_id"

definition snapshot_run_root :: "'k snapshot_env \<Rightarrow> 'k SnapshotSettings \<Rightarrow> uuid \<Rightarrow> string" where
  "snapshot_run_root env settings run_id = ss_work_root settings @ ''/'' @ snapshot_run_relative env run_id"

text \<open>
  The staging path is the work root joined with a relative path, so \<open>strip_prefix\<close> gives that relative path
  back and its refusal branch is never taken.
\<close>

definition publish_manifest ::
  "'k snapshot_env \<Rightarrow> 'k SnapshotSettings \<Rightarrow> LocalBlobStore \<Rightarrow> string \<Rightarrow> RefEvidence list \<Rightarrow> BlobRef option \<Rightarrow> LfsEvidence option
     \<Rightarrow> BlobRef \<Rightarrow> disk \<times> blob_fs \<Rightarrow> (disk \<times> blob_fs) \<times> (SnapshotFailure, BlobRef \<times> BlobRef \<times> SnapshotManifest) result" where
  "publish_manifest env settings store run_root parsed parent collected bundle_ref s =
     stage_bind (map_sum ClockFailed id (utc_timestamp (sv_clock env))) s (\<lambda>created.
     stage_bind (map_sum ManifestFailed id
         (SnapshotManifest_new (sv_crypto env) (sv_unsigned_vec env) (sv_pkg_version env) parsed [bundle_ref] parent
            created collected (ss_manifest_signer settings))) s (\<lambda>evidence.
     stage_bind (manifest_payload env evidence) s (\<lambda>payload.
     store_file env store (Some (written_file env payload)) ''application/json''
       ((fst s)(run_root @ ''/snapshot-manifest.json'' \<mapsto> written_file env payload), snd s) (\<lambda>manifest_ref s1.
         (s1, Inr (bundle_ref, manifest_ref, evidence))))))"

definition build_and_publish ::
  "'k snapshot_env \<Rightarrow> 'k SnapshotSettings \<Rightarrow> LocalBlobStore \<Rightarrow> (nat \<Rightarrow> snapshot_call) \<Rightarrow> string \<Rightarrow> uuid \<Rightarrow> BlobRef option
     \<Rightarrow> LfsEvidence option \<Rightarrow> disk \<times> blob_fs
     \<Rightarrow> (disk \<times> blob_fs) \<times> (SnapshotFailure, BlobRef \<times> BlobRef \<times> SnapshotManifest) result" where
  "build_and_publish env settings store calls mirror run_id parent collected s =
     (let run_root = snapshot_run_root env settings run_id;
          runner = snapshot_runner settings mirror run_root
      in stage_bind (map_sum StagingRefused id
             (ConfinedPath_new (me_resolve env) (me_lstat env) (ss_work_root settings) (snapshot_run_relative env run_id @ ''/snapshot.bundle''))) s (\<lambda>stage.
         let staged = path_text (cp_resolved stage);
             d1 = sc_effect (calls 0) (fst s)
         in stage_bind (snapshot_git env (calls 0) runner (bundle_create stage)) (d1, snd s) (\<lambda>bundled.
            stage_bind (bundle_admitted env settings bundled (d1 staged)) (d1, snd s) (\<lambda>_.
            let d2 = sc_effect (calls 1) d1
            in stage_bind (snapshot_git env (calls 1) runner show_ref) (d2, snd s) (\<lambda>listed.
               stage_bind (listed_refs listed) (d2, snd s) (\<lambda>parsed.
               store_file env store (d2 staged) ''application/vnd.git.bundle'' (d2, snd s) (\<lambda>bundle_ref s1.
               publish_manifest env settings store run_root parsed parent collected bundle_ref s1)))))))"

definition snapshot ::
  "'k snapshot_env \<Rightarrow> 'k SnapshotSettings \<Rightarrow> LocalBlobStore \<Rightarrow> (nat \<Rightarrow> snapshot_call) \<Rightarrow> SnapshotRequest \<Rightarrow> string
     \<Rightarrow> LfsEvidence option \<Rightarrow> mirror_world \<Rightarrow> mirror_world \<times> (SnapshotFailure, SnapshotResult) result" where
  "snapshot env settings store calls request mirror collected w =
     (let src = SnapshotSource_from request
      in stage_bind (map_sum SourceSelectionFailed id (snapshot_parent (mw_db w) src)) w (\<lambda>parent.
         let run_id = now_v7 (me_store env) (mw_db w);
             db1 = advance (mw_db w)
         in if \<not> me_run_root_made env then (w\<lparr>mw_db := db1\<rparr>, Inl RunRootUnavailable)
            else
              case build_and_publish env settings store calls mirror run_id (map_option par_manifest parent) collected
                     (mw_disk w, mw_blobs w) of
                ((d, blobs), made) \<Rightarrow>
                  (case sv_meanwhile env (db1, blobs) of
                     (db2, blobs2) \<Rightarrow>
                       let w2 = \<lparr> mw_db = db2, mw_disk = sv_cleanup env d, mw_blobs = blobs2 \<rparr>
                       in stage_bind made w2 (\<lambda>(bundle_ref, manifest_ref, evidence).
                          stage_bind (map_sum SnapshotPersistenceFailed id
                            (record_built_snapshot (me_store env) (sha256_of (sv_crypto env)) (me_times env 0) (sv_clocks env) db2 src
                               (map_option par_snapshot_id parent) bundle_ref manifest_ref (ref_set_sha256 evidence)
                               (lfs evidence))) w2 (\<lambda>(ident, db3).
                            (w2\<lparr>mw_db := db3\<rparr>,
                             Inr \<lparr> sr_snapshot_id = ident, sr_bundle = bundle_ref, sr_manifest = manifest_ref,
                                   sr_evidence = evidence \<rparr>))))))"


subsection \<open>Reading a construction\<close>

lemma stage_bind_ok [simp]: "stage_bind r s k = (s', Inr y) \<longleftrightarrow> (\<exists>x. r = Inr x \<and> k x = (s', Inr y))"
  by (auto simp: stage_bind_def split: sum.splits)

lemma store_file_ok:
  assumes "store_file env store node media (d, b) k = (s', Inr y)"
  obtains reference node' blobs published where "node = Some node'"
    "reference_for_file (sv_hash env) store (Some (source_of_node node')) media = Inr reference"
    "publish_file (sv_hash env) store reference (Some (source_of_node node')) b = (blobs, Inr published)"
    "k reference (d, blobs) = (s', Inr y)"
proof -
  from assms obtain reference where reference:
    "reference_for_file (sv_hash env) store (map_option source_of_node node) media = Inr reference"
    by (auto simp: store_file_def Let_def)
  then obtain node' where node: "node = Some node'" by (cases node) (auto simp: reference_for_file_def)
  obtain blobs published where "publish_file (sv_hash env) store reference (Some (source_of_node node')) b = (blobs, published)"
    by fastforce
  with assms reference node that show ?thesis by (auto simp: store_file_def)
qed

definition readable_disk :: "disk \<Rightarrow> bool" where
  "readable_disk d \<longleftrightarrow> (\<forall>p node. d p = Some node \<longrightarrow> readable_source (source_of_node node))"

lemma publish_keeps_held:
  "blob_holds hash store blobs j \<Longrightarrow> blob_holds hash store (fst (publish_file hash store r src blobs)) j"
  using publish_never_overwrites unfolding blob_holds_def by metis

lemma written_file_source:
  assumes "chunking (sv_chunks_of env)"
  shows "readable_source (source_of_node (written_file env payload))"
    "stream_bytes (src_chunks (source_of_node (written_file env payload))) = payload"
  using assms by (simp_all add: written_file_def readable_source_def chunking_def)

lemma manifest_fields:
  assumes "SnapshotManifest_new c to_vec version rs bs parent created evidence signer = Inr m"
  shows "refs m = sort_key ref_name rs" "bundles m = bs" "parent_manifest m = parent" "lfs m = evidence"
  using assms by (auto simp: SnapshotManifest_new_def Let_def split: if_splits)

text \<open>What a successful construction has done.\<close>

definition construction_evidence ::
  "'k snapshot_env \<Rightarrow> 'k SnapshotSettings \<Rightarrow> snapshot_call \<Rightarrow> RunConfig \<Rightarrow> BlobRef option \<Rightarrow> LfsEvidence option \<Rightarrow> BlobRef \<Rightarrow> BlobRef
     \<Rightarrow> SnapshotManifest \<Rightarrow> bool" where
  "construction_evidence env settings call runner parent collected bundle_ref manifest_ref evidence \<longleftrightarrow>
     (\<exists>listed parsed created payload.
        snapshot_git env call runner show_ref = Inr listed \<and> listed_refs listed = Inr parsed
        \<and> SnapshotManifest_new (sv_crypto env) (sv_unsigned_vec env) (sv_pkg_version env) parsed [bundle_ref] parent created
            collected (ss_manifest_signer settings) = Inr evidence
        \<and> sv_manifest_vec env evidence = Some payload \<and> sha256 manifest_ref = encode_hex (sv_hash env payload))"

lemma build_and_publish_ok:
  assumes built: "build_and_publish env settings store calls mirror run_id parent collected s = (s', Inr (bundle_ref, manifest_ref, evidence))"
    and readable: "readable_disk (sc_effect (calls 1) (sc_effect (calls 0) (fst s)))" "chunking (sv_chunks_of env)"
  shows "blob_holds (sv_hash env) store (snd s') bundle_ref" "blob_holds (sv_hash env) store (snd s') manifest_ref"
    "\<exists>run_root. construction_evidence env settings (calls 1) (snapshot_runner settings mirror run_root) parent collected
       bundle_ref manifest_ref evidence"
proof -
  let ?root = "snapshot_run_root env settings run_id"
  let ?d = "sc_effect (calls 1) (sc_effect (calls 0) (fst s))"
  from built obtain stage :: ConfinedPath and listed parsed where git:
    "snapshot_git env (calls 1) (snapshot_runner settings mirror ?root) show_ref = Inr listed" "listed_refs listed = Inr parsed"
    and stored: "store_file env store (?d (path_text (cp_resolved stage))) ''application/vnd.git.bundle'' (?d, snd s)
       (\<lambda>bundle_ref. publish_manifest env settings store ?root parsed parent collected bundle_ref)
         = (s', Inr (bundle_ref, manifest_ref, evidence))"
    unfolding build_and_publish_def Let_def stage_bind_ok by blast
  from stored obtain bref node' blobs published where stored_bundle:
    "?d (path_text (cp_resolved stage)) = Some node'"
    "publish_file (sv_hash env) store bref (Some (source_of_node node')) (snd s) = (blobs, Inr published)"
    and rest: "publish_manifest env settings store ?root parsed parent collected bref (?d, blobs)
       = (s', Inr (bundle_ref, manifest_ref, evidence))"
    by (rule store_file_ok) (rule that, assumption+)
  from rest obtain created evidence' payload where signed:
    "SnapshotManifest_new (sv_crypto env) (sv_unsigned_vec env) (sv_pkg_version env) parsed [bref] parent created collected
       (ss_manifest_signer settings) = Inr evidence'"
    "manifest_payload env evidence' = Inr payload"
    and written: "store_file env store (Some (written_file env payload)) ''application/json''
       (?d(?root @ ''/snapshot-manifest.json'' \<mapsto> written_file env payload), blobs)
       (\<lambda>manifest_ref s3. (s3, Inr (bref, manifest_ref, evidence'))) = (s', Inr (bundle_ref, manifest_ref, evidence))"
    unfolding publish_manifest_def by auto
  from written obtain blobs2 published2 where manifest:
    "reference_for_file (sv_hash env) store (Some (source_of_node (written_file env payload))) ''application/json'' = Inr manifest_ref"
    "publish_file (sv_hash env) store manifest_ref (Some (source_of_node (written_file env payload))) blobs = (blobs2, Inr published2)"
    "bref = bundle_ref" "evidence' = evidence" "snd s' = blobs2"
    by (rule store_file_ok) (auto intro: that)
  have "readable_source (source_of_node node')" using readable(1) stored_bundle(1) by (auto simp: readable_disk_def)
  then have "blob_holds (sv_hash env) store blobs bref" using stored_bundle(2) by (rule publish_holds)
  then show "blob_holds (sv_hash env) store (snd s') bundle_ref"
    using publish_keeps_held [of "sv_hash env" store blobs bref manifest_ref "Some (source_of_node (written_file env payload))"]
      manifest(2,3,5) by simp
  show "blob_holds (sv_hash env) store (snd s') manifest_ref"
    using publish_holds [OF written_file_source(1) [OF readable(2)] manifest(2)] manifest(5) by simp
  have "sha256 manifest_ref = encode_hex (sv_hash env payload)"
    using manifest(1) written_file_source(2) [OF readable(2), of payload] by (auto simp: reference_for_file_def split: if_splits)
  moreover have "sv_manifest_vec env evidence = Some payload"
    using signed(2) manifest(4) by (auto simp: manifest_payload_def split: option.splits if_splits)
  ultimately show "\<exists>run_root. construction_evidence env settings (calls 1) (snapshot_runner settings mirror run_root) parent collected
      bundle_ref manifest_ref evidence"
    using git signed(1) manifest(3,4) unfolding construction_evidence_def by blast
qed


subsection \<open>A recorded snapshot has its bytes\<close>

lemma snapshot_ok:
  assumes "snapshot env settings store calls request mirror collected w = (w', Inr r)"
  obtains run_id d blobs db2 and parent :: "SnapshotParent option" where
    "snapshot_parent (mw_db w) (SnapshotSource_from request) = Inr parent"
    "build_and_publish env settings store calls mirror run_id (map_option par_manifest parent) collected (mw_disk w, mw_blobs w)
       = ((d, blobs), Inr (sr_bundle r, sr_manifest r, sr_evidence r))"
    "sv_meanwhile env (advance (mw_db w), blobs) = (db2, mw_blobs w')"
    "record_built_snapshot (me_store env) (sha256_of (sv_crypto env)) (me_times env 0) (sv_clocks env) db2 (SnapshotSource_from request)
       (map_option par_snapshot_id parent) (sr_bundle r) (sr_manifest r) (ref_set_sha256 (sr_evidence r)) (lfs (sr_evidence r))
       = Inr (sr_snapshot_id r, mw_db w')"
proof -
  let ?run = "now_v7 (me_store env) (mw_db w)"
  from assms obtain parent where parent: "snapshot_parent (mw_db w) (SnapshotSource_from request) = Inr parent"
    by (auto simp: snapshot_def Let_def)
  obtain d blobs made where made: "build_and_publish env settings store calls mirror ?run (map_option par_manifest parent) collected
      (mw_disk w, mw_blobs w) = ((d, blobs), made)" by (metis prod.exhaust)
  obtain db2 blobs2 where meanwhile: "sv_meanwhile env (advance (mw_db w), blobs) = (db2, blobs2)" by fastforce
  show ?thesis
    using assms parent made meanwhile that [OF parent, of ?run d blobs db2]
    by (auto simp: snapshot_def Let_def split: if_splits)
qed

lemma snapshot_intro:
  assumes "snapshot_parent (mw_db w) (SnapshotSource_from request) = Inr parent" and "me_run_root_made env"
    and "build_and_publish env settings store calls mirror (now_v7 (me_store env) (mw_db w)) (map_option par_manifest parent) collected
           (mw_disk w, mw_blobs w) = published"
    and "snd published = Inr parts" and "sv_meanwhile env (advance (mw_db w), snd (fst published)) = (db_now, blobs_now)"
    and "record_built_snapshot (me_store env) (sha256_of (sv_crypto env)) (me_times env 0) (sv_clocks env) db_now (SnapshotSource_from request)
           (map_option par_snapshot_id parent) (fst parts) (fst (snd parts)) (ref_set_sha256 (snd (snd parts))) (lfs (snd (snd parts)))
           = Inr recorded"
  shows "snapshot env settings store calls request mirror collected w =
    (\<lparr> mw_db = snd recorded, mw_disk = sv_cleanup env (fst (fst published)), mw_blobs = blobs_now \<rparr>,
     Inr \<lparr> sr_snapshot_id = fst recorded, sr_bundle = fst parts, sr_manifest = fst (snd parts), sr_evidence = snd (snd parts) \<rparr>)"
  using assms
  by (cases published; cases "fst published"; cases parts; cases recorded) (simp add: snapshot_def stage_bind_def)

text \<open>
  What the other workers may do: they keep every blob of the construction.
\<close>

definition spares_blobs :: "'k snapshot_env \<Rightarrow> LocalBlobStore \<Rightarrow> bool" where
  "spares_blobs env store \<longleftrightarrow>
     (\<forall>db blobs r. blob_holds (sv_hash env) store blobs r
        \<longrightarrow> blob_holds (sv_hash env) store (snd (sv_meanwhile env (db, blobs))) r)"

text \<open>
  C3. A recorded snapshot can be restored from what the store holds: when the construction succeeds and no
  other worker removes blobs before the transaction, the store holds the bytes of the bundle and of the
  manifest under their digests, the manifest's digest is that of the serialised evidence, the evidence
  carries the refs that Git listed, in order of their names, the one bundle and the parent's manifest, and
  its signature verifies under the signer's public key; and exactly the bundle and manifest references
  returned stand in the artifact rows of the new snapshot.
\<close>

theorem recorded_snapshot_has_its_bytes:
  assumes ok: "snapshot env settings store calls request mirror collected w = (w', Inr r)"
    and files: "readable_disk (sc_effect (calls 1) (sc_effect (calls 0) (mw_disk w)))" "chunking (sv_chunks_of env)"
    and others: "spares_blobs env store"
    and crypto_sound: "\<And>k msg. verify_with (sv_crypto env) (public_of (sv_crypto env) k) msg (sign_with (sv_crypto env) k msg)"
  shows "blob_holds (sv_hash env) store (mw_blobs w') (sr_bundle r) \<and> blob_holds (sv_hash env) store (mw_blobs w') (sr_manifest r)
    \<and> (\<exists>payload. sv_manifest_vec env (sr_evidence r) = Some payload
          \<and> sha256 (sr_manifest r) = encode_hex (sv_hash env payload))
    \<and> (\<exists>run_root listed parsed. snapshot_git env (calls 1) (snapshot_runner settings mirror run_root) show_ref = Inr listed
          \<and> listed_refs listed = Inr parsed \<and> refs (sr_evidence r) = sort_key ref_name parsed)
    \<and> bundles (sr_evidence r) = [sr_bundle r]
    \<and> verify_signature (sv_crypto env) (sv_unsigned_vec env) [verification_key (sv_crypto env) (ss_manifest_signer settings)]
        (sr_evidence r) = Inr ()
    \<and> (\<exists>row \<in> set (snapshots (mw_db w')). sn_id row = sr_snapshot_id r \<and> sn_target row = sq_target_id request)
    \<and> (\<exists>ar \<in> set (artifacts (mw_db w')). artifact_of (sr_snapshot_id r) (''git_bundle'', sr_bundle r) ar)
    \<and> (\<exists>ar \<in> set (artifacts (mw_db w')). artifact_of (sr_snapshot_id r) (''manifest'', sr_manifest r) ar)"
proof -
  from ok obtain run_id d blobs db2 and parent :: "SnapshotParent option" where made:
    "build_and_publish env settings store calls mirror run_id (map_option par_manifest parent) collected (mw_disk w, mw_blobs w)
       = ((d, blobs), Inr (sr_bundle r, sr_manifest r, sr_evidence r))"
    "sv_meanwhile env (advance (mw_db w), blobs) = (db2, mw_blobs w')"
    "record_built_snapshot (me_store env) (sha256_of (sv_crypto env)) (me_times env 0) (sv_clocks env) db2 (SnapshotSource_from request)
       (map_option par_snapshot_id parent) (sr_bundle r) (sr_manifest r) (ref_set_sha256 (sr_evidence r)) (lfs (sr_evidence r))
       = Inr (sr_snapshot_id r, mw_db w')"
    by (rule snapshot_ok) (rule that, assumption+)
  have held: "blob_holds (sv_hash env) store (mw_blobs w') (sr_bundle r)" "blob_holds (sv_hash env) store (mw_blobs w') (sr_manifest r)"
    using build_and_publish_ok(1,2) [OF made(1)] files others made(2) unfolding spares_blobs_def by (metis snd_conv fst_conv)+
  from build_and_publish_ok(3) [OF made(1)] files obtain run_root listed parsed created payload where evidence:
    "snapshot_git env (calls 1) (snapshot_runner settings mirror run_root) show_ref = Inr listed" "listed_refs listed = Inr parsed"
    "SnapshotManifest_new (sv_crypto env) (sv_unsigned_vec env) (sv_pkg_version env) parsed [sr_bundle r] (map_option par_manifest parent)
       created collected (ss_manifest_signer settings) = Inr (sr_evidence r)"
    "sv_manifest_vec env (sr_evidence r) = Some payload" "sha256 (sr_manifest r) = encode_hex (sv_hash env payload)"
    by (auto simp: construction_evidence_def)
  have "refs (sr_evidence r) = sort_key ref_name parsed" "bundles (sr_evidence r) = [sr_bundle r]"
    using manifest_fields [OF evidence(3)] by simp_all
  moreover have "verify_signature (sv_crypto env) (sv_unsigned_vec env)
      [verification_key (sv_crypto env) (ss_manifest_signer settings)] (sr_evidence r) = Inr ()"
    using built_manifest_verifies [OF crypto_sound evidence(3)] by simp
  moreover have "(\<exists>row \<in> set (snapshots (mw_db w')). sn_id row = sr_snapshot_id r \<and> sn_target row = sq_target_id request)
    \<and> (\<exists>ar \<in> set (artifacts (mw_db w')). artifact_of (sr_snapshot_id r) (''git_bundle'', sr_bundle r) ar)
    \<and> (\<exists>ar \<in> set (artifacts (mw_db w')). artifact_of (sr_snapshot_id r) (''manifest'', sr_manifest r) ar)"
    using recorded_snapshot_rows [OF made(3)]
    by (auto simp: snapshot_references_def list_all2_Cons1 snapshot_row_def SnapshotSource_from_def)
  ultimately show ?thesis using held evidence by blast
qed


subsection \<open>A construction in use\<close>

definition example_snapshot_crypto :: "u8 crypto" where
  "example_snapshot_crypto = example_crypto\<lparr>sha256_of := example_sha\<rparr>"

definition example_snapshot_env :: "u8 snapshot_env" where
  "example_snapshot_env = mirror_env.extend example_mirror_env
     \<lparr> sv_crypto = example_snapshot_crypto, sv_hash = example_hash, sv_unsigned_vec = (\<lambda>_. Some [1, 2]),
       sv_manifest_vec = (\<lambda>_. Some [1, 2, 3, 4]), sv_chunks_of = map (\<lambda>byte. [byte]), sv_pkg_version = ''0.1.0'',
       sv_metadata_len = (\<lambda>node. case node of FileNode n _ \<Rightarrow> Some n | _ \<Rightarrow> None), sv_manifest_written = True,
       sv_clock = Some 0, sv_cleanup = id, sv_meanwhile = id, sv_clocks = (\<lambda>_. 5000) \<rparr>"

definition example_snapshot_settings :: "u8 SnapshotSettings" where
  "example_snapshot_settings =
     \<lparr> ss_work_root = ''/w'', ss_git_binary = ''/usr/bin/git'', ss_max_bytes = 50, ss_manifest_signer = 5 \<rparr>"

definition example_bundle_path :: string where
  "example_bundle_path = ''/w/snapshot-runs/id/snapshot.bundle''"

definition example_bundle_node :: disk_node where
  "example_bundle_node = FileNode 3 [[7, 8], [9]]"

definition example_snapshot_calls :: "nat \<Rightarrow> snapshot_call" where
  "example_snapshot_calls k =
     \<lparr> sc_child = example_git_child,
       sc_effect = (if k = 0 then (\<lambda>d. d(example_bundle_path := Some example_bundle_node)) else id) \<rparr>"

definition example_snapshot_request :: SnapshotRequest where
  "example_snapshot_request =
     \<lparr> sq_target_id = 1, sq_mirror_id = mint example_env (minted example_db), sq_run_id = 80 \<rparr>"

definition example_snapshot_world :: mirror_world where
  "example_snapshot_world = \<lparr> mw_db = example_verified, mw_disk = (\<lambda>_. None), mw_blobs = (\<lambda>_. None) \<rparr>"

definition example_refs :: "RefEvidence list" where
  "example_refs = [\<lparr> ref_name = ''refs/heads/main'', ref_oid = replicate 40 CHR ''a'' \<rparr>]"

text \<open>What remains of the construction once Git has answered.\<close>

definition example_published_parts ::
  "(disk \<times> blob_fs) \<times> (SnapshotFailure, BlobRef \<times> BlobRef \<times> SnapshotManifest) result" where
  "example_published_parts =
     store_file example_snapshot_env example_store (Some example_bundle_node) ''application/vnd.git.bundle''
       ((\<lambda>_. None)(example_bundle_path := Some example_bundle_node), \<lambda>_. None)
       (publish_manifest example_snapshot_env example_snapshot_settings example_store ''/w/snapshot-runs/id'' example_refs None None)"

definition example_parts :: "BlobRef \<times> BlobRef \<times> SnapshotManifest" where
  "example_parts =
     (case snd example_published_parts of Inr parts \<Rightarrow> parts | Inl _ \<Rightarrow> (example_ref, example_ref, example_manifest))"

definition example_record :: "uuid \<times> vault_db" where
  "example_record =
     (case record_built_snapshot example_env example_sha 2000 (\<lambda>_. 5000) (advance example_verified) example_snapshot_source None
             (fst example_parts) (fst (snd example_parts)) (ref_set_sha256 (snd (snd example_parts)))
             (lfs (snd (snd example_parts))) of
        Inr r \<Rightarrow> r | Inl _ \<Rightarrow> (0, empty_db))"

lemma example_env_fields:
  "me_store example_snapshot_env = example_env" "me_resolve example_snapshot_env = (\<lambda>p. Some [tl p])"
  "me_lstat example_snapshot_env = (\<lambda>_. NotFound)" "me_run_root_made example_snapshot_env"
  "sv_meanwhile example_snapshot_env = id" "sv_cleanup example_snapshot_env = id" "sv_clocks example_snapshot_env = (\<lambda>_. 5000)"
  "me_times example_snapshot_env 0 = 2000" "sha256_of (sv_crypto example_snapshot_env) = example_sha"
  "sv_crypto example_snapshot_env = example_snapshot_crypto" "sv_hash example_snapshot_env = example_hash"
  by (simp_all add: example_snapshot_env_def mirror_env.defs example_mirror_env_def example_snapshot_crypto_def)

lemma example_snapshot_git:
  assumes "op_subcommand op \<in> {Bundle, ShowRef}" and "op_credentials op = None"
  shows "snapshot_git example_snapshot_env (example_snapshot_calls k) (snapshot_runner example_snapshot_settings directory root) op
    = Inr \<lparr> exit_code = 0,
            out_stdout = (if ''show-ref'' \<in> set (command_words ''/usr/bin/false'' op None)
                          then replicate 40 CHR ''a'' @ '' refs/heads/main'' @ [CHR 0x0A]
                          else if ''rev-list'' \<in> set (command_words ''/usr/bin/false'' op None)
                          then replicate 40 CHR ''a'' @ [CHR 0x0A] else ''''),
            out_stderr = '''', stdout_truncated = False, stderr_truncated = False \<rparr>"
proof -
  have small: "read_capped [replicate 40 CHR ''a'' @ '' refs/heads/main'' @ [CHR 0x0A]] (64 * 1024) []
      = (replicate 40 CHR ''a'' @ '' refs/heads/main'' @ [CHR 0x0A], False)"
    "read_capped [replicate 40 CHR ''a'' @ [CHR 0x0A]] (64 * 1024) [] = (replicate 40 CHR ''a'' @ [CHR 0x0A], False)"
    by (simp_all add: read_capped_within)
  have "refuse_denied_paths (\<lambda>_. None) [] op = Inr ()" by (simp add: refuse_denied_paths_def list_ex_iff)
  moreover have "me_canonicalize example_snapshot_env = (\<lambda>_. None)"
    by (simp add: example_snapshot_env_def mirror_env.defs example_mirror_env_def)
  ultimately show ?thesis
    using assms small
    by (auto simp: snapshot_git_def example_snapshot_calls_def git_run_def snapshot_runner_def example_git_child_def Let_def)
qed


lemma example_construction:
  "build_and_publish example_snapshot_env example_snapshot_settings example_store example_snapshot_calls ''/v/m.git'' run_id None None
     (\<lambda>_. None, \<lambda>_. None) = example_published_parts"
proof -
  have root: "snapshot_run_root example_snapshot_env example_snapshot_settings run_id = ''/w/snapshot-runs/id''"
    "snapshot_run_relative example_snapshot_env run_id = ''snapshot-runs/id''" "ss_work_root example_snapshot_settings = ''/w''"
    by (simp_all add: snapshot_run_root_def snapshot_run_relative_def example_env_fields example_env_def example_snapshot_settings_def)
  have stage: "ConfinedPath_new (\<lambda>p. Some [tl p]) (\<lambda>_. NotFound) ''/w'' ''snapshot-runs/id/snapshot.bundle''
      = Inr \<lparr> cp_root = [''w''], cp_resolved = [''w'', ''snapshot-runs'', ''id'', ''snapshot.bundle''] \<rparr>" by code_simp
  have staged: "path_text [''w'', ''snapshot-runs'', ''id'', ''snapshot.bundle''] = example_bundle_path" by code_simp
  have effects: "sc_effect (example_snapshot_calls 0) d = d(example_bundle_path := Some example_bundle_node)"
    "sc_effect (example_snapshot_calls 1) d = d" for d
    by (simp_all add: example_snapshot_calls_def)
  have admitted: "bundle_admitted example_snapshot_env example_snapshot_settings outcome (Some example_bundle_node) = Inr ()"
    if "exit_code outcome = 0" for outcome
    using that by (simp add: bundle_admitted_def example_bundle_node_def example_snapshot_settings_def example_snapshot_env_def mirror_env.defs)
  have parsed: "parse_refs (replicate 40 CHR ''a'' @ '' refs/heads/main'' @ [CHR 0x0A]) = Inr example_refs"
    "utf8_valid (replicate 40 CHR ''a'' @ '' refs/heads/main'' @ [CHR 0x0A])"
    by code_simp+
  have listed: "listed_refs \<lparr> exit_code = 0, out_stdout = replicate 40 CHR ''a'' @ '' refs/heads/main'' @ [CHR 0x0A], out_stderr = '''',
      stdout_truncated = False, stderr_truncated = False \<rparr> = Inr example_refs"
    using parsed by (simp add: listed_refs_def del: replicate.simps)
  have git: "snapshot_git example_snapshot_env (example_snapshot_calls 0)
      (snapshot_runner example_snapshot_settings directory home) (bundle_create stage)
        = Inr \<lparr> exit_code = 0, out_stdout = '''', out_stderr = '''', stdout_truncated = False, stderr_truncated = False \<rparr>"
    if "''show-ref'' \<noteq> path_text (cp_resolved stage)" "''rev-list'' \<noteq> path_text (cp_resolved stage)" for stage directory home
    using that by (simp add: example_snapshot_git bundle_create_def git_operation_def command_words_def SAFE_CONFIG_WORDS_def)
  have refs: "snapshot_git example_snapshot_env (example_snapshot_calls 1)
      (snapshot_runner example_snapshot_settings directory home) show_ref
        = Inr \<lparr> exit_code = 0, out_stdout = replicate 40 CHR ''a'' @ '' refs/heads/main'' @ [CHR 0x0A], out_stderr = '''',
                stdout_truncated = False, stderr_truncated = False \<rparr>" for directory home
    by (simp add: example_snapshot_git show_ref_def git_operation_def command_words_def SAFE_CONFIG_WORDS_def del: replicate.simps)
  have other: "''show-ref'' \<noteq> example_bundle_path" "''rev-list'' \<noteq> example_bundle_path"
    by (simp_all add: example_bundle_path_def)
  show ?thesis
    using listed
    unfolding build_and_publish_def Let_def root example_env_fields append_Cons append_Nil stage
    by (simp add: stage_bind_def stage staged git other effects admitted refs example_published_parts_def
        example_env_fields del: replicate.simps One_nat_def)
qed

lemma example_parts_ok: "snd example_published_parts = Inr example_parts"
  by code_simp

lemma example_record_ok:
  "record_built_snapshot example_env example_sha 2000 (\<lambda>_. 5000) (advance example_verified) example_snapshot_source None
     (fst example_parts) (fst (snd example_parts)) (ref_set_sha256 (snd (snd example_parts))) (lfs (snd (snd example_parts)))
     = Inr example_record"
proof -
  have "is_ok (record_built_snapshot example_env example_sha 2000 (\<lambda>_. 5000) (advance example_verified) example_snapshot_source None
     (fst example_parts) (fst (snd example_parts)) (ref_set_sha256 (snd (snd example_parts))) (lfs (snd (snd example_parts))))"
    by code_simp
  then show ?thesis unfolding example_record_def by (auto simp: is_ok_def split: sum.splits)
qed


definition example_snapshot_done :: mirror_world where
  "example_snapshot_done =
     \<lparr> mw_db = snd example_record, mw_disk = fst (fst example_published_parts), mw_blobs = snd (fst example_published_parts) \<rparr>"

definition example_snapshot_result :: SnapshotResult where
  "example_snapshot_result =
     \<lparr> sr_snapshot_id = fst example_record, sr_bundle = fst example_parts, sr_manifest = fst (snd example_parts),
       sr_evidence = snd (snd example_parts) \<rparr>"

lemma example_snapshot_ok:
  "snapshot example_snapshot_env example_snapshot_settings example_store example_snapshot_calls example_snapshot_request ''/v/m.git'' None
     example_snapshot_world = (example_snapshot_done, Inr example_snapshot_result)"
proof -
  have src: "SnapshotSource_from example_snapshot_request = example_snapshot_source"
    by (simp add: SnapshotSource_from_def example_snapshot_request_def example_snapshot_source_def)
  have parent: "snapshot_parent example_verified example_snapshot_source = Inr None" by code_simp
  have sha: "sha256_of example_snapshot_crypto = example_sha" by (simp add: example_snapshot_crypto_def)
  have "snapshot example_snapshot_env example_snapshot_settings example_store example_snapshot_calls example_snapshot_request
      ''/v/m.git'' None example_snapshot_world
    = (\<lparr> mw_db = snd example_record, mw_disk = sv_cleanup example_snapshot_env (fst (fst example_published_parts)),
          mw_blobs = snd (fst example_published_parts) \<rparr>,
       Inr \<lparr> sr_snapshot_id = fst example_record, sr_bundle = fst example_parts, sr_manifest = fst (snd example_parts),
             sr_evidence = snd (snd example_parts) \<rparr>)"
    by (rule snapshot_intro [where parent = None and db_now = "advance example_verified"])
      (simp_all add: example_snapshot_world_def src parent sha example_env_fields example_construction example_parts_ok example_record_ok)
  then show ?thesis by (simp add: example_snapshot_done_def example_snapshot_result_def example_env_fields)
qed

theorem recorded_snapshot_has_its_bytes_witness:
  "blob_holds example_hash example_store (mw_blobs example_snapshot_done) (sr_bundle example_snapshot_result)
   \<and> blob_holds example_hash example_store (mw_blobs example_snapshot_done) (sr_manifest example_snapshot_result)"
proof -
  have disk: "readable_disk (sc_effect (example_snapshot_calls 1) (sc_effect (example_snapshot_calls 0) (mw_disk example_snapshot_world)))"
    by (auto simp: readable_disk_def example_snapshot_calls_def example_snapshot_world_def example_bundle_node_def
        readable_source_def readable_def)
  have chunks: "chunking (sv_chunks_of example_snapshot_env)"
    by (simp add: example_snapshot_env_def mirror_env.defs chunking_singletons)
  have "spares_blobs example_snapshot_env example_store" by (simp add: spares_blobs_def example_env_fields)
  moreover have "verify_with (sv_crypto example_snapshot_env) (public_of (sv_crypto example_snapshot_env) k) msg
      (sign_with (sv_crypto example_snapshot_env) k msg)" for k msg
    by (simp add: example_env_fields example_snapshot_crypto_def example_crypto_def)
  ultimately show ?thesis
    using recorded_snapshot_has_its_bytes [OF example_snapshot_ok disk chunks] by (simp add: example_env_fields)
qed

end
