(* ===== verification/Restore_Store.thy ===== *)
theory Restore_Store
  imports Snapshot_Store
begin

text \<open>
  Append-only evidence of verifications and restore drills
  (\<open>crates/persistence/src/restore_verification.rs\<close>): the reports, their validation, the two recording
  transactions with the constraints of the schema, and the reads the scheduler uses.
\<close>

subsection \<open>Reports\<close>

datatype EvidenceOutcome = EvidencePassed | EvidenceFailed

fun EvidenceOutcome_as_str :: "EvidenceOutcome \<Rightarrow> string" where
  "EvidenceOutcome_as_str EvidencePassed = ''passed''"
| "EvidenceOutcome_as_str EvidenceFailed = ''failed''"

interpretation evidence_outcome_name: closed_vocabulary EvidenceOutcome_as_str "[EvidencePassed, EvidenceFailed]"
proof unfold_locales
  show "x = y" if "EvidenceOutcome_as_str x = EvidenceOutcome_as_str y" for x y
    using that by (cases x; cases y) simp_all
  show "x \<in> set [EvidencePassed, EvidenceFailed]" for x by (cases x) simp_all
qed simp

datatype StoredRestoreSource = StoredLocal | StoredReplica uuid

fun source_kind :: "StoredRestoreSource \<Rightarrow> string" where
  "source_kind StoredLocal = ''local''"
| "source_kind (StoredReplica _) = ''replica''"

fun source_replica_target_id :: "StoredRestoreSource \<Rightarrow> uuid option" where
  "source_replica_target_id StoredLocal = None"
| "source_replica_target_id (StoredReplica target) = Some target"

record StoredRestoreDrillReport =
  sd_drill_id :: uuid
  sd_snapshot_id :: uuid
  sd_manifest :: BlobRef
  sd_source :: StoredRestoreSource
  sd_outcome :: EvidenceOutcome
  sd_failure_class :: "string option"
  sd_refs_matched :: bool
  sd_duration_millis :: u64
  sd_stages :: json
  sd_expected_ref_count :: u64
  sd_observed_ref_count :: u64
  sd_expected_ref_set_sha256 :: string
  sd_observed_ref_set_sha256 :: string
  sd_lfs_restored :: "bool option"
  sd_expected_lfs_object_count :: "u64 option"
  sd_observed_lfs_object_count :: "u64 option"
  sd_expected_lfs_bytes :: "u64 option"
  sd_observed_lfs_bytes :: "u64 option"
  sd_expected_lfs_aggregate_sha256 :: "string option"
  sd_observed_lfs_aggregate_sha256 :: "string option"
  sd_network_disabled :: bool
  sd_live_mirror_accessed :: bool

record StoredVerificationReport =
  sf_verification_id :: uuid
  sf_snapshot_id :: uuid
  sf_manifest :: BlobRef
  sf_outcome :: EvidenceOutcome
  sf_failure_class :: "string option"
  sf_duration_millis :: u64
  sf_stages :: json
  sf_checked_artifacts :: json
  sf_expected_ref_count :: u64
  sf_expected_ref_set_sha256 :: string

record VerificationScheduleRecord =
  vs_snapshot_id :: uuid
  vs_bundle_size_bytes :: u64
  vs_last_verified_at :: "u64 option"
  vs_last_drilled_at :: "u64 option"

subsection \<open>Validation\<close>

fun is_array :: "json \<Rightarrow> bool" where
  "is_array (JArray _) = True"
| "is_array _ = False"

definition failure_named :: "string option \<Rightarrow> bool" where
  "failure_named failure = (case failure of None \<Rightarrow> False | Some value \<Rightarrow> value \<noteq> '''')"

definition lfs_evidence_consistent :: "StoredRestoreDrillReport \<Rightarrow> bool" where
  "lfs_evidence_consistent r \<longleftrightarrow>
     (sd_lfs_restored r \<noteq> None \<and> sd_expected_lfs_object_count r \<noteq> None \<and> sd_observed_lfs_object_count r \<noteq> None
      \<and> sd_expected_lfs_bytes r \<noteq> None \<and> sd_observed_lfs_bytes r \<noteq> None
      \<and> sd_expected_lfs_aggregate_sha256 r \<noteq> None \<and> sd_observed_lfs_aggregate_sha256 r \<noteq> None)
     \<or> (sd_lfs_restored r = None \<and> sd_expected_lfs_object_count r = None \<and> sd_observed_lfs_object_count r = None
      \<and> sd_expected_lfs_bytes r = None \<and> sd_observed_lfs_bytes r = None
      \<and> sd_expected_lfs_aggregate_sha256 r = None \<and> sd_observed_lfs_aggregate_sha256 r = None)"

definition validate_report :: "StoredRestoreDrillReport \<Rightarrow> (VaultError, unit) result" where
  "validate_report r =
     (let failure_consistent =
            (case sd_outcome r of
               EvidencePassed \<Rightarrow> sd_failure_class r = None \<and> sd_refs_matched r
             | EvidenceFailed \<Rightarrow> failure_named (sd_failure_class r))
      in if \<not> failure_consistent \<or> owner (sd_manifest r) \<noteq> ''ratatoskr-vault''
            \<or> media_type (sd_manifest r) \<noteq> ''application/json'' \<or> \<not> is_array (sd_stages r)
            \<or> \<not> sd_network_disabled r \<or> sd_live_mirror_accessed r \<or> \<not> lfs_evidence_consistent r
         then Inl (InvalidDelivery ''restore_drill_report'') else Inr ())"

definition validate_verification_report :: "StoredVerificationReport \<Rightarrow> (VaultError, unit) result" where
  "validate_verification_report r =
     (let failure_consistent =
            (case sf_outcome r of
               EvidencePassed \<Rightarrow> sf_failure_class r = None
             | EvidenceFailed \<Rightarrow> failure_named (sf_failure_class r))
      in if \<not> failure_consistent \<or> owner (sf_manifest r) \<noteq> ''ratatoskr-vault''
            \<or> media_type (sf_manifest r) \<noteq> ''application/json'' \<or> \<not> is_array (sf_stages r)
            \<or> \<not> is_array (sf_checked_artifacts r)
         then Inl (InvalidDelivery ''verification_report'') else Inr ())"

definition restore_checked_i64 :: "u64 \<Rightarrow> (VaultError, int) result" where
  "restore_checked_i64 v =
     (case i64_try_from v of Some n \<Rightarrow> Inr n | None \<Rightarrow> Inl (InvalidDelivery ''restore_drill_report''))"

definition restore_decode_digest :: "string \<Rightarrow> (VaultError, u8 list) result" where
  "restore_decode_digest hex =
     (if length hex \<noteq> 64 \<or> \<not> list_all is_lowercase_hex hex then Inl (InvalidDelivery ''restore_drill_report'')
      else case decode_pairs hex of None \<Rightarrow> Inl (InvalidDelivery ''restore_drill_report'') | Some bytes \<Rightarrow> Inr bytes)"

text \<open>\<open>map(f).transpose()?\<close> on an optional field.\<close>

definition transposed :: "('a \<Rightarrow> (VaultError, 'b) result) \<Rightarrow> 'a option \<Rightarrow> (VaultError, 'b option) result" where
  "transposed f v = (case v of None \<Rightarrow> Inr None | Some x \<Rightarrow> result_bind (f x) (\<lambda>y. Inr (Some y)))"

subsection \<open>Recording\<close>

text \<open>
  The lowest value of \<open>timestamptz\<close>, in microseconds; a start before it is out of range, as is an interval
  that does not fit its 64 bits.
\<close>

definition TIMESTAMP_MIN :: int where
  "TIMESTAMP_MIN = - 210866803200000000"

definition integrity_check_row :: "timestamp \<Rightarrow> StoredVerificationReport \<Rightarrow> u8 list \<Rightarrow> u8 list \<Rightarrow> int \<Rightarrow> int \<Rightarrow> IntegrityCheckRow" where
  "integrity_check_row now r manifest_hash refs_hash millis ref_count =
     \<lparr> ic_id = sf_verification_id r, ic_snapshot = sf_snapshot_id r, ic_manifest_hash = manifest_hash,
       ic_outcome = EvidenceOutcome_as_str (sf_outcome r), ic_failure_class = sf_failure_class r,
       ic_duration_millis = millis, ic_stages = sf_stages r, ic_checked_artifacts = sf_checked_artifacts r,
       ic_expected_ref_count = ref_count, ic_expected_refs_hash = refs_hash,
       ic_started_at = now - 1000 * millis, ic_finished_at = now \<rparr>"

definition integrity_check_checks :: "IntegrityCheckRow \<Rightarrow> bool" where
  "integrity_check_checks row \<longleftrightarrow>
     length (ic_manifest_hash row) = 32 \<and> 0 \<le> ic_duration_millis row \<and> is_array (ic_stages row)
     \<and> is_array (ic_checked_artifacts row) \<and> 0 \<le> ic_expected_ref_count row \<and> length (ic_expected_refs_hash row) = 32
     \<and> (ic_outcome row = ''passed'' \<and> ic_failure_class row = None
        \<or> ic_outcome row = ''failed'' \<and> ic_failure_class row \<noteq> None)
     \<and> ic_started_at row \<le> ic_finished_at row \<and> TIMESTAMP_MIN \<le> ic_started_at row"

definition failure_fact :: "store_env \<Rightarrow> timestamp \<Rightarrow> string \<Rightarrow> string \<Rightarrow> uuid \<Rightarrow> OutboxPayload \<Rightarrow> vault_db \<Rightarrow> vault_db" where
  "failure_fact env now event aggregate ident payload db =
     advance (db\<lparr>outbox := outbox db @
       [\<lparr> ob_event_id = now_v7 env db, ob_event_type = event, ob_aggregate_type = aggregate,
          ob_aggregate_id = uuid_to_string env ident, ob_payload = payload, ob_created_at = now,
          ob_published_at = None, ob_attempt_count = 0, ob_last_error = None, ob_next_attempt_at = None \<rparr>]\<rparr>)"

definition record_verification ::
  "store_env \<Rightarrow> timestamp \<Rightarrow> vault_db \<Rightarrow> StoredVerificationReport \<Rightarrow> (VaultError, vault_db) result" where
  "record_verification env now db r =
     result_bind (validate_verification_report r) (\<lambda>_.
     result_bind (restore_decode_digest (sha256 (sf_manifest r))) (\<lambda>manifest_hash.
     result_bind (restore_decode_digest (sf_expected_ref_set_sha256 r)) (\<lambda>refs_hash.
     result_bind (restore_checked_i64 (sf_duration_millis r)) (\<lambda>millis.
     result_bind (restore_checked_i64 (sf_expected_ref_count r)) (\<lambda>ref_count.
       let row = integrity_check_row now r manifest_hash refs_hash millis ref_count
       in if \<not> integrity_check_checks row \<or> list_ex (\<lambda>ic. ic_id ic = ic_id row) (integrity_checks db)
             \<or> \<not> list_ex (\<lambda>s. sn_id s = ic_snapshot row) (snapshots db)
          then Inl StorageFailed
          else
            let db1 = db\<lparr>integrity_checks := integrity_checks db @ [row]\<rparr>
            in Inr (if sf_outcome r = EvidenceFailed
                    then failure_fact env now ''vault.snapshot.verification_failed.v1'' ''snapshot_verification''
                           (sf_verification_id r)
                           (VerificationFailedFact (sf_verification_id r) (sf_snapshot_id r) (sha256 (sf_manifest r))
                              (sf_failure_class r)) db1
                    else db1))))))"

definition restore_drill_checks :: "RestoreDrillRow \<Rightarrow> bool" where
  "restore_drill_checks row \<longleftrightarrow>
     length (rd_manifest_hash row) = 32 \<and> 0 \<le> rd_duration_millis row \<and> is_array (rd_stages row)
     \<and> 0 \<le> rd_expected_ref_count row \<and> 0 \<le> rd_observed_ref_count row
     \<and> length (rd_expected_refs_hash row) = 32 \<and> length (rd_observed_refs_hash row) = 32
     \<and> (rd_source_kind row = ''local'' \<and> rd_replica_target row = None
        \<or> rd_source_kind row = ''replica'' \<and> rd_replica_target row \<noteq> None)
     \<and> (rd_outcome row = ''passed'' \<and> rd_failure_class row = None \<and> rd_refs_matched row
        \<or> rd_outcome row = ''failed'' \<and> rd_failure_class row \<noteq> None)
     \<and> rd_network_disabled row \<and> \<not> rd_live_mirror_accessed row
     \<and> rd_started_at row \<le> rd_finished_at row \<and> TIMESTAMP_MIN \<le> rd_started_at row
     \<and> (rd_lfs_restored row = None
          \<and> rd_expected_lfs_object_count row = None \<and> rd_observed_lfs_object_count row = None
          \<and> rd_expected_lfs_bytes row = None \<and> rd_observed_lfs_bytes row = None
          \<and> rd_expected_lfs_aggregate_hash row = None \<and> rd_observed_lfs_aggregate_hash row = None
        \<or> rd_lfs_restored row \<noteq> None
          \<and> pred_option ((\<le>) 0) (rd_expected_lfs_object_count row) \<and> pred_option ((\<le>) 0) (rd_observed_lfs_object_count row)
          \<and> pred_option ((\<le>) 0) (rd_expected_lfs_bytes row) \<and> pred_option ((\<le>) 0) (rd_observed_lfs_bytes row)
          \<and> pred_option (\<lambda>h. length h = 32) (rd_expected_lfs_aggregate_hash row)
          \<and> pred_option (\<lambda>h. length h = 32) (rd_observed_lfs_aggregate_hash row))"

definition record_restore_drill ::
  "store_env \<Rightarrow> timestamp \<Rightarrow> vault_db \<Rightarrow> StoredRestoreDrillReport \<Rightarrow> (VaultError, vault_db) result" where
  "record_restore_drill env now db r =
     result_bind (validate_report r) (\<lambda>_.
     result_bind (restore_decode_digest (sha256 (sd_manifest r))) (\<lambda>manifest_hash.
     result_bind (restore_decode_digest (sd_expected_ref_set_sha256 r)) (\<lambda>expected_refs_hash.
     result_bind (restore_decode_digest (sd_observed_ref_set_sha256 r)) (\<lambda>observed_refs_hash.
     result_bind (restore_checked_i64 (sd_duration_millis r)) (\<lambda>millis.
     result_bind (restore_checked_i64 (sd_expected_ref_count r)) (\<lambda>expected_refs.
     result_bind (restore_checked_i64 (sd_observed_ref_count r)) (\<lambda>observed_refs.
     result_bind (transposed restore_checked_i64 (sd_expected_lfs_object_count r)) (\<lambda>expected_objects.
     result_bind (transposed restore_checked_i64 (sd_observed_lfs_object_count r)) (\<lambda>observed_objects.
     result_bind (transposed restore_checked_i64 (sd_expected_lfs_bytes r)) (\<lambda>expected_bytes.
     result_bind (transposed restore_checked_i64 (sd_observed_lfs_bytes r)) (\<lambda>observed_bytes.
     result_bind (transposed restore_decode_digest (sd_expected_lfs_aggregate_sha256 r)) (\<lambda>expected_aggregate.
     result_bind (transposed restore_decode_digest (sd_observed_lfs_aggregate_sha256 r)) (\<lambda>observed_aggregate.
       let row = \<lparr> rd_id = sd_drill_id r, rd_snapshot = sd_snapshot_id r, rd_manifest_hash = manifest_hash,
                   rd_source_kind = source_kind (sd_source r), rd_replica_target = source_replica_target_id (sd_source r),
                   rd_outcome = EvidenceOutcome_as_str (sd_outcome r), rd_failure_class = sd_failure_class r,
                   rd_refs_matched = sd_refs_matched r, rd_lfs_restored = sd_lfs_restored r,
                   rd_expected_lfs_object_count = expected_objects, rd_observed_lfs_object_count = observed_objects,
                   rd_expected_lfs_bytes = expected_bytes, rd_observed_lfs_bytes = observed_bytes,
                   rd_expected_lfs_aggregate_hash = expected_aggregate,
                   rd_observed_lfs_aggregate_hash = observed_aggregate, rd_duration_millis = millis,
                   rd_stages = sd_stages r, rd_expected_ref_count = expected_refs, rd_observed_ref_count = observed_refs,
                   rd_expected_refs_hash = expected_refs_hash, rd_observed_refs_hash = observed_refs_hash,
                   rd_network_disabled = sd_network_disabled r, rd_live_mirror_accessed = sd_live_mirror_accessed r,
                   rd_started_at = now - 1000 * millis, rd_finished_at = now \<rparr>
       in if \<not> restore_drill_checks row \<or> list_ex (\<lambda>rd. rd_id rd = rd_id row) (restore_drills db)
             \<or> \<not> list_ex (\<lambda>s. sn_id s = rd_snapshot row) (snapshots db)
             \<or> (case rd_replica_target row of
                   None \<Rightarrow> False
                 | Some replica \<Rightarrow> \<not> list_ex (\<lambda>t. rt_id t = replica) (replica_targets db))
          then Inl StorageFailed
          else
            let db1 = db\<lparr>restore_drills := restore_drills db @ [row]\<rparr>
            in Inr (if sd_outcome r = EvidenceFailed
                    then failure_fact env now ''vault.restore.failed.v1'' ''restore_drill'' (sd_drill_id r)
                           (RestoreFailedFact (sd_drill_id r) (sd_snapshot_id r) (sha256 (sd_manifest r))
                              (sd_failure_class r)) db1
                    else db1))))))))))))))"


subsection \<open>Reads\<close>

definition snapshot_manifest :: "vault_db \<Rightarrow> uuid \<Rightarrow> (VaultError, BlobRef) result" where
  "snapshot_manifest db snap =
     (case find (\<lambda>mf. mf_snapshot mf = snap) (manifests db) of
        None \<Rightarrow> Inl (InvalidDelivery ''snapshot_id'')
      | Some mf \<Rightarrow>
          result_bind (encode_digest (mf_hash mf)) (\<lambda>digest.
          result_bind (checked_u64 (mf_size_bytes mf)) (\<lambda>bytes.
            Inr \<lparr> owner = mf_owner mf, sha256 = digest, media_type = mf_media_type mf, size_bytes = bytes \<rparr>)))"

text \<open>\<open>max(...) filter (where ...)\<close>: null without a row.\<close>

definition latest :: "int list \<Rightarrow> int option" where
  "latest xs = (case xs of [] \<Rightarrow> None | x # rest \<Rightarrow> Some (fold max rest x))"

text \<open>The groups of the query: one for each snapshot and size of its bundles.\<close>

definition bundle_groups :: "vault_db \<Rightarrow> (uuid \<times> int) list" where
  "bundle_groups db =
     remdups (concat (map (\<lambda>s. map (\<lambda>ar. (sn_id s, ar_size_bytes ar))
       (filter (\<lambda>ar. ar_snapshot ar = sn_id s \<and> ar_kind ar = ''git_bundle'') (artifacts db))) (snapshots db)))"

definition last_verified :: "vault_db \<Rightarrow> uuid \<Rightarrow> int option" where
  "last_verified db snap =
     latest (map (\<lambda>ic. epoch_bigint (ic_finished_at ic))
       (filter (\<lambda>ic. ic_snapshot ic = snap \<and> ic_outcome ic = ''passed'') (integrity_checks db)))"

definition last_drilled :: "vault_db \<Rightarrow> uuid \<Rightarrow> int option" where
  "last_drilled db snap =
     latest (map (\<lambda>rd. epoch_bigint (rd_finished_at rd))
       (filter (\<lambda>rd. rd_snapshot rd = snap \<and> rd_outcome rd = ''passed'') (restore_drills db)))"

definition schedule_record :: "vault_db \<Rightarrow> uuid \<times> int \<Rightarrow> (VaultError, VerificationScheduleRecord) result" where
  "schedule_record db g =
     result_bind (checked_u64 (snd g)) (\<lambda>bytes.
     result_bind (transposed checked_u64 (last_verified db (fst g))) (\<lambda>verified.
     result_bind (transposed checked_u64 (last_drilled db (fst g))) (\<lambda>drilled.
       Inr \<lparr> vs_snapshot_id = fst g, vs_bundle_size_bytes = bytes, vs_last_verified_at = verified,
             vs_last_drilled_at = drilled \<rparr>)))"

text \<open>\<open>collect\<close> into a result stops at the first error.\<close>

fun collect_all :: "('a \<Rightarrow> (VaultError, 'b) result) \<Rightarrow> 'a list \<Rightarrow> (VaultError, 'b list) result" where
  "collect_all f [] = Inr []"
| "collect_all f (x # xs) = result_bind (f x) (\<lambda>y. result_bind (collect_all f xs) (\<lambda>ys. Inr (y # ys)))"

definition verification_schedule_records :: "vault_db \<Rightarrow> (VaultError, VerificationScheduleRecord list) result" where
  "verification_schedule_records db =
     collect_all (schedule_record db) (sort_key (\<lambda>g. uint (fst g)) (bundle_groups db))"

subsection \<open>What a recording does\<close>

lemma restore_decode_digest_ok:
  assumes "restore_decode_digest hex = Inr bytes"
  shows "length bytes = 32 \<and> encode_hex bytes = hex"
proof -
  from assms have "length hex = 64" "decode_pairs hex = Some bytes"
    by (auto simp: restore_decode_digest_def split: if_splits option.splits)
  moreover from this have "encode_hex bytes = hex" by (intro encode_decode_pairs) simp_all
  ultimately show ?thesis using length_encode_hex [of bytes] by simp
qed

lemma restore_checked_i64_ok [simp]: "restore_checked_i64 v = Inr n \<longleftrightarrow> uint v \<le> I64_MAX \<and> n = uint v"
  by (auto simp: restore_checked_i64_def i64_try_from_def I64_MAX_def split: if_splits)

lemma result_bind_ok: "result_bind m k = Inr y \<longleftrightarrow> (\<exists>x. m = Inr x \<and> k x = Inr y)"
  by (cases m) auto

end
