(* ===== verification/Restore_Verification.thy ===== *)
theory Restore_Verification
  imports Restore_Store LFS_Collection
begin

text \<open>
  Scheduled verification and isolated restore drills (\<open>services/vault/src/restore_verification.rs\<close> and its
  modules \<open>artifact\<close>, \<open>durable\<close> and \<open>replica\<close>): the choice of the bytes, the re-verification of a manifest
  chain and of every artifact, the reconstruction of a repository from its bundle, the reports and their
  recording, and the admission of due work. What Git prints, JSON parsing, hashing, signatures, the answers of
  the replica, elapsed times (in milliseconds) and the file system's refusals are parameters. The repository
  that Git builds in the scratch directory is not represented; the restored LFS files are.
\<close>

subsection \<open>Reports\<close>

datatype ReportOutcome = ReportPassed | ReportFailed

datatype VerificationFailure =
    HashMismatch | ManifestInvalid | BundleInvalid | IsolationFailed | RefMismatch | ReplicaUnavailable | LfsInvalid

datatype RestoreSourcePolicy = LocalOnly | ReplicaPreferred | ReplicaRequired

record ReplicaRestoreCandidate =
  rc_replica_target_id :: uuid
  rc_complete :: bool
  rc_verified_at :: u64

datatype RestoreSource = RestoreLocal | RestoreReplica uuid

datatype RestoreSourceUnavailable = RestoreSourceUnavailable

text \<open>\<open>min_by_key\<close> on \<open>(Reverse(verified_at), replica_target_id)\<close>.\<close>

definition select_restore_source ::
  "RestoreSourcePolicy \<Rightarrow> bool \<Rightarrow> u64 \<Rightarrow> ReplicaRestoreCandidate list \<Rightarrow> (RestoreSourceUnavailable, RestoreSource) result" where
  "select_restore_source policy local_available freshness_cutoff replicas =
     (let eligible = filter (\<lambda>c. rc_complete c \<and> freshness_cutoff \<le> rc_verified_at c) replicas;
          replica = (case sort_key (\<lambda>c. (- uint (rc_verified_at c), uint (rc_replica_target_id c))) eligible of
                       [] \<Rightarrow> None | c # _ \<Rightarrow> Some (RestoreReplica (rc_replica_target_id c)))
      in case policy of
           LocalOnly \<Rightarrow> if local_available then Inr RestoreLocal else Inl RestoreSourceUnavailable
         | ReplicaPreferred \<Rightarrow>
             (case replica of
                Some s \<Rightarrow> Inr s
              | None \<Rightarrow> if local_available then Inr RestoreLocal else Inl RestoreSourceUnavailable)
         | ReplicaRequired \<Rightarrow> (case replica of Some s \<Rightarrow> Inr s | None \<Rightarrow> Inl RestoreSourceUnavailable))"

record StageReport =
  sg_stage :: string
  sg_passed :: bool
  sg_duration :: nat

record VerificationReport =
  vr_verification_id :: uuid
  vr_snapshot_id :: uuid
  vr_manifest :: BlobRef
  vr_duration :: nat
  vr_outcome :: ReportOutcome
  vr_failure :: "VerificationFailure option"
  vr_stages :: "StageReport list"
  vr_checked_artifacts :: "BlobRef list"
  vr_expected_ref_count :: nat
  vr_expected_ref_set_sha256 :: string
  vr_expected_lfs_object_count :: "nat option"
  vr_expected_lfs_bytes :: "u64 option"
  vr_expected_lfs_aggregate_sha256 :: "string option"

record RestoreDrillReport =
  dr_drill_id :: uuid
  dr_snapshot_id :: uuid
  dr_manifest :: BlobRef
  dr_source :: RestoreSource
  dr_duration :: nat
  dr_outcome :: ReportOutcome
  dr_failure :: "VerificationFailure option"
  dr_stages :: "StageReport list"
  dr_expected_ref_count :: nat
  dr_observed_ref_count :: nat
  dr_expected_ref_set_sha256 :: string
  dr_observed_ref_set_sha256 :: string
  dr_network_disabled :: bool
  dr_live_mirror_accessed :: bool
  dr_lfs_restored :: "bool option"
  dr_expected_lfs_object_count :: "nat option"
  dr_observed_lfs_object_count :: "nat option"
  dr_expected_lfs_bytes :: "u64 option"
  dr_observed_lfs_bytes :: "u64 option"
  dr_expected_lfs_aggregate_sha256 :: "string option"
  dr_observed_lfs_aggregate_sha256 :: "string option"

subsection \<open>Stored bytes\<close>

text \<open>The library code and the clock that a verification uses; \<open>re_times k\<close> is the time spent in stage \<open>k\<close>.\<close>

record 'k restore_env =
  re_crypto :: "'k crypto"
  re_hash :: "u8 list \<Rightarrow> u8 list"
  re_chunks_of :: "u8 list \<Rightarrow> u8 list list"
  re_unsigned_vec :: "UnsignedManifest \<Rightarrow> u8 list option"
  re_from_slice :: "u8 list \<Rightarrow> SnapshotManifest option"
  re_times :: "nat \<Rightarrow> nat"
  re_elapsed :: nat

definition blob_verify :: "'k restore_env \<Rightarrow> LocalBlobStore \<Rightarrow> blob_fs \<Rightarrow> BlobRef \<Rightarrow> (BlobStoreError, unit) result" where
  "blob_verify env store fs r = verify (re_hash env) (re_chunks_of env) store r fs"

text \<open>\<open>store.verify\<close>, \<open>store.resolve\<close> and \<open>std::fs::read\<close>; \<open>bad_hash\<close> and \<open>unusable\<close> are the errors of the caller.\<close>

definition read_manifest ::
  "'k restore_env \<Rightarrow> LocalBlobStore \<Rightarrow> blob_fs \<Rightarrow> BlobRef \<Rightarrow> 'e \<Rightarrow> 'e \<Rightarrow> 'e \<Rightarrow> ('e, SnapshotManifest) result" where
  "read_manifest env store fs r bad_hash unreadable malformed =
     (case blob_verify env store fs r of
        Inl _ \<Rightarrow> Inl bad_hash
      | Inr _ \<Rightarrow>
          (case resolve store r fs of
             Inl _ \<Rightarrow> Inl unreadable
           | Inr path \<Rightarrow>
               (case fs path of
                  Some (BlobFile bytes) \<Rightarrow>
                    (case re_from_slice env bytes of None \<Rightarrow> Inl malformed | Some m \<Rightarrow> Inr m)
                | _ \<Rightarrow> Inl unreadable)))"

definition verifier_load_manifest ::
  "'k restore_env \<Rightarrow> LocalBlobStore \<Rightarrow> blob_fs \<Rightarrow> BlobRef \<Rightarrow> (ManifestError, SnapshotManifest) result" where
  "verifier_load_manifest env store fs r = read_manifest env store fs r MissingManifest MissingManifest Serialization"

definition drill_load_manifest ::
  "'k restore_env \<Rightarrow> LocalBlobStore \<Rightarrow> blob_fs \<Rightarrow> BlobRef \<Rightarrow> (VerificationFailure, SnapshotManifest) result" where
  "drill_load_manifest env store fs r = read_manifest env store fs r HashMismatch ManifestInvalid ManifestInvalid"

subsection \<open>Artifact verification\<close>

record ArtifactVerifier =
  av_store :: LocalBlobStore
  av_trusted_keys :: "ManifestVerificationKey list"
  av_max_chain_depth :: nat

text \<open>\<open>stages.push\<close>: the duration is the time of the stage.\<close>

definition push_stage :: "'k restore_env \<Rightarrow> string \<Rightarrow> bool \<Rightarrow> StageReport list \<Rightarrow> StageReport list" where
  "push_stage env name ok reached =
     reached @ [\<lparr> sg_stage = name, sg_passed = ok, sg_duration = re_times env (length reached) \<rparr>]"

definition record_blob_check ::
  "'k restore_env \<Rightarrow> LocalBlobStore \<Rightarrow> blob_fs \<Rightarrow> BlobRef \<Rightarrow> string \<Rightarrow> StageReport list
     \<Rightarrow> StageReport list \<times> (BlobStoreError, unit) result" where
  "record_blob_check env store fs r name reached =
     (let outcome = blob_verify env store fs r in (push_stage env name (is_ok outcome) reached, outcome))"

text \<open>A loop over references that stops at the first bad one; every reference tried is remembered.\<close>

fun check_references ::
  "'k restore_env \<Rightarrow> LocalBlobStore \<Rightarrow> blob_fs \<Rightarrow> string \<Rightarrow> VerificationFailure \<Rightarrow> BlobRef list
     \<Rightarrow> BlobRef list \<times> StageReport list \<Rightarrow> (BlobRef list \<times> StageReport list) \<times> (VerificationFailure, unit) result" where
  "check_references env store fs name failure [] (checked, reached) = ((checked, reached), Inr ())"
| "check_references env store fs name failure (r # rest) (checked, reached) =
     (case record_blob_check env store fs r name reached of
        (reached1, Inl _) \<Rightarrow> ((checked @ [r], reached1), Inl failure)
      | (reached1, Inr _) \<Rightarrow> check_references env store fs name failure rest (checked @ [r], reached1))"

definition record_artifact_checks ::
  "'k restore_env \<Rightarrow> LocalBlobStore \<Rightarrow> blob_fs \<Rightarrow> SnapshotManifest \<Rightarrow> StageReport list
     \<Rightarrow> (BlobRef list \<times> StageReport list) \<times> (VerificationFailure, unit) result" where
  "record_artifact_checks env store fs evidence reached =
     (case check_references env store fs ''bundle_hash'' HashMismatch (bundles evidence) ([], reached) of
        (acc, Inl failure) \<Rightarrow> (acc, Inl failure)
      | (acc, Inr _) \<Rightarrow>
          (case lfs evidence of
             None \<Rightarrow> (acc, Inr ())
           | Some l \<Rightarrow> check_references env store fs ''lfs_object_hash'' LfsInvalid (map blob (objects l)) acc))"

definition verification_report ::
  "'k restore_env \<Rightarrow> uuid \<Rightarrow> uuid \<Rightarrow> BlobRef \<Rightarrow> StageReport list \<Rightarrow> BlobRef list \<Rightarrow> SnapshotManifest option
     \<Rightarrow> VerificationFailure option \<Rightarrow> VerificationReport" where
  "verification_report env ident snap manifest reached checked evidence failure =
     \<lparr> vr_verification_id = ident, vr_snapshot_id = snap, vr_manifest = manifest, vr_duration = re_elapsed env,
       vr_outcome = (if failure = None then ReportPassed else ReportFailed), vr_failure = failure, vr_stages = reached,
       vr_checked_artifacts = checked,
       vr_expected_ref_count = (case evidence of None \<Rightarrow> 0 | Some m \<Rightarrow> length (refs m)),
       vr_expected_ref_set_sha256 =
         (case evidence of None \<Rightarrow> canonical_ref_digest (sha256_of (re_crypto env)) [] | Some m \<Rightarrow> ref_set_sha256 m),
       vr_expected_lfs_object_count = map_option (\<lambda>l. length (objects l)) (Option.bind evidence lfs),
       vr_expected_lfs_bytes = map_option total_bytes (Option.bind evidence lfs),
       vr_expected_lfs_aggregate_sha256 = map_option aggregate_sha256 (Option.bind evidence lfs) \<rparr>"

definition terminal_verification_report ::
  "'k restore_env \<Rightarrow> uuid \<Rightarrow> uuid \<Rightarrow> BlobRef \<Rightarrow> StageReport list \<Rightarrow> BlobRef list \<Rightarrow> SnapshotManifest option
     \<Rightarrow> VerificationFailure \<Rightarrow> VerificationReport" where
  "terminal_verification_report env ident snap manifest reached checked evidence failure =
     verification_report env ident snap manifest reached checked evidence (Some failure)"

definition verifier_verify ::
  "'k restore_env \<Rightarrow> ArtifactVerifier \<Rightarrow> blob_fs \<Rightarrow> uuid \<Rightarrow> uuid \<Rightarrow> BlobRef \<Rightarrow> VerificationReport" where
  "verifier_verify env verifier fs ident snap manifest =
     (let load = verifier_load_manifest env (av_store verifier) fs;
          failed = terminal_verification_report env ident snap manifest
      in case record_blob_check env (av_store verifier) fs manifest ''manifest_hash'' [] of
           (reached, Inl _) \<Rightarrow> failed reached [] None HashMismatch
         | (reached, Inr _) \<Rightarrow>
             (case load manifest of
                Inl _ \<Rightarrow> failed reached [] None ManifestInvalid
              | Inr evidence \<Rightarrow>
                  let chain = verify_manifest_chain (re_crypto env) (re_unsigned_vec env) manifest (av_trusted_keys verifier)
                                (av_max_chain_depth verifier) load;
                      reached1 = push_stage env ''manifest_chain'' (is_ok chain) reached
                  in if \<not> is_ok chain then failed reached1 [] (Some evidence) ManifestInvalid
                     else
                       (case record_artifact_checks env (av_store verifier) fs evidence reached1 of
                          ((checked, reached2), Inl failure) \<Rightarrow> failed reached2 checked (Some evidence) failure
                        | ((checked, reached2), Inr _) \<Rightarrow>
                            verification_report env ident snap manifest reached2 checked (Some evidence) None)))"


subsection \<open>Restore drills\<close>

record RestoreDrillSettings =
  ds_scratch_root :: string
  ds_live_mirror_root :: string
  ds_git_binary :: string
  ds_deadline :: nat

datatype InvalidRestoreDrillSettings = InvalidRestoreDrillSettings

record RestoreDrill =
  rl_settings :: RestoreDrillSettings
  rl_store :: LocalBlobStore

definition paths_overlap :: "string \<Rightarrow> string \<Rightarrow> bool" where
  "paths_overlap left right \<longleftrightarrow> path_starts_with left right \<or> path_starts_with right left"

definition RestoreDrill_new ::
  "(string \<Rightarrow> string option) \<Rightarrow> bool \<Rightarrow> RestoreDrillSettings \<Rightarrow> LocalBlobStore
     \<Rightarrow> (InvalidRestoreDrillSettings, RestoreDrill) result" where
  "RestoreDrill_new canonicalize scratch_made settings store =
     (if \<not> is_absolute (ds_scratch_root settings) \<or> \<not> is_absolute (ds_live_mirror_root settings) \<or> ds_deadline settings = 0
         \<or> \<not> scratch_made
      then Inl InvalidRestoreDrillSettings
      else
        case (canonicalize (ds_scratch_root settings), canonicalize (ds_live_mirror_root settings), canonicalize (store_root store)) of
          (Some scratch, Some live, Some root) \<Rightarrow>
            if paths_overlap scratch live \<or> paths_overlap scratch root \<or> paths_overlap root live
            then Inl InvalidRestoreDrillSettings
            else Inr \<lparr> rl_settings = settings, rl_store = store \<rparr>
        | _ \<Rightarrow> Inl InvalidRestoreDrillSettings)"

record RestoredLfs =
  rx_object_count :: nat
  rx_total_bytes :: u64
  rx_aggregate_sha256 :: string

type_synonym drill_failure = "StageReport list \<times> VerificationFailure \<times> RefEvidence list \<times> RestoredLfs option"

type_synonym drill_result = "(drill_failure, StageReport list \<times> RefEvidence list \<times> RestoredLfs option) result"

text \<open>The surroundings of one drill: the file system's answers and, per stage, the Git process.\<close>

record drill_io =
  di_canonicalize :: "string \<Rightarrow> string option"
  di_staging :: staging_io
  di_resolve :: "string \<Rightarrow> string list option"
  di_lstat :: "string list \<Rightarrow> lstat"
  di_run_root_made :: bool
  di_child :: "nat \<Rightarrow> string \<Rightarrow> string \<Rightarrow> string list \<Rightarrow> (string \<times> string) list \<Rightarrow> child_result"
  di_dir_made :: "string \<Rightarrow> bool"
  di_created :: "string \<Rightarrow> bool"
  di_copied :: "string \<Rightarrow> bool"

definition drill_runner :: "RestoreDrillSettings \<Rightarrow> string \<Rightarrow> RunConfig" where
  "drill_runner settings run_root =
     \<lparr> git_binary = ds_git_binary settings, allowed = [Init, Bundle, Subcommand.Fetch, Fsck, ShowRef],
       working_directory = run_root, run_home = run_root @ ''/runner-home'', deadline = ds_deadline settings,
       stdout_cap_bytes = 64 * 1024, stderr_cap_bytes = 64 * 1024, credential_helper = ''/usr/bin/false'' \<rparr>"

definition drill_git :: "drill_io \<Rightarrow> RestoreDrillSettings \<Rightarrow> string \<Rightarrow> nat \<Rightarrow> GitOperation \<Rightarrow> (GitRunnerError, RunOutcome) result" where
  "drill_git io settings run_root k op =
     git_run (di_canonicalize io) (di_staging io) (di_child io k) (drill_runner settings run_root) [ds_live_mirror_root settings] op"

definition stage_failure :: "(GitRunnerError, RunOutcome) result \<Rightarrow> VerificationFailure" where
  "stage_failure answer = (case answer of Inl (PathOutsideConfinement _) \<Rightarrow> IsolationFailed | _ \<Rightarrow> BundleInvalid)"

definition zero_exit :: "(GitRunnerError, RunOutcome) result \<Rightarrow> bool" where
  "zero_exit answer = (case answer of Inl _ \<Rightarrow> False | Inr outcome \<Rightarrow> exit_code outcome = 0)"

text \<open>One stage and what follows it.\<close>

definition run_git_stage ::
  "'k restore_env \<Rightarrow> string \<Rightarrow> (GitRunnerError, RunOutcome) result \<Rightarrow> StageReport list
     \<Rightarrow> (RunOutcome \<Rightarrow> StageReport list \<Rightarrow> drill_result) \<Rightarrow> drill_result" where
  "run_git_stage env name answer reached k =
     (let reached1 = push_stage env name (zero_exit answer) reached
      in case answer of
           Inr outcome \<Rightarrow> if exit_code outcome = 0 then k outcome reached1 else Inl (reached1, stage_failure answer, [], None)
         | Inl _ \<Rightarrow> Inl (reached1, stage_failure answer, [], None))"

text \<open>\<open>sort_by\<close> on the names is stable.\<close>

fun parse_ref_output_lines :: "string list \<Rightarrow> (VerificationFailure, RefEvidence list) result" where
  "parse_ref_output_lines [] = Inr []"
| "parse_ref_output_lines (line # rest) =
     (case split_once '' '' line of
        None \<Rightarrow> Inl BundleInvalid
      | Some (oid_text, name) \<Rightarrow>
          map_sum id ((#) \<lparr> ref_name = name, ref_oid = oid_text \<rparr>) (parse_ref_output_lines rest))"

definition parse_ref_output :: "string \<Rightarrow> (VerificationFailure, RefEvidence list) result" where
  "parse_ref_output bytes =
     (if \<not> utf8_valid bytes then Inl BundleInvalid
      else map_sum id (sort_key ref_name) (parse_ref_output_lines (str_lines bytes)))"

subsection \<open>LFS objects of a drill\<close>

text \<open>\<open>str::chars\<close>: a character is a byte with the continuation bytes after it.\<close>

definition is_continuation :: "char \<Rightarrow> bool" where
  "is_continuation b \<longleftrightarrow> digit7 b \<and> \<not> digit6 b"

function str_chars :: "string \<Rightarrow> string list" where
  "str_chars [] = []"
| "str_chars (c # s) = (c # takeWhile is_continuation s) # str_chars (dropWhile is_continuation s)"
  by pat_completeness auto
termination by (relation "measure length") (simp_all add: le_imp_less_Suc length_dropWhile_le)

text \<open>\<open>Path::join\<close>: an absolute operand replaces the path.\<close>

definition path_join :: "string \<Rightarrow> string \<Rightarrow> string" where
  "path_join base part = (if is_absolute part then part else base @ ''/'' @ part)"

definition lfs_destination :: "string \<Rightarrow> string \<Rightarrow> string" where
  "lfs_destination repository ident =
     path_join (path_join (path_join (path_join repository ''lfs/objects'') (concat (take 2 (str_chars ident))))
       (concat (take 2 (drop 2 (str_chars ident))))) ident"

text \<open>The destinations written so far; \<open>create_new\<close> refuses an existing one.\<close>

fun copy_lfs_objects ::
  "'k restore_env \<Rightarrow> drill_io \<Rightarrow> LocalBlobStore \<Rightarrow> blob_fs \<Rightarrow> string \<Rightarrow> LfsObjectEvidence list \<Rightarrow> (string \<times> u8 list) list
     \<Rightarrow> (VerificationFailure, (string \<times> u8 list) list) result" where
  "copy_lfs_objects env io store fs repository [] written = Inr written"
| "copy_lfs_objects env io store fs repository (obj # rest) written =
     (case blob_verify env store fs (blob obj) of
        Inl _ \<Rightarrow> Inl LfsInvalid
      | Inr _ \<Rightarrow>
          (case resolve store (blob obj) fs of
             Inl _ \<Rightarrow> Inl LfsInvalid
           | Inr path \<Rightarrow>
               let destination = lfs_destination repository (oid obj)
               in if \<not> di_dir_made io destination then Inl IsolationFailed
                  else (case fs path of
                          Some (BlobFile bytes) \<Rightarrow>
                            if \<not> di_created io destination \<or> destination \<in> fst ` set written \<or> \<not> di_copied io destination
                            then Inl IsolationFailed
                            else copy_lfs_objects env io store fs repository rest (written @ [(destination, bytes)])
                        | _ \<Rightarrow> Inl LfsInvalid)))"

definition materialize_lfs ::
  "'k restore_env \<Rightarrow> drill_io \<Rightarrow> LocalBlobStore \<Rightarrow> blob_fs \<Rightarrow> string \<Rightarrow> LfsEvidence option \<Rightarrow> StageReport list
     \<Rightarrow> StageReport list \<times> (VerificationFailure, RestoredLfs option) result" where
  "materialize_lfs env io store fs repository evidence reached =
     (case evidence of
        None \<Rightarrow> (reached, Inr None)
      | Some l \<Rightarrow>
          let copied = copy_lfs_objects env io store fs repository (objects l) []
          in (push_stage env ''lfs_objects'' (is_ok copied) reached,
              (case copied of
                 Inl failure \<Rightarrow> Inl failure
               | Inr _ \<Rightarrow> Inr (Some \<lparr> rx_object_count = length (objects l), rx_total_bytes = total_bytes l,
                                      rx_aggregate_sha256 = canonical_lfs_digest (sha256_of (re_crypto env)) (objects l) \<rparr>))))"

subsection \<open>The execution of a drill\<close>

text \<open>\<open>Path::strip_prefix\<close>, by components.\<close>

definition strip_path_prefix :: "string \<Rightarrow> string \<Rightarrow> string option" where
  "strip_path_prefix root path =
     (if path_starts_with path root
      then Some (join_slash (map component_text (drop (length (path_components root)) (path_components path))))
      else None)"

definition confined_bundle :: "drill_io \<Rightarrow> LocalBlobStore \<Rightarrow> blob_fs \<Rightarrow> BlobRef \<Rightarrow> ConfinedPath option" where
  "confined_bundle io store fs r =
     (case resolve store r fs of
        Inl _ \<Rightarrow> None
      | Inr path \<Rightarrow>
          (case strip_path_prefix (store_root store) path of
             None \<Rightarrow> None
           | Some relative \<Rightarrow>
               (case ConfinedPath_new (di_resolve io) (di_lstat io) (store_root store) relative of
                  Inl _ \<Rightarrow> None | Inr confined \<Rightarrow> Some confined)))"

definition compare_refs ::
  "'k restore_env \<Rightarrow> drill_io \<Rightarrow> LocalBlobStore \<Rightarrow> blob_fs \<Rightarrow> string \<Rightarrow> SnapshotManifest \<Rightarrow> RunOutcome \<Rightarrow> StageReport list
     \<Rightarrow> drill_result" where
  "compare_refs env io store fs run_root evidence listed reached =
     (case parse_ref_output (out_stdout listed) of
        Inl failure \<Rightarrow> Inl (reached, failure, [], None)
      | Inr observed \<Rightarrow>
          let matches = (observed = refs evidence);
              reached1 = push_stage env ''ref_compare'' matches reached
          in if \<not> matches then Inl (reached1, RefMismatch, observed, None)
             else (case materialize_lfs env io store fs run_root (lfs evidence) reached1 of
                     (reached2, Inl failure) \<Rightarrow> Inl (reached2, failure, observed, None)
                   | (reached2, Inr restored) \<Rightarrow> Inr (reached2, observed, restored)))"

definition execute ::
  "'k restore_env \<Rightarrow> drill_io \<Rightarrow> RestoreDrillSettings \<Rightarrow> LocalBlobStore \<Rightarrow> blob_fs \<Rightarrow> string \<Rightarrow> VerificationReport \<Rightarrow> drill_result" where
  "execute env io settings store fs run_root report =
     (if vr_outcome report \<noteq> ReportPassed then Inl ([], BundleInvalid, [], None)
      else case drill_load_manifest env store fs (vr_manifest report) of
             Inl failure \<Rightarrow> Inl ([], failure, [], None)
           | Inr evidence \<Rightarrow>
               (case bundles evidence of
                  [] \<Rightarrow> Inl ([], BundleInvalid, [], None)
                | first # _ \<Rightarrow>
                    if \<not> is_ok (blob_verify env store fs first) then Inl ([], HashMismatch, [], None)
                    else if \<not> di_run_root_made io then Inl ([], IsolationFailed, [], None)
                    else case confined_bundle io store fs first of
                           None \<Rightarrow> Inl ([], IsolationFailed, [], None)
                         | Some path \<Rightarrow>
                             let git = drill_git io settings run_root
                             in run_git_stage env ''init'' (git 0 init_bare) [] (\<lambda>_ s1.
                                run_git_stage env ''bundle_verify'' (git 1 (bundle_verify path)) s1 (\<lambda>_ s2.
                                run_git_stage env ''fetch'' (git 2 (fetch_bundle path)) s2 (\<lambda>_ s3.
                                run_git_stage env ''fsck'' (git 3 fsck_full) s3 (\<lambda>_ s4.
                                run_git_stage env ''show_ref'' (git 4 show_ref) s4 (\<lambda>listed s5.
                                  compare_refs env io store fs run_root evidence listed s5)))))))"


definition build_drill_report ::
  "'k restore_env \<Rightarrow> uuid \<Rightarrow> VerificationReport \<Rightarrow> RestoreSource \<Rightarrow> drill_result \<Rightarrow> RestoreDrillReport" where
  "build_drill_report env ident report origin outcome =
     (let (reached, observed, restored, failure) =
            (case outcome of
               Inr (reached, observed, restored) \<Rightarrow> (reached, observed, restored, None)
             | Inl (reached, failure, observed, restored) \<Rightarrow> (reached, observed, restored, Some failure))
      in \<lparr> dr_drill_id = ident, dr_snapshot_id = vr_snapshot_id report, dr_manifest = vr_manifest report, dr_source = origin,
           dr_duration = re_elapsed env, dr_outcome = (if failure = None then ReportPassed else ReportFailed),
           dr_failure = failure, dr_stages = reached, dr_expected_ref_count = vr_expected_ref_count report,
           dr_observed_ref_count = length observed, dr_expected_ref_set_sha256 = vr_expected_ref_set_sha256 report,
           dr_observed_ref_set_sha256 = canonical_ref_digest (sha256_of (re_crypto env)) observed,
           dr_network_disabled = True, dr_live_mirror_accessed = False,
           dr_lfs_restored = map_option (\<lambda>expected. case restored of None \<Rightarrow> False | Some v \<Rightarrow> rx_object_count v = expected)
             (vr_expected_lfs_object_count report),
           dr_expected_lfs_object_count = vr_expected_lfs_object_count report,
           dr_observed_lfs_object_count = map_option rx_object_count restored,
           dr_expected_lfs_bytes = vr_expected_lfs_bytes report, dr_observed_lfs_bytes = map_option rx_total_bytes restored,
           dr_expected_lfs_aggregate_sha256 = vr_expected_lfs_aggregate_sha256 report,
           dr_observed_lfs_aggregate_sha256 = map_option rx_aggregate_sha256 restored \<rparr>)"

definition drill_run_root :: "RestoreDrillSettings \<Rightarrow> string \<Rightarrow> string" where
  "drill_run_root settings ident_text = ds_scratch_root settings @ ''/runs/'' @ ident_text"

definition drill_run ::
  "'k restore_env \<Rightarrow> drill_io \<Rightarrow> (uuid \<Rightarrow> string) \<Rightarrow> RestoreDrill \<Rightarrow> blob_fs \<Rightarrow> uuid \<Rightarrow> VerificationReport \<Rightarrow> RestoreDrillReport" where
  "drill_run env io to_string drill fs ident report =
     build_drill_report env ident report RestoreLocal
       (execute env io (rl_settings drill) (rl_store drill) fs
          (drill_run_root (rl_settings drill) (to_string ident) @ ''/repository'') report)"

subsection \<open>Drills from a replica\<close>

fun replica_failure :: "ReplicaError \<Rightarrow> VerificationFailure" where
  "replica_failure ReplicaDigestMismatch = HashMismatch"
| "replica_failure RemoteChecksumMismatch = HashMismatch"
| "replica_failure RemoteTruncated = HashMismatch"
| "replica_failure RemoteOversized = HashMismatch"
| "replica_failure ReplicaSizeLimitExceeded = HashMismatch"
| "replica_failure ReplicaInvalidInput = ReplicaUnavailable"
| "replica_failure SourceIo = ReplicaUnavailable"
| "replica_failure Remote = ReplicaUnavailable"
| "replica_failure RemoteStillPresent = ReplicaUnavailable"
| "replica_failure ObjectNotFound = ReplicaUnavailable"
| "replica_failure ReplicaTimeout = ReplicaUnavailable"
| "replica_failure Cancelled = ReplicaUnavailable"

text \<open>What the replica and the scratch disk do, by the index of the download.\<close>

record replica_io =
  ri_acquired_made :: bool
  ri_store_made :: bool
  ri_parse_ok :: "string \<Rightarrow> bool"
  ri_download :: "nat \<Rightarrow> download_io"

definition file_at :: "'k restore_env \<Rightarrow> blob_fs \<Rightarrow> string \<Rightarrow> source_file option" where
  "file_at env fs path =
     (case fs path of
        Some (BlobFile bytes) \<Rightarrow>
          Some \<lparr> src_is_file = True, src_len = word_of_nat (length bytes), src_chunks = re_chunks_of env bytes \<rparr>
      | Some OtherNode \<Rightarrow> Some \<lparr> src_is_file = False, src_len = 0, src_chunks = [] \<rparr>
      | None \<Rightarrow> None)"

fun acquire ::
  "'k restore_env \<Rightarrow> replica_io \<Rightarrow> ReplicaStore \<Rightarrow> LocalBlobStore \<Rightarrow> string \<Rightarrow> nat \<Rightarrow> BlobRef list \<Rightarrow> blob_fs
     \<Rightarrow> blob_fs \<times> (VerificationFailure, unit) result" where
  "acquire env rio replica store acquired_root k [] fs = (fs, Inr ())"
| "acquire env rio replica store acquired_root k (r # rest) fs =
     (let destination = acquired_root @ ''/'' @ decimal k @ ''-'' @ sha256 r
      in case download_verified (re_hash env) (ri_parse_ok rio) replica r destination (ri_download rio k) fs of
           (fs1, Inl error) \<Rightarrow> (fs1, Inl (replica_failure error))
         | (fs1, Inr _) \<Rightarrow>
             (case publish_file (re_hash env) store r (file_at env fs1 destination) fs1 of
                (fs2, Inl _) \<Rightarrow> (fs2, Inl HashMismatch)
              | (fs2, Inr _) \<Rightarrow> acquire env rio replica store acquired_root (Suc k) rest fs2))"

definition acquisition_failure :: "'k restore_env \<Rightarrow> VerificationFailure \<Rightarrow> drill_result" where
  "acquisition_failure env failure = Inl (push_stage env ''replica_acquire'' False [], failure, [], None)"

definition acquired_references :: "VerificationReport \<Rightarrow> BlobRef list" where
  "acquired_references report = vr_manifest report # vr_checked_artifacts report"

definition execute_from_replica ::
  "'k restore_env \<Rightarrow> drill_io \<Rightarrow> replica_io \<Rightarrow> RestoreDrillSettings \<Rightarrow> string \<Rightarrow> VerificationReport \<Rightarrow> ReplicaStore \<Rightarrow> blob_fs
     \<Rightarrow> drill_result" where
  "execute_from_replica env io rio settings run_root report replica fs =
     (if \<not> ri_acquired_made rio then acquisition_failure env IsolationFailed
      else
        let limit = max 1 (Max (set (map size_bytes (acquired_references report))))
        in case (if ri_store_made rio then LocalBlobStore_new (run_root @ ''/replica-store'') limit else Inl Io) of
             Inl _ \<Rightarrow> acquisition_failure env IsolationFailed
           | Inr store \<Rightarrow>
               (case acquire env rio replica store (run_root @ ''/acquired'') 0 (acquired_references report) fs of
                  (fs1, Inl failure) \<Rightarrow> acquisition_failure env failure
                | (fs1, Inr _) \<Rightarrow>
                    let acquired = \<lparr> sg_stage = ''replica_acquire'', sg_passed = True, sg_duration = re_times env 0 \<rparr>
                    in (case execute env io settings store fs1 (run_root @ ''/repository'') report of
                          Inr (reached, observed, restored) \<Rightarrow> Inr (acquired # reached, observed, restored)
                        | Inl (reached, failure, observed, restored) \<Rightarrow> Inl (acquired # reached, failure, observed, restored))))"

definition run_from_replica ::
  "'k restore_env \<Rightarrow> drill_io \<Rightarrow> replica_io \<Rightarrow> (uuid \<Rightarrow> string) \<Rightarrow> RestoreDrill \<Rightarrow> blob_fs \<Rightarrow> uuid \<Rightarrow> VerificationReport \<Rightarrow> uuid
     \<Rightarrow> ReplicaStore \<Rightarrow> RestoreDrillReport" where
  "run_from_replica env io rio to_string drill fs ident report target replica =
     build_drill_report env ident report (RestoreReplica target)
       (execute_from_replica env io rio (rl_settings drill) (drill_run_root (rl_settings drill) (to_string ident)) report replica fs)"

subsection \<open>Due work\<close>

record VerificationPolicy =
  vp_verification_frequency_seconds :: u64
  vp_drill_frequency_seconds :: u64
  vp_sample_size :: nat
  vp_scratch_byte_budget :: u64
  vp_max_concurrent :: nat
  vp_per_drill_timeout_seconds :: u64

datatype InvalidVerificationPolicy = InvalidVerificationPolicy

record ScheduleCandidate =
  cn_snapshot_id :: uuid
  cn_bundle_size_bytes :: u64
  cn_last_verified_at :: "u64 option"
  cn_last_drilled_at :: "u64 option"

datatype DeferralReason = Capacity | ScratchBudget

record DeferredCandidate =
  de_snapshot_id :: uuid
  de_reason :: DeferralReason

record SchedulePlan =
  sp_selected :: "uuid list"
  sp_drill_selected :: "uuid list"
  sp_deferred :: "DeferredCandidate list"

definition VerificationPolicy_validate :: "VerificationPolicy \<Rightarrow> (InvalidVerificationPolicy, unit) result" where
  "VerificationPolicy_validate p =
     (if vp_verification_frequency_seconds p = 0 \<or> vp_drill_frequency_seconds p = 0 \<or> vp_sample_size p = 0
         \<or> vp_scratch_byte_budget p = 0 \<or> vp_max_concurrent p = 0 \<or> vp_per_drill_timeout_seconds p = 0
      then Inl InvalidVerificationPolicy else Inr ())"

definition is_due :: "u64 option \<Rightarrow> u64 \<Rightarrow> u64 \<Rightarrow> bool" where
  "is_due last_success frequency now =
     (case last_success of None \<Rightarrow> True | Some at \<Rightarrow> frequency \<le> saturating_sub now at)"

definition drill_is_due :: "ScheduleCandidate \<Rightarrow> u64 \<Rightarrow> VerificationPolicy \<Rightarrow> bool" where
  "drill_is_due c now p = is_due (cn_last_drilled_at c) (vp_drill_frequency_seconds p) now"

definition candidate_is_due :: "ScheduleCandidate \<Rightarrow> u64 \<Rightarrow> VerificationPolicy \<Rightarrow> bool" where
  "candidate_is_due c now p \<longleftrightarrow>
     is_due (cn_last_verified_at c) (vp_verification_frequency_seconds p) now \<or> drill_is_due c now p"

definition oldest_success :: "ScheduleCandidate \<Rightarrow> u64" where
  "oldest_success c =
     (case (cn_last_verified_at c, cn_last_drilled_at c) of
        (None, None) \<Rightarrow> 0
      | (Some a, None) \<Rightarrow> a
      | (None, Some b) \<Rightarrow> b
      | (Some a, Some b) \<Rightarrow> min a b)"

definition defer_candidate :: "ScheduleCandidate \<Rightarrow> DeferralReason \<Rightarrow> SchedulePlan \<Rightarrow> SchedulePlan" where
  "defer_candidate c why acc = acc\<lparr>sp_deferred := sp_deferred acc @ [\<lparr> de_snapshot_id = cn_snapshot_id c, de_reason = why \<rparr>]\<rparr>"

definition admit_candidate :: "u64 \<Rightarrow> VerificationPolicy \<Rightarrow> ScheduleCandidate \<Rightarrow> SchedulePlan \<Rightarrow> SchedulePlan" where
  "admit_candidate now p c acc =
     acc\<lparr>sp_selected := sp_selected acc @ [cn_snapshot_id c],
          sp_drill_selected := sp_drill_selected acc @ (if drill_is_due c now p then [cn_snapshot_id c] else [])\<rparr>"

fun plan_loop :: "u64 \<Rightarrow> VerificationPolicy \<Rightarrow> nat \<Rightarrow> u64 \<Rightarrow> ScheduleCandidate list \<Rightarrow> SchedulePlan \<Rightarrow> SchedulePlan" where
  "plan_loop now p capacity admitted [] acc = acc"
| "plan_loop now p capacity admitted (c # rest) acc =
     (if capacity \<le> length (sp_selected acc) then plan_loop now p capacity admitted rest (defer_candidate c Capacity acc)
      else case checked_add admitted (cn_bundle_size_bytes c) of
             None \<Rightarrow> plan_loop now p capacity admitted rest (defer_candidate c ScratchBudget acc)
           | Some next_bytes \<Rightarrow>
               if vp_scratch_byte_budget p < next_bytes
               then plan_loop now p capacity admitted rest (defer_candidate c ScratchBudget acc)
               else plan_loop now p capacity next_bytes rest (admit_candidate now p c acc))"

definition plan_due_snapshots ::
  "u64 \<Rightarrow> VerificationPolicy \<Rightarrow> ScheduleCandidate list \<Rightarrow> (InvalidVerificationPolicy, SchedulePlan) result" where
  "plan_due_snapshots now p cands =
     result_bind (VerificationPolicy_validate p) (\<lambda>_.
       Inr (plan_loop now p (min (vp_sample_size p) (vp_max_concurrent p)) 0
         (sort_key (\<lambda>c. (uint (oldest_success c), uint (cn_snapshot_id c))) (filter (\<lambda>c. candidate_is_due c now p) cands))
         \<lparr> sp_selected = [], sp_drill_selected = [], sp_deferred = [] \<rparr>))"


subsection \<open>Durable composition\<close>

record VerificationExecution =
  ve_verification :: VerificationReport
  ve_drill :: "RestoreDrillReport option"

record DurableVerification =
  dv_verifier :: ArtifactVerifier
  dv_drill :: RestoreDrill

fun evidence_outcome :: "ReportOutcome \<Rightarrow> EvidenceOutcome" where
  "evidence_outcome ReportPassed = EvidencePassed"
| "evidence_outcome ReportFailed = EvidenceFailed"

fun failure_code :: "VerificationFailure \<Rightarrow> string" where
  "failure_code HashMismatch = ''hash_mismatch''"
| "failure_code ManifestInvalid = ''manifest_invalid''"
| "failure_code BundleInvalid = ''bundle_invalid''"
| "failure_code IsolationFailed = ''isolation_failed''"
| "failure_code RefMismatch = ''ref_mismatch''"
| "failure_code ReplicaUnavailable = ''replica_unavailable''"
| "failure_code LfsInvalid = ''lfs_invalid''"

interpretation drill_failure_code: stable_names failure_code
proof unfold_locales
  show "x = y" if "failure_code x = failure_code y" for x y
    using that by (cases x; cases y) simp_all
qed

text \<open>\<open>u64::try_from(...).unwrap_or(u64::MAX)\<close>, for a count or for milliseconds.\<close>

definition saturated_u64 :: "nat \<Rightarrow> u64" where
  "saturated_u64 n = (if n < 2 ^ 64 then word_of_nat n else - 1)"

definition duration_millis :: "nat \<Rightarrow> u64" where
  "duration_millis millis = saturated_u64 millis"

definition stages_json :: "StageReport list \<Rightarrow> json" where
  "stages_json reached =
     JArray (map (\<lambda>s. JObject [(''stage'', JString (sg_stage s)), (''passed'', JBool (sg_passed s)),
                               (''duration_millis'', JNumber (uint (duration_millis (sg_duration s))))]) reached)"

definition blob_json :: "BlobRef \<Rightarrow> json" where
  "blob_json r =
     JObject [(''owner'', JString (owner r)), (''sha256'', JString (sha256 r)), (''media_type'', JString (media_type r)),
              (''size_bytes'', JNumber (uint (size_bytes r)))]"

definition stored_verification :: "VerificationReport \<Rightarrow> StoredVerificationReport" where
  "stored_verification r =
     \<lparr> sf_verification_id = vr_verification_id r, sf_snapshot_id = vr_snapshot_id r, sf_manifest = vr_manifest r,
       sf_outcome = evidence_outcome (vr_outcome r), sf_failure_class = map_option failure_code (vr_failure r),
       sf_duration_millis = duration_millis (vr_duration r), sf_stages = stages_json (vr_stages r),
       sf_checked_artifacts = JArray (map blob_json (vr_checked_artifacts r)),
       sf_expected_ref_count = saturated_u64 (vr_expected_ref_count r),
       sf_expected_ref_set_sha256 = vr_expected_ref_set_sha256 r \<rparr>"

definition stored_drill :: "RestoreDrillReport \<Rightarrow> StoredRestoreDrillReport" where
  "stored_drill r =
     \<lparr> sd_drill_id = dr_drill_id r, sd_snapshot_id = dr_snapshot_id r, sd_manifest = dr_manifest r,
       sd_source = (case dr_source r of RestoreLocal \<Rightarrow> StoredLocal | RestoreReplica t \<Rightarrow> StoredReplica t),
       sd_outcome = evidence_outcome (dr_outcome r), sd_failure_class = map_option failure_code (dr_failure r),
       sd_refs_matched = (dr_expected_ref_count r = dr_observed_ref_count r
                          \<and> dr_expected_ref_set_sha256 r = dr_observed_ref_set_sha256 r),
       sd_duration_millis = duration_millis (dr_duration r), sd_stages = stages_json (dr_stages r),
       sd_expected_ref_count = saturated_u64 (dr_expected_ref_count r),
       sd_observed_ref_count = saturated_u64 (dr_observed_ref_count r),
       sd_expected_ref_set_sha256 = dr_expected_ref_set_sha256 r, sd_observed_ref_set_sha256 = dr_observed_ref_set_sha256 r,
       sd_lfs_restored = dr_lfs_restored r,
       sd_expected_lfs_object_count = map_option saturated_u64 (dr_expected_lfs_object_count r),
       sd_observed_lfs_object_count = map_option saturated_u64 (dr_observed_lfs_object_count r),
       sd_expected_lfs_bytes = dr_expected_lfs_bytes r, sd_observed_lfs_bytes = dr_observed_lfs_bytes r,
       sd_expected_lfs_aggregate_sha256 = dr_expected_lfs_aggregate_sha256 r,
       sd_observed_lfs_aggregate_sha256 = dr_observed_lfs_aggregate_sha256 r,
       sd_network_disabled = dr_network_disabled r, sd_live_mirror_accessed = dr_live_mirror_accessed r \<rparr>"

text \<open>
  One verification and its drill. Identifiers are minted from the database's sequence; the report's first,
  then the drill's. Each record commits alone, at the two times given.
\<close>

definition durable_run ::
  "'k restore_env \<Rightarrow> drill_io \<Rightarrow> store_env \<Rightarrow> timestamp \<times> timestamp \<Rightarrow> DurableVerification \<Rightarrow> blob_fs \<Rightarrow> uuid \<Rightarrow> BlobRef \<Rightarrow> bool
     \<Rightarrow> vault_db \<Rightarrow> vault_db \<times> (VaultError, VerificationExecution) result" where
  "durable_run env io senv stamps dv fs snap manifest execute_drill db =
     (let report = verifier_verify env (dv_verifier dv) fs (now_v7 senv db) snap manifest
      in case record_verification senv (fst stamps) (advance db) (stored_verification report) of
           Inl e \<Rightarrow> (advance db, Inl e)
         | Inr db1 \<Rightarrow>
             if execute_drill \<and> vr_outcome report = ReportPassed
             then let drilled = drill_run env io (uuid_to_string senv) (dv_drill dv) fs (now_v7 senv db1) report
                  in case record_restore_drill senv (snd stamps) (advance db1) (stored_drill drilled) of
                       Inl e \<Rightarrow> (advance db1, Inl e)
                     | Inr db2 \<Rightarrow> (db2, Inr \<lparr> ve_verification = report, ve_drill = Some drilled \<rparr>)
             else (db1, Inr \<lparr> ve_verification = report, ve_drill = None \<rparr>))"

fun durable_run_plan ::
  "'k restore_env \<Rightarrow> (uuid \<Rightarrow> drill_io) \<Rightarrow> store_env \<Rightarrow> (uuid \<Rightarrow> timestamp \<times> timestamp) \<Rightarrow> DurableVerification \<Rightarrow> blob_fs \<Rightarrow> uuid list
     \<Rightarrow> uuid list \<Rightarrow> vault_db \<Rightarrow> vault_db \<times> (uuid \<times> (VaultError, VerificationExecution) result) list" where
  "durable_run_plan env ios senv stamps dv fs drills [] db = (db, [])"
| "durable_run_plan env ios senv stamps dv fs drills (snap # rest) db =
     (case (case snapshot_manifest db snap of
              Inl e \<Rightarrow> (db, Inl e)
            | Inr manifest \<Rightarrow> durable_run env (ios snap) senv (stamps snap) dv fs snap manifest (snap \<in> set drills) db) of
        (db1, outcome) \<Rightarrow>
          (case durable_run_plan env ios senv stamps dv fs drills rest db1 of
             (db2, outcomes) \<Rightarrow> (db2, (snap, outcome) # outcomes)))"

definition run_plan_of ::
  "'k restore_env \<Rightarrow> (uuid \<Rightarrow> drill_io) \<Rightarrow> store_env \<Rightarrow> (uuid \<Rightarrow> timestamp \<times> timestamp) \<Rightarrow> DurableVerification \<Rightarrow> blob_fs
     \<Rightarrow> SchedulePlan \<Rightarrow> vault_db \<Rightarrow> vault_db \<times> (uuid \<times> (VaultError, VerificationExecution) result) list" where
  "run_plan_of env ios senv stamps dv fs sched db =
     durable_run_plan env ios senv stamps dv fs (sp_drill_selected sched) (sp_selected sched) db"

datatype ScheduleError = ScheduleReadFailed VaultError | PolicyRejected InvalidVerificationPolicy

definition plan_due_from_database :: "vault_db \<Rightarrow> u64 \<Rightarrow> VerificationPolicy \<Rightarrow> (ScheduleError, SchedulePlan) result" where
  "plan_due_from_database db now p =
     (case verification_schedule_records db of
        Inl e \<Rightarrow> Inl (ScheduleReadFailed e)
      | Inr records \<Rightarrow>
          map_sum PolicyRejected id (plan_due_snapshots now p
            (map (\<lambda>r. \<lparr> cn_snapshot_id = vs_snapshot_id r, cn_bundle_size_bytes = vs_bundle_size_bytes r,
                        cn_last_verified_at = vs_last_verified_at r, cn_last_drilled_at = vs_last_drilled_at r \<rparr>) records)))"


subsection \<open>Verification is exact\<close>

lemma check_references_exact:
  assumes "check_references env store fs name failure rs (checked, reached) = (acc, outcome)"
  shows "is_ok outcome \<longleftrightarrow> list_all (\<lambda>r. is_ok (blob_verify env store fs r)) rs"
    and "is_ok outcome \<Longrightarrow> fst acc = checked @ rs"
    and "outcome = Inr () \<or> outcome = Inl failure"
  using assms
proof (induction rs arbitrary: checked reached)
  case (Cons r rs)
  { case 1 then show ?case using Cons.IH(1) by (auto simp: record_blob_check_def Let_def split: sum.splits) }
  { case 2 then show ?case using Cons.IH(2) by (auto simp: record_blob_check_def Let_def split: sum.splits) }
  { case 3 then show ?case using Cons.IH(3) by (auto simp: record_blob_check_def Let_def split: sum.splits) }
qed auto

text \<open>The artifacts a manifest requires.\<close>

definition required_artifacts :: "SnapshotManifest \<Rightarrow> BlobRef list" where
  "required_artifacts m = bundles m @ (case lfs m of None \<Rightarrow> [] | Some l \<Rightarrow> map blob (objects l))"

lemma record_artifact_checks_exact:
  assumes "record_artifact_checks env store fs evidence reached = (acc, outcome)"
  shows "is_ok outcome \<longleftrightarrow> list_all (\<lambda>r. is_ok (blob_verify env store fs r)) (required_artifacts evidence)"
    and "is_ok outcome \<Longrightarrow> fst acc = required_artifacts evidence"
proof -
  obtain acc1 first where first: "check_references env store fs ''bundle_hash'' HashMismatch (bundles evidence) ([], reached) = (acc1, first)"
    by fastforce
  note one = check_references_exact [OF first]
  have both: "(is_ok outcome \<longleftrightarrow> list_all (\<lambda>r. is_ok (blob_verify env store fs r)) (required_artifacts evidence))
    \<and> (is_ok outcome \<longrightarrow> fst acc = required_artifacts evidence)"
  proof (cases "is_ok first")
    case False
    then show ?thesis using assms one first by (auto simp: record_artifact_checks_def required_artifacts_def)
  next
    case ok: True
    show ?thesis
    proof (cases "lfs evidence")
      case None
      then show ?thesis using assms one ok first by (auto simp: record_artifact_checks_def required_artifacts_def)
    next
      case (Some l)
      obtain checked1 reached1 where acc1: "acc1 = (checked1, reached1)" by fastforce
      have "check_references env store fs ''lfs_object_hash'' LfsInvalid (map blob (objects l)) (checked1, reached1) = (acc, outcome)"
        using assms one ok first Some acc1 by (auto simp: record_artifact_checks_def split: sum.splits)
      from check_references_exact [OF this] one ok show ?thesis by (auto simp: required_artifacts_def Some acc1)
    qed
  qed
  then show "is_ok outcome \<longleftrightarrow> list_all (\<lambda>r. is_ok (blob_verify env store fs r)) (required_artifacts evidence)"
    "is_ok outcome \<Longrightarrow> fst acc = required_artifacts evidence" by blast+
qed

lemma chain_ok_iff:
  "is_ok (verify_manifest_chain c to_vec head_ref keys depth load) \<longleftrightarrow>
     (\<exists>older. authentic_chain (accepted_parent c to_vec keys load) (head_ref # older) \<and> distinct (map sha256 (head_ref # older))
        \<and> length (head_ref # older) \<le> depth)"
proof -
  have "is_ok r \<longleftrightarrow> (\<exists>chain. r = Inr chain)" for r :: "(ManifestError, BlobRef list) result"
    by (cases r) simp_all
  then show ?thesis unfolding verify_manifest_chain_def by (simp add: chain_loop_Inr)
qed

lemma loaded_is_verified: "verifier_load_manifest env store fs r = Inr m \<Longrightarrow> is_ok (blob_verify env store fs r)"
  by (auto simp: verifier_load_manifest_def read_manifest_def split: sum.splits)

lemma verifier_verify_loaded:
  assumes load: "verifier_load_manifest env (av_store v) fs manifest = Inr evidence"
    and chain: "is_ok (verify_manifest_chain (re_crypto env) (re_unsigned_vec env) manifest (av_trusted_keys v)
      (av_max_chain_depth v) (verifier_load_manifest env (av_store v) fs))"
  shows "vr_outcome (verifier_verify env v fs ident snap manifest) = ReportPassed \<longleftrightarrow>
      list_all (\<lambda>r. is_ok (blob_verify env (av_store v) fs r)) (required_artifacts evidence)"
    and "vr_outcome (verifier_verify env v fs ident snap manifest) = ReportPassed \<Longrightarrow>
      vr_checked_artifacts (verifier_verify env v fs ident snap manifest) = required_artifacts evidence"
proof -
  let ?reached = "push_stage env ''manifest_chain'' True (push_stage env ''manifest_hash'' True [])"
  obtain checked reached2 outcome where
    checks: "record_artifact_checks env (av_store v) fs evidence ?reached = ((checked, reached2), outcome)"
    by (metis prod.exhaust)
  from loaded_is_verified [OF load] obtain u where u: "blob_verify env (av_store v) fs manifest = Inr u"
    by (cases "blob_verify env (av_store v) fs manifest") auto
  have "verifier_verify env v fs ident snap manifest =
    (case outcome of
       Inl failure \<Rightarrow> terminal_verification_report env ident snap manifest reached2 checked (Some evidence) failure
     | Inr _ \<Rightarrow> verification_report env ident snap manifest reached2 checked (Some evidence) None)"
    using load chain checks u by (simp add: verifier_verify_def record_blob_check_def split: sum.splits)
  with record_artifact_checks_exact [OF checks]
  show "vr_outcome (verifier_verify env v fs ident snap manifest) = ReportPassed \<longleftrightarrow>
      list_all (\<lambda>r. is_ok (blob_verify env (av_store v) fs r)) (required_artifacts evidence)"
    "vr_outcome (verifier_verify env v fs ident snap manifest) = ReportPassed \<Longrightarrow>
      vr_checked_artifacts (verifier_verify env v fs ident snap manifest) = required_artifacts evidence"
    by (cases outcome; simp add: terminal_verification_report_def verification_report_def)+
qed

lemma verifier_verify_passed_loads:
  assumes "vr_outcome (verifier_verify env v fs ident snap manifest) = ReportPassed"
  obtains evidence where "verifier_load_manifest env (av_store v) fs manifest = Inr evidence"
    "is_ok (verify_manifest_chain (re_crypto env) (re_unsigned_vec env) manifest (av_trusted_keys v)
       (av_max_chain_depth v) (verifier_load_manifest env (av_store v) fs))"
  using assms
  by (auto simp: verifier_verify_def Let_def record_blob_check_def terminal_verification_report_def verification_report_def
      split: sum.splits if_splits)

text \<open>
  C6. A verification passes exactly when the whole evidence stands: the manifest is stored with its digest and
  parses, it heads a chain of stored manifests without repetition, each one signed by a trusted key and naming
  the next as its parent, down to one without parent and within the depth bound, and every bundle and every
  LFS object that the manifest requires is stored with its digest and length.
\<close>

theorem verification_passes_exactly:
  "vr_outcome (verifier_verify env v fs ident snap manifest) = ReportPassed \<longleftrightarrow>
     (\<exists>evidence older.
        verifier_load_manifest env (av_store v) fs manifest = Inr evidence
        \<and> authentic_chain (accepted_parent (re_crypto env) (re_unsigned_vec env) (av_trusted_keys v)
              (verifier_load_manifest env (av_store v) fs)) (manifest # older)
        \<and> distinct (map sha256 (manifest # older)) \<and> length (manifest # older) \<le> av_max_chain_depth v
        \<and> list_all (\<lambda>r. is_ok (blob_verify env (av_store v) fs r)) (required_artifacts evidence))"
  (is "?l \<longleftrightarrow> ?r")
proof
  assume passed: "vr_outcome (verifier_verify env v fs ident snap manifest) = ReportPassed"
  from passed obtain evidence where "verifier_load_manifest env (av_store v) fs manifest = Inr evidence"
    "is_ok (verify_manifest_chain (re_crypto env) (re_unsigned_vec env) manifest (av_trusted_keys v)
       (av_max_chain_depth v) (verifier_load_manifest env (av_store v) fs))"
    by (rule verifier_verify_passed_loads)
  with verifier_verify_loaded(1) [OF this, of ident snap] passed show ?r unfolding chain_ok_iff by blast
next
  assume ?r
  then show ?l using verifier_verify_loaded(1) chain_ok_iff by blast
qed


text \<open>
  A verification depends on every ancestor: when the manifest itself is stored and parses, but its parent's
  manifest is no longer stored under its digest, the report fails as an invalid manifest, whatever the bundle's
  state. A retention run that removes the bytes of an old snapshot therefore fails the verification of every
  snapshot built on it.
\<close>

theorem lost_parent_fails_verification:
  assumes "verifier_load_manifest env (av_store v) fs manifest = Inr evidence"
    and "parent_manifest evidence = Some parent" and "\<not> is_ok (blob_verify env (av_store v) fs parent)"
  shows "vr_outcome (verifier_verify env v fs ident snap manifest) = ReportFailed
    \<and> vr_failure (verifier_verify env v fs ident snap manifest) = Some ManifestInvalid"
proof -
  let ?load = "verifier_load_manifest env (av_store v) fs"
  let ?par = "accepted_parent (re_crypto env) (re_unsigned_vec env) (av_trusted_keys v) ?load"
  have none: "?par parent = None"
    using assms(3) loaded_is_verified [of env "av_store v" fs parent] by (auto simp: accepted_parent_def split: sum.splits)
  have "\<not> authentic_chain ?par (manifest # older)" for older
  proof (cases older)
    case Nil
    then show ?thesis using assms(1,2) by (auto simp: accepted_parent_def)
  next
    case (Cons r rest)
    then show ?thesis using assms(1,2) none by (cases rest) (auto simp: accepted_parent_def)
  qed
  then have "\<not> is_ok (verify_manifest_chain (re_crypto env) (re_unsigned_vec env) manifest (av_trusted_keys v)
      (av_max_chain_depth v) ?load)"
    unfolding chain_ok_iff by blast
  moreover from loaded_is_verified [OF assms(1)] obtain u where "blob_verify env (av_store v) fs manifest = Inr u"
    by (cases "blob_verify env (av_store v) fs manifest") auto
  ultimately show ?thesis
    using assms(1)
    by (simp add: verifier_verify_def record_blob_check_def terminal_verification_report_def verification_report_def)
qed

subsection \<open>A passed drill rebuilt the repository\<close>

lemma run_git_stage_ok:
  "run_git_stage env name answer reached k = Inr y \<longleftrightarrow>
     (\<exists>outcome. answer = Inr outcome \<and> exit_code outcome = 0 \<and> k outcome (push_stage env name True reached) = Inr y)"
  by (auto simp: run_git_stage_def zero_exit_def Let_def split: sum.splits)

lemma git_run_operands_allowed:
  assumes "git_run canonicalize staging child config denied op = Inr outcome"
  shows "refuse_denied_paths canonicalize denied op = Inr ()"
proof -
  have "\<exists>u. refuse_denied_paths canonicalize denied op = Inr u"
    using assms by (cases "refuse_denied_paths canonicalize denied op") (auto simp: git_run_def split: if_splits)
  then show ?thesis by simp
qed

lemma copy_lfs_objects_exact:
  assumes "copy_lfs_objects env io store fs repository objs written = Inr written'" and "chunking (re_chunks_of env)"
  shows "\<exists>files. written' = written @ zip (map (\<lambda>obj. lfs_destination repository (oid obj)) objs) files
    \<and> list_all2 (\<lambda>obj bytes. encode_hex (re_hash env bytes) = sha256 (blob obj)) objs files"
  using assms(1)
proof (induction objs arbitrary: written)
  case (Cons obj objs)
  let ?dest = "lfs_destination repository (oid obj)"
  from Cons.prems obtain path bytes where step: "is_ok (blob_verify env store fs (blob obj))" "resolve store (blob obj) fs = Inr path"
    "fs path = Some (BlobFile bytes)" "copy_lfs_objects env io store fs repository objs (written @ [(?dest, bytes)]) = Inr written'"
    by (auto simp: Let_def split: sum.splits if_splits option.splits blob_node.splits)
  have digest: "encode_hex (re_hash env bytes) = sha256 (blob obj)"
    using step(1,2,3) assms(2) by (auto simp: blob_verify_def verify_def chunking_def Let_def split: if_splits option.splits)
  from Cons.IH [OF step(4)] obtain files where
    "written' = (written @ [(?dest, bytes)]) @ zip (map (\<lambda>obj. lfs_destination repository (oid obj)) objs) files"
    "list_all2 (\<lambda>obj bytes. encode_hex (re_hash env bytes) = sha256 (blob obj)) objs files" by blast
  with digest show ?case by (intro exI [of _ "bytes # files"]) simp
qed simp

text \<open>The Git stages of a drill, in order.\<close>

definition drill_operations :: "ConfinedPath \<Rightarrow> GitOperation list" where
  "drill_operations path = [init_bare, bundle_verify path, fetch_bundle path, fsck_full, show_ref]"

lemma execute_passed:
  assumes "execute env io settings store fs run_root report = Inr (reached, observed, restored)"
  obtains evidence first others path listed where
    "vr_outcome report = ReportPassed" "drill_load_manifest env store fs (vr_manifest report) = Inr evidence"
    "bundles evidence = first # others" "is_ok (blob_verify env store fs first)" "confined_bundle io store fs first = Some path"
    "\<And>k. k < 5 \<Longrightarrow> zero_exit (drill_git io settings run_root k (drill_operations path ! k))"
    "drill_git io settings run_root 4 show_ref = Inr listed"
    "parse_ref_output (out_stdout listed) = Inr observed" "observed = refs evidence"
    "\<And>l. lfs evidence = Some l \<Longrightarrow> is_ok (copy_lfs_objects env io store fs run_root (objects l) [])"
proof -
  from assms obtain evidence first others path where start:
    "vr_outcome report = ReportPassed" "drill_load_manifest env store fs (vr_manifest report) = Inr evidence"
    "bundles evidence = first # others" "is_ok (blob_verify env store fs first)" "confined_bundle io store fs first = Some path"
    by (auto simp: execute_def Let_def split: sum.splits if_splits list.splits option.splits)
  from assms start obtain o0 o1 o2 o3 listed s5 where git:
    "drill_git io settings run_root 0 init_bare = Inr o0" "exit_code o0 = 0"
    "drill_git io settings run_root 1 (bundle_verify path) = Inr o1" "exit_code o1 = 0"
    "drill_git io settings run_root 2 (fetch_bundle path) = Inr o2" "exit_code o2 = 0"
    "drill_git io settings run_root 3 fsck_full = Inr o3" "exit_code o3 = 0"
    "drill_git io settings run_root 4 show_ref = Inr listed" "exit_code listed = 0"
    "compare_refs env io store fs run_root evidence listed s5 = Inr (reached, observed, restored)"
    by (auto simp: execute_def Let_def run_git_stage_ok split: if_splits)
  have zero: "zero_exit (drill_git io settings run_root k (drill_operations path ! k))" if "k < 5" for k
  proof -
    have "k \<in> {0, 1, 2, 3, 4}" using that by auto
    then show ?thesis using git by (auto simp: drill_operations_def zero_exit_def)
  qed
  have compared: "parse_ref_output (out_stdout listed) = Inr observed \<and> observed = refs evidence
      \<and> (\<forall>l. lfs evidence = Some l \<longrightarrow> is_ok (copy_lfs_objects env io store fs run_root (objects l) []))"
    using git(11)
    by (auto simp: compare_refs_def materialize_lfs_def Let_def split: sum.splits if_splits option.splits prod.splits)
  show thesis
    by (rule that [OF start zero git(9)]) (use compared in auto)
qed


text \<open>
  C7. A passed drill rebuilt the snapshot from stored bytes in isolation: the manifest and its first bundle are
  stored with their digests, Git initialised a repository, verified and fetched the bundle, checked every
  object and listed refs with exit code zero each time and with no operand inside the live mirror root, the
  refs listed are exactly the manifest's, and every LFS object of the manifest was written under its
  identifier with bytes of its digest.
\<close>

theorem passed_drill_rebuilt_the_snapshot:
  assumes "dr_outcome (drill_run env io to_string drill fs ident report) = ReportPassed" and "chunking (re_chunks_of env)"
  shows "\<exists>evidence first others path listed run_root.
    drill_load_manifest env (rl_store drill) fs (vr_manifest report) = Inr evidence
    \<and> bundles evidence = first # others \<and> is_ok (blob_verify env (rl_store drill) fs first)
    \<and> confined_bundle io (rl_store drill) fs first = Some path
    \<and> list_all (\<lambda>k. zero_exit (drill_git io (rl_settings drill) run_root k (drill_operations path ! k))
          \<and> refuse_denied_paths (di_canonicalize io) [ds_live_mirror_root (rl_settings drill)] (drill_operations path ! k) = Inr ()) [0..<5]
    \<and> drill_git io (rl_settings drill) run_root 4 show_ref = Inr listed
    \<and> parse_ref_output (out_stdout listed) = Inr (refs evidence)
    \<and> (case lfs evidence of
          None \<Rightarrow> True
        | Some l \<Rightarrow> \<exists>files. copy_lfs_objects env io (rl_store drill) fs run_root (objects l) []
              = Inr (zip (map (\<lambda>obj. lfs_destination run_root (oid obj)) (objects l)) files)
            \<and> list_all2 (\<lambda>obj bytes. encode_hex (re_hash env bytes) = sha256 (blob obj)) (objects l) files)"
proof -
  let ?root = "drill_run_root (rl_settings drill) (to_string ident) @ ''/repository''"
  from assms(1) obtain reached observed restored where
    "execute env io (rl_settings drill) (rl_store drill) fs ?root report = Inr (reached, observed, restored)"
    by (cases "execute env io (rl_settings drill) (rl_store drill) fs ?root report")
      (auto simp: drill_run_def build_drill_report_def Let_def split: prod.splits)
  then obtain evidence first others path listed where ran:
    "drill_load_manifest env (rl_store drill) fs (vr_manifest report) = Inr evidence"
    "bundles evidence = first # others" "is_ok (blob_verify env (rl_store drill) fs first)"
    "confined_bundle io (rl_store drill) fs first = Some path"
    "\<And>k. k < 5 \<Longrightarrow> zero_exit (drill_git io (rl_settings drill) ?root k (drill_operations path ! k))"
    "drill_git io (rl_settings drill) ?root 4 show_ref = Inr listed"
    "parse_ref_output (out_stdout listed) = Inr observed" "observed = refs evidence"
    "\<And>l. lfs evidence = Some l \<Longrightarrow> is_ok (copy_lfs_objects env io (rl_store drill) fs ?root (objects l) [])"
    by (rule execute_passed) (rule that)
  have operands: "refuse_denied_paths (di_canonicalize io) [ds_live_mirror_root (rl_settings drill)] op = Inr ()"
    if "zero_exit (drill_git io (rl_settings drill) ?root k op)" for k op
    using that git_run_operands_allowed by (auto simp: zero_exit_def drill_git_def split: sum.splits)
  have stages: "list_all (\<lambda>k. zero_exit (drill_git io (rl_settings drill) ?root k (drill_operations path ! k))
      \<and> refuse_denied_paths (di_canonicalize io) [ds_live_mirror_root (rl_settings drill)] (drill_operations path ! k) = Inr ()) [0..<5]"
    unfolding list_all_iff by (auto intro: ran(5) operands [OF ran(5)])
  have restored: "case lfs evidence of
      None \<Rightarrow> True
    | Some l \<Rightarrow> \<exists>files. copy_lfs_objects env io (rl_store drill) fs ?root (objects l) []
          = Inr (zip (map (\<lambda>obj. lfs_destination ?root (oid obj)) (objects l)) files)
        \<and> list_all2 (\<lambda>obj bytes. encode_hex (re_hash env bytes) = sha256 (blob obj)) (objects l) files"
  proof (cases "lfs evidence")
    case (Some l)
    with ran(9) obtain written where written: "copy_lfs_objects env io (rl_store drill) fs ?root (objects l) [] = Inr written"
      by (cases "copy_lfs_objects env io (rl_store drill) fs ?root (objects l) []") auto
    from copy_lfs_objects_exact [OF written assms(2)] written Some show ?thesis by auto
  qed simp
  show ?thesis
    by (rule exI [of _ evidence], rule exI [of _ first], rule exI [of _ others], rule exI [of _ path], rule exI [of _ listed],
        rule exI [of _ ?root]) (use ran stages restored in auto)
qed

subsection \<open>Failed drills of snapshots with LFS objects\<close>

lemma execute_failed:
  assumes "execute env io settings store fs run_root report = Inl (reached, failure, observed, restored)"
  shows "restored = None"
proof -
  have stage: "restored = None" if "run_git_stage env name answer s k = Inl (reached, failure, observed, restored)"
    "\<And>o' s'. k o' s' = Inl (reached, failure, observed, restored) \<Longrightarrow> restored = None" for name answer s k
    using that by (auto simp: run_git_stage_def Let_def split: sum.splits if_splits)
  have compared: "restored = None" if "compare_refs env io store fs run_root evidence listed s = Inl (reached, failure, observed, restored)"
    for evidence listed s
    using that by (auto simp: compare_refs_def Let_def split: sum.splits if_splits prod.splits)
  show ?thesis
    using assms
    by (auto simp: execute_def Let_def split: sum.splits if_splits list.splits option.splits elim!: stage dest: compared)
qed

text \<open>
  C14. No failed drill of a snapshot with LFS objects is ever recorded: whenever such a drill fails, at whatever
  stage, its report carries the expected LFS counts and no observed ones, the validation demands all or none,
  and the recording transaction refuses the report. The failed row and the failure fact it would announce do
  not come into being.
\<close>

theorem failed_lfs_drill_is_never_recorded:
  assumes "vr_expected_lfs_object_count report = Some n"
    and "dr_outcome (drill_run env io to_string drill fs ident report) = ReportFailed"
  shows "record_restore_drill senv now db (stored_drill (drill_run env io to_string drill fs ident report))
    = Inl (InvalidDelivery ''restore_drill_report'')"
proof -
  let ?drilled = "drill_run env io to_string drill fs ident report"
  let ?run = "execute env io (rl_settings drill) (rl_store drill) fs
      (drill_run_root (rl_settings drill) (to_string ident) @ ''/repository'') report"
  from assms(2) obtain reached failure observed restored where run: "?run = Inl (reached, failure, observed, restored)"
    by (cases ?run) (auto simp: drill_run_def build_drill_report_def Let_def)
  with execute_failed have "restored = None" by blast
  with run assms(1) have "dr_observed_lfs_object_count ?drilled = None" "dr_expected_lfs_object_count ?drilled = Some n"
    by (simp_all add: drill_run_def build_drill_report_def)
  then have "\<not> lfs_evidence_consistent (stored_drill ?drilled)"
    by (simp add: lfs_evidence_consistent_def stored_drill_def)
  then show ?thesis by (simp add: record_restore_drill_def validate_report_def)
qed


subsection \<open>Admission of due work\<close>

text \<open>What a pass has decided: the candidates chosen and those deferred, in order.\<close>

definition plan_of :: "u64 \<Rightarrow> VerificationPolicy \<Rightarrow> ScheduleCandidate list \<Rightarrow> DeferredCandidate list \<Rightarrow> SchedulePlan" where
  "plan_of now p chosen deferred =
     \<lparr> sp_selected = map cn_snapshot_id chosen,
       sp_drill_selected = map cn_snapshot_id (filter (\<lambda>c. drill_is_due c now p) chosen), sp_deferred = deferred \<rparr>"

lemma plan_loop_exact:
  assumes "sum_list (map (\<lambda>c. unat (cn_bundle_size_bytes c)) chosen) = unat admitted" and "admitted \<le> vp_scratch_byte_budget p"
    and "length chosen \<le> capacity"
  shows "\<exists>chosen' deferred'. plan_loop now p capacity admitted cands (plan_of now p chosen deferred) = plan_of now p chosen' deferred'
    \<and> sum_list (map (\<lambda>c. unat (cn_bundle_size_bytes c)) chosen') \<le> unat (vp_scratch_byte_budget p) \<and> length chosen' \<le> capacity
    \<and> (\<exists>more skipped. chosen' = chosen @ more \<and> map de_snapshot_id deferred' = map de_snapshot_id deferred @ map cn_snapshot_id skipped
        \<and> subseq more cands \<and> mset cands = mset more + mset skipped)"
  using assms
proof (induction cands arbitrary: admitted chosen deferred)
  case Nil
  then show ?case
    by (intro exI [of _ chosen] exI [of _ deferred] exI [of _ "[]"]) (simp add: word_le_nat_alt)
next
  case (Cons c cands)
  have put_off: ?case if "plan_loop now p capacity admitted (c # cands) (plan_of now p chosen deferred)
      = plan_loop now p capacity admitted cands (defer_candidate c why (plan_of now p chosen deferred))" for why
  proof -
    let ?d = "deferred @ [\<lparr> de_snapshot_id = cn_snapshot_id c, de_reason = why \<rparr>]"
    have "defer_candidate c why (plan_of now p chosen deferred) = plan_of now p chosen ?d"
      by (simp add: defer_candidate_def plan_of_def)
    with that Cons.IH [OF Cons.prems, of ?d] obtain chosen' deferred' more skipped where ih:
      "plan_loop now p capacity admitted (c # cands) (plan_of now p chosen deferred) = plan_of now p chosen' deferred'"
      "sum_list (map (\<lambda>c. unat (cn_bundle_size_bytes c)) chosen') \<le> unat (vp_scratch_byte_budget p)" "length chosen' \<le> capacity"
      "chosen' = chosen @ more" "map de_snapshot_id deferred' = map de_snapshot_id ?d @ map cn_snapshot_id skipped"
      "subseq more cands" "mset cands = mset more + mset skipped" by auto
    then show ?thesis
      by (intro exI [of _ chosen'] exI [of _ deferred'] conjI exI [of _ more] exI [of _ "c # skipped"]) auto
  qed
  show ?case
  proof (cases "capacity \<le> length chosen")
    case True
    then show ?thesis by (intro put_off [of Capacity]) (simp add: plan_of_def)
  next
    case room: False
    show ?thesis
    proof (cases "checked_add admitted (cn_bundle_size_bytes c)")
      case None
      then show ?thesis using room by (intro put_off [of ScratchBudget]) (simp add: plan_of_def)
    next
      case (Some next_bytes)
      show ?thesis
      proof (cases "vp_scratch_byte_budget p < next_bytes")
        case True
        then show ?thesis using room Some by (intro put_off [of ScratchBudget]) (simp add: plan_of_def)
      next
        case fits: False
        have "admit_candidate now p c (plan_of now p chosen deferred) = plan_of now p (chosen @ [c]) deferred"
          by (simp add: admit_candidate_def plan_of_def)
        then have step: "plan_loop now p capacity admitted (c # cands) (plan_of now p chosen deferred)
            = plan_loop now p capacity next_bytes cands (plan_of now p (chosen @ [c]) deferred)"
          using room Some fits by (simp add: plan_of_def)
        have "unat next_bytes = unat admitted + unat (cn_bundle_size_bytes c)" using Some by (rule unat_checked_add)
        then have "sum_list (map (\<lambda>c. unat (cn_bundle_size_bytes c)) (chosen @ [c])) = unat next_bytes"
          "next_bytes \<le> vp_scratch_byte_budget p" "length (chosen @ [c]) \<le> capacity"
          using Cons.prems fits room by simp_all
        from Cons.IH [OF this, of deferred] obtain chosen' deferred' more skipped where ih:
          "plan_loop now p capacity next_bytes cands (plan_of now p (chosen @ [c]) deferred) = plan_of now p chosen' deferred'"
          "sum_list (map (\<lambda>c. unat (cn_bundle_size_bytes c)) chosen') \<le> unat (vp_scratch_byte_budget p)" "length chosen' \<le> capacity"
          "chosen' = (chosen @ [c]) @ more" "map de_snapshot_id deferred' = map de_snapshot_id deferred @ map cn_snapshot_id skipped"
          "subseq more cands" "mset cands = mset more + mset skipped" by auto
        then show ?thesis unfolding step
          by (intro exI [of _ chosen'] exI [of _ deferred'] conjI exI [of _ "c # more"] exI [of _ skipped]) auto
      qed
    qed
  qed
qed

text \<open>
  C15. An admission pass is bounded and loses nothing: it accepts a policy exactly when all its bounds are
  positive; it chooses, oldest evidence first, at most as many due candidates as the sample size and the
  concurrency allow, with at most the scratch budget in bundle bytes although the sum is taken in 64 bits;
  every due candidate is either chosen or reported as deferred, and a drill is planned for exactly the chosen
  ones whose drill is due.
\<close>

theorem schedule_is_bounded_and_complete:
  assumes "plan_due_snapshots now p cands = Inr sched"
  shows "VerificationPolicy_validate p = Inr ()
     \<and> (\<exists>chosen skipped.
          sp_selected sched = map cn_snapshot_id chosen \<and> length chosen \<le> min (vp_sample_size p) (vp_max_concurrent p)
          \<and> sum_list (map (\<lambda>c. unat (cn_bundle_size_bytes c)) chosen) \<le> unat (vp_scratch_byte_budget p)
          \<and> sp_drill_selected sched = map cn_snapshot_id (filter (\<lambda>c. drill_is_due c now p) chosen)
          \<and> map de_snapshot_id (sp_deferred sched) = map cn_snapshot_id skipped
          \<and> mset chosen + mset skipped = mset (filter (\<lambda>c. candidate_is_due c now p) cands)
          \<and> sorted (map (\<lambda>c. (uint (oldest_success c), uint (cn_snapshot_id c))) chosen))"
proof -
  let ?key = "\<lambda>c. (uint (oldest_success c), uint (cn_snapshot_id c))"
  let ?due = "sort_key ?key (filter (\<lambda>c. candidate_is_due c now p) cands)"
  let ?capacity = "min (vp_sample_size p) (vp_max_concurrent p)"
  from assms have valid: "VerificationPolicy_validate p = Inr ()"
    and sched: "sched = plan_loop now p ?capacity 0 ?due (plan_of now p [] [])"
    by (auto simp: plan_due_snapshots_def plan_of_def result_bind_ok)
  from plan_loop_exact [of "[]" 0 p ?capacity now ?due "[]"] obtain chosen deferred skipped where ran:
    "sched = plan_of now p chosen deferred" "sum_list (map (\<lambda>c. unat (cn_bundle_size_bytes c)) chosen) \<le> unat (vp_scratch_byte_budget p)"
    "length chosen \<le> ?capacity" "map de_snapshot_id deferred = map cn_snapshot_id skipped" "subseq chosen ?due"
    "mset ?due = mset chosen + mset skipped"
    by (auto simp: sched)
  have "sorted_wrt (\<le>) xs" if "subseq xs ys" "sorted_wrt (\<le>) ys" for xs ys :: "(int \<times> int) list"
    using that by (induction rule: list_emb.induct) (auto dest: list_emb_set)
  then have sorted: "sorted (map ?key chosen)"
    using subseq_map [OF ran(5), of ?key] sorted_sort_key [of ?key "filter (\<lambda>c. candidate_is_due c now p) cands"] by blast
  show ?thesis
    by (rule conjI [OF valid], rule exI [of _ chosen], rule exI [of _ skipped])
      (use ran(2,3,4,6) sorted in \<open>simp add: ran(1) plan_of_def\<close>)
qed


subsection \<open>A snapshot and its parent\<close>

definition manifest_ref_of :: "u8 \<Rightarrow> BlobRef" where
  "manifest_ref_of n = \<lparr> owner = OWNER, sha256 = encode_hex (replicate 32 n), media_type = ''application/json'', size_bytes = ucast n \<rparr>"

definition example_child :: SnapshotManifest where
  "example_child = example_manifest\<lparr>bundles := [example_ref], parent_manifest := Some (manifest_ref_of 5)\<rparr>"

definition example_root :: SnapshotManifest where
  "example_root = example_manifest
     \<lparr>refs := [\<lparr> ref_name = ''refs/heads/main'', ref_oid = ''ab'' \<rparr>], bundles := [example_ref],
      lfs := Some \<lparr> tool_version = ''git-lfs/3'', objects = [\<lparr> oid = ''aabbcc'', blob = example_ref \<rparr>], total_bytes = 3,
                   aggregate_sha256 = ''x'' \<rparr>\<rparr>"

definition example_restore_env :: "u8 restore_env" where
  "example_restore_env =
     \<lparr> re_crypto = example_crypto, re_hash = example_hash, re_chunks_of = map (\<lambda>byte. [byte]), re_unsigned_vec = (\<lambda>_. Some [1, 2]),
       re_from_slice = (\<lambda>bytes. Some (if length bytes = 4 then example_child else example_root)), re_times = (\<lambda>_. 1),
       re_elapsed = 9 \<rparr>"

definition example_stored :: "nat \<Rightarrow> blob_fs" where
  "example_stored n = fst (publish_file example_hash example_store (manifest_ref_of (word_of_nat n))
     (Some \<lparr> src_is_file = True, src_len = word_of_nat n, src_chunks = [replicate n 1] \<rparr>) example_blob_fs)"

definition example_verifier :: ArtifactVerifier where
  "example_verifier = \<lparr> av_store = example_store, av_trusted_keys = [verification_key example_crypto 5], av_max_chain_depth = 4 \<rparr>"

lemma example_loads:
  "verifier_load_manifest example_restore_env (av_store example_verifier) (example_stored 4) (manifest_ref_of 4) = Inr example_child"
  "\<not> is_ok (blob_verify example_restore_env (av_store example_verifier) (example_stored 4) (manifest_ref_of 5))"
  by code_simp+

theorem lost_parent_fails_verification_witness:
  "vr_outcome (verifier_verify example_restore_env example_verifier (example_stored 4) 7 8 (manifest_ref_of 4)) = ReportFailed
   \<and> vr_failure (verifier_verify example_restore_env example_verifier (example_stored 4) 7 8 (manifest_ref_of 4)) = Some ManifestInvalid"
  by (rule lost_parent_fails_verification [OF example_loads(1) _ example_loads(2)]) (simp add: example_child_def)

definition example_report :: VerificationReport where
  "example_report = verifier_verify example_restore_env example_verifier (example_stored 6) 7 8 (manifest_ref_of 6)"

lemma example_report_passes:
  "vr_outcome example_report = ReportPassed" "vr_manifest example_report = manifest_ref_of 6"
  "vr_expected_lfs_object_count example_report = Some 1"
  by code_simp+

definition example_drill :: RestoreDrill where
  "example_drill =
     \<lparr> rl_settings = \<lparr> ds_scratch_root = ''/scratch'', ds_live_mirror_root = ''/live'', ds_git_binary = ''/usr/bin/git'', ds_deadline = 60 \<rparr>,
       rl_store = example_store \<rparr>"

definition example_drill_io :: "bool \<Rightarrow> drill_io" where
  "example_drill_io made =
     \<lparr> di_canonicalize = (\<lambda>_. None),
       di_staging = \<lparr> create_error = None, dir_mode = Inr 0, write_error = None, protect_error = None, secret_id = '''' \<rparr>,
       di_resolve = (\<lambda>p. Some [tl p]), di_lstat = (\<lambda>_. NotFound), di_run_root_made = made,
       di_child = (\<lambda>k _ _ _ _. Exited (Some 0) (if k = 4 then [''ab refs/heads/main'' @ [CHR 0x0A]] else []) []),
       di_dir_made = (\<lambda>_. True), di_created = (\<lambda>_. True), di_copied = (\<lambda>_. True) \<rparr>"

theorem failed_lfs_drill_is_never_recorded_witness:
  "dr_failure (drill_run example_restore_env (example_drill_io False) (\<lambda>_. ''id'') example_drill (example_stored 6) 9 example_report)
     = Some IsolationFailed
   \<and> record_restore_drill example_env 1000 example_db
       (stored_drill (drill_run example_restore_env (example_drill_io False) (\<lambda>_. ''id'') example_drill (example_stored 6) 9 example_report))
     = Inl (InvalidDelivery ''restore_drill_report'')"
proof -
  have "dr_failure (drill_run example_restore_env (example_drill_io False) (\<lambda>_. ''id'') example_drill (example_stored 6) 9 example_report)
     = Some IsolationFailed"
    "dr_outcome (drill_run example_restore_env (example_drill_io False) (\<lambda>_. ''id'') example_drill (example_stored 6) 9 example_report)
     = ReportFailed"
    by code_simp+
  with failed_lfs_drill_is_never_recorded [OF example_report_passes(3)] show ?thesis by blast
qed

lemma example_drill_git:
  assumes "op_subcommand op \<in> {Init, Bundle, Subcommand.Fetch, Fsck, ShowRef}" and "op_credentials op = None"
    and "refuse_denied_paths (\<lambda>_. None) [''/live''] op = Inr ()"
  shows "drill_git (example_drill_io True) (rl_settings example_drill) root k op =
    Inr \<lparr> exit_code = 0, out_stdout = (if k = 4 then ''ab refs/heads/main'' @ [CHR 0x0A] else ''''), out_stderr = '''',
          stdout_truncated = False, stderr_truncated = False \<rparr>"
proof -
  have "read_capped [''ab refs/heads/main'' @ [CHR 0x0A]] (64 * 1024) [] = (''ab refs/heads/main'' @ [CHR 0x0A], False)"
    by (simp add: read_capped_within)
  then show ?thesis
    using assms by (auto simp: drill_git_def git_run_def drill_runner_def example_drill_io_def example_drill_def Let_def)
qed

lemma example_operations:
  assumes "op \<in> set (drill_operations path)" and "\<not> path_starts_with (path_text (cp_resolved path)) ''/live''"
  shows "op_subcommand op \<in> {Init, Bundle, Subcommand.Fetch, Fsck, ShowRef}" "op_credentials op = None"
    "refuse_denied_paths (\<lambda>_. None) [''/live''] op = Inr ()"
  using assms
  by (auto simp: drill_operations_def refuse_denied_paths_def resolve_or_self_def init_bare_def bundle_verify_def fetch_bundle_def
      fsck_full_def show_ref_def git_operation_def is_absolute_def starts_with_def)

lemma execute_reaches_the_end:
  assumes "vr_outcome report = ReportPassed" "drill_load_manifest env store fs (vr_manifest report) = Inr evidence"
    "bundles evidence = first # others" "is_ok (blob_verify env store fs first)" "di_run_root_made io"
    "confined_bundle io store fs first = Some path"
    and git: "\<And>k op. op \<in> set (drill_operations path) \<Longrightarrow> drill_git io settings run_root k op = Inr (answer k)"
      "\<And>k. exit_code (answer k) = 0"
    and "parse_ref_output (out_stdout (answer 4)) = Inr (refs evidence)"
    and "lfs evidence = Some l" "is_ok (copy_lfs_objects env io store fs run_root (objects l) [])"
  shows "is_ok (execute env io settings store fs run_root report)"
proof -
  from assms(11) obtain written where "copy_lfs_objects env io store fs run_root (objects l) [] = Inr written"
    by (auto simp: is_ok_def split: sum.splits)
  then have "is_ok (compare_refs env io store fs run_root evidence (answer 4) reached)" for reached
    using assms(9,10) by (simp add: compare_refs_def materialize_lfs_def Let_def)
  then show ?thesis
    using assms(1-6) git by (simp add: execute_def run_git_stage_def drill_operations_def Let_def)
qed

lemma passed_when_executed:
  assumes "is_ok (execute env io (rl_settings drill) (rl_store drill) fs
      (drill_run_root (rl_settings drill) (to_string ident) @ ''/repository'') report)"
  shows "dr_outcome (drill_run env io to_string drill fs ident report) = ReportPassed"
  using assms by (auto simp: drill_run_def build_drill_report_def is_ok_def split: sum.splits)

theorem passed_drill_rebuilt_the_snapshot_witness:
  "\<exists>evidence first others. drill_load_manifest example_restore_env example_store (example_stored 6) (manifest_ref_of 6) = Inr evidence
     \<and> bundles evidence = first # others"
proof -
  let ?io = "example_drill_io True"
  let ?root = "drill_run_root (rl_settings example_drill) ((\<lambda>_. ''id'') (9 :: uuid)) @ ''/repository''"
  have load: "drill_load_manifest example_restore_env (rl_store example_drill) (example_stored 6) (vr_manifest example_report) = Inr example_root"
    "is_ok (blob_verify example_restore_env (rl_store example_drill) (example_stored 6) example_ref)"
    unfolding example_report_passes(2) by code_simp+
  obtain path where path: "confined_bundle ?io (rl_store example_drill) (example_stored 6) example_ref = Some path"
    "\<not> path_starts_with (path_text (cp_resolved path)) ''/live''"
  proof -
    have "(case confined_bundle ?io (rl_store example_drill) (example_stored 6) example_ref of
        None \<Rightarrow> False | Some path \<Rightarrow> \<not> path_starts_with (path_text (cp_resolved path)) ''/live'')" by code_simp
    then show thesis using that by (auto split: option.splits)
  qed
  have refs: "parse_ref_output (''ab refs/heads/main'' @ [CHR 0x0A]) = Inr (refs example_root)" by code_simp
  obtain l where lfs: "lfs example_root = Some l" by (simp add: example_root_def)
  have "is_ok (copy_lfs_objects example_restore_env ?io (rl_store example_drill) (example_stored 6) ?root (objects (the (lfs example_root))) [])"
    by code_simp
  with lfs have copied: "is_ok (copy_lfs_objects example_restore_env ?io (rl_store example_drill) (example_stored 6) ?root (objects l) [])"
    by simp
  have "is_ok (execute example_restore_env ?io (rl_settings example_drill) (rl_store example_drill) (example_stored 6) ?root example_report)"
    by (rule execute_reaches_the_end [OF example_report_passes(1) load(1) _ load(2) _ path(1)
          example_drill_git [OF example_operations [OF _ path(2)]] _ _ lfs copied])
      (use refs in \<open>simp_all add: example_root_def example_drill_io_def\<close>)
  then have passed: "dr_outcome (drill_run example_restore_env ?io (\<lambda>_. ''id'') example_drill (example_stored 6) 9 example_report) = ReportPassed"
    by (rule passed_when_executed)
  have "chunking (re_chunks_of example_restore_env)" by (simp add: example_restore_env_def chunking_singletons)
  from passed_drill_rebuilt_the_snapshot [OF passed this] show ?thesis
    by (auto simp: example_report_passes(2) example_drill_def)
qed

subsection \<open>An admission pass over three snapshots\<close>

definition example_policy :: VerificationPolicy where
  "example_policy =
     \<lparr> vp_verification_frequency_seconds = 100, vp_drill_frequency_seconds = 200, vp_sample_size = 2, vp_scratch_byte_budget = 9,
       vp_max_concurrent = 2, vp_per_drill_timeout_seconds = 60 \<rparr>"

definition example_candidates :: "ScheduleCandidate list" where
  "example_candidates =
     [\<lparr> cn_snapshot_id = 1, cn_bundle_size_bytes = 5, cn_last_verified_at = Some 700, cn_last_drilled_at = Some 900 \<rparr>,
      \<lparr> cn_snapshot_id = 2, cn_bundle_size_bytes = 4, cn_last_verified_at = None, cn_last_drilled_at = None \<rparr>,
      \<lparr> cn_snapshot_id = 3, cn_bundle_size_bytes = - 1, cn_last_verified_at = Some 600, cn_last_drilled_at = None \<rparr>,
      \<lparr> cn_snapshot_id = 4, cn_bundle_size_bytes = 1, cn_last_verified_at = Some 950, cn_last_drilled_at = Some 950 \<rparr>]"

theorem schedule_is_bounded_and_complete_witness:
  "\<exists>chosen skipped :: ScheduleCandidate list. map cn_snapshot_id chosen = [2, 1] \<and> map cn_snapshot_id skipped = [3]
     \<and> mset chosen + mset skipped = mset (filter (\<lambda>c. candidate_is_due c 1000 example_policy) example_candidates)"
proof -
  have "plan_due_snapshots 1000 example_policy example_candidates
    = Inr \<lparr> sp_selected = [2, 1], sp_drill_selected = [2], sp_deferred = [\<lparr> de_snapshot_id = 3, de_reason = ScratchBudget \<rparr>] \<rparr>"
    by code_simp
  note planned = schedule_is_bounded_and_complete [OF this, unfolded SchedulePlan.simps DeferredCandidate.simps list.map]
  then obtain chosen skipped where "map cn_snapshot_id chosen = [2, 1]" "map cn_snapshot_id skipped = [3]"
    "mset chosen + mset skipped = mset (filter (\<lambda>c. candidate_is_due c 1000 example_policy) example_candidates)"
    by (metis (no_types, lifting))
  then show ?thesis by (intro exI conjI)
qed

end
