(* ===== verification/Wiki_Coordinator.thy ===== *)
theory Wiki_Coordinator
  imports Mirror_Lifecycle
begin

text \<open>
  Discovery of a sibling wiki and its mirroring: the probe and the reading of its output
  (\<open>crates/gitrunner/src/wiki.rs\<close>) and the coordinator that records a discovery and hands a present wiki to the
  ordinary mirror lifecycle (\<open>services/vault/src/wiki.rs\<close>). The probe's process and the text of an error are
  parameters, as in the runner.
\<close>

subsection \<open>The probe\<close>

datatype WikiProbeResult =
    ProbePresent nat
  | ProbeAbsent
  | ProbeAuthenticationFailed string
  | ProbeTimedOut
  | ProbeOtherFailure string

definition is_ascii_hexdigit :: "char \<Rightarrow> bool" where
  "is_ascii_hexdigit c \<longleftrightarrow>
     CHR ''0'' \<le> c \<and> c \<le> CHR ''9'' \<or> CHR ''a'' \<le> c \<and> c \<le> CHR ''f'' \<or> CHR ''A'' \<le> c \<and> c \<le> CHR ''F''"

definition valid_ref_line :: "string \<Rightarrow> bool" where
  "valid_ref_line line =
     (case split_whitespace line of
        [oid_text, reference] \<Rightarrow>
          length oid_text \<in> {40, 64} \<and> list_all is_ascii_hexdigit oid_text \<and> starts_with reference ''refs/''
          \<and> \<not> list_ex (\<lambda>c. c \<in> {CHR 0x0A, CHR 0x0D, CHR 0x00}) reference
      | _ \<Rightarrow> False)"

definition authentication_refused :: "string \<Rightarrow> bool" where
  "authentication_refused folded \<longleftrightarrow>
     contains folded ''authentication failed'' \<or> contains folded ''could not read username'' \<or> contains folded ''access denied''"

definition confirmed_not_found :: "string \<Rightarrow> string \<Rightarrow> bool" where
  "confirmed_not_found sibling folded \<longleftrightarrow>
     is_file sibling \<and> contains folded ''does not appear to be a git repository'' \<or> contains folded ''repository not found''"

definition classify_probe :: "string \<Rightarrow> bool \<Rightarrow> RunOutcome \<Rightarrow> WikiProbeResult" where
  "classify_probe sibling parent_access_verified outcome =
     (if exit_code outcome = 0
      then let ref_count = length (filter valid_ref_line (str_lines (from_utf8_lossy (out_stdout outcome))))
           in if ref_count > 0 then ProbePresent ref_count else ProbeOtherFailure ''wiki probe returned no valid refs''
      else
        let excerpt = bounded_excerpt (out_stderr outcome) 512;
            folded = to_ascii_lowercase excerpt
        in if authentication_refused folded then ProbeAuthenticationFailed excerpt
           else if parent_access_verified \<and> confirmed_not_found sibling folded then ProbeAbsent
           else ProbeOtherFailure excerpt)"

text \<open>The runner of the probe, and \<open>to_string\<close> of its errors.\<close>

record wiki_probe =
  wp_display :: "GitRunnerError \<Rightarrow> string"
  wp_canonicalize :: "string \<Rightarrow> string option"
  wp_staging :: staging_io
  wp_child :: "string \<Rightarrow> string \<Rightarrow> string list \<Rightarrow> (string \<times> string) list \<Rightarrow> child_result"
  wp_config :: RunConfig
  wp_denied_roots :: "string list"

definition probe_run :: "wiki_probe \<Rightarrow> string \<Rightarrow> (GitRunnerError, RunOutcome) result" where
  "probe_run p sibling =
     git_run (wp_canonicalize p) (wp_staging p) (wp_child p) (wp_config p) (wp_denied_roots p) (ls_remote sibling)"

definition probe_wiki :: "wiki_probe \<Rightarrow> string \<Rightarrow> bool \<Rightarrow> WikiProbeResult" where
  "probe_wiki p parent parent_access_verified =
     (case wiki_sibling parent of
        Inl e \<Rightarrow> ProbeOtherFailure (wp_display p e)
      | Inr sibling \<Rightarrow>
          (case probe_run p sibling of
             Inl (Timeout _) \<Rightarrow> ProbeTimedOut
           | Inl e \<Rightarrow> ProbeOtherFailure (wp_display p e)
           | Inr outcome \<Rightarrow> classify_probe sibling parent_access_verified outcome))"

subsection \<open>The coordinator\<close>

datatype WikiMirrorOutcome =
    WikiMirrorAbsent
  | WikiMirrorFailed
  | WikiMirrored uuid LifecycleOutcome

text \<open>\<open>MirrorLifecycle::run\<close> keeps the sender of a flag nobody raises.\<close>

definition lifecycle_run ::
  "mirror_env \<Rightarrow> MirrorLifecycleSettings \<Rightarrow> lfs_attachment option \<Rightarrow> (nat \<Rightarrow> git_call) \<Rightarrow> MirrorRequest
     \<Rightarrow> mirror_world \<Rightarrow> LifecycleOutcome world_result" where
  "lifecycle_run env settings collector calls request w =
     run_cancellable env settings collector (\<lambda>k. (calls k)\<lparr>gc_cancelled := False, gc_race := RunnerFirst\<rparr>) False request w"

record WikiCoordinator =
  wc_env :: mirror_env
  wc_settings :: MirrorLifecycleSettings
  wc_collector :: "lfs_attachment option"
  wc_calls :: "nat \<Rightarrow> git_call"
  wc_probe :: wiki_probe
  wc_now :: timestamp

definition record_discovery :: "WikiCoordinator \<Rightarrow> uuid \<Rightarrow> WikiDiscovery \<Rightarrow> mirror_world \<Rightarrow> WikiDiscoveryRecord world_result" where
  "record_discovery wc parent_id discovery w =
     db_call (\<lambda>db. record_wiki_discovery (me_store (wc_env wc)) (wc_now wc) db parent_id discovery) w (\<lambda>r w1. (w1, Inr r))"

definition wiki_failed :: "WikiCoordinator \<Rightarrow> uuid \<Rightarrow> string \<Rightarrow> mirror_world \<Rightarrow> WikiMirrorOutcome world_result" where
  "wiki_failed wc parent_id failure_class w =
     world_bind (record_discovery wc parent_id (WikiFailed failure_class) w) (\<lambda>_ w1. (w1, Inr WikiMirrorFailed))"

definition discover_and_mirror ::
  "WikiCoordinator \<Rightarrow> uuid \<Rightarrow> string \<Rightarrow> u64 \<Rightarrow> mirror_world \<Rightarrow> WikiMirrorOutcome world_result" where
  "discover_and_mirror wc parent_id parent_source reservation_bytes w =
     (case SourceUrl_parse parent_source of
        Inl _ \<Rightarrow> (w, Inl (InvalidDelivery ''source_url''))
      | Inr parent \<Rightarrow>
          (case probe_wiki (wc_probe wc) parent True of
             ProbePresent _ \<Rightarrow>
               (case wiki_sibling parent of
                  Inl _ \<Rightarrow> (w, Inl (InvalidDelivery ''source_url''))
                | Inr sibling \<Rightarrow>
                    world_bind (record_discovery wc parent_id WikiPresent w) (\<lambda>r w1.
                      case wd_child_target_id r of
                        None \<Rightarrow> (w1, Inl StorageFailed)
                      | Some child \<Rightarrow>
                          world_bind (lifecycle_run (wc_env wc) (wc_settings wc) (wc_collector wc) (wc_calls wc)
                            (MirrorRequest_new child sibling reservation_bytes) w1) (\<lambda>outcome w2.
                              (w2, Inr (WikiMirrored child outcome)))))
           | ProbeAbsent \<Rightarrow>
               world_bind (record_discovery wc parent_id WikiAbsent w) (\<lambda>_ w1. (w1, Inr WikiMirrorAbsent))
           | ProbeAuthenticationFailed _ \<Rightarrow> wiki_failed wc parent_id ''auth'' w
           | ProbeTimedOut \<Rightarrow> wiki_failed wc parent_id ''timeout'' w
           | ProbeOtherFailure _ \<Rightarrow> wiki_failed wc parent_id ''probe_failed'' w))"

subsection \<open>What the probe establishes\<close>

lemma probe_present:
  assumes "probe_wiki p parent verified = ProbePresent n"
  obtains sibling outcome line where "wiki_sibling parent = Inr sibling" "probe_run p sibling = Inr outcome" "exit_code outcome = 0"
    "line \<in> set (str_lines (from_utf8_lossy (out_stdout outcome)))" "valid_ref_line line"
proof -
  from assms obtain sibling outcome where run: "wiki_sibling parent = Inr sibling" "probe_run p sibling = Inr outcome"
    "classify_probe sibling verified outcome = ProbePresent n"
    by (auto simp: probe_wiki_def split: sum.splits GitRunnerError.splits)
  then have zero: "exit_code outcome = 0" "filter valid_ref_line (str_lines (from_utf8_lossy (out_stdout outcome))) \<noteq> []"
    by (auto simp: classify_probe_def Let_def split: if_splits)
  then obtain line where "line \<in> set (filter valid_ref_line (str_lines (from_utf8_lossy (out_stdout outcome))))"
    by (meson list.set_sel(1))
  with run zero that show thesis by auto
qed

lemma probe_absent:
  assumes "probe_wiki p parent verified = ProbeAbsent"
  obtains sibling outcome where "wiki_sibling parent = Inr sibling" "probe_run p sibling = Inr outcome" "exit_code outcome \<noteq> 0" "verified"
    "\<not> authentication_refused (to_ascii_lowercase (bounded_excerpt (out_stderr outcome) 512))"
    "confirmed_not_found sibling (to_ascii_lowercase (bounded_excerpt (out_stderr outcome) 512))"
  using assms that
  by (auto simp: probe_wiki_def classify_probe_def Let_def split: sum.splits GitRunnerError.splits if_splits)

lemma record_discovery_ok:
  "record_discovery wc parent_id discovery w = (w', Inr r) \<longleftrightarrow>
     (\<exists>db'. record_wiki_discovery (me_store (wc_env wc)) (wc_now wc) (mw_db w) parent_id discovery = Inr (r, db') \<and> w' = w\<lparr>mw_db := db'\<rparr>)"
  by (auto simp: record_discovery_def)

lemma discovery_row:
  assumes "record_wiki_discovery env now db parent discovery = Inr (r, db')"
  shows "\<exists>run. collector_runs db' = collector_runs db @ [run] \<and> cr_target run = parent \<and> cr_outcome run = fst (wiki_outcome discovery)"
    and "discovery \<noteq> WikiPresent \<Longrightarrow> targets db' = targets db"
  using assms by (auto elim!: wiki_discovery_shape)

lemma wiki_failed_ok:
  assumes "wiki_failed wc parent_id failure w = (w', Inr outcome)"
  shows "outcome = WikiMirrorFailed \<and> (\<exists>r db'. w' = w\<lparr>mw_db := db'\<rparr> \<and>
    record_wiki_discovery (me_store (wc_env wc)) (wc_now wc) (mw_db w) parent_id (WikiFailed failure) = Inr (r, db'))"
  using assms by (auto simp: wiki_failed_def record_discovery_ok)

text \<open>
  C28. Discovery fails closed: a wiki is reported absent only when the probe of the sibling URL ran, exited
  with an error that names the repository as missing and no authentication problem; it is mirrored only when
  the probe exited with success and printed a line of an object id and a ref, and then the lifecycle ran for
  the target the discovery named; absence and failure add one
  evidence row under the parent and neither a target nor a file; every other answer is a recorded failure.
\<close>

theorem wiki_discovery_fails_closed:
  assumes "discover_and_mirror wc parent_id parent_source bytes w = (w', Inr outcome)"
  shows "case outcome of
     WikiMirrorAbsent \<Rightarrow>
       (\<exists>sibling run. wiki_sibling parent_source = Inr sibling \<and> probe_run (wc_probe wc) sibling = Inr run \<and> exit_code run \<noteq> 0
          \<and> \<not> authentication_refused (to_ascii_lowercase (bounded_excerpt (out_stderr run) 512))
          \<and> confirmed_not_found sibling (to_ascii_lowercase (bounded_excerpt (out_stderr run) 512)))
       \<and> targets (mw_db w') = targets (mw_db w) \<and> mw_disk w' = mw_disk w \<and> mw_blobs w' = mw_blobs w
       \<and> map cr_outcome (collector_runs (mw_db w')) = map cr_outcome (collector_runs (mw_db w)) @ [''absent'']
   | WikiMirrorFailed \<Rightarrow>
       targets (mw_db w') = targets (mw_db w) \<and> mw_disk w' = mw_disk w \<and> mw_blobs w' = mw_blobs w
       \<and> map cr_outcome (collector_runs (mw_db w')) = map cr_outcome (collector_runs (mw_db w)) @ [''failed'']
   | WikiMirrored child lifecycle \<Rightarrow>
       (\<exists>sibling run line. wiki_sibling parent_source = Inr sibling \<and> probe_run (wc_probe wc) sibling = Inr run \<and> exit_code run = 0
          \<and> line \<in> set (str_lines (from_utf8_lossy (out_stdout run))) \<and> valid_ref_line line
          \<and> (\<exists>r w1. record_discovery wc parent_id WikiPresent w = (w1, Inr r) \<and> wd_child_target_id r = Some child
                \<and> lifecycle_run (wc_env wc) (wc_settings wc) (wc_collector wc) (wc_calls wc)
                    (MirrorRequest_new child sibling bytes) w1 = (w', Inr lifecycle)))"
proof -
  have parsed: "SourceUrl_parse parent_source = Inr parent_source"
    using assms by (auto simp: discover_and_mirror_def SourceUrl_parse_def split: sum.splits if_splits option.splits)
  have failed: "wiki_failed wc parent_id failure w = (w', Inr outcome) \<Longrightarrow> ?thesis" for failure
    using discovery_row by (fastforce dest!: wiki_failed_ok simp: wiki_outcome_def)
  show ?thesis
  proof (cases "probe_wiki (wc_probe wc) parent_source True")
    case (ProbePresent n)
    then obtain sibling run line where probed: "wiki_sibling parent_source = Inr sibling" "probe_run (wc_probe wc) sibling = Inr run"
      "exit_code run = 0" "line \<in> set (str_lines (from_utf8_lossy (out_stdout run)))" "valid_ref_line line"
      by (rule probe_present)
    with assms parsed ProbePresent obtain r w1 child lifecycle where ran: "outcome = WikiMirrored child lifecycle"
      "record_discovery wc parent_id WikiPresent w = (w1, Inr r)" "wd_child_target_id r = Some child"
      "lifecycle_run (wc_env wc) (wc_settings wc) (wc_collector wc) (wc_calls wc) (MirrorRequest_new child sibling bytes) w1
        = (w', Inr lifecycle)"
      by (auto simp: discover_and_mirror_def split: option.splits)
    show ?thesis unfolding ran(1) WikiMirrorOutcome.case using probed ran(2-) by (intro exI conjI)
  next
    case ProbeAbsent
    then obtain sibling run where probed: "wiki_sibling parent_source = Inr sibling" "probe_run (wc_probe wc) sibling = Inr run"
      "exit_code run \<noteq> 0" "\<not> authentication_refused (to_ascii_lowercase (bounded_excerpt (out_stderr run) 512))"
      "confirmed_not_found sibling (to_ascii_lowercase (bounded_excerpt (out_stderr run) 512))"
      by (rule probe_absent)
    from assms parsed ProbeAbsent obtain r db' where recorded: "outcome = WikiMirrorAbsent" "w' = w\<lparr>mw_db := db'\<rparr>"
      "record_wiki_discovery (me_store (wc_env wc)) (wc_now wc) (mw_db w) parent_id WikiAbsent = Inr (r, db')"
      by (auto simp: discover_and_mirror_def record_discovery_ok)
    from discovery_row [OF recorded(3)] probed show ?thesis
      by (auto simp: recorded(1,2) wiki_outcome_def)
  qed (use assms parsed in \<open>auto intro: failed simp: discover_and_mirror_def\<close>)
qed

subsection \<open>A repository without a wiki\<close>

definition example_probe :: wiki_probe where
  "example_probe =
     \<lparr> wp_display = (\<lambda>_. ''''), wp_canonicalize = (\<lambda>_. None), wp_staging = me_staging example_mirror_env,
       wp_child = (\<lambda>_ _ words _. Exited (Some 128) [] [''ERROR: Repository not found.'']),
       wp_config = (mirror_runner example_mirror_settings ''/w'')\<lparr>allowed := [LsRemote], stdout_cap_bytes := 64, stderr_cap_bytes := 64\<rparr>,
       wp_denied_roots = [] \<rparr>"

definition example_coordinator :: WikiCoordinator where
  "example_coordinator =
     \<lparr> wc_env = example_mirror_env, wc_settings = example_mirror_settings, wc_collector = None, wc_calls = example_calls,
       wc_probe = example_probe, wc_now = 2000 \<rparr>"

lemma bounded_excerpt_short:
  assumes "utf8_valid s" "length s \<le> bound"
  shows "bounded_excerpt s bound = from_utf8_lossy s"
  using assms by (simp add: bounded_excerpt_def Let_def min_absorb1)

lemma example_probe_absent: "probe_wiki example_probe ''https://host/a.git'' True = ProbeAbsent"
proof -
  let ?text = "''ERROR: Repository not found.''"
  have sibling: "wiki_sibling ''https://host/a.git'' = Inr ''https://host/a.wiki.git''" by code_simp
  have run: "probe_run example_probe ''https://host/a.wiki.git'' = Inr \<lparr> exit_code = 128, out_stdout = [], out_stderr = ?text,
      stdout_truncated = False, stderr_truncated = False \<rparr>"
  proof -
    have "read_capped [?text] 64 [] = (?text, False)" "refuse_denied_paths (\<lambda>_. None) [] op = Inr ()" for op
      by (simp_all add: read_capped_within refuse_denied_paths_def list_ex_iff)
    then show ?thesis
      by (simp add: probe_run_def example_probe_def git_run_def mirror_runner_def ls_remote_def git_operation_def Let_def)
  qed
  have excerpt: "bounded_excerpt ?text 512 = from_utf8_lossy ?text"
    by (rule bounded_excerpt_short) (code_simp, simp)
  have "\<not> authentication_refused (to_ascii_lowercase (from_utf8_lossy ?text))"
    "confirmed_not_found ''https://host/a.wiki.git'' (to_ascii_lowercase (from_utf8_lossy ?text))" by code_simp+
  then show ?thesis by (simp add: probe_wiki_def sibling run classify_probe_def Let_def excerpt)
qed

theorem wiki_discovery_fails_closed_witness:
  "\<exists>w'. discover_and_mirror example_coordinator 1 ''https://host/a.git'' 60 example_world = (w', Inr WikiMirrorAbsent)
     \<and> targets (mw_db w') = targets (mw_db example_world)
     \<and> map cr_outcome (collector_runs (mw_db w')) = map cr_outcome (collector_runs (mw_db example_world)) @ [''absent'']"
proof -
  have parsed: "SourceUrl_parse ''https://host/a.git'' = Inr ''https://host/a.git''" by code_simp
  have "is_ok (record_wiki_discovery example_env 2000 example_db 1 WikiAbsent)" by code_simp
  then obtain r db' where "record_wiki_discovery example_env 2000 example_db 1 WikiAbsent = Inr (r, db')"
    by (auto simp: is_ok_def split: sum.splits)
  then have ran: "discover_and_mirror example_coordinator 1 ''https://host/a.git'' 60 example_world
      = (example_world\<lparr>mw_db := db'\<rparr>, Inr WikiMirrorAbsent)"
    using example_probe_absent
    by (simp add: discover_and_mirror_def parsed record_discovery_ok example_coordinator_def example_mirror_env_def example_world_def)
  with wiki_discovery_fails_closed [OF ran] show ?thesis by auto
qed

end
