(* ===== verification/Configuration.thy ===== *)
theory Configuration
  imports Restore_Verification Mirror_Lifecycle
begin

text \<open>
  The typed configuration, its startup rules and the report of a refusal (\<open>crates/core/src/config/model.rs\<close>,
  \<open>validate.rs\<close>, \<open>mod.rs\<close>). The layered extraction (\<open>figment\<close>), the URL parser, the parser of log filters, the
  Unicode case table and the key pairs of the cryptographic library are parameters; the parser of IP addresses of
  the standard library is modelled. A secret is the text it wraps. A \<open>BTreeMap\<close> is the list of its entries in the
  order of the keys.
\<close>

subsection \<open>IP addresses\<close>

datatype IpAddr = V4 "u8 list" | V6 "16 word list"

definition to_digit :: "nat \<Rightarrow> char \<Rightarrow> nat option" where
  "to_digit radix c =
     (let d = if is_ascii_digit c then Some (of_char c - 48)
              else if CHR ''a'' \<le> c \<and> c \<le> CHR ''z'' then Some (of_char c - 87)
              else if CHR ''A'' \<le> c \<and> c \<le> CHR ''Z'' then Some (of_char c - 55) else None
      in case d of Some v \<Rightarrow> if v < radix then Some v else None | None \<Rightarrow> None)"

text \<open>\<open>Parser::read_number\<close>: \<open>bound\<close> is the first value outside the type.\<close>

fun read_digits :: "nat \<Rightarrow> nat \<Rightarrow> nat \<Rightarrow> nat \<Rightarrow> nat \<Rightarrow> string \<Rightarrow> (nat \<times> nat \<times> string) option" where
  "read_digits radix max_digits bound seen v [] = Some (v, seen, [])"
| "read_digits radix max_digits bound seen v (c # s) =
     (case to_digit radix c of
        None \<Rightarrow> Some (v, seen, c # s)
      | Some d \<Rightarrow>
          if bound \<le> v * radix + d \<or> max_digits < Suc seen then None
          else read_digits radix max_digits bound (Suc seen) (v * radix + d) s)"

definition read_number :: "nat \<Rightarrow> nat \<Rightarrow> bool \<Rightarrow> nat \<Rightarrow> string \<Rightarrow> (nat \<times> string) option" where
  "read_number radix max_digits allow_zero_prefix bound s =
     (case read_digits radix max_digits bound 0 0 s of
        None \<Rightarrow> None
      | Some (v, seen, rest) \<Rightarrow>
          if seen = 0 \<or> \<not> allow_zero_prefix \<and> starts_with s ''0'' \<and> 1 < seen then None else Some (v, rest))"

text \<open>\<open>Parser::read_separator\<close>: the separator precedes every part but the first.\<close>

definition read_separator :: "char \<Rightarrow> nat \<Rightarrow> (string \<Rightarrow> 'a option) \<Rightarrow> string \<Rightarrow> 'a option" where
  "read_separator sep index inner s =
     (if index = 0 then inner s else case s of [] \<Rightarrow> None | c # rest \<Rightarrow> if c = sep then inner rest else None)"

definition read_octet :: "nat \<Rightarrow> string \<Rightarrow> (nat \<times> string) option" where
  "read_octet index s = read_separator (CHR ''.'') index (read_number 10 3 False 256) s"

definition read_ipv4_addr :: "string \<Rightarrow> (u8 list \<times> string) option" where
  "read_ipv4_addr s =
     (case read_octet 0 s of None \<Rightarrow> None | Some (a, s1) \<Rightarrow>
      case read_octet 1 s1 of None \<Rightarrow> None | Some (b, s2) \<Rightarrow>
      case read_octet 2 s2 of None \<Rightarrow> None | Some (c, s3) \<Rightarrow>
      map_option (\<lambda>(d, s4). (map word_of_nat [a, b, c, d], s4)) (read_octet 3 s3))"

definition groups_of_ipv4 :: "u8 list \<Rightarrow> 16 word list" where
  "groups_of_ipv4 octets =
     (case octets of
        [a, b, c, d] \<Rightarrow> [word_of_nat (unat a * 256 + unat b), word_of_nat (unat c * 256 + unat d)]
      | _ \<Rightarrow> [])"

text \<open>\<open>read_groups\<close> for a slice of \<open>limit\<close> groups; the flag tells of an embedded IPv4 address.\<close>

fun read_groups :: "nat \<Rightarrow> nat \<Rightarrow> string \<Rightarrow> 16 word list \<times> bool \<times> string" where
  "read_groups index 0 s = ([], False, s)"
| "read_groups index (Suc left) s =
     (case (if 0 < left then read_separator (CHR '':'') index read_ipv4_addr s else None) of
        Some (octets, rest) \<Rightarrow> (groups_of_ipv4 octets, True, rest)
      | None \<Rightarrow>
          (case read_separator (CHR '':'') index (read_number 16 4 True 65536) s of
             None \<Rightarrow> ([], False, s)
           | Some (g, rest) \<Rightarrow>
               (case read_groups (Suc index) left rest of (gs, embedded, rest') \<Rightarrow> (word_of_nat g # gs, embedded, rest'))))"

definition read_ipv6_addr :: "string \<Rightarrow> (16 word list \<times> string) option" where
  "read_ipv6_addr s =
     (case read_groups 0 8 s of
        (front, embedded, rest) \<Rightarrow>
          if length front = 8 then Some (front, rest)
          else if embedded then None
          else (case strip_prefix ''::'' rest of
                  None \<Rightarrow> None
                | Some rest' \<Rightarrow>
                    (case read_groups 0 (8 - (length front + 1)) rest' of
                       (back, _, rest'') \<Rightarrow> Some (front @ replicate (8 - length front - length back) 0 @ back, rest''))))"

definition IpAddr_parse :: "string \<Rightarrow> IpAddr option" where
  "IpAddr_parse s =
     (case (case read_ipv4_addr s of
              Some (octets, rest) \<Rightarrow> Some (V4 octets, rest)
            | None \<Rightarrow> map_option (\<lambda>(groups, rest). (V6 groups, rest)) (read_ipv6_addr s)) of
        Some (ip, []) \<Rightarrow> Some ip
      | _ \<Rightarrow> None)"

fun is_loopback :: "IpAddr \<Rightarrow> bool" where
  "is_loopback (V4 octets) \<longleftrightarrow> octets \<noteq> [] \<and> hd octets = 127"
| "is_loopback (V6 groups) \<longleftrightarrow> groups = [0, 0, 0, 0, 0, 0, 0, 1]"

subsection \<open>The configuration tree\<close>

text \<open>A parsed \<open>url::Url\<close>, by its accessors.\<close>

record Url =
  url_scheme :: string
  url_host_str :: "string option"
  url_username :: string
  url_password :: "string option"
  url_query :: "string option"
  url_fragment :: "string option"
  url_path :: string

record BusConfig =
  bc_url :: string
  bc_nkey_seed_path :: "string option"

record ReplicaTargetConfig =
  rt_endpoint :: Url
  rt_bucket :: string
  rt_region :: string
  rt_key_prefix :: string
  rt_enabled :: bool
  rt_required :: bool
  rt_access_key :: string
  rt_secret_access_key :: string
  rt_session_token :: "string option"
  rt_connect_timeout_seconds :: u64
  rt_request_timeout_seconds :: u64
  rt_attempt_timeout_seconds :: u64
  rt_max_object_bytes :: u64
  rt_max_backlog_items :: "32 word"
  rt_max_backlog_bytes :: u64
  rt_max_concurrent :: u8

record ReplicasConfig =
  rc_targets :: "(string \<times> ReplicaTargetConfig) list"

definition DEFAULT_ADMIN_PORT :: "16 word" where
  "DEFAULT_ADMIN_PORT = 9570"

record AdminConfig =
  ac_ip :: IpAddr
  ac_port :: "16 word"

record DatabaseConfig =
  dc_url :: string
  dc_max_connections :: "32 word"
  dc_acquire_timeout_seconds :: u64

record ShutdownConfig =
  sc_drain_seconds :: u64
  sc_grace_seconds :: u64

record MirrorLifecycleConfig =
  mc_root :: string
  mc_work_root :: string
  mc_per_mirror_max_bytes :: u64
  mc_global_max_bytes :: u64
  mc_max_concurrent_operations :: u8

record LfsConfig =
  lc_binary :: string
  lc_stage_max_bytes :: u64
  lc_max_objects :: "32 word"
  lc_operation_timeout_seconds :: u64

record VerificationConfig =
  vc_scratch_root :: string
  vc_verification_frequency_seconds :: u64
  vc_drill_frequency_seconds :: u64
  vc_sample_size :: "32 word"
  vc_scratch_byte_budget :: u64
  vc_max_concurrent :: u8
  vc_per_drill_timeout_seconds :: u64
  vc_manifest_signing_seed :: string
  vc_trusted_manifest_public_keys :: "(string \<times> string) list"

datatype LogFormat = Json | Pretty

record OtlpConfig =
  oc_endpoint :: Url
  oc_timeout_seconds :: u64
  oc_headers :: "(string \<times> string) list"

record TelemetryConfig =
  tc_log_format :: LogFormat
  tc_log_filter :: string
  tc_otlp :: "OtlpConfig option"

record VaultConfig =
  cf_admin :: AdminConfig
  cf_database :: "DatabaseConfig option"
  cf_shutdown :: ShutdownConfig
  cf_mirror :: "MirrorLifecycleConfig option"
  cf_lfs :: "LfsConfig option"
  cf_verification :: "VerificationConfig option"
  cf_replicas :: "ReplicasConfig option"
  cf_bus :: "BusConfig option"
  cf_telemetry :: TelemetryConfig

definition default_drain_seconds :: u64 where
  "default_drain_seconds = 5"

definition default_grace_seconds :: u64 where
  "default_grace_seconds = 25"

definition default_log_filter :: string where
  "default_log_filter = ''info''"

definition VaultConfig_defaults :: VaultConfig where
  "VaultConfig_defaults =
     \<lparr> cf_admin = \<lparr> ac_ip = V4 [127, 0, 0, 1], ac_port = DEFAULT_ADMIN_PORT \<rparr>, cf_database = None,
       cf_shutdown = \<lparr> sc_drain_seconds = default_drain_seconds, sc_grace_seconds = default_grace_seconds \<rparr>,
       cf_mirror = None, cf_lfs = None, cf_verification = None, cf_replicas = None, cf_bus = None,
       cf_telemetry = \<lparr> tc_log_format = Json, tc_log_filter = default_log_filter, tc_otlp = None \<rparr> \<rparr>"

subsection \<open>Keys\<close>

definition key_hex_value :: "char \<Rightarrow> u8 option" where
  "key_hex_value byte =
     (if CHR ''0'' \<le> byte \<and> byte \<le> CHR ''9'' then Some (word_of_nat (of_char byte) - 48)
      else if CHR ''a'' \<le> byte \<and> byte \<le> CHR ''f'' then Some (word_of_nat (of_char byte) - 97 + 10)
      else None)"

fun decode_key_pairs :: "string \<Rightarrow> (ManifestError, u8 list) result" where
  "decode_key_pairs (h # l # rest) =
     (case key_hex_value h of
        None \<Rightarrow> Inl InvalidVerificationKey
      | Some high \<Rightarrow>
          (case key_hex_value l of
             None \<Rightarrow> Inl InvalidVerificationKey
           | Some low \<Rightarrow> map_sum id ((#) (or (push_bit 4 high) low)) (decode_key_pairs rest)))"
| "decode_key_pairs _ = Inr []"

definition decode_key_hex :: "string \<Rightarrow> (ManifestError, u8 list) result" where
  "decode_key_hex encoded = (if length encoded \<noteq> 64 then Inl InvalidVerificationKey else decode_key_pairs encoded)"

text \<open>\<open>key_pair\<close> is \<open>Ed25519KeyPair::from_seed_unchecked\<close>.\<close>

definition ManifestSigningKey_from_seed :: "(u8 list \<Rightarrow> 'k option) \<Rightarrow> u8 list \<Rightarrow> (ManifestError, 'k) result" where
  "ManifestSigningKey_from_seed key_pair seed = (case key_pair seed of None \<Rightarrow> Inl InvalidSigningKey | Some k \<Rightarrow> Inr k)"

definition manifest_signing_key :: "(u8 list \<Rightarrow> 'k option) \<Rightarrow> VerificationConfig \<Rightarrow> (ManifestError, 'k) result" where
  "manifest_signing_key key_pair v =
     result_bind (decode_key_hex (vc_manifest_signing_seed v)) (ManifestSigningKey_from_seed key_pair)"

fun trusted_keys_of :: "(string \<times> string) list \<Rightarrow> (ManifestError, ManifestVerificationKey list) result" where
  "trusted_keys_of [] = Inr []"
| "trusted_keys_of ((ident, encoded) # rest) =
     result_bind (decode_key_hex encoded) (\<lambda>bytes.
       map_sum id ((#) \<lparr> key_id = ident, public_key = bytes \<rparr>) (trusted_keys_of rest))"

definition trusted_manifest_keys :: "VerificationConfig \<Rightarrow> (ManifestError, ManifestVerificationKey list) result" where
  "trusted_manifest_keys v = trusted_keys_of (vc_trusted_manifest_public_keys v)"

subsection \<open>Violations\<close>

record Violation =
  vl_key :: string
  vl_env_var :: string
  vl_rule :: string

definition SHUTDOWN_CEILING_SECONDS :: u64 where
  "SHUTDOWN_CEILING_SECONDS = 120"

definition vio_log_filter :: Violation where
  "vio_log_filter =
     \<lparr> vl_key = ''telemetry.log_filter'', vl_env_var = ''RATATOSKR__TELEMETRY__LOG_FILTER'',
       vl_rule = ''must parse as a tracing-subscriber EnvFilter directive string, e.g. info,vault=debug'' \<rparr>"

definition vio_shutdown_drain_seconds :: Violation where
  "vio_shutdown_drain_seconds =
     \<lparr> vl_key = ''shutdown.drain_seconds'', vl_env_var = ''RATATOSKR__SHUTDOWN__DRAIN_SECONDS'',
       vl_rule = ''must be 0..=60, and drain_seconds + grace_seconds must not exceed 120'' \<rparr>"

definition vio_shutdown_grace_seconds :: Violation where
  "vio_shutdown_grace_seconds =
     \<lparr> vl_key = ''shutdown.grace_seconds'', vl_env_var = ''RATATOSKR__SHUTDOWN__GRACE_SECONDS'',
       vl_rule = ''must be 1..=120, and drain_seconds + grace_seconds must not exceed 120'' \<rparr>"

definition vio_bus_url :: Violation where
  "vio_bus_url =
     \<lparr> vl_key = ''bus.url'', vl_env_var = ''RATATOSKR__BUS__URL'',
       vl_rule = ''must be a credential-free nats:// or tls:// broker URL without a path'' \<rparr>"

definition vio_bus_url_database :: Violation where
  "vio_bus_url_database =
     \<lparr> vl_key = ''bus.url'', vl_env_var = ''RATATOSKR__BUS__URL'',
       vl_rule = ''needs RATATOSKR__DATABASE__URL: the policy lane cannot finish a command without it'' \<rparr>"

definition vio_bus_nkey_seed_path :: Violation where
  "vio_bus_nkey_seed_path =
     \<lparr> vl_key = ''bus.nkey_seed_path'', vl_env_var = ''RATATOSKR__BUS__NKEY_SEED_PATH'',
       vl_rule = ''must be the absolute path of the nkey seed file, e.g. /etc/ratatoskr/vault.nkey'' \<rparr>"

definition vio_bus_nkey_seed_path_required :: Violation where
  "vio_bus_nkey_seed_path_required =
     \<lparr> vl_key = ''bus.nkey_seed_path'', vl_env_var = ''RATATOSKR__BUS__NKEY_SEED_PATH'',
       vl_rule = ''is required for a tls:// broker: the seed authenticates this identity'' \<rparr>"

definition vio_replica_endpoint :: Violation where
  "vio_replica_endpoint =
     \<lparr> vl_key = ''replicas.targets.<target>.endpoint'', vl_env_var = ''RATATOSKR__REPLICAS__TARGETS__<TARGET>__ENDPOINT'',
       vl_rule = ''must be a credential-free https:// origin, except loopback http:// origins used by local tests'' \<rparr>"

definition vio_replica_access_key :: Violation where
  "vio_replica_access_key =
     \<lparr> vl_key = ''replicas.targets.<target>.access_key'', vl_env_var = ''RATATOSKR__REPLICAS__TARGETS__<TARGET>__ACCESS_KEY'',
       vl_rule = ''must be supplied through the process environment'' \<rparr>"

definition vio_replica_secret_access_key :: Violation where
  "vio_replica_secret_access_key =
     \<lparr> vl_key = ''replicas.targets.<target>.secret_access_key'', vl_env_var = ''RATATOSKR__REPLICAS__TARGETS__<TARGET>__SECRET_ACCESS_KEY'',
       vl_rule = ''must be supplied through the process environment'' \<rparr>"

definition vio_replica_connect_timeout_seconds :: Violation where
  "vio_replica_connect_timeout_seconds =
     \<lparr> vl_key = ''replicas.targets.<target>.connect_timeout_seconds'', vl_env_var = ''RATATOSKR__REPLICAS__TARGETS__<TARGET>__CONNECT_TIMEOUT_SECONDS'',
       vl_rule = ''must be a positive finite connection timeout'' \<rparr>"

definition vio_replica_request_timeout_seconds :: Violation where
  "vio_replica_request_timeout_seconds =
     \<lparr> vl_key = ''replicas.targets.<target>.request_timeout_seconds'', vl_env_var = ''RATATOSKR__REPLICAS__TARGETS__<TARGET>__REQUEST_TIMEOUT_SECONDS'',
       vl_rule = ''must be a positive finite end-to-end deadline'' \<rparr>"

definition vio_replica_attempt_timeout_seconds :: Violation where
  "vio_replica_attempt_timeout_seconds =
     \<lparr> vl_key = ''replicas.targets.<target>.attempt_timeout_seconds'', vl_env_var = ''RATATOSKR__REPLICAS__TARGETS__<TARGET>__ATTEMPT_TIMEOUT_SECONDS'',
       vl_rule = ''must be a positive finite attempt timeout'' \<rparr>"

definition vio_replica_max_object_bytes :: Violation where
  "vio_replica_max_object_bytes =
     \<lparr> vl_key = ''replicas.targets.<target>.max_object_bytes'', vl_env_var = ''RATATOSKR__REPLICAS__TARGETS__<TARGET>__MAX_OBJECT_BYTES'',
       vl_rule = ''must be a positive finite object-size ceiling'' \<rparr>"

definition vio_replica_max_backlog_items :: Violation where
  "vio_replica_max_backlog_items =
     \<lparr> vl_key = ''replicas.targets.<target>.max_backlog_items'', vl_env_var = ''RATATOSKR__REPLICAS__TARGETS__<TARGET>__MAX_BACKLOG_ITEMS'',
       vl_rule = ''must be a positive finite item ceiling'' \<rparr>"

definition vio_replica_max_backlog_bytes :: Violation where
  "vio_replica_max_backlog_bytes =
     \<lparr> vl_key = ''replicas.targets.<target>.max_backlog_bytes'', vl_env_var = ''RATATOSKR__REPLICAS__TARGETS__<TARGET>__MAX_BACKLOG_BYTES'',
       vl_rule = ''must be a positive finite byte ceiling'' \<rparr>"

definition vio_replica_max_concurrent :: Violation where
  "vio_replica_max_concurrent =
     \<lparr> vl_key = ''replicas.targets.<target>.max_concurrent'', vl_env_var = ''RATATOSKR__REPLICAS__TARGETS__<TARGET>__MAX_CONCURRENT'',
       vl_rule = ''must be 1..=4 for the deployment target's four CPU cores'' \<rparr>"

definition vio_verification_scratch_root :: Violation where
  "vio_verification_scratch_root =
     \<lparr> vl_key = ''verification.scratch_root'', vl_env_var = ''RATATOSKR__VERIFICATION__SCRATCH_ROOT'',
       vl_rule = ''must be an absolute root disjoint from configured mirror and work roots'' \<rparr>"

definition vio_verification_verification_frequency_seconds :: Violation where
  "vio_verification_verification_frequency_seconds =
     \<lparr> vl_key = ''verification.verification_frequency_seconds'', vl_env_var = ''RATATOSKR__VERIFICATION__VERIFICATION_FREQUENCY_SECONDS'',
       vl_rule = ''must be a positive finite interval'' \<rparr>"

definition vio_verification_drill_frequency_seconds :: Violation where
  "vio_verification_drill_frequency_seconds =
     \<lparr> vl_key = ''verification.drill_frequency_seconds'', vl_env_var = ''RATATOSKR__VERIFICATION__DRILL_FREQUENCY_SECONDS'',
       vl_rule = ''must be a positive finite interval'' \<rparr>"

definition vio_verification_sample_size :: Violation where
  "vio_verification_sample_size =
     \<lparr> vl_key = ''verification.sample_size'', vl_env_var = ''RATATOSKR__VERIFICATION__SAMPLE_SIZE'',
       vl_rule = ''must be a positive finite sample'' \<rparr>"

definition vio_verification_scratch_byte_budget :: Violation where
  "vio_verification_scratch_byte_budget =
     \<lparr> vl_key = ''verification.scratch_byte_budget'', vl_env_var = ''RATATOSKR__VERIFICATION__SCRATCH_BYTE_BUDGET'',
       vl_rule = ''must be a positive finite byte budget'' \<rparr>"

definition vio_verification_max_concurrent :: Violation where
  "vio_verification_max_concurrent =
     \<lparr> vl_key = ''verification.max_concurrent'', vl_env_var = ''RATATOSKR__VERIFICATION__MAX_CONCURRENT'',
       vl_rule = ''must be 1..=4 for the deployment target's four CPU cores'' \<rparr>"

definition vio_verification_per_drill_timeout_seconds :: Violation where
  "vio_verification_per_drill_timeout_seconds =
     \<lparr> vl_key = ''verification.per_drill_timeout_seconds'', vl_env_var = ''RATATOSKR__VERIFICATION__PER_DRILL_TIMEOUT_SECONDS'',
       vl_rule = ''must be a positive finite process deadline'' \<rparr>"

definition vio_verification_manifest_signing_seed :: Violation where
  "vio_verification_manifest_signing_seed =
     \<lparr> vl_key = ''verification.manifest_signing_seed'', vl_env_var = ''RATATOSKR__VERIFICATION__MANIFEST_SIGNING_SEED'',
       vl_rule = ''must be a 32-byte lowercase hexadecimal Ed25519 seed'' \<rparr>"

definition vio_verification_trusted_manifest_public_keys :: Violation where
  "vio_verification_trusted_manifest_public_keys =
     \<lparr> vl_key = ''verification.trusted_manifest_public_keys'', vl_env_var = ''RATATOSKR__VERIFICATION__TRUSTED_MANIFEST_PUBLIC_KEYS__<KEY_ID>'',
       vl_rule = ''must contain lowercase SHA-256 key ids mapped to 32-byte lowercase hexadecimal Ed25519 public keys'' \<rparr>"

definition vio_mirror_root :: Violation where
  "vio_mirror_root =
     \<lparr> vl_key = ''mirror.root'', vl_env_var = ''RATATOSKR__MIRROR__ROOT'',
       vl_rule = ''must be an absolute confined storage root'' \<rparr>"

definition vio_mirror_work_root :: Violation where
  "vio_mirror_work_root =
     \<lparr> vl_key = ''mirror.work_root'', vl_env_var = ''RATATOSKR__MIRROR__WORK_ROOT'',
       vl_rule = ''must be an absolute staging root distinct from mirror.root'' \<rparr>"

definition vio_mirror_per_mirror_max_bytes :: Violation where
  "vio_mirror_per_mirror_max_bytes =
     \<lparr> vl_key = ''mirror.per_mirror_max_bytes'', vl_env_var = ''RATATOSKR__MIRROR__PER_MIRROR_MAX_BYTES'',
       vl_rule = ''must be a positive finite byte budget'' \<rparr>"

definition vio_mirror_global_max_bytes :: Violation where
  "vio_mirror_global_max_bytes =
     \<lparr> vl_key = ''mirror.global_max_bytes'', vl_env_var = ''RATATOSKR__MIRROR__GLOBAL_MAX_BYTES'',
       vl_rule = ''must be a positive finite byte budget'' \<rparr>"

definition vio_mirror_max_concurrent_operations :: Violation where
  "vio_mirror_max_concurrent_operations =
     \<lparr> vl_key = ''mirror.max_concurrent_operations'', vl_env_var = ''RATATOSKR__MIRROR__MAX_CONCURRENT_OPERATIONS'',
       vl_rule = ''must equal 4, the deployment target's four CPU cores'' \<rparr>"

definition vio_lfs_binary :: Violation where
  "vio_lfs_binary =
     \<lparr> vl_key = ''lfs.binary'', vl_env_var = ''RATATOSKR__LFS__BINARY'',
       vl_rule = ''must be an absolute path to the allowlisted git-lfs executable'' \<rparr>"

definition vio_lfs_stage_max_bytes :: Violation where
  "vio_lfs_stage_max_bytes =
     \<lparr> vl_key = ''lfs.stage_max_bytes'', vl_env_var = ''RATATOSKR__LFS__STAGE_MAX_BYTES'',
       vl_rule = ''must be positive and no greater than configured per-mirror and global budgets'' \<rparr>"

definition vio_lfs_max_objects :: Violation where
  "vio_lfs_max_objects =
     \<lparr> vl_key = ''lfs.max_objects'', vl_env_var = ''RATATOSKR__LFS__MAX_OBJECTS'',
       vl_rule = ''must be a positive finite referenced-object limit'' \<rparr>"

definition vio_lfs_operation_timeout_seconds :: Violation where
  "vio_lfs_operation_timeout_seconds =
     \<lparr> vl_key = ''lfs.operation_timeout_seconds'', vl_env_var = ''RATATOSKR__LFS__OPERATION_TIMEOUT_SECONDS'',
       vl_rule = ''must be a positive finite process deadline'' \<rparr>"

definition vio_database_max_connections :: Violation where
  "vio_database_max_connections =
     \<lparr> vl_key = ''database.max_connections'', vl_env_var = ''RATATOSKR__DATABASE__MAX_CONNECTIONS'',
       vl_rule = ''must be 1..=100'' \<rparr>"

definition vio_database_acquire_timeout_seconds :: Violation where
  "vio_database_acquire_timeout_seconds =
     \<lparr> vl_key = ''database.acquire_timeout_seconds'', vl_env_var = ''RATATOSKR__DATABASE__ACQUIRE_TIMEOUT_SECONDS'',
       vl_rule = ''must be 1..=30'' \<rparr>"

definition vio_database_url :: Violation where
  "vio_database_url =
     \<lparr> vl_key = ''database.url'', vl_env_var = ''RATATOSKR__DATABASE__URL'',
       vl_rule = ''must be a postgres:// or postgresql:// URL'' \<rparr>"

definition vio_otlp_endpoint :: Violation where
  "vio_otlp_endpoint =
     \<lparr> vl_key = ''telemetry.otlp.endpoint'', vl_env_var = ''RATATOSKR__TELEMETRY__OTLP__ENDPOINT'',
       vl_rule = ''must be an http:// or https:// URL of an OTLP/gRPC collector'' \<rparr>"

definition vio_otlp_timeout_seconds :: Violation where
  "vio_otlp_timeout_seconds =
     \<lparr> vl_key = ''telemetry.otlp.timeout_seconds'', vl_env_var = ''RATATOSKR__TELEMETRY__OTLP__TIMEOUT_SECONDS'',
       vl_rule = ''must be 1..=60'' \<rparr>"

definition vio_otlp_headers_name :: Violation where
  "vio_otlp_headers_name =
     \<lparr> vl_key = ''telemetry.otlp.headers.<name>'', vl_env_var = ''RATATOSKR__TELEMETRY__OTLP__HEADERS__<NAME>'',
       vl_rule = ''each header name must be 1..=64 lowercase letters, digits or hyphens'' \<rparr>"

text \<open>Every rule there is.\<close>

definition VIOLATIONS :: "Violation list" where
  "VIOLATIONS =
     [vio_log_filter, vio_shutdown_drain_seconds, vio_shutdown_grace_seconds, vio_bus_url, vio_bus_url_database,
      vio_bus_nkey_seed_path, vio_bus_nkey_seed_path_required, vio_replica_endpoint, vio_replica_access_key,
      vio_replica_secret_access_key, vio_replica_connect_timeout_seconds, vio_replica_request_timeout_seconds,
      vio_replica_attempt_timeout_seconds, vio_replica_max_object_bytes, vio_replica_max_backlog_items,
      vio_replica_max_backlog_bytes, vio_replica_max_concurrent, vio_verification_scratch_root,
      vio_verification_verification_frequency_seconds, vio_verification_drill_frequency_seconds,
      vio_verification_sample_size, vio_verification_scratch_byte_budget, vio_verification_max_concurrent,
      vio_verification_per_drill_timeout_seconds, vio_verification_manifest_signing_seed,
      vio_verification_trusted_manifest_public_keys, vio_mirror_root, vio_mirror_work_root,
      vio_mirror_per_mirror_max_bytes, vio_mirror_global_max_bytes, vio_mirror_max_concurrent_operations,
      vio_lfs_binary, vio_lfs_stage_max_bytes, vio_lfs_max_objects, vio_lfs_operation_timeout_seconds,
      vio_database_max_connections, vio_database_acquire_timeout_seconds, vio_database_url, vio_otlp_endpoint,
      vio_otlp_timeout_seconds, vio_otlp_headers_name]"

subsection \<open>The startup rules\<close>

text \<open>The parsers of the libraries the rules call.\<close>

record config_env =
  ce_env_filter_ok :: "string \<Rightarrow> bool"
  ce_url_parse :: "string \<Rightarrow> Url option"
  ce_to_uppercase :: "string \<Rightarrow> string"

definition push_if :: "bool \<Rightarrow> Violation \<Rightarrow> Violation list" where
  "push_if broken v = (if broken then [v] else [])"

definition broker_ok :: "Url \<Rightarrow> bool" where
  "broker_ok u \<longleftrightarrow>
     url_scheme u \<in> {''nats'', ''tls''} \<and> url_host_str u \<noteq> None \<and> url_username u = '''' \<and> url_password u = None
     \<and> url_query u = None \<and> url_fragment u = None \<and> url_path u \<in> {'''', ''/''}"

definition bus_violations :: "config_env \<Rightarrow> VaultConfig \<Rightarrow> Violation list" where
  "bus_violations env c =
     (case cf_bus c of
        None \<Rightarrow> []
      | Some b \<Rightarrow>
          let parsed = ce_url_parse env (bc_url b);
              over_tls = (case parsed of None \<Rightarrow> False | Some u \<Rightarrow> url_scheme u = ''tls'')
          in push_if (\<not> (case parsed of None \<Rightarrow> False | Some u \<Rightarrow> broker_ok u)) vio_bus_url
             @ push_if (cf_database c = None) vio_bus_url_database
             @ (case bc_nkey_seed_path b of
                  Some path \<Rightarrow> push_if (\<not> is_absolute path) vio_bus_nkey_seed_path
                | None \<Rightarrow> push_if over_tls vio_bus_nkey_seed_path_required))"

definition replica_positive :: "nat \<Rightarrow> Violation \<Rightarrow> Violation list" where
  "replica_positive v violation = push_if (v = 0) violation"

definition loopback_http :: "Url \<Rightarrow> bool" where
  "loopback_http u \<longleftrightarrow>
     url_scheme u = ''http''
     \<and> (case url_host_str u of
          None \<Rightarrow> False
        | Some host \<Rightarrow> host = ''localhost'' \<or> (case IpAddr_parse host of None \<Rightarrow> False | Some ip \<Rightarrow> is_loopback ip))"

definition endpoint_is_origin :: "Url \<Rightarrow> bool" where
  "endpoint_is_origin u \<longleftrightarrow>
     url_username u = '''' \<and> url_password u = None \<and> url_query u = None \<and> url_fragment u = None \<and> url_path u = ''/''"

definition replica_target_violations :: "ReplicaTargetConfig \<Rightarrow> Violation list" where
  "replica_target_violations t =
     push_if (url_scheme (rt_endpoint t) \<noteq> ''https'' \<and> \<not> loopback_http (rt_endpoint t) \<or> \<not> endpoint_is_origin (rt_endpoint t))
       vio_replica_endpoint
     @ push_if (rt_access_key t = '''') vio_replica_access_key
     @ push_if (rt_secret_access_key t = '''') vio_replica_secret_access_key
     @ replica_positive (unat (rt_connect_timeout_seconds t)) vio_replica_connect_timeout_seconds
     @ replica_positive (unat (rt_request_timeout_seconds t)) vio_replica_request_timeout_seconds
     @ replica_positive (unat (rt_attempt_timeout_seconds t)) vio_replica_attempt_timeout_seconds
     @ replica_positive (unat (rt_max_object_bytes t)) vio_replica_max_object_bytes
     @ replica_positive (unat (rt_max_backlog_items t)) vio_replica_max_backlog_items
     @ replica_positive (unat (rt_max_backlog_bytes t)) vio_replica_max_backlog_bytes
     @ push_if (\<not> (1 \<le> rt_max_concurrent t \<and> rt_max_concurrent t \<le> 4)) vio_replica_max_concurrent"

definition replica_violations :: "VaultConfig \<Rightarrow> Violation list" where
  "replica_violations c =
     (case cf_replicas c of
        None \<Rightarrow> []
      | Some r \<Rightarrow> concat (map replica_target_violations (filter rt_enabled (map snd (rc_targets r)))))"

definition config_paths_overlap :: "string \<Rightarrow> string \<Rightarrow> bool" where
  "config_paths_overlap left right \<longleftrightarrow> path_starts_with left right \<or> path_starts_with right left"

definition is_lower_hex :: "string \<Rightarrow> nat \<Rightarrow> bool" where
  "is_lower_hex v expected_length \<longleftrightarrow>
     length v = expected_length \<and> list_all (\<lambda>byte. is_ascii_digit byte \<or> CHR ''a'' \<le> byte \<and> byte \<le> CHR ''f'') v"

definition verification_violations :: "VaultConfig \<Rightarrow> Violation list" where
  "verification_violations c =
     (case cf_verification c of
        None \<Rightarrow> []
      | Some v \<Rightarrow>
          let scratch_overlaps_live_storage =
                (case cf_mirror c of
                   None \<Rightarrow> True
                 | Some m \<Rightarrow> config_paths_overlap (vc_scratch_root v) (mc_root m) \<or> config_paths_overlap (vc_scratch_root v) (mc_work_root m))
          in push_if (\<not> is_absolute (vc_scratch_root v) \<or> scratch_overlaps_live_storage) vio_verification_scratch_root
             @ push_if (vc_verification_frequency_seconds v = 0) vio_verification_verification_frequency_seconds
             @ push_if (vc_drill_frequency_seconds v = 0) vio_verification_drill_frequency_seconds
             @ push_if (vc_sample_size v = 0) vio_verification_sample_size
             @ push_if (vc_scratch_byte_budget v = 0) vio_verification_scratch_byte_budget
             @ push_if (\<not> (1 \<le> vc_max_concurrent v \<and> vc_max_concurrent v \<le> 4)) vio_verification_max_concurrent
             @ push_if (vc_per_drill_timeout_seconds v = 0) vio_verification_per_drill_timeout_seconds
             @ push_if (\<not> is_lower_hex (vc_manifest_signing_seed v) 64) vio_verification_manifest_signing_seed
             @ push_if (vc_trusted_manifest_public_keys v = []
                 \<or> list_ex (\<lambda>(ident, public). \<not> is_lower_hex ident 64 \<or> \<not> is_lower_hex public 64) (vc_trusted_manifest_public_keys v))
                 vio_verification_trusted_manifest_public_keys)"

text \<open>Paths are equal when their components are.\<close>

definition mirror_violations :: "VaultConfig \<Rightarrow> Violation list" where
  "mirror_violations c =
     (case cf_mirror c of
        None \<Rightarrow> []
      | Some m \<Rightarrow>
          push_if (\<not> is_absolute (mc_root m)) vio_mirror_root
          @ push_if (\<not> is_absolute (mc_work_root m) \<or> path_components (mc_work_root m) = path_components (mc_root m)) vio_mirror_work_root
          @ push_if (mc_per_mirror_max_bytes m = 0) vio_mirror_per_mirror_max_bytes
          @ push_if (mc_global_max_bytes m = 0) vio_mirror_global_max_bytes
          @ push_if (mc_max_concurrent_operations m \<noteq> 4) vio_mirror_max_concurrent_operations)"

definition lfs_violations :: "VaultConfig \<Rightarrow> Violation list" where
  "lfs_violations c =
     (case cf_lfs c of
        None \<Rightarrow> []
      | Some l \<Rightarrow>
          let stage_is_bounded =
                (case cf_mirror c of
                   None \<Rightarrow> False
                 | Some m \<Rightarrow> 0 < lc_stage_max_bytes l \<and> lc_stage_max_bytes l \<le> mc_per_mirror_max_bytes m
                     \<and> lc_stage_max_bytes l \<le> mc_global_max_bytes m)
          in push_if (\<not> is_absolute (lc_binary l)) vio_lfs_binary
             @ push_if (\<not> stage_is_bounded) vio_lfs_stage_max_bytes
             @ push_if (lc_max_objects l = 0) vio_lfs_max_objects
             @ push_if (lc_operation_timeout_seconds l = 0) vio_lfs_operation_timeout_seconds)"

definition database_violations :: "VaultConfig \<Rightarrow> Violation list" where
  "database_violations c =
     (case cf_database c of
        None \<Rightarrow> []
      | Some d \<Rightarrow>
          push_if (\<not> (1 \<le> dc_max_connections d \<and> dc_max_connections d \<le> 100)) vio_database_max_connections
          @ push_if (\<not> (1 \<le> dc_acquire_timeout_seconds d \<and> dc_acquire_timeout_seconds d \<le> 30)) vio_database_acquire_timeout_seconds
          @ push_if (\<not> (starts_with (dc_url d) ''postgres://'' \<or> starts_with (dc_url d) ''postgresql://'')) vio_database_url)"

definition is_header_name :: "string \<Rightarrow> bool" where
  "is_header_name name \<longleftrightarrow>
     1 \<le> length name \<and> length name \<le> 64
     \<and> list_all (\<lambda>b. CHR ''a'' \<le> b \<and> b \<le> CHR ''z'' \<or> is_ascii_digit b \<or> b = CHR ''-'') name"

definition otlp_violations :: "VaultConfig \<Rightarrow> Violation list" where
  "otlp_violations c =
     (case tc_otlp (cf_telemetry c) of
        None \<Rightarrow> []
      | Some otlp \<Rightarrow>
          push_if (url_scheme (oc_endpoint otlp) \<notin> {''http'', ''https''}) vio_otlp_endpoint
          @ push_if (\<not> (1 \<le> oc_timeout_seconds otlp \<and> oc_timeout_seconds otlp \<le> 60)) vio_otlp_timeout_seconds
          @ concat (map (\<lambda>(name, _). push_if (\<not> is_header_name name) vio_otlp_headers_name) (oc_headers otlp)))"

definition validate :: "config_env \<Rightarrow> VaultConfig \<Rightarrow> Violation list" where
  "validate env c =
     (let drain = sc_drain_seconds (cf_shutdown c);
          grace = sc_grace_seconds (cf_shutdown c)
      in push_if (\<not> ce_env_filter_ok env (tc_log_filter (cf_telemetry c))) vio_log_filter
         @ push_if (60 < drain) vio_shutdown_drain_seconds
         @ push_if (\<not> (1 \<le> grace \<and> grace \<le> SHUTDOWN_CEILING_SECONDS) \<or> SHUTDOWN_CEILING_SECONDS < saturating_add drain grace)
             vio_shutdown_grace_seconds
         @ database_violations c @ otlp_violations c @ mirror_violations c @ lfs_violations c
         @ verification_violations c @ replica_violations c @ bus_violations env c)"

subsection \<open>The report\<close>

text \<open>One problem of an extraction, as \<open>figment\<close> describes it; an error is a chain of them.\<close>

datatype FigmentKind = MissingField string | UnknownField string "string list" | OtherKind

record FigmentError =
  fe_path :: "string list"
  fe_kind :: FigmentKind

fun join_dots :: "string list \<Rightarrow> string" where
  "join_dots [] = ''''"
| "join_dots [s] = s"
| "join_dots (s # rest) = s @ ''.'' @ join_dots rest"

definition key_of :: "FigmentError \<Rightarrow> string" where
  "key_of e =
     (let path = join_dots (fe_path e)
      in case fe_kind e of
           MissingField name \<Rightarrow> if path = '''' then name else path @ ''.'' @ name
         | UnknownField name _ \<Rightarrow> if path \<noteq> '''' then path else name
         | OtherKind \<Rightarrow> if path \<noteq> '''' then path else ''(the provider did not report a key)'')"

definition env_var_of :: "config_env \<Rightarrow> string \<Rightarrow> string" where
  "env_var_of env key =
     ''RATATOSKR__'' @ ce_to_uppercase env (concat (map (\<lambda>c. if c = CHR ''.'' then ''__'' else [c]) key))"

fun reason_of :: "FigmentKind \<Rightarrow> string" where
  "reason_of (UnknownField _ _) = ''is not a configuration key of this process''"
| "reason_of (MissingField _) = ''is required and was not supplied''"
| "reason_of OtherKind = ''could not be read as the type of this field''"

definition report_block :: "string \<Rightarrow> string \<Rightarrow> string \<Rightarrow> string" where
  "report_block key env_var rule = ''  '' @ key @ ''\<newline>      '' @ env_var @ ''\<newline>      '' @ rule @ ''\<newline>\<newline>''"

definition push_footer :: "string \<Rightarrow> string" where
  "push_footer out =
     out @ ''Supplied values are never echoed.\<newline>Validate without starting: ratatoskr-vault check-config\<newline>''"

definition report_invalid :: "Violation list \<Rightarrow> string" where
  "report_invalid violations =
     push_footer (''ratatoskr-vault: refusing to start; '' @ decimal (length violations) @ '' configuration problem''
       @ (if length violations = 1 then '''' else ''s'') @ ''.\<newline>\<newline>''
       @ concat (map (\<lambda>v. report_block (vl_key v) (vl_env_var v) (vl_rule v)) violations))"

definition report_unreadable :: "config_env \<Rightarrow> FigmentError list \<Rightarrow> string" where
  "report_unreadable env problems =
     push_footer (''ratatoskr-vault: refusing to start; the configuration could not be read.\<newline>\<newline>''
       @ concat (map (\<lambda>p. report_block (key_of p) (env_var_of env (key_of p)) (reason_of (fe_kind p))) problems))"

subsection \<open>Loading\<close>

datatype ConfigError = ConfigSource "FigmentError list" | ConfigInvalid "Violation list"

text \<open>\<open>extracted\<close> is what \<open>figment.extract()\<close> returns.\<close>

definition load_from :: "config_env \<Rightarrow> (FigmentError list, VaultConfig) result \<Rightarrow> (ConfigError, VaultConfig) result" where
  "load_from env extracted =
     (case extracted of
        Inl problems \<Rightarrow> Inl (ConfigSource problems)
      | Inr c \<Rightarrow> let violations = validate env c in if violations = [] then Inr c else Inl (ConfigInvalid violations))"

fun report :: "config_env \<Rightarrow> ConfigError \<Rightarrow> string" where
  "report env (ConfigSource problems) = report_unreadable env problems"
| "report env (ConfigInvalid violations) = report_invalid violations"

definition config_exit_code :: "ConfigError \<Rightarrow> u8" where
  "config_exit_code e = 78"

subsection \<open>Keys that pass validation decode\<close>

lemma key_hex_value_iff: "key_hex_value ch \<noteq> None \<longleftrightarrow> is_ascii_digit ch \<or> CHR ''a'' \<le> ch \<and> ch \<le> CHR ''f''"
  by (auto simp: key_hex_value_def is_ascii_digit_def)

lemma key_hex_value_eq: "key_hex_value ch = hex_value ch"
proof -
  have "(48::nat) \<le> of_char ch" if "CHR ''0'' \<le> ch" using that by (simp add: less_eq_char_def)
  moreover have "(97::nat) \<le> of_char ch" if "CHR ''a'' \<le> ch" using that by (simp add: less_eq_char_def)
  ultimately show ?thesis by (auto simp: key_hex_value_def hex_value_def of_nat_diff)
qed

lemma key_byte:
  assumes "key_hex_value h = Some high" and "key_hex_value l = Some low"
  shows "hex_byte (or (push_bit 4 high) low) = [h, l]"
proof -
  have h: "unat high < 16" "hex_digit (unat high) = h" and l: "unat low < 16" "hex_digit (unat low) = l"
    using assms hex_value_Some by (auto simp: key_hex_value_eq)
  have "unat (or (push_bit 4 high) low) = 16 * unat high + unat low" using unat_nibbles [OF h(1) l(1)] by simp
  then show ?thesis using h l by (simp add: hex_byte_def)
qed

text \<open>Decoding a key loses nothing: the decoded bytes print as the configured text.\<close>

lemma decode_key_pairs_ok:
  assumes "list_all (\<lambda>byte. is_ascii_digit byte \<or> CHR ''a'' \<le> byte \<and> byte \<le> CHR ''f'') s" and "even (length s)"
  shows "\<exists>bytes. decode_key_pairs s = Inr bytes \<and> encode_hex bytes = s"
  using assms
proof (induction s rule: decode_key_pairs.induct)
  case (1 h l rest)
  then obtain high low where digits: "key_hex_value h = Some high" "key_hex_value l = Some low"
    using key_hex_value_iff [of h] key_hex_value_iff [of l] by auto
  moreover from this 1 obtain bytes where "decode_key_pairs rest = Inr bytes" "encode_hex bytes = rest" by auto
  ultimately show ?case using key_byte [OF digits] by (simp add: encode_hex_Cons)
qed (auto simp: encode_hex_def)

lemma valid_key_decodes:
  assumes "is_lower_hex s 64"
  shows "\<exists>bytes. decode_key_hex s = Inr bytes \<and> length bytes = 32 \<and> encode_hex bytes = s"
proof -
  from assms have s: "length s = 64" by (simp add: is_lower_hex_def)
  with assms decode_key_pairs_ok [of s] obtain bytes where bytes: "decode_key_pairs s = Inr bytes" "encode_hex bytes = s"
    by (auto simp: is_lower_hex_def)
  from bytes(2) s have "length bytes = 32" using length_encode_hex [of bytes] by simp
  with bytes s show ?thesis by (simp add: decode_key_hex_def)
qed

lemma valid_keys_decode:
  assumes "\<not> list_ex (\<lambda>(ident, public). \<not> is_lower_hex ident 64 \<or> \<not> is_lower_hex public 64) entries"
  shows "\<exists>keys. trusted_keys_of entries = Inr keys \<and> map (\<lambda>k. (key_id k, encode_hex (public_key k))) keys = entries
    \<and> list_all (\<lambda>k. length (public_key k) = 32) keys"
  using assms
proof (induction entries)
  case (Cons entry entries)
  obtain ident encoded where entry: "entry = (ident, encoded)" by force
  with Cons.prems obtain bytes where "decode_key_hex encoded = Inr bytes" "length bytes = 32" "encode_hex bytes = encoded"
    using valid_key_decodes by auto
  with Cons entry show ?case by auto
qed simp

subsection \<open>Reading an accepted configuration\<close>

lemma push_if_Nil [simp]: "push_if broken v = [] \<longleftrightarrow> \<not> broken"
  by (simp add: push_if_def)

lemma push_if_set: "set (push_if broken v) \<subseteq> {v}"
  by (auto simp: push_if_def)

lemma load_from_ok:
  "load_from env extracted = Inr c \<longleftrightarrow> extracted = Inr c \<and> validate env c = []"
  by (auto simp: load_from_def Let_def split: sum.splits if_splits)

lemma accepted_sections:
  assumes "validate env c = []"
  shows "sc_drain_seconds (cf_shutdown c) \<le> 60 \<and> 1 \<le> sc_grace_seconds (cf_shutdown c) \<and> saturating_add (sc_drain_seconds (cf_shutdown c)) (sc_grace_seconds (cf_shutdown c)) \<le> 120"
    "database_violations c = []" "mirror_violations c = []" "lfs_violations c = []" "verification_violations c = []"
    "replica_violations c = []" "bus_violations env c = []"
  using assms by (auto simp: validate_def Let_def SHUTDOWN_CEILING_SECONDS_def)

lemma accepted_shutdown:
  assumes "validate env c = []"
  shows "1 \<le> unat (sc_grace_seconds (cf_shutdown c))
    \<and> unat (sc_drain_seconds (cf_shutdown c)) + unat (sc_grace_seconds (cf_shutdown c)) \<le> 120"
proof -
  note accepted = accepted_sections(1) [OF assms]
  then have "unat (saturating_add (sc_drain_seconds (cf_shutdown c)) (sc_grace_seconds (cf_shutdown c))) \<le> unat (120 :: u64)"
    using word_le_nat_alt by blast
  then have "min (unat (sc_drain_seconds (cf_shutdown c)) + unat (sc_grace_seconds (cf_shutdown c))) (2 ^ 64 - 1) \<le> 120"
    by (simp add: unat_saturating_add_u64)
  moreover have "1 \<le> unat (sc_grace_seconds (cf_shutdown c))" using accepted by (simp add: word_le_nat_alt)
  ultimately show ?thesis by auto
qed

lemma accepted_lfs:
  assumes "lfs_violations c = []" and "cf_lfs c = Some l"
  shows "\<exists>m. cf_mirror c = Some m \<and> 0 < lc_stage_max_bytes l \<and> lc_stage_max_bytes l \<le> mc_per_mirror_max_bytes m
    \<and> lc_stage_max_bytes l \<le> mc_global_max_bytes m"
  using assms by (auto simp: lfs_violations_def split: option.splits)

text \<open>Roots that do not overlap have no path in common.\<close>

lemma disjoint_roots: "\<not> config_paths_overlap left right \<Longrightarrow> \<not> (path_starts_with p left \<and> path_starts_with p right)"
  unfolding config_paths_overlap_def path_starts_with_def by (meson prefix_same_cases)

lemma accepted_verification:
  assumes "verification_violations c = []" and "cf_verification c = Some v"
  shows "\<exists>m. cf_mirror c = Some m \<and> (\<forall>p. path_starts_with p (vc_scratch_root v) \<longrightarrow>
        \<not> path_starts_with p (mc_root m) \<and> \<not> path_starts_with p (mc_work_root m))"
    and "\<exists>seed. length seed = 32 \<and> encode_hex seed = vc_manifest_signing_seed v
        \<and> manifest_signing_key key_pair v = ManifestSigningKey_from_seed key_pair seed"
    and "\<exists>keys. trusted_manifest_keys v = Inr keys \<and> keys \<noteq> [] \<and> list_all (\<lambda>k. length (public_key k) = 32) keys
        \<and> map (\<lambda>k. (key_id k, encode_hex (public_key k))) keys = vc_trusted_manifest_public_keys v"
proof -
  from assms have seed: "is_lower_hex (vc_manifest_signing_seed v) 64"
    and keys: "vc_trusted_manifest_public_keys v \<noteq> []"
      "\<not> list_ex (\<lambda>(ident, public). \<not> is_lower_hex ident 64 \<or> \<not> is_lower_hex public 64) (vc_trusted_manifest_public_keys v)"
    by (simp_all add: verification_violations_def Let_def)
  have "\<exists>m. cf_mirror c = Some m \<and> \<not> config_paths_overlap (vc_scratch_root v) (mc_root m)
      \<and> \<not> config_paths_overlap (vc_scratch_root v) (mc_work_root m)"
    using assms by (simp add: verification_violations_def Let_def split: option.splits)
  then show "\<exists>m. cf_mirror c = Some m \<and> (\<forall>p. path_starts_with p (vc_scratch_root v) \<longrightarrow>
        \<not> path_starts_with p (mc_root m) \<and> \<not> path_starts_with p (mc_work_root m))"
    using disjoint_roots by blast
  show "\<exists>seed. length seed = 32 \<and> encode_hex seed = vc_manifest_signing_seed v
      \<and> manifest_signing_key key_pair v = ManifestSigningKey_from_seed key_pair seed"
    using valid_key_decodes [OF seed] by (auto simp: manifest_signing_key_def)
  show "\<exists>keys. trusted_manifest_keys v = Inr keys \<and> keys \<noteq> [] \<and> list_all (\<lambda>k. length (public_key k) = 32) keys
      \<and> map (\<lambda>k. (key_id k, encode_hex (public_key k))) keys = vc_trusted_manifest_public_keys v"
    using valid_keys_decode [OF keys(2)] keys(1) unfolding trusted_manifest_keys_def by fastforce
qed

text \<open>
  C29. What a loaded configuration guarantees. The stop takes at least one and at most 120 seconds, although
  the sum is taken in 64 bits. LFS staging is bounded by both storage budgets of the mirrors. No path lies
  both below the drill's scratch root and below the mirror or the work root. The signing seed decodes to 32
  bytes which print as the configured text, so the process signs with the configured key or refuses for the
  key pair's sake only; every trusted key, in order and under its identifier, decodes to 32 bytes which print
  as configured, and there is at least one. A bus comes with a database.
\<close>

theorem accepted_configuration_is_sound:
  assumes "load_from env extracted = Inr c"
  shows "1 \<le> unat (sc_grace_seconds (cf_shutdown c))
      \<and> unat (sc_drain_seconds (cf_shutdown c)) + unat (sc_grace_seconds (cf_shutdown c)) \<le> 120
    \<and> (\<forall>l. cf_lfs c = Some l \<longrightarrow> (\<exists>m. cf_mirror c = Some m \<and> 0 < lc_stage_max_bytes l
          \<and> lc_stage_max_bytes l \<le> mc_per_mirror_max_bytes m \<and> lc_stage_max_bytes l \<le> mc_global_max_bytes m))
    \<and> (\<forall>v. cf_verification c = Some v \<longrightarrow>
          (\<exists>m. cf_mirror c = Some m \<and> (\<forall>p. path_starts_with p (vc_scratch_root v) \<longrightarrow>
             \<not> path_starts_with p (mc_root m) \<and> \<not> path_starts_with p (mc_work_root m)))
          \<and> (\<exists>seed. length seed = 32 \<and> encode_hex seed = vc_manifest_signing_seed v
               \<and> manifest_signing_key key_pair v = ManifestSigningKey_from_seed key_pair seed)
          \<and> (\<exists>keys. trusted_manifest_keys v = Inr keys \<and> keys \<noteq> [] \<and> list_all (\<lambda>k. length (public_key k) = 32) keys
               \<and> map (\<lambda>k. (key_id k, encode_hex (public_key k))) keys = vc_trusted_manifest_public_keys v))
    \<and> (cf_bus c \<noteq> None \<longrightarrow> cf_database c \<noteq> None)"
proof -
  from assms have valid: "validate env c = []" by (simp add: load_from_ok)
  note sections = accepted_sections [OF valid]
  have "cf_bus c \<noteq> None \<longrightarrow> cf_database c \<noteq> None"
    using sections(7) by (auto simp: bus_violations_def Let_def split: option.splits)
  with accepted_shutdown [OF valid] accepted_lfs [OF sections(4)] accepted_verification [OF sections(5)]
  show ?thesis by blast
qed

subsection \<open>Refusals\<close>

lemma validate_static: "set (validate env c) \<subseteq> set VIOLATIONS"
proof -
  have in_rules: "v \<in> set VIOLATIONS \<Longrightarrow> set (push_if broken v) \<subseteq> set VIOLATIONS" for broken v
    using push_if_set [of broken v] by blast
  have "set (replica_target_violations t) \<subseteq> set VIOLATIONS" for t
    unfolding replica_target_violations_def replica_positive_def set_append
    by (intro Un_least in_rules) (simp_all add: VIOLATIONS_def)
  then have "set (replica_violations c) \<subseteq> set VIOLATIONS"
    by (auto simp: replica_violations_def split: option.splits)
  moreover have "set (database_violations c) \<subseteq> set VIOLATIONS"
    unfolding database_violations_def
    by (cases "cf_database c") (simp, simp only: option.case set_append, intro Un_least in_rules, simp_all add: VIOLATIONS_def)
  moreover have "set (mirror_violations c) \<subseteq> set VIOLATIONS"
    unfolding mirror_violations_def
    by (cases "cf_mirror c") (simp, simp only: option.case set_append, intro Un_least in_rules, simp_all add: VIOLATIONS_def)
  moreover have "set (lfs_violations c) \<subseteq> set VIOLATIONS"
    unfolding lfs_violations_def Let_def
    by (cases "cf_lfs c") (simp, simp only: option.case set_append, intro Un_least in_rules, simp_all add: VIOLATIONS_def)
  moreover have "set (verification_violations c) \<subseteq> set VIOLATIONS"
    unfolding verification_violations_def Let_def
    by (cases "cf_verification c") (simp, simp only: option.case set_append, intro Un_least in_rules, simp_all add: VIOLATIONS_def)
  moreover have "set (otlp_violations c) \<subseteq> set VIOLATIONS"
    unfolding otlp_violations_def
    by (auto simp: push_if_def VIOLATIONS_def split: option.splits if_splits)
  moreover have "set (bus_violations env c) \<subseteq> set VIOLATIONS"
    unfolding bus_violations_def Let_def
    by (auto simp: push_if_def VIOLATIONS_def split: option.splits if_splits)
  ultimately show ?thesis
    unfolding validate_def Let_def set_append by (intro Un_least in_rules) (simp_all add: VIOLATIONS_def)
qed

lemma block_in_report:
  "p \<in> set ps \<Longrightarrow> contains (push_footer (header @ concat (map f ps))) (f p)"
  by (auto simp: contains_def push_footer_def sublist_def dest!: split_list) (metis append.assoc)

lemma violation_in_report:
  "v \<in> set found \<Longrightarrow> contains (report_invalid found) (report_block (vl_key v) (vl_env_var v) (vl_rule v))"
  unfolding report_invalid_def append.assoc [symmetric]
  by (rule block_in_report [where f = "\<lambda>v. report_block (vl_key v) (vl_env_var v) (vl_rule v)"])

lemma problem_in_report:
  "p \<in> set problems \<Longrightarrow>
     contains (report_unreadable env problems) (report_block (key_of p) (env_var_of env (key_of p)) (reason_of (fe_kind p)))"
  unfolding report_unreadable_def
  by (rule block_in_report [where f = "\<lambda>p. report_block (key_of p) (env_var_of env (key_of p)) (reason_of (fe_kind p))"])

text \<open>
  A refusal names every problem and quotes no value: a configuration that was read is refused exactly when
  a startup rule is broken, every broken rule has its block of key, variable and rule in the report, each of
  them is one of the fixed texts of the rules and the report is a function of the broken rules alone; an
  unreadable configuration is refused with a block for each problem that names its key.
\<close>

theorem refusal_names_every_problem:
  "(case load_from env extracted of
      Inr c \<Rightarrow> extracted = Inr c \<and> validate env c = []
    | Inl (ConfigInvalid found) \<Rightarrow>
        (\<exists>c. extracted = Inr c \<and> found = validate env c) \<and> found \<noteq> [] \<and> set found \<subseteq> set VIOLATIONS
        \<and> report env (ConfigInvalid found) = report_invalid found
        \<and> list_all (\<lambda>v. contains (report_invalid found) (report_block (vl_key v) (vl_env_var v) (vl_rule v))) found
    | Inl (ConfigSource problems) \<Rightarrow>
        extracted = Inl problems
        \<and> list_all (\<lambda>p. contains (report env (ConfigSource problems))
             (report_block (key_of p) (env_var_of env (key_of p)) (reason_of (fe_kind p)))) problems)"
  using validate_static violation_in_report problem_in_report
  by (auto simp: load_from_def Let_def list_all_iff split: sum.splits)

subsection \<open>A complete configuration\<close>

definition example_config_env :: config_env where
  "example_config_env =
     \<lparr> ce_env_filter_ok = (\<lambda>filter_text. filter_text = ''info''),
       ce_url_parse = (\<lambda>text. if text = ''nats://127.0.0.1:4222''
         then Some \<lparr> url_scheme = ''nats'', url_host_str = Some ''127.0.0.1'', url_username = '''', url_password = None, url_query = None,
                     url_fragment = None, url_path = '''' \<rparr> else None),
       ce_to_uppercase = id \<rparr>"

definition example_config :: VaultConfig where
  "example_config = VaultConfig_defaults
     \<lparr>cf_database := Some \<lparr> dc_url = ''postgres://localhost/vault'', dc_max_connections = 10, dc_acquire_timeout_seconds = 5 \<rparr>,
      cf_mirror := Some \<lparr> mc_root = ''/vault'', mc_work_root = ''/work'', mc_per_mirror_max_bytes = 100, mc_global_max_bytes = 150,
                         mc_max_concurrent_operations = 4 \<rparr>,
      cf_lfs := Some \<lparr> lc_binary = ''/usr/bin/git-lfs'', lc_stage_max_bytes = 50, lc_max_objects = 10, lc_operation_timeout_seconds = 60 \<rparr>,
      cf_verification := Some
        \<lparr> vc_scratch_root = ''/scratch'', vc_verification_frequency_seconds = 100, vc_drill_frequency_seconds = 200, vc_sample_size = 3,
          vc_scratch_byte_budget = 1000, vc_max_concurrent = 2, vc_per_drill_timeout_seconds = 60,
          vc_manifest_signing_seed = replicate 64 CHR ''a'',
          vc_trusted_manifest_public_keys = [(replicate 64 CHR ''0'', replicate 64 CHR ''b'')] \<rparr>,
      cf_replicas := Some \<lparr> rc_targets = [(''offsite'',
        \<lparr> rt_endpoint = \<lparr> url_scheme = ''http'', url_host_str = Some ''127.0.0.1'', url_username = '''', url_password = None, url_query = None,
                         url_fragment = None, url_path = ''/'' \<rparr>,
          rt_bucket = ''b'', rt_region = ''r'', rt_key_prefix = '''', rt_enabled = True, rt_required = True, rt_access_key = ''k'',
          rt_secret_access_key = ''s'', rt_session_token = None, rt_connect_timeout_seconds = 1, rt_request_timeout_seconds = 1,
          rt_attempt_timeout_seconds = 1, rt_max_object_bytes = 1, rt_max_backlog_items = 1, rt_max_backlog_bytes = 1,
          rt_max_concurrent = 4 \<rparr>)] \<rparr>,
      cf_bus := Some \<lparr> bc_url = ''nats://127.0.0.1:4222'', bc_nkey_seed_path = None \<rparr>\<rparr>"

lemma example_config_accepted: "validate example_config_env example_config = []"
  by code_simp

theorem accepted_configuration_is_sound_witness:
  "\<exists>v keys. cf_verification example_config = Some v \<and> trusted_manifest_keys v = Inr keys \<and> keys \<noteq> []
     \<and> map (\<lambda>k. encode_hex (public_key k)) keys = map snd (vc_trusted_manifest_public_keys v)"
proof -
  have loaded: "load_from example_config_env (Inr example_config) = Inr example_config"
    by (simp add: load_from_ok example_config_accepted)
  obtain v where v: "cf_verification example_config = Some v" by (simp add: example_config_def)
  with accepted_configuration_is_sound [OF loaded] obtain keys where "trusted_manifest_keys v = Inr keys" "keys \<noteq> []"
    "map (\<lambda>k. (key_id k, encode_hex (public_key k))) keys = vc_trusted_manifest_public_keys v" by metis
  moreover from this(3) have "map (\<lambda>k. encode_hex (public_key k)) keys = map snd (vc_trusted_manifest_public_keys v)"
    by (auto simp: comp_def dest!: arg_cong [where f = "map snd"])
  ultimately show ?thesis using v by blast
qed

lemma ipv4_addresses:
  "IpAddr_parse ''127.0.0.1'' = Some (V4 [127, 0, 0, 1])" "read_ipv4_addr ''127.0.0.01'' = None" "read_ipv4_addr ''256.0.0.1'' = None"
  by code_simp+

end
