(* ===== verification/Process_Lifecycle.thy ===== *)
theory Process_Lifecycle
  imports Configuration Policy_Lane
begin

text \<open>
  The process around the workers: the facts readiness is computed from (\<open>crates/http/src/lifecycle.rs\<close>), the
  readiness answer (\<open>admin.rs\<close>), supervision (\<open>supervise.rs\<close>), the stop sequence (\<open>shutdown.rs\<close>), the whole
  life of a process (\<open>lib.rs\<close>, \<open>services/vault/src/main.rs\<close>), and the start and the consumer loop of the policy
  lane (\<open>policy_bus/mod.rs\<close>, \<open>connection.rs\<close>, \<open>consumer.rs\<close>). What the listeners, the broker, the database and
  the clock do are parameters; times are in milliseconds from the signal. Logging, the metrics page and the
  version page are not modelled.
\<close>

subsection \<open>Readiness\<close>

definition DATABASE_ABSENT :: u8 where "DATABASE_ABSENT = 0"
definition DATABASE_UP :: u8 where "DATABASE_UP = 1"
definition DATABASE_DOWN :: u8 where "DATABASE_DOWN = 2"
definition BUS_ABSENT :: u8 where "BUS_ABSENT = 0"
definition BUS_UP :: u8 where "BUS_UP = 1"
definition BUS_DOWN :: u8 where "BUS_DOWN = 2"
definition PUBLISH_ABSENT :: u8 where "PUBLISH_ABSENT = 0"
definition PUBLISH_HEALTHY :: u8 where "PUBLISH_HEALTHY = 1"
definition PUBLISH_FAILING :: u8 where "PUBLISH_FAILING = 2"

lemmas probe_states = DATABASE_ABSENT_def DATABASE_UP_def DATABASE_DOWN_def BUS_ABSENT_def BUS_UP_def BUS_DOWN_def
  PUBLISH_ABSENT_def PUBLISH_HEALTHY_def PUBLISH_FAILING_def

record RuntimeState =
  rs_startup_complete :: bool
  rs_draining :: bool
  rs_database :: u8
  rs_bus :: u8
  rs_bus_publish :: u8

definition RuntimeState_new :: RuntimeState where
  "RuntimeState_new =
     \<lparr> rs_startup_complete = False, rs_draining = False, rs_database = DATABASE_ABSENT, rs_bus = BUS_ABSENT,
       rs_bus_publish = PUBLISH_ABSENT \<rparr>"

definition mark_startup_complete :: "RuntimeState \<Rightarrow> RuntimeState" where
  "mark_startup_complete s = s\<lparr>rs_startup_complete := True\<rparr>"

definition set_database_reachable :: "bool \<Rightarrow> RuntimeState \<Rightarrow> RuntimeState" where
  "set_database_reachable reachable s = s\<lparr>rs_database := if reachable then DATABASE_UP else DATABASE_DOWN\<rparr>"

definition database_reachable :: "RuntimeState \<Rightarrow> bool option" where
  "database_reachable s = (if rs_database s = DATABASE_ABSENT then None else Some (rs_database s = DATABASE_UP))"

definition set_bus_connected :: "bool \<Rightarrow> RuntimeState \<Rightarrow> RuntimeState" where
  "set_bus_connected connected s = s\<lparr>rs_bus := if connected then BUS_UP else BUS_DOWN\<rparr>"

definition bus_connected :: "RuntimeState \<Rightarrow> bool option" where
  "bus_connected s = (if rs_bus s = BUS_ABSENT then None else Some (rs_bus s = BUS_UP))"

definition set_bus_publish_healthy :: "bool \<Rightarrow> RuntimeState \<Rightarrow> RuntimeState" where
  "set_bus_publish_healthy healthy s = s\<lparr>rs_bus_publish := if healthy then PUBLISH_HEALTHY else PUBLISH_FAILING\<rparr>"

definition bus_publish_healthy :: "RuntimeState \<Rightarrow> bool option" where
  "bus_publish_healthy s = (if rs_bus_publish s = PUBLISH_ABSENT then None else Some (rs_bus_publish s = PUBLISH_HEALTHY))"

definition begin_draining :: "RuntimeState \<Rightarrow> RuntimeState" where
  "begin_draining s = s\<lparr>rs_draining := True\<rparr>"

datatype CheckName = CheckBus | CheckBusPublish | CheckDatabase | CheckDrain | CheckStartup

text \<open>The derived order is the order of declaration.\<close>

fun CheckName_rank :: "CheckName \<Rightarrow> nat" where
  "CheckName_rank CheckBus = 0"
| "CheckName_rank CheckBusPublish = 1"
| "CheckName_rank CheckDatabase = 2"
| "CheckName_rank CheckDrain = 3"
| "CheckName_rank CheckStartup = 4"

lemma CheckName_rank_inject: "CheckName_rank x = CheckName_rank y \<Longrightarrow> x = y"
  by (cases x; cases y) simp_all

instantiation CheckName :: linorder
begin

definition less_eq_CheckName :: "CheckName \<Rightarrow> CheckName \<Rightarrow> bool" where
  "less_eq_CheckName x y \<longleftrightarrow> CheckName_rank x \<le> CheckName_rank y"

definition less_CheckName :: "CheckName \<Rightarrow> CheckName \<Rightarrow> bool" where
  "less_CheckName x y \<longleftrightarrow> CheckName_rank x < CheckName_rank y"

instance
  by standard (auto simp: less_eq_CheckName_def less_CheckName_def intro: CheckName_rank_inject)

end

datatype CheckState = Pass | Fail

definition CheckState_from_pass :: "bool \<Rightarrow> CheckState" where
  "CheckState_from_pass pass = (if pass then Pass else Fail)"

datatype CheckReason = StartupIncomplete | ShutdownRequested | DependencyUnavailable | PublishFailing

record Check =
  ck_name :: CheckName
  ck_state :: CheckState
  ck_reason :: "CheckReason option"

definition check_of :: "CheckName \<Rightarrow> bool \<Rightarrow> CheckReason \<Rightarrow> Check" where
  "check_of name pass why =
     \<lparr> ck_name = name, ck_state = CheckState_from_pass pass, ck_reason = (if pass then None else Some why) \<rparr>"

definition insert_reported :: "CheckName \<times> bool option \<times> CheckReason \<Rightarrow> Check list \<Rightarrow> Check list" where
  "insert_reported reported found =
     (case reported of (name, None, why) \<Rightarrow> found | (name, Some up, why) \<Rightarrow> check_of name up why # found)"

definition checks :: "RuntimeState \<Rightarrow> Check list" where
  "checks s =
     fold insert_reported
       [(CheckDatabase, database_reachable s, DependencyUnavailable),
        (CheckBusPublish, bus_publish_healthy s, PublishFailing),
        (CheckBus, bus_connected s, DependencyUnavailable)]
       [check_of CheckDrain (\<not> rs_draining s) ShutdownRequested, check_of CheckStartup (rs_startup_complete s) StartupIncomplete]"

definition is_ready :: "RuntimeState \<Rightarrow> bool" where
  "is_ready s = list_all (\<lambda>c. ck_state c = Pass) (checks s)"

record Readiness =
  rd_status :: nat
  rd_state :: string
  rd_checks :: "Check list"

definition ready_answer :: "RuntimeState \<Rightarrow> Readiness" where
  "ready_answer s =
     \<lparr> rd_status = (if is_ready s then 200 else 503), rd_state = (if is_ready s then ''ready'' else ''not_ready''),
       rd_checks = checks s \<rparr>"

subsection \<open>Supervision and the stop sequence\<close>

datatype StopReason = Signal | TaskExited

text \<open>\<open>wait_for_stop\<close> at one poll: the signal is polled first, then the tasks in order.\<close>

definition wait_for_stop :: "bool \<Rightarrow> bool list \<Rightarrow> StopReason option" where
  "wait_for_stop signalled finished =
     (if signalled then Some Signal else if list_ex id finished then Some TaskExited else None)"

record ShutdownOutcome =
  so_graceful :: bool
  so_interrupted :: bool

text \<open>
  When the second signal arrives, how long the servers need once they stop accepting, and which branch of
  the first and of the second \<open>select!\<close> wins when both are ready.
\<close>

record stop_world =
  sw_interrupt_at :: "nat option"
  sw_finish_after :: "nat option"
  sw_prefers_interrupt :: "nat \<Rightarrow> bool"

definition interrupt_wins :: "stop_world \<Rightarrow> nat \<Rightarrow> nat \<Rightarrow> bool" where
  "interrupt_wins sw k limit =
     (case sw_interrupt_at sw of
        None \<Rightarrow> False
      | Some t \<Rightarrow> t < limit \<or> t = limit \<and> sw_prefers_interrupt sw k)"

text \<open>\<open>timeout\<close> polls the tasks before the timer.\<close>

definition grace_window :: "stop_world \<Rightarrow> nat \<Rightarrow> bool \<times> nat" where
  "grace_window sw window =
     (case sw_finish_after sw of
        None \<Rightarrow> (False, window)
      | Some f \<Rightarrow> if f \<le> window then (True, f) else (False, window))"

text \<open>
  What the stop sequence does to the process, and when: it fails readiness, tells the servers to stop accepting,
  and aborts the tasks that are left. \<open>drain_and_close\<close> is the list of these acts in the order of the code, each
  with its time, the outcome, and the time at which the sequence returns.
\<close>

datatype stop_act = DrainingBegun | AcceptStopped | ServersAborted

definition drain_and_close :: "ShutdownConfig \<Rightarrow> stop_world \<Rightarrow> (nat \<times> stop_act) list \<times> ShutdownOutcome \<times> nat" where
  "drain_and_close config sw =
     (let drained = unat (sc_drain_seconds config) * 1000;
          window = unat (sc_grace_seconds config) * 1000;
          begun = [(0, DrainingBegun)];
          interrupted = interrupt_wins sw 0 drained;
          slept = (if interrupted then the (sw_interrupt_at sw) else drained);
          closing = begun @ [(slept, AcceptStopped)]
      in if interrupted
         then (closing @ [(slept, ServersAborted)], \<lparr> so_graceful = False, so_interrupted = True \<rparr>, slept)
         else (case grace_window sw window of
                 (closed, taken) \<Rightarrow>
                   if interrupt_wins sw 1 (drained + taken)
                   then (closing @ [(the (sw_interrupt_at sw), ServersAborted)],
                         \<lparr> so_graceful = False, so_interrupted = True \<rparr>, the (sw_interrupt_at sw))
                   else (closing, \<lparr> so_graceful = closed, so_interrupted = False \<rparr>, drained + taken)))"

text \<open>The facts of the process and whether it accepts requests, at a time after the signal.\<close>

fun apply_stop_act :: "stop_act \<Rightarrow> RuntimeState \<times> bool \<Rightarrow> RuntimeState \<times> bool" where
  "apply_stop_act DrainingBegun (s, accepting) = (begin_draining s, accepting)"
| "apply_stop_act AcceptStopped (s, accepting) = (s, False)"
| "apply_stop_act ServersAborted (s, accepting) = (s, accepting)"

definition stopping_at :: "(nat \<times> stop_act) list \<Rightarrow> nat \<Rightarrow> RuntimeState \<Rightarrow> RuntimeState \<times> bool" where
  "stopping_at acts t s = fold apply_stop_act (map snd (filter (\<lambda>(at, _). at \<le> t) acts)) (s, True)"

subsection \<open>The start of the policy lane\<close>

definition COMMAND_SUBJECT :: string where
  "COMMAND_SUBJECT = ''cmd.vault.backup_policy.apply_requested.v1''"

datatype AckPolicy = AckExplicit | AckOther

text \<open>The configuration of the durable as the broker reports it; times in seconds.\<close>

record durable_info =
  du_filter_subject :: string
  du_ack_policy :: AckPolicy
  du_ack_wait :: nat
  du_max_deliver :: int

definition ACK_WAIT :: nat where
  "ACK_WAIT = 30"

definition consumer_verified :: "durable_info option \<Rightarrow> (LaneError, durable_info) result" where
  "consumer_verified found =
     (case found of
        None \<Rightarrow> Inl Durable
      | Some config \<Rightarrow>
          if du_filter_subject config = COMMAND_SUBJECT \<and> du_ack_policy config = AckExplicit \<and> du_ack_wait config = ACK_WAIT
             \<and> du_max_deliver config = - 1
          then Inr config else Inl Durable)"

text \<open>
  The broker as the start sees it: whether the seed file can be read and the client connects, the durable, and
  whether the connection drops before the start is over.
\<close>

record lane_world =
  lw_seed_readable :: bool
  lw_connects :: bool
  lw_durable :: "durable_info option"
  lw_dropped_early :: bool

definition bus_connect :: "BusConfig \<Rightarrow> lane_world \<Rightarrow> RuntimeState \<Rightarrow> RuntimeState \<times> (LaneError, unit) result" where
  "bus_connect b lw s =
     (if bc_nkey_seed_path b \<noteq> None \<and> \<not> lw_seed_readable lw then (s, Inl Seed)
      else if \<not> lw_connects lw then (s, Inl Connect)
      else ((if lw_dropped_early lw then set_bus_connected False s else s), Inr ()))"

definition lane_start :: "BusConfig \<Rightarrow> lane_world \<Rightarrow> RuntimeState \<Rightarrow> RuntimeState \<times> (LaneError, nat) result" where
  "lane_start b lw s =
     (case bus_connect b lw s of
        (s1, Inl e) \<Rightarrow> (s1, Inl e)
      | (s1, Inr _) \<Rightarrow>
          (case consumer_verified (lw_durable lw) of
             Inl e \<Rightarrow> (s1, Inl e)
           | Inr _ \<Rightarrow> (set_bus_publish_healthy True (set_bus_connected True s1), Inr 2)))"

text \<open>\<open>supervised\<close>: a lane task has no orderly end.\<close>

definition supervised :: "(LaneError, unit) result \<Rightarrow> RuntimeState \<Rightarrow> RuntimeState" where
  "supervised outcome s = set_bus_connected False s"

subsection \<open>The consumer\<close>

datatype bus_event =
    ConnectionLost
  | StreamEnded
  | StreamFailed
  | Delivered string bool

datatype AckKind = KindAck | KindTerm | KindNak nat

fun settle :: "Disposition \<Rightarrow> AckKind" where
  "settle Ack = KindAck"
| "settle Term = KindTerm"
| "settle Nak = KindNak 2"

text \<open>
  The loop over what the broker does, until it ends the loop or nothing more happens. A delivery carries
  whether the broker takes the settlement. The result lists the settlements sent.
\<close>

fun consumer_run ::
  "store_env \<Rightarrow> contract_env \<Rightarrow> (vault_db \<Rightarrow> timestamp) \<Rightarrow> bus_event list \<Rightarrow> vault_db
     \<Rightarrow> vault_db \<times> (string \<times> AckKind) list \<times> LaneError option" where
  "consumer_run env con clock [] db = (db, [], None)"
| "consumer_run env con clock (ConnectionLost # events) db = (db, [], Some BusLost)"
| "consumer_run env con clock (StreamEnded # events) db = (db, [], Some BusLost)"
| "consumer_run env con clock (StreamFailed # events) db = (db, [], Some BusLost)"
| "consumer_run env con clock (Delivered payload taken # events) db =
     (case handle_command env con clock db payload of
        (db1, disposition) \<Rightarrow>
          if \<not> taken then (db1, [(payload, settle disposition)], Some BusLost)
          else (case consumer_run env con clock events db1 of
                  (db2, sent, stop) \<Rightarrow> (db2, (payload, settle disposition) # sent, stop)))"

subsection \<open>The process\<close>

datatype process_event =
    Reported string
  | TelemetryFailed
  | TelemetryUp
  | RoutesRefused
  | Probed bool
  | BindFailed
  | Bound
  | StartupComplete
  | Stopping StopReason
  | Drained ShutdownOutcome
  | ProberAborted
  | TasksAborted nat
  | PoolClosed
  | TelemetryFlushed

text \<open>What the operating system and the dependencies answer; \<open>later\<close> are the reports of prober and lane while serving.\<close>

record process_world =
  pw_extracted :: "(FigmentError list, VaultConfig) result"
  pw_telemetry :: bool
  pw_database_connects :: bool
  pw_schema_applies :: bool
  pw_lane :: lane_world
  pw_first_ping :: bool
  pw_binds :: bool
  pw_stop :: StopReason
  pw_stop_world :: stop_world

definition build_routes :: "VaultConfig \<Rightarrow> process_world \<Rightarrow> RuntimeState \<Rightarrow> RuntimeState \<times> (unit, bool \<times> nat) result" where
  "build_routes c pw s =
     (if cf_database c \<noteq> None \<and> \<not> (pw_database_connects pw \<and> pw_schema_applies pw) then (s, Inl ())
      else case (cf_bus c, cf_database c) of
             (Some b, Some _) \<Rightarrow>
               (case lane_start b (pw_lane pw) s of
                  (s1, Inl _) \<Rightarrow> (s1, Inl ())
                | (s1, Inr n) \<Rightarrow> (s1, Inr (True, n)))
           | (_, d) \<Rightarrow> (s, Inr (d \<noteq> None, 0)))"

definition EXIT_SUCCESS :: u8 where
  "EXIT_SUCCESS = 0"

definition EXIT_FAILURE :: u8 where
  "EXIT_FAILURE = 1"

text \<open>\<open>rendered\<close> is the derived debug output, in which secrets are redacted.\<close>

definition check_config :: "config_env \<Rightarrow> (VaultConfig \<Rightarrow> string) \<Rightarrow> (FigmentError list, VaultConfig) result \<Rightarrow> string \<times> u8" where
  "check_config env rendered extracted =
     (case load_from env extracted of
        Inr c \<Rightarrow> (''ratatoskr-vault: configuration is valid.'' @ [CHR 0x0A] @ rendered c @ [CHR 0x0A], EXIT_SUCCESS)
      | Inl e \<Rightarrow> (report env e @ [CHR 0x0A], config_exit_code e))"

text \<open>From the bound listener to the exit; \<open>later\<close> changes the facts while the process serves.\<close>

definition serve_and_stop ::
  "VaultConfig \<Rightarrow> process_world \<Rightarrow> (RuntimeState \<Rightarrow> RuntimeState) \<Rightarrow> bool \<Rightarrow> nat \<Rightarrow> RuntimeState
     \<Rightarrow> process_event list \<times> RuntimeState \<times> u8" where
  "serve_and_stop c pw later has_database tasks s =
     (case drain_and_close (cf_shutdown c) (pw_stop_world pw) of
        (acts, outcome, elapsed) \<Rightarrow>
          ([StartupComplete, Stopping (pw_stop pw), Drained outcome] @ (if has_database then [ProberAborted] else [])
             @ [TasksAborted tasks] @ (if has_database then [PoolClosed] else []) @ [TelemetryFlushed],
           fst (stopping_at acts elapsed (later (mark_startup_complete s))),
           if pw_stop pw = TaskExited then EXIT_FAILURE else EXIT_SUCCESS))"

definition process_run ::
  "config_env \<Rightarrow> process_world \<Rightarrow> (RuntimeState \<Rightarrow> RuntimeState) \<Rightarrow> process_event list \<times> RuntimeState \<times> u8" where
  "process_run env pw later =
     (case load_from env (pw_extracted pw) of
        Inl e \<Rightarrow> ([Reported (report env e)], RuntimeState_new, config_exit_code e)
      | Inr c \<Rightarrow>
          if \<not> pw_telemetry pw then ([TelemetryFailed], RuntimeState_new, EXIT_FAILURE)
          else
            (case build_routes c pw RuntimeState_new of
               (s1, Inl _) \<Rightarrow> ([TelemetryUp, RoutesRefused], s1, EXIT_FAILURE)
             | (s1, Inr (has_database, tasks)) \<Rightarrow>
                 let (probed, s2) = (if has_database then ([Probed (pw_first_ping pw)], set_database_reachable (pw_first_ping pw) s1)
                                     else ([], s1))
                 in if \<not> pw_binds pw then ([TelemetryUp] @ probed @ [BindFailed], s2, EXIT_FAILURE)
                    else (case serve_and_stop c pw later has_database tasks s2 of
                            (events, s3, code) \<Rightarrow> ([TelemetryUp] @ probed @ [Bound] @ events, s3, code))))"

subsection \<open>Readiness tells the truth\<close>

datatype runtime_call = CallStartup | CallDatabase bool | CallBus bool | CallPublish bool | CallDrain

fun apply_call :: "runtime_call \<Rightarrow> RuntimeState \<Rightarrow> RuntimeState" where
  "apply_call CallStartup s = mark_startup_complete s"
| "apply_call (CallDatabase reachable) s = set_database_reachable reachable s"
| "apply_call (CallBus connected) s = set_bus_connected connected s"
| "apply_call (CallPublish healthy) s = set_bus_publish_healthy healthy s"
| "apply_call CallDrain s = begin_draining s"

definition runtime_after :: "runtime_call list \<Rightarrow> RuntimeState" where
  "runtime_after calls = fold apply_call calls RuntimeState_new"

fun database_report :: "runtime_call \<Rightarrow> bool option" where
  "database_report (CallDatabase reachable) = Some reachable"
| "database_report _ = None"

fun bus_report :: "runtime_call \<Rightarrow> bool option" where
  "bus_report (CallBus connected) = Some connected"
| "bus_report _ = None"

fun publish_report :: "runtime_call \<Rightarrow> bool option" where
  "publish_report (CallPublish healthy) = Some healthy"
| "publish_report _ = None"

text \<open>The last report of a kind in a history, if there is one.\<close>

definition last_report :: "(runtime_call \<Rightarrow> bool option) \<Rightarrow> runtime_call list \<Rightarrow> bool option" where
  "last_report f calls = fold (\<lambda>c acc. case f c of None \<Rightarrow> acc | Some b \<Rightarrow> Some b) calls None"

lemma apply_call_facts:
  "rs_startup_complete (apply_call c s) \<longleftrightarrow> c = CallStartup \<or> rs_startup_complete s"
  "rs_draining (apply_call c s) \<longleftrightarrow> c = CallDrain \<or> rs_draining s"
  "database_reachable (apply_call c s) = (case database_report c of None \<Rightarrow> database_reachable s | Some b \<Rightarrow> Some b)"
  "bus_connected (apply_call c s) = (case bus_report c of None \<Rightarrow> bus_connected s | Some b \<Rightarrow> Some b)"
  "bus_publish_healthy (apply_call c s) = (case publish_report c of None \<Rightarrow> bus_publish_healthy s | Some b \<Rightarrow> Some b)"
  by (cases c; simp add: mark_startup_complete_def set_database_reachable_def set_bus_connected_def set_bus_publish_healthy_def
      begin_draining_def database_reachable_def bus_connected_def bus_publish_healthy_def probe_states)+

lemma runtime_after_snoc: "runtime_after (calls @ [c]) = apply_call c (runtime_after calls)"
  by (simp add: runtime_after_def)

lemma last_report_snoc: "last_report f (calls @ [c]) = (case f c of None \<Rightarrow> last_report f calls | Some b \<Rightarrow> Some b)"
  by (simp add: last_report_def split: option.splits)

lemma runtime_new_facts:
  "\<not> rs_startup_complete RuntimeState_new" "\<not> rs_draining RuntimeState_new" "database_reachable RuntimeState_new = None"
  "bus_connected RuntimeState_new = None" "bus_publish_healthy RuntimeState_new = None"
  by (simp_all add: RuntimeState_new_def database_reachable_def bus_connected_def bus_publish_healthy_def)

lemma runtime_after_facts:
  "rs_startup_complete (runtime_after calls) \<longleftrightarrow> CallStartup \<in> set calls"
  "rs_draining (runtime_after calls) \<longleftrightarrow> CallDrain \<in> set calls"
  "database_reachable (runtime_after calls) = last_report database_report calls"
  "bus_connected (runtime_after calls) = last_report bus_report calls"
  "bus_publish_healthy (runtime_after calls) = last_report publish_report calls"
  by (induction calls rule: rev_induct)
    (auto simp: runtime_after_snoc last_report_snoc apply_call_facts runtime_new_facts runtime_after_def [of "[]"] last_report_def [of _ "[]"]
      split: option.splits)

lemma is_ready_iff:
  "is_ready s \<longleftrightarrow> rs_startup_complete s \<and> \<not> rs_draining s \<and> database_reachable s \<noteq> Some False
     \<and> bus_connected s \<noteq> Some False \<and> bus_publish_healthy s \<noteq> Some False"
  by (auto simp: is_ready_def checks_def insert_reported_def check_of_def CheckState_from_pass_def split: option.splits if_splits)

lemma checks_ordered: "sorted_wrt (<) (map ck_name (checks s))"
  by (auto simp: checks_def insert_reported_def check_of_def less_CheckName_def split: option.splits)

text \<open>
  C30. Readiness tells the truth about the whole history: whatever order the start, the prober, the lane, the relay
  and the shutdown report in, the process answers 200 exactly when its start was completed, no shutdown began,
  and the last report about the database, the bus and the publisher, of those that were ever made, is good;
  so a drained process is never ready again. The body lists each check once, in the order of the names.
\<close>

theorem readiness_is_truthful:
  "(rd_status (ready_answer (runtime_after calls)) = 200 \<longleftrightarrow>
      CallStartup \<in> set calls \<and> CallDrain \<notin> set calls \<and> last_report database_report calls \<noteq> Some False
      \<and> last_report bus_report calls \<noteq> Some False \<and> last_report publish_report calls \<noteq> Some False)
   \<and> sorted_wrt (<) (map ck_name (rd_checks (ready_answer (runtime_after calls))))"
  by (simp add: ready_answer_def is_ready_iff runtime_after_facts checks_ordered)

subsection \<open>The stop is bounded\<close>

lemma grace_window_bound: "snd (grace_window sw window) \<le> window"
  by (simp add: grace_window_def split: option.splits)

lemma interrupt_wins_time: "interrupt_wins sw k limit \<Longrightarrow> \<exists>t. sw_interrupt_at sw = Some t \<and> t \<le> limit"
  by (auto simp: interrupt_wins_def split: option.splits)

text \<open>The three ways through the sequence.\<close>

lemma drain_and_close_cases:
  fixes config sw
  defines "drained \<equiv> unat (sc_drain_seconds config) * 1000" and "window \<equiv> unat (sc_grace_seconds config) * 1000"
  assumes "drain_and_close config sw = (acts, outcome, elapsed)"
  obtains (early) t where "sw_interrupt_at sw = Some t" "t \<le> drained" "elapsed = t"
      "acts = [(0, DrainingBegun), (t, AcceptStopped), (t, ServersAborted)]"
      "outcome = \<lparr> so_graceful = False, so_interrupted = True \<rparr>"
  | (cut_short) t taken where "sw_interrupt_at sw = Some t" "drained \<le> t" "t \<le> drained + taken" "taken \<le> window" "elapsed = t"
      "acts = [(0, DrainingBegun), (drained, AcceptStopped), (t, ServersAborted)]"
      "outcome = \<lparr> so_graceful = False, so_interrupted = True \<rparr>"
  | (whole) closed taken where "\<And>t. sw_interrupt_at sw = Some t \<Longrightarrow> drained + taken \<le> t" "taken \<le> window"
      "grace_window sw window = (closed, taken)" "elapsed = drained + taken"
      "acts = [(0, DrainingBegun), (drained, AcceptStopped)]"
      "outcome = \<lparr> so_graceful = closed, so_interrupted = False \<rparr>"
proof -
  obtain closed taken where window: "grace_window sw window = (closed, taken)" by fastforce
  have taken: "taken \<le> window" using grace_window_bound [of sw window] window by simp
  consider "interrupt_wins sw 0 drained" | "\<not> interrupt_wins sw 0 drained" "interrupt_wins sw 1 (drained + taken)"
    | "\<not> interrupt_wins sw 0 drained" "\<not> interrupt_wins sw 1 (drained + taken)" by blast
  then show thesis
  proof cases
    case 1
    with interrupt_wins_time [OF 1] assms(3) show thesis
      by (auto simp: drain_and_close_def Let_def drained_def window_def intro: early [unfolded drained_def])
  next
    case 2
    then obtain t where t: "sw_interrupt_at sw = Some t" "t \<le> drained + taken" "drained \<le> t"
      using interrupt_wins_time [OF 2(2)] by (auto simp: interrupt_wins_def)
    show thesis
      by (rule cut_short [OF t(1,3,2) taken])
        (use assms(3) 2 t(1) window in \<open>auto simp: drain_and_close_def Let_def drained_def window_def\<close>)
  next
    case 3
    have late: "drained + taken \<le> t" if "sw_interrupt_at sw = Some t" for t
      using 3(2) that by (auto simp: interrupt_wins_def)
    show thesis
      by (rule whole [OF late taken window])
        (use assms(3) 3 window in \<open>auto simp: drain_and_close_def Let_def drained_def window_def\<close>)
  qed
qed

lemma stopping_is_draining:
  assumes "drain_and_close config sw = (acts, outcome, elapsed)"
  shows "rs_draining (fst (stopping_at acts t s))"
  using assms by (cases rule: drain_and_close_cases) (auto simp: stopping_at_def begin_draining_def)



subsection \<open>Exit codes\<close>

text \<open>
  The exit code tells what happened: 78 exactly for a refused configuration, and then the report is all that was
  done; 0 exactly for a process that completed its start and was stopped by a signal. A process that completed
  its start had bound its listener before, drained before it closed its pool, and ends not ready.
\<close>

lemma serve_and_stop_shape:
  assumes "serve_and_stop c pw later has_database tasks s = (events, s', code)"
  shows "\<not> is_ready s'" "code = (if pw_stop pw = TaskExited then EXIT_FAILURE else EXIT_SUCCESS)"
    "\<exists>outcome after. events = [StartupComplete, Stopping (pw_stop pw), Drained outcome] @ after"
  using assms stopping_is_draining
  by (auto simp: serve_and_stop_def is_ready_iff split: prod.splits if_splits)

lemma process_run_started:
  assumes "process_run env pw later = (events, s, code)" and "StartupComplete \<in> set events"
  obtains before c has_database tasks s1 served where "events = before @ Bound # served" "PoolClosed \<notin> set before"
    "serve_and_stop c pw later has_database tasks s1 = (served, s, code)"
  using assms
  by (auto simp: process_run_def Let_def split: sum.splits prod.splits if_splits) (metis append_Cons append_Nil list.distinct(1) list.set_cases set_ConsD process_event.distinct)+

theorem process_exit_codes:
  assumes "process_run env pw later = (events, s, code)"
  shows "(code = 78 \<longleftrightarrow> \<not> is_ok (load_from env (pw_extracted pw)))
    \<and> (code = 0 \<longleftrightarrow> StartupComplete \<in> set events \<and> pw_stop pw = Signal)
    \<and> (StartupComplete \<in> set events \<longrightarrow> \<not> is_ready s
        \<and> (\<exists>before outcome after. events = before @ [Bound, StartupComplete, Stopping (pw_stop pw), Drained outcome] @ after
             \<and> PoolClosed \<notin> set before))"
proof -
  have refused: "is_ok (load_from env (pw_extracted pw)) \<longleftrightarrow> code \<noteq> 78"
    using assms
    by (auto simp: process_run_def serve_and_stop_def config_exit_code_def EXIT_SUCCESS_def EXIT_FAILURE_def Let_def
        split: sum.splits prod.splits if_splits)
  have started: "pw_stop pw = Signal" "StartupComplete \<in> set events" if "code = 0"
    using assms that
    by (auto simp: process_run_def serve_and_stop_def config_exit_code_def EXIT_SUCCESS_def EXIT_FAILURE_def Let_def
        split: sum.splits prod.splits if_splits) (metis StopReason.exhaust)+
  have served: "\<not> is_ready s \<and> (pw_stop pw = Signal \<longrightarrow> code = 0)
      \<and> (\<exists>before outcome after. events = before @ [Bound, StartupComplete, Stopping (pw_stop pw), Drained outcome] @ after
             \<and> PoolClosed \<notin> set before)" if "StartupComplete \<in> set events"
  proof -
    from assms that obtain before c has_database tasks s1 served where run: "events = before @ Bound # served" "PoolClosed \<notin> set before"
      "serve_and_stop c pw later has_database tasks s1 = (served, s, code)" by (rule process_run_started)
    from serve_and_stop_shape [OF run(3)] run(1,2) show ?thesis by (auto simp: EXIT_SUCCESS_def)
  qed
  show ?thesis using refused started served by blast
qed

subsection \<open>A graceful stop\<close>



end
