(* ===== verification/Spec2Isabelle.thy ===== *)
theory Spec2Isabelle
  imports
    Target_State Error_Taxonomy Delivery Planner Retention_Policy Snapshot_Manifest
    Vault_Store Store_Invariants Reconcile Policy_Lane Policy_Proofs Git_Runner Blob_Store
    Deletion_Store Deletion_Proofs Grace_Period Retention_Worker Replication_Store Replication_Worker
    Mirror_Store Snapshot_Store LFS_Collection Mirror_Lifecycle Civil_Calendar Snapshot_Lifecycle
    Restore_Store Restore_Verification Wiki_Coordinator Configuration Process_Lifecycle
begin

text \<open>
  A verification library of Vault, the service that keeps mirrors, snapshots and off-host copies of Git
  repositories. Paths below are relative to \<open>src/\<close>.

  \<^bold>\<open>The program.\<close> A desired state arrives as deliveries, or as policy documents over a message bus; it is
  validated, recorded in an inbox and a table of revisions, and compared with what exists. Targets move
  through a closed state machine. A mirror lifecycle clones or fetches one bare repository under a byte quota
  and checks it; a snapshot lifecycle bundles a healthy mirror into content-addressed blobs under a signed
  manifest; LFS objects and wikis are collected beside it. Workers replicate the blobs off the host, verify
  them, restore them in isolation, and delete snapshots whose retention is over. Every worker keeps its state
  in the tables of \<open>schema.sql\<close>; one transaction commits at a time, and the other workers act between two
  transactions of one worker.

  \<^bold>\<open>The model.\<close> The database is the record \<open>vault_db\<close> of \<^theory_text>\<open>Vault_Store\<close>, one list of rows per table; a
  transaction is a function into \<open>VaultError + vault_db\<close> that checks what the schema checks (unique keys,
  foreign keys, check constraints, triggers). File systems are maps from paths to nodes. What a child process
  prints, when the clock is read, what a remote store or a library (hash, signatures, serialisation, URL and
  filter parsers) answers are arguments of the definitions; a theorem that relies on documented behaviour of
  one of them names it as a hypothesis. Machine integers are words where the code computes with them.
  Loops are structural or have a termination proof; the two loops that run as long as the process does (relay
  and consumer) are modelled by one pass. The only fuel is \<open>budget\<close> of \<open>chain_loop\<close>, which is the code's own
  depth bound.

  \<^bold>\<open>Theories and sources.\<close>
  \<^item> \<^theory_text>\<open>Vault_Prelude\<close>: words, saturating arithmetic, text, results, and the locales of the interfaces
    (\<open>stable_names\<close>, \<open>closed_vocabulary\<close>, \<open>gated_machine\<close>, \<open>idempotent_consumer\<close>).
  \<^item> \<^theory_text>\<open>Target_State\<close>, \<^theory_text>\<open>Error_Taxonomy\<close>, \<^theory_text>\<open>Delivery\<close>, \<^theory_text>\<open>Planner\<close>, \<^theory_text>\<open>Retention_Policy\<close>, \<^theory_text>\<open>Snapshot_Manifest\<close>:
    the pure core, \<open>crates/core/src\<close>: \<open>target_state.rs\<close>, \<open>error.rs\<close>, \<open>collectors.rs\<close>, \<open>mirror.rs\<close>, \<open>delivery.rs\<close>,
    \<open>planner.rs\<close>, \<open>retention.rs\<close>, \<open>snapshot.rs\<close>. The guard of the schema agrees with the table of the code, a
    protected snapshot is never eligible, pressure leaves the newest restorable window, what is signed verifies, a
    chain is accepted exactly when it is authentic, short and without repetition.
  \<^item> \<^theory_text>\<open>Configuration\<close>: \<open>crates/core/src/config\<close>; \<^theory_text>\<open>Process_Lifecycle\<close>: \<open>crates/http/src\<close>, \<open>services/vault/src/main.rs\<close> and
    the start and consumer of \<open>policy_bus\<close>. A configuration that loads keeps the drills' scratch apart
    from the live storage, holds keys that decode to what was configured and bounds the stop; a refusal names
    every broken rule and no value; readiness tells the truth about every history of reports, and the stop
    sequence, a list of acts with their times, fails it from the instant of the signal. The worker settings the
    configuration names are not built from it by any code of the repository, and nothing is claimed of that.
  \<^item> \<^theory_text>\<open>Vault_Store\<close>, \<^theory_text>\<open>Store_Invariants\<close>: \<open>crates/persistence/src/lib.rs\<close>. Well-formedness is kept, a
    redelivery changes nothing. \<^theory_text>\<open>Grace_Period\<close> follows the tombstone of an excluded target through the later
    transactions: deletion cannot begin before its deadline.
  \<^item> \<^theory_text>\<open>Reconcile\<close>: \<open>services/vault/src/reconcile.rs\<close>; \<^theory_text>\<open>Policy_Lane\<close>, \<^theory_text>\<open>Policy_Proofs\<close>: \<open>policy_feed.rs\<close>,
    \<open>persistence/src/policy_lane.rs\<close>, \<open>outbox_relay.rs\<close> and \<open>services/vault/src/policy_bus\<close> (handler, relay). A
    cycle is idempotent, a crash before recording is invisible, a command is decided once.
  \<^item> \<^theory_text>\<open>Git_Runner\<close>: \<open>crates/gitrunner/src\<close>; \<^theory_text>\<open>Blob_Store\<close>: \<open>crates/blobstore/src\<close>. Confined paths stay inside,
    no secret that is free of brackets and no fragment of the marker's word occurs in redacted output (the
    limits of the replacement are stated beside the theorem), a published blob verifies from then on, a
    download leaves the verified bytes, or the file system as it was; a partial file stays behind only when
    its deadline passes or its removal fails.
  \<^item> \<^theory_text>\<open>Mirror_Store\<close>, \<^theory_text>\<open>Mirror_Lifecycle\<close>, \<^theory_text>\<open>LFS_Collection\<close>, \<^theory_text>\<open>Wiki_Coordinator\<close>:
    \<open>services/vault/src/mirror_lifecycle.rs\<close>, \<open>lfs_collection.rs\<close>, \<open>wiki.rs\<close> with their parts of
    \<open>crates/persistence\<close> and \<open>crates/gitrunner\<close>. The quota is never exceeded, a run settles its reservation
    however it ends, a mirror becomes ready only after all its checks, an LFS collection holds the bytes of
    exactly the objects the tool listed, a wiki discovery fails closed.
  \<^item> \<^theory_text>\<open>Snapshot_Store\<close>, \<^theory_text>\<open>Civil_Calendar\<close>, \<^theory_text>\<open>Snapshot_Lifecycle\<close>: \<open>services/vault/src/snapshot_lifecycle.rs\<close> and
    \<open>crates/persistence/src/snapshot.rs\<close>. A recorded snapshot is whole and has its bytes, lineages end, the
    calendar of its timestamp is the Gregorian one.
  \<^item> \<^theory_text>\<open>Restore_Store\<close>, \<^theory_text>\<open>Restore_Verification\<close>: \<open>services/vault/src/restore_verification.rs\<close> with its modules and
    \<open>crates/persistence/src/restore_verification.rs\<close>. A verification passes exactly when all evidence stands, a
    passed drill rebuilt the snapshot, the schedule is bounded and loses no candidate.
  \<^item> \<^theory_text>\<open>Replication_Store\<close>, \<^theory_text>\<open>Replication_Worker\<close>: \<open>services/vault/src/replication.rs\<close> and
    \<open>crates/persistence/src/replication.rs\<close>. Placements are verified, an interrupted transfer is recoverable.
  \<^item> \<^theory_text>\<open>Deletion_Store\<close>, \<^theory_text>\<open>Deletion_Proofs\<close>, \<^theory_text>\<open>Retention_Worker\<close>: \<open>crates/persistence/src/retention\<close>,
    \<open>retention_execution.rs\<close> and \<open>services/vault/src/retention.rs\<close>. \<open>store_step\<close> is what any transaction of any worker may do
    to the tables, the policy lane's included. Plans refine a life cycle, work on one object is exclusive, a run
    removes only what is due and not shared, on this host and on the replicas, and a completed one leaves no
    bytes here.
  \<^item> This theory: the interplay of replication and deletion, and of the snapshot lifecycle and the
    verifier.

  \<^bold>\<open>Claims\<close> are marked C1, C2 and so on in the text before their theorem; a theorem with hypotheses has a
  witness that applies it to concrete data.

  \<^bold>\<open>Not modelled.\<close> Listeners, signal handlers and the metrics and version pages (\<open>crates/http\<close>), the client of
  the broker, metrics and logging (\<open>crates/telemetry\<close>): input and output around the modelled core, with no
  state it reads. The readiness gauge is not represented: it is set after each report from a separate
  reading and may lag under concurrent reports. Within modelled parts: the connection pool and the application
  of the schema, the construction of the object-store client, process groups and the killing of children, the
  semaphores that bound concurrency, the paged audit reads, the removal of a drill's scratch directory. Test
  support is left out.
\<close>

section \<open>The policy lane as a client of the store\<close>

text \<open>The transaction that records a policy decision is one of the steps the journal theorems quantify over.\<close>

lemma policy_decision_step:
  assumes "record_policy_decision now db decision = Inr (recorded, db')"
  shows "store_step env db db'"
  by (rule store_step_evidence)
    (use assms in \<open>auto simp: record_policy_decision_def split: option.splits if_splits\<close>)

section \<open>A transfer and a deletion of one snapshot\<close>

definition race_observed :: vault_db where
  "race_observed = result_db (snd example_planned) (observe_replica_target 1000 (snd example_planned) example_observation)"

definition race_attempt :: "uuid \<times> vault_db" where
  "race_attempt =
     (case claim_replication_attempt example_env 2999999 2999999 race_observed 70 90 8 60 of Inr r \<Rightarrow> r | Inl _ \<Rightarrow> (0, empty_db))"

definition race_deleted :: "world \<times> RetentionPlanOutcome" where
  "race_deleted = run_plan example_worker example_plan_id (Retention_Worker.example_world\<lparr>w_db := snd race_attempt\<rparr>)"

definition race_recorded :: "vault_db \<times> (VaultError, StoredReplicaPlacement) result" where
  "race_recorded =
     record_verified_replica example_env 3000001 (w_db (fst race_deleted)) (fst race_attempt) 8 example_key example_ref"

text \<open>
  The deletion of a snapshot does not wait for a transfer that is already running. Here the transfer is
  claimed while the plan waits, the plan then runs to completion, and the transfer still records its
  placement afterwards: the journal shows the plan finished and the snapshot deleted, and yet a copy of
  its artifact stays at the replica, of which no open plan knows.
\<close>

theorem transfer_outlives_deletion:
  "claim_replication_attempt example_env 2999999 2999999 race_observed 70 90 8 60 = Inr race_attempt
   \<and> snd race_deleted = Completed
   \<and> is_ok (snd race_recorded)
   \<and> plan_journal (fst race_recorded) example_plan_id = Some Finished
   \<and> map (\<lambda>rp. (rp_artifact rp, rp_replica_target rp)) (placements (fst race_recorded)) = [(70, 90)]"
proof (intro conjI)
  show "claim_replication_attempt example_env 2999999 2999999 race_observed 70 90 8 60 = Inr race_attempt" by code_simp
  show "snd race_deleted = Completed" by code_simp
  show "is_ok (snd race_recorded)" by code_simp
  show "plan_journal (fst race_recorded) example_plan_id = Some Finished" by code_simp
  show "map (\<lambda>rp. (rp_artifact rp, rp_replica_target rp)) (placements (fst race_recorded)) = [(70, 90)]" by code_simp
qed

section \<open>A recorded snapshot verifies\<close>

text \<open>The verifier runs on the hash, the key pairs and the serialisation the snapshot was made with.\<close>

definition same_libraries :: "'k snapshot_env \<Rightarrow> 'k restore_env \<Rightarrow> bool" where
  "same_libraries env renv \<longleftrightarrow>
     re_crypto renv = sv_crypto env \<and> re_hash renv = sv_hash env \<and> re_chunks_of renv = sv_chunks_of env
     \<and> re_unsigned_vec renv = sv_unsigned_vec env"

lemma encode_hex_inject: "encode_hex xs = encode_hex ys \<Longrightarrow> xs = ys"
  by (metis decode_pairs_encode option.inject)

lemma held_manifest_loads:
  assumes "blob_holds (re_hash renv) store fs r" and "blobs_sized fs" and "chunking (re_chunks_of renv)"
    and "sha256 r = encode_hex (re_hash renv payload)" and "re_from_slice renv payload = Some m"
    and "\<And>path bytes. fs path = Some (BlobFile bytes) \<Longrightarrow> re_hash renv bytes = re_hash renv payload \<Longrightarrow> bytes = payload"
  shows "verifier_load_manifest renv store fs r = Inr m"
proof -
  from assms(1) obtain path bytes where stored: "path_for store r = Inr path" "fs path = Some (BlobFile bytes)"
    "encode_hex (re_hash renv bytes) = sha256 r" by (auto simp: blob_holds_def)
  with assms(4) have "re_hash renv bytes = re_hash renv payload" by (simp add: encode_hex_inject)
  with assms(6) stored(2) have "bytes = payload" by blast
  moreover have "blob_verify renv store fs r = Inr ()"
    unfolding blob_verify_def by (rule blob_holds_verifies [OF assms(1-3)])
  moreover have "resolve store r fs = Inr path"
    using calculation(2) stored by (auto simp: blob_verify_def verify_def resolve_def split: sum.splits if_splits)
  ultimately show ?thesis
    using assms(5) stored(2) by (simp add: verifier_load_manifest_def read_manifest_def)
qed

text \<open>
  C4. What the lifecycle records, the verifier accepts: when a snapshot was recorded and the other workers spared
  the blobs meanwhile, an artifact verification of its manifest passes, provided the signer's key is the one trusted
  under its identifier, the manifests of the older snapshots still form a trusted chain within the depth
  bound, its LFS objects are stored, the library reads back the manifest it wrote, and no stored file
  collides with the manifest under the hash.
\<close>

theorem recorded_snapshot_verifies:
  assumes made: "snapshot env settings store calls request mirror collected w = (w', Inr r)"
    and files: "readable_disk (sc_effect (calls 1) (sc_effect (calls 0) (mw_disk w)))" "chunking (sv_chunks_of env)"
    and others: "spares_blobs env store" and sized: "blobs_sized (mw_blobs w')"
    and crypto_sound: "\<And>k msg. verify_with (sv_crypto env) (public_of (sv_crypto env) k) msg (sign_with (sv_crypto env) k msg)"
    and same: "same_libraries env renv"
    and reads_back: "\<And>payload. sv_manifest_vec env (sr_evidence r) = Some payload \<Longrightarrow> re_from_slice renv payload = Some (sr_evidence r)"
    and no_collision: "\<And>path bytes payload. mw_blobs w' path = Some (BlobFile bytes) \<Longrightarrow> sv_manifest_vec env (sr_evidence r) = Some payload
        \<Longrightarrow> sv_hash env bytes = sv_hash env payload \<Longrightarrow> bytes = payload"
    and verifier: "av_store v = store"
      "find (\<lambda>key. key_id key = key_id (verification_key (sv_crypto env) (ss_manifest_signer settings))) (av_trusted_keys v)
         = Some (verification_key (sv_crypto env) (ss_manifest_signer settings))"
    and lineage: "case parent_manifest (sr_evidence r) of
        None \<Rightarrow> ancestors = []
      | Some p \<Rightarrow> \<exists>rest. ancestors = p # rest \<and> authentic_chain (accepted_parent (sv_crypto env) (sv_unsigned_vec env) (av_trusted_keys v)
            (verifier_load_manifest renv store (mw_blobs w'))) ancestors"
      "distinct (map sha256 (sr_manifest r # ancestors))" "length (sr_manifest r # ancestors) \<le> av_max_chain_depth v"
    and lfs_held: "case lfs (sr_evidence r) of
        None \<Rightarrow> True | Some l \<Rightarrow> list_all (\<lambda>obj. blob_holds (sv_hash env) store (mw_blobs w') (blob obj)) (objects l)"
  shows "vr_outcome (verifier_verify renv v (mw_blobs w') ident (sr_snapshot_id r) (sr_manifest r)) = ReportPassed"
proof -
  from made obtain run_id d blobs db2 and parent :: "SnapshotParent option" where built:
    "build_and_publish env settings store calls mirror run_id (map_option par_manifest parent) collected (mw_disk w, mw_blobs w)
       = ((d, blobs), Inr (sr_bundle r, sr_manifest r, sr_evidence r))"
    "sv_meanwhile env (advance (mw_db w), blobs) = (db2, mw_blobs w')"
    by (rule snapshot_ok) (rule that, assumption+)
  note libs = same [unfolded same_libraries_def]
  have held: "blob_holds (re_hash renv) store (mw_blobs w') (sr_bundle r)" "blob_holds (re_hash renv) store (mw_blobs w') (sr_manifest r)"
    using build_and_publish_ok(1,2) [OF built(1)] files others built(2) libs unfolding spares_blobs_def by (metis snd_conv fst_conv)+
  from build_and_publish_ok(3) [OF built(1)] files obtain parsed created payload where evidence:
    "SnapshotManifest_new (sv_crypto env) (sv_unsigned_vec env) (sv_pkg_version env) parsed [sr_bundle r] (map_option par_manifest parent)
       created collected (ss_manifest_signer settings) = Inr (sr_evidence r)"
    "sv_manifest_vec env (sr_evidence r) = Some payload" "sha256 (sr_manifest r) = encode_hex (sv_hash env payload)"
    by (auto simp: construction_evidence_def)
  have load: "verifier_load_manifest renv store (mw_blobs w') (sr_manifest r) = Inr (sr_evidence r)"
    using held(2) sized files(2) evidence(2,3) reads_back no_collision libs by (intro held_manifest_loads [where payload = payload]) auto
  have signed: "verify_signature (sv_crypto env) (sv_unsigned_vec env) (av_trusted_keys v) (sr_evidence r) = Inr ()"
    by (rule built_manifest_verifies [OF crypto_sound evidence(1) verifier(2)])
  let ?parents = "accepted_parent (sv_crypto env) (sv_unsigned_vec env) (av_trusted_keys v)
      (verifier_load_manifest renv store (mw_blobs w'))"
  have "?parents (sr_manifest r) = Some (parent_manifest (sr_evidence r))"
    using load signed by (simp add: accepted_parent_def)
  with lineage(1) have "authentic_chain ?parents (sr_manifest r # ancestors)" by (auto split: option.splits)
  with lineage(2,3) have chain: "is_ok (verify_manifest_chain (re_crypto renv) (re_unsigned_vec renv) (sr_manifest r) (av_trusted_keys v)
      (av_max_chain_depth v) (verifier_load_manifest renv (av_store v) (mw_blobs w')))"
    unfolding chain_ok_iff verifier(1) using libs by auto
  have verifies: "is_ok (blob_verify renv store (mw_blobs w') x)" if "blob_holds (re_hash renv) store (mw_blobs w') x" for x
    using blob_holds_verifies [OF that sized, of "re_chunks_of renv"] files(2) libs by (simp add: blob_verify_def)
  have "list_all (\<lambda>x. is_ok (blob_verify renv store (mw_blobs w') x)) (required_artifacts (sr_evidence r))"
    using verifies held(1) lfs_held libs manifest_fields(2) [OF evidence(1)]
    by (auto simp: required_artifacts_def list_all_iff split: option.splits)
  then show ?thesis
    using verifier_verify_loaded(1) [OF load [folded verifier(1)] chain] verifier(1) by simp
qed

definition example_snapshot_restore_env :: "u8 restore_env" where
  "example_snapshot_restore_env =
     \<lparr> re_crypto = sv_crypto example_snapshot_env, re_hash = sv_hash example_snapshot_env, re_chunks_of = sv_chunks_of example_snapshot_env,
       re_unsigned_vec = sv_unsigned_vec example_snapshot_env, re_from_slice = (\<lambda>_. Some (sr_evidence example_snapshot_result)),
       re_times = (\<lambda>_. 1), re_elapsed = 1 \<rparr>"

definition example_snapshot_verifier :: ArtifactVerifier where
  "example_snapshot_verifier =
     \<lparr> av_store = example_store, av_trusted_keys = [verification_key (sv_crypto example_snapshot_env) (ss_manifest_signer example_snapshot_settings)],
       av_max_chain_depth = 8 \<rparr>"

lemma publish_contents:
  assumes "fst (publish_file hash store r (Some src) fs) path = Some (BlobFile bytes)"
  shows "fs path = Some (BlobFile bytes) \<or> bytes = stream_bytes (src_chunks src)"
  using assms
  by (auto simp: publish_file_def stream_to_temporary_def split: sum.splits option.splits if_splits)

lemma example_blobs:
  assumes "mw_blobs example_snapshot_done path = Some (BlobFile bytes)"
  shows "bytes \<in> {[7, 8, 9], [1, 2, 3, 4]}"
proof -
  let ?env = example_snapshot_env
  obtain bundle_ref manifest_ref evidence where parts: "example_parts = (bundle_ref, manifest_ref, evidence)" by (metis prod.exhaust)
  have "store_file ?env example_store (Some example_bundle_node) ''application/vnd.git.bundle''
       ((\<lambda>_. None)(example_bundle_path := Some example_bundle_node), \<lambda>_. None)
       (\<lambda>b. publish_manifest ?env example_snapshot_settings example_store ''/w/snapshot-runs/id'' example_refs None None b)
     = (fst example_published_parts, Inr (bundle_ref, manifest_ref, evidence))"
    using example_parts_ok unfolding example_published_parts_def [symmetric] parts by (simp add: prod_eq_iff)
  then obtain bref blobs published where bundle_stored:
    "publish_file example_hash example_store bref (Some (source_of_node example_bundle_node)) (\<lambda>_. None) = (blobs, Inr published)"
    and rest: "publish_manifest ?env example_snapshot_settings example_store ''/w/snapshot-runs/id'' example_refs None None bref
       ((\<lambda>_. None)(example_bundle_path := Some example_bundle_node), blobs)
     = (fst example_published_parts, Inr (bundle_ref, manifest_ref, evidence))"
    by (rule store_file_ok) (auto simp: example_env_fields intro: that)
  from rest obtain evidence' payload where payload: "manifest_payload ?env evidence' = Inr payload"
    and written: "store_file ?env example_store (Some (written_file ?env payload)) ''application/json''
       ((\<lambda>_. None)(example_bundle_path := Some example_bundle_node, ''/w/snapshot-runs/id'' @ ''/snapshot-manifest.json'' \<mapsto> written_file ?env payload), blobs)
       (\<lambda>manifest_ref s1. (s1, Inr (bref, manifest_ref, evidence'))) = (fst example_published_parts, Inr (bundle_ref, manifest_ref, evidence))"
    unfolding publish_manifest_def by auto
  have payload_is: "payload = [1, 2, 3, 4]"
    using payload by (auto simp: manifest_payload_def example_snapshot_env_def mirror_env.defs split: if_splits)
  from written obtain mref published2 where
    "publish_file example_hash example_store mref (Some (source_of_node (written_file ?env payload))) blobs
       = (snd (fst example_published_parts), Inr published2)"
    by (rule store_file_ok) (clarsimp simp: example_env_fields, metis snd_conv that)
  with assms have "fst (publish_file example_hash example_store mref (Some (source_of_node (written_file ?env payload))) blobs) path
      = Some (BlobFile bytes)" by (simp add: example_snapshot_done_def)
  then have "blobs path = Some (BlobFile bytes) \<or> bytes = stream_bytes (src_chunks (source_of_node (written_file ?env payload)))"
    by (rule publish_contents)
  moreover have "stream_bytes (src_chunks (source_of_node (written_file ?env payload))) = payload"
    using written_file_source(2) [of ?env payload] chunking_singletons by (simp add: example_snapshot_env_def mirror_env.defs)
  moreover have "bytes = [7, 8, 9]" if "blobs path = Some (BlobFile bytes)"
  proof -
    have "fst (publish_file example_hash example_store bref (Some (source_of_node example_bundle_node)) (\<lambda>_. None)) path
        = Some (BlobFile bytes)" using that bundle_stored by simp
    from publish_contents [OF this] show ?thesis by (simp add: example_bundle_node_def stream_bytes_def)
  qed
  ultimately show ?thesis using payload_is by auto
qed

theorem recorded_snapshot_verifies_witness:
  "vr_outcome (verifier_verify example_snapshot_restore_env example_snapshot_verifier (mw_blobs example_snapshot_done) 7
     (sr_snapshot_id example_snapshot_result) (sr_manifest example_snapshot_result)) = ReportPassed"
proof (rule recorded_snapshot_verifies [where ancestors = "[]", OF example_snapshot_ok])
  show "readable_disk (sc_effect (example_snapshot_calls 1) (sc_effect (example_snapshot_calls 0) (mw_disk example_snapshot_world)))"
    by (auto simp: readable_disk_def example_snapshot_calls_def example_snapshot_world_def example_bundle_node_def
        readable_source_def readable_def)
  show "chunking (sv_chunks_of example_snapshot_env)"
    by (simp add: example_snapshot_env_def mirror_env.defs chunking_singletons)
  show "spares_blobs example_snapshot_env example_store" by (simp add: spares_blobs_def example_env_fields)
  show "blobs_sized (mw_blobs example_snapshot_done)" using example_blobs by (fastforce simp: blobs_sized_def)
  show "verify_with (sv_crypto example_snapshot_env) (public_of (sv_crypto example_snapshot_env) k) msg
      (sign_with (sv_crypto example_snapshot_env) k msg)" for k msg
    by (simp add: example_env_fields example_snapshot_crypto_def example_crypto_def)
  show "same_libraries example_snapshot_env example_snapshot_restore_env"
    by (simp add: same_libraries_def example_snapshot_restore_env_def)
  show "re_from_slice example_snapshot_restore_env payload = Some (sr_evidence example_snapshot_result)" for payload
    by (simp add: example_snapshot_restore_env_def)
  show "bytes = payload"
    if "mw_blobs example_snapshot_done path = Some (BlobFile bytes)" "sv_manifest_vec example_snapshot_env (sr_evidence example_snapshot_result) = Some payload"
      "sv_hash example_snapshot_env bytes = sv_hash example_snapshot_env payload" for path bytes payload
  proof -
    have "payload = [1, 2, 3, 4]" using that(2) by (simp add: example_snapshot_env_def mirror_env.defs)
    moreover have "example_hash [7, 8, 9] \<noteq> example_hash [1, 2, 3, 4]" by code_simp
    ultimately show ?thesis using example_blobs [OF that(1)] that(3) by (auto simp: example_env_fields)
  qed
  have "parent_manifest (snd (snd example_parts)) = None" "lfs (snd (snd example_parts)) = None" by code_simp+
  then have "parent_manifest (sr_evidence example_snapshot_result) = None" "lfs (sr_evidence example_snapshot_result) = None"
    by (simp_all add: example_snapshot_result_def)
  then show "case parent_manifest (sr_evidence example_snapshot_result) of
      None \<Rightarrow> [] = []
    | Some p \<Rightarrow> \<exists>rest. [] = p # rest \<and> authentic_chain (accepted_parent (sv_crypto example_snapshot_env) (sv_unsigned_vec example_snapshot_env)
          (av_trusted_keys example_snapshot_verifier) (verifier_load_manifest example_snapshot_restore_env example_store (mw_blobs example_snapshot_done))) []"
    "case lfs (sr_evidence example_snapshot_result) of
        None \<Rightarrow> True
      | Some l \<Rightarrow> list_all (\<lambda>obj. blob_holds (sv_hash example_snapshot_env) example_store (mw_blobs example_snapshot_done) (blob obj)) (objects l)"
    by simp_all
qed (simp_all add: example_snapshot_verifier_def)

end
